(* ===== verification/Go_Prelude.thy ===== *)
theory Go_Prelude
  imports Main "HOL-Library.Word" "HOL-Library.Multiset" "HOL-Library.Sublist" "HOL-Library.Code_Target_Nat"
begin

text \<open>
  The part of Go that every component model shares.

  \<^item> A pointer is an \<open>option\<close>, nil being \<open>None\<close>; dereferencing nil panics.
  \<^item> A function with effects is an action on the log of what the controller did to the
    outside world: the EC2 API calls it issued and the metrics it recorded, in order. An
    action ends in a value, in a panic, or (only where the source has a loop that nothing
    bounds) in \<open>NoFuel\<close>, when the given number of iterations did not suffice.
  \<^item> An error is a value of \<open>error\<close>; nil is \<open>None\<close>.
  \<^item> A Go \<open>int64\<close> is a 64-bit word, an \<open>int32\<close> a 32-bit word.
\<close>

named_theorems go_simps \<open>equations that run an action on a log\<close>
named_theorems go_extends \<open>actions only ever append to the log\<close>

subsection \<open>Errors\<close>

text \<open>
  The error values the controller creates or tells apart. \<open>APIError\<close> is an error of the AWS
  SDK for Go v2 (\<open>smithy.APIError\<close>: code and message), \<open>AwsErrV1\<close> one of the v1 SDK
  (\<open>awserr.Error\<close>), \<open>Wrapped\<close> an error that carries another (\<open>%w\<close>, \<open>OperationError\<close>).
  The others are values of the ACK runtime; \<open>NilRequeueNeeded\<close> is a nil pointer of the type
  \<open>*RequeueNeeded\<close> in an error, which is not a nil error.
\<close>

datatype error =
    APIError string string
  | AwsErrV1 string string
  | GoError string
  | Wrapped string error
  | NotFound
  | TerminalError error
  | Terminal
  | SecretTypeNotSupported
  | SecretNotFound
  | RequeueNeeded error
  | NilRequeueNeeded
  | RequeueNeededAfter "error option" nat
  | ReferenceError string "string list"

subsection \<open>Actions\<close>

datatype 'c event = Call 'c | Metric string string "error option"

type_synonym 'c log = "'c event list"

datatype 'a outcome = Ret 'a | Panic | NoFuel

type_synonym ('c, 'a) go = "'c log \<Rightarrow> 'a outcome \<times> 'c log"

definition ret :: "'a \<Rightarrow> ('c, 'a) go" where
  "ret x = (\<lambda>s. (Ret x, s))"

definition panic :: "('c, 'a) go" where
  "panic = (\<lambda>s. (Panic, s))"

definition noFuel :: "('c, 'a) go" where
  "noFuel = (\<lambda>s. (NoFuel, s))"

definition bind :: "('c, 'a) go \<Rightarrow> ('a \<Rightarrow> ('c, 'b) go) \<Rightarrow> ('c, 'b) go" where
  "bind m f = (\<lambda>s. case m s of
     (Ret x, t) \<Rightarrow> f x t
   | (Panic, t) \<Rightarrow> (Panic, t)
   | (NoFuel, t) \<Rightarrow> (NoFuel, t))"

text \<open>\<open>*p\<close>: dereferencing a nil pointer panics.\<close>

definition deref :: "'a option \<Rightarrow> ('c, 'a) go" where
  "deref p = (case p of None \<Rightarrow> panic | Some x \<Rightarrow> ret x)"

text \<open>
  One call of the EC2 client: the request enters the log, and the answer is whatever the
  outside world, a function of everything that happened before, gives.
\<close>

definition invoke :: "('i \<Rightarrow> 'c) \<Rightarrow> ('c log \<Rightarrow> 'i \<Rightarrow> 'r) \<Rightarrow> 'i \<Rightarrow> ('c, 'r) go" where
  "invoke c answer i = (\<lambda>s. (Ret (answer s i), s @ [Call (c i)]))"

definition recordAPICall :: "string \<Rightarrow> string \<Rightarrow> error option \<Rightarrow> ('c, unit) go" where
  "recordAPICall opType opID e = (\<lambda>s. (Ret (), s @ [Metric opType opID e]))"

text \<open>\<open>if err != nil { return r }\<close> followed by the rest of the function.\<close>

definition ifErr :: "error option \<Rightarrow> (error \<Rightarrow> ('c, 'a) go) \<Rightarrow> ('c, 'a) go \<Rightarrow> ('c, 'a) go" where
  "ifErr e onErr rest = (case e of Some x \<Rightarrow> onErr x | None \<Rightarrow> rest)"

text \<open>\<open>for _, x := range xs { if err := f(x); err != nil { return err } }\<close>\<close>

fun forErr :: "('a \<Rightarrow> ('c, error option) go) \<Rightarrow> 'a list \<Rightarrow> ('c, error option) go" where
  "forErr f [] = ret None"
| "forErr f (x # xs) = bind (f x) (\<lambda>e. ifErr e (\<lambda>e'. ret (Some e')) (forErr f xs))"

text \<open>The error of an SDK answer whose value is read only when there is none.\<close>

definition errOf :: "error + 'a \<Rightarrow> error option" where
  "errOf r = (case r of Inl e \<Rightarrow> Some e | Inr _ \<Rightarrow> None)"

text \<open>The calls of a log, without the metrics.\<close>

fun calls :: "'c log \<Rightarrow> 'c list" where
  "calls [] = []"
| "calls (Call c # s) = c # calls s"
| "calls (Metric _ _ _ # s) = calls s"

lemma calls_append [simp]: "calls (s @ t) = calls s @ calls t"
  by (induction s rule: calls.induct) auto

lemma run_simps [go_simps, simp]:
  "ret x s = (Ret x, s)"
  "panic s = (Panic, s)"
  "noFuel s = (NoFuel, s)"
  "invoke c answer i s = (Ret (answer s i), s @ [Call (c i)])"
  "recordAPICall ty op e s = (Ret (), s @ [Metric ty op e])"
  by (simp_all add: ret_def panic_def noFuel_def invoke_def recordAPICall_def)

lemma bind_run [go_simps]:
  "bind m f s = (case m s of (Ret x, t) \<Rightarrow> f x t | (Panic, t) \<Rightarrow> (Panic, t) | (NoFuel, t) \<Rightarrow> (NoFuel, t))"
  by (simp add: bind_def)

lemma bind_simps [simp]:
  "bind (ret x) f = f x"
  "bind panic f = panic"
  "bind noFuel f = noFuel"
  by (simp_all add: bind_def ret_def panic_def noFuel_def fun_eq_iff)

lemma bind_Ret [simp]: "m s = (Ret x, t) \<Longrightarrow> bind m f s = f x t"
  by (simp add: bind_def)

lemma bind_fst: "fst (m s) = Ret x \<Longrightarrow> bind m f s = f x (snd (m s))"
  by (cases "m s") (simp add: bind_def)

lemma bind_invoke [simp]:
  "bind (invoke c answer i) f s = f (answer s i) (s @ [Call (c i)])"
  by (simp add: bind_def)

lemma bind_record [simp]:
  "bind (recordAPICall ty op e) f s = f () (s @ [Metric ty op e])"
  by (simp add: bind_def)

lemma deref_simps [simp]:
  "deref (Some x) = ret x"
  "deref None = panic"
  by (simp_all add: deref_def)

lemma ifErr_simps [simp]:
  "ifErr None f r = r"
  "ifErr (Some e) f r = f e"
  by (simp_all add: ifErr_def)

lemma errOf_simps [simp]:
  "errOf (Inl e) = Some e"
  "errOf (Inr x) = None"
  by (simp_all add: errOf_def)

lemma bind_assoc: "bind (bind m f) g = bind m (\<lambda>x. bind (f x) g)"
  by (auto simp: bind_def fun_eq_iff split: prod.split outcome.split)

lemma bind_ifErr: "bind (ifErr e f r) g = ifErr e (\<lambda>x. bind (f x) g) (bind r g)"
  by (cases e) simp_all

lemma bind_if: "bind (if b then m else n) f = (if b then bind m f else bind n f)"
  by simp

subsection \<open>Actions only append to the log\<close>

definition extends :: "('c, 'a) go \<Rightarrow> bool" where
  "extends m \<longleftrightarrow> (\<forall>s. \<exists>t. snd (m s) = s @ t)"

lemma extendsI: "(\<And>s. \<exists>t. snd (m s) = s @ t) \<Longrightarrow> extends m"
  by (simp add: extends_def)

lemma extends_basic [go_extends]:
  "extends (ret x)" "extends panic" "extends noFuel"
  "extends (invoke c answer i)" "extends (recordAPICall ty op e)"
  by (simp_all add: extends_def)

lemma extends_deref [go_extends]: "extends (deref p)"
  by (cases p) (simp_all add: go_extends)

lemma extends_bind [go_extends]:
  assumes "extends m" and "\<And>x. extends (f x)"
  shows "extends (bind m f)"
proof (rule extendsI)
  fix s
  obtain r t where m: "m s = (r, t)" by fastforce
  with assms(1) obtain u where t: "t = s @ u"
    unfolding extends_def by (metis snd_conv)
  show "\<exists>t'. snd (bind m f s) = s @ t'"
  proof (cases r)
    case (Ret x)
    from assms(2) [of x] obtain v where "snd (f x t) = t @ v"
      unfolding extends_def by blast
    with Ret m t show ?thesis by (simp add: bind_def)
  qed (use m t in \<open>simp_all add: bind_def\<close>)
qed

lemma extends_ifErr [go_extends]:
  "(\<And>x. extends (f x)) \<Longrightarrow> extends r \<Longrightarrow> extends (ifErr e f r)"
  by (cases e) simp_all

lemma extends_if [go_extends]:
  "extends m \<Longrightarrow> extends n \<Longrightarrow> extends (if b then m else n)"
  by simp

lemma extends_case_option [go_extends]:
  "extends m \<Longrightarrow> (\<And>x. extends (f x)) \<Longrightarrow> extends (case p of None \<Rightarrow> m | Some x \<Rightarrow> f x)"
  by (cases p) simp_all

lemma extends_case_sum [go_extends]:
  "(\<And>x. extends (f x)) \<Longrightarrow> (\<And>y. extends (g y)) \<Longrightarrow> extends (case p of Inl x \<Rightarrow> f x | Inr y \<Rightarrow> g y)"
  by (cases p) simp_all

lemma extends_forErr [go_extends]: "(\<And>x. extends (f x)) \<Longrightarrow> extends (forErr f xs)"
  by (induction xs) (auto intro!: go_extends)

subsection \<open>Loops over calls that stop at the first error\<close>

text \<open>
  A loop body that issues one call, records one metric and returns the call's error: the
  whole loop issues the calls in order and stops after the first that fails.
\<close>

definition callRecord ::
  "('i \<Rightarrow> 'c) \<Rightarrow> ('c log \<Rightarrow> 'i \<Rightarrow> error option) \<Rightarrow> string \<Rightarrow> string \<Rightarrow> 'i \<Rightarrow> ('c, error option) go" where
  "callRecord c answer ty op i =
     bind (invoke c answer i) (\<lambda>e.
     bind (recordAPICall ty op e) (\<lambda>_.
     ret e))"

lemma callRecord_run [go_simps, simp]:
  "callRecord c answer ty op i s =
     (Ret (answer s i), s @ [Call (c i), Metric ty op (answer s i)])"
  by (simp add: callRecord_def)

lemma extends_callRecord [go_extends]: "extends (callRecord c answer ty op i)"
  unfolding callRecord_def by (intro go_extends)

lemma forErr_calls_prefix:
  assumes "\<And>x s. calls (snd (f x s)) = calls s @ [g x]"
    and "\<And>x s. \<exists>e. fst (f x s) = Ret e"
  shows "\<exists>ys e. prefix ys xs \<and> calls (snd (forErr f xs s)) = calls s @ map g ys
           \<and> fst (forErr f xs s) = Ret e \<and> (e = None \<longrightarrow> ys = xs)"
proof (induction xs arbitrary: s)
  case Nil
  show ?case by simp
next
  case (Cons x xs)
  obtain e where e: "fst (f x s) = Ret e" using assms(2) by blast
  obtain t where t: "f x s = (Ret e, t)" using e by (metis prod.collapse)
  with assms(1) [of x s] have ct: "calls t = calls s @ [g x]" by simp
  show ?case
  proof (cases e)
    case None
    from Cons.IH [of t] obtain ys e' where
      "prefix ys xs" "calls (snd (forErr f xs t)) = calls t @ map g ys"
      "fst (forErr f xs t) = Ret e'" "e' = None \<longrightarrow> ys = xs" by blast
    with None t ct show ?thesis
      by (intro exI [of _ "x # ys"] exI [of _ e']) simp
  next
    case (Some e')
    with t ct show ?thesis
      by (intro exI [of _ "[x]"] exI [of _ e]) simp
  qed
qed

subsection \<open>Other loops\<close>

text \<open>A loop that builds a list and can only panic, or also stop at an error.\<close>

fun mapAct :: "('a \<Rightarrow> ('c, 'b) go) \<Rightarrow> 'a list \<Rightarrow> ('c, 'b list) go" where
  "mapAct f [] = ret []"
| "mapAct f (x # xs) = bind (f x) (\<lambda>y. bind (mapAct f xs) (\<lambda>ys. ret (y # ys)))"

fun mapErr :: "('a \<Rightarrow> ('c, error + 'b) go) \<Rightarrow> 'a list \<Rightarrow> ('c, error + 'b list) go" where
  "mapErr f [] = ret (Inr [])"
| "mapErr f (x # xs) =
     bind (f x) (\<lambda>r. case r of
       Inl e \<Rightarrow> ret (Inl e)
     | Inr y \<Rightarrow> bind (mapErr f xs) (\<lambda>rs. case rs of Inl e \<Rightarrow> ret (Inl e) | Inr ys \<Rightarrow> ret (Inr (y # ys))))"

text \<open>\<open>for _, x := range xs { if !p(x) { acc = append(acc, x) } }\<close> with a test that may panic.\<close>

fun filterAct :: "('a \<Rightarrow> ('c, bool) go) \<Rightarrow> 'a list \<Rightarrow> ('c, 'a list) go" where
  "filterAct p [] = ret []"
| "filterAct p (x # xs) =
     bind (p x) (\<lambda>b. bind (filterAct p xs) (\<lambda>ys. ret (if b then x # ys else ys)))"

lemma mapAct_ret: "(\<And>x. x \<in> set xs \<Longrightarrow> f x = ret (g x)) \<Longrightarrow> mapAct f xs = ret (map g xs)"
  by (induction xs) (simp_all add: fun_eq_iff)

lemma mapErr_ret: "(\<And>x. x \<in> set xs \<Longrightarrow> f x = ret (Inr (g x))) \<Longrightarrow> mapErr f xs = ret (Inr (map g xs))"
  by (induction xs) (simp_all add: fun_eq_iff)

lemma filterAct_ret: "(\<And>x. x \<in> set xs \<Longrightarrow> p x = ret (q x)) \<Longrightarrow> filterAct p xs = ret (filter q xs)"
  by (induction xs) (simp_all add: fun_eq_iff)

text \<open>Such loops, as long as their body only panics or returns, leave the log alone.\<close>

definition quiet :: "('c, 'a) go \<Rightarrow> bool" where
  "quiet m \<longleftrightarrow> (\<forall>s. snd (m s) = s)"

lemma quiet_basic [go_extends]: "quiet (ret x)" "quiet panic" "quiet (deref p)"
  by (cases p; simp add: quiet_def)+

lemma quiet_bind [go_extends]: "quiet m \<Longrightarrow> (\<And>x. quiet (f x)) \<Longrightarrow> quiet (bind m f)"
  unfolding quiet_def bind_def
  by (auto split: prod.split outcome.split) (metis snd_conv)+

lemma quiet_loops [go_extends]:
  "(\<And>x. quiet (f x)) \<Longrightarrow> quiet (mapAct f xs)"
  "(\<And>x. quiet (p x)) \<Longrightarrow> quiet (filterAct p xs)"
  by (induction xs) (auto intro!: go_extends)

lemma quiet_mapErr [go_extends]: "(\<And>x. quiet (g x)) \<Longrightarrow> quiet (mapErr g xs)"
  by (induction xs) (auto intro!: go_extends split: sum.split)

lemma quiet_if [go_extends]: "quiet m \<Longrightarrow> quiet n \<Longrightarrow> quiet (if b then m else n)"
  by simp

lemma quiet_case_sum [go_extends]:
  "(\<And>x. quiet (f x)) \<Longrightarrow> (\<And>y. quiet (g y)) \<Longrightarrow> quiet (case p of Inl x \<Rightarrow> f x | Inr y \<Rightarrow> g y)"
  by (cases p) simp_all

lemma quiet_case_option [go_extends]:
  "quiet m \<Longrightarrow> (\<And>x. quiet (f x)) \<Longrightarrow> quiet (case p of None \<Rightarrow> m | Some x \<Rightarrow> f x)"
  by (cases p) simp_all

subsection \<open>Plans of calls\<close>

text \<open>An action that makes calls in the order of a plan, and all of them unless it returns an error.\<close>

definition follows :: "('c, error option) go \<Rightarrow> 'c list \<Rightarrow> bool" where
  "follows m plan \<longleftrightarrow> (\<forall>s. \<exists>ys e. fst (m s) = Ret e \<and> calls (snd (m s)) = calls s @ ys
     \<and> prefix ys plan \<and> (e = None \<longrightarrow> ys = plan))"

lemma follows_None: "follows (ret None) []"
  by (simp add: follows_def)

lemma follows_seq:
  assumes "follows m p" "follows n q"
  shows "follows (bind m (\<lambda>err. ifErr err (\<lambda>e. ret (Some e)) n)) (p @ q)"
  unfolding follows_def
proof
  fix s
  obtain ys e where m: "fst (m s) = Ret e" "calls (snd (m s)) = calls s @ ys" "prefix ys p" "e = None \<longrightarrow> ys = p"
    using assms(1) unfolding follows_def by blast
  obtain zs e' where n: "fst (n (snd (m s))) = Ret e'" "calls (snd (n (snd (m s)))) = calls (snd (m s)) @ zs"
    "prefix zs q" "e' = None \<longrightarrow> zs = q"
    using assms(2) unfolding follows_def by blast
  have ms: "m s = (Ret e, snd (m s))" using m(1) by (metis prod.collapse)
  show "\<exists>ys e. fst (bind m (\<lambda>err. ifErr err (\<lambda>e. ret (Some e)) n) s) = Ret e
    \<and> calls (snd (bind m (\<lambda>err. ifErr err (\<lambda>e. ret (Some e)) n) s)) = calls s @ ys
    \<and> prefix ys (p @ q) \<and> (e = None \<longrightarrow> ys = p @ q)"
  proof (cases e)
    case None
    with ms have "bind m (\<lambda>err. ifErr err (\<lambda>e. ret (Some e)) n) s = n (snd (m s))" by (metis bind_Ret ifErr_simps(1))
    with m n None show ?thesis by (intro exI [of _ "ys @ zs"] exI [of _ e']) simp
  next
    case (Some x)
    with ms have "bind m (\<lambda>err. ifErr err (\<lambda>e. ret (Some e)) n) s = (Ret (Some x), snd (m s))"
      by (metis bind_Ret ifErr_simps(2) run_simps(1))
    with m Some show ?thesis by (intro exI [of _ ys] exI [of _ e]) (simp add: prefix_prefix)
  qed
qed

lemma follows_done: "follows m p \<Longrightarrow> follows (bind m (\<lambda>err. ifErr err (\<lambda>e. ret (Some e)) (ret None))) p"
  using follows_seq [OF _ follows_None, of m p] by simp

lemma follows_callRecord: "follows (callRecord c answer ty op i) [c i]"
  by (simp add: follows_def)

lemma follows_forErr: "(\<And>x. follows (f x) [g x]) \<Longrightarrow> follows (forErr f xs) (map g xs)"
proof (induction xs)
  case Nil
  show ?case by (simp add: follows_def)
next
  case (Cons x xs)
  then have "follows (bind (f x) (\<lambda>err. ifErr err (\<lambda>e. ret (Some e)) (forErr f xs))) ([g x] @ map g xs)"
    by (intro follows_seq) simp_all
  then show ?case by simp
qed

text \<open>The same for an action that also yields a value, of which \<open>Q\<close> holds when there is no error.\<close>

definition yields :: "('c, error option \<times> 'a) go \<Rightarrow> 'c list \<Rightarrow> ('a \<Rightarrow> bool) \<Rightarrow> bool" where
  "yields m plan Q \<longleftrightarrow> (\<forall>s. \<exists>ys e x. fst (m s) = Ret (e, x) \<and> calls (snd (m s)) = calls s @ ys
     \<and> prefix ys plan \<and> (e = None \<longrightarrow> ys = plan \<and> Q x))"

lemma yieldsE:
  assumes "yields m p Q"
  obtains ys e x t where "m s = (Ret (e, x), t)" "calls t = calls s @ ys" "prefix ys p" "e = None \<longrightarrow> ys = p \<and> Q x"
  using assms unfolding yields_def by (metis prod.collapse)

lemma followsE:
  assumes "follows m p"
  obtains ys e t where "m s = (Ret e, t)" "calls t = calls s @ ys" "prefix ys p" "e = None \<longrightarrow> ys = p"
  using assms unfolding follows_def by (metis prod.collapse)

lemma yieldsI:
  assumes "\<And>s. \<exists>ys e x t. m s = (Ret (e, x), t) \<and> calls t = calls s @ ys \<and> prefix ys p \<and> (e = None \<longrightarrow> ys = p \<and> Q x)"
  shows "yields m p Q"
  unfolding yields_def using assms by (metis fst_conv snd_conv)

lemma yields_ret: "Q x \<Longrightarrow> yields (ret (None, x)) [] Q"
  by (simp add: yields_def)

lemma yields_mono: "yields m p Q \<Longrightarrow> (\<And>x. Q x \<Longrightarrow> R x) \<Longrightarrow> yields m p R"
  unfolding yields_def by meson

lemma yields_seq:
  assumes "yields m p Q" "\<And>x. Q x \<Longrightarrow> yields (n x) q R"
  shows "yields (bind m (\<lambda>(e, x). ifErr e (\<lambda>e. ret (Some e, f x)) (n x))) (p @ q) R"
proof (rule yieldsI)
  fix s
  from assms(1) obtain ys e x t where m: "m s = (Ret (e, x), t)" "calls t = calls s @ ys" "prefix ys p"
    "e = None \<longrightarrow> ys = p \<and> Q x" by (rule yieldsE [where s = s])
  show "\<exists>ys e x t. bind m (\<lambda>(e, x). ifErr e (\<lambda>e. ret (Some e, f x)) (n x)) s = (Ret (e, x), t)
      \<and> calls t = calls s @ ys \<and> prefix ys (p @ q) \<and> (e = None \<longrightarrow> ys = p @ q \<and> R x)"
  proof (cases e)
    case None
    with m(4) assms(2) have "yields (n x) q R" by simp
    then obtain zs e' x' u where "n x t = (Ret (e', x'), u)" "calls u = calls t @ zs" "prefix zs q"
      "e' = None \<longrightarrow> zs = q \<and> R x'" by (rule yieldsE [where s = t])
    with m None show ?thesis by (intro exI [of _ "ys @ zs"] exI [of _ e'] exI [of _ x'] exI [of _ u]) simp
  next
    case (Some z)
    with m show ?thesis
      by (intro exI [of _ ys] exI [of _ e] exI [of _ "f x"] exI [of _ t]) (simp add: prefix_prefix)
  qed
qed

lemma yields_after:
  assumes "follows m p" "yields n q R"
  shows "yields (bind m (\<lambda>e. ifErr e (\<lambda>e. ret (Some e, a)) n)) (p @ q) R"
proof (rule yieldsI)
  fix s
  from assms(1) obtain ys e t where m: "m s = (Ret e, t)" "calls t = calls s @ ys" "prefix ys p" "e = None \<longrightarrow> ys = p"
    by (rule followsE [where s = s])
  show "\<exists>ys e x t. bind m (\<lambda>e. ifErr e (\<lambda>e. ret (Some e, a)) n) s = (Ret (e, x), t)
      \<and> calls t = calls s @ ys \<and> prefix ys (p @ q) \<and> (e = None \<longrightarrow> ys = p @ q \<and> R x)"
  proof (cases e)
    case None
    from assms(2) obtain zs e' x' u where "n t = (Ret (e', x'), u)" "calls u = calls t @ zs" "prefix zs q"
      "e' = None \<longrightarrow> zs = q \<and> R x'" by (rule yieldsE [where s = t])
    with m None show ?thesis by (intro exI [of _ "ys @ zs"] exI [of _ e'] exI [of _ x'] exI [of _ u]) simp
  next
    case (Some z)
    with m show ?thesis by (intro exI [of _ ys] exI [of _ e] exI [of _ a] exI [of _ t]) (simp add: prefix_prefix)
  qed
qed

lemma bind_Ret_iff: "fst (bind m f s) = Ret y \<longleftrightarrow> (\<exists>x t. m s = (Ret x, t) \<and> fst (f x t) = Ret y)"
  by (auto simp: bind_def split: prod.split outcome.split)

subsection \<open>Stopping at the first failure\<close>

text \<open>
  \<open>stops e new\<close>: of the events \<open>new\<close> only the last may record a failed call, and if it does,
  its error is \<open>e\<close>.
\<close>

definition failure :: "'c event \<Rightarrow> error option" where
  "failure ev = (case ev of Call _ \<Rightarrow> None | Metric _ _ e \<Rightarrow> e)"

fun stops :: "error option \<Rightarrow> 'c log \<Rightarrow> bool" where
  "stops e [] = True"
| "stops e (ev # new) = (case failure ev of None \<Rightarrow> stops e new | Some x \<Rightarrow> new = [] \<and> e = Some x)"

lemma failure_simps [simp]: "failure (Call c) = None" "failure (Metric ty op e) = e"
  by (simp_all add: failure_def)

lemma stops_append: "stops None xs \<Longrightarrow> stops e ys \<Longrightarrow> stops e (xs @ ys)"
  by (induction xs) (auto split: option.splits)

text \<open>An action that makes no call after one that failed, whose error it returns.\<close>

definition halts :: "('c, error option) go \<Rightarrow> bool" where
  "halts m \<longleftrightarrow> (\<forall>s e t. m s = (Ret e, t) \<longrightarrow> (\<exists>new. t = s @ new \<and> stops e new))"

lemma halts_quiet [go_extends]: "halts (ret e)" "halts panic" "halts (deref p)"
  by (cases p; simp add: halts_def)+

lemma halts_callRecord [go_extends]: "halts (callRecord c answer ty op i)"
  by (auto simp: halts_def split: option.split)

lemma halts_seq [go_extends]:
  assumes "halts m" "halts n"
  shows "halts (bind m (\<lambda>err. ifErr err (\<lambda>e. ret (Some e)) n))"
  unfolding halts_def
proof (intro allI impI)
  fix s e t
  assume run: "bind m (\<lambda>err. ifErr err (\<lambda>e. ret (Some e)) n) s = (Ret e, t)"
  then obtain e1 u where u: "m s = (Ret e1, u)" by (auto simp: bind_def split: prod.splits outcome.splits)
  with assms(1) obtain new where new: "u = s @ new" "stops e1 new" unfolding halts_def by blast
  show "\<exists>new. t = s @ new \<and> stops e new"
  proof (cases e1)
    case None
    with run u have "n u = (Ret e, t)" by simp
    with assms(2) obtain new' where "t = u @ new'" "stops e new'" unfolding halts_def by blast
    with new None show ?thesis by (intro exI [of _ "new @ new'"]) (simp add: stops_append)
  qed (use run u new in auto)
qed

lemma halts_deref [go_extends]: "(\<And>x. halts (f x)) \<Longrightarrow> halts (bind (deref p) f)"
  by (cases p) (simp_all add: go_extends)

lemma halts_if [go_extends]: "halts m \<Longrightarrow> halts n \<Longrightarrow> halts (if b then m else n)"
  by simp

lemma halts_forErr [go_extends]: "(\<And>x. halts (f x)) \<Longrightarrow> halts (forErr f xs)"
  by (induction xs) (simp_all add: go_extends)

text \<open>A plan that stops at the first failure.\<close>

lemma follows_haltsE:
  assumes "follows m p" "halts m"
  obtains new e where "m s = (Ret e, s @ new)" "stops e new" "prefix (calls new) p" "e = None \<longrightarrow> calls new = p"
proof -
  obtain ys e t where m: "m s = (Ret e, t)" "calls t = calls s @ ys" "prefix ys p" "e = None \<longrightarrow> ys = p"
    by (rule followsE [OF assms(1)])
  moreover from m(1) assms(2) obtain new where "t = s @ new" "stops e new" unfolding halts_def by blast
  ultimately show ?thesis by (intro that [of e new]) simp_all
qed

subsection \<open>Integers and their decimal text\<close>

type_synonym int64 = "64 word"
type_synonym int32 = "32 word"

text \<open>The conversion \<open>int32(x)\<close> keeps the low 32 bits; \<open>int64(x)\<close> extends the sign.\<close>

definition toInt32 :: "int64 \<Rightarrow> int32" where
  "toInt32 x = word_of_int (sint x)"

definition toInt64 :: "int32 \<Rightarrow> int64" where
  "toInt64 x = word_of_int (sint x)"

abbreviation maxInt32 :: int where "maxInt32 \<equiv> 2147483647"
abbreviation minInt32 :: int where "minInt32 \<equiv> - 2147483648"

lemma sint_toInt32:
  assumes "minInt32 \<le> sint x" and "sint x \<le> maxInt32"
  shows "sint (toInt32 x) = sint x"
proof -
  have "signed_take_bit 31 (sint x) = sint x"
    using assms by (intro signed_take_bit_int_eq_self) simp_all
  then show ?thesis unfolding toInt32_def sint_sbintrunc' by simp
qed

lemma sint_int32_bounds: "minInt32 \<le> sint (y :: int32)" "sint (y :: int32) \<le> maxInt32"
  using sint_greater_eq [of y] sint_less [of y] by simp_all

lemma sint_toInt64: "sint (toInt64 y) = sint y"
proof -
  have "signed_take_bit 63 (sint y) = sint y"
    using sint_int32_bounds [of y] by (intro signed_take_bit_int_eq_self) simp_all
  then show ?thesis unfolding toInt64_def sint_sbintrunc' by simp
qed

lemma toInt32_toInt64 [simp]: "toInt32 (toInt64 y) = y"
  by (simp add: toInt32_def sint_toInt64)

lemma toInt64_toInt32:
  "minInt32 \<le> sint x \<Longrightarrow> sint x \<le> maxInt32 \<Longrightarrow> toInt64 (toInt32 x) = x"
  by (simp add: toInt64_def sint_toInt32)

text \<open>\<open>strconv.FormatInt(x, 10)\<close>.\<close>

definition digit :: "nat \<Rightarrow> char" where
  "digit d = char_of (48 + d)"

fun decimal :: "nat \<Rightarrow> string" where
  "decimal n = (if n < 10 then [digit n] else decimal (n div 10) @ [digit (n mod 10)])"

declare decimal.simps [simp del]

definition formatInt :: "int \<Rightarrow> string" where
  "formatInt i = (if i < 0 then CHR ''-'' # decimal (nat (- i)) else decimal (nat i))"

text \<open>Reading digits back: the value of a digit string.\<close>

fun digitsVal :: "nat \<Rightarrow> string \<Rightarrow> nat" where
  "digitsVal acc [] = acc"
| "digitsVal acc (c # cs) = digitsVal (10 * acc + (of_char c - 48)) cs"

definition isDigit :: "char \<Rightarrow> bool" where
  "isDigit c \<longleftrightarrow> 48 \<le> (of_char c :: nat) \<and> (of_char c :: nat) \<le> 57"

lemma of_char_digit: "d < 10 \<Longrightarrow> (of_char (digit d) :: nat) = 48 + d"
  by (simp add: digit_def)

lemma isDigit_digit: "d < 10 \<Longrightarrow> isDigit (digit d)"
  by (simp add: isDigit_def of_char_digit)

lemma digitsVal_append: "digitsVal acc (xs @ ys) = digitsVal (digitsVal acc xs) ys"
  by (induction xs arbitrary: acc) simp_all

lemma digitsVal_decimal [simp]: "digitsVal 0 (decimal n) = n"
proof (induction n rule: decimal.induct)
  case (1 n)
  show ?case
  proof (cases "n < 10")
    case True
    then show ?thesis by (simp add: decimal.simps [of n] of_char_digit)
  next
    case False
    with "1.IH" have "digitsVal 0 (decimal (n div 10)) = n div 10" by simp
    with False show ?thesis
      by (simp add: decimal.simps [of n] digitsVal_append of_char_digit)
  qed
qed

lemma decimal_inject [simp]: "decimal m = decimal n \<longleftrightarrow> m = n"
  by (metis digitsVal_decimal)

lemma decimal_digits: "c \<in> set (decimal n) \<Longrightarrow> isDigit c"
proof (induction n rule: decimal.induct)
  case (1 n)
  then show ?case
    by (cases "n < 10") (auto simp: decimal.simps [of n] isDigit_digit)
qed

lemma decimal_not_Nil [simp]: "decimal n \<noteq> []"
  by (subst decimal.simps) simp

lemma isDigit_minus [simp]: "\<not> isDigit CHR ''-''" "\<not> isDigit CHR ''/''" "\<not> isDigit CHR ''.''"
  "\<not> isDigit CHR '':''" "\<not> isDigit CHR ''n''"
  by (simp_all add: isDigit_def)

lemma formatInt_inject [simp]: "formatInt i = formatInt j \<longleftrightarrow> i = j"
proof
  assume eq: "formatInt i = formatInt j"
  have neg: "decimal m \<noteq> CHR ''-'' # cs" for m cs
    using decimal_digits [of "CHR ''-''" m] by auto
  from eq neg show "i = j"
    by (auto simp: formatInt_def nat_eq_iff split: if_splits dest: neg [THEN notE] sym)
qed simp

lemma formatInt_chars: "c \<in> set (formatInt i) \<Longrightarrow> c = CHR ''-'' \<or> isDigit c"
  by (auto simp: formatInt_def dest: decimal_digits split: if_splits)

end
