(* ===== verification/API_Types.thy ===== *)
theory API_Types
  imports Go_Prelude
begin

text \<open>
  What the resource types of \<open>apis/v1alpha1\<close> share: Go slices whose nil-ness the code tests,
  the reference wrapper of the ACK runtime (a name and a namespace), and the delta of
  \<open>ackcompare\<close>, kept as the list of the paths that were added.
\<close>

subsection \<open>Slices\<close>

text \<open>A slice is nil or a list; \<open>append\<close> with nothing to add returns its first argument.\<close>

type_synonym 'a slice = "'a list option"

definition elems :: "'a slice \<Rightarrow> 'a list" where
  "elems s = (case s of None \<Rightarrow> [] | Some xs \<Rightarrow> xs)"

definition appendAll :: "'a slice \<Rightarrow> 'a list \<Rightarrow> 'a slice" where
  "appendAll s ys = (if ys = [] then s else Some (elems s @ ys))"

lemma elems_simps [simp]: "elems None = []" "elems (Some xs) = xs"
  by (simp_all add: elems_def)

lemma elems_appendAll [simp]: "elems (appendAll s ys) = elems s @ ys"
  by (simp add: appendAll_def)

lemma elems_map_option [simp]: "elems (map_option (map f) s) = map f (elems s)"
  by (cases s) simp_all

lemma appendAll_None: "appendAll None ys = (if ys = [] then None else Some ys)"
  by (simp add: appendAll_def)

subsection \<open>References\<close>

record aws_ref =
  refName :: "string option"
  refNamespace :: "string option"

text \<open>\<open>AWSResourceReferenceWrapper\<close>: a struct with the one field \<open>From\<close>.\<close>

type_synonym ref_wrapper = "aws_ref option"

subsection \<open>Resource metadata and conditions\<close>

record resource_metadata =
  ARN :: "string option"
  OwnerAccountID :: "string option"
  Region :: "string option"
  Partition :: "string option"

record condition =
  condType :: string
  condStatus :: string
  condReason :: "string option"
  condMessage :: "string option"

text \<open>What the \<open>Status\<close> of every kind starts with.\<close>

record common_status =
  ACKResourceMetadata :: "resource_metadata option"
  Conditions :: "condition list"

subsection \<open>Deltas\<close>

type_synonym delta = "string list"

definition addDiff :: "string \<Rightarrow> delta \<Rightarrow> delta" where
  "addDiff p d = d @ [p]"

text \<open>
  A Go pointer passed as an \<open>interface{}\<close>: to a string, an integer, a boolean, or to a struct
  of which only the nil-ness is looked at.
\<close>

datatype iface =
    IStr "string option"
  | IInt "int64 option"
  | IBool "bool option"
  | IStruct "unit option"

definition isNilIface :: "iface \<Rightarrow> bool" where
  "isNilIface i = (case i of IStr p \<Rightarrow> p = None | IInt p \<Rightarrow> p = None | IBool p \<Rightarrow> p = None | IStruct p \<Rightarrow> p = None)"

text \<open>
  \<open>if ackcompare.HasNilDifference(x, y) { add } else if x != nil && y != nil { if *x != *y { add } }\<close>.
  \<open>HasNilDifference\<close> belongs to the ACK runtime and is the parameter \<open>hnd\<close>.
\<close>

definition comparePtr ::
  "(iface \<Rightarrow> iface \<Rightarrow> bool) \<Rightarrow> ('a option \<Rightarrow> iface) \<Rightarrow> string \<Rightarrow> 'a option \<Rightarrow> 'a option \<Rightarrow> delta \<Rightarrow> delta" where
  "comparePtr hnd C p x y d =
     (if hnd (C x) (C y) then addDiff p d
      else case (x, y) of
        (Some u, Some v) \<Rightarrow> if u \<noteq> v then addDiff p d else d
      | _ \<Rightarrow> d)"

text \<open>
  The documented law: it reports a difference only between a nil and a non-nil value. (Which
  of those it reports, an empty string against nil for example, is left open.)
\<close>

definition hnd_law :: "(iface \<Rightarrow> iface \<Rightarrow> bool) \<Rightarrow> bool" where
  "hnd_law hnd \<longleftrightarrow> (\<forall>i j. hnd i j \<longrightarrow> isNilIface i \<noteq> isNilIface j)"

definition nilDiff :: "iface \<Rightarrow> iface \<Rightarrow> bool" where
  "nilDiff i j \<longleftrightarrow> isNilIface i \<noteq> isNilIface j"

lemma hnd_law_nilDiff: "hnd_law nilDiff"
  by (simp add: hnd_law_def nilDiff_def)

text \<open>Two pointers that the comparison takes to be the same.\<close>

definition agree :: "(iface \<Rightarrow> iface \<Rightarrow> bool) \<Rightarrow> ('a option \<Rightarrow> iface) \<Rightarrow> 'a option \<Rightarrow> 'a option \<Rightarrow> bool" where
  "agree hnd C x y \<longleftrightarrow> x = y \<or> (x = None) \<noteq> (y = None) \<and> \<not> hnd (C x) (C y)"

lemma comparePtr_agree:
  assumes "hnd_law hnd" and "\<And>p. isNilIface (C p) \<longleftrightarrow> p = None"
  shows "comparePtr hnd C p x y d = (if agree hnd C x y then d else addDiff p d)"
  using assms by (cases x; cases y) (auto simp: comparePtr_def agree_def hnd_law_def)

lemma comparePtr_simps [simp]:
  assumes "hnd_law hnd"
  shows "comparePtr hnd IStr p x y d = (if agree hnd IStr x y then d else addDiff p d)"
    and "comparePtr hnd IInt p x' y' d = (if agree hnd IInt x' y' then d else addDiff p d)"
    and "comparePtr hnd IBool p x'' y'' d = (if agree hnd IBool x'' y'' then d else addDiff p d)"
  using assms by (simp_all add: comparePtr_agree isNilIface_def)

lemma agree_nilDiff [simp]:
  "agree nilDiff IStr x y \<longleftrightarrow> x = y"
  "agree nilDiff IInt x' y' \<longleftrightarrow> x' = y'"
  "agree nilDiff IBool x'' y'' \<longleftrightarrow> x'' = y''"
  by (auto simp: agree_def nilDiff_def isNilIface_def)

lemma addDiff_simps [simp]: "addDiff p d \<noteq> []" "set (addDiff p d) = insert p (set d)"
  by (simp_all add: addDiff_def)

end
