(* ===== verification/Launch_SDK.thy ===== *)
theory Launch_SDK
  imports Go_Prelude
begin

text \<open>
  The requests of the EC2 client for instances and launch templates, field by field as
  \<open>pkg/resource/instance\<close> and \<open>pkg/resource/launch_template\<close> fill them in. Shapes with the same
  fields are one record, named after the first of them. An enum is a string, empty when it was
  not set; \<open>[]string\<close> keeps no difference between nil and empty. The fields of launch template data
  that \<open>generator.yaml\<close> names under \<open>ignore\<close>, which no code reads or sets, come last in their records.
\<close>

text \<open>A time is only ever copied; it is a number here. A \<open>float64\<close> is its IEEE 754 bit pattern.\<close>

type_synonym timestamp = int
type_synonym float64 = "64 word"

text \<open>A struct of an ignored field, of which nothing is known: some text.\<close>

type_synonym unread = string

record sdk_tag =
  sdkKey :: "string option"
  sdkValue :: "string option"

record tag_specification =
  tsResourceType :: string
  tsTags :: "sdk_tag list"

subsection \<open>Instances\<close>

record sdk_ebs_block_device =
  sdkEbdDeleteOnTermination :: "bool option"
  sdkEbdEncrypted :: "bool option"
  sdkEbdIops :: "int32 option"
  sdkEbdKmsKeyId :: "string option"
  sdkEbdOutpostArn :: "string option"
  sdkEbdSnapshotId :: "string option"
  sdkEbdThroughput :: "int32 option"
  sdkEbdVolumeSize :: "int32 option"
  sdkEbdVolumeType :: string

record sdk_block_device_mapping =
  sdkBdmDeviceName :: "string option"
  sdkBdmEbs :: "sdk_ebs_block_device option"
  sdkBdmNoDevice :: "string option"
  sdkBdmVirtualName :: "string option"

record sdk_capacity_reservation_target =
  sdkCrtCapacityReservationId :: "string option"
  sdkCrtCapacityReservationResourceGroupArn :: "string option"

record sdk_capacity_reservation_specification =
  sdkCrsCapacityReservationPreference :: string
  sdkCrsCapacityReservationTarget :: "sdk_capacity_reservation_target option"

record sdk_cpu_options_request =
  sdkCorCoreCount :: "int32 option"
  sdkCorNestedVirtualization :: string
  sdkCorThreadsPerCore :: "int32 option"

record sdk_credit_specification_request =
  sdkCsrCpuCredits :: "string option"

record sdk_elastic_gpu_specification =
  sdkEgsType :: "string option"

record sdk_elastic_inference_accelerator =
  sdkEiaCount :: "int32 option"
  sdkEiaType :: "string option"

record sdk_enclave_options_request =
  sdkEorEnabled :: "bool option"

record sdk_hibernation_options_request =
  sdkHorConfigured :: "bool option"

record sdk_iam_instance_profile_specification =
  sdkIipsArn :: "string option"
  sdkIipsName :: "string option"

record sdk_spot_market_options =
  sdkSmoBlockDurationMinutes :: "int32 option"
  sdkSmoInstanceInterruptionBehavior :: string
  sdkSmoMaxPrice :: "string option"
  sdkSmoSpotInstanceType :: string
  sdkSmoValidUntil :: "timestamp option"

record sdk_instance_market_options_request =
  sdkMkoMarketType :: string
  sdkMkoSpotOptions :: "sdk_spot_market_options option"

record sdk_instance_ipv6_address =
  sdkIiaIpv6Address :: "string option"

record sdk_launch_template_specification =
  sdkLtsLaunchTemplateId :: "string option"
  sdkLtsLaunchTemplateName :: "string option"
  sdkLtsVersion :: "string option"

record sdk_license_configuration_request =
  sdkLcrLicenseConfigurationArn :: "string option"

record sdk_instance_maintenance_options_request =
  sdkMntAutoRecovery :: string

record sdk_instance_metadata_options_request =
  sdkMdoHttpEndpoint :: string
  sdkMdoHttpProtocolIpv6 :: string
  sdkMdoHttpPutResponseHopLimit :: "int32 option"
  sdkMdoHttpTokens :: string
  sdkMdoInstanceMetadataTags :: string

type_synonym sdk_run_instances_monitoring_enabled = sdk_enclave_options_request

record sdk_ipv4_prefix_specification_request =
  sdkR4Ipv4Prefix :: "string option"

record sdk_ipv6_prefix_specification_request =
  sdkR6Ipv6Prefix :: "string option"

record sdk_private_ip_address_specification =
  sdkPiasPrimary :: "bool option"
  sdkPiasPrivateIpAddress :: "string option"

record sdk_instance_network_interface_specification =
  sdkNisAssociateCarrierIpAddress :: "bool option"
  sdkNisAssociatePublicIpAddress :: "bool option"
  sdkNisDeleteOnTermination :: "bool option"
  sdkNisDescription :: "string option"
  sdkNisDeviceIndex :: "int32 option"
  sdkNisInterfaceType :: "string option"
  sdkNisIpv4PrefixCount :: "int32 option"
  sdkNisIpv4Prefixes :: "sdk_ipv4_prefix_specification_request list option"
  sdkNisIpv6AddressCount :: "int32 option"
  sdkNisIpv6Addresses :: "sdk_instance_ipv6_address list option"
  sdkNisIpv6PrefixCount :: "int32 option"
  sdkNisIpv6Prefixes :: "sdk_ipv6_prefix_specification_request list option"
  sdkNisNetworkCardIndex :: "int32 option"
  sdkNisNetworkInterfaceId :: "string option"
  sdkNisPrivateIpAddress :: "string option"
  sdkNisPrivateIpAddresses :: "sdk_private_ip_address_specification list option"
  sdkNisSecondaryPrivateIpAddressCount :: "int32 option"
  sdkNisSubnetId :: "string option"

record sdk_placement =
  sdkPlAffinity :: "string option"
  sdkPlAvailabilityZone :: "string option"
  sdkPlGroupName :: "string option"
  sdkPlHostId :: "string option"
  sdkPlHostResourceGroupArn :: "string option"
  sdkPlPartitionNumber :: "int32 option"
  sdkPlSpreadDomain :: "string option"
  sdkPlTenancy :: string

record sdk_private_dns_name_options_request =
  sdkPdnorEnableResourceNameDnsAAAARecord :: "bool option"
  sdkPdnorEnableResourceNameDnsARecord :: "bool option"
  sdkPdnorHostnameType :: string

record run_instances_input =
  riBlockDeviceMappings :: "sdk_block_device_mapping list option"
  riCapacityReservationSpecification :: "sdk_capacity_reservation_specification option"
  riCpuOptions :: "sdk_cpu_options_request option"
  riCreditSpecification :: "sdk_credit_specification_request option"
  riDisableApiStop :: "bool option"
  riDisableApiTermination :: "bool option"
  riEbsOptimized :: "bool option"
  riElasticGpuSpecification :: "sdk_elastic_gpu_specification list option"
  riElasticInferenceAccelerators :: "sdk_elastic_inference_accelerator list option"
  riEnclaveOptions :: "sdk_enclave_options_request option"
  riHibernationOptions :: "sdk_hibernation_options_request option"
  riIamInstanceProfile :: "sdk_iam_instance_profile_specification option"
  riImageId :: "string option"
  riInstanceInitiatedShutdownBehavior :: string
  riInstanceMarketOptions :: "sdk_instance_market_options_request option"
  riInstanceType :: string
  riIpv6AddressCount :: "int32 option"
  riIpv6Addresses :: "sdk_instance_ipv6_address list option"
  riKernelId :: "string option"
  riKeyName :: "string option"
  riLaunchTemplate :: "sdk_launch_template_specification option"
  riLicenseSpecifications :: "sdk_license_configuration_request list option"
  riMaintenanceOptions :: "sdk_instance_maintenance_options_request option"
  riMetadataOptions :: "sdk_instance_metadata_options_request option"
  riMonitoring :: "sdk_run_instances_monitoring_enabled option"
  riNetworkInterfaces :: "sdk_instance_network_interface_specification list option"
  riPlacement :: "sdk_placement option"
  riPrivateDnsNameOptions :: "sdk_private_dns_name_options_request option"
  riPrivateIpAddress :: "string option"
  riRamdiskId :: "string option"
  riSecurityGroupIds :: "string list"
  riSecurityGroups :: "string list"
  riSubnetId :: "string option"
  riUserData :: "string option"
  riMaxCount :: "int32 option"
  riMinCount :: "int32 option"
  riTagSpecifications :: "tag_specification list option"

text \<open>A modification of one attribute: a field of the request is a value, or not set.\<close>

record modify_instance_input =
  miInstanceId :: "string option"
  miDisableApiTermination :: "bool option option"
  miInstanceType :: "string option option"
  miKernel :: "string option option"
  miRamdisk :: "string option option"
  miInstanceInitiatedShutdownBehavior :: "string option option"
  miUserData :: "string option"
  miEbsOptimized :: "bool option option"
  miDisableApiStop :: "bool option option"
  miGroups :: "string list"
  miSourceDestCheck :: "bool option option"

datatype (plugins only: code size) instance_call =
    DescribeInstances "string list"
  | RunInstances run_instances_input
  | ModifyInstanceAttribute modify_instance_input
  | TerminateInstances "string list"

subsection \<open>Launch templates\<close>

record sdk_launch_template_ebs_block_device_request =
  sdkLtebdrDeleteOnTermination :: "bool option"
  sdkLtebdrEncrypted :: "bool option"
  sdkLtebdrIops :: "int32 option"
  sdkLtebdrKmsKeyId :: "string option"
  sdkLtebdrSnapshotId :: "string option"
  sdkLtebdrThroughput :: "int32 option"
  sdkLtebdrVolumeSize :: "int32 option"
  sdkLtebdrVolumeType :: string
  sdkLtebdrEbsCardIndex :: "int32 option"
  sdkLtebdrVolumeInitializationRate :: "int32 option"

record sdk_launch_template_block_device_mapping_request =
  sdkLtbdmrDeviceName :: "string option"
  sdkLtbdmrEbs :: "sdk_launch_template_ebs_block_device_request option"
  sdkLtbdmrNoDevice :: "string option"
  sdkLtbdmrVirtualName :: "string option"

type_synonym sdk_launch_template_capacity_reservation_specification_request = sdk_capacity_reservation_specification

record sdk_launch_template_cpu_options_request =
  sdkLtcorAmdSevSnp :: string
  sdkLtcorCoreCount :: "int32 option"
  sdkLtcorNestedVirtualization :: string
  sdkLtcorThreadsPerCore :: "int32 option"

type_synonym sdk_launch_template_elastic_inference_accelerator = sdk_elastic_inference_accelerator

type_synonym sdk_launch_template_enclave_options_request = sdk_enclave_options_request

type_synonym sdk_launch_template_hibernation_options_request = sdk_hibernation_options_request

type_synonym sdk_launch_template_iam_instance_profile_specification_request = sdk_iam_instance_profile_specification

type_synonym sdk_launch_template_spot_market_options_request = sdk_spot_market_options

type_synonym sdk_launch_template_instance_market_options_request = sdk_instance_market_options_request

record sdk_accelerator_count_request =
  sdkAcrMax :: "int32 option"
  sdkAcrMin :: "int32 option"

type_synonym sdk_accelerator_total_memory_mib_request = sdk_accelerator_count_request

type_synonym sdk_baseline_ebs_bandwidth_mbps_request = sdk_accelerator_count_request

record sdk_performance_factor_reference_request =
  sdkPfrrInstanceFamily :: "string option"

record sdk_cpu_performance_factor_request =
  sdkCpfrReferences :: "sdk_performance_factor_reference_request list option"

record sdk_baseline_performance_factors_request =
  sdkBpfrCpu :: "sdk_cpu_performance_factor_request option"

record sdk_memory_gib_per_v_cpu_request =
  sdkMgpvcrMax :: "float64 option"
  sdkMgpvcrMin :: "float64 option"

type_synonym sdk_memory_mib_request = sdk_accelerator_count_request

type_synonym sdk_network_bandwidth_gbps_request = sdk_memory_gib_per_v_cpu_request

type_synonym sdk_network_interface_count_request = sdk_accelerator_count_request

type_synonym sdk_total_local_storage_gb_request = sdk_memory_gib_per_v_cpu_request

type_synonym sdk_v_cpu_count_range_request = sdk_accelerator_count_request

record sdk_instance_requirements_request =
  sdkIrrAcceleratorCount :: "sdk_accelerator_count_request option"
  sdkIrrAcceleratorManufacturers :: "string list"
  sdkIrrAcceleratorNames :: "string list"
  sdkIrrAcceleratorTotalMemoryMiB :: "sdk_accelerator_total_memory_mib_request option"
  sdkIrrAcceleratorTypes :: "string list"
  sdkIrrAllowedInstanceTypes :: "string list"
  sdkIrrBareMetal :: string
  sdkIrrBaselineEbsBandwidthMbps :: "sdk_baseline_ebs_bandwidth_mbps_request option"
  sdkIrrBaselinePerformanceFactors :: "sdk_baseline_performance_factors_request option"
  sdkIrrBurstablePerformance :: string
  sdkIrrCpuManufacturers :: "string list"
  sdkIrrExcludedInstanceTypes :: "string list"
  sdkIrrInstanceGenerations :: "string list"
  sdkIrrLocalStorage :: string
  sdkIrrLocalStorageTypes :: "string list"
  sdkIrrMaxSpotPriceAsPercentageOfOptimalOnDemandPrice :: "int32 option"
  sdkIrrMemoryGiBPerVCpu :: "sdk_memory_gib_per_v_cpu_request option"
  sdkIrrMemoryMiB :: "sdk_memory_mib_request option"
  sdkIrrNetworkBandwidthGbps :: "sdk_network_bandwidth_gbps_request option"
  sdkIrrNetworkInterfaceCount :: "sdk_network_interface_count_request option"
  sdkIrrOnDemandMaxPricePercentageOverLowestPrice :: "int32 option"
  sdkIrrRequireHibernateSupport :: "bool option"
  sdkIrrSpotMaxPricePercentageOverLowestPrice :: "int32 option"
  sdkIrrTotalLocalStorageGB :: "sdk_total_local_storage_gb_request option"
  sdkIrrVCpuCount :: "sdk_v_cpu_count_range_request option"
  sdkIrrRequireEncryptionInTransit :: "bool option"

type_synonym sdk_launch_template_license_configuration_request = sdk_license_configuration_request

type_synonym sdk_launch_template_instance_maintenance_options_request = sdk_instance_maintenance_options_request

type_synonym sdk_launch_template_instance_metadata_options_request = sdk_instance_metadata_options_request

type_synonym sdk_launch_templates_monitoring_request = sdk_enclave_options_request

type_synonym sdk_instance_ipv6_address_request = sdk_instance_ipv6_address

record sdk_launch_template_instance_network_interface_specification_request =
  sdkLtinisrAssociateCarrierIpAddress :: "bool option"
  sdkLtinisrAssociatePublicIpAddress :: "bool option"
  sdkLtinisrDeleteOnTermination :: "bool option"
  sdkLtinisrDescription :: "string option"
  sdkLtinisrDeviceIndex :: "int32 option"
  sdkLtinisrGroups :: "string list"
  sdkLtinisrInterfaceType :: "string option"
  sdkLtinisrIpv4PrefixCount :: "int32 option"
  sdkLtinisrIpv4Prefixes :: "sdk_ipv4_prefix_specification_request list option"
  sdkLtinisrIpv6AddressCount :: "int32 option"
  sdkLtinisrIpv6Addresses :: "sdk_instance_ipv6_address_request list option"
  sdkLtinisrIpv6PrefixCount :: "int32 option"
  sdkLtinisrIpv6Prefixes :: "sdk_ipv6_prefix_specification_request list option"
  sdkLtinisrNetworkCardIndex :: "int32 option"
  sdkLtinisrNetworkInterfaceId :: "string option"
  sdkLtinisrPrimaryIpv6 :: "bool option"
  sdkLtinisrPrivateIpAddress :: "string option"
  sdkLtinisrPrivateIpAddresses :: "sdk_private_ip_address_specification list option"
  sdkLtinisrSecondaryPrivateIpAddressCount :: "int32 option"
  sdkLtinisrSubnetId :: "string option"
  sdkLtinisrEnaQueueCount :: "int32 option"

record sdk_launch_template_placement_request =
  sdkLtprAffinity :: "string option"
  sdkLtprAvailabilityZone :: "string option"
  sdkLtprGroupId :: "string option"
  sdkLtprGroupName :: "string option"
  sdkLtprHostId :: "string option"
  sdkLtprHostResourceGroupArn :: "string option"
  sdkLtprPartitionNumber :: "int32 option"
  sdkLtprSpreadDomain :: "string option"
  sdkLtprTenancy :: string
  sdkLtprAvailabilityZoneId :: "string option"

type_synonym sdk_launch_template_private_dns_name_options_request = sdk_private_dns_name_options_request

record sdk_launch_template_tag_specification_request =
  sdkLttsrResourceType :: string
  sdkLttsrTags :: "sdk_tag list option"

record sdk_request_launch_template_data =
  sdkRltdBlockDeviceMappings :: "sdk_launch_template_block_device_mapping_request list option"
  sdkRltdCapacityReservationSpecification :: "sdk_launch_template_capacity_reservation_specification_request option"
  sdkRltdCpuOptions :: "sdk_launch_template_cpu_options_request option"
  sdkRltdCreditSpecification :: "sdk_credit_specification_request option"
  sdkRltdDisableApiStop :: "bool option"
  sdkRltdDisableApiTermination :: "bool option"
  sdkRltdEbsOptimized :: "bool option"
  sdkRltdElasticGpuSpecifications :: "sdk_elastic_gpu_specification list option"
  sdkRltdElasticInferenceAccelerators :: "sdk_launch_template_elastic_inference_accelerator list option"
  sdkRltdEnclaveOptions :: "sdk_launch_template_enclave_options_request option"
  sdkRltdHibernationOptions :: "sdk_launch_template_hibernation_options_request option"
  sdkRltdIamInstanceProfile :: "sdk_launch_template_iam_instance_profile_specification_request option"
  sdkRltdImageId :: "string option"
  sdkRltdInstanceInitiatedShutdownBehavior :: string
  sdkRltdInstanceMarketOptions :: "sdk_launch_template_instance_market_options_request option"
  sdkRltdInstanceRequirements :: "sdk_instance_requirements_request option"
  sdkRltdInstanceType :: string
  sdkRltdKernelId :: "string option"
  sdkRltdKeyName :: "string option"
  sdkRltdLicenseSpecifications :: "sdk_launch_template_license_configuration_request list option"
  sdkRltdMaintenanceOptions :: "sdk_launch_template_instance_maintenance_options_request option"
  sdkRltdMetadataOptions :: "sdk_launch_template_instance_metadata_options_request option"
  sdkRltdMonitoring :: "sdk_launch_templates_monitoring_request option"
  sdkRltdNetworkInterfaces :: "sdk_launch_template_instance_network_interface_specification_request list option"
  sdkRltdPlacement :: "sdk_launch_template_placement_request option"
  sdkRltdPrivateDnsNameOptions :: "sdk_launch_template_private_dns_name_options_request option"
  sdkRltdRamDiskId :: "string option"
  sdkRltdSecurityGroupIds :: "string list"
  sdkRltdSecurityGroups :: "string list"
  sdkRltdTagSpecifications :: "sdk_launch_template_tag_specification_request list option"
  sdkRltdUserData :: "string option"
  sdkRltdNetworkPerformanceOptions :: "unread option"
  sdkRltdSecondaryInterfaces :: "unread list option"

record create_template_input =
  cltLaunchTemplateData :: "sdk_request_launch_template_data option"
  cltLaunchTemplateName :: "string option"
  cltVersionDescription :: "string option"
  cltTagSpecifications :: "tag_specification list option"

record create_version_input =
  cvrLaunchTemplateData :: "sdk_request_launch_template_data option"
  cvrLaunchTemplateId :: "string option"
  cvrVersionDescription :: "string option"

record describe_versions_input =
  dvrLaunchTemplateId :: "string option"
  dvrVersions :: "string list"

record modify_template_input =
  mltLaunchTemplateName :: "string option"
  mltDefaultVersion :: "string option"

datatype (plugins only: code size) template_call =
    DescribeLaunchTemplates "string list"
  | DescribeLaunchTemplateVersions describe_versions_input
  | CreateLaunchTemplate create_template_input
  | CreateLaunchTemplateVersion create_version_input
  | ModifyLaunchTemplate modify_template_input
  | DeleteLaunchTemplate "string option"

end
