(* ===== verification/EC2_SDK.thy ===== *)
theory EC2_SDK
  imports Launch_SDK
begin

text \<open>
  The shapes of the EC2 client (\<open>aws-sdk-go-v2/service/ec2\<close>) that the controller fills in
  or reads, field by field as the sources use them, and the calls the controller issues. The
  client itself is not part of the repository: each component takes its answers as a record
  of functions of the log, so that a theorem holds for every behaviour of the service.
\<close>

subsection \<open>Tags\<close>

record tags_input =
  inResources :: "string list"
  inTags :: "sdk_tag list"

subsection \<open>Filters and pages\<close>

record filter_input =
  filterName :: string
  filterValues :: "string list"

record describe_input =
  inFilters :: "filter_input list"
  inNextToken :: "string option"

subsection \<open>Security group rules\<close>

record sdk_ip_range =
  sdkCidrIp :: "string option"
  sdkRangeDescription :: "string option"

record sdk_ipv6_range =
  sdkCidrIpv6 :: "string option"
  sdkRange6Description :: "string option"

record sdk_prefix_list_id =
  sdkPLDescription :: "string option"
  sdkPrefixListId :: "string option"

record sdk_user_id_group_pair =
  sdkPairDescription :: "string option"
  sdkGroupId :: "string option"
  sdkGroupName :: "string option"
  sdkPeeringStatus :: "string option"
  sdkUserId :: "string option"
  sdkVpcId :: "string option"
  sdkVpcPeeringConnectionId :: "string option"

record sdk_ip_permission =
  sdkFromPort :: "int32 option"
  sdkIpProtocol :: "string option"
  sdkIpRanges :: "sdk_ip_range list option"
  sdkIpv6Ranges :: "sdk_ipv6_range list option"
  sdkPrefixListIds :: "sdk_prefix_list_id list option"
  sdkToPort :: "int32 option"
  sdkUserIdGroupPairs :: "sdk_user_id_group_pair list option"

record sdk_security_group_rule =
  sdkSgrCidrIpv4 :: "string option"
  sdkSgrCidrIpv6 :: "string option"
  sdkSgrDescription :: "string option"
  sdkSgrFromPort :: "int32 option"
  sdkSgrIpProtocol :: "string option"
  sdkSgrIsEgress :: "bool option"
  sdkSgrPrefixListId :: "string option"
  sdkSgrSecurityGroupRuleId :: "string option"
  sdkSgrTags :: "sdk_tag list option"
  sdkSgrToPort :: "int32 option"
  sdkSgrGroupId :: "string option"
  sdkSgrReferencedGroupInfo :: "string option option"

record sg_rules_output =
  outSecurityGroupRules :: "sdk_security_group_rule list"
  outRulesNextToken :: "string option"

record sdk_security_group =
  sdkSgDescription :: "string option"
  sdkSgGroupId :: "string option"
  sdkSgGroupName :: "string option"
  sdkSgIpPermissions :: "sdk_ip_permission list option"
  sdkSgIpPermissionsEgress :: "sdk_ip_permission list option"
  sdkSgArn :: "string option"
  sdkSgTags :: "sdk_tag list option"
  sdkSgVpcId :: "string option"

record create_sg_output =
  outGroupId :: "string option"
  outSgArn :: "string option"
  outSgTags :: "sdk_tag list option"

record sg_rules_input =
  inGroupId :: "string option"
  inIpPermissions :: "sdk_ip_permission list"

record create_sg_input =
  csgDescription :: "string option"
  csgGroupName :: "string option"
  csgVpcId :: "string option"
  csgTagSpecifications :: "tag_specification list option"

subsection \<open>VPCs\<close>

text \<open>An enum field of the SDK is a string, empty when it was not set.\<close>

record sdk_cidr_block_state =
  sdkCbState :: string
  sdkCbStatusMessage :: "string option"

record sdk_cidr_association =
  sdkCaAssociationId :: "string option"
  sdkCaCidrBlock :: "string option"
  sdkCaCidrBlockState :: "sdk_cidr_block_state option"

record sdk_ipv6_cidr_association =
  sdkCa6AssociationId :: "string option"
  sdkCa6Ipv6CidrBlock :: "string option"
  sdkCa6Ipv6CidrBlockState :: "sdk_cidr_block_state option"
  sdkCa6Ipv6Pool :: "string option"
  sdkCa6NetworkBorderGroup :: "string option"

record sdk_vpc =
  sdkVpcCidrBlock :: "string option"
  sdkVpcCidrBlockAssociationSet :: "sdk_cidr_association list option"
  sdkVpcDhcpOptionsId :: "string option"
  sdkVpcInstanceTenancy :: string
  sdkVpcIpv6CidrBlockAssociationSet :: "sdk_ipv6_cidr_association list option"
  sdkVpcIsDefault :: "bool option"
  sdkVpcOwnerId :: "string option"
  sdkVpcState :: string
  sdkVpcTags :: "sdk_tag list option"
  sdkVpcVpcId :: "string option"

record create_vpc_input =
  cvAmazonProvidedIpv6CidrBlock :: "bool option"
  cvCidrBlock :: "string option"
  cvInstanceTenancy :: string
  cvIpv4IpamPoolId :: "string option"
  cvIpv4NetmaskLength :: "int32 option"
  cvIpv6CidrBlock :: "string option"
  cvIpv6CidrBlockNetworkBorderGroup :: "string option"
  cvIpv6IpamPoolId :: "string option"
  cvIpv6NetmaskLength :: "int32 option"
  cvIpv6Pool :: "string option"
  cvTagSpecifications :: "tag_specification list option"

text \<open>\<open>AttributeBooleanValue\<close>: a struct whose one field is a pointer.\<close>

type_synonym attribute_boolean = "bool option"

record modify_vpc_attribute_input =
  mvVpcId :: "string option"
  mvEnableDnsSupport :: "attribute_boolean option"
  mvEnableDnsHostnames :: "attribute_boolean option"
  mvEnableNetworkAddressUsageMetrics :: "attribute_boolean option"

record describe_vpc_attribute_output =
  dvEnableDnsSupport :: "attribute_boolean option"
  dvEnableDnsHostnames :: "attribute_boolean option"
  dvEnableNetworkAddressUsageMetrics :: "attribute_boolean option"

subsection \<open>Route tables\<close>

record sdk_route =
  sdkRoCarrierGatewayId :: "string option"
  sdkRoCoreNetworkArn :: "string option"
  sdkRoDestinationCidrBlock :: "string option"
  sdkRoDestinationIpv6CidrBlock :: "string option"
  sdkRoDestinationPrefixListId :: "string option"
  sdkRoEgressOnlyInternetGatewayId :: "string option"
  sdkRoGatewayId :: "string option"
  sdkRoInstanceId :: "string option"
  sdkRoInstanceOwnerId :: "string option"
  sdkRoLocalGatewayId :: "string option"
  sdkRoNatGatewayId :: "string option"
  sdkRoNetworkInterfaceId :: "string option"
  sdkRoOrigin :: string
  sdkRoState :: string
  sdkRoTransitGatewayId :: "string option"
  sdkRoVpcPeeringConnectionId :: "string option"

record sdk_association_state =
  sdkAsState :: string
  sdkAsStatusMessage :: "string option"

record sdk_route_table_association =
  sdkRtaAssociationState :: "sdk_association_state option"
  sdkRtaGatewayId :: "string option"
  sdkRtaMain :: "bool option"
  sdkRtaRouteTableAssociationId :: "string option"
  sdkRtaRouteTableId :: "string option"
  sdkRtaSubnetId :: "string option"

record sdk_route_table =
  sdkRtAssociations :: "sdk_route_table_association list option"
  sdkRtOwnerId :: "string option"
  sdkRtPropagatingVgws :: "string option list option"
  sdkRtRouteTableId :: "string option"
  sdkRtRoutes :: "sdk_route list option"
  sdkRtTags :: "sdk_tag list option"
  sdkRtVpcId :: "string option"

record describe_tables_input =
  dtRouteTableIds :: "string list"
  dtFilters :: "filter_input list"
  dtNextToken :: "string option"

record route_tables_output =
  outRouteTables :: "sdk_route_table list"
  outTablesNextToken :: "string option"

record create_route_request =
  crqCarrierGatewayId :: "string option"
  crqCoreNetworkArn :: "string option"
  crqDestinationCidrBlock :: "string option"
  crqDestinationIpv6CidrBlock :: "string option"
  crqDestinationPrefixListId :: "string option"
  crqEgressOnlyInternetGatewayId :: "string option"
  crqGatewayId :: "string option"
  crqInstanceId :: "string option"
  crqLocalGatewayId :: "string option"
  crqNatGatewayId :: "string option"
  crqNetworkInterfaceId :: "string option"
  crqTransitGatewayId :: "string option"
  crqVpcEndpointId :: "string option"
  crqVpcPeeringConnectionId :: "string option"
  crqRouteTableId :: "string option"

record delete_route_request =
  drqDestinationCidrBlock :: "string option"
  drqDestinationIpv6CidrBlock :: "string option"
  drqDestinationPrefixListId :: "string option"
  drqRouteTableId :: "string option"

record managed_prefix_list =
  mplOwnerId :: "string option"
  mplPrefixListId :: "string option"

text \<open>What \<open>CreateRouteTable\<close>, \<open>CreateNetworkAcl\<close> and \<open>CreateInternetGateway\<close> send.\<close>

record create_in_vpc_input =
  civVpcId :: "string option"
  civTagSpecifications :: "tag_specification list option"

subsection \<open>Network ACLs\<close>

record sdk_icmp_type_code =
  sdkIcmpCode :: "int32 option"
  sdkIcmpType :: "int32 option"

record sdk_port_range =
  sdkPortFrom :: "int32 option"
  sdkPortTo :: "int32 option"

record sdk_acl_entry =
  sdkNeCidrBlock :: "string option"
  sdkNeEgress :: "bool option"
  sdkNeIcmpTypeCode :: "sdk_icmp_type_code option"
  sdkNeIpv6CidrBlock :: "string option"
  sdkNePortRange :: "sdk_port_range option"
  sdkNeProtocol :: "string option"
  sdkNeRuleAction :: string
  sdkNeRuleNumber :: "int32 option"

record acl_entry_input = sdk_acl_entry +
  neNetworkAclId :: "string option"

record delete_acl_entry_input =
  dneEgress :: "bool option"
  dneRuleNumber :: "int32 option"
  dneNetworkAclId :: "string option"

record sdk_acl_association =
  sdkNaNetworkAclAssociationId :: "string option"
  sdkNaNetworkAclId :: "string option"
  sdkNaSubnetId :: "string option"

record sdk_network_acl =
  sdkNaclAssociations :: "sdk_acl_association list option"
  sdkNaclEntries :: "sdk_acl_entry list option"
  sdkNaclIsDefault :: "bool option"
  sdkNaclNetworkAclId :: "string option"
  sdkNaclOwnerId :: "string option"
  sdkNaclTags :: "sdk_tag list option"
  sdkNaclVpcId :: "string option"

subsection \<open>Subnets and internet gateways\<close>

record sdk_dns_options =
  sdkDnsAAAARecord :: "bool option"
  sdkDnsARecord :: "bool option"
  sdkDnsHostnameType :: string

record sdk_subnet =
  sdkSnAssignIpv6AddressOnCreation :: "bool option"
  sdkSnAvailabilityZone :: "string option"
  sdkSnAvailabilityZoneId :: "string option"
  sdkSnAvailableIpAddressCount :: "int32 option"
  sdkSnCidrBlock :: "string option"
  sdkSnCustomerOwnedIpv4Pool :: "string option"
  sdkSnDefaultForAz :: "bool option"
  sdkSnEnableDns64 :: "bool option"
  sdkSnEnableLniAtDeviceIndex :: "int32 option"
  sdkSnIpv6CidrBlockAssociationSet :: "sdk_ipv6_cidr_association list option"
  sdkSnIpv6Native :: "bool option"
  sdkSnMapCustomerOwnedIpOnLaunch :: "bool option"
  sdkSnMapPublicIpOnLaunch :: "bool option"
  sdkSnOutpostArn :: "string option"
  sdkSnOwnerId :: "string option"
  sdkSnPrivateDnsNameOptionsOnLaunch :: "sdk_dns_options option"
  sdkSnState :: string
  sdkSnSubnetArn :: "string option"
  sdkSnSubnetId :: "string option"
  sdkSnTags :: "sdk_tag list option"
  sdkSnVpcId :: "string option"

record create_subnet_input =
  csnAvailabilityZone :: "string option"
  csnAvailabilityZoneId :: "string option"
  csnCidrBlock :: "string option"
  csnIpv6CidrBlock :: "string option"
  csnIpv6Native :: "bool option"
  csnOutpostArn :: "string option"
  csnVpcId :: "string option"
  csnTagSpecifications :: "tag_specification list option"

record modify_subnet_attribute_input =
  msSubnetId :: "string option"
  msAssignIpv6AddressOnCreation :: "attribute_boolean option"
  msMapCustomerOwnedIpOnLaunch :: "attribute_boolean option"
  msCustomerOwnedIpv4Pool :: "string option"
  msEnableDns64 :: "attribute_boolean option"
  msEnableResourceNameDnsAAAARecordOnLaunch :: "attribute_boolean option"
  msEnableResourceNameDnsARecordOnLaunch :: "attribute_boolean option"
  msPrivateDnsHostnameTypeOnLaunch :: string
  msMapPublicIpOnLaunch :: "attribute_boolean option"

record associate_table_input =
  atRouteTableId :: "string option"
  atSubnetId :: "string option"
  atGatewayId :: "string option"

record sdk_gateway_attachment =
  sdkGaState :: string
  sdkGaVpcId :: "string option"

record sdk_internet_gateway =
  sdkIgAttachments :: "sdk_gateway_attachment list option"
  sdkIgInternetGatewayId :: "string option"
  sdkIgOwnerId :: "string option"
  sdkIgTags :: "sdk_tag list option"

subsection \<open>DHCP options\<close>

text \<open>An attribute value is a struct with the one field \<open>Value\<close>.\<close>

record sdk_dhcp_configuration =
  sdkDcKey :: "string option"
  sdkDcValues :: "string option list option"

record sdk_dhcp_options =
  sdkDhDhcpConfigurations :: "sdk_dhcp_configuration list option"
  sdkDhDhcpOptionsId :: "string option"
  sdkDhOwnerId :: "string option"
  sdkDhTags :: "sdk_tag list option"

record new_dhcp_configuration =
  ndcKey :: "string option"
  ndcValues :: "string list"

record create_dhcp_input =
  cdhDhcpConfigurations :: "new_dhcp_configuration list option"
  cdhTagSpecifications :: "tag_specification list option"

datatype dhcp_call =
    DescribeDhcpOptions "string list"
  | CreateDhcpOptions create_dhcp_input
  | DeleteDhcpOptions "string option"
  | AssociateDhcpOptions "string option" "string option"
  | DescribeVpcsWith "filter_input list"

subsection \<open>Managed prefix lists\<close>

record sdk_prefix_list_entry =
  sdkPeCidr :: "string option"
  sdkPeDescription :: "string option"

record sdk_managed_prefix_list =
  sdkMplAddressFamily :: "string option"
  sdkMplMaxEntries :: "int32 option"
  sdkMplOwnerId :: "string option"
  sdkMplPrefixListArn :: "string option"
  sdkMplPrefixListId :: "string option"
  sdkMplPrefixListName :: "string option"
  sdkMplState :: string
  sdkMplStateMessage :: "string option"
  sdkMplTags :: "sdk_tag list option"
  sdkMplVersion :: "int64 option"

record create_prefix_list_input =
  cplAddressFamily :: "string option"
  cplEntries :: "sdk_prefix_list_entry list option"
  cplMaxEntries :: "int32 option"
  cplPrefixListName :: "string option"
  cplTagSpecifications :: "tag_specification list option"

text \<open>An entry to remove is a struct with the one field \<open>Cidr\<close>.\<close>

record modify_prefix_list_input =
  mpiPrefixListId :: "string option"
  mpiPrefixListName :: "string option"
  mpiMaxEntries :: "int32 option"
  mpiAddEntries :: "sdk_prefix_list_entry list"
  mpiRemoveEntries :: "string option list"
  mpiCurrentVersion :: "int64 option"

datatype prefix_list_call =
    DescribePrefixLists "string list"
  | GetManagedPrefixListEntries "string option"
  | CreateManagedPrefixList create_prefix_list_input
  | ModifyManagedPrefixList modify_prefix_list_input
  | DeleteManagedPrefixList "string option"

subsection \<open>Attachments of a VPC to a transit gateway\<close>

record sdk_attachment_options =
  sdkAoApplianceModeSupport :: string
  sdkAoDnsSupport :: string
  sdkAoIpv6Support :: string
  sdkAoSecurityGroupReferencingSupport :: string

record sdk_vpc_attachment =
  sdkTvaCreationTime :: "timestamp option"
  sdkTvaOptions :: "sdk_attachment_options option"
  sdkTvaState :: string
  sdkTvaSubnetIds :: "string list"
  sdkTvaTags :: "sdk_tag list option"
  sdkTvaTransitGatewayAttachmentId :: "string option"
  sdkTvaTransitGatewayId :: "string option"
  sdkTvaVpcId :: "string option"
  sdkTvaVpcOwnerId :: "string option"

record create_attachment_input =
  ctaOptions :: "sdk_attachment_options option"
  ctaSubnetIds :: "string list"
  ctaTransitGatewayId :: "string option"
  ctaVpcId :: "string option"
  ctaTagSpecifications :: "tag_specification list option"

record modify_attachment_input =
  mtaOptions :: "sdk_attachment_options option"
  mtaTransitGatewayAttachmentId :: "string option"
  mtaAddSubnetIds :: "string list"
  mtaRemoveSubnetIds :: "string list"

datatype attachment_call =
    DescribeTransitGatewayVpcAttachments "string list"
  | CreateTransitGatewayVpcAttachment create_attachment_input
  | ModifyTransitGatewayVpcAttachment modify_attachment_input
  | DeleteTransitGatewayVpcAttachment "string option"

subsection \<open>VPC peering connections\<close>

record sdk_peering_options =
  sdkPoAllowDnsResolutionFromRemoteVpc :: "bool option"
  sdkPoAllowEgressFromLocalClassicLinkToRemoteVpc :: "bool option"
  sdkPoAllowEgressFromLocalVpcToRemoteClassicLink :: "bool option"

text \<open>A CIDR block of a set is a struct with one field.\<close>

record sdk_peering_vpc_info =
  sdkPvCidrBlock :: "string option"
  sdkPvCidrBlockSet :: "string option list option"
  sdkPvIpv6CidrBlockSet :: "string option list option"
  sdkPvOwnerId :: "string option"
  sdkPvPeeringOptions :: "sdk_peering_options option"
  sdkPvRegion :: "string option"
  sdkPvVpcId :: "string option"

record sdk_peering_state =
  sdkPsCode :: string
  sdkPsMessage :: "string option"

record sdk_peering_connection =
  sdkPcAccepterVpcInfo :: "sdk_peering_vpc_info option"
  sdkPcExpirationTime :: "timestamp option"
  sdkPcRequesterVpcInfo :: "sdk_peering_vpc_info option"
  sdkPcStatus :: "sdk_peering_state option"
  sdkPcTags :: "sdk_tag list option"
  sdkPcVpcPeeringConnectionId :: "string option"

record create_peering_input =
  cpcPeerOwnerId :: "string option"
  cpcPeerRegion :: "string option"
  cpcPeerVpcId :: "string option"
  cpcVpcId :: "string option"
  cpcTagSpecifications :: "tag_specification list option"

record modify_peering_options =
  mpoAccepterPeeringConnectionOptions :: "sdk_peering_options option"
  mpoRequesterPeeringConnectionOptions :: "sdk_peering_options option"

record modify_peering_input = modify_peering_options +
  mpoVpcPeeringConnectionId :: "string option"

datatype peering_call =
    DescribeVpcPeeringConnections "string list"
  | CreateVpcPeeringConnection create_peering_input
  | AcceptVpcPeeringConnection "string option"
  | ModifyVpcPeeringConnectionOptions modify_peering_input
  | DeleteVpcPeeringConnection "string option"

subsection \<open>VPC endpoints\<close>

record sdk_endpoint_dns =
  sdkEdDnsRecordIpType :: string
  sdkEdPrivateDnsPreference :: "string option"
  sdkEdPrivateDnsSpecifiedDomains :: "string list"

record sdk_dns_entry =
  sdkDeDnsName :: "string option"
  sdkDeHostedZoneId :: "string option"

record sdk_group_identifier =
  sdkGiGroupId :: "string option"
  sdkGiGroupName :: "string option"

record sdk_last_error =
  sdkLeCode :: "string option"
  sdkLeMessage :: "string option"

record sdk_vpc_endpoint =
  sdkVeCreationTimestamp :: "timestamp option"
  sdkVeDnsEntries :: "sdk_dns_entry list option"
  sdkVeDnsOptions :: "sdk_endpoint_dns option"
  sdkVeGroups :: "sdk_group_identifier list option"
  sdkVeIpAddressType :: string
  sdkVeLastError :: "sdk_last_error option"
  sdkVeNetworkInterfaceIds :: "string list"
  sdkVeOwnerId :: "string option"
  sdkVePolicyDocument :: "string option"
  sdkVePrivateDnsEnabled :: "bool option"
  sdkVeRequesterManaged :: "bool option"
  sdkVeRouteTableIds :: "string list"
  sdkVeServiceName :: "string option"
  sdkVeServiceNetworkArn :: "string option"
  sdkVeServiceRegion :: "string option"
  sdkVeState :: string
  sdkVeSubnetIds :: "string list"
  sdkVeTags :: "sdk_tag list option"
  sdkVeVpcEndpointId :: "string option"
  sdkVeVpcEndpointType :: string
  sdkVeVpcId :: "string option"

record create_endpoint_input =
  cveDnsOptions :: "sdk_endpoint_dns option"
  cveIpAddressType :: string
  cvePolicyDocument :: "string option"
  cvePrivateDnsEnabled :: "bool option"
  cveRouteTableIds :: "string list"
  cveSecurityGroupIds :: "string list"
  cveServiceName :: "string option"
  cveServiceNetworkArn :: "string option"
  cveServiceRegion :: "string option"
  cveSubnetIds :: "string list"
  cveVpcEndpointType :: string
  cveVpcId :: "string option"
  cveTagSpecifications :: "tag_specification list option"

record modify_endpoint_input =
  mveVpcEndpointId :: "string option"
  mveAddSubnetIds :: "string list"
  mveRemoveSubnetIds :: "string list"
  mveAddRouteTableIds :: "string list"
  mveRemoveRouteTableIds :: "string list"
  mvePolicyDocument :: "string option"
  mvePrivateDnsEnabled :: "bool option"
  mveAddSecurityGroupIds :: "string list"
  mveRemoveSecurityGroupIds :: "string list"
  mveDnsOptions :: "sdk_endpoint_dns option"
  mveIpAddressType :: string

datatype endpoint_call =
    DescribeVpcEndpoints "string list"
  | CreateVpcEndpoint create_endpoint_input
  | ModifyVpcEndpoint modify_endpoint_input
  | DeleteVpcEndpoints "string list"

subsection \<open>Endpoint services\<close>

record sdk_dns_name_configuration =
  sdkDnName :: "string option"
  sdkDnState :: string
  sdkDnType :: "string option"
  sdkDnValue :: "string option"

record sdk_supported_region =
  sdkSrRegion :: "string option"
  sdkSrServiceState :: "string option"

text \<open>A detail of the service type is a struct with the one field \<open>ServiceType\<close>.\<close>

record sdk_service_configuration =
  sdkScAcceptanceRequired :: "bool option"
  sdkScAvailabilityZones :: "string list"
  sdkScBaseEndpointDnsNames :: "string list"
  sdkScGatewayLoadBalancerArns :: "string list"
  sdkScManagesVpcEndpoints :: "bool option"
  sdkScNetworkLoadBalancerArns :: "string list"
  sdkScPayerResponsibility :: string
  sdkScPrivateDnsName :: "string option"
  sdkScPrivateDnsNameConfiguration :: "sdk_dns_name_configuration option"
  sdkScServiceId :: "string option"
  sdkScServiceName :: "string option"
  sdkScServiceState :: string
  sdkScServiceType :: "string list option"
  sdkScSupportedIpAddressTypes :: "string list"
  sdkScSupportedRegions :: "sdk_supported_region list option"
  sdkScTags :: "sdk_tag list option"

record create_service_input =
  cscAcceptanceRequired :: "bool option"
  cscGatewayLoadBalancerArns :: "string list"
  cscNetworkLoadBalancerArns :: "string list"
  cscPrivateDnsName :: "string option"
  cscSupportedIpAddressTypes :: "string list"
  cscSupportedRegions :: "string list"
  cscTagSpecifications :: "tag_specification list option"

record modify_service_input =
  mscServiceId :: "string option"
  mscAcceptanceRequired :: "bool option"
  mscPrivateDnsName :: "string option"
  mscAddSupportedRegions :: "string list"
  mscRemoveSupportedRegions :: "string list"

record modify_permissions_input =
  mspServiceId :: "string option"
  mspAddAllowedPrincipals :: "string list"
  mspRemoveAllowedPrincipals :: "string list"

text \<open>An unsuccessful item carries an error, a struct with a code and a message.\<close>

record sdk_unsuccessful_item =
  sdkUiError :: "sdk_last_error option"
  sdkUiResourceId :: "string option"

datatype service_call =
    DescribeVpcEndpointServiceConfigurations "string list"
  | CreateVpcEndpointServiceConfiguration create_service_input
  | ModifyVpcEndpointServiceConfiguration modify_service_input
  | DeleteVpcEndpointServiceConfigurations "string list"
  | ModifyVpcEndpointServicePermissions modify_permissions_input
  | DescribeVpcEndpointServicePermissions "string option"

subsection \<open>NAT gateways\<close>

record sdk_nat_address =
  sdkNgaAllocationId :: "string option"
  sdkNgaAvailabilityZone :: "string option"
  sdkNgaAvailabilityZoneId :: "string option"
  sdkNgaNetworkInterfaceId :: "string option"
  sdkNgaPrivateIp :: "string option"
  sdkNgaPublicIp :: "string option"

record sdk_provisioned_bandwidth =
  sdkPbProvisionTime :: "timestamp option"
  sdkPbProvisioned :: "string option"
  sdkPbRequestTime :: "timestamp option"
  sdkPbRequested :: "string option"
  sdkPbStatus :: "string option"

record sdk_nat_gateway =
  sdkNgAvailabilityMode :: string
  sdkNgConnectivityType :: string
  sdkNgCreateTime :: "timestamp option"
  sdkNgDeleteTime :: "timestamp option"
  sdkNgFailureCode :: "string option"
  sdkNgFailureMessage :: "string option"
  sdkNgNatGatewayAddresses :: "sdk_nat_address list option"
  sdkNgNatGatewayId :: "string option"
  sdkNgProvisionedBandwidth :: "sdk_provisioned_bandwidth option"
  sdkNgState :: string
  sdkNgSubnetId :: "string option"
  sdkNgTags :: "sdk_tag list option"
  sdkNgVpcId :: "string option"

record sdk_zone_address =
  sdkZaAllocationIds :: "string list"
  sdkZaAvailabilityZone :: "string option"
  sdkZaAvailabilityZoneId :: "string option"

record create_nat_input =
  cngAllocationId :: "string option"
  cngAvailabilityMode :: string
  cngAvailabilityZoneAddresses :: "sdk_zone_address list option"
  cngConnectivityType :: string
  cngSubnetId :: "string option"
  cngVpcId :: "string option"
  cngTagSpecifications :: "tag_specification list option"

datatype nat_call =
    DescribeNatGateways "string list"
  | CreateNatGateway create_nat_input
  | DeleteNatGateway "string option"

subsection \<open>Transit gateways\<close>

record sdk_transit_options =
  sdkToAmazonSideAsn :: "int64 option"
  sdkToAutoAcceptSharedAttachments :: string
  sdkToDefaultRouteTableAssociation :: string
  sdkToDefaultRouteTablePropagation :: string
  sdkToDnsSupport :: string
  sdkToMulticastSupport :: string
  sdkToTransitGatewayCidrBlocks :: "string list"
  sdkToVpnEcmpSupport :: string

record sdk_transit_gateway =
  sdkTgCreationTime :: "timestamp option"
  sdkTgDescription :: "string option"
  sdkTgOptions :: "sdk_transit_options option"
  sdkTgOwnerId :: "string option"
  sdkTgState :: string
  sdkTgTags :: "sdk_tag list option"
  sdkTgTransitGatewayArn :: "string option"
  sdkTgTransitGatewayId :: "string option"

record create_transit_input =
  ctgDescription :: "string option"
  ctgOptions :: "sdk_transit_options option"
  ctgTagSpecifications :: "tag_specification list option"

datatype transit_call =
    DescribeTransitGateways "string list"
  | CreateTransitGateway create_transit_input
  | DeleteTransitGateway "string option"

subsection \<open>Elastic IP addresses\<close>

record sdk_address =
  sdkAdAllocationId :: "string option"
  sdkAdCarrierIp :: "string option"
  sdkAdCustomerOwnedIp :: "string option"
  sdkAdCustomerOwnedIpv4Pool :: "string option"
  sdkAdNetworkBorderGroup :: "string option"
  sdkAdPublicIp :: "string option"
  sdkAdPublicIpv4Pool :: "string option"

record sdk_tagged_address = sdk_address +
  sdkAdTags :: "sdk_tag list option"

record describe_addresses_input =
  daAllocationIds :: "string list"
  daPublicIps :: "string list"

record allocate_address_input =
  aaAddress :: "string option"
  aaCustomerOwnedIpv4Pool :: "string option"
  aaNetworkBorderGroup :: "string option"
  aaPublicIpv4Pool :: "string option"
  aaDomain :: string
  aaTagSpecifications :: "tag_specification list option"

record release_address_input =
  raAllocationId :: "string option"
  raNetworkBorderGroup :: "string option"
  raPublicIp :: "string option"

datatype address_call =
    DescribeAddresses describe_addresses_input
  | AllocateAddress allocate_address_input
  | ReleaseAddress release_address_input

subsection \<open>Egress-only internet gateways\<close>

record sdk_egress_gateway =
  sdkEgAttachments :: "sdk_gateway_attachment list option"
  sdkEgEgressOnlyInternetGatewayId :: "string option"
  sdkEgTags :: "sdk_tag list option"

datatype egress_call =
    DescribeEgressOnlyInternetGateways "string list"
  | CreateEgressOnlyInternetGateway create_in_vpc_input
  | DeleteEgressOnlyInternetGateway "string option"

subsection \<open>Flow logs\<close>

record sdk_destination_options =
  sdkDoFileFormat :: string
  sdkDoHiveCompatiblePartitions :: "bool option"
  sdkDoPerHourPartition :: "bool option"

record sdk_flow_log =
  sdkFlDeliverLogsPermissionArn :: "string option"
  sdkFlDestinationOptions :: "sdk_destination_options option"
  sdkFlLogDestination :: "string option"
  sdkFlLogDestinationType :: string
  sdkFlLogFormat :: "string option"
  sdkFlLogGroupName :: "string option"
  sdkFlMaxAggregationInterval :: "int32 option"
  sdkFlTags :: "sdk_tag list option"
  sdkFlTrafficType :: string

record create_flow_logs_input =
  cflDeliverLogsPermissionArn :: "string option"
  cflDestinationOptions :: "sdk_destination_options option"
  cflLogDestination :: "string option"
  cflLogDestinationType :: string
  cflLogFormat :: "string option"
  cflLogGroupName :: "string option"
  cflMaxAggregationInterval :: "int32 option"
  cflResourceType :: string
  cflTrafficType :: string
  cflResourceIds :: "string list"
  cflTagSpecifications :: "tag_specification list option"

record create_flow_logs_output =
  outFlClientToken :: "string option"
  outFlFlowLogIds :: "string list"
  outFlUnsuccessful :: "sdk_unsuccessful_item list option"

datatype flow_log_call =
    DescribeFlowLogs "string list"
  | CreateFlowLogs create_flow_logs_input
  | DeleteFlowLogs "string list"

subsection \<open>Capacity reservations\<close>

record sdk_capacity_allocation =
  sdkCpaAllocationType :: string
  sdkCpaCount :: "int32 option"

record sdk_commitment_info =
  sdkCiCommitmentEndDate :: "timestamp option"
  sdkCiCommittedInstanceCount :: "int32 option"

record sdk_capacity_reservation =
  sdkCrAvailabilityZone :: "string option"
  sdkCrAvailabilityZoneId :: "string option"
  sdkCrAvailableInstanceCount :: "int32 option"
  sdkCrCapacityAllocations :: "sdk_capacity_allocation list option"
  sdkCrCapacityReservationArn :: "string option"
  sdkCrCapacityReservationFleetId :: "string option"
  sdkCrCapacityReservationId :: "string option"
  sdkCrCommitmentInfo :: "sdk_commitment_info option"
  sdkCrCreateDate :: "timestamp option"
  sdkCrDeliveryPreference :: string
  sdkCrEbsOptimized :: "bool option"
  sdkCrEndDate :: "timestamp option"
  sdkCrEndDateType :: string
  sdkCrEphemeralStorage :: "bool option"
  sdkCrInstanceMatchCriteria :: string
  sdkCrInstancePlatform :: string
  sdkCrInstanceType :: "string option"
  sdkCrOutpostArn :: "string option"
  sdkCrOwnerId :: "string option"
  sdkCrPlacementGroupArn :: "string option"
  sdkCrReservationType :: string
  sdkCrStartDate :: "timestamp option"
  sdkCrState :: string
  sdkCrTags :: "sdk_tag list option"
  sdkCrTenancy :: string
  sdkCrTotalInstanceCount :: "int32 option"
  sdkCrUnusedReservationBillingOwnerId :: "string option"

record create_reservation_input =
  ccrAvailabilityZone :: "string option"
  ccrAvailabilityZoneId :: "string option"
  ccrCommitmentDuration :: "int64 option"
  ccrDeliveryPreference :: string
  ccrEbsOptimized :: "bool option"
  ccrEndDate :: "timestamp option"
  ccrEndDateType :: string
  ccrEphemeralStorage :: "bool option"
  ccrInstanceCount :: "int32 option"
  ccrInstanceMatchCriteria :: string
  ccrInstancePlatform :: string
  ccrInstanceType :: "string option"
  ccrOutpostArn :: "string option"
  ccrPlacementGroupArn :: "string option"
  ccrStartDate :: "timestamp option"
  ccrTenancy :: string
  ccrTagSpecifications :: "tag_specification list option"

record modify_reservation_input =
  mcrAdditionalInfo :: "string option"
  mcrCapacityReservationId :: "string option"
  mcrEndDate :: "timestamp option"
  mcrEndDateType :: string
  mcrInstanceCount :: "int32 option"
  mcrInstanceMatchCriteria :: string

datatype reservation_call =
    DescribeCapacityReservations "string list"
  | CreateCapacityReservation create_reservation_input
  | ModifyCapacityReservation modify_reservation_input
  | CancelCapacityReservation "string option"

subsection \<open>Calls\<close>

text \<open>The calls that only one kind issues, kind by kind.\<close>

datatype (plugins only: code size) kind_call =
    OfDhcpOptions dhcp_call
  | OfPrefixList prefix_list_call
  | OfAttachment attachment_call
  | OfPeering peering_call
  | OfEndpoint endpoint_call
  | OfService service_call
  | OfNatGateway nat_call
  | OfTransitGateway transit_call
  | OfAddress address_call
  | OfEgressGateway egress_call
  | OfFlowLog flow_log_call
  | OfReservation reservation_call
  | OfInstance instance_call
  | OfTemplate template_call

datatype (plugins only: code size) call =
    CreateTags tags_input
  | DeleteTags tags_input
  | AuthorizeSecurityGroupIngress sg_rules_input
  | AuthorizeSecurityGroupEgress sg_rules_input
  | RevokeSecurityGroupIngress sg_rules_input
  | RevokeSecurityGroupEgress sg_rules_input
  | DescribeSecurityGroupRules describe_input
  | DescribeSecurityGroups "string list" "filter_input list"
  | CreateSecurityGroup create_sg_input
  | DeleteSecurityGroup "string option"
  | DescribeVpcs "string list"
  | CreateVpc create_vpc_input
  | DeleteVpc "string option"
  | DescribeVpcAttribute string string
  | ModifyVpcAttribute modify_vpc_attribute_input
  | AssociateVpcCidrBlock "string option" "string option"
  | DisassociateVpcCidrBlock "string option"
  | DescribeRouteTables describe_tables_input
  | CreateRouteTable create_in_vpc_input
  | DeleteRouteTable "string option"
  | CreateRoute create_route_request
  | DeleteRoute delete_route_request
  | DescribeManagedPrefixLists "string list"
  | DescribeNetworkAcls "string list" "filter_input list"
  | CreateNetworkAcl create_in_vpc_input
  | DeleteNetworkAcl "string option"
  | CreateNetworkAclEntry acl_entry_input
  | ReplaceNetworkAclEntry acl_entry_input
  | DeleteNetworkAclEntry delete_acl_entry_input
  | ReplaceNetworkAclAssociation "string option" "string option"
  | DescribeSubnets "string list"
  | CreateSubnet create_subnet_input
  | DeleteSubnet "string option"
  | ModifySubnetAttribute modify_subnet_attribute_input
  | AssociateRouteTable associate_table_input
  | DisassociateRouteTable "string option"
  | DescribeInternetGateways "string list"
  | CreateInternetGateway create_in_vpc_input
  | DeleteInternetGateway "string option"
  | AttachInternetGateway "string option" "string option"
  | DetachInternetGateway "string option" "string option"
  | KindCall kind_call

abbreviation DhcpCall where "DhcpCall c \<equiv> KindCall (OfDhcpOptions c)"
abbreviation PrefixListCall where "PrefixListCall c \<equiv> KindCall (OfPrefixList c)"
abbreviation AttachmentCall where "AttachmentCall c \<equiv> KindCall (OfAttachment c)"
abbreviation PeeringCall where "PeeringCall c \<equiv> KindCall (OfPeering c)"
abbreviation EndpointCall where "EndpointCall c \<equiv> KindCall (OfEndpoint c)"
abbreviation ServiceCall where "ServiceCall c \<equiv> KindCall (OfService c)"
abbreviation NatCall where "NatCall c \<equiv> KindCall (OfNatGateway c)"
abbreviation TransitCall where "TransitCall c \<equiv> KindCall (OfTransitGateway c)"
abbreviation AddressCall where "AddressCall c \<equiv> KindCall (OfAddress c)"
abbreviation EgressCall where "EgressCall c \<equiv> KindCall (OfEgressGateway c)"
abbreviation FlowLogCall where "FlowLogCall c \<equiv> KindCall (OfFlowLog c)"
abbreviation ReservationCall where "ReservationCall c \<equiv> KindCall (OfReservation c)"
abbreviation InstanceCall where "InstanceCall c \<equiv> KindCall (OfInstance c)"
abbreviation TemplateCall where "TemplateCall c \<equiv> KindCall (OfTemplate c)"

type_synonym 'a act = "(call, 'a) go"

end
