(* ===== verification/Diffs.thy ===== *)
theory Diffs
  imports Go_Prelude
begin

text \<open>
  What every two-way difference of the controller promises. Many sync functions compare a
  desired and a latest collection and derive what to add and what to remove; the contract
  is stated once here, up to the \<open>key\<close> by which the function takes two elements to be the
  same, and each component interprets it on its own function.
\<close>

lemma key_filter: "k ` set (filter (\<lambda>x. \<not> (\<exists>r \<in> set B. k r = k x)) A) = k ` set A - k ` set B"
  by (auto simp: image_iff) metis+

locale two_way_diff =
  fixes key :: "'a \<Rightarrow> 'k" and diff :: "'a list \<Rightarrow> 'a list \<Rightarrow> 'a list \<times> 'a list"
  assumes key_toAdd: "key ` set (fst (diff desired latest)) = key ` set desired - key ` set latest"
    and key_toDelete: "key ` set (snd (diff desired latest)) = key ` set latest - key ` set desired"
begin

lemma converges:
  "(key ` set latest - key ` set (snd (diff desired latest))) \<union> key ` set (fst (diff desired latest))
     = key ` set desired"
  by (auto simp: key_toAdd key_toDelete)

lemma disjoint: "key ` set (fst (diff desired latest)) \<inter> key ` set (snd (diff desired latest)) = {}"
  by (auto simp: key_toAdd key_toDelete)

lemma idle_iff: "diff desired latest = ([], []) \<longleftrightarrow> key ` set desired = key ` set latest"
proof
  assume "diff desired latest = ([], [])"
  then have "key ` set desired - key ` set latest = {}" and "key ` set latest - key ` set desired = {}"
    using key_toAdd [of desired latest] key_toDelete [of desired latest] by simp_all
  then show "key ` set desired = key ` set latest" by blast
next
  assume "key ` set desired = key ` set latest"
  then show "diff desired latest = ([], [])"
    using key_toAdd [of desired latest] key_toDelete [of desired latest]
    by (cases "diff desired latest") simp
qed

lemma keeps_common:
  "x \<in> set desired \<Longrightarrow> key x \<in> key ` set latest \<Longrightarrow> key x \<notin> key ` set (snd (diff desired latest))"
  by (auto simp: key_toDelete)

lemma second_pass_idle:
  assumes "key ` set latest' =
    (key ` set latest - key ` set (snd (diff desired latest))) \<union> key ` set (fst (diff desired latest))"
  shows "diff desired latest' = ([], [])"
  using assms converges by (simp add: idle_iff)

end

text \<open>
  The same for differences that count: an element that occurs twice on one side and once on
  the other is a difference.
\<close>

locale bag_diff =
  fixes key :: "'a \<Rightarrow> 'k" and diff :: "'a list \<Rightarrow> 'a list \<Rightarrow> 'a list \<times> 'a list"
  assumes bag_toAdd: "image_mset key (mset (fst (diff desired latest)))
      = image_mset key (mset desired) - image_mset key (mset latest)"
    and bag_toDelete: "image_mset key (mset (snd (diff desired latest)))
      = image_mset key (mset latest) - image_mset key (mset desired)"
begin

lemma bag_converges:
  "image_mset key (mset latest) - image_mset key (mset (snd (diff desired latest)))
     + image_mset key (mset (fst (diff desired latest))) = image_mset key (mset desired)"
  unfolding bag_toAdd bag_toDelete by (rule multiset_eqI) simp

lemma bag_idle_iff: "diff desired latest = ([], []) \<longleftrightarrow> image_mset key (mset desired) = image_mset key (mset latest)"
proof
  assume "diff desired latest = ([], [])"
  then show "image_mset key (mset desired) = image_mset key (mset latest)"
    using bag_converges [of latest desired] by simp
next
  assume "image_mset key (mset desired) = image_mset key (mset latest)"
  then show "diff desired latest = ([], [])"
    using bag_toAdd [of desired latest] bag_toDelete [of desired latest]
    by (cases "diff desired latest") simp
qed

end

text \<open>Between lists without repeated keys, a difference that counts is a two-way difference.\<close>

context bag_diff
begin

lemma keys_of_bags:
  assumes "distinct (map key desired)" "distinct (map key latest)"
  shows "key ` set (fst (diff desired latest)) = key ` set desired - key ` set latest"
    and "key ` set (snd (diff desired latest)) = key ` set latest - key ` set desired"
proof -
  have *: "set_mset (image_mset key (mset xs) - image_mset key (mset ys)) = key ` set xs - key ` set ys"
    if "distinct (map key xs)" "distinct (map key ys)" for xs ys
  proof -
    have "image_mset key (mset zs) = mset_set (key ` set zs)" if "distinct (map key zs)" for zs
      using that by (metis mset_map mset_set_set set_map)
    with that show ?thesis by (auto simp: in_diff_count count_mset_set' split: if_splits)
  qed
  from * [OF assms] show "key ` set (fst (diff desired latest)) = key ` set desired - key ` set latest"
    by (metis bag_toAdd set_image_mset set_mset_mset)
  from * [OF assms(2,1)] show "key ` set (snd (diff desired latest)) = key ` set latest - key ` set desired"
    by (metis bag_toDelete set_image_mset set_mset_mset)
qed

end

end
