(* ===== verification/Pages.thy ===== *)
theory Pages
  imports EC2_SDK
begin

text \<open>
  Loops over the pages of a \<open>Describe\<close> call: fetch a page, add what it holds, stop at a page
  without a next token, at a nil answer or at an error. Nothing in the code bounds such a
  loop, so it takes a number of rounds as fuel; \<open>paged\<close> says which pages the service
  serves, and with more fuel than pages the loop returns what they hold.
\<close>

inductive paged ::
  "('i \<Rightarrow> (error + 'p option) act) \<Rightarrow> ('p \<Rightarrow> bool) \<Rightarrow> ('p \<Rightarrow> 'i \<Rightarrow> 'i) \<Rightarrow> 'i \<Rightarrow> call log \<Rightarrow> 'p list \<Rightarrow> call log \<Rightarrow> bool"
  for fetch ended follow
where
  failed: "fetch i s = (Ret (Inl e), t) \<Longrightarrow> paged fetch ended follow i s [] t"
| nothing: "fetch i s = (Ret (Inr None), t) \<Longrightarrow> paged fetch ended follow i s [] t"
| last: "fetch i s = (Ret (Inr (Some p)), t) \<Longrightarrow> ended p \<Longrightarrow> paged fetch ended follow i s [p] t"
| more: "fetch i s = (Ret (Inr (Some p)), t) \<Longrightarrow> \<not> ended p \<Longrightarrow> paged fetch ended follow (follow p i) t ps u
    \<Longrightarrow> paged fetch ended follow i s (p # ps) u"

locale pager =
  fixes fetch :: "'i \<Rightarrow> (error + 'p option) act" and ended :: "'p \<Rightarrow> bool" and follow :: "'p \<Rightarrow> 'i \<Rightarrow> 'i"
    and add :: "'p \<Rightarrow> 'a \<Rightarrow> 'a" and result :: "'a \<Rightarrow> 'r" and loop :: "nat \<Rightarrow> 'i \<Rightarrow> 'a \<Rightarrow> 'r act"
  assumes no_fuel: "loop 0 i a = noFuel"
    and round: "loop (Suc n) i a = bind (fetch i) (\<lambda>r. case r of
          Inl e \<Rightarrow> ret (result a)
        | Inr None \<Rightarrow> ret (result a)
        | Inr (Some p) \<Rightarrow> if ended p then ret (result (add p a)) else loop n (follow p i) (add p a))"
begin

lemma reads_all:
  "paged fetch ended follow i s ps t \<Longrightarrow> length ps < n \<Longrightarrow> loop n i a s = (Ret (result (fold add ps a)), t)"
proof (induction arbitrary: a n rule: paged.induct)
  case (more i s p t ps u)
  from more.prems obtain m where "n = Suc m" "length ps < m" by (cases n) auto
  with more show ?case by (simp add: round)
next
  case (failed i s e t)
  then show ?case by (cases n) (simp_all add: round)
next
  case (nothing i s t)
  then show ?case by (cases n) (simp_all add: round)
next
  case (last i s p t)
  then show ?case by (cases n) (simp_all add: round)
qed

lemma reads_only:
  "loop n i a s = (Ret r, t) \<Longrightarrow> \<exists>ps. paged fetch ended follow i s ps t \<and> length ps \<le> n \<and> r = result (fold add ps a)"
proof (induction n arbitrary: i a s)
  case 0
  then show ?case by (simp add: no_fuel)
next
  case (Suc n)
  from Suc.prems obtain x u where f: "fetch i s = (Ret x, u)"
    by (auto simp: round bind_def split: prod.splits outcome.splits)
  show ?case
  proof (cases x)
    case (Inl e)
    with Suc.prems f show ?thesis
      by (intro exI [of _ "[]"]) (auto simp: round intro: paged.failed)
  next
    case x: (Inr o')
    show ?thesis
    proof (cases o')
      case None
      with x Suc.prems f show ?thesis
        by (intro exI [of _ "[]"]) (auto simp: round intro: paged.nothing)
    next
      case (Some p)
      show ?thesis
      proof (cases "ended p")
        case True
        with x Some Suc.prems f show ?thesis
          by (intro exI [of _ "[p]"]) (auto simp: round intro: paged.last)
      next
        case False
        with x Some Suc.prems f have "loop n (follow p i) (add p a) u = (Ret r, t)" by (simp add: round)
        from Suc.IH [OF this] obtain ps where
          "paged fetch ended follow (follow p i) u ps t" "length ps \<le> n" "r = result (fold add ps (add p a))"
          by blast
        with False x Some f show ?thesis
          by (intro exI [of _ "p # ps"]) (auto intro: paged.more)
      qed
    qed
  qed
qed

lemma more_fuel: "loop n i a s = (Ret r, t) \<Longrightarrow> n < m \<Longrightarrow> loop m i a s = (Ret r, t)"
  using reads_only [of n i a s r t] reads_all [of i s _ t m a] by fastforce

end

text \<open>Where a fetch always returns, the loop does not panic either.\<close>

locale returning_pager = pager +
  assumes fetch_returns: "\<exists>r t. fetch i s = (Ret r, t)"
begin

lemma never_panics: "fst (loop n i a s) \<noteq> Panic"
proof (induction n arbitrary: i a s)
  case (Suc n)
  obtain x u where "fetch i s = (Ret x, u)" using fetch_returns by blast
  with Suc show ?case by (auto simp: round split: sum.split option.split)
qed (simp add: no_fuel)

end

end
