(* ===== verification/Tags.thy ===== *)
theory Tags
  imports EC2_SDK
begin

text \<open>
  \<open>pkg/tags/sync.go\<close>: the comparison of two tag lists and the calls that bring the
  resource's tags to the desired ones. A tag's key and value are pointers; a slice of tags is
  the list of the structs its pointers point to (the CRD schema and the setters of
  \<open>sdk.go\<close> never make a nil element), except where the code itself tests an element.
\<close>

subsection \<open>Data\<close>

record tag =
  Key :: "string option"
  Value :: "string option"

text \<open>The answers of \<open>tagsClient\<close>; the outputs of its calls are never read.\<close>

record tags_api =
  onCreateTags :: "call log \<Rightarrow> tags_input \<Rightarrow> error option"
  onDeleteTags :: "call log \<Rightarrow> tags_input \<Rightarrow> error option"

subsection \<open>Helpers\<close>

definition safeString :: "string option \<Rightarrow> string" where
  "safeString s = (case s of None \<Rightarrow> [] | Some x \<Rightarrow> x)"

definition equalStrings :: "string option \<Rightarrow> string option \<Rightarrow> bool" where
  "equalStrings a b =
     (case a of
        None \<Rightarrow> (case b of None \<Rightarrow> True | Some y \<Rightarrow> y = [])
      | Some x \<Rightarrow> (case b of None \<Rightarrow> False | Some y \<Rightarrow> x = y))"

definition sdkTagsFromResourceTags :: "tag option list \<Rightarrow> sdk_tag list" where
  "sdkTagsFromResourceTags rTags =
     map (\<lambda>t. case t of
            None \<Rightarrow> \<lparr>sdkKey = None, sdkValue = None\<rparr>
          | Some t' \<Rightarrow> \<lparr>sdkKey = Key t', sdkValue = Value t'\<rparr>) rTags"

subsection \<open>\<open>ComputeTagsDelta\<close>\<close>

text \<open>The map a loop over a tag list builds: a later tag overwrites an earlier one.\<close>

fun tagMap :: "(string \<rightharpoonup> string) \<Rightarrow> tag list \<Rightarrow> (string \<rightharpoonup> string)" where
  "tagMap m [] = m"
| "tagMap m (t # ts) = tagMap (m(safeString (Key t) \<mapsto> safeString (Value t))) ts"

definition ComputeTagsDelta :: "tag list \<Rightarrow> tag list \<Rightarrow> tag list \<times> tag list" where
  "ComputeTagsDelta desired latest =
     (let desiredTags = tagMap Map.empty desired;
          latestTags = tagMap Map.empty latest;
          toAdd = filter (\<lambda>t. case latestTags (safeString (Key t)) of
                                None \<Rightarrow> True
                              | Some val \<Rightarrow> val \<noteq> safeString (Value t)) desired;
          toDelete = filter (\<lambda>t. desiredTags (safeString (Key t)) = None) latest
      in (toAdd, toDelete))"

subsection \<open>\<open>Sync\<close>\<close>

definition tagsInput :: "string \<Rightarrow> tag list \<Rightarrow> tags_input" where
  "tagsInput resourceID ts =
     \<lparr>inResources = [resourceID], inTags = sdkTagsFromResourceTags (map Some ts)\<rparr>"

definition Sync ::
  "'x tags_api_scheme \<Rightarrow> string \<Rightarrow> tag list \<Rightarrow> tag list \<Rightarrow> error option act" where
  "Sync client resourceID latestTags desiredTags =
     (let (addedOrUpdated, removed) = ComputeTagsDelta latestTags desiredTags in
      bind (if length removed > 0
            then callRecord DeleteTags (onDeleteTags client) ''UPDATE'' ''DeleteTags''
                   (tagsInput resourceID removed)
            else ret None) (\<lambda>err.
      ifErr err (\<lambda>e. ret (Some e))
     (bind (if length addedOrUpdated > 0
            then callRecord CreateTags (onCreateTags client) ''UPDATE'' ''CreateTags''
                   (tagsInput resourceID addedOrUpdated)
            else ret None) (\<lambda>err.
      ifErr err (\<lambda>e. ret (Some e)) (ret None)))))"

subsection \<open>What the delta says\<close>

abbreviation keyOf :: "tag \<Rightarrow> string" where "keyOf t \<equiv> safeString (Key t)"
abbreviation valueOf :: "tag \<Rightarrow> string" where "valueOf t \<equiv> safeString (Value t)"

text \<open>The tags of a list as the map the code compares.\<close>

abbreviation tagsOf :: "tag list \<Rightarrow> (string \<rightharpoonup> string)" where
  "tagsOf ts \<equiv> tagMap Map.empty ts"

lemma safeString_simps [simp]: "safeString None = []" "safeString (Some x) = x"
  by (simp_all add: safeString_def)

lemma tagMap_notin: "k \<notin> keyOf ` set ts \<Longrightarrow> tagMap m ts k = m k"
  by (induction ts arbitrary: m) auto

lemma dom_tagMap: "dom (tagMap m ts) = dom m \<union> keyOf ` set ts"
  by (induction ts arbitrary: m) auto

lemma tagMap_None_iff: "tagsOf ts k = None \<longleftrightarrow> k \<notin> keyOf ` set ts"
  using dom_tagMap [of Map.empty ts] by (auto simp: domIff)

lemma tagMap_distinct:
  "distinct (map keyOf ts) \<Longrightarrow> t \<in> set ts \<Longrightarrow> tagMap m ts (keyOf t) = Some (valueOf t)"
proof (induction ts arbitrary: m)
  case (Cons u ts)
  show ?case
  proof (cases "t = u")
    case True
    with Cons.prems have "keyOf t \<notin> keyOf ` set ts" by auto
    with True show ?thesis by (simp add: tagMap_notin)
  next
    case False
    with Cons show ?thesis by simp
  qed
qed simp

lemma tagMap_Some_mem: "tagMap m ts k = Some v \<Longrightarrow> m k = Some v \<or> (\<exists>t\<in>set ts. keyOf t = k \<and> valueOf t = v)"
  by (induction ts arbitrary: m) (fastforce split: if_splits)+

lemma toAdd_mem:
  "t \<in> set (fst (ComputeTagsDelta desired latest)) \<longleftrightarrow>
     t \<in> set desired \<and> tagsOf latest (keyOf t) \<noteq> Some (valueOf t)"
  by (auto simp: ComputeTagsDelta_def Let_def split: option.splits)

lemma toDelete_mem:
  "t \<in> set (snd (ComputeTagsDelta desired latest)) \<longleftrightarrow>
     t \<in> set latest \<and> keyOf t \<notin> keyOf ` set desired"
  by (auto simp: ComputeTagsDelta_def Let_def tagMap_None_iff)

lemma delta_idle:
  assumes "distinct (map keyOf desired)" and "tagsOf desired = tagsOf latest"
  shows "ComputeTagsDelta desired latest = ([], [])"
proof -
  have "t \<notin> set (fst (ComputeTagsDelta desired latest))" for t
    using tagMap_distinct [OF assms(1), of t Map.empty] assms(2) by (auto simp: toAdd_mem)
  moreover have "t \<notin> set (snd (ComputeTagsDelta desired latest))" for t
  proof -
    have "keyOf ` set desired = keyOf ` set latest"
      using assms(2) dom_tagMap [of Map.empty desired] dom_tagMap [of Map.empty latest] by simp
    then show ?thesis by (auto simp: toDelete_mem)
  qed
  ultimately show ?thesis
    by (metis list.set_sel(1) prod.collapse)
qed

subsection \<open>Running \<open>Sync\<close>\<close>

lemma Sync_run:
  assumes "ComputeTagsDelta a b = (add, del)"
  shows "Sync client rid a b s =
    (let s1 = (if del = [] then s
               else s @ [Call (DeleteTags (tagsInput rid del)),
                         Metric ''UPDATE'' ''DeleteTags'' (onDeleteTags client s (tagsInput rid del))]);
         e1 = (if del = [] then None else onDeleteTags client s (tagsInput rid del))
     in case e1 of
          Some e \<Rightarrow> (Ret (Some e), s1)
        | None \<Rightarrow>
           (if add = [] then (Ret None, s1)
            else (Ret (onCreateTags client s1 (tagsInput rid add)),
                  s1 @ [Call (CreateTags (tagsInput rid add)),
                        Metric ''UPDATE'' ''CreateTags'' (onCreateTags client s1 (tagsInput rid add))])))"
  using assms
  by (auto simp: Sync_def Let_def bind_run ifErr_def split: option.splits)

lemma extends_Sync [go_extends]: "extends (Sync client rid a b)"
  unfolding Sync_def split_def Let_def by (intro go_extends)

subsection \<open>The service's side\<close>

text \<open>
  The documented effect of the two calls on the tags of a resource: \<open>CreateTags\<close> adds or
  overwrites; \<open>DeleteTags\<close> removes a key, and when a value is given only if the value is
  that one. A call that fails changes nothing. \<open>store s r\<close> stands for the tags that
  resource \<open>r\<close> has after the history \<open>s\<close>.
\<close>

fun putTags :: "sdk_tag list \<Rightarrow> (string \<rightharpoonup> string) \<Rightarrow> (string \<rightharpoonup> string)" where
  "putTags [] m = m"
| "putTags (t # ts) m = putTags ts (m(safeString (sdkKey t) \<mapsto> safeString (sdkValue t)))"

definition dropTag :: "sdk_tag \<Rightarrow> (string \<rightharpoonup> string) \<Rightarrow> (string \<rightharpoonup> string)" where
  "dropTag t m =
     (if sdkValue t = None \<or> m (safeString (sdkKey t)) = sdkValue t
      then m(safeString (sdkKey t) := None) else m)"

fun dropTags :: "sdk_tag list \<Rightarrow> (string \<rightharpoonup> string) \<Rightarrow> (string \<rightharpoonup> string)" where
  "dropTags [] m = m"
| "dropTags (t # ts) m = dropTags ts (dropTag t m)"

definition tag_service ::
  "'x tags_api_scheme \<Rightarrow> (call log \<Rightarrow> string \<Rightarrow> string \<rightharpoonup> string) \<Rightarrow> bool" where
  "tag_service client store \<longleftrightarrow>
     (\<forall>s i r. store (s @ [Call (CreateTags i)]) r =
        (if onCreateTags client s i = None \<and> r \<in> set (inResources i)
         then putTags (inTags i) (store s r) else store s r)) \<and>
     (\<forall>s i r. store (s @ [Call (DeleteTags i)]) r =
        (if onDeleteTags client s i = None \<and> r \<in> set (inResources i)
         then dropTags (inTags i) (store s r) else store s r)) \<and>
     (\<forall>s ty op e r. store (s @ [Metric ty op e]) r = store s r)"

lemma tag_service_laws:
  assumes "tag_service client store"
  shows "store (s @ [Call (CreateTags i), Metric ty op e]) r =
           (if onCreateTags client s i = None \<and> r \<in> set (inResources i)
            then putTags (inTags i) (store s r) else store s r)"
    and "store (s @ [Call (DeleteTags i), Metric ty op e]) r =
           (if onDeleteTags client s i = None \<and> r \<in> set (inResources i)
            then dropTags (inTags i) (store s r) else store s r)"
  using assms append_assoc [of s "[Call (CreateTags i)]" "[Metric ty op e]"]
    append_assoc [of s "[Call (DeleteTags i)]" "[Metric ty op e]"]
  unfolding tag_service_def by (metis append_Cons append_Nil)+

abbreviation sdkOf :: "tag list \<Rightarrow> sdk_tag list" where
  "sdkOf ts \<equiv> sdkTagsFromResourceTags (map Some ts)"

lemma sdkOf_simps [simp]:
  "sdkTagsFromResourceTags [] = []"
  "sdkTagsFromResourceTags (Some t # ts) =
     \<lparr>sdkKey = Key t, sdkValue = Value t\<rparr> # sdkTagsFromResourceTags ts"
  by (simp_all add: sdkTagsFromResourceTags_def)

lemma putTags_sdkOf: "putTags (sdkOf ts) m = tagMap m ts"
  by (induction ts arbitrary: m) simp_all

lemma dropTags_other: "k \<notin> keyOf ` set ts \<Longrightarrow> dropTags (sdkOf ts) m k = m k"
  by (induction ts arbitrary: m) (simp_all add: dropTag_def)

lemma dropTags_None: "m k = None \<Longrightarrow> dropTags (sdkOf ts) m k = None"
  by (induction ts arbitrary: m) (simp_all add: dropTag_def)

lemma dropTags_hit:
  "t \<in> set ts \<Longrightarrow> m (keyOf t) = Some (valueOf t) \<Longrightarrow> distinct (map keyOf ts) \<Longrightarrow>
   dropTags (sdkOf ts) m (keyOf t) = None"
proof (induction ts arbitrary: m)
  case (Cons u ts)
  show ?case
  proof (cases "t = u")
    case True
    with Cons.prems(2) have "dropTag \<lparr>sdkKey = Key u, sdkValue = Value u\<rparr> m (keyOf t) = None"
      by (cases "Value u") (simp_all add: dropTag_def)
    then show ?thesis by (simp add: dropTags_None)
  next
    case False
    with Cons.prems have "keyOf u \<noteq> keyOf t" and "t \<in> set ts" by auto
    with Cons show ?thesis by (simp add: dropTag_def)
  qed
qed simp

lemma tagMap_override:
  assumes "distinct (map keyOf ts)"
  shows "tagMap m ts k = (if k \<in> keyOf ` set ts then tagsOf ts k else m k)"
proof (cases "k \<in> keyOf ` set ts")
  case True
  then obtain t where "t \<in> set ts" "k = keyOf t" by auto
  with assms True show ?thesis by (simp add: tagMap_distinct)
qed (simp add: tagMap_notin)

text \<open>What one round of deletions and additions leaves, key by key.\<close>

lemma delta_applied:
  assumes d: "distinct (map keyOf desired)" and l: "distinct (map keyOf latest)"
    and delta: "ComputeTagsDelta desired latest = (add, del)"
  shows "tagMap (dropTags (sdkOf del) (tagsOf latest)) add = tagsOf desired"
proof
  fix k
  have da: "distinct (map keyOf add)" and dd: "distinct (map keyOf del)"
    using d l delta by (auto simp: ComputeTagsDelta_def Let_def distinct_map_filter)
  have add: "t \<in> set add \<longleftrightarrow> t \<in> set desired \<and> tagsOf latest (keyOf t) \<noteq> Some (valueOf t)" for t
    using toAdd_mem [of t desired latest] delta by simp
  have del: "t \<in> set del \<longleftrightarrow> t \<in> set latest \<and> keyOf t \<notin> keyOf ` set desired" for t
    using toDelete_mem [of t desired latest] delta by simp
  show "tagMap (dropTags (sdkOf del) (tagsOf latest)) add k = tagsOf desired k"
  proof (cases "k \<in> keyOf ` set desired")
    case True
    then obtain t where t: "t \<in> set desired" "k = keyOf t" by auto
    have des: "tagsOf desired k = Some (valueOf t)" using t d by (simp add: tagMap_distinct)
    have "k \<notin> keyOf ` set del" using True del by (metis (no_types, lifting) imageE)
    then have kept: "dropTags (sdkOf del) (tagsOf latest) k = tagsOf latest k"
      by (rule dropTags_other)
    show ?thesis
    proof (cases "t \<in> set add")
      case True
      with da t(2) des show ?thesis by (simp add: tagMap_distinct)
    next
      case False
      have "k \<notin> keyOf ` set add"
      proof
        assume "k \<in> keyOf ` set add"
        then obtain u where "u \<in> set add" "keyOf u = keyOf t" using t by auto
        with add d t have "u = t" by (metis (no_types, lifting) distinct_map inj_on_eq_iff)
        with \<open>u \<in> set add\<close> False show False by simp
      qed
      with False t add des kept show ?thesis by (simp add: tagMap_notin)
    qed
  next
    case False
    then have na: "k \<notin> keyOf ` set add" using add by auto
    have "dropTags (sdkOf del) (tagsOf latest) k = None"
    proof (cases "k \<in> keyOf ` set latest")
      case True
      then obtain t where t: "t \<in> set latest" "k = keyOf t" by auto
      with False del have "t \<in> set del" by simp
      with t l dd show ?thesis by (simp add: dropTags_hit tagMap_distinct)
    next
      case False
      then show ?thesis by (simp add: dropTags_None tagMap_notin)
    qed
    with False na show ?thesis by (simp add: tagMap_notin)
  qed
qed

text \<open>
  C4. Tag convergence. When \<open>Sync\<close> returns no error, the resource ends up with exactly the
  desired tags, whatever tags it had before, for a service with the documented effects and
  lists without duplicate keys (the tag lists of \<open>Sync\<close>'s callers: the desired one comes
  first).
\<close>

theorem Sync_converges:
  assumes service: "tag_service client store"
    and "distinct (map keyOf desired)" and "distinct (map keyOf latest)"
    and start: "store s rid = tagsOf latest"
    and ok: "fst (Sync client rid desired latest s) = Ret None"
  shows "store (snd (Sync client rid desired latest s)) rid = tagsOf desired"
proof -
  obtain add del where delta: "ComputeTagsDelta desired latest = (add, del)" by fastforce
  note laws = tag_service_laws [OF service]
  have applied: "tagMap (dropTags (sdkOf del) (tagsOf latest)) add = tagsOf desired"
    by (rule delta_applied [OF assms(2,3) delta])
  show ?thesis
    using ok start applied laws
    by (cases "del = []"; cases "add = []")
       (auto simp: Sync_run [OF delta] Let_def tagsInput_def putTags_sdkOf
         simp flip: append_assoc split: option.splits)
qed

text \<open>
  A failed deletion stops the sync. When the \<open>DeleteTags\<close> call fails, its error is
  returned, exactly that call was made, and no tag is created.
\<close>

theorem Sync_delete_failure:
  assumes "ComputeTagsDelta desired latest = (add, del)" and "del \<noteq> []"
    and "onDeleteTags client s (tagsInput rid del) = Some e"
  shows "Sync client rid desired latest s =
           (Ret (Some e), s @ [Call (DeleteTags (tagsInput rid del)), Metric ''UPDATE'' ''DeleteTags'' (Some e)])"
  using assms by (simp add: Sync_run Let_def)

text \<open>
  \<open>Sync\<close> is idle exactly on equal tags: with no duplicate keys on either side it issues
  no call if and only if the two lists give the same tags, whatever their order and whether
  an empty value is nil or the empty string.
\<close>

theorem Sync_idle_iff:
  assumes "distinct (map keyOf desired)" and "distinct (map keyOf latest)"
  shows "Sync client rid desired latest s = (Ret None, s) \<longleftrightarrow> tagsOf desired = tagsOf latest"
proof
  obtain add del where delta: "ComputeTagsDelta desired latest = (add, del)" by fastforce
  assume "Sync client rid desired latest s = (Ret None, s)"
  then have "add = []" and "del = []"
    by (auto simp: Sync_run [OF delta] Let_def split: option.splits if_splits)
  then show "tagsOf desired = tagsOf latest"
    using delta_applied [OF assms delta] by simp
next
  assume "tagsOf desired = tagsOf latest"
  then have "ComputeTagsDelta desired latest = ([], [])" by (rule delta_idle [OF assms(1)])
  then show "Sync client rid desired latest s = (Ret None, s)" by (simp add: Sync_run Let_def)
qed

subsection \<open>Witnesses\<close>

text \<open>A service that accepts every call, and the tags it holds after a history.\<close>

definition acceptingTags :: tags_api where
  "acceptingTags = \<lparr>onCreateTags = (\<lambda>_ _. None), onDeleteTags = (\<lambda>_ _. None)\<rparr>"

fun storeStep :: "call event \<Rightarrow> (string \<Rightarrow> string \<rightharpoonup> string) \<Rightarrow> string \<Rightarrow> string \<rightharpoonup> string" where
  "storeStep (Call (CreateTags i)) m = (\<lambda>r. if r \<in> set (inResources i) then putTags (inTags i) (m r) else m r)"
| "storeStep (Call (DeleteTags i)) m = (\<lambda>r. if r \<in> set (inResources i) then dropTags (inTags i) (m r) else m r)"
| "storeStep _ m = m"

definition storeFrom :: "(string \<Rightarrow> string \<rightharpoonup> string) \<Rightarrow> call log \<Rightarrow> string \<Rightarrow> string \<rightharpoonup> string" where
  "storeFrom m s = fold storeStep s m"

lemma tag_service_accepting: "tag_service acceptingTags (storeFrom m)"
  by (simp add: tag_service_def acceptingTags_def storeFrom_def)

theorem Sync_converges_witness:
  "storeFrom (\<lambda>_. tagsOf [\<lparr>Key = Some ''a'', Value = Some ''1''\<rparr>, \<lparr>Key = Some ''b'', Value = None\<rparr>])
     (snd (Sync acceptingTags ''vpc-1'' [\<lparr>Key = Some ''a'', Value = Some ''2''\<rparr>]
       [\<lparr>Key = Some ''a'', Value = Some ''1''\<rparr>, \<lparr>Key = Some ''b'', Value = None\<rparr>] [])) ''vpc-1''
   = tagsOf [\<lparr>Key = Some ''a'', Value = Some ''2''\<rparr>]"
  by (rule Sync_converges [OF tag_service_accepting])
     (simp_all add: storeFrom_def Sync_def ComputeTagsDelta_def acceptingTags_def)

theorem Sync_delete_failure_witness:
  "Sync \<lparr>onCreateTags = (\<lambda>_ _. None), onDeleteTags = (\<lambda>_ _. Some NotFound)\<rparr> ''r'' []
     [\<lparr>Key = Some ''a'', Value = None\<rparr>] [] =
   (Ret (Some NotFound), [] @ [Call (DeleteTags (tagsInput ''r'' [\<lparr>Key = Some ''a'', Value = None\<rparr>])),
      Metric ''UPDATE'' ''DeleteTags'' (Some NotFound)])"
  by (rule Sync_delete_failure [where add = "[]"]) (simp_all add: ComputeTagsDelta_def)

theorem Sync_idle_iff_witness:
  "Sync acceptingTags ''r'' [\<lparr>Key = Some ''a'', Value = None\<rparr>] [\<lparr>Key = Some ''a'', Value = Some []\<rparr>] []
     = (Ret None, [])"
  by (subst Sync_idle_iff) simp_all

end
