(* ===== verification/TagMaps.thy ===== *)
theory TagMaps
  imports Tags "HOL-Library.AList"
begin

text \<open>
  \<open>pkg/resource/*/tags.go\<close> (the same file for every resource kind, read here from
  \<open>vpc/tags.go\<close>) and the tag methods of \<open>vpc/manager.go\<close>: the conversion between the tag
  list of a spec and the runtime's tag map, and the merging, filtering and mirroring of tags
  around every reconciliation.

  A Go map is an association list with distinct keys. The order in which \<open>range\<close> visits a
  map is not specified by the language: it is the argument \<open>iter\<close> of the functions that
  range over one, of which only \<open>range_order\<close> is assumed.
\<close>

type_synonym acktags = "(string \<times> string) list"

definition range_order :: "(acktags \<Rightarrow> acktags) \<Rightarrow> bool" where
  "range_order iter \<longleftrightarrow> (\<forall>m. mset (iter m) = mset m)"

subsection \<open>\<open>tags.go\<close>\<close>

fun convertLoop :: "tag list \<Rightarrow> acktags \<times> string list \<Rightarrow> acktags \<times> string list" where
  "convertLoop [] (result, keyOrder) = (result, keyOrder)"
| "convertLoop (t # ts) (result, keyOrder) =
     convertLoop ts
       (case Key t of
          None \<Rightarrow> (result, keyOrder)
        | Some k \<Rightarrow>
            ((case Value t of
                Some v \<Rightarrow> AList.update k v result
              | None \<Rightarrow> AList.update k [] result),
             keyOrder @ [k]))"

definition convertToOrderedACKTags :: "tag list option \<Rightarrow> acktags \<times> string list" where
  "convertToOrderedACKTags tags =
     (case tags of
        None \<Rightarrow> ([], [])
      | Some ts \<Rightarrow> (if length ts = 0 then ([], []) else convertLoop ts ([], [])))"

fun fromOrder :: "string list \<Rightarrow> acktags \<times> tag list \<Rightarrow> acktags \<times> tag list" where
  "fromOrder [] (tags, result) = (tags, result)"
| "fromOrder (k # ks) (tags, result) =
     fromOrder ks
       (case map_of tags k of
          Some v \<Rightarrow> (AList.delete k tags, result @ [\<lparr>Key = Some k, Value = Some v\<rparr>])
        | None \<Rightarrow> (tags, result))"

definition fromACKTags :: "(acktags \<Rightarrow> acktags) \<Rightarrow> acktags \<Rightarrow> string list \<Rightarrow> tag list" where
  "fromACKTags iter tags keyOrder =
     (let (rest, result) = fromOrder keyOrder (tags, []) in
      result @ map (\<lambda>(k, v). \<lparr>Key = Some k, Value = Some v\<rparr>) (iter rest))"

definition ignoreSystemTags :: "(acktags \<Rightarrow> acktags) \<Rightarrow> acktags \<Rightarrow> string list \<Rightarrow> acktags" where
  "ignoreSystemTags iter tags systemTags =
     fold (\<lambda>(k, _) m. if prefix ''aws:'' k \<or> k \<in> set systemTags then AList.delete k m else m)
       (iter tags) tags"

definition syncAWSTags :: "(acktags \<Rightarrow> acktags) \<Rightarrow> acktags \<Rightarrow> acktags \<Rightarrow> acktags" where
  "syncAWSTags iter a b =
     fold (\<lambda>(k, v) m. if prefix ''aws:'' k then AList.update k v m else m) (iter b) a"

subsection \<open>The tag methods of the resource manager\<close>

text \<open>
  They read and write \<open>Spec.Tags\<close> only. \<open>merge\<close> stands for the runtime's
  \<open>acktags.Merge\<close>, \<open>defaultTags\<close> for what its \<open>GetDefaultTags\<close> returned.
\<close>

definition EnsureTags ::
  "(acktags \<Rightarrow> acktags) \<Rightarrow> (acktags \<Rightarrow> acktags \<Rightarrow> acktags) \<Rightarrow> acktags \<Rightarrow> tag list option \<Rightarrow> tag list option" where
  "EnsureTags iter merge defaultTags existingTags =
     (let (resourceTags, keyOrder) = convertToOrderedACKTags existingTags;
          tags = merge resourceTags defaultTags
      in Some (fromACKTags iter tags keyOrder))"

definition FilterSystemTags ::
  "(acktags \<Rightarrow> acktags) \<Rightarrow> string list \<Rightarrow> tag list option \<Rightarrow> tag list option" where
  "FilterSystemTags iter systemTags existingTags =
     (let (resourceTags, tagKeyOrder) = convertToOrderedACKTags existingTags
      in Some (fromACKTags iter (ignoreSystemTags iter resourceTags systemTags) tagKeyOrder))"

definition mirrorAWSTags ::
  "(acktags \<Rightarrow> acktags) \<Rightarrow> tag list option \<Rightarrow> tag list option \<Rightarrow> tag list option" where
  "mirrorAWSTags iter existingDesiredTags existingLatestTags =
     (let (desiredTags, desiredTagKeyOrder) = convertToOrderedACKTags existingDesiredTags;
          (latestTags, _) = convertToOrderedACKTags existingLatestTags
      in Some (fromACKTags iter (syncAWSTags iter desiredTags latestTags) desiredTagKeyOrder))"

subsection \<open>Maps and their iteration order\<close>

abbreviation wfMap :: "acktags \<Rightarrow> bool" where "wfMap m \<equiv> distinct (map fst m)"

lemma range_order_perm: "range_order iter \<Longrightarrow> mset (iter m) = mset m"
  by (simp add: range_order_def)

lemma wfMap_perm: "mset m = mset n \<Longrightarrow> wfMap m \<Longrightarrow> wfMap n"
  by (metis mset_map mset_eq_imp_distinct_iff)

lemma map_of_perm: "mset m = mset n \<Longrightarrow> wfMap m \<Longrightarrow> map_of m = map_of n"
  by (metis map_of_eqI wfMap_perm set_mset_mset set_map map_of_eq_Some_iff option.exhaust)

lemma range_order_facts:
  assumes "range_order iter" and "wfMap m"
  shows "wfMap (iter m)" and "map_of (iter m) = map_of m" and "set (iter m) = set m"
  using assms wfMap_perm [of m "iter m"] map_of_perm [of m "iter m"]
    range_order_perm [of iter m] mset_eq_setD [of "iter m" m]
  by auto

lemma wfMap_convertLoop:
  "wfMap (fst p) \<Longrightarrow> wfMap (fst (convertLoop ts p))"
  by (induction ts p rule: convertLoop.induct)
     (auto split: option.splits simp: distinct_update)

subsection \<open>What the conversions compute\<close>

abbreviation mkTag :: "string \<Rightarrow> string \<Rightarrow> tag" where
  "mkTag k v \<equiv> \<lparr>Key = Some k, Value = Some v\<rparr>"

text \<open>Tags without a key are dropped by the conversion.\<close>

definition keyed :: "tag list option \<Rightarrow> tag list" where
  "keyed tags = (case tags of None \<Rightarrow> [] | Some ts \<Rightarrow> filter (\<lambda>t. Key t \<noteq> None) ts)"

lemma convertLoop_eq:
  "map_of (fst (convertLoop ts (r, ko))) = tagMap (map_of r) (filter (\<lambda>t. Key t \<noteq> None) ts)"
  "snd (convertLoop ts (r, ko)) = ko @ map keyOf (filter (\<lambda>t. Key t \<noteq> None) ts)"
  by (induction ts arbitrary: r ko) (auto split: option.splits simp: update_conv' safeString_def)

lemma convert_facts:
  assumes "convertToOrderedACKTags tags = (m, ks)"
  shows "wfMap m" and "map_of m = tagsOf (keyed tags)" and "ks = map keyOf (keyed tags)"
    and "fst ` set m = set ks"
proof -
  show wf: "wfMap m"
    using assms wfMap_convertLoop [of "([], [])"]
    by (auto simp: convertToOrderedACKTags_def split: option.splits if_splits) (metis fst_conv)
  show m: "map_of m = tagsOf (keyed tags)" and ks: "ks = map keyOf (keyed tags)"
    using assms convertLoop_eq [of _ "[]" "[]"]
    by (auto simp: convertToOrderedACKTags_def keyed_def split: option.splits if_splits)
       (metis fst_conv, metis snd_conv)
  have "fst ` set m = dom (map_of m)" by (simp add: dom_map_of_conv_image_fst)
  then show "fst ` set m = set ks" by (simp add: m ks dom_tagMap)
qed

fun picked :: "string list \<Rightarrow> acktags \<Rightarrow> string list" where
  "picked [] m = []"
| "picked (k # ks) m =
     (if k \<in> fst ` set m then k # picked ks (AList.delete k m) else picked ks m)"

lemma keys_delete: "fst ` set (AList.delete k m) = fst ` set m - {k}"
  by (auto simp: AList.delete_eq)

lemma map_of_delete: "map_of (AList.delete k m) = (map_of m)(k := None)"
  by (rule ext) (simp add: delete_conv')

lemma picked_set: "set (picked ks m) = set ks \<inter> fst ` set m"
  by (induction ks m rule: picked.induct) (auto simp: keys_delete)

lemma picked_distinct: "distinct (picked ks m)"
  by (induction ks m rule: picked.induct) (auto simp: picked_set keys_delete)

lemma picked_all: "distinct ks \<Longrightarrow> set ks \<subseteq> fst ` set m \<Longrightarrow> picked ks m = ks"
  by (induction ks m rule: picked.induct) (auto simp: keys_delete)

lemma fromOrder_eq:
  "fromOrder ks (m, acc) =
     (filter (\<lambda>p. fst p \<notin> set ks) m, acc @ map (\<lambda>k. mkTag k (the (map_of m k))) (picked ks m))"
proof (induction ks arbitrary: m acc)
  case (Cons k ks)
  have eq: "map (\<lambda>j. mkTag j (the (map_of (AList.delete k m) j))) (picked ks (AList.delete k m))
        = map (\<lambda>j. mkTag j (the (map_of m j))) (picked ks (AList.delete k m))"
    by (intro map_cong) (auto simp: picked_set keys_delete map_of_delete)
  show ?case
  proof (cases "map_of m k")
    case None
    then have "k \<notin> fst ` set m" by (simp add: map_of_eq_None_iff)
    then have "filter (\<lambda>p. fst p \<notin> set ks) m = filter (\<lambda>p. fst p \<notin> set (k # ks)) m"
      by (intro filter_cong) force+
    with None Cons.IH \<open>k \<notin> fst ` set m\<close> show ?thesis by simp
  next
    case (Some v)
    then have "k \<in> fst ` set m" by (metis map_of_eq_None_iff option.distinct(1))
    with Some Cons.IH eq show ?thesis
      by (auto simp: AList.delete_eq split_def conj_commute intro: filter_cong)
  qed
qed simp

lemma fromACKTags_eq:
  "fromACKTags iter m ks =
     map (\<lambda>k. mkTag k (the (map_of m k))) (picked ks m)
     @ map (\<lambda>(k, v). mkTag k v) (iter (filter (\<lambda>p. fst p \<notin> set ks) m))"
  by (simp add: fromACKTags_def fromOrder_eq Let_def)

text \<open>A tag list is determined, as a map, by distinct keys, its values and its domain.\<close>

lemma tagsOf_eqI:
  assumes "distinct (map keyOf ts)" and "\<And>t. t \<in> set ts \<Longrightarrow> m (keyOf t) = Some (valueOf t)"
    and "dom m \<subseteq> keyOf ` set ts"
  shows "tagsOf ts = m"
proof
  fix k
  show "tagsOf ts k = m k"
  proof (cases "k \<in> keyOf ` set ts")
    case True
    then obtain t where "t \<in> set ts" "k = keyOf t" by auto
    with assms(1,2) show ?thesis by (simp add: tagMap_distinct)
  next
    case False
    with assms(3) have "m k = None" by blast
    with False show ?thesis by (simp add: tagMap_notin)
  qed
qed

lemma fromACKTags_facts:
  assumes iter: "range_order iter" and wf: "wfMap m"
  shows "distinct (map keyOf (fromACKTags iter m ks))"
    and "tagsOf (fromACKTags iter m ks) = map_of m"
    and "\<forall>t \<in> set (fromACKTags iter m ks). Key t \<noteq> None \<and> Value t \<noteq> None"
proof -
  let ?rest = "filter (\<lambda>p. fst p \<notin> set ks) m"
  have wfr: "wfMap ?rest" using wf by (simp add: distinct_map_filter)
  note rest = range_order_facts [OF iter wfr]
  have keys: "map keyOf (fromACKTags iter m ks) = picked ks m @ map fst (iter ?rest)"
    by (simp add: fromACKTags_eq comp_def split_def)
  show dist: "distinct (map keyOf (fromACKTags iter m ks))"
    unfolding keys using rest(1) by (auto simp: picked_distinct picked_set rest(3))
  show "tagsOf (fromACKTags iter m ks) = map_of m"
  proof (rule tagsOf_eqI [OF dist])
    fix t
    assume "t \<in> set (fromACKTags iter m ks)"
    then show "map_of m (keyOf t) = Some (valueOf t)"
      using wf by (fastforce simp: fromACKTags_eq picked_set rest(3) map_of_eq_Some_iff)
  next
    have "keyOf ` set (fromACKTags iter m ks) = set (picked ks m) \<union> fst ` set (iter ?rest)"
      using arg_cong [OF keys, of set] by simp
    then show "dom (map_of m) \<subseteq> keyOf ` set (fromACKTags iter m ks)"
      by (auto simp: picked_set rest(3) dom_map_of_conv_image_fst image_iff)
  qed
  show "\<forall>t \<in> set (fromACKTags iter m ks). Key t \<noteq> None \<and> Value t \<noteq> None"
    by (auto simp: fromACKTags_eq)
qed

subsection \<open>Filtering and mirroring\<close>

abbreviation awsKey :: "string \<Rightarrow> bool" where "awsKey k \<equiv> prefix ''aws:'' k"

lemma wfMap_delete: "wfMap m \<Longrightarrow> wfMap (AList.delete k m)"
  by (rule distinct_delete)

lemma fold_delete:
  "map_of (fold (\<lambda>(k, _) m. if P k then AList.delete k m else m) xs m) j =
     (if P j \<and> j \<in> fst ` set xs then None else map_of m j)
   \<and> (wfMap m \<longrightarrow> wfMap (fold (\<lambda>(k, _) m. if P k then AList.delete k m else m) xs m))"
  by (induction xs arbitrary: m) (auto simp: map_of_delete wfMap_delete)

lemma ignoreSystemTags_facts:
  assumes "range_order iter" and "wfMap m"
  shows "map_of (ignoreSystemTags iter m sys) =
           (\<lambda>k. if awsKey k \<or> k \<in> set sys then None else map_of m k)"
    and "wfMap (ignoreSystemTags iter m sys)"
proof -
  note f = fold_delete [of "\<lambda>k. awsKey k \<or> k \<in> set sys" "iter m" m]
  show "wfMap (ignoreSystemTags iter m sys)"
    using f assms(2) by (simp add: ignoreSystemTags_def)
  have "fst ` set (iter m) = dom (map_of m)"
    using range_order_facts [OF assms] by (simp add: dom_map_of_conv_image_fst)
  then show "map_of (ignoreSystemTags iter m sys) =
           (\<lambda>k. if awsKey k \<or> k \<in> set sys then None else map_of m k)"
    using f by (auto simp: ignoreSystemTags_def fun_eq_iff domIff)
qed

lemma fold_update:
  "wfMap xs \<Longrightarrow>
   map_of (fold (\<lambda>(k, v) m. if P k then AList.update k v m else m) xs m) j =
     (if P j \<and> j \<in> fst ` set xs then map_of xs j else map_of m j)
   \<and> (wfMap m \<longrightarrow> wfMap (fold (\<lambda>(k, v) m. if P k then AList.update k v m else m) xs m))"
  by (induction xs arbitrary: m) (auto simp: update_conv' distinct_update)

lemma syncAWSTags_facts:
  assumes "range_order iter" and "wfMap a" and "wfMap b"
  shows "map_of (syncAWSTags iter a b) =
           (\<lambda>k. if awsKey k \<and> k \<in> dom (map_of b) then map_of b k else map_of a k)"
    and "wfMap (syncAWSTags iter a b)"
proof -
  note r = range_order_facts [OF assms(1,3)]
  note f = fold_update [OF r(1), of "awsKey" a]
  show "wfMap (syncAWSTags iter a b)"
    using f assms(2) by (simp add: syncAWSTags_def)
  have "fst ` set (iter b) = dom (map_of b)"
    using r by (simp add: dom_map_of_conv_image_fst)
  then show "map_of (syncAWSTags iter a b) =
           (\<lambda>k. if awsKey k \<and> k \<in> dom (map_of b) then map_of b k else map_of a k)"
    using f r(2) by (simp add: syncAWSTags_def fun_eq_iff)
qed

text \<open>The tags a spec holds, as a map: those with a key, the last one of a key winning.\<close>

abbreviation specTags :: "tag list option \<Rightarrow> (string \<rightharpoonup> string)" where
  "specTags tags \<equiv> tagsOf (keyed tags)"

lemma keyed_all: "\<forall>t \<in> set ts. Key t \<noteq> None \<and> Value t \<noteq> None \<Longrightarrow> keyed (Some ts) = ts"
  by (simp add: keyed_def)

lemma specTags_from:
  assumes "range_order iter" and "wfMap m"
  shows "specTags (Some (fromACKTags iter m ks)) = map_of m"
    and "distinct (map keyOf (keyed (Some (fromACKTags iter m ks))))"
  using fromACKTags_facts [OF assms, of ks] by (simp_all add: keyed_all)

lemma FilterSystemTags_tags:
  assumes "range_order iter"
  shows "specTags (FilterSystemTags iter sys tags) =
           (\<lambda>k. if awsKey k \<or> k \<in> set sys then None else specTags tags k)"
    and "distinct (map keyOf (keyed (FilterSystemTags iter sys tags)))"
proof -
  obtain m ks where c: "convertToOrderedACKTags tags = (m, ks)" by fastforce
  note cf = convert_facts [OF c] and ig = ignoreSystemTags_facts [OF assms convert_facts(1) [OF c]]
  show "specTags (FilterSystemTags iter sys tags) =
           (\<lambda>k. if awsKey k \<or> k \<in> set sys then None else specTags tags k)"
    and "distinct (map keyOf (keyed (FilterSystemTags iter sys tags)))"
    using specTags_from [OF assms ig(2)] ig(1) by (simp_all add: FilterSystemTags_def c cf(2) cong: if_cong)
qed

lemma mirrorAWSTags_tags:
  assumes "range_order iter"
  shows "specTags (mirrorAWSTags iter desired latest) =
           (\<lambda>k. if awsKey k \<and> k \<in> dom (specTags latest) then specTags latest k
                else specTags desired k)"
    and "distinct (map keyOf (keyed (mirrorAWSTags iter desired latest)))"
proof -
  obtain a ks where a: "convertToOrderedACKTags desired = (a, ks)" by fastforce
  obtain b js where b: "convertToOrderedACKTags latest = (b, js)" by fastforce
  note af = convert_facts [OF a] and bf = convert_facts [OF b]
  note sy = syncAWSTags_facts [OF assms af(1) bf(1)]
  show "specTags (mirrorAWSTags iter desired latest) =
           (\<lambda>k. if awsKey k \<and> k \<in> dom (specTags latest) then specTags latest k
                else specTags desired k)"
    and "distinct (map keyOf (keyed (mirrorAWSTags iter desired latest)))"
    using specTags_from [OF assms sy(2)] sy(1)
    by (simp_all add: mirrorAWSTags_def a b af(2) bf(2) cong: if_cong)
qed

text \<open>
  Round trip. Converting a spec's tags to the tag map and back gives the same list, in
  the same order, when every tag has a key and a value and no key occurs twice.
\<close>

theorem tags_roundtrip:
  assumes "range_order iter"
    and "distinct (map Key ts)" and "\<forall>t \<in> set ts. Key t \<noteq> None \<and> Value t \<noteq> None"
    and "convertToOrderedACKTags (Some ts) = (m, ks)"
  shows "fromACKTags iter m ks = ts"
proof -
  note cf = convert_facts [OF assms(4)]
  have k: "keyed (Some ts) = ts" by (rule keyed_all [OF assms(3)])
  have inj: "map Key ts = map (Some \<circ> keyOf) ts" using assms(3) by (auto simp: safeString_def split: option.splits)
  then have d: "distinct (map keyOf ts)"
    using assms(2) by (simp only: inj) (simp flip: map_map add: distinct_map)
  have "picked ks m = ks" using d cf(3,4) k by (intro picked_all) auto
  moreover have "filter (\<lambda>p. fst p \<notin> set ks) m = []" using cf(4) by (auto simp: filter_empty_conv)
  moreover have "iter [] = []" using range_order_perm [OF assms(1), of "[]"] by simp
  ultimately have "fromACKTags iter m ks = map (\<lambda>t. mkTag (keyOf t) (the (map_of m (keyOf t)))) ts"
    using cf(3) k by (simp add: fromACKTags_eq comp_def)
  also have "\<dots> = ts"
  proof (rule map_idI)
    fix t
    assume "t \<in> set ts"
    with tagMap_distinct [OF d, of t Map.empty] assms(3) cf(2) k
    show "mkTag (keyOf t) (the (map_of m (keyOf t))) = t"
      by (cases t) fastforce
  qed
  finally show ?thesis .
qed

text \<open>
  Controller tags never override the user's. After \<open>EnsureTags\<close> every tag the spec had
  keeps its value, every default tag whose key the spec did not have is present, and nothing
  else is; \<open>merge\<close> is only assumed to prefer its first argument, as the doc comment of
  \<open>EnsureTags\<close> relies on.
\<close>

theorem EnsureTags_merges:
  assumes "range_order iter"
    and merge: "\<And>a b. wfMap a \<Longrightarrow> wfMap b \<Longrightarrow> wfMap (merge a b) \<and> map_of (merge a b) = map_of b ++ map_of a"
    and "wfMap defaultTags"
  shows "specTags (EnsureTags iter merge defaultTags tags) = map_of defaultTags ++ specTags tags"
proof -
  obtain m ks where c: "convertToOrderedACKTags tags = (m, ks)" by fastforce
  note cf = convert_facts [OF c]
  from merge [OF cf(1) assms(3)] show ?thesis
    using specTags_from [OF assms(1), of "merge m defaultTags" ks]
    by (simp add: EnsureTags_def c flip: cf(2))
qed

text \<open>
  \<open>FilterSystemTags\<close> removes exactly the tags whose key starts with \<open>aws:\<close> or is one of
  the controller's own, keeps all others with their values, and a second pass changes
  nothing more.
\<close>

theorem FilterSystemTags_exact:
  assumes "range_order iter"
  shows "specTags (FilterSystemTags iter sys tags) =
           (\<lambda>k. if awsKey k \<or> k \<in> set sys then None else specTags tags k)
    \<and> specTags (FilterSystemTags iter sys (FilterSystemTags iter sys tags)) =
           specTags (FilterSystemTags iter sys tags)"
  using FilterSystemTags_tags [OF assms, of sys] by auto

text \<open>
  AWS-managed tags are never touched. Once the desired tags have been through
  \<open>mirrorAWSTags\<close> against the observed ones, the tag delta neither deletes a tag whose key
  starts with \<open>aws:\<close> nor adds or overwrites one, even where the user declared another value
  for such a key, as long as the user declared no \<open>aws:\<close> key that is not on the resource.
\<close>

theorem mirrored_aws_tags_untouched:
  assumes "range_order iter" and "latest = Some ls" and "\<forall>t \<in> set ls. Key t \<noteq> None"
    and "\<forall>t \<in> set desired. awsKey (keyOf t) \<longrightarrow> keyOf t \<in> keyOf ` set ls"
    and "mirrorAWSTags iter (Some desired) latest = Some ds"
    and "ComputeTagsDelta ds ls = (add, del)"
  shows "\<forall>t \<in> set add \<union> set del. \<not> awsKey (keyOf t)"
proof -
  obtain a ks b js where ab: "convertToOrderedACKTags (Some desired) = (a, ks)"
    "convertToOrderedACKTags latest = (b, js)" by fastforce
  note wf = syncAWSTags_facts(2) [OF assms(1) convert_facts(1) [OF ab(1)] convert_facts(1) [OF ab(2)]]
  have ds: "ds = fromACKTags iter (syncAWSTags iter a b) ks"
    using assms(5) ab by (simp add: mirrorAWSTags_def)
  have kd: "keyed (Some ds) = ds" and dist: "distinct (map keyOf ds)"
    using fromACKTags_facts [OF assms(1) wf, of ks] by (simp_all add: ds keyed_all)
  have kl: "keyed latest = ls" using assms(2,3) by (simp add: keyed_def)
  have dsTags: "tagsOf ds k = (if awsKey k \<and> k \<in> dom (tagsOf ls) then tagsOf ls k
                               else specTags (Some desired) k)" for k
    using mirrorAWSTags_tags(1) [OF assms(1), of "Some desired" latest]
    by (simp add: assms(5) kd kl)
  have ls_dom: "dom (tagsOf ls) = keyOf ` set ls" by (simp add: dom_tagMap)
  show ?thesis
  proof
    fix t
    assume "t \<in> set add \<union> set del"
    then show "\<not> awsKey (keyOf t)"
    proof
      assume "t \<in> set add"
      then have t: "t \<in> set ds" "tagsOf ls (keyOf t) \<noteq> Some (valueOf t)"
        using toAdd_mem [of t ds ls] assms(6) by simp_all
      have val: "tagsOf ds (keyOf t) = Some (valueOf t)" by (rule tagMap_distinct [OF dist t(1)])
      show ?thesis
      proof
        assume aws: "awsKey (keyOf t)"
        with t(2) val dsTags have no: "keyOf t \<notin> keyOf ` set ls"
          by (metis ls_dom)
        with val dsTags aws have "specTags (Some desired) (keyOf t) = Some (valueOf t)"
          by (metis ls_dom)
        then obtain u where "u \<in> set desired" "keyOf u = keyOf t"
          by (auto simp: keyed_def dest!: tagMap_Some_mem)
        with assms(4) aws no show False by metis
      qed
    next
      assume "t \<in> set del"
      then have t: "t \<in> set ls" "keyOf t \<notin> keyOf ` set ds"
        using toDelete_mem [of t ds ls] assms(6) by simp_all
      then have "tagsOf ds (keyOf t) = None" by (simp add: tagMap_None_iff)
      with t(1) dsTags show ?thesis
        by (metis imageI ls_dom domIff)
    qed
  qed
qed

subsection \<open>Witnesses\<close>

lemma range_order_rev: "range_order rev"
  by (simp add: range_order_def)

theorem tags_roundtrip_witness:
  "fromACKTags rev [(''a'', ''1''), (''b'', ''2'')] [''a'', ''b''] = [mkTag ''a'' ''1'', mkTag ''b'' ''2'']"
  by (rule tags_roundtrip [OF range_order_rev])
     (simp_all add: convertToOrderedACKTags_def)

theorem EnsureTags_merges_witness:
  "specTags (EnsureTags rev (\<lambda>a b. AList.merge b a) [(''owner'', ''ack''), (''env'', ''x'')] (Some [mkTag ''env'' ''prod'']))
     = map_of [(''owner'', ''ack''), (''env'', ''x'')] ++ specTags (Some [mkTag ''env'' ''prod''])"
  by (rule EnsureTags_merges [OF range_order_rev]) (simp_all add: merge_conv' distinct_merge)

theorem FilterSystemTags_exact_witness:
  "specTags (FilterSystemTags rev [''owner''] (Some [mkTag ''aws:x'' ''1'', mkTag ''env'' ''prod'']))
     = (\<lambda>k. if awsKey k \<or> k \<in> set [''owner''] then None
            else specTags (Some [mkTag ''aws:x'' ''1'', mkTag ''env'' ''prod'']) k)"
  using FilterSystemTags_exact [OF range_order_rev] by blast

theorem mirrored_aws_tags_untouched_witness:
  "\<not> awsKey (keyOf (mkTag ''env'' ''dev'')) \<and> \<not> awsKey (keyOf (mkTag ''old'' ''y''))"
proof -
  have "\<forall>t \<in> set [mkTag ''env'' ''dev''] \<union> set [mkTag ''old'' ''y'']. \<not> awsKey (keyOf t)"
  by (rule mirrored_aws_tags_untouched [OF range_order_rev,
        where ls = "[mkTag ''aws:stack'' ''s'', mkTag ''env'' ''prod'', mkTag ''old'' ''y'']"
          and latest = "Some [mkTag ''aws:stack'' ''s'', mkTag ''env'' ''prod'', mkTag ''old'' ''y'']"
          and desired = "[mkTag ''env'' ''dev'']"
          and ds = "[mkTag ''env'' ''dev'', mkTag ''aws:stack'' ''s'']"])
     (simp_all add: mirrorAWSTags_def convertToOrderedACKTags_def syncAWSTags_def
        fromACKTags_def ComputeTagsDelta_def AList.delete_eq)
  then show ?thesis by simp
qed

end
