(* ===== verification/Go_Net.thy ===== *)
theory Go_Net
  imports Go_Prelude
begin

text \<open>
  The parts of Go's \<open>net\<close>, \<open>strconv\<close> and \<open>strings\<close> that the security-group code uses:
  \<open>strings.LastIndex\<close>, \<open>strconv.Atoi\<close>, \<open>net.ParseIP\<close>, \<open>IP.To4\<close> and \<open>IP.String\<close>. An
  address is its list of bytes, 16 as \<open>ParseIP\<close> returns it and 4 after \<open>To4\<close>.
\<close>

type_synonym byte = "8 word"

subsection \<open>Strings\<close>

text \<open>The text before and after the last \<open>c\<close>; \<open>None\<close> when there is none (\<open>LastIndex < 0\<close>).\<close>

definition splitLast :: "char \<Rightarrow> string \<Rightarrow> (string \<times> string) option" where
  "splitLast c s =
     (if c \<in> set s
      then Some (rev (tl (dropWhile (\<lambda>x. x \<noteq> c) (rev s))), rev (takeWhile (\<lambda>x. x \<noteq> c) (rev s)))
      else None)"

fun splitOn :: "char \<Rightarrow> string \<Rightarrow> string list" where
  "splitOn c [] = [[]]"
| "splitOn c (x # xs) =
     (if x = c then [] # splitOn c xs
      else case splitOn c xs of [] \<Rightarrow> [[x]] | p # ps \<Rightarrow> (x # p) # ps)"

text \<open>\<open>strconv.Atoi\<close>: an optional sign and at least one digit; out of the range of an \<open>int\<close> is an error.\<close>

definition atoi :: "string \<Rightarrow> int option" where
  "atoi s =
     (let (neg, ds) = (case s of
            c # cs \<Rightarrow> if c = CHR ''-'' then (True, cs)
                      else if c = CHR ''+'' then (False, cs) else (False, s)
          | [] \<Rightarrow> (False, []));
          n = int (digitsVal 0 ds); v = (if neg then - n else n)
      in if ds \<noteq> [] \<and> list_all isDigit ds \<and> - (2 ^ 63) \<le> v \<and> v < 2 ^ 63 then Some v else None)"

subsection \<open>IPv4\<close>

definition octet :: "string \<Rightarrow> byte option" where
  "octet p =
     (if p \<noteq> [] \<and> list_all isDigit p \<and> (hd p = CHR ''0'' \<longrightarrow> length p = 1) \<and> digitsVal 0 p \<le> 255
      then Some (of_nat (digitsVal 0 p)) else None)"

definition parseIPv4 :: "string \<Rightarrow> byte list option" where
  "parseIPv4 s =
     (case map octet (splitOn CHR ''.'' s) of
        [Some a, Some b, Some c, Some d] \<Rightarrow> Some [a, b, c, d]
      | _ \<Rightarrow> None)"

definition dotted :: "byte list \<Rightarrow> string" where
  "dotted bs = (case bs of
       [a, b, c, d] \<Rightarrow> decimal (unat a) @ ''.'' @ decimal (unat b) @ ''.'' @ decimal (unat c) @ ''.'' @ decimal (unat d)
     | _ \<Rightarrow> [])"

subsection \<open>IPv6\<close>

definition hexVal :: "char \<Rightarrow> nat option" where
  "hexVal c =
     (let n = of_char c :: nat in
      if 48 \<le> n \<and> n \<le> 57 then Some (n - 48)
      else if 97 \<le> n \<and> n \<le> 102 then Some (n - 87)
      else if 65 \<le> n \<and> n \<le> 70 then Some (n - 55)
      else None)"

definition isHex :: "char \<Rightarrow> bool" where "isHex c \<longleftrightarrow> hexVal c \<noteq> None"

fun hexNum :: "nat \<Rightarrow> string \<Rightarrow> nat" where
  "hexNum acc [] = acc"
| "hexNum acc (c # cs) = hexNum (16 * acc + (case hexVal c of Some v \<Rightarrow> v | None \<Rightarrow> 0)) cs"

text \<open>
  The loop of \<open>netip.parseIPv6\<close>: the bytes so far, the position of the ellipsis, the rest of
  the text.
\<close>

function v6loop :: "byte list \<Rightarrow> nat option \<Rightarrow> string \<Rightarrow> (byte list \<times> nat option \<times> string) option" where
  "v6loop bytes ell s =
     (if length bytes \<ge> 16 then Some (bytes, ell, s)
      else let h = takeWhile isHex s; rest = dropWhile isHex s in
        if h = [] \<or> length h > 4 then None
        else if rest \<noteq> [] \<and> hd rest = CHR ''.'' then
          (if ell = None \<and> length bytes \<noteq> 12 then None
           else if length bytes + 4 > 16 then None
           else case parseIPv4 s of None \<Rightarrow> None | Some b4 \<Rightarrow> Some (bytes @ b4, ell, []))
        else let n = hexNum 0 h; bytes' = bytes @ [of_nat (n div 256), of_nat (n mod 256)] in
          (case rest of
             [] \<Rightarrow> Some (bytes', ell, [])
           | c # rest' \<Rightarrow>
               if c \<noteq> CHR '':'' then None
               else if rest' = [] then None
               else if hd rest' = CHR '':'' then
                 (if ell \<noteq> None then None
                  else if tl rest' = [] then Some (bytes', Some (length bytes'), [])
                  else v6loop bytes' (Some (length bytes')) (tl rest'))
               else v6loop bytes' ell rest'))"
  by pat_completeness auto

lemma dropWhile_hex_length: "takeWhile P s \<noteq> [] \<Longrightarrow> length (dropWhile P s) < length s"
  by (cases s) (auto simp: length_dropWhile_le le_imp_less_Suc split: if_splits)

termination v6loop
proof (relation "measure (\<lambda>(_, _, s). length s)", goal_cases)
  case 1
  show ?case by simp
next
  case (2 bytes ell s h rest n bytes' c rest')
  then have h: "takeWhile isHex s \<noteq> []" and r: "dropWhile isHex s = c # rest'" by simp_all
  from dropWhile_hex_length [OF h] have "Suc (length rest') < length s" unfolding r by simp
  then show ?case by simp
next
  case (3 bytes ell s h rest n bytes' c rest')
  then have h: "takeWhile isHex s \<noteq> []" and r: "dropWhile isHex s = c # rest'" by simp_all
  from dropWhile_hex_length [OF h] have "Suc (length rest') < length s" unfolding r by simp
  then show ?case by simp
qed

declare v6loop.simps [simp del]

definition parseIPv6 :: "string \<Rightarrow> byte list option" where
  "parseIPv6 s =
     (if take 2 s = ''::'' \<and> length s = 2 then Some (replicate 16 0)
      else case (if take 2 s = ''::'' then v6loop [] (Some 0) (drop 2 s) else v6loop [] None s) of
        None \<Rightarrow> None
      | Some (bytes, ell, rest) \<Rightarrow>
          if rest \<noteq> [] then None
          else if length bytes < 16 then
            (case ell of None \<Rightarrow> None
             | Some e \<Rightarrow> Some (take e bytes @ replicate (16 - length bytes) 0 @ drop e bytes))
          else if ell \<noteq> None then None else Some bytes)"

subsection \<open>\<open>ParseIP\<close>, \<open>To4\<close>, \<open>String\<close>\<close>

abbreviation v4prefix :: "byte list" where
  "v4prefix \<equiv> [0, 0, 0, 0, 0, 0, 0, 0, 0, 0, 255, 255]"

definition ParseIP :: "string \<Rightarrow> byte list option" where
  "ParseIP s =
     (if CHR ''%'' \<in> set s then None
      else case dropWhile (\<lambda>c. c \<noteq> CHR ''.'' \<and> c \<noteq> CHR '':'') s of
        [] \<Rightarrow> None
      | c # _ \<Rightarrow> if c = CHR ''.'' then map_option (\<lambda>b. v4prefix @ b) (parseIPv4 s) else parseIPv6 s)"

definition To4 :: "byte list \<Rightarrow> byte list option" where
  "To4 ip =
     (if length ip = 4 then Some ip
      else if length ip = 16 \<and> take 12 ip = v4prefix then Some (drop 12 ip)
      else None)"

definition To16 :: "byte list \<Rightarrow> byte list option" where
  "To16 ip = (if length ip = 4 then Some (v4prefix @ ip) else if length ip = 16 then Some ip else None)"

fun groups :: "byte list \<Rightarrow> nat list" where
  "groups (a # b # bs) = (256 * unat a + unat b) # groups bs"
| "groups _ = []"

definition hexDigit :: "nat \<Rightarrow> char" where
  "hexDigit d = (if d < 10 then char_of (48 + d) else char_of (87 + d))"

fun hexText :: "nat \<Rightarrow> string" where
  "hexText n = (if n < 16 then [hexDigit n] else hexText (n div 16) @ [hexDigit (n mod 16)])"

declare hexText.simps [simp del]

text \<open>The first longest run of at least two zero groups: its start and end.\<close>

fun zeroRun :: "nat list \<Rightarrow> nat" where
  "zeroRun [] = 0"
| "zeroRun (g # gs) = (if g = 0 then Suc (zeroRun gs) else 0)"

definition longestRun :: "nat list \<Rightarrow> nat \<times> nat" where
  "longestRun gs =
     fold (\<lambda>i (st, en). let l = zeroRun (drop i gs) in if l \<ge> 2 \<and> l > en - st then (i, i + l) else (st, en))
       [0..<length gs] (255, 255)"

fun sepHex :: "nat list \<Rightarrow> string" where
  "sepHex [] = []"
| "sepHex [g] = hexText g"
| "sepHex (g # gs) = hexText g @ '':'' @ sepHex gs"

definition v6text :: "byte list \<Rightarrow> string" where
  "v6text bs =
     (let gs = groups bs; (st, en) = longestRun gs in
      if st = 255 then sepHex gs
      else sepHex (take st gs) @ ''::'' @ sepHex (drop en gs))"

definition ipString :: "byte list \<Rightarrow> string" where
  "ipString ip =
     (if length ip \<noteq> 4 \<and> length ip \<noteq> 16 then ''?''
      else case To4 ip of Some p4 \<Rightarrow> dotted p4 | None \<Rightarrow> v6text ip)"

subsection \<open>Round trip of the dotted notation\<close>

lemma splitOn_no: "c \<notin> set xs \<Longrightarrow> splitOn c xs = [xs]"
  by (induction xs) auto

lemma splitOn_append: "c \<notin> set xs \<Longrightarrow> splitOn c (xs @ c # ys) = xs # splitOn c ys"
  by (induction xs) auto

lemma dot_notin_decimal [simp]: "CHR ''.'' \<notin> set (decimal n)" "CHR '':'' \<notin> set (decimal n)"
  "CHR ''%'' \<notin> set (decimal n)" "CHR ''/'' \<notin> set (decimal n)"
  using decimal_digits by (force simp: isDigit_def)+

lemma digit_zero: "d < 10 \<Longrightarrow> digit d = CHR ''0'' \<Longrightarrow> d = 0"
  using of_char_digit [of d] by simp

lemma hd_decimal: "hd (decimal n) = CHR ''0'' \<Longrightarrow> n = 0"
proof (induction n rule: decimal.induct)
  case (1 n)
  show ?case
  proof (cases "n < 10")
    case True
    with "1.prems" show ?thesis by (simp add: decimal.simps [of n] digit_zero)
  next
    case False
    with "1.prems" have "hd (decimal (n div 10)) = CHR ''0''" by (simp add: decimal.simps [of n])
    with False "1.IH" have "n div 10 = 0" by simp
    with False show ?thesis by simp
  qed
qed

lemma octet_decimal: "octet (decimal (unat (a :: byte))) = Some a"
proof -
  have "unat a \<le> 255" using unsigned_less [of a, where 'a = nat] by simp
  then show ?thesis
    using decimal_digits hd_decimal [of "unat a"]
    by (auto simp: octet_def list_all_iff decimal.simps [of 0])
qed

lemma parseIPv4_dotted: "parseIPv4 (dotted [a, b, c, d]) = Some [a, b, c, d]"
  by (simp add: parseIPv4_def dotted_def splitOn_append splitOn_no octet_decimal)

lemma ParseIP_dotted: "ParseIP (dotted [a, b, c, d]) = Some (v4prefix @ [a, b, c, d])"
proof -
  have "dropWhile (\<lambda>c. c \<noteq> CHR ''.'' \<and> c \<noteq> CHR '':'') (xs @ CHR ''.'' # ys) = CHR ''.'' # ys"
    if "CHR ''.'' \<notin> set xs" "CHR '':'' \<notin> set xs" for xs ys :: string
    using that by (induction xs) auto
  note drop = this [of "decimal (unat a)"]
  have "CHR ''%'' \<notin> set (dotted [a, b, c, d])" by (auto simp: dotted_def)
  then show ?thesis
    using parseIPv4_dotted [of a b c d] drop
    by (simp add: ParseIP_def dotted_def)
qed

subsection \<open>Round trip of the hexadecimal notation\<close>

lemma of_char_hexDigit: "d < 16 \<Longrightarrow> (of_char (hexDigit d) :: nat) = (if d < 10 then 48 + d else 87 + d)"
  by (simp add: hexDigit_def)

lemma hexVal_hexDigit [simp]: "d < 16 \<Longrightarrow> hexVal (hexDigit d) = Some d"
  by (auto simp: hexVal_def Let_def of_char_hexDigit)

lemma hexNum_append: "hexNum acc (xs @ ys) = hexNum (hexNum acc xs) ys"
  by (induction xs arbitrary: acc) simp_all

lemma hexText_eq:
  "hexText n = (if n < 16 then [hexDigit n] else hexText (n div 16) @ [hexDigit (n mod 16)])"
  by (fact hexText.simps)

lemma hexNum_hexText [simp]: "hexNum 0 (hexText n) = n"
proof (induction n rule: hexText.induct)
  case (1 n)
  then show ?case by (cases "n < 16") (simp_all add: hexText_eq [of n] hexNum_append)
qed

lemma isHex_hexText: "c \<in> set (hexText n) \<Longrightarrow> isHex c"
proof (induction n rule: hexText.induct)
  case (1 n)
  then show ?case by (cases "n < 16") (auto simp: hexText_eq [of n] isHex_def)
qed

lemma hexText_not_Nil [simp]: "hexText n \<noteq> []"
  by (subst hexText_eq) simp

lemma length_hexText: "n < 16 ^ Suc k \<Longrightarrow> length (hexText n) \<le> Suc k"
proof (induction k arbitrary: n)
  case (Suc k)
  then show ?case by (subst hexText_eq) (auto simp: less_mult_imp_div_less mult.commute)
qed (simp add: hexText_eq)

lemma isHex_separators [simp]: "\<not> isHex CHR '':''" "\<not> isHex CHR ''.''" "\<not> isHex CHR ''%''" "\<not> isHex CHR ''/''"
  by (simp_all add: isHex_def hexVal_def)

lemma takeWhile_hexText:
  "takeWhile isHex (hexText g) = hexText g" "dropWhile isHex (hexText g) = []"
  "takeWhile isHex (hexText g @ CHR '':'' # r) = hexText g"
  "dropWhile isHex (hexText g @ CHR '':'' # r) = CHR '':'' # r"
  using isHex_hexText [of _ g]
  by (simp_all add: takeWhile_eq_all_conv takeWhile_append2 dropWhile_append2)

definition groupBytes :: "nat \<Rightarrow> byte list" where
  "groupBytes g = [of_nat (g div 256), of_nat (g mod 256)]"

definition bytesOf :: "nat list \<Rightarrow> byte list" where
  "bytesOf gs = concat (map groupBytes gs)"

lemma bytesOf_simps [simp]:
  "bytesOf [] = []" "bytesOf (g # gs) = groupBytes g @ bytesOf gs"
  "bytesOf (gs @ hs) = bytesOf gs @ bytesOf hs"
  "length (bytesOf gs) = 2 * length gs" "length (groupBytes g) = 2"
  by (simp_all add: bytesOf_def groupBytes_def length_concat comp_def sum_list_triv)

lemma length_group: "g < 65536 \<Longrightarrow> length (hexText g) \<le> 4"
  using length_hexText [of g 3] by simp

lemma v6loop_last:
  assumes "length bs < 16" "g < 65536"
  shows "v6loop bs ell (hexText g) = Some (bs @ groupBytes g, ell, [])"
  using assms length_group [of g] by (subst v6loop.simps) (simp add: takeWhile_hexText groupBytes_def)

lemma v6loop_step:
  assumes "length bs < 16" "g < 65536" "r \<noteq> []" "hd r \<noteq> CHR '':''"
  shows "v6loop bs ell (hexText g @ CHR '':'' # r) = v6loop (bs @ groupBytes g) ell r"
  using assms length_group [of g] by (subst v6loop.simps) (simp add: takeWhile_hexText groupBytes_def)

lemma v6loop_ellipsis:
  assumes "length bs < 16" "g < 65536"
  shows "v6loop bs None (hexText g @ CHR '':'' # CHR '':'' # r) =
    (if r = [] then Some (bs @ groupBytes g, Some (length bs + 2), [])
     else v6loop (bs @ groupBytes g) (Some (length bs + 2)) r)"
  using assms length_group [of g] by (subst v6loop.simps) (simp add: takeWhile_hexText groupBytes_def)

lemma hd_hexText [simp]: "isHex (hd (hexText g))"
  using isHex_hexText [of "hd (hexText g)" g] by simp

lemma sepHex_not_Nil [simp]: "sepHex gs = [] \<longleftrightarrow> gs = []"
  by (cases gs rule: sepHex.cases) simp_all

lemma sepHex_hd: "gs \<noteq> [] \<Longrightarrow> isHex (hd (sepHex gs @ r))"
  by (cases gs rule: sepHex.cases) (simp_all add: hd_append)

lemma sepHex_hd_colon: "gs \<noteq> [] \<Longrightarrow> hd (sepHex gs @ r) \<noteq> CHR '':''"
  using sepHex_hd [of gs r] by auto

lemma v6loop_sepHex:
  assumes "gs \<noteq> []" "length bs + 2 * length gs \<le> 16" "\<forall>g \<in> set gs. g < 65536"
  shows "v6loop bs ell (sepHex gs) = Some (bs @ bytesOf gs, ell, [])"
  using assms
proof (induction gs arbitrary: bs rule: sepHex.induct)
  case (3 g h gs)
  then show ?case using sepHex_hd_colon [of "h # gs" "[]"]
    by (simp add: v6loop_step)
qed (simp_all add: v6loop_last)

lemma v6loop_compressed:
  assumes "gs \<noteq> []" "length bs + 2 * length gs \<le> 16" "\<forall>g \<in> set gs. g < 65536"
  shows "v6loop bs None (sepHex gs @ CHR '':'' # CHR '':'' # r) =
    (if r = [] then Some (bs @ bytesOf gs, Some (length bs + 2 * length gs), [])
     else v6loop (bs @ bytesOf gs) (Some (length bs + 2 * length gs)) r)"
  using assms
proof (induction gs arbitrary: bs rule: sepHex.induct)
  case (3 g h gs)
  then show ?case using sepHex_hd_colon [of "h # gs" "CHR '':'' # CHR '':'' # r"]
    by (simp add: v6loop_step)
qed (simp_all add: v6loop_ellipsis)

lemma zeroRun_zero: "j < zeroRun gs \<Longrightarrow> gs ! j = 0"
  by (induction gs arbitrary: j) (auto simp: nth_Cons split: if_splits nat.splits)

lemma zeroRun_le: "zeroRun gs \<le> length gs"
  by (induction gs) simp_all

definition isRun :: "nat list \<Rightarrow> nat \<times> nat \<Rightarrow> bool" where
  "isRun gs r \<longleftrightarrow> r = (255, 255) \<or>
     fst r + 2 \<le> snd r \<and> snd r \<le> length gs \<and> (\<forall>j. fst r \<le> j \<and> j < snd r \<longrightarrow> gs ! j = 0)"

lemma isRun_longestRun: "isRun gs (longestRun gs)"
proof -
  let ?f = "\<lambda>i (st, en). let l = zeroRun (drop i gs) in if l \<ge> 2 \<and> l > en - st then (i, i + l) else (st, en)"
  have step: "isRun gs (?f i r)" if "i < length gs" "isRun gs r" for i r
  proof -
    let ?l = "zeroRun (drop i gs)"
    have "i + ?l \<le> length gs" using that zeroRun_le [of "drop i gs"] by simp
    moreover have "gs ! j = 0" if "i \<le> j" "j < i + ?l" for j
      using zeroRun_zero [of "j - i" "drop i gs"] that \<open>i < length gs\<close> by simp
    ultimately show ?thesis using that(2) by (auto simp: isRun_def Let_def split: prod.splits)
  qed
  have "isRun gs (fold ?f is r)" if "\<forall>i \<in> set is. i < length gs" "isRun gs r" for "is" r
    using that step by (induction "is" arbitrary: r) (auto simp del: split_paired_All)
  then show ?thesis unfolding longestRun_def by (simp add: isRun_def)
qed

lemma bytesOf_groups: "even (length bs) \<Longrightarrow> bytesOf (groups bs) = bs"
proof (induction bs rule: groups.induct)
  case (1 a b bs)
  have "unat b < 256" "unat a < 256" using unsigned_less [of a, where 'a = nat] unsigned_less [of b, where 'a = nat]
    by simp_all
  with 1 show ?case by (simp add: groupBytes_def)
qed simp_all

lemma length_groups: "length (groups bs) = length bs div 2"
  by (induction bs rule: groups.induct) simp_all

lemma groups_bound: "g \<in> set (groups bs) \<Longrightarrow> g < 65536"
proof (induction bs rule: groups.induct)
  case (1 a b bs)
  have "unat b < 256" "unat a < 256" using unsigned_less [of a, where 'a = nat] unsigned_less [of b, where 'a = nat]
    by simp_all
  with 1 show ?case by auto
qed simp_all

lemma bytesOf_zeros: "bytesOf (replicate n 0) = replicate (2 * n) 0"
  by (induction n) (simp_all add: groupBytes_def)

lemma run_split:
  assumes "st + 2 \<le> en" "en \<le> length gs" "\<And>j. st \<le> j \<Longrightarrow> j < en \<Longrightarrow> gs ! j = 0"
  shows "gs = take st gs @ replicate (en - st) 0 @ drop en gs"
  using assms by (intro nth_equalityI) (auto simp: nth_append min_def)

lemma take2_hex: "isHex (hd s) \<Longrightarrow> take 2 s \<noteq> ''::''"
  by (cases s) auto

lemma parseIPv6_sepHex:
  assumes "length gs = 8" "\<forall>g \<in> set gs. g < 65536"
  shows "parseIPv6 (sepHex gs) = Some (bytesOf gs)"
proof -
  have "gs \<noteq> []" using assms(1) by auto
  then show ?thesis
    using assms take2_hex [of "sepHex gs"] sepHex_hd [of gs "[]"]
    by (simp add: parseIPv6_def v6loop_sepHex)
qed

lemma parseIPv6_compressed:
  assumes gs: "length gs = 8" "\<forall>g \<in> set gs. g < 65536"
    and run: "st + 2 \<le> en" "en \<le> 8" "\<And>j. st \<le> j \<Longrightarrow> j < en \<Longrightarrow> gs ! j = 0"
  shows "parseIPv6 (sepHex (take st gs) @ ''::'' @ sepHex (drop en gs)) = Some (bytesOf gs)"
proof -
  let ?l = "take st gs" and ?r = "drop en gs"
  have split: "gs = ?l @ replicate (en - st) 0 @ ?r"
    using run gs by (intro run_split) simp_all
  have B: "bytesOf gs = bytesOf ?l @ replicate (2 * (en - st)) 0 @ bytesOf ?r"
    by (subst split) (simp only: bytesOf_simps bytesOf_zeros)
  have len: "length ?l = st" "length ?r = 8 - en" using gs run by simp_all
  have small: "\<forall>g \<in> set ?l. g < 65536" "\<forall>g \<in> set ?r. g < 65536"
    using gs(2) by (auto dest: in_set_takeD in_set_dropD)
  have pad: "16 - (2 * st + 2 * (8 - en)) = 2 * (en - st)" "2 * st + 2 * (8 - en) < 16"
    using run by linarith+
  show ?thesis
  proof (cases "?l = []")
    case True
    with len have st: "st = 0" by simp
    show ?thesis
    proof (cases "?r = []")
      case True
      with len run st have "en = 8" by simp
      with B st True show ?thesis by (simp add: parseIPv6_def)
    next
      case r: False
      have "v6loop [] (Some 0) (sepHex ?r) = Some (bytesOf ?r, Some 0, [])"
        using v6loop_sepHex [OF r, of "[]" "Some 0"] len small by simp
      with B st r pad len show ?thesis by (simp add: parseIPv6_def)
    qed
  next
    case l: False
    let ?s = "sepHex ?l @ CHR '':'' # CHR '':'' # sepHex ?r"
    have "v6loop [] None ?s = Some (bytesOf ?l @ bytesOf ?r, Some (2 * st), [])"
    proof (cases "?r = []")
      case True
      then show ?thesis using v6loop_compressed [OF l, of "[]" "[]"] len small run by simp
    next
      case r: False
      then show ?thesis
        using v6loop_compressed [OF l, of "[]" "sepHex ?r"] v6loop_sepHex [OF r, of "bytesOf ?l" "Some (2 * st)"]
          len small run by simp
    qed
    moreover have "take 2 ?s \<noteq> ''::''" by (intro take2_hex sepHex_hd l)
    ultimately show ?thesis using B pad len by (simp add: parseIPv6_def)
  qed
qed

lemma parseIPv6_v6text:
  assumes "length bs = 16"
  shows "parseIPv6 (v6text bs) = Some bs"
proof -
  obtain st en where r: "longestRun (groups bs) = (st, en)" by fastforce
  have gs: "length (groups bs) = 8" "\<forall>g \<in> set (groups bs). g < 65536" "bytesOf (groups bs) = bs"
    using assms groups_bound by (auto simp: length_groups bytesOf_groups)
  from isRun_longestRun [of "groups bs"] r
  have "st = 255 \<or> st + 2 \<le> en \<and> en \<le> 8 \<and> (\<forall>j. st \<le> j \<and> j < en \<longrightarrow> groups bs ! j = 0) \<and> st \<noteq> 255"
    by (auto simp: isRun_def gs)
  then show ?thesis
    using parseIPv6_sepHex [OF gs(1,2)] parseIPv6_compressed [OF gs(1,2), of st en] r gs(3)
    by (auto simp: v6text_def Let_def)
qed

lemma sepHex_chars: "c \<in> set (sepHex gs) \<Longrightarrow> c = CHR '':'' \<or> isHex c"
  by (induction gs rule: sepHex.induct) (auto dest: isHex_hexText)

lemma v6text_chars: "c \<in> set (v6text bs) \<Longrightarrow> c = CHR '':'' \<or> isHex c"
  by (auto simp: v6text_def Let_def dest: sepHex_chars split: prod.splits if_splits)

lemma v6text_colon:
  assumes "length bs = 16"
  shows "CHR '':'' \<in> set (v6text bs)"
proof -
  have "CHR '':'' \<in> set (sepHex gs)" if "length gs = 8" for gs
    using that by (cases gs rule: sepHex.cases) simp_all
  with assms show ?thesis by (cases "longestRun (groups bs)") (simp add: v6text_def Let_def length_groups)
qed

lemma dropWhile_stops:
  "c \<in> set s \<Longrightarrow> c' \<notin> set s \<Longrightarrow> \<exists>r. dropWhile (\<lambda>x. x \<noteq> c' \<and> x \<noteq> c) s = c # r"
  by (induction s) auto

lemma ParseIP_v6text:
  assumes "length bs = 16"
  shows "ParseIP (v6text bs) = Some bs"
proof -
  have "CHR ''%'' \<notin> set (v6text bs)" "CHR ''.'' \<notin> set (v6text bs)"
    using v6text_chars by fastforce+
  moreover from dropWhile_stops [OF v6text_colon [OF assms] this(2)]
  obtain r where "dropWhile (\<lambda>x. x \<noteq> CHR ''.'' \<and> x \<noteq> CHR '':'') (v6text bs) = CHR '':'' # r" by blast
  ultimately show ?thesis using parseIPv6_v6text [OF assms] by (simp add: ParseIP_def)
qed

text \<open>The canonical byte layout: 4 bytes for IPv4, 16 for the rest.\<close>

definition layout :: "byte list \<Rightarrow> byte list option" where
  "layout ip = (case To4 ip of Some a \<Rightarrow> Some a | None \<Rightarrow> To16 ip)"

lemma ParseIP_ipString:
  assumes "layout ip = Some addr" "length net = length addr" "length net = 16 \<Longrightarrow> To4 net = None"
  shows "\<exists>ip'. ParseIP (ipString net) = Some ip' \<and> layout ip' = Some net"
proof -
  have "length addr = 4 \<or> length addr = 16"
    using assms(1) by (auto simp: layout_def To4_def To16_def split: if_splits option.splits)
  with assms(2) consider "length net = 4" | "length net = 16" by auto
  then show ?thesis
  proof cases
    case 1
    then obtain a b c d where net: "net = [a, b, c, d]"
      by (auto simp: numeral_eq_Suc length_Suc_conv)
    then show ?thesis
      using ParseIP_dotted [of a b c d] by (simp add: ipString_def To4_def layout_def)
  next
    case 2
    with assms(3) show ?thesis
      by (simp add: ipString_def ParseIP_v6text layout_def To16_def)
  qed
qed

lemma ipString_no_slash: "CHR ''/'' \<notin> set (ipString net)"
proof -
  have d: "CHR ''/'' \<notin> set (dotted bs)" for bs
    by (auto simp: dotted_def split: list.splits)
  have v: "CHR ''/'' \<notin> set (v6text net)" using v6text_chars [of "CHR ''/''" net] by auto
  from d v show ?thesis by (simp add: ipString_def split: option.splits)
qed

lemma atoi_chars: "atoi s = Some n \<Longrightarrow> c \<in> set s \<Longrightarrow> isDigit c \<or> c = CHR ''-'' \<or> c = CHR ''+''"
  by (auto simp: atoi_def Let_def list_all_iff split: list.splits if_splits)

lemma atoi_formatInt: "0 \<le> n \<Longrightarrow> n < 2 ^ 63 \<Longrightarrow> atoi (formatInt n) = Some n"
proof -
  assume n: "0 \<le> n" "n < 2 ^ 63"
  obtain c cs where d: "decimal (nat n) = c # cs" by (cases "decimal (nat n)") simp_all
  then have "isDigit c" using decimal_digits [of c "nat n"] by simp
  then have "c \<noteq> CHR ''-''" "c \<noteq> CHR ''+''" by (auto simp: isDigit_def)
  with n d decimal_digits [of _ "nat n"] digitsVal_decimal [of "nat n"] show ?thesis
    by (auto simp: atoi_def Let_def formatInt_def list_all_iff simp del: digitsVal_decimal)
qed

lemma takeWhile_tail_sep: "c \<notin> set ys \<Longrightarrow> takeWhile (\<lambda>x. x \<noteq> c) (rev ys @ c # xs) = rev ys"
  and dropWhile_tail_sep: "c \<notin> set ys \<Longrightarrow> dropWhile (\<lambda>x. x \<noteq> c) (rev ys @ c # xs) = c # xs"
  by (subst takeWhile_append2 dropWhile_append2, auto)+

lemma splitLast_join: "c \<notin> set ys \<Longrightarrow> splitLast c (xs @ c # ys) = Some (xs, ys)"
  by (simp add: splitLast_def takeWhile_tail_sep dropWhile_tail_sep)

end
