(* ===== verification/SG_Types.thy ===== *)
theory SG_Types
  imports API_Types Tags
begin

text \<open>
  The data of \<open>apis/v1alpha1\<close> that the security-group controller works on. Pointers are
  options, also the elements of the slices (\<open>[]*T\<close>), since the code tests both.
\<close>

record ip_range =
  CIDRIP :: "string option"
  rangeDescription :: "string option"

record ipv6_range =
  CIDRIPv6 :: "string option"
  range6Description :: "string option"

record prefix_list_id =
  PrefixListID :: "string option"
  plDescription :: "string option"

record user_id_group_pair =
  pairDescription :: "string option"
  GroupID :: "string option"
  GroupName :: "string option"
  GroupRef :: "ref_wrapper option"
  PeeringStatus :: "string option"
  UserID :: "string option"
  pairVPCID :: "string option"
  VPCPeeringConnectionID :: "string option"
  pairVPCRef :: "ref_wrapper option"

record ip_permission =
  FromPort :: "int64 option"
  IPProtocol :: "string option"
  IPRanges :: "ip_range option slice"
  IPv6Ranges :: "ipv6_range option slice"
  PrefixListIDs :: "prefix_list_id option slice"
  ToPort :: "int64 option"
  UserIDGroupPairs :: "user_id_group_pair option slice"

type_synonym rules = "ip_permission option slice"

record security_group_rule =
  sgrCIDRIPv4 :: "string option"
  sgrCIDRIPv6 :: "string option"
  sgrDescription :: "string option"
  sgrFromPort :: "int64 option"
  sgrIPProtocol :: "string option"
  sgrIsEgress :: "bool option"
  sgrPrefixListID :: "string option"
  sgrSecurityGroupRuleID :: "string option"
  sgrTags :: "tag list option"
  sgrToPort :: "int64 option"

record sg_spec =
  Description :: "string option"
  EgressRules :: rules
  IngressRules :: rules
  Name :: "string option"
  sgTags :: "tag list option"
  VPCID :: "string option"
  VPCRef :: "ref_wrapper option"

record sg_status = common_status +
  ID :: "string option"
  Rules :: "security_group_rule list option"

record security_group =
  Spec :: sg_spec
  Status :: sg_status

text \<open>\<open>resource{ko}\<close>, with a \<open>ko\<close> that may be nil.\<close>

record sg_resource =
  ko :: "security_group option"

end
