(* ===== verification/SG_Canonical.thy ===== *)
theory SG_Canonical
  imports SG_Types Go_Net "HOL-Library.List_Lexorder" "HOL-Library.Char_ord"
begin

text \<open>
  The canonical form of security-group rules (\<open>pkg/resource/security_group/hooks.go\<close>), by
  which the controller decides whether the rules of a spec and the rules EC2 returned are
  the same: protocol names, CIDRs masked to their network, group pairs stripped of what EC2
  fills in, rules merged by protocol and ports, everything sorted.

  \<open>sort.Slice\<close> is \<open>sort_key\<close>, with Go's bytewise order on strings. Go's sort is not stable, so
  the theorems that depend on an order ask for sort keys that tell the elements apart.
\<close>

subsection \<open>Protocols and ports\<close>

definition icmpv6Protocol :: string where "icmpv6Protocol = ''icmpv6''"

definition portCarryingProtocols :: "string list" where
  "portCarryingProtocols = [''tcp'', ''udp'', ''icmp'', icmpv6Protocol]"

definition wellKnownProtocols :: "string \<Rightarrow> string option" where
  "wellKnownProtocols = map_of [(''1'', ''icmp''), (''6'', ''tcp''), (''17'', ''udp''), (''58'', ''icmpv6'')]"

definition canonicalizeProtocol :: "string option \<Rightarrow> string option" where
  "canonicalizeProtocol proto =
     (case proto of None \<Rightarrow> None
      | Some p \<Rightarrow> (case wellKnownProtocols p of Some name \<Rightarrow> Some name | None \<Rightarrow> proto))"

text \<open>\<open>p != nil && *p == -1\<close> clears a port.\<close>

definition clearWildcard :: "int64 option \<Rightarrow> int64 option" where
  "clearWildcard p = (if p \<noteq> None \<and> p = Some (- 1) then None else p)"

definition canonicalizePorts :: "ip_permission \<Rightarrow> ip_permission" where
  "canonicalizePorts rule =
     (case IPProtocol rule of None \<Rightarrow> rule
      | Some proto \<Rightarrow>
          if proto \<notin> set portCarryingProtocols then rule\<lparr>FromPort := None, ToPort := None\<rparr>
          else if proto = icmpv6Protocol
          then rule\<lparr>FromPort := clearWildcard (FromPort rule), ToPort := clearWildcard (ToPort rule)\<rparr>
          else rule)"

subsection \<open>CIDRs\<close>

text \<open>\<open>byte(((1 << remaining) - 1) << (8 - remaining))\<close>\<close>

definition maskByte :: "nat \<Rightarrow> byte" where
  "maskByte remaining = word_of_int (push_bit (8 - remaining) (push_bit remaining 1 - 1))"

text \<open>The masking loop: the network bytes and the prefix bits left over.\<close>

fun maskLoop :: "byte list \<Rightarrow> nat \<Rightarrow> byte list \<times> nat" where
  "maskLoop [] remaining = ([], remaining)"
| "maskLoop (a # addr) remaining =
     (if remaining = 0 then (replicate (length (a # addr)) 0, 0)
      else if remaining > 8
      then (case maskLoop addr (remaining - 8) of (ns, r) \<Rightarrow> (and a 0xff # ns, r))
      else (case maskLoop addr 0 of (ns, r) \<Rightarrow> (and a (maskByte remaining) # ns, r)))"

definition canonicalizeCIDR :: "string option \<Rightarrow> string option" where
  "canonicalizeCIDR cidr =
     (case cidr of None \<Rightarrow> None | Some c \<Rightarrow>
      (case splitLast CHR ''/'' c of None \<Rightarrow> cidr | Some (addrText, prefixText) \<Rightarrow>
      (case (ParseIP addrText, atoi prefixText) of
         (Some ip, Some prefixLength) \<Rightarrow>
           if prefixLength < 0 then cidr
           else (case (case To4 ip of Some a \<Rightarrow> Some a | None \<Rightarrow> To16 ip) of
               None \<Rightarrow> cidr
             | Some addr \<Rightarrow>
                 (case maskLoop addr (nat prefixLength) of (network, remaining) \<Rightarrow>
                   if remaining \<noteq> 0 then cidr
                   else Some (ipString network @ ''/'' @ formatInt prefixLength)))
       | _ \<Rightarrow> cidr)))"

subsection \<open>Grants\<close>

definition canonicalizeRange :: "ip_range \<Rightarrow> ip_range" where
  "canonicalizeRange r = r\<lparr>CIDRIP := canonicalizeCIDR (CIDRIP r)\<rparr>"

definition canonicalizeRange6 :: "ipv6_range \<Rightarrow> ipv6_range" where
  "canonicalizeRange6 r = r\<lparr>CIDRIPv6 := canonicalizeCIDR (CIDRIPv6 r)\<rparr>"

definition canonicalizeGroupPair :: "string \<Rightarrow> string \<Rightarrow> user_id_group_pair \<Rightarrow> user_id_group_pair" where
  "canonicalizeGroupPair selfID ownerAccountID pair =
     pair\<lparr>GroupRef := None, pairVPCRef := None,
          pairVPCID := None, PeeringStatus := None, VPCPeeringConnectionID := None,
          GroupID := (if GroupID pair \<noteq> None \<and> GroupID pair = Some selfID then None else GroupID pair),
          UserID := (if UserID pair \<noteq> None \<and> UserID pair = Some ownerAccountID then None else UserID pair)\<rparr>"

text \<open>The body of the first loop of \<open>canonicalizeRuleList\<close>, for a rule that is not nil.\<close>

definition canonicalizeRule :: "string \<Rightarrow> string \<Rightarrow> ip_permission \<Rightarrow> ip_permission" where
  "canonicalizeRule selfID ownerAccountID rule =
     (let r = canonicalizePorts (rule\<lparr>IPProtocol := canonicalizeProtocol (IPProtocol rule)\<rparr>)
      in r\<lparr>IPRanges := map_option (map (map_option canonicalizeRange)) (IPRanges r),
           IPv6Ranges := map_option (map (map_option canonicalizeRange6)) (IPv6Ranges r),
           UserIDGroupPairs :=
             map_option (map (map_option (canonicalizeGroupPair selfID ownerAccountID))) (UserIDGroupPairs r)\<rparr>)"

subsection \<open>Keys\<close>

definition derefStr :: "string option \<Rightarrow> string" where
  "derefStr s = (case s of None \<Rightarrow> [] | Some x \<Rightarrow> x)"

definition ruleAggregationKey :: "ip_permission \<Rightarrow> string" where
  "ruleAggregationKey rule =
     (let proto = (case IPProtocol rule of None \<Rightarrow> [] | Some p \<Rightarrow> p);
          from = (case FromPort rule of None \<Rightarrow> ''nil'' | Some p \<Rightarrow> formatInt (sint p));
          to = (case ToPort rule of None \<Rightarrow> ''nil'' | Some p \<Rightarrow> formatInt (sint p))
      in proto @ ''/'' @ from @ ''/'' @ to)"

definition ipRangeSortKey :: "ip_range option \<Rightarrow> string" where
  "ipRangeSortKey r = (case r of None \<Rightarrow> [] | Some x \<Rightarrow> derefStr (CIDRIP x))"

definition ipv6RangeSortKey :: "ipv6_range option \<Rightarrow> string" where
  "ipv6RangeSortKey r = (case r of None \<Rightarrow> [] | Some x \<Rightarrow> derefStr (CIDRIPv6 x))"

definition prefixListIDSortKey :: "prefix_list_id option \<Rightarrow> string" where
  "prefixListIDSortKey p = (case p of None \<Rightarrow> [] | Some x \<Rightarrow> derefStr (PrefixListID x))"

definition userIDGroupPairSortKey :: "user_id_group_pair option \<Rightarrow> string" where
  "userIDGroupPairSortKey pair = (case pair of None \<Rightarrow> []
     | Some x \<Rightarrow> derefStr (GroupID x) @ ''/'' @ derefStr (UserID x) @ ''/'' @ derefStr (GroupName x))"

definition sortGrants :: "ip_permission \<Rightarrow> ip_permission" where
  "sortGrants rule =
     rule\<lparr>IPRanges := map_option (sort_key ipRangeSortKey) (IPRanges rule),
          IPv6Ranges := map_option (sort_key ipv6RangeSortKey) (IPv6Ranges rule),
          PrefixListIDs := map_option (sort_key prefixListIDSortKey) (PrefixListIDs rule),
          UserIDGroupPairs := map_option (sort_key userIDGroupPairSortKey) (UserIDGroupPairs rule)\<rparr>"

subsection \<open>Rule lists\<close>

type_synonym merge_state = "(string \<Rightarrow> ip_permission option) \<times> string list"

text \<open>One round of the aggregation loop; a nil rule is skipped.\<close>

definition mergeRule :: "ip_permission option \<Rightarrow> merge_state \<Rightarrow> merge_state" where
  "mergeRule p st =
     (case (p, st) of
        (None, _) \<Rightarrow> st
      | (Some rule, byKey, order) \<Rightarrow>
          let key = ruleAggregationKey rule in
          (case byKey key of
             Some existing \<Rightarrow>
               (byKey(key \<mapsto> existing\<lparr>
                  IPRanges := appendAll (IPRanges existing) (elems (IPRanges rule)),
                  IPv6Ranges := appendAll (IPv6Ranges existing) (elems (IPv6Ranges rule)),
                  PrefixListIDs := appendAll (PrefixListIDs existing) (elems (PrefixListIDs rule)),
                  UserIDGroupPairs := appendAll (UserIDGroupPairs existing) (elems (UserIDGroupPairs rule))\<rparr>),
                order)
           | None \<Rightarrow>
               (byKey(key \<mapsto> \<lparr>
                  FromPort = FromPort rule, IPProtocol = IPProtocol rule,
                  IPRanges = appendAll None (elems (IPRanges rule)),
                  IPv6Ranges = appendAll None (elems (IPv6Ranges rule)),
                  PrefixListIDs = appendAll None (elems (PrefixListIDs rule)),
                  ToPort = ToPort rule,
                  UserIDGroupPairs = appendAll None (elems (UserIDGroupPairs rule))\<rparr>),
                order @ [key])))"

definition canonicalizeRuleList :: "rules \<Rightarrow> string \<Rightarrow> string \<Rightarrow> rules" where
  "canonicalizeRuleList rules selfID ownerAccountID =
     (case rules of None \<Rightarrow> None
      | Some rs \<Rightarrow>
          (case fold mergeRule (map (map_option (canonicalizeRule selfID ownerAccountID)) rs) (Map.empty, []) of
             (byKey, order) \<Rightarrow>
               Some (map Some (sort_key ruleAggregationKey (map (\<lambda>k. sortGrants (the (byKey k))) order)))))"

text \<open>Values have no aliases here, so the deep copy is the list itself.\<close>

definition deepCopyRuleList :: "rules \<Rightarrow> rules" where
  "deepCopyRuleList rules = (case rules of None \<Rightarrow> None | Some rs \<Rightarrow> Some (map (\<lambda>r. r) rs))"

subsection \<open>The comparison of two resources\<close>

definition securityGroupIdentityKnown :: "sg_resource option \<Rightarrow> bool" where
  "securityGroupIdentityKnown r =
     (case r of None \<Rightarrow> False | Some x \<Rightarrow>
     (case ko x of None \<Rightarrow> False | Some k \<Rightarrow>
        ID (Status k) \<noteq> None \<and>
        (case ACKResourceMetadata (Status k) of None \<Rightarrow> False | Some m \<Rightarrow> OwnerAccountID m \<noteq> None)))"

text \<open>Its precondition, the guard above, makes both pointers non-nil; \<open>None\<close> is the panic.\<close>

definition canonicalizeCopiedRuleLists :: "security_group \<Rightarrow> (rules \<times> rules) option" where
  "canonicalizeCopiedRuleLists k =
     (case (ID (Status k), map_option OwnerAccountID (ACKResourceMetadata (Status k))) of
        (Some selfID, Some (Some owner)) \<Rightarrow>
          Some (canonicalizeRuleList (deepCopyRuleList (IngressRules (Spec k))) selfID owner,
                canonicalizeRuleList (deepCopyRuleList (EgressRules (Spec k))) selfID owner)
      | _ \<Rightarrow> None)"

text \<open>\<open>equality.Semantic.DeepEqual\<close> belongs to Kubernetes and is the parameter \<open>deepEqual\<close>.\<close>

definition customPostCompare ::
  "(rules \<Rightarrow> rules \<Rightarrow> bool) \<Rightarrow> delta \<Rightarrow> sg_resource option \<Rightarrow> sg_resource option \<Rightarrow> delta option" where
  "customPostCompare deepEqual delta a b =
     (case (a, b) of
        (Some ra, Some rb) \<Rightarrow>
          (case (ko ra, ko rb) of
             (Some ka, Some kb) \<Rightarrow>
               if \<not> securityGroupIdentityKnown a \<or> \<not> securityGroupIdentityKnown b then Some delta
               else (case (canonicalizeCopiedRuleLists ka, canonicalizeCopiedRuleLists kb) of
                   (Some (aIngress, aEgress), Some (bIngress, bEgress)) \<Rightarrow>
                     let d1 = (if \<not> deepEqual aIngress bIngress then addDiff ''Spec.IngressRules'' delta else delta)
                     in Some (if \<not> deepEqual aEgress bEgress then addDiff ''Spec.EgressRules'' d1 else d1)
                 | _ \<Rightarrow> None)
           | _ \<Rightarrow> Some delta)
      | _ \<Rightarrow> Some delta)"

subsection \<open>The mask, bit by bit\<close>

text \<open>Bit \<open>i\<close> of an address, counted from the front.\<close>

definition addrBit :: "byte list \<Rightarrow> nat \<Rightarrow> bool" where
  "addrBit ip i = bit (ip ! (i div 8)) (7 - i mod 8)"

lemma bit_maskByte: "r \<le> 8 \<Longrightarrow> n < 8 \<Longrightarrow> bit (maskByte r) n \<longleftrightarrow> 8 - r \<le> n"
  by (auto simp: maskByte_def bit_word_of_int_iff bit_push_bit_iff
      mask_eq_exp_minus_1 [symmetric] push_bit_of_1 bit_mask_iff possible_bit_def)

lemma and_ff [simp]: "and a (0xff :: byte) = a"
proof -
  have "(0xff :: byte) = - 1" by simp
  then show ?thesis by (metis bit.conj_one_right)
qed

lemma addrBit_Cons:
  "addrBit (a # as) i = (if i < 8 then bit a (7 - i) else addrBit as (i - 8))"
proof -
  have "i div 8 = Suc ((i - 8) div 8)" "i mod 8 = (i - 8) mod 8" if "\<not> i < 8"
    using that by (simp_all add: le_div_geq le_mod_geq)
  then show ?thesis by (auto simp: addrBit_def)
qed

lemma addrBit_replicate [simp]: "i < 8 * n \<Longrightarrow> \<not> addrBit (replicate n 0) i"
  by (simp add: addrBit_def)

lemma maskLoop_length:
  "maskLoop addr p = (net, r) \<Longrightarrow> length net = length addr \<and> r = p - 8 * length addr"
  by (induction addr p arbitrary: net r rule: maskLoop.induct)
     (auto split: if_splits prod.splits)

lemma maskLoop_bits:
  "i < 8 * length addr \<Longrightarrow> addrBit (fst (maskLoop addr p)) i \<longleftrightarrow> i < p \<and> addrBit addr i"
proof (induction addr arbitrary: p i)
  case (Cons a addr)
  consider "p = 0" | "p > 8" | "0 < p" "p \<le> 8" by linarith
  then show ?case
  proof cases
    case 1
    then show ?thesis using Cons.prems addrBit_replicate [of i "Suc (length addr)"] by simp
  next
    case 2
    then have "i - 8 < p - 8 \<longleftrightarrow> i < p" if "\<not> i < 8" using that by linarith
    with 2 show ?thesis using Cons.IH [of "i - 8" "p - 8"] Cons.prems
      by (auto simp: addrBit_Cons split: prod.splits)
  next
    case 3
    then have "i < 8 \<Longrightarrow> bit (maskByte p) (7 - i) \<longleftrightarrow> i < p"
      by (auto simp: bit_maskByte)
    moreover have "i - 8 < 8 * length addr" if "\<not> i < 8" using that Cons.prems by simp
    ultimately show ?thesis using Cons.IH [of "i - 8" 0] Cons.prems 3
      by (auto simp: addrBit_Cons bit_and_iff split: prod.splits)
  qed
qed simp

subsection \<open>CIDRs and their networks\<close>

text \<open>A well-formed CIDR: the address in its byte layout and a prefix no longer than it.\<close>

definition cidrOf :: "string \<Rightarrow> (byte list \<times> nat) option" where
  "cidrOf c =
     (case splitLast CHR ''/'' c of None \<Rightarrow> None | Some (addrText, prefixText) \<Rightarrow>
     (case (ParseIP addrText, atoi prefixText) of
        (Some ip, Some p) \<Rightarrow>
          (case layout ip of None \<Rightarrow> None
           | Some addr \<Rightarrow> if 0 \<le> p \<and> p \<le> 8 * int (length addr) then Some (addr, nat p) else None)
      | _ \<Rightarrow> None))"

definition network :: "byte list \<Rightarrow> nat \<Rightarrow> byte list" where
  "network addr p = fst (maskLoop addr p)"

lemma length_network [simp]: "length (network addr p) = length addr"
  using maskLoop_length by (metis network_def prod.collapse)

lemma canonicalizeCIDR_cidrOf:
  "canonicalizeCIDR (Some c) =
     (case cidrOf c of None \<Rightarrow> Some c
      | Some (addr, p) \<Rightarrow> Some (ipString (network addr p) @ ''/'' @ formatInt (int p)))"
proof -
  have "(case maskLoop addr (nat p) of (net, r) \<Rightarrow> if r \<noteq> 0 then x else f net) =
      (if p \<le> 8 * int (length addr) then f (network addr (nat p)) else x)" for addr p and x :: "string option" and f
    using maskLoop_length [of addr "nat p"] by (cases "maskLoop addr (nat p)") (auto simp: network_def)
  then show ?thesis
    by (auto simp: canonicalizeCIDR_def cidrOf_def layout_def [symmetric] split: option.splits prod.splits)
qed

lemma addr_eqI:
  assumes "length a = length b" "\<And>i. i < 8 * length a \<Longrightarrow> addrBit a i \<longleftrightarrow> addrBit b i"
  shows "a = b"
proof (rule nth_equalityI [OF assms(1)], rule bit_word_eqI)
  fix j n assume j: "j < length a" and n: "n < LENGTH(8)"
  define m where "m = 7 - n"
  then have m: "m < 8" "n = 7 - m" using n by auto
  with assms(2) [of "8 * j + m"] j show "bit (a ! j) n = bit (b ! j) n" by (simp add: addrBit_def)
qed

lemma layout_length: "layout ip = Some addr \<Longrightarrow> length addr = 4 \<or> length addr = 16"
  by (auto simp: layout_def To4_def To16_def split: if_splits option.splits)

lemma layout_To4: "layout ip = Some addr \<Longrightarrow> length addr = 16 \<Longrightarrow> To4 addr = None"
  by (auto simp: layout_def To4_def To16_def split: if_splits option.splits)

text \<open>Masking never turns a 16-byte address into the IPv4-mapped form.\<close>

lemma network_To4:
  assumes "To4 addr = None" "length addr = 16"
  shows "To4 (network addr p) = None"
proof (rule ccontr)
  let ?n = "network addr p"
  assume "To4 ?n \<noteq> None"
  with assms(2) have pre: "take 12 ?n = v4prefix" by (auto simp: To4_def split: if_splits)
  have bits: "addrBit ?n i \<longleftrightarrow> i < p \<and> addrBit addr i" if "i < 128" for i
    using maskLoop_bits [of i addr p] that assms(2) by (simp add: network_def)
  have "?n ! 11 = 255" using arg_cong [OF pre, of "\<lambda>l. l ! 11"] by simp
  then have "addrBit ?n 95" by (simp add: addrBit_def)
  then have p: "95 < p" using bits by simp
  have "take 12 addr = take 12 ?n"
  proof (rule addr_eqI)
    fix i assume "i < 8 * length (take 12 addr)"
    then have i: "i < 96" using assms(2) by simp
    then have "i div 8 < 12" by simp
    with bits [of i] i p show "addrBit (take 12 addr) i \<longleftrightarrow> addrBit (take 12 ?n) i"
      by (simp add: addrBit_def)
  qed (use assms(2) in simp)
  with pre assms show False by (simp add: To4_def)
qed

lemma cidrOf_canonical:
  assumes "cidrOf c = Some (addr, p)"
  shows "cidrOf (ipString (network addr p) @ ''/'' @ formatInt (int p)) = Some (network addr p, p)"
proof -
  from assms obtain ip where ip: "layout ip = Some addr" and p: "p \<le> 8 * length addr"
    by (auto simp: cidrOf_def split: option.splits prod.splits if_splits)
  have small: "int p < 2 ^ 63" using p layout_length [OF ip] by auto
  have "\<exists>ip'. ParseIP (ipString (network addr p)) = Some ip' \<and> layout ip' = Some (network addr p)"
    using layout_To4 [OF ip] by (intro ParseIP_ipString [OF ip]) (simp_all add: network_To4)
  moreover have "atoi (formatInt (int p)) = Some (int p)"
    by (rule atoi_formatInt [OF _ small]) simp
  moreover have "CHR ''/'' \<notin> set (formatInt (int p))" using formatInt_chars by force
  ultimately show ?thesis using p by (auto simp: cidrOf_def splitLast_join)
qed

lemma network_idem [simp]: "network (network addr p) p = network addr p"
  by (rule addr_eqI) (auto simp: network_def [symmetric] maskLoop_bits [folded network_def])

subsection \<open>Aggregation\<close>

lemma last_sep_inject:
  "c \<notin> set ys \<Longrightarrow> c \<notin> set ys' \<Longrightarrow> xs @ c # ys = xs' @ c # ys' \<longleftrightarrow> xs = xs' \<and> ys = ys'"
  by (auto simp: append_eq_append_conv2 Cons_eq_append_conv append_eq_Cons_conv)

lemma portText_inject:
  "(case p of None \<Rightarrow> ''nil'' | Some x \<Rightarrow> formatInt (sint x)) =
   (case q of None \<Rightarrow> ''nil'' | Some x \<Rightarrow> formatInt (sint (x :: int64))) \<longleftrightarrow> p = q"
proof -
  have "formatInt i \<noteq> ''nil''" for i
    using formatInt_chars [of "CHR ''n''" i] by auto
  then show ?thesis by (auto split: option.splits dest: signed_word_eqI) metis
qed

lemma portText_slash [simp]:
  "CHR ''/'' \<notin> set (case p of None \<Rightarrow> ''nil'' | Some x \<Rightarrow> formatInt (sint (x :: int64)))"
  using formatInt_chars [of "CHR ''/''"] by (auto split: option.splits)

definition portsKey :: "ip_permission \<Rightarrow> string option \<times> int64 option \<times> int64 option" where
  "portsKey r = (IPProtocol r, FromPort r, ToPort r)"

lemma ruleAggregationKey_inject:
  assumes "IPProtocol r \<noteq> Some []" "IPProtocol r' \<noteq> Some []"
  shows "ruleAggregationKey r = ruleAggregationKey r' \<longleftrightarrow> portsKey r = portsKey r'"
proof -
  have "(case IPProtocol r of None \<Rightarrow> [] | Some p \<Rightarrow> p) = (case IPProtocol r' of None \<Rightarrow> [] | Some p \<Rightarrow> p)
    \<longleftrightarrow> IPProtocol r = IPProtocol r'"
    using assms by (auto split: option.splits)
  moreover have "xs @ ''/'' @ f @ ''/'' @ t = ys @ ''/'' @ g @ ''/'' @ u \<longleftrightarrow> xs = ys \<and> f = g \<and> t = u"
    if "CHR ''/'' \<notin> set f" "CHR ''/'' \<notin> set g" "CHR ''/'' \<notin> set t" "CHR ''/'' \<notin> set u"
    for xs ys f g t u :: string
    using that last_sep_inject [of "CHR ''/''" t u "xs @ ''/'' @ f" "ys @ ''/'' @ g"]
      last_sep_inject [of "CHR ''/''" f g xs ys] by auto
  ultimately show ?thesis
    by (simp only: ruleAggregationKey_def Let_def portsKey_def portText_inject portText_slash
        prod.inject not_False_eq_True)
qed

text \<open>The aggregation loop, in closed form.\<close>

definition withKey :: "string \<Rightarrow> ip_permission list \<Rightarrow> ip_permission list" where
  "withKey k rs = filter (\<lambda>r. ruleAggregationKey r = k) rs"

definition gather :: "(ip_permission \<Rightarrow> 'a slice) \<Rightarrow> ip_permission list \<Rightarrow> 'a list" where
  "gather f rs = concat (map (\<lambda>r. elems (f r)) rs)"

definition merged :: "ip_permission list \<Rightarrow> ip_permission option" where
  "merged rs = (case rs of [] \<Rightarrow> None | r # _ \<Rightarrow> Some \<lparr>
     FromPort = FromPort r, IPProtocol = IPProtocol r,
     IPRanges = appendAll None (gather IPRanges rs),
     IPv6Ranges = appendAll None (gather IPv6Ranges rs),
     PrefixListIDs = appendAll None (gather PrefixListIDs rs),
     ToPort = ToPort r,
     UserIDGroupPairs = appendAll None (gather UserIDGroupPairs rs)\<rparr>)"

lemma gather_simps [simp]:
  "gather f [] = []" "gather f (r # rs) = elems (f r) @ gather f rs"
  "gather f (rs @ rs') = gather f rs @ gather f rs'"
  by (simp_all add: gather_def)

lemma appendAll_appendAll [simp]: "appendAll (appendAll None xs) ys = appendAll None (xs @ ys)"
  by (simp add: appendAll_def)

lemma withKey_simps [simp]:
  "withKey k [] = []" "withKey k (rs @ rs') = withKey k rs @ withKey k rs'"
  "withKey k [r] = (if ruleAggregationKey r = k then [r] else [])"
  by (simp_all add: withKey_def)

lemma withKey_Nil_iff: "withKey k rs = [] \<longleftrightarrow> k \<notin> ruleAggregationKey ` set rs"
  by (auto simp: withKey_def filter_empty_conv)

lemma merged_simps [simp]: "merged [] = None"
  by (simp add: merged_def)

lemma mergeRule_new:
  "byKey (ruleAggregationKey r) = None \<Longrightarrow>
   mergeRule (Some r) (byKey, order) =
     (byKey(ruleAggregationKey r := merged [r]), order @ [ruleAggregationKey r])"
  by (simp add: mergeRule_def merged_def Let_def)

lemma mergeRule_old:
  "byKey (ruleAggregationKey r) = merged (q # qs) \<Longrightarrow>
   mergeRule (Some r) (byKey, order) = (byKey(ruleAggregationKey r := merged (q # qs @ [r])), order)"
  by (simp add: mergeRule_def merged_def Let_def)

lemma mergeRule_snoc:
  "mergeRule (Some r) (\<lambda>k. merged (withKey k rs), order) =
     (\<lambda>k. merged (withKey k (rs @ [r])),
      if ruleAggregationKey r \<in> ruleAggregationKey ` set rs then order else order @ [ruleAggregationKey r])"
proof (cases "withKey (ruleAggregationKey r) rs")
  case Nil
  then have "ruleAggregationKey r \<notin> ruleAggregationKey ` set rs" by (simp only: withKey_Nil_iff) simp
  moreover have "(\<lambda>k. merged (withKey k rs)) (ruleAggregationKey r := merged [r])
      = (\<lambda>k. merged (withKey k (rs @ [r])))"
    by (rule ext) (simp add: Nil)
  ultimately show ?thesis by (subst mergeRule_new) (simp_all add: Nil)
next
  case (Cons q qs)
  then have "ruleAggregationKey r \<in> ruleAggregationKey ` set rs"
    using withKey_Nil_iff [of "ruleAggregationKey r" rs] by simp
  moreover have "(\<lambda>k. merged (withKey k rs)) (ruleAggregationKey r := merged (q # qs @ [r]))
      = (\<lambda>k. merged (withKey k (rs @ [r])))"
    by (rule ext) (simp add: Cons)
  ultimately show ?thesis by (subst mergeRule_old [where q = q and qs = qs]) (simp_all add: Cons)
qed

lemma fold_mergeRule:
  "\<exists>order. fold mergeRule (map Some rs) (Map.empty, []) = (\<lambda>k. merged (withKey k rs), order)
     \<and> distinct order \<and> set order = ruleAggregationKey ` set rs"
proof (induction rs rule: rev_induct)
  case Nil
  show ?case by simp
next
  case (snoc r rs)
  then obtain order where st: "fold mergeRule (map Some rs) (Map.empty, []) = (\<lambda>k. merged (withKey k rs), order)"
    "distinct order" "set order = ruleAggregationKey ` set rs"
    by blast
  then show ?case by (auto simp del: withKey_simps(2) simp: mergeRule_snoc)
qed

text \<open>Nil rules do not take part.\<close>

lemma fold_mergeRule_values:
  "fold mergeRule ps st = fold mergeRule (map Some (map the (filter (\<lambda>p. p \<noteq> None) ps))) st"
  by (induction ps arbitrary: st) (auto simp: mergeRule_def)

subsection \<open>The canonical form decides equality of the rule tables\<close>

definition normalised :: "string \<Rightarrow> string \<Rightarrow> ip_permission option list \<Rightarrow> ip_permission list" where
  "normalised selfID owner ps =
     map (canonicalizeRule selfID owner) (map the (filter (\<lambda>p. p \<noteq> None) ps))"

lemma withKey_Cons_key: "withKey k rs = q # qs \<Longrightarrow> ruleAggregationKey q = k \<and> q \<in> set rs"
  by (auto simp: withKey_def filter_eq_Cons_iff)

lemma withKey_obtain:
  assumes "k \<in> ruleAggregationKey ` set rs"
  obtains q qs where "withKey k rs = q # qs"
  using assms withKey_Nil_iff by (metis neq_Nil_conv)

lemma key_sorted_merged:
  assumes "k \<in> ruleAggregationKey ` set rs"
  shows "ruleAggregationKey (sortGrants (the (merged (withKey k rs)))) = k"
proof -
  from assms obtain q qs where q: "withKey k rs = q # qs" by (rule withKey_obtain)
  with withKey_Cons_key [OF q] show ?thesis
    by (simp add: merged_def sortGrants_def ruleAggregationKey_def)
qed

lemma canonicalizeRuleList_closed:
  "canonicalizeRuleList (Some ps) selfID owner =
     Some (map (\<lambda>k. Some (sortGrants (the (merged (withKey k (normalised selfID owner ps))))))
       (sorted_list_of_set (ruleAggregationKey ` set (normalised selfID owner ps))))"
proof -
  let ?rs = "normalised selfID owner ps"
  have vals: "map the (filter (\<lambda>p. p \<noteq> None) (map (map_option (canonicalizeRule selfID owner)) ps)) = ?rs"
    by (induction ps) (auto simp: normalised_def)
  obtain order where st: "fold mergeRule (map Some ?rs) (Map.empty, []) = (\<lambda>k. merged (withKey k ?rs), order)"
    "distinct order" "set order = ruleAggregationKey ` set ?rs"
    using fold_mergeRule by blast
  let ?g = "\<lambda>k. sortGrants (the (merged (withKey k ?rs)))"
  have key: "ruleAggregationKey (?g k) = k" if "k \<in> set order" for k
    using that st(3) key_sorted_merged by simp
  have "sort_key ruleAggregationKey (map ?g order) = map ?g (sort order)"
  proof (rule sort_key_inj_key_eq)
    show "mset (map ?g order) = mset (map ?g (sort order))" by simp
    show "inj_on ruleAggregationKey (set (map ?g order))"
      using key by (auto simp: inj_on_def)
    have "map ruleAggregationKey (map ?g (sort order)) = sort order"
      unfolding map_map by (rule map_idI) (simp add: key)
    then show "sorted (map ruleAggregationKey (map ?g (sort order)))" by simp
  qed
  moreover have "sort order = sorted_list_of_set (set order)"
    using st(2) by (simp add: sorted_list_of_set_sort_remdups distinct_remdups_id)
  moreover have "fold mergeRule (map (map_option (canonicalizeRule selfID owner)) ps) (Map.empty, []) =
      (\<lambda>k. merged (withKey k ?rs), order)"
    by (subst fold_mergeRule_values, subst vals, rule st(1))
  ultimately show ?thesis
    by (simp only: canonicalizeRuleList_def option.case prod.case st(3) map_map o_def)
qed

text \<open>
  The contract: for each protocol and port range that some rule has, the multisets of its
  grants.
\<close>

type_synonym grants =
  "ip_range option multiset \<times> ipv6_range option multiset \<times> prefix_list_id option multiset
   \<times> user_id_group_pair option multiset"

definition grantsOf :: "ip_permission list \<Rightarrow> grants" where
  "grantsOf rs = (mset (gather IPRanges rs), mset (gather IPv6Ranges rs),
                  mset (gather PrefixListIDs rs), mset (gather UserIDGroupPairs rs))"

definition ruleTable ::
  "string \<Rightarrow> string \<Rightarrow> ip_permission option list \<Rightarrow> string option \<times> int64 option \<times> int64 option \<Rightarrow> grants option" where
  "ruleTable selfID owner ps \<tau> =
     (let rs = filter (\<lambda>r. portsKey r = \<tau>) (normalised selfID owner ps)
      in if rs = [] then None else Some (grantsOf rs))"

text \<open>Sort keys tell the grants of one protocol and port range apart, and no protocol is empty.\<close>

definition grantsDistinguishable :: "ip_permission list \<Rightarrow> bool" where
  "grantsDistinguishable rs \<longleftrightarrow>
     distinct (map ipRangeSortKey (remdups (gather IPRanges rs))) \<and>
     distinct (map ipv6RangeSortKey (remdups (gather IPv6Ranges rs))) \<and>
     distinct (map prefixListIDSortKey (remdups (gather PrefixListIDs rs))) \<and>
     distinct (map userIDGroupPairSortKey (remdups (gather UserIDGroupPairs rs)))"

definition unambiguous :: "string \<Rightarrow> string \<Rightarrow> ip_permission option list \<Rightarrow> bool" where
  "unambiguous selfID owner ps \<longleftrightarrow>
     list_all (\<lambda>r. grantsDistinguishable (withKey (ruleAggregationKey r) (normalised selfID owner ps)))
       (normalised selfID owner ps)"

definition namedProtocols :: "ip_permission option list \<Rightarrow> bool" where
  "namedProtocols ps \<longleftrightarrow> list_all (\<lambda>p. case p of None \<Rightarrow> True | Some r \<Rightarrow> IPProtocol r \<noteq> Some []) ps"

lemma canonicalizeProtocol_named: "p \<noteq> Some [] \<Longrightarrow> canonicalizeProtocol p \<noteq> Some []"
  by (auto simp: canonicalizeProtocol_def wellKnownProtocols_def split: option.splits if_splits)

lemma IPProtocol_canonicalizeRule [simp]:
  "IPProtocol (canonicalizeRule selfID owner r) = canonicalizeProtocol (IPProtocol r)"
  by (simp add: canonicalizeRule_def canonicalizePorts_def Let_def split: option.splits)

lemma normalised_named:
  "namedProtocols ps \<Longrightarrow> r \<in> set (normalised selfID owner ps) \<Longrightarrow> IPProtocol r \<noteq> Some []"
  by (auto simp: namedProtocols_def normalised_def list_all_iff canonicalizeProtocol_named
      split: option.splits)

lemma sort_key_cong_mset:
  "mset xs = mset ys \<Longrightarrow> inj_on f (set xs) \<Longrightarrow> sort_key f xs = sort_key f ys"
  by (rule sort_key_inj_key_eq) simp_all

lemma map_option_sort_appendAll [simp]:
  "map_option (sort_key f) (appendAll None xs) = appendAll None (sort_key f xs)"
proof -
  have "sort_key f xs = [] \<longleftrightarrow> xs = []" by (metis mset_sort mset_zero_iff)
  then show ?thesis by (simp add: appendAll_def)
qed

lemma appendAll_None_inject [simp]: "appendAll None xs = appendAll None ys \<longleftrightarrow> xs = ys"
  by (auto simp: appendAll_def)

lemma portsKey_eq:
  "portsKey r = portsKey q \<longleftrightarrow> IPProtocol r = IPProtocol q \<and> FromPort r = FromPort q \<and> ToPort r = ToPort q"
  by (auto simp: portsKey_def)

lemma sortGrants_merged_eq:
  assumes "rs = q # qs" "rs' = q' # qs'" "portsKey q = portsKey q'"
    "grantsOf rs = grantsOf rs'" "grantsDistinguishable rs"
  shows "sortGrants (the (merged rs)) = sortGrants (the (merged rs'))"
proof -
  have "sort_key ipRangeSortKey (gather IPRanges rs) = sort_key ipRangeSortKey (gather IPRanges rs')"
    "sort_key ipv6RangeSortKey (gather IPv6Ranges rs) = sort_key ipv6RangeSortKey (gather IPv6Ranges rs')"
    "sort_key prefixListIDSortKey (gather PrefixListIDs rs) = sort_key prefixListIDSortKey (gather PrefixListIDs rs')"
    "sort_key userIDGroupPairSortKey (gather UserIDGroupPairs rs)
       = sort_key userIDGroupPairSortKey (gather UserIDGroupPairs rs')"
    using assms(4,5) by (auto simp: grantsOf_def grantsDistinguishable_def distinct_map intro!: sort_key_cong_mset)
  with assms(1-3) show ?thesis by (simp add: merged_def sortGrants_def portsKey_eq)
qed

lemma sortGrants_merged_eqD:
  assumes "rs = q # qs" "rs' = q' # qs'"
    "sortGrants (the (merged rs)) = sortGrants (the (merged rs'))"
  shows "portsKey q = portsKey q'" "grantsOf rs = grantsOf rs'"
proof -
  have m: "mset xs = mset ys" if "sort_key f xs = sort_key f ys" for f :: "'x \<Rightarrow> string" and xs ys
    using that by (metis mset_sort)
  show "portsKey q = portsKey q'" "grantsOf rs = grantsOf rs'"
    using assms(3) unfolding assms(1,2)
    by (simp_all add: merged_def sortGrants_def portsKey_eq grantsOf_def del: gather_simps)
       (blast dest: m)
qed

lemma ruleTable_dom:
  "ruleTable selfID owner ps \<tau> \<noteq> None \<longleftrightarrow> \<tau> \<in> portsKey ` set (normalised selfID owner ps)"
proof -
  have "filter (\<lambda>r. portsKey r = \<tau>) xs = [] \<longleftrightarrow> \<tau> \<notin> portsKey ` set xs" for xs
    by (auto simp: filter_empty_conv)
  then show ?thesis unfolding ruleTable_def Let_def by (simp del: not_None_eq)
qed

lemma withKey_table:
  assumes "namedProtocols ps" "r \<in> set (normalised selfID owner ps)"
  shows "ruleTable selfID owner ps (portsKey r)
    = Some (grantsOf (withKey (ruleAggregationKey r) (normalised selfID owner ps)))"
proof -
  let ?rs = "normalised selfID owner ps"
  have "filter (\<lambda>q. portsKey q = portsKey r) ?rs = withKey (ruleAggregationKey r) ?rs"
    unfolding withKey_def using assms
    by (intro filter_cong refl) (simp add: ruleAggregationKey_inject normalised_named)
  moreover have "withKey (ruleAggregationKey r) ?rs \<noteq> []" using assms(2) by (simp add: withKey_Nil_iff)
  ultimately show ?thesis by (simp add: ruleTable_def)
qed

lemma ruleTable_keys:
  assumes "namedProtocols ps" "namedProtocols ps'"
    "portsKey ` set (normalised s w ps) = portsKey ` set (normalised s' w' ps')"
  shows "ruleAggregationKey ` set (normalised s w ps) \<subseteq> ruleAggregationKey ` set (normalised s' w' ps')"
proof
  fix k assume "k \<in> ruleAggregationKey ` set (normalised s w ps)"
  then obtain r where r: "r \<in> set (normalised s w ps)" "k = ruleAggregationKey r" by blast
  with assms(3) obtain r' where "r' \<in> set (normalised s' w' ps')" "portsKey r = portsKey r'" by auto
  with r show "k \<in> ruleAggregationKey ` set (normalised s' w' ps')"
    using ruleAggregationKey_inject [of r r'] assms(1,2) normalised_named by blast
qed

lemma canonical_of_table:
  assumes named: "namedProtocols ps" "namedProtocols ps'" and un: "unambiguous s w ps"
    and tab: "ruleTable s w ps = ruleTable s' w' ps'"
  shows "canonicalizeRuleList (Some ps) s w = canonicalizeRuleList (Some ps') s' w'"
proof -
  let ?rs = "normalised s w ps" and ?rs' = "normalised s' w' ps'"
  have dom: "portsKey ` set ?rs = portsKey ` set ?rs'"
    unfolding set_eq_iff ruleTable_dom [symmetric] tab by simp
  then have keys: "ruleAggregationKey ` set ?rs = ruleAggregationKey ` set ?rs'"
    by (intro equalityI ruleTable_keys named) simp_all
  have "sortGrants (the (merged (withKey k ?rs))) = sortGrants (the (merged (withKey k ?rs')))"
    if k: "k \<in> ruleAggregationKey ` set ?rs" for k
  proof -
    obtain q qs where q: "withKey k ?rs = q # qs" using k by (rule withKey_obtain)
    obtain q' qs' where q': "withKey k ?rs' = q' # qs'" using k unfolding keys by (rule withKey_obtain)
    note qk = withKey_Cons_key [OF q] withKey_Cons_key [OF q']
    have pk: "portsKey q = portsKey q'"
      using qk ruleAggregationKey_inject [of q q'] normalised_named [OF named(1), of q s w]
        normalised_named [OF named(2), of q' s' w'] by simp
    show ?thesis
    proof (rule sortGrants_merged_eq [OF q q' pk])
      show "grantsOf (withKey k ?rs) = grantsOf (withKey k ?rs')"
        using withKey_table [OF named(1), of q s w] withKey_table [OF named(2), of q' s' w'] qk pk tab by simp
      show "grantsDistinguishable (withKey k ?rs)"
        using un qk by (auto simp: unambiguous_def list_all_iff)
    qed
  qed
  then have "map (\<lambda>k. Some (sortGrants (the (merged (withKey k ?rs))))) (sorted_list_of_set (ruleAggregationKey ` set ?rs))
      = map (\<lambda>k. Some (sortGrants (the (merged (withKey k ?rs'))))) (sorted_list_of_set (ruleAggregationKey ` set ?rs))"
    by (simp only: map_eq_conv set_sorted_list_of_set List.finite_set finite_imageI) blast
  then show ?thesis unfolding canonicalizeRuleList_closed keys by (rule arg_cong)
qed

lemma table_of_canonical:
  assumes named: "namedProtocols ps" "namedProtocols ps'"
    and eq: "canonicalizeRuleList (Some ps) s w = canonicalizeRuleList (Some ps') s' w'"
    and some: "ruleTable s w ps \<tau> = Some g"
  shows "ruleTable s' w' ps' \<tau> = Some g"
proof -
  let ?rs = "normalised s w ps" and ?rs' = "normalised s' w' ps'"
  let ?K = "ruleAggregationKey ` set ?rs" and ?K' = "ruleAggregationKey ` set ?rs'"
  let ?g = "\<lambda>k. sortGrants (the (merged (withKey k ?rs)))"
  let ?g' = "\<lambda>k. sortGrants (the (merged (withKey k ?rs')))"
  have "map Some (map ?g (sorted_list_of_set ?K)) = map Some (map ?g' (sorted_list_of_set ?K'))"
    using eq unfolding canonicalizeRuleList_closed by (simp add: o_def)
  then have maps: "map ?g (sorted_list_of_set ?K) = map ?g' (sorted_list_of_set ?K')"
    by (simp only: inj_map_eq_map [OF inj_Some])
  have "map ruleAggregationKey (map ?g (sorted_list_of_set ?K)) = sorted_list_of_set ?K"
    "map ruleAggregationKey (map ?g' (sorted_list_of_set ?K')) = sorted_list_of_set ?K'"
    unfolding map_map by (rule map_idI, simp add: key_sorted_merged)+
  with maps have "sorted_list_of_set ?K = sorted_list_of_set ?K'" by simp
  then have K: "?K = ?K'" by (metis List.finite_set finite_imageI set_sorted_list_of_set)
  have "\<forall>k \<in> set (sorted_list_of_set ?K). ?g k = ?g' k"
    using maps unfolding K by (simp only: map_eq_conv)
  then have g: "?g k = ?g' k" if "k \<in> ?K" for k using that by auto
  from some obtain r where r: "r \<in> set ?rs" "portsKey r = \<tau>"
    using ruleTable_dom [of s w ps \<tau>] by auto
  let ?k = "ruleAggregationKey r"
  have k: "?k \<in> ?K" "?k \<in> ?K'" using r K by auto
  obtain q qs where q: "withKey ?k ?rs = q # qs" using k(1) by (rule withKey_obtain)
  obtain q' qs' where q': "withKey ?k ?rs' = q' # qs'" using k(2) by (rule withKey_obtain)
  note D = sortGrants_merged_eqD [OF q q' g [OF k(1)]]
  note qk = withKey_Cons_key [OF q] withKey_Cons_key [OF q']
  have "portsKey q = portsKey r"
    using qk r ruleAggregationKey_inject [of q r] normalised_named [OF named(1), of q s w]
      normalised_named [OF named(1), of r s w] by simp
  with D r have "portsKey q' = \<tau>" by simp
  then have "ruleTable s' w' ps' \<tau> = Some (grantsOf (withKey ?k ?rs'))"
    using withKey_table [OF named(2), of q' s' w'] qk by auto
  moreover have "ruleTable s w ps \<tau> = Some (grantsOf (withKey ?k ?rs))"
    using withKey_table [OF named(1) r(1)] r(2) by simp
  ultimately show ?thesis using D some by simp
qed

lemma canonical_iff_table:
  assumes "namedProtocols ps" "namedProtocols ps'" "unambiguous s w ps"
  shows "canonicalizeRuleList (Some ps) s w = canonicalizeRuleList (Some ps') s' w'
     \<longleftrightarrow> ruleTable s w ps = ruleTable s' w' ps'"
proof
  assume eq: "canonicalizeRuleList (Some ps) s w = canonicalizeRuleList (Some ps') s' w'"
  show "ruleTable s w ps = ruleTable s' w' ps'"
  proof
    fix \<tau>
    show "ruleTable s w ps \<tau> = ruleTable s' w' ps' \<tau>"
      using table_of_canonical [OF assms(1,2) eq, of \<tau>]
        table_of_canonical [OF assms(2,1) eq [symmetric], of \<tau>]
      by (metis not_Some_eq)
  qed
qed (rule canonical_of_table [OF assms])

text \<open>\<open>Semantic.DeepEqual\<close> as documented: equal values, where a nil slice equals an empty one.\<close>

definition noNil :: "ip_permission \<Rightarrow> ip_permission" where
  "noNil r = r\<lparr>IPRanges := Some (elems (IPRanges r)), IPv6Ranges := Some (elems (IPv6Ranges r)),
               PrefixListIDs := Some (elems (PrefixListIDs r)),
               UserIDGroupPairs := Some (elems (UserIDGroupPairs r))\<rparr>"

definition sameRules :: "rules \<Rightarrow> rules \<Rightarrow> bool" where
  "sameRules x y \<longleftrightarrow> map (map_option noNil) (elems x) = map (map_option noNil) (elems y)"

definition deepEqual_law :: "(rules \<Rightarrow> rules \<Rightarrow> bool) \<Rightarrow> bool" where
  "deepEqual_law deepEqual \<longleftrightarrow> (\<forall>x y. deepEqual x y \<longleftrightarrow> sameRules x y)"

definition canonicalSlices :: "ip_permission \<Rightarrow> bool" where
  "canonicalSlices r \<longleftrightarrow> IPRanges r \<noteq> Some [] \<and> IPv6Ranges r \<noteq> Some [] \<and> PrefixListIDs r \<noteq> Some []
     \<and> UserIDGroupPairs r \<noteq> Some []"

lemma elems_inject: "x \<noteq> Some [] \<Longrightarrow> y \<noteq> Some [] \<Longrightarrow> elems x = elems y \<longleftrightarrow> x = y"
  by (auto simp: elems_def split: option.splits)

lemma noNil_inject:
  assumes "canonicalSlices r" "canonicalSlices q"
  shows "noNil r = noNil q \<longleftrightarrow> r = q"
proof
  assume "noNil r = noNil q"
  with assms show "r = q"
    by (cases r; cases q) (simp add: noNil_def canonicalSlices_def elems_inject)
qed simp

lemma appendAll_None_nonempty [simp]: "appendAll None xs \<noteq> Some []"
  by (simp add: appendAll_def)

lemma canonicalSlices_merged: "rs \<noteq> [] \<Longrightarrow> canonicalSlices (sortGrants (the (merged rs)))"
  by (cases rs) (simp_all add: merged_def sortGrants_def canonicalSlices_def del: gather_simps)

lemma canonicalizeRuleList_slices:
  assumes "canonicalizeRuleList (Some ps) s w = Some cs" "p \<in> set cs"
  shows "\<exists>r. p = Some r \<and> canonicalSlices r"
proof -
  let ?K = "ruleAggregationKey ` set (normalised s w ps)"
  let ?g = "\<lambda>k. Some (sortGrants (the (merged (withKey k (normalised s w ps)))))"
  have "set cs = ?g ` ?K"
    using assms(1) unfolding canonicalizeRuleList_closed by auto
  with assms(2) obtain k where k: "k \<in> ?K" "p = ?g k" by blast
  from k(1) obtain q qs where "withKey k (normalised s w ps) = q # qs" by (rule withKey_obtain)
  with k(2) show ?thesis by (auto intro!: canonicalSlices_merged)
qed

lemma map_noNil_inject:
  assumes "\<forall>p \<in> set cs. \<exists>r. p = Some r \<and> canonicalSlices r" "\<forall>p \<in> set cs'. \<exists>r. p = Some r \<and> canonicalSlices r"
  shows "map (map_option noNil) cs = map (map_option noNil) cs' \<longleftrightarrow> cs = cs'"
proof -
  have "inj_on (map_option noNil) (set cs \<union> set cs')"
  proof (rule inj_onI)
    fix x y assume "x \<in> set cs \<union> set cs'" "y \<in> set cs \<union> set cs'" and eq: "map_option noNil x = map_option noNil y"
    then obtain r q where "x = Some r" "canonicalSlices r" "y = Some q" "canonicalSlices q"
      using assms by blast
    with eq show "x = y" by (simp add: noNil_inject)
  qed
  then show ?thesis by (metis inj_on_map_eq_map)
qed

lemma canonicalizeRuleList_Some: "\<exists>cs. canonicalizeRuleList (Some ps) s w = Some cs"
  by (simp add: canonicalizeRuleList_closed)

lemma elems_canonicalizeRuleList:
  "elems (canonicalizeRuleList rules s w) = elems (canonicalizeRuleList (Some (elems rules)) s w)"
  by (cases rules) (simp_all add: canonicalizeRuleList_def)

lemma sameRules_canonical:
  "sameRules (canonicalizeRuleList rules s w) (canonicalizeRuleList rules' s' w') \<longleftrightarrow>
   canonicalizeRuleList (Some (elems rules)) s w = canonicalizeRuleList (Some (elems rules')) s' w'"
proof -
  obtain cs cs' where c: "canonicalizeRuleList (Some (elems rules)) s w = Some cs"
    "canonicalizeRuleList (Some (elems rules')) s' w' = Some cs'"
    using canonicalizeRuleList_Some by metis
  have "\<forall>p \<in> set cs. \<exists>r. p = Some r \<and> canonicalSlices r" "\<forall>p \<in> set cs'. \<exists>r. p = Some r \<and> canonicalSlices r"
    using canonicalizeRuleList_slices [OF c(1)] canonicalizeRuleList_slices [OF c(2)] by auto
  then show ?thesis
    unfolding sameRules_def elems_canonicalizeRuleList [of rules] elems_canonicalizeRuleList [of rules']
    using c by (simp add: map_noNil_inject)
qed

text \<open>The rules of a group as EC2 sees them: its table under its own identity.\<close>

definition selfIDOf :: "security_group \<Rightarrow> string" where
  "selfIDOf k = (case ID (Status k) of None \<Rightarrow> [] | Some i \<Rightarrow> i)"

definition ownerOf :: "security_group \<Rightarrow> string" where
  "ownerOf k = (case ACKResourceMetadata (Status k) of None \<Rightarrow> [] | Some m \<Rightarrow>
     (case OwnerAccountID m of None \<Rightarrow> [] | Some w \<Rightarrow> w))"

definition tableOf :: "(sg_spec \<Rightarrow> rules) \<Rightarrow> security_group \<Rightarrow> string option \<times> int64 option \<times> int64 option \<Rightarrow> grants option" where
  "tableOf f k = ruleTable (selfIDOf k) (ownerOf k) (elems (f (Spec k)))"

definition clearRules :: "(sg_spec \<Rightarrow> rules) \<Rightarrow> security_group \<Rightarrow> bool" where
  "clearRules f k \<longleftrightarrow> namedProtocols (elems (f (Spec k)))
     \<and> unambiguous (selfIDOf k) (ownerOf k) (elems (f (Spec k)))"

lemma deepCopyRuleList_id [simp]: "deepCopyRuleList rs = rs"
  by (simp add: deepCopyRuleList_def split: option.splits)

lemma canonicalizeCopiedRuleLists_known:
  assumes "securityGroupIdentityKnown (Some \<lparr>ko = Some k\<rparr>)"
  shows "canonicalizeCopiedRuleLists k =
    Some (canonicalizeRuleList (IngressRules (Spec k)) (selfIDOf k) (ownerOf k),
          canonicalizeRuleList (EgressRules (Spec k)) (selfIDOf k) (ownerOf k))"
  using assms
  by (auto simp: securityGroupIdentityKnown_def canonicalizeCopiedRuleLists_def selfIDOf_def ownerOf_def
      split: option.splits)

lemma sameRules_iff_tableOf:
  assumes "clearRules f a" "clearRules f b"
  shows "sameRules (canonicalizeRuleList (f (Spec a)) (selfIDOf a) (ownerOf a))
                   (canonicalizeRuleList (f (Spec b)) (selfIDOf b) (ownerOf b))
     \<longleftrightarrow> tableOf f a = tableOf f b"
  using assms unfolding sameRules_canonical clearRules_def tableOf_def
  by (intro canonical_iff_table) simp_all

subsection \<open>Properties\<close>

text \<open>
  C9. A well-formed CIDR becomes the text of its network: an address of the same family whose
  bits before the prefix are those of the address and whose other bits are clear, followed by
  the prefix in decimal. Any other text passes through unchanged, as nil does.
\<close>

theorem canonicalizeCIDR_network:
  "(case cidrOf c of
      None \<Rightarrow> canonicalizeCIDR (Some c) = Some c
    | Some (addr, p) \<Rightarrow> \<exists>net. canonicalizeCIDR (Some c) = Some (ipString net @ ''/'' @ formatInt (int p))
        \<and> length net = length addr
        \<and> filter (addrBit net) [0..<8 * length addr] = filter (addrBit addr) [0..<p])
   \<and> canonicalizeCIDR None = None"
proof -
  have "filter (addrBit (network addr p)) [0..<8 * length addr] = filter (addrBit addr) [0..<p]"
    if "p \<le> 8 * length addr" for addr p
  proof -
    have "[0..<8 * length addr] = [0..<p] @ [p..<8 * length addr]"
      using that upt_add_eq_append [of 0 p "8 * length addr - p"] by simp
    moreover have "filter (addrBit (network addr p)) [0..<p] = filter (addrBit addr) [0..<p]"
      using that by (intro filter_cong) (simp_all add: maskLoop_bits [folded network_def])
    moreover have "filter (addrBit (network addr p)) [p..<8 * length addr] = []"
      by (simp add: filter_empty_conv maskLoop_bits [folded network_def])
    ultimately show ?thesis by simp
  qed
  moreover have "p \<le> 8 * length addr" if "cidrOf c = Some (addr, p)" for addr p
    using that by (auto simp: cidrOf_def split: option.splits prod.splits if_splits)
  ultimately have "\<exists>net. canonicalizeCIDR (Some c) = Some (ipString net @ ''/'' @ formatInt (int p))
      \<and> length net = length addr
      \<and> filter (addrBit net) [0..<8 * length addr] = filter (addrBit addr) [0..<p]"
    if "cidrOf c = Some (addr, p)" for addr p
    using that by (intro exI [of _ "network addr p"]) (simp add: canonicalizeCIDR_cidrOf)
  then show ?thesis
    by (auto simp: canonicalizeCIDR_cidrOf [of c] canonicalizeCIDR_def [of None] split: option.splits)
qed

text \<open>
  C6. Two well-formed CIDRs get the same canonical text exactly when they denote the same
  network: same family, same prefix length, same bits before the prefix. The host bits, the
  notation of the address and leading zeros of the prefix do not matter, and no two networks
  are confused.
\<close>

theorem canonicalizeCIDR_eq_iff:
  assumes "cidrOf c = Some (a, p)" "cidrOf c' = Some (a', p')"
  shows "canonicalizeCIDR (Some c) = canonicalizeCIDR (Some c') \<longleftrightarrow>
    length a = length a' \<and> p = p' \<and> map (addrBit a) [0..<p] = map (addrBit a') [0..<p']"
proof
  have b: "p \<le> 8 * length a" "p' \<le> 8 * length a'"
    using assms by (auto simp: cidrOf_def split: option.splits prod.splits if_splits)
  assume "canonicalizeCIDR (Some c) = canonicalizeCIDR (Some c')"
  then have "cidrOf (ipString (network a p) @ ''/'' @ formatInt (int p))
      = cidrOf (ipString (network a' p') @ ''/'' @ formatInt (int p'))"
    using assms by (simp add: canonicalizeCIDR_cidrOf)
  then have "network a p = network a' p' \<and> p = p'"
    unfolding cidrOf_canonical [OF assms(1)] cidrOf_canonical [OF assms(2)]
    by (metis option.inject prod.inject)
  then have eq: "network a p = network a' p'" "p = p'" by blast+
  then have "length a = length a'" using length_network by metis
  moreover have "addrBit a i = addrBit a' i" if "i < p" for i
    using arg_cong [OF eq(1), of "\<lambda>n. addrBit n i"] that eq(2) b
    by (simp add: maskLoop_bits [folded network_def])
  ultimately show "length a = length a' \<and> p = p' \<and> map (addrBit a) [0..<p] = map (addrBit a') [0..<p']"
    using eq(2) by simp
next
  assume e: "length a = length a' \<and> p = p' \<and> map (addrBit a) [0..<p] = map (addrBit a') [0..<p']"
  then have "network a p = network a' p'"
    by (intro addr_eqI) (auto simp: maskLoop_bits [folded network_def])
  with e assms show "canonicalizeCIDR (Some c) = canonicalizeCIDR (Some c')"
    by (simp add: canonicalizeCIDR_cidrOf)
qed

lemma canonicalizeCIDR_eq_iff_witness:
  "canonicalizeCIDR (Some ''2001:DB8:abcd:0012::1/64'') = canonicalizeCIDR (Some ''2001:db8:abcd:12:7::/+064'')"
  by (subst canonicalizeCIDR_eq_iff
      [where a = "[0x20, 0x01, 0x0d, 0xb8, 0xab, 0xcd, 0x00, 0x12, 0, 0, 0, 0, 0, 0, 0, 1]" and p = 64 and
        a' = "[0x20, 0x01, 0x0d, 0xb8, 0xab, 0xcd, 0x00, 0x12, 0, 7, 0, 0, 0, 0, 0, 0]" and p' = 64])
     code_simp+

text \<open>Canonicalising is idempotent: what AWS returns is left alone.\<close>

theorem canonicalizeCIDR_idem: "canonicalizeCIDR (canonicalizeCIDR c) = canonicalizeCIDR c"
proof (cases c)
  case (Some t)
  then show ?thesis
    by (cases "cidrOf t") (auto simp: canonicalizeCIDR_cidrOf dest: cidrOf_canonical)
qed (simp add: canonicalizeCIDR_def)

text \<open>The vectors of \<open>TestCanonicalizeCIDR\<close> and \<open>TestCanonicalizeCIDR_BoundaryVectors\<close>.\<close>

lemma canonicalizeCIDR_vectors:
  "list_all (\<lambda>(i, e). canonicalizeCIDR (Some i) = Some e)
    [(''100.68.0.18/18'', ''100.68.0.0/18''), (''10.0.0.0/24'', ''10.0.0.0/24''),
     (''10.10.0.0/0'', ''0.0.0.0/0''), (''2001:DB8:abcd:0012::1/64'', ''2001:db8:abcd:12::/64''),
     (''10.0.0.0/40'', ''10.0.0.0/40''), (''2001:db8::/129'', ''2001:db8::/129''),
     (''10.0.0.0/-1'', ''10.0.0.0/-1''), (''10.0.0.0'', ''10.0.0.0''), (''not-a-cidr'', ''not-a-cidr''),
     (''10.0.0.0/abc'', ''10.0.0.0/abc''), (''ff10::/8'', ''ff00::/8''), (''ff00::/7'', ''fe00::/7''),
     (''10.64.0.0/9'', ''10.0.0.0/9''), (''::1/8'', ''::/8''),
     (''255.255.255.255/31'', ''255.255.255.254/31''),
     (''ffff:ffff:ffff:ffff:ffff:ffff:ffff:ffff/127'', ''ffff:ffff:ffff:ffff:ffff:ffff:ffff:fffe/127''),
     (''6be8:7177:fd47:df14:f49b:a890:3a67:8000/113'', ''6be8:7177:fd47:df14:f49b:a890:3a67:8000/113'')]"
  by code_simp

text \<open>
  C1. Once both groups are known to AWS, the delta of their rules is exact: a path is added
  precisely when, for some protocol and port range, the two sides grant different multisets
  of ranges, prefix lists or groups (host bits, protocol numbers, ports EC2 drops, what EC2
  fills into group pairs, the order of rules and grants and the way grants are spread over
  rules do not count). Nothing else in the delta changes and nothing panics.
\<close>

theorem customPostCompare_exact:
  assumes "deepEqual_law deepEqual"
    and "securityGroupIdentityKnown (Some \<lparr>ko = Some a\<rparr>)" "securityGroupIdentityKnown (Some \<lparr>ko = Some b\<rparr>)"
    and "clearRules IngressRules a" "clearRules IngressRules b" "clearRules EgressRules a" "clearRules EgressRules b"
  shows "customPostCompare deepEqual delta (Some \<lparr>ko = Some a\<rparr>) (Some \<lparr>ko = Some b\<rparr>) =
    Some (delta
      @ (if tableOf IngressRules a = tableOf IngressRules b then [] else [''Spec.IngressRules''])
      @ (if tableOf EgressRules a = tableOf EgressRules b then [] else [''Spec.EgressRules'']))"
  using assms
  by (simp add: customPostCompare_def canonicalizeCopiedRuleLists_known deepEqual_law_def
      sameRules_iff_tableOf addDiff_def)


definition exampleGroup :: "rules \<Rightarrow> rules \<Rightarrow> security_group" where
  "exampleGroup ingress egress = \<lparr>
     Spec = \<lparr>Description = None, EgressRules = egress, IngressRules = ingress, Name = Some ''web'',
             sgTags = None, VPCID = Some ''vpc-1'', VPCRef = None\<rparr>,
     Status = \<lparr>ACKResourceMetadata = Some \<lparr>ARN = None, OwnerAccountID = Some ''111'', Region = None, Partition = None\<rparr>,
               Conditions = [], ID = Some ''sg-1'', Rules = None\<rparr>\<rparr>"

definition exampleRule :: "string \<Rightarrow> string list \<Rightarrow> ip_permission option" where
  "exampleRule proto cidrs = Some \<lparr>FromPort = Some 53, IPProtocol = Some proto,
     IPRanges = Some (map (\<lambda>c. Some \<lparr>CIDRIP = Some c, rangeDescription = None\<rparr>) cidrs),
     IPv6Ranges = None, PrefixListIDs = None, ToPort = Some 53,
     UserIDGroupPairs = Some [Some \<lparr>pairDescription = None, GroupID = Some ''sg-1'', GroupName = None,
       GroupRef = None, PeeringStatus = None, UserID = Some ''111'', pairVPCID = None,
       VPCPeeringConnectionID = None, pairVPCRef = None\<rparr>]\<rparr>"

abbreviation exampleDesired :: security_group where
  "exampleDesired \<equiv> exampleGroup (Some [exampleRule ''6'' [''10.0.0.7/8''], None]) (Some [exampleRule ''17'' [''::/0'']])"

abbreviation exampleLatest :: security_group where
  "exampleLatest \<equiv> exampleGroup (Some [exampleRule ''tcp'' [''10.0.0.0/8'']]) (Some [exampleRule ''tcp'' [''::/0'']])"

lemma customPostCompare_exact_witness:
  "tableOf IngressRules exampleDesired = tableOf IngressRules exampleLatest
   \<and> tableOf EgressRules exampleDesired \<noteq> tableOf EgressRules exampleLatest"
proof -
  have "customPostCompare sameRules [] (Some \<lparr>ko = Some exampleDesired\<rparr>) (Some \<lparr>ko = Some exampleLatest\<rparr>)
      = Some [''Spec.EgressRules'']"
    by code_simp
  moreover have "deepEqual_law sameRules" by (simp add: deepEqual_law_def)
  moreover have "securityGroupIdentityKnown (Some \<lparr>ko = Some exampleDesired\<rparr>)"
    "securityGroupIdentityKnown (Some \<lparr>ko = Some exampleLatest\<rparr>)"
    "clearRules IngressRules exampleDesired" "clearRules IngressRules exampleLatest"
    "clearRules EgressRules exampleDesired" "clearRules EgressRules exampleLatest"
    by code_simp+
  ultimately show ?thesis
    using customPostCompare_exact [of sameRules exampleDesired exampleLatest "[]"]
    by (auto split: if_splits)
qed

end
