(* ===== verification/Conditions.thy ===== *)
theory Conditions
  imports API_Types EC2_SDK
begin

text \<open>
  The status of a resource: \<open>setStatusDefaults\<close>, \<open>updateConditions\<close> and \<open>terminalAWSError\<close> of
  \<open>sdk.go\<close>, and \<open>onError\<close>, \<open>onSuccess\<close>, \<open>ReadOne\<close>, \<open>Create\<close>, \<open>Update\<close>, \<open>Delete\<close>, \<open>LateInitialize\<close>
  and \<open>ARNFromName\<close> of \<open>manager.go\<close>. The code generator repeats these functions, word for
  word, for each of the 20 kinds; the model states them once, over the part of the status
  that all kinds share and over the operations of the kind, and follows the text of
  \<open>pkg/resource/vpc\<close>.
\<close>

subsection \<open>The resource manager\<close>

record resource_manager =
  awsAccountID :: string
  awsRegion :: string
  awsPartition :: string

definition ARNFromName :: "resource_manager \<Rightarrow> string \<Rightarrow> string" where
  "ARNFromName rm name =
     ''arn:'' @ awsPartition rm @ '':ec2:'' @ awsRegion rm @ '':'' @ awsAccountID rm @ '':'' @ name"

definition orDefault :: "'a option \<Rightarrow> 'a \<Rightarrow> 'a option" where
  "orDefault p x = (if p = None then Some x else p)"

text \<open>A nil slice of conditions and an empty one are the same list here.\<close>

definition setStatusDefaults :: "resource_manager \<Rightarrow> 'a common_status_scheme \<Rightarrow> 'a common_status_scheme" where
  "setStatusDefaults rm st =
     (let md = (case ACKResourceMetadata st of
                  None \<Rightarrow> \<lparr>ARN = None, OwnerAccountID = None, Region = None, Partition = None\<rparr>
                | Some m \<Rightarrow> m)
      in st\<lparr>ACKResourceMetadata := Some (md\<lparr>
           Region := orDefault (Region md) (awsRegion rm),
           Partition := orDefault (Partition md) (awsPartition rm),
           OwnerAccountID := orDefault (OwnerAccountID md) (awsAccountID rm)\<rparr>)\<rparr>)"

subsection \<open>Errors\<close>

text \<open>\<open>errors.As(err, &apiErr)\<close> with a \<open>smithy.APIError\<close>: the first of the chain of wrapped errors.\<close>

fun asAPIError :: "error \<Rightarrow> (string \<times> string) option" where
  "asAPIError (APIError code msg) = Some (code, msg)"
| "asAPIError (Wrapped _ e) = asAPIError e"
| "asAPIError (TerminalError e) = asAPIError e"
| "asAPIError (RequeueNeeded e) = asAPIError e"
| "asAPIError (RequeueNeededAfter (Some e) _) = asAPIError e"
| "asAPIError _ = None"

text \<open>\<open>errors.As(err, &termError)\<close> with an ACK \<open>TerminalError\<close>.\<close>

fun asTerminalError :: "error \<Rightarrow> bool" where
  "asTerminalError (TerminalError _) = True"
| "asTerminalError (Wrapped _ e) = asTerminalError e"
| "asTerminalError (RequeueNeeded e) = asTerminalError e"
| "asTerminalError (RequeueNeededAfter (Some e) _) = asTerminalError e"
| "asTerminalError _ = False"

definition errorCode :: "error \<Rightarrow> string option" where
  "errorCode e = map_option fst (asAPIError e)"

text \<open>The code's switch, for the terminal codes of a kind.\<close>

definition terminalAWSError :: "string list \<Rightarrow> error option \<Rightarrow> bool" where
  "terminalAWSError codes err =
     (case err of None \<Rightarrow> False | Some e \<Rightarrow>
     (case asAPIError e of None \<Rightarrow> False | Some (code, _) \<Rightarrow> code \<in> set codes))"

text \<open>
  What the conditions show of an error: its text, and the AWS error that the ACK runtime's
  \<open>AWSError\<close> extracts from it.
\<close>

record error_texts =
  Error :: "error \<Rightarrow> string"
  AWSError :: "error \<Rightarrow> error option"

text \<open>As documented, \<open>AWSError\<close> finds an AWS error whenever there is one in the chain.\<close>

definition AWSError_law :: "error_texts \<Rightarrow> bool" where
  "AWSError_law env \<longleftrightarrow> (\<forall>e. asAPIError e \<noteq> None \<longrightarrow> AWSError env e \<noteq> None)"

subsection \<open>Conditions\<close>

definition ConditionTypeTerminal :: string where "ConditionTypeTerminal = ''ACK.Terminal''"
definition ConditionTypeRecoverable :: string where "ConditionTypeRecoverable = ''ACK.Recoverable''"
definition ConditionTypeResourceSynced :: string where "ConditionTypeResourceSynced = ''ACK.ResourceSynced''"
definition ConditionTrue :: string where "ConditionTrue = ''True''"
definition ConditionFalse :: string where "ConditionFalse = ''False''"

definition hasCondition :: "string \<Rightarrow> condition list \<Rightarrow> bool" where
  "hasCondition ty cs \<longleftrightarrow> (\<exists>c \<in> set cs. condType c = ty)"

text \<open>The loop keeps a pointer to the last condition of a type; writing through it changes that one.\<close>

fun writeFirst :: "string \<Rightarrow> string \<Rightarrow> string option \<Rightarrow> condition list \<Rightarrow> condition list" where
  "writeFirst ty status msg [] = []"
| "writeFirst ty status msg (c # cs) =
     (if condType c = ty then c\<lparr>condStatus := status, condMessage := msg\<rparr> # cs
      else c # writeFirst ty status msg cs)"

definition writeLast :: "string \<Rightarrow> string \<Rightarrow> string option \<Rightarrow> condition list \<Rightarrow> condition list" where
  "writeLast ty status msg cs = rev (writeFirst ty status msg (rev cs))"

definition appendMissing :: "string \<Rightarrow> condition list \<Rightarrow> condition list" where
  "appendMissing ty cs =
     (if hasCondition ty cs then cs
      else cs @ [\<lparr>condType = ty, condStatus = [], condReason = None, condMessage = None\<rparr>])"

definition isTerminal :: "string list \<Rightarrow> error option \<Rightarrow> bool" where
  "isTerminal codes err \<longleftrightarrow>
     terminalAWSError codes err \<or> err = Some SecretTypeNotSupported \<or> err = Some SecretNotFound
     \<or> (case err of None \<Rightarrow> False | Some e \<Rightarrow> asTerminalError e)"

text \<open>\<open>None\<close> is the panic of calling \<open>Error\<close> on a nil AWS error. The result says whether anything was updated.\<close>

definition updateConditions ::
  "error_texts \<Rightarrow> string list \<Rightarrow> resource_manager \<Rightarrow> 'a common_status_scheme \<Rightarrow> error option
   \<Rightarrow> ('a common_status_scheme \<times> bool) option" where
  "updateConditions env codes rm st0 err =
     (let st = setStatusDefaults rm st0;
          cs = Conditions st;
          hadTerminal = hasCondition ConditionTypeTerminal cs;
          hadRecoverable = hasCondition ConditionTypeRecoverable cs;
          hadSync = hasCondition ConditionTypeResourceSynced cs
      in case (isTerminal codes err, err) of
           (True, Some e) \<Rightarrow>
             (let errorMessage =
                   (if e = SecretTypeNotSupported \<or> e = SecretNotFound \<or> asTerminalError e
                    then Some (Error env e) else map_option (Error env) (AWSError env e))
              in case errorMessage of None \<Rightarrow> None | Some m \<Rightarrow>
                   Some (st\<lparr>Conditions := writeLast ConditionTypeTerminal ConditionTrue (Some m)
                              (appendMissing ConditionTypeTerminal cs)\<rparr>, True))
         | _ \<Rightarrow>
             (let cs1 = (if hadTerminal then writeLast ConditionTypeTerminal ConditionFalse None cs else cs)
              in case err of
                   Some e \<Rightarrow>
                     (let errorMessage = (case AWSError env e of Some a \<Rightarrow> Error env a | None \<Rightarrow> Error env e)
                      in Some (st\<lparr>Conditions := writeLast ConditionTypeRecoverable ConditionTrue (Some errorMessage)
                                   (appendMissing ConditionTypeRecoverable cs1)\<rparr>, True))
                 | None \<Rightarrow>
                     Some (st\<lparr>Conditions :=
                             (if hadRecoverable then writeLast ConditionTypeRecoverable ConditionFalse None cs1
                              else cs1)\<rparr>,
                           hadTerminal \<or> hadRecoverable \<or> hadSync)))"

subsection \<open>The manager of a kind\<close>

text \<open>
  The operations of a kind. \<open>findOp\<close> also returns the resource it was given, and \<open>updateOp\<close>
  the latest one, which \<open>sdkFind\<close> and \<open>sdkUpdate\<close> of some kinds change in place; a nil
  resource is \<open>None\<close>.
\<close>

record 'r kind =
  findOp :: "'r \<Rightarrow> ('r \<times> 'r option \<times> error option) act"
  createOp :: "'r \<Rightarrow> ('r option \<times> error option) act"
  updateOp :: "'r \<Rightarrow> 'r \<Rightarrow> delta \<Rightarrow> ('r \<times> 'r option \<times> error option) act"
  deleteOp :: "'r \<Rightarrow> ('r option \<times> error option) act"
  mirrorOp :: "'r \<Rightarrow> 'r option \<Rightarrow> 'r"
  conditionsOp :: "'r \<Rightarrow> condition list"
  updateConditionsOp :: "'r \<Rightarrow> error option \<Rightarrow> ('r \<times> bool) option"

text \<open>The resource with its conditions updated, and the error for the reconciler; \<open>None\<close> is the panic.\<close>

definition onError :: "('r, 'x) kind_scheme \<Rightarrow> 'r option \<Rightarrow> error \<Rightarrow> ('r option \<times> error option) option" where
  "onError K r err =
     (case r of None \<Rightarrow> Some (None, Some err)
      | Some x \<Rightarrow>
          (case updateConditionsOp K x (Some err) of
             None \<Rightarrow> None
           | Some (r1, updated) \<Rightarrow>
               if \<not> updated then Some (Some x, Some err)
               else if \<exists>c \<in> set (conditionsOp K r1). condType c = ConditionTypeTerminal \<and> condStatus c = ConditionTrue
               then Some (Some r1, Some Terminal)
               else Some (Some r1, Some err)))"

definition onSuccess :: "('r, 'x) kind_scheme \<Rightarrow> 'r option \<Rightarrow> ('r option \<times> error option) option" where
  "onSuccess K r =
     (case r of None \<Rightarrow> Some (None, None)
      | Some x \<Rightarrow>
          (case updateConditionsOp K x None of
             None \<Rightarrow> None
           | Some (r1, updated) \<Rightarrow> Some (Some (if updated then r1 else x), None)))"

definition ReadOne :: "('r, 'x) kind_scheme \<Rightarrow> 'r \<Rightarrow> ('r \<times> 'r option \<times> error option) act" where
  "ReadOne K r0 =
     bind (findOp K r0) (\<lambda>(r1, observed, err).
     let r = mirrorOp K r1 observed in
     case err of
       Some e \<Rightarrow> bind (deref (onError K (if observed \<noteq> None then observed else Some r) e)) (\<lambda>(x, e'). ret (r, x, e'))
     | None \<Rightarrow> bind (deref (onSuccess K observed)) (\<lambda>(x, e'). ret (r, x, e')))"

definition finishOp :: "('r, 'x) kind_scheme \<Rightarrow> 'r \<Rightarrow> 'r option \<times> error option \<Rightarrow> ('r option \<times> error option) act" where
  "finishOp K fallback = (\<lambda>(x, err).
     case err of
       Some e \<Rightarrow> deref (onError K (if x \<noteq> None then x else Some fallback) e)
     | None \<Rightarrow> deref (onSuccess K x))"

definition Create :: "('r, 'x) kind_scheme \<Rightarrow> 'r \<Rightarrow> ('r option \<times> error option) act" where
  "Create K r = bind (createOp K r) (finishOp K r)"

definition Update :: "('r, 'x) kind_scheme \<Rightarrow> 'r \<Rightarrow> 'r \<Rightarrow> delta \<Rightarrow> ('r option \<times> error option) act" where
  "Update K desired latest delta =
     bind (updateOp K desired latest delta) (\<lambda>(latest', updated, err). finishOp K latest' (updated, err))"

definition Delete :: "('r, 'x) kind_scheme \<Rightarrow> 'r \<Rightarrow> ('r option \<times> error option) act" where
  "Delete K r = bind (deleteOp K r) (finishOp K r)"

text \<open>
  \<open>LateInitialize\<close> of a kind with the fields \<open>names\<close>; \<open>copyFields\<close> is the kind's
  \<open>lateInitializeFromReadOneOutput\<close>, \<open>incomplete\<close> its \<open>incompleteLateInitialization\<close>.
  \<open>SetLateInitialized\<close> and \<open>SetSynced\<close> belong to the ACK runtime.
\<close>

definition LateInitialize ::
  "('r, 'x) kind_scheme \<Rightarrow> (string \<Rightarrow> string option \<Rightarrow> string option \<Rightarrow> 'r \<Rightarrow> 'r)
   \<Rightarrow> (string \<Rightarrow> string option \<Rightarrow> string option \<Rightarrow> 'r \<Rightarrow> 'r)
   \<Rightarrow> ('r \<Rightarrow> 'r \<Rightarrow> 'r) \<Rightarrow> ('r \<Rightarrow> bool) \<Rightarrow> string list \<Rightarrow> 'r \<Rightarrow> ('r \<times> error option) act" where
  "LateInitialize K SetLateInitialized SetSynced copyFields incomplete names latest =
     (if length names = 0 then ret (latest, None)
      else bind (ReadOne K latest) (\<lambda>(latestCopy, observed, err).
        case err of
          Some e \<Rightarrow>
            ret (SetSynced ConditionFalse None None
                  (SetLateInitialized ConditionFalse
                    (Some ''Unable to complete Read operation required for late initialization'')
                    (Some ''Late Initialization Failure'') latestCopy), Some e)
        | None \<Rightarrow>
            bind (deref observed) (\<lambda>obs.
            let res = copyFields obs latestCopy in
            if incomplete res
            then ret (SetSynced ConditionFalse None None
                       (SetLateInitialized ConditionFalse
                         (Some ''Late initialization did not complete, requeuing with delay of 5 seconds'')
                         (Some ''Delayed Late Initialization'') res),
                      Some (RequeueNeededAfter None 5))
            else ret (SetLateInitialized ConditionTrue
                       (Some ''Late initialization successful'') (Some ''Late initialization successful'') res,
                      None))))"

text \<open>\<open>updateConditions\<close> as an operation of a kind whose status is read and written by \<open>get\<close> and \<open>put\<close>.\<close>

definition conditionsUpdater ::
  "error_texts \<Rightarrow> string list \<Rightarrow> resource_manager \<Rightarrow> ('r \<Rightarrow> 'a common_status_scheme)
   \<Rightarrow> ('a common_status_scheme \<Rightarrow> 'r \<Rightarrow> 'r) \<Rightarrow> 'r \<Rightarrow> error option \<Rightarrow> ('r \<times> bool) option" where
  "conditionsUpdater env codes rm get put x err =
     map_option (\<lambda>(st, updated). (put st x, updated)) (updateConditions env codes rm (get x) err)"

subsection \<open>Lists of conditions\<close>

text \<open>The status the loop of \<open>updateConditions\<close> sees for a type: that of its last condition.\<close>

definition statusOf :: "string \<Rightarrow> condition list \<Rightarrow> string option" where
  "statusOf ty cs = map_option condStatus (find (\<lambda>c. condType c = ty) (rev cs))"

lemma hasCondition_iff: "hasCondition ty cs \<longleftrightarrow> ty \<in> condType ` set cs"
  by (auto simp: hasCondition_def)

lemma statusOf_None: "statusOf ty cs = None \<longleftrightarrow> \<not> hasCondition ty cs"
  by (auto simp: statusOf_def hasCondition_def find_None_iff)

lemma map_type_writeFirst [simp]: "map condType (writeFirst ty st m cs) = map condType cs"
  by (induction cs) auto

lemma map_type_writeLast [simp]: "map condType (writeLast ty st m cs) = map condType cs"
  by (simp add: writeLast_def rev_map [symmetric])

lemma hasCondition_writeLast [simp]: "hasCondition ty (writeLast ty' st m cs) = hasCondition ty cs"
  unfolding hasCondition_iff by (metis list.set_map map_type_writeLast)

lemma find_writeFirst:
  "find (\<lambda>c. condType c = ty) (writeFirst ty' st m cs) =
     (if ty = ty' then map_option (\<lambda>c. c\<lparr>condStatus := st, condMessage := m\<rparr>) (find (\<lambda>c. condType c = ty) cs)
      else find (\<lambda>c. condType c = ty) cs)"
  by (induction cs) auto

lemma statusOf_writeLast [simp]:
  "statusOf ty (writeLast ty' st m cs) =
     (if ty = ty' \<and> hasCondition ty cs then Some st else statusOf ty cs)"
proof -
  have "find (\<lambda>c. condType c = ty) (rev cs) = None \<longleftrightarrow> \<not> hasCondition ty cs"
    by (auto simp: hasCondition_def find_None_iff)
  then show ?thesis
    by (cases "find (\<lambda>c. condType c = ty) (rev cs)")
       (auto simp: statusOf_def writeLast_def find_writeFirst)
qed

lemma statusOf_appendMissing [simp]:
  "statusOf ty (appendMissing ty' cs) =
     (if ty = ty' \<and> \<not> hasCondition ty cs then Some [] else statusOf ty cs)"
  by (auto simp: appendMissing_def statusOf_def)

lemma hasCondition_appendMissing [simp]:
  "hasCondition ty (appendMissing ty' cs) \<longleftrightarrow> ty = ty' \<or> hasCondition ty cs"
  by (auto simp: appendMissing_def hasCondition_def)

lemma types_distinct [simp]:
  "ConditionTypeTerminal \<noteq> ConditionTypeRecoverable" "ConditionTypeRecoverable \<noteq> ConditionTypeTerminal"
  "ConditionTrue \<noteq> ConditionFalse" "ConditionFalse \<noteq> ConditionTrue" "ConditionTrue \<noteq> []" "[] \<noteq> ConditionTrue"
  by (simp_all add: ConditionTypeTerminal_def ConditionTypeRecoverable_def ConditionTrue_def ConditionFalse_def)

definition uniqueTypes :: "condition list \<Rightarrow> bool" where
  "uniqueTypes cs \<longleftrightarrow> distinct (map condType cs)"

lemma uniqueTypes_writeLast [simp]: "uniqueTypes (writeLast ty st m cs) = uniqueTypes cs"
  by (simp add: uniqueTypes_def)

lemma uniqueTypes_appendMissing [simp]: "uniqueTypes (appendMissing ty cs) = uniqueTypes cs"
  by (auto simp: uniqueTypes_def appendMissing_def hasCondition_iff)

lemma statusOf_unique:
  assumes "uniqueTypes cs" "c \<in> set cs"
  shows "statusOf (condType c) cs = Some (condStatus c)"
proof -
  obtain d where d: "find (\<lambda>x. condType x = condType c) (rev cs) = Some d"
    using assms(2) by (cases "find (\<lambda>x. condType x = condType c) (rev cs)") (auto simp: find_None_iff)
  then have "d \<in> set cs" "condType d = condType c"
    by (auto simp: find_Some_iff) (metis nth_mem set_rev length_rev)
  with assms have "d = c" by (auto simp: uniqueTypes_def distinct_map dest: inj_onD)
  with d show ?thesis by (simp add: statusOf_def)
qed

lemma statusOf_mem: "statusOf ty cs = Some st \<Longrightarrow> \<exists>c \<in> set cs. condType c = ty \<and> condStatus c = st"
  by (auto simp: statusOf_def find_Some_iff) (metis nth_mem set_rev length_rev)

lemma isTerminal_None [simp]: "\<not> isTerminal codes None"
  by (simp add: isTerminal_def terminalAWSError_def)

lemma Conditions_setStatusDefaults [simp]: "Conditions (setStatusDefaults rm st) = Conditions st"
  by (simp add: setStatusDefaults_def Let_def)

text \<open>Where the AWS error is known, nothing panics; the two conditions follow the error.\<close>

lemma updateConditions_total:
  assumes "AWSError_law env"
  shows "\<exists>st' u. updateConditions env codes rm st err = Some (st', u)"
proof (cases "isTerminal codes err")
  case True
  then obtain e where e: "err = Some e" by (cases err) simp_all
  have "AWSError env e \<noteq> None" if "\<not> (e = SecretTypeNotSupported \<or> e = SecretNotFound \<or> asTerminalError e)"
  proof -
    from that True e have "terminalAWSError codes (Some e)" by (simp add: isTerminal_def)
    then have "asAPIError e \<noteq> None" by (auto simp: terminalAWSError_def split: option.splits)
    with assms show ?thesis by (simp add: AWSError_law_def)
  qed
  with True e show ?thesis by (fastforce simp: updateConditions_def Let_def)
next
  case False
  then show ?thesis by (auto simp: updateConditions_def Let_def split: option.splits)
qed

lemma updateConditions_terminal:
  assumes "updateConditions env codes rm st (Some e) = Some (st', u)" "isTerminal codes (Some e)"
  obtains m where "u" "Conditions st' = writeLast ConditionTypeTerminal ConditionTrue (Some m)
    (appendMissing ConditionTypeTerminal (Conditions st))"
  using assms by (auto simp: updateConditions_def Let_def split: option.splits)

abbreviation clearedTerminal :: "condition list \<Rightarrow> condition list" where
  "clearedTerminal cs \<equiv>
     (if hasCondition ConditionTypeTerminal cs then writeLast ConditionTypeTerminal ConditionFalse None cs else cs)"

lemma updateConditions_recoverable:
  assumes "updateConditions env codes rm st (Some e) = Some (st', u)" "\<not> isTerminal codes (Some e)"
  obtains m where "u" "Conditions st' = writeLast ConditionTypeRecoverable ConditionTrue (Some m)
    (appendMissing ConditionTypeRecoverable (clearedTerminal (Conditions st)))"
  using assms by (auto simp: updateConditions_def Let_def cong: if_cong)

lemma updateConditions_success:
  assumes "updateConditions env codes rm st None = Some (st', u)"
  shows "Conditions st' =
    (if hasCondition ConditionTypeRecoverable (Conditions st)
     then writeLast ConditionTypeRecoverable ConditionFalse None (clearedTerminal (Conditions st))
     else clearedTerminal (Conditions st))"
  using assms by (auto simp: updateConditions_def Let_def)

lemma updateConditions_status:
  assumes "updateConditions env codes rm st err = Some (st', u)"
  shows "statusOf ConditionTypeTerminal (Conditions st') =
      (if isTerminal codes err then Some ConditionTrue
       else if hasCondition ConditionTypeTerminal (Conditions st) then Some ConditionFalse else None)"
    and "statusOf ConditionTypeRecoverable (Conditions st') =
      (if isTerminal codes err then statusOf ConditionTypeRecoverable (Conditions st)
       else if err \<noteq> None then Some ConditionTrue
       else if hasCondition ConditionTypeRecoverable (Conditions st) then Some ConditionFalse else None)"
    and "uniqueTypes (Conditions st') = uniqueTypes (Conditions st)"
    and "err \<noteq> None \<Longrightarrow> u"
proof -
  note none = statusOf_None [of ConditionTypeTerminal "Conditions st"] statusOf_None [of ConditionTypeRecoverable "Conditions st"]
  have "statusOf ConditionTypeTerminal (Conditions st') =
      (if isTerminal codes err then Some ConditionTrue
       else if hasCondition ConditionTypeTerminal (Conditions st) then Some ConditionFalse else None)
    \<and> statusOf ConditionTypeRecoverable (Conditions st') =
      (if isTerminal codes err then statusOf ConditionTypeRecoverable (Conditions st)
       else if err \<noteq> None then Some ConditionTrue
       else if hasCondition ConditionTypeRecoverable (Conditions st) then Some ConditionFalse else None)
    \<and> uniqueTypes (Conditions st') = uniqueTypes (Conditions st) \<and> (err \<noteq> None \<longrightarrow> u)"
  proof (cases err)
    case None
    show ?thesis using updateConditions_success [OF assms [unfolded None]] none None by simp
  next
    case (Some e)
    show ?thesis
    proof (cases "isTerminal codes (Some e)")
      case True
      obtain m where "u" "Conditions st' = writeLast ConditionTypeTerminal ConditionTrue (Some m)
          (appendMissing ConditionTypeTerminal (Conditions st))"
        by (rule updateConditions_terminal [OF assms [unfolded Some] True])
      with True Some none show ?thesis by simp
    next
      case False
      obtain m where "u" "Conditions st' = writeLast ConditionTypeRecoverable ConditionTrue (Some m)
          (appendMissing ConditionTypeRecoverable (clearedTerminal (Conditions st)))"
        by (rule updateConditions_recoverable [OF assms [unfolded Some] False])
      with False Some none show ?thesis by simp
    qed
  qed
  then show "statusOf ConditionTypeTerminal (Conditions st') =
      (if isTerminal codes err then Some ConditionTrue
       else if hasCondition ConditionTypeTerminal (Conditions st) then Some ConditionFalse else None)"
    "statusOf ConditionTypeRecoverable (Conditions st') =
      (if isTerminal codes err then statusOf ConditionTypeRecoverable (Conditions st)
       else if err \<noteq> None then Some ConditionTrue
       else if hasCondition ConditionTypeRecoverable (Conditions st) then Some ConditionFalse else None)"
    "uniqueTypes (Conditions st') = uniqueTypes (Conditions st)" "err \<noteq> None \<Longrightarrow> u" by blast+
qed

lemma more_setStatusDefaults: "common_status.more (setStatusDefaults rm st) = common_status.more st"
  by (simp add: setStatusDefaults_def Let_def)

lemma updateConditions_more:
  assumes "updateConditions env codes rm st err = Some (st', u)"
  shows "common_status.more st' = common_status.more st"
proof (cases "isTerminal codes err")
  case True
  then obtain e where "err = Some e" by (cases err) simp_all
  with assms True show ?thesis by (auto simp: updateConditions_def Let_def more_setStatusDefaults split: option.splits)
next
  case False
  with assms show ?thesis by (cases err) (auto simp: updateConditions_def Let_def more_setStatusDefaults)
qed

subsection \<open>What the reconciler is told\<close>

text \<open>
  The contract between a manager and the operations of its kind: conditions can be read back
  as \<open>updateConditions\<close> leaves them.
\<close>

locale reporting_kind =
  fixes K :: "('r, 'x) kind_scheme" and codes :: "string list"
  assumes total: "\<exists>y u. updateConditionsOp K x err = Some (y, u)"
    and terminal: "updateConditionsOp K x err = Some (y, u) \<Longrightarrow>
      statusOf ConditionTypeTerminal (conditionsOp K y) =
        (if isTerminal codes err then Some ConditionTrue
         else if hasCondition ConditionTypeTerminal (conditionsOp K x) then Some ConditionFalse else None)"
    and unique: "updateConditionsOp K x err = Some (y, u) \<Longrightarrow>
      uniqueTypes (conditionsOp K y) = uniqueTypes (conditionsOp K x)"
    and updated: "updateConditionsOp K x (Some e) = Some (y, u) \<Longrightarrow> u"
begin

lemma onError_classifies:
  assumes "uniqueTypes (conditionsOp K x)"
  shows "\<exists>y. onError K (Some x) e = Some (Some y, Some (if isTerminal codes (Some e) then Terminal else e))
    \<and> uniqueTypes (conditionsOp K y)
    \<and> (statusOf ConditionTypeTerminal (conditionsOp K y) = Some ConditionTrue \<longleftrightarrow> isTerminal codes (Some e))"
proof -
  obtain y u where y: "updateConditionsOp K x (Some e) = Some (y, u)" using total by blast
  have un: "uniqueTypes (conditionsOp K y)" using unique [OF y] assms by simp
  have ex: "(\<exists>c \<in> set (conditionsOp K y). condType c = ConditionTypeTerminal \<and> condStatus c = ConditionTrue)
      \<longleftrightarrow> statusOf ConditionTypeTerminal (conditionsOp K y) = Some ConditionTrue"
    using statusOf_unique [OF un] statusOf_mem by fastforce
  have "statusOf ConditionTypeTerminal (conditionsOp K y) = Some ConditionTrue \<longleftrightarrow> isTerminal codes (Some e)"
    using terminal [OF y] by simp
  with ex un y updated [OF y] show ?thesis by (simp add: onError_def)
qed

lemma finishOp_error:
  assumes "uniqueTypes (conditionsOp K fallback)" "\<And>y. x = Some y \<Longrightarrow> uniqueTypes (conditionsOp K y)"
  shows "\<exists>y. finishOp K fallback (x, Some e) s =
    (Ret (Some y, Some (if isTerminal codes (Some e) then Terminal else e)), s)"
proof -
  obtain z where z: "(if x \<noteq> None then x else Some fallback) = Some z" "uniqueTypes (conditionsOp K z)"
    using assms by (cases x) auto
  from onError_classifies [OF z(2), of e] z(1) show ?thesis by (auto simp: finishOp_def)
qed

lemma finishOp_success: "\<exists>y. finishOp K fallback (x, None) s = (Ret (y, None), s) \<and> (y = None \<longleftrightarrow> x = None)"
proof (cases x)
  case (Some z)
  obtain y u where "updateConditionsOp K z None = Some (y, u)" using total by blast
  with Some show ?thesis by (simp add: finishOp_def onSuccess_def)
qed (simp add: finishOp_def onSuccess_def)

end

text \<open>Every kind built with \<open>conditionsUpdater\<close> on its status satisfies the contract.\<close>

lemma conditionsUpdater_reports:
  assumes "AWSError_law env" and gp: "\<And>st x. get (put st x) = st"
    and "conditionsOp K = (\<lambda>x. Conditions (get x))"
    and "updateConditionsOp K = conditionsUpdater env codes rm get put"
  shows "reporting_kind K codes"
proof
  fix x err e y u
  note d = assms(3,4) conditionsUpdater_def
  show "\<exists>y u. updateConditionsOp K x err = Some (y, u)"
    using updateConditions_total [OF assms(1), of codes rm "get x" err] by (auto simp: d)
  show "statusOf ConditionTypeTerminal (conditionsOp K y) =
        (if isTerminal codes err then Some ConditionTrue
         else if hasCondition ConditionTypeTerminal (conditionsOp K x) then Some ConditionFalse else None)"
    "uniqueTypes (conditionsOp K y) = uniqueTypes (conditionsOp K x)"
    if "updateConditionsOp K x err = Some (y, u)"
    using that updateConditions_status by (fastforce simp: d gp)+
  show u if "updateConditionsOp K x (Some e) = Some (y, u)"
    using that updateConditions_status(4) by (fastforce simp: d)
qed

text \<open>When the creation fails with no resource, what the reconciler gets keeps the kind's own status.\<close>

lemma Create_lost:
  assumes "AWSError_law env" and "createOp K r s = (Ret (None, Some e), t)"
    and "updateConditionsOp K = conditionsUpdater env codes rm get put"
    and "P r" and "\<And>st. common_status.more st = common_status.more (get r) \<Longrightarrow> P (put st r)"
  shows "\<exists>k err. Create K r s = (Ret (Some k, Some err), t) \<and> P k"
proof -
  obtain st u where "updateConditions env codes rm (get r) (Some e) = Some (st, u)"
    using updateConditions_total [OF assms(1)] by blast
  with updateConditions_more [OF this] assms(2-5) show ?thesis
    by (simp add: Create_def finishOp_def onError_def conditionsUpdater_def)
qed

subsection \<open>Properties\<close>

text \<open>
  C11. The conditions follow the outcome. For any error (or none) \<open>updateConditions\<close> neither
  panics nor loses a condition's type: the terminal condition is True exactly when the error
  is terminal and is cleared otherwise; the recoverable condition is True after every other
  error and cleared on success; and a list with one condition per type stays one.
\<close>

theorem updateConditions_follows:
  assumes "AWSError_law env"
  shows "\<exists>st' u. updateConditions env codes rm st err = Some (st', u)
    \<and> statusOf ConditionTypeTerminal (Conditions st') =
        (if isTerminal codes err then Some ConditionTrue
         else if hasCondition ConditionTypeTerminal (Conditions st) then Some ConditionFalse else None)
    \<and> statusOf ConditionTypeRecoverable (Conditions st') =
        (if isTerminal codes err then statusOf ConditionTypeRecoverable (Conditions st)
         else if err \<noteq> None then Some ConditionTrue
         else if hasCondition ConditionTypeRecoverable (Conditions st) then Some ConditionFalse else None)
    \<and> uniqueTypes (Conditions st') = uniqueTypes (Conditions st)"
proof -
  obtain st' u where "updateConditions env codes rm st err = Some (st', u)"
    using updateConditions_total [OF assms] by blast
  with updateConditions_status [OF this] show ?thesis by blast
qed

definition plainTexts :: error_texts where
  "plainTexts = \<lparr>Error = (\<lambda>e. case asAPIError e of None \<Rightarrow> [] | Some (c, m) \<Rightarrow> c @ '': '' @ m), AWSError = Some\<rparr>"

definition exampleManager :: resource_manager where
  "exampleManager = \<lparr>awsAccountID = ''111'', awsRegion = ''us-west-2'', awsPartition = ''aws''\<rparr>"

definition exampleStatus :: common_status where
  "exampleStatus = \<lparr>ACKResourceMetadata = None, Conditions = [\<lparr>condType = ConditionTypeRecoverable,
     condStatus = ConditionTrue, condReason = None, condMessage = Some ''throttled''\<rparr>]\<rparr>"

lemma plainTexts_law: "AWSError_law plainTexts"
  by (simp add: AWSError_law_def plainTexts_def)

lemma updateConditions_follows_witness:
  "\<exists>st' u. updateConditions plainTexts [''InvalidParameterValue''] exampleManager exampleStatus
      (Some (Wrapped ''operation error'' (APIError ''InvalidParameterValue'' ''bad''))) = Some (st', u)
    \<and> statusOf ConditionTypeTerminal (Conditions st') = Some ConditionTrue"
proof -
  have "isTerminal [''InvalidParameterValue'']
      (Some (Wrapped ''operation error'' (APIError ''InvalidParameterValue'' ''bad'')))"
    by code_simp
  with updateConditions_follows [OF plainTexts_law, of "[''InvalidParameterValue'']" exampleManager exampleStatus
      "Some (Wrapped ''operation error'' (APIError ''InvalidParameterValue'' ''bad''))"]
  show ?thesis by auto
qed

text \<open>
  A recoverable condition outlives a terminal error: when the error turns terminal, a
  recoverable condition that an earlier error set to True stays True beside it.
\<close>

theorem recoverable_survives_terminal:
  assumes "AWSError_law env" "isTerminal codes (Some e)"
    and "statusOf ConditionTypeRecoverable (Conditions st) = Some ConditionTrue"
  shows "\<exists>st'. updateConditions env codes rm st (Some e) = Some (st', True)
    \<and> statusOf ConditionTypeTerminal (Conditions st') = Some ConditionTrue
    \<and> statusOf ConditionTypeRecoverable (Conditions st') = Some ConditionTrue"
proof -
  obtain st' u where u: "updateConditions env codes rm st (Some e) = Some (st', u)"
    using updateConditions_total [OF assms(1)] by blast
  show ?thesis using u updateConditions_status [OF u] assms(2,3) by simp
qed

lemma recoverable_survives_terminal_witness:
  "\<exists>st'. updateConditions plainTexts [] exampleManager exampleStatus (Some SecretNotFound) = Some (st', True)
    \<and> statusOf ConditionTypeTerminal (Conditions st') = Some ConditionTrue
    \<and> statusOf ConditionTypeRecoverable (Conditions st') = Some ConditionTrue"
  by (rule recoverable_survives_terminal [OF plainTexts_law])
     (simp_all add: isTerminal_def exampleStatus_def statusOf_def)

end
