(* ===== verification/Kinds.thy ===== *)
theory Kinds
  imports Conditions TagMaps Pages Diffs
begin

text \<open>
  What the generated and hand-written code of several kinds repeats: SDK fields of type
  \<open>int32\<close>, tags read from an answer and written into a request, the comparison of slices in
  \<open>delta.go\<close>, and steps of an update that run under a condition.
\<close>

subsection \<open>Requests and answers\<close>

text \<open>A field of type \<open>int32\<close> in the SDK: a value out of its range is an error.\<close>

definition narrowInt32 :: "string \<Rightarrow> int64 option \<Rightarrow> error + int32 option" where
  "narrowInt32 field p =
     (case p of None \<Rightarrow> Inr None
      | Some x \<Rightarrow>
          if sint x > maxInt32 \<or> sint x < minInt32
          then Inl (GoError (''error: field '' @ field @ '' is of type int32''))
          else Inr (Some (toInt32 x)))"

definition resourceTags :: "sdk_tag list \<Rightarrow> tag list" where
  "resourceTags ts = map (\<lambda>t. \<lparr>Key = sdkKey t, Value = sdkValue t\<rparr>) ts"

text \<open>A tag enters the request with its key and value only when both are there.\<close>

definition requestedTag :: "tag \<Rightarrow> sdk_tag" where
  "requestedTag t =
     (if Key t \<noteq> None \<and> Value t \<noteq> None then \<lparr>sdkKey = Key t, sdkValue = Value t\<rparr>
      else \<lparr>sdkKey = None, sdkValue = None\<rparr>)"

text \<open>An enum of the SDK that is empty becomes a nil pointer.\<close>

definition enumPtr :: "string \<Rightarrow> string option" where
  "enumPtr s = (if s \<noteq> [] then Some s else None)"

text \<open>The tags that a creation asks for: one specification for the new resource, or none.\<close>

definition tagSpecificationsFor :: "string \<Rightarrow> tag list option \<Rightarrow> tag_specification list option" where
  "tagSpecificationsFor resourceType tags =
     (case tags of None \<Rightarrow> None
      | Some ts \<Rightarrow> Some [\<lparr>tsResourceType = resourceType, tsTags = map requestedTag ts\<rparr>])"

text \<open>When the tags read are the tags the resource has, the order of the resource stays.\<close>

definition keepTagOrder :: "tag list option \<Rightarrow> tag list option \<Rightarrow> tag list option" where
  "keepTagOrder mine read =
     (let (toAdd, toDelete) = ComputeTagsDelta (elems mine) (elems read)
      in if length toAdd = 0 \<and> length toDelete = 0 then mine else read)"

lemma tagsOf_idle:
  assumes "ComputeTagsDelta mine read = ([], [])"
  shows "tagsOf mine = tagsOf read"
proof
  fix k
  have add: "t \<in> set mine \<Longrightarrow> tagsOf read (keyOf t) = Some (valueOf t)" for t
    using toAdd_mem [of t mine read] assms by auto
  have del: "t \<in> set read \<Longrightarrow> keyOf t \<in> keyOf ` set mine" for t
    using toDelete_mem [of t mine read] assms by auto
  show "tagsOf mine k = tagsOf read k"
  proof (cases "tagsOf mine k")
    case None
    with del have "k \<notin> keyOf ` set read" by (auto simp: tagMap_None_iff)
    with None show ?thesis by (simp add: tagMap_None_iff [symmetric])
  next
    case (Some v)
    from tagMap_Some_mem [OF this] obtain t where "t \<in> set mine" "keyOf t = k" "valueOf t = v" by auto
    with add Some show ?thesis by auto
  qed
qed

text \<open>Keeping the order of the tags does not change which tags there are.\<close>

lemma keepTagOrder_tags: "tagsOf (elems (keepTagOrder mine read)) = tagsOf (elems read)"
  by (auto simp: keepTagOrder_def split: prod.split dest!: tagsOf_idle)

text \<open>\<open>xs[0]\<close>, which panics on an empty slice.\<close>

definition firstOf :: "'a list \<Rightarrow> 'a act" where
  "firstOf xs = (case xs of [] \<Rightarrow> panic | x # _ \<Rightarrow> ret x)"

subsection \<open>Updates\<close>

text \<open>\<open>if c { if err := f(); err != nil { return err } }\<close>, then the rest.\<close>

definition whenErr :: "bool \<Rightarrow> error option act \<Rightarrow> error option act \<Rightarrow> error option act" where
  "whenErr c m rest = (if c then bind m (\<lambda>err. ifErr err (\<lambda>e. ret (Some e)) rest) else rest)"

subsection \<open>Deltas\<close>

text \<open>\<open>if len(x) != len(y) { add } else if len(x) > 0 { if !DeepEqual(x, y) { add } }\<close>\<close>

definition compareList :: "('a list \<Rightarrow> 'a list \<Rightarrow> bool) \<Rightarrow> string \<Rightarrow> 'a slice \<Rightarrow> 'a slice \<Rightarrow> delta \<Rightarrow> delta" where
  "compareList eq p x y d =
     (if length (elems x) \<noteq> length (elems y) then addDiff p d
      else if length (elems x) > 0 then (if \<not> eq (elems x) (elems y) then addDiff p d else d)
      else d)"

text \<open>
  The comparisons of the ACK runtime (\<open>ackcompare\<close>, and \<open>Semantic.Equalities.DeepEqual\<close> on
  references) are parameters of every \<open>newResourceDelta\<close>. As documented, two tag maps are equal
  when they hold the same pairs.
\<close>

record ackcompare =
  HasNilDifference :: "iface \<Rightarrow> iface \<Rightarrow> bool"
  SliceStringPEqual :: "string option list \<Rightarrow> string option list \<Rightarrow> bool"
  MapStringStringEqual :: "acktags \<Rightarrow> acktags \<Rightarrow> bool"
  DeepEqualRef :: "ref_wrapper option \<Rightarrow> ref_wrapper option \<Rightarrow> bool"
  DeepEqualRefs :: "ref_wrapper option list \<Rightarrow> ref_wrapper option list \<Rightarrow> bool"

definition ackcompare_law :: "('x) ackcompare_scheme \<Rightarrow> bool" where
  "ackcompare_law C \<longleftrightarrow> hnd_law (HasNilDifference C)
     \<and> (\<forall>m n. wfMap m \<longrightarrow> wfMap n \<longrightarrow> (MapStringStringEqual C m n \<longleftrightarrow> map_of m = map_of n))
     \<and> (\<forall>x. DeepEqualRef C x x) \<and> (\<forall>xs. DeepEqualRefs C xs xs) \<and> (\<forall>xs. SliceStringPEqual C xs xs)"

definition compareTags :: "('x) ackcompare_scheme \<Rightarrow> string \<Rightarrow> tag list option \<Rightarrow> tag list option \<Rightarrow> delta \<Rightarrow> delta" where
  "compareTags C p x y d =
     (let (desiredACKTags, _) = convertToOrderedACKTags x;
          (latestACKTags, _) = convertToOrderedACKTags y
      in if \<not> MapStringStringEqual C desiredACKTags latestACKTags then addDiff p d else d)"

definition compareRef :: "('x) ackcompare_scheme \<Rightarrow> string \<Rightarrow> ref_wrapper option \<Rightarrow> ref_wrapper option \<Rightarrow> delta \<Rightarrow> delta" where
  "compareRef C p x y d = (if \<not> DeepEqualRef C x y then addDiff p d else d)"

definition compareRefs ::
  "('x) ackcompare_scheme \<Rightarrow> string \<Rightarrow> ref_wrapper option list \<Rightarrow> ref_wrapper option list \<Rightarrow> delta \<Rightarrow> delta" where
  "compareRefs C p x y d = (if \<not> DeepEqualRefs C x y then addDiff p d else d)"

abbreviation cmpStr where "cmpStr C \<equiv> comparePtr (HasNilDifference C) IStr"
abbreviation cmpInt where "cmpInt C \<equiv> comparePtr (HasNilDifference C) IInt"
abbreviation cmpBool where "cmpBool C \<equiv> comparePtr (HasNilDifference C) IBool"

text \<open>
  \<open>if len(x) != len(y) { add } else if len(x) > 0 { if !SliceStringPEqual(x, y) { add } }\<close>.
  A nil and an empty slice of strings are the same list.
\<close>

definition cmpStrs :: "('x) ackcompare_scheme \<Rightarrow> string \<Rightarrow> string option list \<Rightarrow> string option list \<Rightarrow> delta \<Rightarrow> delta" where
  "cmpStrs C p x y d = compareList (SliceStringPEqual C) p (Some x) (Some y) d"

text \<open>
  \<open>if HasNilDifference(x, y) { add } else if x != nil && y != nil { ... }\<close> on pointers to
  structs, whose fields \<open>inner\<close> compares.
\<close>

definition compareStruct ::
  "('x) ackcompare_scheme \<Rightarrow> string \<Rightarrow> ('a \<Rightarrow> 'a \<Rightarrow> delta \<Rightarrow> delta) \<Rightarrow> 'a option \<Rightarrow> 'a option \<Rightarrow> delta \<Rightarrow> delta" where
  "compareStruct C p inner x y d =
     (if HasNilDifference C (IStruct (map_option (\<lambda>_. ()) x)) (IStruct (map_option (\<lambda>_. ()) y)) then addDiff p d
      else case (x, y) of (Some u, Some v) \<Rightarrow> inner u v d | _ \<Rightarrow> d)"

text \<open>The start of \<open>newResourceDelta\<close>: two nil resources make the rest panic.\<close>

definition bothResources :: "'r option \<Rightarrow> 'r option \<Rightarrow> ('r \<Rightarrow> 'r \<Rightarrow> 'b) \<Rightarrow> (delta \<Rightarrow> 'b) \<Rightarrow> 'b act" where
  "bothResources a b compare one =
     (case (a, b) of
        (Some x, Some y) \<Rightarrow> ret (compare x y)
      | (None, None) \<Rightarrow> panic
      | _ \<Rightarrow> ret (one (addDiff [] [])))"

lemma compareList_eq: "compareList (=) p x y d = (if elems x = elems y then d else addDiff p d)"
  by (auto simp: compareList_def)

text \<open>A path is in the delta when an earlier comparison or its own put it there.\<close>

lemma mem_comparePtr: "q \<in> set (comparePtr hnd C p x y d) \<longleftrightarrow> q \<in> set d \<or> q = p \<and> comparePtr hnd C p x y [] \<noteq> []"
  by (auto simp: comparePtr_def split: option.split)

lemma mem_compareList: "q \<in> set (compareList eq p x y d) \<longleftrightarrow> q \<in> set d \<or> q = p \<and> compareList eq p x y [] \<noteq> []"
  by (auto simp: compareList_def)

lemma mem_compareTags: "q \<in> set (compareTags C p x y d) \<longleftrightarrow> q \<in> set d \<or> q = p \<and> compareTags C p x y [] \<noteq> []"
  by (cases "convertToOrderedACKTags x"; cases "convertToOrderedACKTags y") (auto simp: compareTags_def)

lemma mem_compareRef: "q \<in> set (compareRef C p x y d) \<longleftrightarrow> q \<in> set d \<or> q = p \<and> compareRef C p x y [] \<noteq> []"
  by (auto simp: compareRef_def)

lemma mem_compareRefs: "q \<in> set (compareRefs C p u v d) \<longleftrightarrow> q \<in> set d \<or> q = p \<and> compareRefs C p u v [] \<noteq> []"
  by (auto simp: compareRefs_def)

lemmas mem_compare = mem_comparePtr mem_compareList mem_compareTags mem_compareRef mem_compareRefs

lemma comparePtr_values: "u \<noteq> v \<Longrightarrow> comparePtr hnd C p (Some u) (Some v) [] \<noteq> []"
  by (simp add: comparePtr_def)

lemma compareTags_law:
  assumes "ackcompare_law C"
  shows "compareTags C p x y [] = [] \<longleftrightarrow> tagsOf (keyed x) = tagsOf (keyed y)"
proof -
  obtain m ks n ls where c: "convertToOrderedACKTags x = (m, ks)" "convertToOrderedACKTags y = (n, ls)"
    by (metis prod.exhaust)
  with assms convert_facts [OF c(1)] convert_facts [OF c(2)] show ?thesis
    by (simp add: compareTags_def ackcompare_law_def)
qed

definition sameMap :: "acktags \<Rightarrow> acktags \<Rightarrow> bool" where
  "sameMap m n \<longleftrightarrow> (\<forall>k \<in> set (map fst m @ map fst n). map_of m k = map_of n k)"

lemma sameMap_iff: "sameMap m n \<longleftrightarrow> map_of m = map_of n"
proof
  assume s: "sameMap m n"
  show "map_of m = map_of n"
  proof
    fix k
    show "map_of m k = map_of n k"
    proof (cases "k \<in> set (map fst m @ map fst n)")
      case True
      with s show ?thesis unfolding sameMap_def by blast
    next
      case False
      then show ?thesis by (simp add: map_of_eq_None_iff [THEN iffD2])
    qed
  qed
qed (simp add: sameMap_def)

definition exactComparisons :: ackcompare where
  "exactComparisons = \<lparr>HasNilDifference = nilDiff, SliceStringPEqual = (=),
     MapStringStringEqual = sameMap, DeepEqualRef = (=), DeepEqualRefs = (=)\<rparr>"

lemma exactComparisons_law: "ackcompare_law exactComparisons"
  by (simp add: ackcompare_law_def exactComparisons_def hnd_law_nilDiff sameMap_iff)

end
