(* ===== verification/SecurityGroup.thy ===== *)
theory SecurityGroup
  imports SG_Canonical Kinds
begin

text \<open>
  The operations of the security-group controller
  (\<open>pkg/resource/security_group/sdk.go\<close> and \<open>hooks.go\<close>): the conversions between API
  and SDK rules, the synchronisation of rules in batches, reading, creating, updating and
  deleting a group.

  A resource is its \<open>ko\<close>, which is never nil here (\<open>manager.go\<close> panics before); a nil
  \<open>*resource\<close> is \<open>None\<close>. Rules are added and revoked as they are written in the spec, never
  in canonical form.
\<close>

subsection \<open>The service\<close>

record sg_api = tags_api +
  onAuthorizeIngress :: "call log \<Rightarrow> sg_rules_input \<Rightarrow> error option"
  onAuthorizeEgress :: "call log \<Rightarrow> sg_rules_input \<Rightarrow> error option"
  onRevokeIngress :: "call log \<Rightarrow> sg_rules_input \<Rightarrow> error option"
  onRevokeEgress :: "call log \<Rightarrow> sg_rules_input \<Rightarrow> error option"
  onDescribeSecurityGroupRules :: "call log \<Rightarrow> describe_input \<Rightarrow> error + sg_rules_output option"
  onDescribeSecurityGroups :: "call log \<Rightarrow> string list \<times> filter_input list \<Rightarrow> error + sdk_security_group list option"
  onCreateSecurityGroup :: "call log \<Rightarrow> create_sg_input \<Rightarrow> error + create_sg_output option"
  onDeleteSecurityGroup :: "call log \<Rightarrow> string option \<Rightarrow> error option"

subsection \<open>Conversions\<close>

text \<open>The loops over a slice of pointers dereference each element; a nil slice stays nil.\<close>

definition derefAll :: "'a option slice \<Rightarrow> 'a list option act" where
  "derefAll s = (case s of None \<Rightarrow> ret None | Some xs \<Rightarrow> bind (mapAct deref xs) (\<lambda>ys. ret (Some ys)))"

definition newIpRange :: "ip_range \<Rightarrow> sdk_ip_range" where
  "newIpRange r = \<lparr>sdkCidrIp = CIDRIP r, sdkRangeDescription = rangeDescription r\<rparr>"

definition newIpv6Range :: "ipv6_range \<Rightarrow> sdk_ipv6_range" where
  "newIpv6Range r = \<lparr>sdkCidrIpv6 = CIDRIPv6 r, sdkRange6Description = range6Description r\<rparr>"

definition newPrefixListId :: "prefix_list_id \<Rightarrow> sdk_prefix_list_id" where
  "newPrefixListId p = \<lparr>sdkPLDescription = plDescription p, sdkPrefixListId = PrefixListID p\<rparr>"

definition newUserIdGroupPair :: "user_id_group_pair \<Rightarrow> sdk_user_id_group_pair" where
  "newUserIdGroupPair p =
     \<lparr>sdkPairDescription = pairDescription p, sdkGroupId = GroupID p, sdkGroupName = GroupName p,
      sdkPeeringStatus = PeeringStatus p, sdkUserId = UserID p, sdkVpcId = pairVPCID p,
      sdkVpcPeeringConnectionId = VPCPeeringConnectionID p\<rparr>"

definition newIPPermission :: "ip_permission \<Rightarrow> (error + sdk_ip_permission) act" where
  "newIPPermission c =
     (case narrowInt32 ''FromPort'' (FromPort c) of Inl e \<Rightarrow> ret (Inl e) | Inr from \<Rightarrow>
      bind (derefAll (IPRanges c)) (\<lambda>ranges.
      bind (derefAll (IPv6Ranges c)) (\<lambda>ranges6.
      bind (derefAll (PrefixListIDs c)) (\<lambda>lists.
      case narrowInt32 ''ToPort'' (ToPort c) of Inl e \<Rightarrow> ret (Inl e) | Inr to \<Rightarrow>
      bind (derefAll (UserIDGroupPairs c)) (\<lambda>pairs.
      ret (Inr \<lparr>sdkFromPort = from, sdkIpProtocol = IPProtocol c,
                sdkIpRanges = map_option (map newIpRange) ranges,
                sdkIpv6Ranges = map_option (map newIpv6Range) ranges6,
                sdkPrefixListIds = map_option (map newPrefixListId) lists,
                sdkToPort = to,
                sdkUserIdGroupPairs = map_option (map newUserIdGroupPair) pairs\<rparr>))))))"

definition setResourceSecurityGroupRule :: "sdk_security_group_rule \<Rightarrow> security_group_rule" where
  "setResourceSecurityGroupRule resp =
     \<lparr>sgrCIDRIPv4 = sdkSgrCidrIpv4 resp, sgrCIDRIPv6 = sdkSgrCidrIpv6 resp,
      sgrDescription = sdkSgrDescription resp,
      sgrFromPort = map_option toInt64 (sdkSgrFromPort resp),
      sgrIPProtocol = sdkSgrIpProtocol resp, sgrIsEgress = sdkSgrIsEgress resp,
      sgrPrefixListID = sdkSgrPrefixListId resp,
      sgrSecurityGroupRuleID = sdkSgrSecurityGroupRuleId resp,
      sgrTags = map_option resourceTags (sdkSgrTags resp),
      sgrToPort = map_option toInt64 (sdkSgrToPort resp)\<rparr>"

definition setResourceIPPermission :: "sdk_ip_permission \<Rightarrow> ip_permission" where
  "setResourceIPPermission resp =
     \<lparr>FromPort = map_option toInt64 (sdkFromPort resp),
      IPProtocol = sdkIpProtocol resp,
      IPRanges = map_option (map (\<lambda>r. Some
        \<lparr>CIDRIP = sdkCidrIp r, rangeDescription = sdkRangeDescription r\<rparr>)) (sdkIpRanges resp),
      IPv6Ranges = map_option (map (\<lambda>r. Some
        \<lparr>CIDRIPv6 = sdkCidrIpv6 r, range6Description = sdkRange6Description r\<rparr>)) (sdkIpv6Ranges resp),
      PrefixListIDs = map_option (map (\<lambda>p. Some
        \<lparr>PrefixListID = sdkPrefixListId p, plDescription = sdkPLDescription p\<rparr>)) (sdkPrefixListIds resp),
      ToPort = map_option toInt64 (sdkToPort resp),
      UserIDGroupPairs = map_option (map (\<lambda>p. Some
        \<lparr>pairDescription = sdkPairDescription p, GroupID = sdkGroupId p, GroupName = sdkGroupName p,
         GroupRef = None, PeeringStatus = sdkPeeringStatus p, UserID = sdkUserId p,
         pairVPCID = sdkVpcId p, VPCPeeringConnectionID = sdkVpcPeeringConnectionId p,
         pairVPCRef = None\<rparr>)) (sdkUserIdGroupPairs resp)\<rparr>"

definition addRulesToSpec :: "security_group \<Rightarrow> sdk_security_group \<Rightarrow> security_group" where
  "addRulesToSpec k resp =
     k\<lparr>Spec := (Spec k)\<lparr>
        IngressRules := map_option (map (\<lambda>p. Some (setResourceIPPermission p))) (sdkSgIpPermissions resp),
        EgressRules := map_option (map (\<lambda>p. Some (setResourceIPPermission p))) (sdkSgIpPermissionsEgress resp)\<rparr>\<rparr>"

subsection \<open>Comparing rules\<close>

text \<open>\<open>Semantic.DeepEqual\<close> on the grants of a rule, a parameter for each of their types.\<close>

record grant_equality =
  eqRanges :: "ip_range option list \<Rightarrow> ip_range option list \<Rightarrow> bool"
  eqRanges6 :: "ipv6_range option list \<Rightarrow> ipv6_range option list \<Rightarrow> bool"
  eqPrefixLists :: "prefix_list_id option list \<Rightarrow> prefix_list_id option list \<Rightarrow> bool"
  eqPairs :: "user_id_group_pair option list \<Rightarrow> user_id_group_pair option list \<Rightarrow> bool"

definition compareIPPermission ::
  "(iface \<Rightarrow> iface \<Rightarrow> bool) \<Rightarrow> grant_equality \<Rightarrow> ip_permission \<Rightarrow> ip_permission \<Rightarrow> delta" where
  "compareIPPermission hnd eq a b =
    (let d1 = comparePtr hnd IInt ''IPPermission.FromPort'' (FromPort a) (FromPort b) [];
         d2 = comparePtr hnd IStr ''IPPermission.IPProtocol'' (IPProtocol a) (IPProtocol b) d1;
         d3 = compareList (eqRanges eq) ''IPPermission.IPRanges'' (IPRanges a) (IPRanges b) d2;
         d4 = compareList (eqRanges6 eq) ''IPPermission.IPv6Ranges'' (IPv6Ranges a) (IPv6Ranges b) d3;
         d5 = compareList (eqPrefixLists eq) ''IPPermission.PrefixListIDs'' (PrefixListIDs a) (PrefixListIDs b) d4;
         d6 = comparePtr hnd IInt ''IPPermission.ToPort'' (ToPort a) (ToPort b) d5
     in compareList (eqPairs eq) ''IPPermission.UserIDGroupPairs'' (UserIDGroupPairs a) (UserIDGroupPairs b) d6)"

fun containsLoop :: "(ip_permission \<Rightarrow> ip_permission \<Rightarrow> delta) \<Rightarrow> ip_permission option list \<Rightarrow> ip_permission \<Rightarrow> bool act" where
  "containsLoop cmp [] rule = ret False"
| "containsLoop cmp (r # rs) rule =
     bind (deref r) (\<lambda>x. if length (cmp x rule) = 0 then ret True else containsLoop cmp rs rule)"

definition containsRule ::
  "(ip_permission \<Rightarrow> ip_permission \<Rightarrow> delta) \<Rightarrow> rules \<Rightarrow> ip_permission option \<Rightarrow> bool act" where
  "containsRule cmp ruleCollection rule =
     (case (ruleCollection, rule) of
        (Some rs, Some x) \<Rightarrow> containsLoop cmp rs x
      | _ \<Rightarrow> ret False)"

subsection \<open>Authorising and revoking rules\<close>

text \<open>A group pair without a group, or without a VPC, gets those of the security group \<open>r\<close>.\<close>

definition fillPair :: "security_group option \<Rightarrow> sdk_user_id_group_pair \<Rightarrow> sdk_user_id_group_pair act" where
  "fillPair r p =
     bind (if sdkGroupId p = None \<and> sdkGroupName p = None
           then bind (deref r) (\<lambda>k. ret (p\<lparr>sdkGroupId := ID (Status k)\<rparr>)) else ret p) (\<lambda>p.
     if sdkVpcId p = None then bind (deref r) (\<lambda>k. ret (p\<lparr>sdkVpcId := VPCID (Spec k)\<rparr>)) else ret p)"

definition fillPermission :: "security_group option \<Rightarrow> sdk_ip_permission \<Rightarrow> sdk_ip_permission act" where
  "fillPermission r p =
     (case sdkUserIdGroupPairs p of None \<Rightarrow> ret p
      | Some pairs \<Rightarrow> bind (mapAct (fillPair r) pairs) (\<lambda>ps. ret (p\<lparr>sdkUserIdGroupPairs := Some ps\<rparr>)))"

definition rulesInput :: "security_group option \<Rightarrow> ip_permission option list \<Rightarrow> (error + sdk_ip_permission list) act" where
  "rulesInput r rs =
     mapErr (\<lambda>i. bind (deref i) (\<lambda>x. bind (newIPPermission x) (\<lambda>p. case p of
        Inl e \<Rightarrow> ret (Inl e)
      | Inr ipInput \<Rightarrow> bind (fillPermission r ipInput) (\<lambda>q. ret (Inr q))))) rs"

text \<open>\<open>rules[i:end]\<close> for \<open>i = 0, 1000, 2000, ...\<close> below the length.\<close>

definition batches :: "'a list \<Rightarrow> 'a list list" where
  "batches xs = map (\<lambda>k. take 1000 (drop (1000 * k) xs)) [0..<(length xs + 999) div 1000]"

definition sendRules ::
  "(sg_rules_input \<Rightarrow> call) \<Rightarrow> (call log \<Rightarrow> sg_rules_input \<Rightarrow> error option) \<Rightarrow> string \<Rightarrow> string
   \<Rightarrow> security_group option \<Rightarrow> sdk_ip_permission list \<Rightarrow> error option act" where
  "sendRules c answer ty op r rs =
     forErr (\<lambda>b. bind (deref r) (\<lambda>k.
       callRecord c answer ty op \<lparr>inGroupId = ID (Status k), inIpPermissions = b\<rparr>)) (batches rs)"

definition createSecurityGroupRules ::
  "'x sg_api_scheme \<Rightarrow> security_group \<Rightarrow> ip_permission option list \<Rightarrow> ip_permission option list \<Rightarrow> error option act" where
  "createSecurityGroupRules api r ingress egress =
     bind (rulesInput (Some r) ingress) (\<lambda>i. case i of Inl e \<Rightarrow> ret (Some e) | Inr ingressRules \<Rightarrow>
     bind (sendRules AuthorizeSecurityGroupIngress (onAuthorizeIngress api) ''CREATE''
             ''AuthorizeSecurityGroupIngress'' (Some r) ingressRules) (\<lambda>err.
     ifErr err (\<lambda>e. ret (Some e))
    (bind (rulesInput (Some r) egress) (\<lambda>i. case i of Inl e \<Rightarrow> ret (Some e) | Inr egressRules \<Rightarrow>
     sendRules AuthorizeSecurityGroupEgress (onAuthorizeEgress api) ''CREATE''
             ''AuthorizeSecurityGroupEgress'' (Some r) egressRules))))"

definition deleteSecurityGroupRules ::
  "'x sg_api_scheme \<Rightarrow> security_group option \<Rightarrow> ip_permission option list \<Rightarrow> ip_permission option list
   \<Rightarrow> error option act" where
  "deleteSecurityGroupRules api r ingress egress =
     bind (rulesInput r ingress) (\<lambda>i. case i of Inl e \<Rightarrow> ret (Some e) | Inr ingressRules \<Rightarrow>
     bind (sendRules RevokeSecurityGroupIngress (onRevokeIngress api) ''DELETE''
             ''RevokeSecurityGroupIngress'' r ingressRules) (\<lambda>err.
     ifErr err (\<lambda>e. ret (Some e))
    (bind (rulesInput r egress) (\<lambda>i. case i of Inl e \<Rightarrow> ret (Some e) | Inr egressRules \<Rightarrow>
     sendRules RevokeSecurityGroupEgress (onRevokeEgress api) ''DELETE''
             ''RevokeSecurityGroupEgress'' r egressRules))))"

text \<open>
  \<open>err.(awserr.Error)\<close> looks for an error of the v1 SDK, without unwrapping. The bare
  \<open>return\<close> of the tolerated case returns the named result \<open>err\<close>, which is the error itself.
\<close>

definition deleteDefaultSecurityGroupRule :: "'x sg_api_scheme \<Rightarrow> security_group \<Rightarrow> error option act" where
  "deleteDefaultSecurityGroupRule api r =
     (let ipRange = \<lparr>sdkCidrIp = Some ''0.0.0.0/0'', sdkRangeDescription = None\<rparr>;
          input = \<lparr>sdkFromPort = Some (- 1), sdkIpProtocol = Some ''-1'', sdkIpRanges = Some [ipRange],
                   sdkIpv6Ranges = None, sdkPrefixListIds = None, sdkToPort = Some (- 1),
                   sdkUserIdGroupPairs = None\<rparr>
      in bind (callRecord RevokeSecurityGroupEgress (onRevokeEgress api) ''DELETE'' ''RevokeSecurityGroupEgress''
                 \<lparr>inGroupId = ID (Status r), inIpPermissions = [input]\<rparr>) (\<lambda>err.
         case err of
           Some (AwsErrV1 code msg) \<Rightarrow>
             if code = ''InvalidPermission.NotFound'' then ret err else ret err
         | _ \<Rightarrow> ret err))"

definition syncSGRules ::
  "'x sg_api_scheme \<Rightarrow> (ip_permission \<Rightarrow> ip_permission \<Rightarrow> delta) \<Rightarrow> security_group \<Rightarrow> security_group option
   \<Rightarrow> error option act" where
  "syncSGRules api cmp desired latest =
     (let missing = (\<lambda>f i. case latest of None \<Rightarrow> ret True
             | Some l \<Rightarrow> bind (containsRule cmp (f (Spec l)) i) (\<lambda>b. ret (\<not> b)));
          surplus = (\<lambda>f i. bind (containsRule cmp (f (Spec desired)) i) (\<lambda>b. ret (\<not> b)))
      in bind (filterAct (missing IngressRules) (elems (IngressRules (Spec desired)))) (\<lambda>toAddIngress.
         bind (filterAct (missing EgressRules) (elems (EgressRules (Spec desired)))) (\<lambda>toAddEgress.
         bind (case latest of None \<Rightarrow> ret []
               | Some l \<Rightarrow> filterAct (surplus IngressRules) (elems (IngressRules (Spec l)))) (\<lambda>toDeleteIngress.
         bind (case latest of None \<Rightarrow> ret []
               | Some l \<Rightarrow> filterAct (surplus EgressRules) (elems (EgressRules (Spec l)))) (\<lambda>toDeleteEgress.
         bind (deleteSecurityGroupRules api latest toDeleteIngress toDeleteEgress) (\<lambda>err.
         ifErr err (\<lambda>e. ret (Some e))
        (bind (createSecurityGroupRules api desired toAddIngress toAddEgress) (\<lambda>err.
         ifErr err (\<lambda>e. ret (Some e)) (ret None)))))))))"

subsection \<open>Reading\<close>

definition requiredFieldsMissingForSGRule :: "security_group \<Rightarrow> bool" where
  "requiredFieldsMissingForSGRule r \<longleftrightarrow> ID (Status r) = None"

definition requiredFieldsMissingFromReadManyInput :: "security_group \<Rightarrow> bool" where
  "requiredFieldsMissingFromReadManyInput r \<longleftrightarrow> ID (Status r) = None"

text \<open>
  The pages of \<open>DescribeSecurityGroupRules\<close>. The \<open>err\<close> of the loop shadows the function's
  result, so leaving the loop on a failed call returns what was read so far and no error.
\<close>

definition fetchRules :: "'x sg_api_scheme \<Rightarrow> describe_input \<Rightarrow> (error + sg_rules_output option) act" where
  "fetchRules api input =
     bind (invoke DescribeSecurityGroupRules (onDescribeSecurityGroupRules api) input) (\<lambda>r.
     bind (recordAPICall ''READ_MANY'' ''DescribeSecurityGroupRules'' (errOf r)) (\<lambda>_.
     ret r))"

definition lastPage :: "sg_rules_output \<Rightarrow> bool" where
  "lastPage resp \<longleftrightarrow> outRulesNextToken resp = None \<or> outRulesNextToken resp = Some []"

fun getRulesLoop ::
  "nat \<Rightarrow> 'x sg_api_scheme \<Rightarrow> describe_input \<Rightarrow> security_group_rule slice
   \<Rightarrow> (security_group_rule slice \<times> error option) act" where
  "getRulesLoop 0 api input rules = noFuel"
| "getRulesLoop (Suc n) api input rules =
     bind (fetchRules api input) (\<lambda>r. case r of
       Inl e \<Rightarrow> ret (rules, None)
     | Inr None \<Rightarrow> ret (rules, None)
     | Inr (Some resp) \<Rightarrow>
         (let rules' = appendAll rules (map setResourceSecurityGroupRule (outSecurityGroupRules resp)) in
          if lastPage resp then ret (rules', None)
          else getRulesLoop n api (input\<lparr>inNextToken := outRulesNextToken resp\<rparr>) rules'))"

definition getRules ::
  "nat \<Rightarrow> 'x sg_api_scheme \<Rightarrow> security_group \<Rightarrow> (security_group_rule slice \<times> error option) act" where
  "getRules n api res =
     bind (deref (ID (Status res))) (\<lambda>i.
     getRulesLoop n api
       \<lparr>inFilters = [\<lparr>filterName = ''group-id'', filterValues = [i]\<rparr>], inNextToken = None\<rparr> None)"

definition pairUnresolved :: "user_id_group_pair option \<Rightarrow> bool act" where
  "pairUnresolved p = bind (deref p) (\<lambda>g. ret (GroupRef g \<noteq> None \<and> GroupID g = None))"

fun anyAct :: "('a \<Rightarrow> bool act) \<Rightarrow> 'a list \<Rightarrow> bool act" where
  "anyAct p [] = ret False"
| "anyAct p (x # xs) = bind (p x) (\<lambda>b. if b then ret True else anyAct p xs)"

definition ruleUnresolved :: "ip_permission option \<Rightarrow> bool act" where
  "ruleUnresolved r = bind (deref r) (\<lambda>x. anyAct pairUnresolved (elems (UserIDGroupPairs x)))"

definition referencesResolved :: "security_group \<Rightarrow> bool act" where
  "referencesResolved r =
     bind (anyAct ruleUnresolved (elems (IngressRules (Spec r)))) (\<lambda>b.
     if b then ret False
     else bind (anyAct ruleUnresolved (elems (EgressRules (Spec r)))) (\<lambda>b. ret (\<not> b)))"

definition getSecurityGroupID :: "'x sg_api_scheme \<Rightarrow> security_group \<Rightarrow> (string option \<times> error option) act" where
  "getSecurityGroupID api r =
     (case (Name (Spec r), VPCID (Spec r)) of
        (Some name, Some vpc) \<Rightarrow>
          bind (invoke (\<lambda>(i, f). DescribeSecurityGroups i f) (onDescribeSecurityGroups api)
                 ([], [\<lparr>filterName = ''group-name'', filterValues = [name]\<rparr>,
                       \<lparr>filterName = ''vpc-id'', filterValues = [vpc]\<rparr>])) (\<lambda>resp.
          case resp of
            Inl e \<Rightarrow> ret (None, Some e)
          | Inr None \<Rightarrow> ret (None, None)
          | Inr (Some sgs) \<Rightarrow>
              if length sgs = 0 then ret (None, None) else ret (sdkSgGroupId (sgs ! 0), None))
      | _ \<Rightarrow> ret (None, None))"

definition newListRequestPayload :: "security_group \<Rightarrow> string list \<times> filter_input list" where
  "newListRequestPayload r = ((case ID (Status r) of None \<Rightarrow> [] | Some i \<Rightarrow> [i]), [])"

text \<open>What the code of \<open>sdkFind\<close> copies from the first group of the answer.\<close>

definition setFromGroup :: "security_group \<Rightarrow> sdk_security_group \<Rightarrow> security_group" where
  "setFromGroup k elem =
     (let md = (case ACKResourceMetadata (Status k) of
                  None \<Rightarrow> \<lparr>ARN = None, OwnerAccountID = None, Region = None, Partition = None\<rparr> | Some m \<Rightarrow> m)
      in k\<lparr>Spec := (Spec k)\<lparr>Description := sdkSgDescription elem,
                             sgTags := map_option resourceTags (sdkSgTags elem),
                             VPCID := sdkSgVpcId elem\<rparr>,
           Status := (case sdkSgArn elem of
                        None \<Rightarrow> Status k
                      | Some arn \<Rightarrow> (Status k)\<lparr>ACKResourceMetadata := Some (md\<lparr>ARN := Some arn\<rparr>)\<rparr>)\<rparr>)"

text \<open>\<open>sdkFind\<close> returns its argument too, whose \<open>Status.ID\<close> it may set, and \<open>(latest, err)\<close>.\<close>

definition readGroup ::
  "nat \<Rightarrow> 'x sg_api_scheme \<Rightarrow> resource_manager \<Rightarrow> security_group \<Rightarrow> (security_group option \<times> error option) act" where
  "readGroup n api rm r =
     bind (invoke (\<lambda>(i, f). DescribeSecurityGroups i f) (onDescribeSecurityGroups api) (newListRequestPayload r)) (\<lambda>resp.
     bind (recordAPICall ''READ_MANY'' ''DescribeSecurityGroups'' (errOf resp)) (\<lambda>_.
     case resp of
       Inl e \<Rightarrow> ret (None, Some (if errorCode e = Some ''UNKNOWN'' then NotFound else e))
     | Inr out \<Rightarrow>
         bind (deref out) (\<lambda>sgs.
         case sgs of
           [] \<Rightarrow> ret (None, Some NotFound)
         | elem # _ \<Rightarrow>
             (let k1 = setFromGroup r elem;
                  k2 = k1\<lparr>Status := setStatusDefaults rm (Status k1)\<rparr>;
                  k3 = k2\<lparr>Spec := (Spec k2)\<lparr>Name := sdkSgGroupName elem\<rparr>\<rparr>;
                  k4 = addRulesToSpec k3 elem
              in bind (getRules n api k4) (\<lambda>(rules, err).
                 ifErr err (\<lambda>e. ret (None, Some e))
                   (ret (Some (k4\<lparr>Status := (Status k4)\<lparr>Rules := rules\<rparr>\<rparr>), None)))))))"

definition sdkFind ::
  "nat \<Rightarrow> 'x sg_api_scheme \<Rightarrow> resource_manager \<Rightarrow> security_group
   \<Rightarrow> (security_group \<times> security_group option \<times> error option) act" where
  "sdkFind n api rm r0 =
     bind (if requiredFieldsMissingFromReadManyInput r0
           then bind (getSecurityGroupID api r0) (\<lambda>(i, err).
                  ret (case err of Some e \<Rightarrow> Inl e
                       | None \<Rightarrow> Inr (if i \<noteq> None then r0\<lparr>Status := (Status r0)\<lparr>ID := i\<rparr>\<rparr> else r0)))
           else ret (Inr r0)) (\<lambda>x.
     case x of
       Inl e \<Rightarrow> ret (r0, None, Some e)
     | Inr r \<Rightarrow>
         if requiredFieldsMissingFromReadManyInput r then ret (r, None, Some NotFound)
         else bind (readGroup n api rm r) (\<lambda>(latest, err). ret (r, latest, err)))"

subsection \<open>Creating, updating, deleting\<close>

definition newCreateRequestPayload :: "security_group \<Rightarrow> create_sg_input" where
  "newCreateRequestPayload r =
     \<lparr>csgDescription = Description (Spec r), csgGroupName = Name (Spec r), csgVpcId = VPCID (Spec r),
      csgTagSpecifications = None\<rparr>"

definition updateTagSpecificationsInCreateRequest :: "security_group \<Rightarrow> create_sg_input \<Rightarrow> create_sg_input" where
  "updateTagSpecificationsInCreateRequest r input =
     (case sgTags (Spec r) of
        None \<Rightarrow> input\<lparr>csgTagSpecifications := None\<rparr>
      | Some ts \<Rightarrow> input\<lparr>csgTagSpecifications :=
          Some [\<lparr>tsResourceType = ''security-group'', tsTags = map requestedTag ts\<rparr>]\<rparr>)"

definition setFromCreated :: "security_group \<Rightarrow> create_sg_output \<Rightarrow> security_group" where
  "setFromCreated k resp =
     (let md = (case ACKResourceMetadata (Status k) of
                  None \<Rightarrow> \<lparr>ARN = None, OwnerAccountID = None, Region = None, Partition = None\<rparr> | Some m \<Rightarrow> m)
      in k\<lparr>Spec := (Spec k)\<lparr>sgTags := map_option resourceTags (outSgTags resp)\<rparr>,
           Status := (Status k)\<lparr>ID := outGroupId resp,
             ACKResourceMetadata := Some (if outSgArn resp \<noteq> None then md\<lparr>ARN := outSgArn resp\<rparr> else md)\<rparr>\<rparr>)"

text \<open>\<open>setSynced\<close> stands for \<open>ackcondition.SetSynced(r, ConditionFalse, nil, nil)\<close> on the conditions.\<close>

definition notSynced :: "(condition list \<Rightarrow> condition list) \<Rightarrow> security_group \<Rightarrow> security_group" where
  "notSynced setSynced k = k\<lparr>Status := (Status k)\<lparr>Conditions := setSynced (Conditions (Status k))\<rparr>\<rparr>"

text \<open>What follows once the new group has its identifier.\<close>

definition afterCreate ::
  "nat \<Rightarrow> 'x sg_api_scheme \<Rightarrow> (ip_permission \<Rightarrow> ip_permission \<Rightarrow> delta) \<Rightarrow> (condition list \<Rightarrow> condition list)
   \<Rightarrow> security_group \<Rightarrow> (security_group option \<times> error option) act" where
  "afterCreate n api cmp setSynced k =
     bind (deleteDefaultSecurityGroupRule api k) (\<lambda>err.
     ifErr err (\<lambda>e. ret (Some k, Some e))
    (bind (referencesResolved k) (\<lambda>resolved.
     if \<not> resolved then ret (Some (notSynced setSynced k), None)
     else bind (syncSGRules api cmp k None) (\<lambda>err.
       ifErr err (\<lambda>e. ret (Some k, Some e))
      (bind (getRules n api k) (\<lambda>(rules, err).
       ifErr err (\<lambda>e. ret (Some k, Some e))
        (ret (Some (k\<lparr>Status := (Status k)\<lparr>Rules := rules\<rparr>\<rparr>), None))))))))"

definition sdkCreate ::
  "nat \<Rightarrow> 'x sg_api_scheme \<Rightarrow> (ip_permission \<Rightarrow> ip_permission \<Rightarrow> delta) \<Rightarrow> (condition list \<Rightarrow> condition list)
   \<Rightarrow> resource_manager \<Rightarrow> security_group \<Rightarrow> (security_group option \<times> error option) act" where
  "sdkCreate n api cmp setSynced rm desired =
     (let input = updateTagSpecificationsInCreateRequest desired (newCreateRequestPayload desired) in
      bind (invoke CreateSecurityGroup (onCreateSecurityGroup api) input) (\<lambda>r.
      bind (recordAPICall ''CREATE'' ''CreateSecurityGroup'' (errOf r)) (\<lambda>_.
      case r of Inl e \<Rightarrow> ret (None, Some e) | Inr out \<Rightarrow>
      bind (deref out) (\<lambda>resp.
      let k1 = setFromCreated desired resp;
          k = k1\<lparr>Status := setStatusDefaults rm (Status k1)\<rparr> in
      if requiredFieldsMissingForSGRule k then ret (None, Some NotFound)
      else afterCreate n api cmp setSynced k))))"

definition customUpdateSecurityGroup ::
  "nat \<Rightarrow> 'x sg_api_scheme \<Rightarrow> (ip_permission \<Rightarrow> ip_permission \<Rightarrow> delta) \<Rightarrow> (condition list \<Rightarrow> condition list)
   \<Rightarrow> security_group \<Rightarrow> security_group \<Rightarrow> (string \<Rightarrow> bool) \<Rightarrow> (security_group option \<times> error option) act" where
  "customUpdateSecurityGroup n api cmp setSynced desired latest differentAt =
     (let tagsStep = (\<lambda>updated.
        if differentAt ''Spec.Tags''
        then bind (deref (ID (Status latest))) (\<lambda>i.
             bind (Sync api i (elems (sgTags (Spec desired))) (elems (sgTags (Spec latest)))) (\<lambda>err.
             ifErr err (\<lambda>e. ret (None, Some e)) (ret (Some updated, None))))
        else ret (Some updated, None))
      in if differentAt ''Spec.IngressRules'' \<or> differentAt ''Spec.EgressRules''
         then bind (referencesResolved desired) (\<lambda>resolved.
              if \<not> resolved then ret (Some (notSynced setSynced desired), None)
              else bind (syncSGRules api cmp desired (Some latest)) (\<lambda>err.
                ifErr err (\<lambda>e. ret (None, Some e))
               (bind (getRules n api desired) (\<lambda>(rules, err).
                ifErr err (\<lambda>e. ret (None, Some e))
                 (tagsStep (desired\<lparr>Status := (Status desired)\<lparr>Rules := rules\<rparr>\<rparr>))))))
         else tagsStep desired)"

definition newDeleteRequestPayload :: "security_group \<Rightarrow> string option" where
  "newDeleteRequestPayload r = ID (Status r)"

definition sdkDelete ::
  "'x sg_api_scheme \<Rightarrow> (ip_permission \<Rightarrow> ip_permission \<Rightarrow> delta) \<Rightarrow> security_group
   \<Rightarrow> (security_group option \<times> error option) act" where
  "sdkDelete api cmp r =
     (let sgCpy = r\<lparr>Spec := (Spec r)\<lparr>IngressRules := None, EgressRules := None\<rparr>\<rparr> in
      bind (syncSGRules api cmp sgCpy (Some r)) (\<lambda>err.
      ifErr err (\<lambda>e. ret (None, Some e))
     (bind (callRecord DeleteSecurityGroup (onDeleteSecurityGroup api) ''DELETE'' ''DeleteSecurityGroup''
              (newDeleteRequestPayload r)) (\<lambda>err. ret (None, err)))))"

subsection \<open>The kind\<close>

definition mirrorTags :: "(acktags \<Rightarrow> acktags) \<Rightarrow> security_group \<Rightarrow> security_group option \<Rightarrow> security_group" where
  "mirrorTags iter a b =
     (case b of None \<Rightarrow> a
      | Some l \<Rightarrow> a\<lparr>Spec := (Spec a)\<lparr>sgTags := mirrorAWSTags iter (sgTags (Spec a)) (sgTags (Spec l))\<rparr>\<rparr>)"

definition sgKind ::
  "nat \<Rightarrow> 'x sg_api_scheme \<Rightarrow> (ip_permission \<Rightarrow> ip_permission \<Rightarrow> delta) \<Rightarrow> (condition list \<Rightarrow> condition list)
   \<Rightarrow> resource_manager \<Rightarrow> error_texts \<Rightarrow> (delta \<Rightarrow> string \<Rightarrow> bool) \<Rightarrow> (acktags \<Rightarrow> acktags) \<Rightarrow> security_group kind" where
  "sgKind n api cmp setSynced rm env differentAt iter =
     \<lparr>findOp = sdkFind n api rm,
      createOp = sdkCreate n api cmp setSynced rm,
      updateOp = (\<lambda>desired latest d.
        bind (customUpdateSecurityGroup n api cmp setSynced desired latest (differentAt d)) (\<lambda>r. ret (latest, r))),
      deleteOp = sdkDelete api cmp,
      mirrorOp = mirrorTags iter,
      conditionsOp = (\<lambda>k. Conditions (Status k)),
      updateConditionsOp = conditionsUpdater env [] rm Status (\<lambda>st k. k\<lparr>Status := st\<rparr>)\<rparr>"

subsection \<open>Conversions on rules without nil elements\<close>

definition noNilGrants :: "ip_permission \<Rightarrow> bool" where
  "noNilGrants c \<longleftrightarrow> None \<notin> set (elems (IPRanges c)) \<and> None \<notin> set (elems (IPv6Ranges c))
     \<and> None \<notin> set (elems (PrefixListIDs c)) \<and> None \<notin> set (elems (UserIDGroupPairs c))"

definition fitsInt32 :: "int64 option \<Rightarrow> bool" where
  "fitsInt32 p = (case p of None \<Rightarrow> True | Some x \<Rightarrow> minInt32 \<le> sint x \<and> sint x \<le> maxInt32)"

lemma derefAll_ret: "None \<notin> set (elems s) \<Longrightarrow> derefAll s = ret (map_option (map the) s)"
proof (cases s)
  case (Some xs)
  assume "None \<notin> set (elems s)"
  then have "mapAct deref xs = (ret (map the xs) :: _ act)" unfolding Some
    by (intro mapAct_ret) (metis deref_simps(1) elems_simps(2) option.exhaust_sel)
  then show ?thesis unfolding Some derefAll_def by (simp add: fun_eq_iff)
qed (simp add: derefAll_def fun_eq_iff)

lemma narrowInt32_fits: "fitsInt32 p \<Longrightarrow> narrowInt32 f p = Inr (map_option toInt32 p)"
  by (auto simp: fitsInt32_def narrowInt32_def split: option.splits)


definition permissionOf :: "ip_permission \<Rightarrow> sdk_ip_permission" where
  "permissionOf c =
     \<lparr>sdkFromPort = map_option toInt32 (FromPort c), sdkIpProtocol = IPProtocol c,
      sdkIpRanges = map_option (map (newIpRange \<circ> the)) (IPRanges c),
      sdkIpv6Ranges = map_option (map (newIpv6Range \<circ> the)) (IPv6Ranges c),
      sdkPrefixListIds = map_option (map (newPrefixListId \<circ> the)) (PrefixListIDs c),
      sdkToPort = map_option toInt32 (ToPort c),
      sdkUserIdGroupPairs = map_option (map (newUserIdGroupPair \<circ> the)) (UserIDGroupPairs c)\<rparr>"

lemma newIPPermission_ok:
  assumes "noNilGrants c" "fitsInt32 (FromPort c)" "fitsInt32 (ToPort c)"
  shows "newIPPermission c = ret (Inr (permissionOf c))"
  using assms
  by (simp add: newIPPermission_def narrowInt32_fits derefAll_ret noNilGrants_def permissionOf_def
      option.map_comp comp_def fun_eq_iff)


lemma grant_eta:
  "\<lparr>sdkCidrIp = sdkCidrIp r, sdkRangeDescription = sdkRangeDescription r\<rparr> = r"
  "\<lparr>sdkCidrIpv6 = sdkCidrIpv6 r6, sdkRange6Description = sdkRange6Description r6\<rparr> = r6"
  "\<lparr>sdkPLDescription = sdkPLDescription l, sdkPrefixListId = sdkPrefixListId l\<rparr> = l"
  "\<lparr>sdkPairDescription = sdkPairDescription p, sdkGroupId = sdkGroupId p, sdkGroupName = sdkGroupName p,
    sdkPeeringStatus = sdkPeeringStatus p, sdkUserId = sdkUserId p, sdkVpcId = sdkVpcId p,
    sdkVpcPeeringConnectionId = sdkVpcPeeringConnectionId p\<rparr> = p"
  by simp_all

lemma api_eta:
  "x \<noteq> None \<Longrightarrow> Some \<lparr>CIDRIP = CIDRIP (the x), rangeDescription = rangeDescription (the x)\<rparr> = x"
  "x6 \<noteq> None \<Longrightarrow> Some \<lparr>CIDRIPv6 = CIDRIPv6 (the x6), range6Description = range6Description (the x6)\<rparr> = x6"
  "l \<noteq> None \<Longrightarrow> Some \<lparr>PrefixListID = PrefixListID (the l), plDescription = plDescription (the l)\<rparr> = l"
  "p \<noteq> None \<Longrightarrow> GroupRef (the p) = None \<Longrightarrow> pairVPCRef (the p) = None \<Longrightarrow>
    Some \<lparr>pairDescription = pairDescription (the p), GroupID = GroupID (the p), GroupName = GroupName (the p),
      GroupRef = None, PeeringStatus = PeeringStatus (the p), UserID = UserID (the p),
      pairVPCID = pairVPCID (the p), VPCPeeringConnectionID = VPCPeeringConnectionID (the p),
      pairVPCRef = None\<rparr> = p"
  by (auto intro: user_id_group_pair.equality)

text \<open>
  Reading back a rule: the API form of any SDK rule converts back to that SDK rule, with
  no error, no panic and no effect; the two directions of the conversion lose nothing.
\<close>

theorem permission_roundtrip: "newIPPermission (setResourceIPPermission p) s = (Ret (Inr p), s)"
proof -
  have fits: "fitsInt32 (map_option toInt64 q)" for q :: "int32 option"
    using sint_int32_bounds by (auto simp: fitsInt32_def sint_toInt64 split: option.splits)
  have "noNilGrants (setResourceIPPermission p)"
    by (auto simp: noNilGrants_def setResourceIPPermission_def)
  moreover have "fitsInt32 (FromPort (setResourceIPPermission p))" "fitsInt32 (ToPort (setResourceIPPermission p))"
    by (simp_all add: setResourceIPPermission_def fits)
  moreover have "permissionOf (setResourceIPPermission p) = p"
    by (cases p) (simp add: permissionOf_def setResourceIPPermission_def option.map_comp comp_def
        newIpRange_def newIpv6Range_def newPrefixListId_def newUserIdGroupPair_def grant_eta option.map_ident)
  ultimately show ?thesis by (simp add: newIPPermission_ok)
qed

lemma mem_not_None: "None \<notin> set xs \<Longrightarrow> y \<in> set xs \<Longrightarrow> y \<noteq> None"
  by metis

text \<open>
  What a rule reads as once it was sent: a group pair names no references, and one without a group,
  or without a VPC, names those of the security group.
\<close>

definition pairAsSent :: "security_group \<Rightarrow> user_id_group_pair \<Rightarrow> user_id_group_pair" where
  "pairAsSent k g =
     g\<lparr>GroupID := (if GroupID g = None \<and> GroupName g = None then ID (Status k) else GroupID g),
       pairVPCID := (if pairVPCID g = None then VPCID (Spec k) else pairVPCID g),
       GroupRef := None, pairVPCRef := None\<rparr>"

definition asSent :: "security_group \<Rightarrow> ip_permission \<Rightarrow> ip_permission" where
  "asSent k c = c\<lparr>UserIDGroupPairs := map_option (map (map_option (pairAsSent k))) (UserIDGroupPairs c)\<rparr>"

lemma concat_slices: "concat (map (\<lambda>k. take n (drop (n * k) xs)) [0..<m]) = take (n * m) xs"
proof (induction m)
  case (Suc m)
  have "take (n * Suc m) xs = take (n * m) xs @ take n (drop (n * m) xs)"
    using take_add [of "n * m" n xs] by (simp add: add.commute)
  with Suc show ?case by simp
qed simp

text \<open>
  The batches of an update: together they are the rules, in order, each exactly once;
  none is empty and none has more than the 1000 rules that one call may carry.
\<close>

theorem batches_partition:
  "concat (batches xs) = xs \<and> list_all (\<lambda>b. b \<noteq> [] \<and> length b \<le> 1000) (batches xs)"
proof -
  have "length xs \<le> 1000 * ((length xs + 999) div 1000)" by linarith
  then have "concat (batches xs) = xs" by (simp add: batches_def concat_slices)
  moreover have "1000 * k < length xs" if "k < (length xs + 999) div 1000" for k
    using that by linarith
  ultimately show ?thesis by (auto simp: batches_def list_all_iff)
qed

lemma batches_Nil [simp]: "batches [] = []"
  by (simp add: batches_def)

subsection \<open>Which rules are sent\<close>

definition fillPairOf :: "security_group \<Rightarrow> sdk_user_id_group_pair \<Rightarrow> sdk_user_id_group_pair" where
  "fillPairOf k p =
     p\<lparr>sdkGroupId := (if sdkGroupId p = None \<and> sdkGroupName p = None then ID (Status k) else sdkGroupId p),
       sdkVpcId := (if sdkVpcId p = None then VPCID (Spec k) else sdkVpcId p)\<rparr>"

definition requestOf :: "security_group \<Rightarrow> ip_permission option \<Rightarrow> sdk_ip_permission" where
  "requestOf k i =
     (let p = permissionOf (the i)
      in p\<lparr>sdkUserIdGroupPairs := map_option (map (fillPairOf k)) (sdkUserIdGroupPairs p)\<rparr>)"

definition sendable :: "ip_permission option \<Rightarrow> bool" where
  "sendable i = (case i of None \<Rightarrow> False
     | Some c \<Rightarrow> noNilGrants c \<and> fitsInt32 (FromPort c) \<and> fitsInt32 (ToPort c))"

lemma sent_back:
  assumes "sendable i"
  shows "setResourceIPPermission (requestOf k i) = asSent k (the i)"
proof -
  obtain c where c: "i = Some c" "noNilGrants c" "fitsInt32 (FromPort c)" "fitsInt32 (ToPort c)"
    using assms by (auto simp: sendable_def split: option.splits)
  have ports: "map_option (\<lambda>x. toInt64 (toInt32 x)) q = q" if "fitsInt32 q" for q
    using that by (cases q) (simp_all add: fitsInt32_def toInt64_toInt32)
  have idm: "map_option (map f) x = x" if "\<And>y. y \<in> set (elems x) \<Longrightarrow> f y = y" for f and x :: "'z list option"
    using that by (cases x) (simp_all add: map_idI)
  have nn: "y \<in> set (elems (IPRanges c)) \<Longrightarrow> y \<noteq> None" "y6 \<in> set (elems (IPv6Ranges c)) \<Longrightarrow> y6 \<noteq> None"
    "l \<in> set (elems (PrefixListIDs c)) \<Longrightarrow> l \<noteq> None" for y y6 l
    using c(2) unfolding noNilGrants_def by metis+
  have pair: "Some \<lparr>pairDescription = sdkPairDescription p, GroupID = sdkGroupId p, GroupName = sdkGroupName p,
      GroupRef = None, PeeringStatus = sdkPeeringStatus p, UserID = sdkUserId p, pairVPCID = sdkVpcId p,
      VPCPeeringConnectionID = sdkVpcPeeringConnectionId p, pairVPCRef = None\<rparr> = map_option (pairAsSent k) y"
    if "y \<noteq> None" "p = fillPairOf k (newUserIdGroupPair (the y))" for y p
    using that by (auto simp: fillPairOf_def newUserIdGroupPair_def pairAsSent_def intro!: user_id_group_pair.equality)
  have pairs: "map_option (map (\<lambda>y. Some \<lparr>pairDescription = sdkPairDescription (f y), GroupID = sdkGroupId (f y), GroupName = sdkGroupName (f y),
      GroupRef = None, PeeringStatus = sdkPeeringStatus (f y), UserID = sdkUserId (f y), pairVPCID = sdkVpcId (f y),
      VPCPeeringConnectionID = sdkVpcPeeringConnectionId (f y), pairVPCRef = None\<rparr>)) (UserIDGroupPairs c)
    = map_option (map (map_option (pairAsSent k))) (UserIDGroupPairs c)" if "f = (\<lambda>y. fillPairOf k (newUserIdGroupPair (the y)))" for f
  proof (cases "UserIDGroupPairs c")
    case (Some ys)
    with c(2) have "y \<in> set ys \<Longrightarrow> y \<noteq> None" for y by (metis elems_simps(2) noNilGrants_def)
    with Some that show ?thesis by (simp add: pair)
  qed simp
  show ?thesis unfolding c(1)
  proof (rule ip_permission.equality)
    show "UserIDGroupPairs (setResourceIPPermission (requestOf k (Some c))) = UserIDGroupPairs (asSent k (the (Some c)))"
      by (simp add: setResourceIPPermission_def requestOf_def permissionOf_def asSent_def Let_def option.map_comp comp_def pairs)
  qed (simp_all add: setResourceIPPermission_def requestOf_def permissionOf_def asSent_def Let_def option.map_comp comp_def
      newIpRange_def newIpv6Range_def newPrefixListId_def idm nn api_eta ports c(3,4))
qed

lemma fillPair_ret: "fillPair (Some k) p = ret (fillPairOf k p)"
  by (simp add: fillPair_def fillPairOf_def fun_eq_iff)

lemma fillPermission_ret:
  "fillPermission (Some k) p = ret (p\<lparr>sdkUserIdGroupPairs := map_option (map (fillPairOf k)) (sdkUserIdGroupPairs p)\<rparr>)"
proof -
  have "mapAct (fillPair (Some k)) ps = ret (map (fillPairOf k) ps)" for ps
    by (intro mapAct_ret fillPair_ret)
  then show ?thesis by (cases p) (simp add: fillPermission_def fun_eq_iff split: option.split)
qed

lemma rulesInput_ret:
  assumes "list_all sendable rs"
  shows "rulesInput (Some k) rs = ret (Inr (map (requestOf k) rs))"
  unfolding rulesInput_def
proof (rule mapErr_ret)
  fix i assume "i \<in> set rs"
  with assms have "sendable i" by (auto simp: list_all_iff)
  then obtain c where "i = Some c" "noNilGrants c" "fitsInt32 (FromPort c)" "fitsInt32 (ToPort c)"
    by (auto simp: sendable_def split: option.splits)
  then show "bind (deref i) (\<lambda>x. bind (newIPPermission x) (\<lambda>p. case p of
        Inl e \<Rightarrow> ret (Inl e)
      | Inr ipInput \<Rightarrow> bind (fillPermission (Some k) ipInput) (\<lambda>q. ret (Inr q)))) = ret (Inr (requestOf k i))"
    by (simp add: newIPPermission_ok fillPermission_ret requestOf_def Let_def fun_eq_iff)
qed


definition rulesCalls :: "(sg_rules_input \<Rightarrow> call) \<Rightarrow> security_group \<Rightarrow> ip_permission option list \<Rightarrow> call list" where
  "rulesCalls c k rs = map (\<lambda>b. c \<lparr>inGroupId = ID (Status k), inIpPermissions = b\<rparr>) (batches (map (requestOf k) rs))"

lemma follows_sendRules: "follows (sendRules c answer ty op (Some k) (map (requestOf k) rs)) (rulesCalls c k rs)"
  unfolding follows_def
proof
  fix s
  let ?f = "\<lambda>b. bind (deref (Some k)) (\<lambda>k. callRecord c answer ty op \<lparr>inGroupId = ID (Status k), inIpPermissions = b\<rparr>)"
  have "\<And>b s. calls (snd (?f b s)) = calls s @ [c \<lparr>inGroupId = ID (Status k), inIpPermissions = b\<rparr>]"
    "\<And>b s. \<exists>e. fst (?f b s) = Ret e" by simp_all
  from forErr_calls_prefix [of ?f, OF this, of "batches (map (requestOf k) rs)" s]
  show "\<exists>ys e. fst (sendRules c answer ty op (Some k) (map (requestOf k) rs) s) = Ret e
    \<and> calls (snd (sendRules c answer ty op (Some k) (map (requestOf k) rs) s)) = calls s @ ys
    \<and> prefix ys (rulesCalls c k rs) \<and> (e = None \<longrightarrow> ys = rulesCalls c k rs)"
    unfolding sendRules_def rulesCalls_def by (blast intro: map_mono_prefix)
qed

lemma follows_createRules:
  assumes "list_all sendable ingress" "list_all sendable egress"
  shows "follows (createSecurityGroupRules api k ingress egress)
    (rulesCalls AuthorizeSecurityGroupIngress k ingress @ rulesCalls AuthorizeSecurityGroupEgress k egress)"
  using assms by (simp add: createSecurityGroupRules_def rulesInput_ret follows_seq follows_sendRules)


lemma follows_deleteRules:
  assumes "list_all sendable ingress" "list_all sendable egress"
  shows "follows (deleteSecurityGroupRules api (Some k) ingress egress)
    (rulesCalls RevokeSecurityGroupIngress k ingress @ rulesCalls RevokeSecurityGroupEgress k egress)"
  using assms by (simp add: deleteSecurityGroupRules_def rulesInput_ret follows_seq follows_sendRules)

subsection \<open>The difference of two rule lists\<close>

definition ruleIn :: "(ip_permission \<Rightarrow> ip_permission \<Rightarrow> delta) \<Rightarrow> ip_permission option list \<Rightarrow> ip_permission option \<Rightarrow> bool" where
  "ruleIn cmp rs x \<longleftrightarrow> (\<exists>r \<in> set rs. cmp (the r) (the x) = [])"

definition missingRules ::
  "(ip_permission \<Rightarrow> ip_permission \<Rightarrow> delta) \<Rightarrow> ip_permission option list \<Rightarrow> ip_permission option list \<Rightarrow> ip_permission option list" where
  "missingRules cmp from there = filter (\<lambda>x. \<not> ruleIn cmp there x) from"

lemma containsLoop_ret:
  "None \<notin> set rs \<Longrightarrow> containsLoop cmp rs x = ret (\<exists>r \<in> set rs. cmp (the r) x = [])"
proof (induction rs)
  case (Cons r rs)
  then obtain y where "r = Some y" by (cases r) auto
  with Cons show ?case by (auto simp: fun_eq_iff)
qed simp

lemma containsRule_ret:
  "None \<notin> set (elems coll) \<Longrightarrow> x \<noteq> None \<Longrightarrow> containsRule cmp coll x = ret (ruleIn cmp (elems coll) x)"
  by (cases coll; cases x) (auto simp: containsRule_def containsLoop_ret ruleIn_def fun_eq_iff)

definition wfRules :: "security_group \<Rightarrow> bool" where
  "wfRules k \<longleftrightarrow> list_all sendable (elems (IngressRules (Spec k))) \<and> list_all sendable (elems (EgressRules (Spec k)))"

lemma sendable_no_nil: "list_all sendable rs \<Longrightarrow> None \<notin> set rs"
  by (auto simp: list_all_iff sendable_def)

lemma sendable_missing: "list_all sendable rs \<Longrightarrow> list_all sendable (missingRules cmp rs rs')"
  by (auto simp: list_all_iff missingRules_def)

lemma filterAct_missing:
  assumes "list_all sendable (elems from)" "list_all sendable (elems there)"
  shows "filterAct (\<lambda>i. bind (containsRule cmp there i) (\<lambda>b. ret (\<not> b))) (elems from)
    = ret (missingRules cmp (elems from) (elems there))"
  unfolding missingRules_def
proof (rule filterAct_ret)
  fix x assume "x \<in> set (elems from)"
  then have "x \<noteq> None" using sendable_no_nil [OF assms(1)] by (metis)
  then show "bind (containsRule cmp there x) (\<lambda>b. ret (\<not> b)) = ret (\<not> ruleIn cmp (elems there) x)"
    by (simp add: containsRule_ret [OF sendable_no_nil [OF assms(2)]] fun_eq_iff)
qed

text \<open>The calls of a synchronisation: all revocations, then all authorisations.\<close>

definition revokePlan ::
  "(ip_permission \<Rightarrow> ip_permission \<Rightarrow> delta) \<Rightarrow> security_group \<Rightarrow> security_group option \<Rightarrow> call list" where
  "revokePlan cmp desired latest =
     (case latest of None \<Rightarrow> [] | Some l \<Rightarrow>
       rulesCalls RevokeSecurityGroupIngress l
         (missingRules cmp (elems (IngressRules (Spec l))) (elems (IngressRules (Spec desired)))) @
       rulesCalls RevokeSecurityGroupEgress l
         (missingRules cmp (elems (EgressRules (Spec l))) (elems (EgressRules (Spec desired)))))"

definition authorizePlan ::
  "(ip_permission \<Rightarrow> ip_permission \<Rightarrow> delta) \<Rightarrow> security_group \<Rightarrow> security_group option \<Rightarrow> call list" where
  "authorizePlan cmp desired latest =
     (let there = (\<lambda>f. case latest of None \<Rightarrow> [] | Some l \<Rightarrow> elems (f (Spec l))) in
      rulesCalls AuthorizeSecurityGroupIngress desired
        (missingRules cmp (elems (IngressRules (Spec desired))) (there IngressRules)) @
      rulesCalls AuthorizeSecurityGroupEgress desired
        (missingRules cmp (elems (EgressRules (Spec desired))) (there EgressRules)))"

lemma filterAct_True: "filterAct (\<lambda>i. ret True) xs = ret xs"
  by (induction xs) (simp_all add: fun_eq_iff)

lemma missingRules_none [simp]: "missingRules cmp xs [] = xs"
  by (simp add: missingRules_def ruleIn_def)

lemma syncSGRules_follows:
  assumes "wfRules desired" "case latest of None \<Rightarrow> True | Some l \<Rightarrow> wfRules l"
  shows "follows (syncSGRules api cmp desired latest) (revokePlan cmp desired latest @ authorizePlan cmp desired latest)"
proof (cases latest)
  case None
  let ?D = "createSecurityGroupRules api desired (elems (IngressRules (Spec desired))) (elems (EgressRules (Spec desired)))"
  have "syncSGRules api cmp desired latest =
      bind (deleteSecurityGroupRules api None [] []) (\<lambda>err. ifErr err (\<lambda>e. ret (Some e))
        (bind ?D (\<lambda>err. ifErr err (\<lambda>e. ret (Some e)) (ret None))))"
    by (simp add: syncSGRules_def None filterAct_True)
  moreover have "follows (deleteSecurityGroupRules api None [] []) []"
    by (simp add: deleteSecurityGroupRules_def rulesInput_def sendRules_def follows_def)
  moreover have "follows ?D (authorizePlan cmp desired None)"
    using assms(1) by (simp add: authorizePlan_def wfRules_def follows_createRules)
  ultimately show ?thesis
    using follows_seq [OF _ follows_done, of "deleteSecurityGroupRules api None [] []" "[]" ?D "authorizePlan cmp desired None"]
    by (simp add: None revokePlan_def)
next
  case (Some l)
  let ?m = "\<lambda>f. missingRules cmp (elems (f (Spec desired))) (elems (f (Spec l)))"
  let ?d = "\<lambda>f. missingRules cmp (elems (f (Spec l))) (elems (f (Spec desired)))"
  let ?D = "createSecurityGroupRules api desired (?m IngressRules) (?m EgressRules)"
  let ?E = "deleteSecurityGroupRules api (Some l) (?d IngressRules) (?d EgressRules)"
  have wf: "wfRules desired" "wfRules l" using assms Some by simp_all
  have "syncSGRules api cmp desired latest =
      bind ?E (\<lambda>err. ifErr err (\<lambda>e. ret (Some e))
        (bind ?D (\<lambda>err. ifErr err (\<lambda>e. ret (Some e)) (ret None))))"
    using wf by (simp add: syncSGRules_def Some wfRules_def filterAct_missing)
  moreover have "follows ?E (revokePlan cmp desired (Some l))"
    using wf by (simp add: revokePlan_def wfRules_def follows_deleteRules sendable_missing)
  moreover have "follows ?D (authorizePlan cmp desired (Some l))"
    using wf by (simp add: authorizePlan_def wfRules_def follows_createRules sendable_missing)
  ultimately show ?thesis
    using follows_seq [OF _ follows_done, of ?E "revokePlan cmp desired (Some l)" ?D "authorizePlan cmp desired (Some l)"]
    by (simp add: Some)
qed

text \<open>Exact comparisons: \<open>HasNilDifference\<close> tells nil from a value, \<open>DeepEqual\<close> is equality.\<close>

definition exactGrants :: grant_equality where
  "exactGrants = \<lparr>eqRanges = (=), eqRanges6 = (=), eqPrefixLists = (=), eqPairs = (=)\<rparr>"

abbreviation exactCompare :: "ip_permission \<Rightarrow> ip_permission \<Rightarrow> delta" where
  "exactCompare \<equiv> compareIPPermission nilDiff exactGrants"

lemma exactCompare_iff: "exactCompare a b = [] \<longleftrightarrow> noNil a = noNil b"
proof -
  have "exactCompare a b = [] \<longleftrightarrow> FromPort a = FromPort b \<and> IPProtocol a = IPProtocol b
      \<and> elems (IPRanges a) = elems (IPRanges b) \<and> elems (IPv6Ranges a) = elems (IPv6Ranges b)
      \<and> elems (PrefixListIDs a) = elems (PrefixListIDs b) \<and> ToPort a = ToPort b
      \<and> elems (UserIDGroupPairs a) = elems (UserIDGroupPairs b)"
    by (simp add: compareIPPermission_def Let_def exactGrants_def compareList_eq hnd_law_nilDiff)
  also have "\<dots> \<longleftrightarrow> noNil a = noNil b"
    by (cases a; cases b) (auto simp: noNil_def)
  finally show ?thesis .
qed

definition ruleDiff :: "ip_permission option list \<Rightarrow> ip_permission option list
    \<Rightarrow> ip_permission option list \<times> ip_permission option list" where
  "ruleDiff desired latest = (missingRules exactCompare desired latest, missingRules exactCompare latest desired)"

interpretation sg_rules: two_way_diff "\<lambda>r. noNil (the r)" ruleDiff
  by unfold_locales
     (simp_all only: ruleDiff_def missingRules_def ruleIn_def exactCompare_iff fst_conv snd_conv key_filter)

subsection \<open>Properties of the synchronisation\<close>

text \<open>The laws of the library comparisons: what \<open>HasNilDifference\<close> and \<open>DeepEqual\<close> decide on these types.\<close>

definition grant_equality_law :: "grant_equality \<Rightarrow> bool" where
  "grant_equality_law eq \<longleftrightarrow> (\<forall>x y. eqRanges eq x y \<longleftrightarrow> x = y) \<and> (\<forall>x y. eqRanges6 eq x y \<longleftrightarrow> x = y)
     \<and> (\<forall>x y. eqPrefixLists eq x y \<longleftrightarrow> x = y) \<and> (\<forall>x y. eqPairs eq x y \<longleftrightarrow> x = y)"

lemma law_exactGrants: "grant_equality_law eq \<longleftrightarrow> eq = exactGrants"
  by (cases eq) (auto simp: grant_equality_law_def exactGrants_def fun_eq_iff)

definition ruleSet :: "(sg_spec \<Rightarrow> rules) \<Rightarrow> security_group \<Rightarrow> ip_permission set" where
  "ruleSet f k = (\<lambda>r. noNil (the r)) ` set (elems (f (Spec k)))"

text \<open>
  C2. Ordering of a rule update. For rules without nil elements and with ports in range, on
  any answers of EC2, \<open>syncSGRules\<close> issues, in this order and in batches of at most 1000, the
  revocation of the ingress rules and then of the egress rules that are no longer desired,
  and the authorisation of the ingress and then of the egress rules that are missing. It
  stops at the first call that fails, with that call made, and returns no error only when it
  has made every call. A freshly created group (no latest) has nothing to revoke.
\<close>

theorem syncSGRules_plan:
  assumes "wfRules desired" "case latest of None \<Rightarrow> True | Some l \<Rightarrow> wfRules l"
  shows "\<exists>ys e. fst (syncSGRules api cmp desired latest s) = Ret e
    \<and> calls (snd (syncSGRules api cmp desired latest s)) = calls s @ ys
    \<and> prefix ys (revokePlan cmp desired latest @ authorizePlan cmp desired latest)
    \<and> (e = None \<longrightarrow> ys = revokePlan cmp desired latest @ authorizePlan cmp desired latest)"
  using syncSGRules_follows [OF assms, of api cmp] unfolding follows_def by blast

text \<open>
  The documented effect of a call on the ingress and egress rules of a group: an authorisation adds
  the rules it names, a revocation removes them.
\<close>

definition rulesAfter :: "call \<Rightarrow> ip_permission set \<times> ip_permission set \<Rightarrow> ip_permission set \<times> ip_permission set" where
  "rulesAfter c st =
     (let named = (\<lambda>i. (\<lambda>p. noNil (setResourceIPPermission p)) ` set (inIpPermissions i)) in
      case c of
        AuthorizeSecurityGroupIngress i \<Rightarrow> (fst st \<union> named i, snd st)
      | AuthorizeSecurityGroupEgress i \<Rightarrow> (fst st, snd st \<union> named i)
      | RevokeSecurityGroupIngress i \<Rightarrow> (fst st - named i, snd st)
      | RevokeSecurityGroupEgress i \<Rightarrow> (fst st, snd st - named i)
      | _ \<Rightarrow> st)"

definition sentRules :: "security_group \<Rightarrow> ip_permission set \<times> ip_permission set" where
  "sentRules k = (asSent k ` ruleSet IngressRules k, asSent k ` ruleSet EgressRules k)"

lemma noNil_asSent: "noNil (asSent k c) = asSent k (noNil c)"
  by (simp add: noNil_def asSent_def)

lemma named_rules:
  assumes "list_all sendable rs"
  shows "(\<lambda>p. noNil (setResourceIPPermission p)) ` set (map (requestOf k) rs) = asSent k ` (\<lambda>r. noNil (the r)) ` set rs"
  using assms by (force simp: list_all_iff sent_back noNil_asSent image_iff)

lemma rulesAfter_batches:
  fixes g bs
  defines "named \<equiv> (\<lambda>p. noNil (setResourceIPPermission p)) ` set (concat bs)"
    and "input \<equiv> \<lambda>b. \<lparr>inGroupId = g, inIpPermissions = b\<rparr>"
  shows "fold rulesAfter (map (\<lambda>b. AuthorizeSecurityGroupIngress (input b)) bs) (I, E) = (I \<union> named, E)"
    and "fold rulesAfter (map (\<lambda>b. AuthorizeSecurityGroupEgress (input b)) bs) (I, E) = (I, E \<union> named)"
    and "fold rulesAfter (map (\<lambda>b. RevokeSecurityGroupIngress (input b)) bs) (I, E) = (I - named, E)"
    and "fold rulesAfter (map (\<lambda>b. RevokeSecurityGroupEgress (input b)) bs) (I, E) = (I, E - named)"
  unfolding assms by (induction bs arbitrary: I E) (auto simp: rulesAfter_def image_Un Un_assoc Diff_eq Int_assoc)

lemma rulesAfter_calls:
  assumes "list_all sendable rs"
  shows "fold rulesAfter (rulesCalls AuthorizeSecurityGroupIngress k rs) (I, E) = (I \<union> asSent k ` (\<lambda>r. noNil (the r)) ` set rs, E)"
    and "fold rulesAfter (rulesCalls AuthorizeSecurityGroupEgress k rs) (I, E) = (I, E \<union> asSent k ` (\<lambda>r. noNil (the r)) ` set rs)"
    and "fold rulesAfter (rulesCalls RevokeSecurityGroupIngress k rs) (I, E) = (I - asSent k ` (\<lambda>r. noNil (the r)) ` set rs, E)"
    and "fold rulesAfter (rulesCalls RevokeSecurityGroupEgress k rs) (I, E) = (I, E - asSent k ` (\<lambda>r. noNil (the r)) ` set rs)"
  unfolding rulesCalls_def rulesAfter_batches using batches_partition [of "map (requestOf k) rs"] named_rules [OF assms, of k] by simp_all

lemma missing_keys:
  assumes "grant_equality_law eq"
  shows "(\<lambda>r. noNil (the r)) ` set (missingRules (compareIPPermission nilDiff eq) xs ys) = (\<lambda>r. noNil (the r)) ` set xs - (\<lambda>r. noNil (the r)) ` set ys"
  using sg_rules.key_toAdd [of xs ys] assms by (simp add: law_exactGrants ruleDiff_def)

lemma rulesCalls_empty: "rulesCalls c k rs = [] \<longleftrightarrow> rs = []"
proof -
  have "batches ys = [] \<longleftrightarrow> ys = []" for ys :: "sdk_ip_permission list"
    using batches_partition [of ys] by auto
  then show ?thesis by (simp add: rulesCalls_def)
qed

lemma plan_empty:
  assumes "grant_equality_law eq"
  defines "cmp \<equiv> compareIPPermission nilDiff eq"
  shows "revokePlan cmp desired (Some latest) @ authorizePlan cmp desired (Some latest) = []
    \<longleftrightarrow> ruleSet IngressRules desired = ruleSet IngressRules latest \<and> ruleSet EgressRules desired = ruleSet EgressRules latest"
proof -
  have "revokePlan cmp desired (Some latest) @ authorizePlan cmp desired (Some latest) = [] \<longleftrightarrow>
      ruleDiff (elems (IngressRules (Spec desired))) (elems (IngressRules (Spec latest))) = ([], []) \<and>
      ruleDiff (elems (EgressRules (Spec desired))) (elems (EgressRules (Spec latest))) = ([], [])"
    using assms(1) by (auto simp: revokePlan_def authorizePlan_def ruleDiff_def cmp_def law_exactGrants rulesCalls_empty)
  then show ?thesis by (simp only: sg_rules.idle_iff ruleSet_def)
qed

text \<open>Revoking first what is not desired and then authorising what is missing, up to what is sent.\<close>

lemma image_converges: "inj_on f L \<Longrightarrow> (f ` L - f ` (L - D)) \<union> f ` (D - L) = f ` D"
  by (auto simp: inj_on_def)

text \<open>
  C7. Convergence of a rule update. With the comparisons the libraries document, for groups whose
  rules have no nil elements and fit, when \<open>syncSGRules\<close> returns without an error, the calls it made
  have turned the rules of the latest group, as they were sent, into those of the desired group, in
  both directions, provided no two rules of the latest group were sent alike; and it made no call
  precisely when both sides had the same rules.
\<close>

theorem syncSGRules_converges:
  assumes "hnd = nilDiff" "grant_equality_law eq" "cmp = compareIPPermission hnd eq"
    and "wfRules desired" "wfRules latest" "ID (Status desired) = ID (Status latest)" "VPCID (Spec desired) = VPCID (Spec latest)"
    and "inj_on (asSent latest) (ruleSet IngressRules latest)" "inj_on (asSent latest) (ruleSet EgressRules latest)"
    and "syncSGRules api cmp desired (Some latest) s = (Ret None, t)"
  shows "\<exists>ys. calls t = calls s @ ys \<and> fold rulesAfter ys (sentRules latest) = sentRules desired
    \<and> (ys = [] \<longleftrightarrow> ruleSet IngressRules desired = ruleSet IngressRules latest \<and> ruleSet EgressRules desired = ruleSet EgressRules latest)"
proof -
  let ?ys = "revokePlan cmp desired (Some latest) @ authorizePlan cmp desired (Some latest)"
  have "follows (syncSGRules api cmp desired (Some latest)) ?ys"
    using assms(4,5) by (intro syncSGRules_follows) simp_all
  then have c: "calls t = calls s @ ?ys"
    using assms(10) unfolding follows_def by (metis fst_conv snd_conv outcome.inject(1))
  have "pairAsSent desired = pairAsSent latest" using assms(6,7) by (simp add: pairAsSent_def fun_eq_iff)
  then have same: "asSent desired = asSent latest" by (intro ext) (simp only: asSent_def)
  have w: "list_all sendable (missingRules cmp (elems (f (Spec k))) xs)"
    if "f \<in> {IngressRules, EgressRules}" "k \<in> {desired, latest}" for f k xs
    using that assms(4,5) by (auto simp: wfRules_def sendable_missing)
  note ws = w [of IngressRules desired, unfolded assms(1,3)] w [of EgressRules desired, unfolded assms(1,3)]
    w [of IngressRules latest, unfolded assms(1,3)] w [of EgressRules latest, unfolded assms(1,3)]
  have "fold rulesAfter ?ys (sentRules latest) = sentRules desired"
    using image_converges [OF assms(8), of "ruleSet IngressRules desired"] image_converges [OF assms(9), of "ruleSet EgressRules desired"]
    by (simp add: revokePlan_def authorizePlan_def sentRules_def rulesAfter_calls ws missing_keys [OF assms(2)] assms(1,3) same ruleSet_def)
  with c plan_empty [OF assms(2), of desired latest] show ?thesis
    by (intro exI [of _ ?ys]) (simp add: assms(1,3))
qed

text \<open>
  A default rule that is already gone is an error. \<open>deleteDefaultSecurityGroupRule\<close> issues
  one revocation of the all-traffic egress rule and returns whatever error that call had: the
  tolerated code \<open>InvalidPermission.NotFound\<close> is looked for only in errors of the v1 SDK, and
  even there the bare \<open>return\<close> returns it.
\<close>

theorem default_rule_error_returned:
  "fst (deleteDefaultSecurityGroupRule api r s) =
     Ret (onRevokeEgress api s \<lparr>inGroupId = ID (Status r), inIpPermissions =
       [\<lparr>sdkFromPort = Some (- 1), sdkIpProtocol = Some ''-1'',
         sdkIpRanges = Some [\<lparr>sdkCidrIp = Some ''0.0.0.0/0'', sdkRangeDescription = None\<rparr>],
         sdkIpv6Ranges = None, sdkPrefixListIds = None, sdkToPort = Some (- 1), sdkUserIdGroupPairs = None\<rparr>]\<rparr>)
   \<and> length (calls (snd (deleteDefaultSecurityGroupRule api r s))) = Suc (length (calls s))"
  by (auto simp: deleteDefaultSecurityGroupRule_def split: option.split error.split)

lemma deleteDefault_run:
  "\<exists>e t. deleteDefaultSecurityGroupRule api r s = (Ret e, t)"
  by (auto simp: deleteDefaultSecurityGroupRule_def split: option.split error.split)

subsection \<open>Reading the rules of a group\<close>

interpretation rule_pages: returning_pager "fetchRules api" lastPage "\<lambda>p i. i\<lparr>inNextToken := outRulesNextToken p\<rparr>"
  "\<lambda>p rules. appendAll rules (map setResourceSecurityGroupRule (outSecurityGroupRules p))" "\<lambda>rules. (rules, None)"
  "\<lambda>n. getRulesLoop n api" for api :: "'x sg_api_scheme"
  by unfold_locales (simp_all add: fetchRules_def Let_def)

definition rulesRequest :: "string \<Rightarrow> describe_input" where
  "rulesRequest i = \<lparr>inFilters = [\<lparr>filterName = ''group-id'', filterValues = [i]\<rparr>], inNextToken = None\<rparr>"

definition rulesServed :: "'x sg_api_scheme \<Rightarrow> string \<Rightarrow> call log \<Rightarrow> sg_rules_output list \<Rightarrow> call log \<Rightarrow> bool" where
  "rulesServed api i s ps t \<longleftrightarrow>
     paged (fetchRules api) lastPage (\<lambda>p i. i\<lparr>inNextToken := outRulesNextToken p\<rparr>) (rulesRequest i) s ps t"

lemma fold_appendAll:
  "elems (fold (\<lambda>p rules. appendAll rules (map g (f p))) ps a) = elems a @ concat (map (\<lambda>p. map g (f p)) ps)"
  by (induction ps arbitrary: a) simp_all

text \<open>
  C15. Reading the rules of a group. When the service serves the pages \<open>ps\<close> (until one without
  a next token, a nil answer or a failed call) and the fuel exceeds their number, \<open>getRules\<close>
  returns the rules of all of them, in order, and never an error: a call that fails ends the
  loop with the rules read so far and a nil error.
\<close>

theorem getRules_pages:
  assumes "ID (Status res) = Some i" "rulesServed api i s ps t" "length ps < n"
  shows "\<exists>rules. getRules n api res s = (Ret (rules, None), t)
    \<and> elems rules = concat (map (\<lambda>p. map setResourceSecurityGroupRule (outSecurityGroupRules p)) ps)"
  using rule_pages.reads_all [OF assms(2) [unfolded rulesServed_def] assms(3)] assms(1)
  by (simp add: getRules_def rulesRequest_def fold_appendAll)

lemma getRules_shape:
  "fst (getRules n api res s) = Ret (rules, err) \<Longrightarrow> err = None"
proof -
  assume r: "fst (getRules n api res s) = Ret (rules, err)"
  then obtain i where i: "ID (Status res) = Some i" by (cases "ID (Status res)") (simp_all add: getRules_def)
  with r obtain t where "getRulesLoop n api (rulesRequest i) None s = (Ret (rules, err), t)"
    by (auto simp: getRules_def rulesRequest_def) (metis prod.collapse)
  from rule_pages.reads_only [OF this] show ?thesis by auto
qed

subsection \<open>Creating and deleting a group\<close>

lemma afterCreate_id:
  "fst (afterCreate n api cmp setSynced k t) = Ret r \<Longrightarrow> \<exists>k' err. r = (Some k', err) \<and> ID (Status k') = ID (Status k)"
  by (auto simp: afterCreate_def bind_Ret_iff ifErr_def notSynced_def split: option.splits if_splits)

text \<open>
  C13. A created group is never lost. When \<open>sdkCreate\<close> returns no resource, the only call it
  made is \<open>CreateSecurityGroup\<close>, and there is an error; otherwise the resource it returns,
  with or without an error, carries the identifier EC2 gave to the new group, so that a
  failure of a later step (the default rule, the rules of the spec) cannot create the group
  twice.
\<close>

theorem sdkCreate_keeps_id:
  "case fst (sdkCreate n api cmp setSynced rm desired s) of
     Ret (None, err) \<Rightarrow> err \<noteq> None \<and> length (calls (snd (sdkCreate n api cmp setSynced rm desired s))) = Suc (length (calls s))
   | Ret (Some k, err) \<Rightarrow>
       (\<exists>out. onCreateSecurityGroup api s (updateTagSpecificationsInCreateRequest desired (newCreateRequestPayload desired))
                = Inr (Some out) \<and> outGroupId out \<noteq> None \<and> ID (Status k) = outGroupId out)
   | _ \<Rightarrow> True"
proof -
  let ?i = "updateTagSpecificationsInCreateRequest desired (newCreateRequestPayload desired)"
  consider e where "onCreateSecurityGroup api s ?i = Inl e" | "onCreateSecurityGroup api s ?i = Inr None"
    | out where "onCreateSecurityGroup api s ?i = Inr (Some out)"
    by (metis option.exhaust sum.exhaust)
  then show ?thesis
  proof cases
    case (3 out)
    let ?k1 = "setFromCreated desired out"
    let ?k = "?k1\<lparr>Status := setStatusDefaults rm (Status ?k1)\<rparr>"
    have id: "ID (Status ?k) = outGroupId out"
      by (simp add: setFromCreated_def setStatusDefaults_def Let_def)
    note after = afterCreate_id [of n api cmp setSynced ?k]
    show ?thesis
    proof (cases "outGroupId out")
      case None
      with 3 id show ?thesis by (simp add: sdkCreate_def Let_def requiredFieldsMissingForSGRule_def)
    next
      case (Some i)
      let ?t = "s @ [Call (CreateSecurityGroup ?i), Metric ''CREATE'' ''CreateSecurityGroup'' None]"
      from 3 id Some have "sdkCreate n api cmp setSynced rm desired s = afterCreate n api cmp setSynced ?k ?t"
        by (simp add: sdkCreate_def Let_def requiredFieldsMissingForSGRule_def)
      with after [of ?t] 3 id Some show ?thesis by (auto split: outcome.split)
    qed
  qed (simp_all add: sdkCreate_def Let_def)
qed

lemma halts_quiet_bind: "quiet m \<Longrightarrow> (\<And>x. halts (f x)) \<Longrightarrow> halts (bind m f)"
  unfolding quiet_def halts_def bind_def by (auto split: prod.splits outcome.splits) (metis snd_conv)

lemma quiet_derefAll: "quiet (derefAll xs)"
  unfolding derefAll_def by (intro go_extends)

lemma quiet_rules:
  "quiet (newIPPermission c)" "quiet (fillPermission k p)" "quiet (containsRule cmp coll x)"
proof -
  show "quiet (newIPPermission c)" unfolding newIPPermission_def by (intro go_extends quiet_derefAll)
  show "quiet (fillPermission k p)" unfolding fillPermission_def fillPair_def by (intro go_extends)
  have "quiet (containsLoop cmp xs y)" for xs y by (induction xs) (simp_all only: containsLoop.simps go_extends)
  then show "quiet (containsRule cmp coll x)" unfolding containsRule_def by (cases x; cases coll) (simp_all only: option.case prod.case go_extends)
qed

lemma quiet_rulesInput: "quiet (rulesInput k rs)"
  unfolding rulesInput_def by (intro go_extends quiet_rules)

lemma halts_sendRules: "halts (sendRules c answer ty op r rs)"
  unfolding sendRules_def by (intro go_extends)

lemma halts_case_sum: "(\<And>x. halts (f x)) \<Longrightarrow> (\<And>y. halts (g y)) \<Longrightarrow> halts (case p of Inl x \<Rightarrow> f x | Inr y \<Rightarrow> g y)"
  by (cases p) simp_all

lemma halts_rules: "halts (createSecurityGroupRules api k is es)" "halts (deleteSecurityGroupRules api q is es)"
  unfolding createSecurityGroupRules_def deleteSecurityGroupRules_def
  by (intro halts_quiet_bind halts_case_sum halts_quiet halts_seq halts_sendRules quiet_rulesInput)+

lemma syncSGRules_halts: "halts (syncSGRules api cmp desired latest)"
proof -
  have q: "quiet (filterAct (\<lambda>i. bind (containsRule cmp coll i) (\<lambda>b. ret (\<not> b))) xs)" for coll xs
    by (intro go_extends quiet_rules)
  show ?thesis
    unfolding syncSGRules_def Let_def
    by (cases latest) (simp_all only: option.case, (intro halts_quiet_bind halts_seq halts_rules halts_quiet q go_extends)+)
qed

lemma rulesCalls_Nil [simp]: "rulesCalls c k [] = []" "missingRules cmp [] xs = []"
  by (simp_all add: rulesCalls_def missingRules_def)

text \<open>
  C14. Deleting a group. \<open>sdkDelete\<close> revokes every rule of the group, ingress first, and then calls
  \<open>DeleteSecurityGroup\<close>, as its last call. It makes no call after one that failed (\<open>stops\<close>), so the
  group is deleted only when each revocation succeeded; the error of a failed call is returned, and
  without an error every call was made.
\<close>

theorem sdkDelete_revokes_first:
  assumes "wfRules r"
  shows "\<exists>new e. sdkDelete api cmp r s = (Ret (None, e), s @ new) \<and> stops e new
    \<and> prefix (calls new) (rulesCalls RevokeSecurityGroupIngress r (elems (IngressRules (Spec r)))
        @ rulesCalls RevokeSecurityGroupEgress r (elems (EgressRules (Spec r)))
        @ [DeleteSecurityGroup (ID (Status r))])
    \<and> (e = None \<longrightarrow> calls new = rulesCalls RevokeSecurityGroupIngress r (elems (IngressRules (Spec r)))
        @ rulesCalls RevokeSecurityGroupEgress r (elems (EgressRules (Spec r)))
        @ [DeleteSecurityGroup (ID (Status r))])"
proof -
  let ?c = "r\<lparr>Spec := (Spec r)\<lparr>IngressRules := None, EgressRules := None\<rparr>\<rparr>"
  let ?p = "rulesCalls RevokeSecurityGroupIngress r (elems (IngressRules (Spec r)))
        @ rulesCalls RevokeSecurityGroupEgress r (elems (EgressRules (Spec r)))"
  let ?del = "callRecord DeleteSecurityGroup (onDeleteSecurityGroup api) ''DELETE'' ''DeleteSecurityGroup'' (ID (Status r))"
  let ?m = "bind (syncSGRules api cmp ?c (Some r)) (\<lambda>err. ifErr err (\<lambda>e. ret (Some e)) ?del)"
  have "wfRules ?c" by (simp add: wfRules_def)
  moreover have "revokePlan cmp ?c (Some r) @ authorizePlan cmp ?c (Some r) = ?p"
    by (simp add: revokePlan_def authorizePlan_def)
  ultimately have "follows (syncSGRules api cmp ?c (Some r)) ?p"
    using syncSGRules_follows [of ?c "Some r" api cmp] assms by simp
  then have "follows ?m (?p @ [DeleteSecurityGroup (ID (Status r))])"
    by (rule follows_seq [OF _ follows_callRecord])
  moreover have "halts ?m" by (intro halts_seq syncSGRules_halts halts_callRecord)
  ultimately obtain new e where y: "?m s = (Ret e, s @ new)" "stops e new" "prefix (calls new) (?p @ [DeleteSecurityGroup (ID (Status r))])"
    "e = None \<longrightarrow> calls new = ?p @ [DeleteSecurityGroup (ID (Status r))]"
    by (rule follows_haltsE)
  have d: "sdkDelete api cmp r = bind ?m (\<lambda>err. ret (None, err))"
    by (simp only: sdkDelete_def newDeleteRequestPayload_def Let_def bind_assoc bind_ifErr bind_simps)
  have "sdkDelete api cmp r s = (Ret (None, e), s @ new)"
    unfolding d by (subst bind_Ret [where m = ?m, OF y(1)]) simp
  with y(2-4) show ?thesis by (intro exI [of _ new] exI [of _ e]) simp
qed

subsection \<open>What the reconciler is told of a creation\<close>

lemma sg_reports:
  "AWSError_law env \<Longrightarrow> reporting_kind (sgKind n api cmp setSynced rm env differentAt iter) []"
  by (rule conditionsUpdater_reports [where get = Status and put = "\<lambda>st k. k\<lparr>Status := st\<rparr>"])
     (simp_all add: sgKind_def)

interpretation sg_kind: reporting_kind "sgKind n api cmp setSynced rm plainTexts differentAt iter" "[]"
  for n and api :: "'x sg_api_scheme" and cmp setSynced rm differentAt iter
  by (rule sg_reports [OF plainTexts_law])

lemma afterCreate_error:
  "fst (afterCreate n api cmp setSynced k t) = Ret (x, Some e) \<Longrightarrow> x = Some k"
  by (auto simp: afterCreate_def bind_Ret_iff ifErr_def split: option.splits if_splits)

lemma sdkCreate_error_conditions:
  assumes "sdkCreate n api cmp setSynced rm desired s = (Ret (Some k, Some e), t)"
  shows "Conditions (Status k) = Conditions (Status desired)"
proof -
  have "fst (sdkCreate n api cmp setSynced rm desired s) = Ret (Some k, Some e)" using assms by simp
  then show ?thesis
    by (auto simp: sdkCreate_def bind_Ret_iff Let_def setFromCreated_def
        split: sum.splits if_splits dest!: afterCreate_error)
qed

text \<open>
  C12. A failed creation is reported. When \<open>sdkCreate\<close> fails, \<open>Create\<close> returns a resource, never
  nil, whose terminal condition is True exactly when the error is terminal, together with the
  runtime's \<open>Terminal\<close> in that case and the error itself otherwise; it makes no further call.
\<close>

theorem Create_reports_error:
  assumes "AWSError_law env" "uniqueTypes (Conditions (Status r))"
    and "sdkCreate n api cmp setSynced rm r s = (Ret (x, Some e), t)"
  shows "\<exists>y. Create (sgKind n api cmp setSynced rm env differentAt iter) r s =
      (Ret (Some y, Some (if isTerminal [] (Some e) then Terminal else e)), t)
    \<and> (statusOf ConditionTypeTerminal (Conditions (Status y)) = Some ConditionTrue \<longleftrightarrow> isTerminal [] (Some e))"
proof -
  let ?K = "sgKind n api cmp setSynced rm env differentAt iter"
  note rk = sg_reports [OF assms(1), of n api cmp setSynced rm differentAt iter]
  have cond: "conditionsOp ?K k = Conditions (Status k)" for k by (simp add: sgKind_def)
  obtain z where z: "(if x \<noteq> None then x else Some r) = Some z" "uniqueTypes (conditionsOp ?K z)"
    using assms(2,3) sdkCreate_error_conditions [of n api cmp setSynced rm r s _ e t] cond by (cases x) auto
  from reporting_kind.onError_classifies [OF rk z(2), of e] obtain y where
    "onError ?K (Some z) e = Some (Some y, Some (if isTerminal [] (Some e) then Terminal else e))"
    "statusOf ConditionTypeTerminal (conditionsOp ?K y) = Some ConditionTrue \<longleftrightarrow> isTerminal [] (Some e)"
    by blast
  moreover have "createOp ?K = sdkCreate n api cmp setSynced rm" by (simp add: sgKind_def)
  ultimately show ?thesis using z(1) assms(3) cond
    by (intro exI [of _ y]) (auto simp: Create_def finishOp_def)
qed

subsection \<open>Witnesses\<close>

definition examplePage :: sg_rules_output where
  "examplePage = \<lparr>outSecurityGroupRules =
     [\<lparr>sdkSgrCidrIpv4 = Some ''10.0.0.0/8'', sdkSgrCidrIpv6 = None, sdkSgrDescription = None,
       sdkSgrFromPort = Some 53, sdkSgrIpProtocol = Some ''udp'', sdkSgrIsEgress = Some False,
       sdkSgrPrefixListId = None, sdkSgrSecurityGroupRuleId = Some ''sgr-1'', sdkSgrTags = None,
       sdkSgrToPort = Some 53, sdkSgrGroupId = Some ''sg-1'', sdkSgrReferencedGroupInfo = None\<rparr>], outRulesNextToken = None\<rparr>"

definition exampleSG :: sg_api where
  "exampleSG = \<lparr>onCreateTags = (\<lambda>_ _. None), onDeleteTags = (\<lambda>_ _. None),
     onAuthorizeIngress = (\<lambda>_ _. None), onAuthorizeEgress = (\<lambda>_ _. None),
     onRevokeIngress = (\<lambda>_ _. None), onRevokeEgress = (\<lambda>_ _. Some (APIError ''InvalidPermission.NotFound'' '''')),
     onDescribeSecurityGroupRules = (\<lambda>_ _. Inr (Some examplePage)),
     onDescribeSecurityGroups = (\<lambda>_ _. Inr None),
     onCreateSecurityGroup = (\<lambda>_ _. Inl (APIError ''InvalidGroup.Duplicate'' '''')),
     onDeleteSecurityGroup = (\<lambda>_ _. None)\<rparr>"


abbreviation exampleBefore :: security_group where
  "exampleBefore \<equiv> exampleGroup (Some [exampleRule ''tcp'' [''10.0.0.0/8'']]) None"

abbreviation exampleAfter :: security_group where
  "exampleAfter \<equiv> exampleGroup (Some [exampleRule ''udp'' [''10.0.0.0/8'']]) None"

lemma wfRules_examples: "wfRules exampleBefore" "wfRules exampleAfter"
  by code_simp+

lemma syncSGRules_plan_witness:
  "\<exists>ys e. fst (syncSGRules exampleSG exactCompare exampleAfter (Some exampleBefore) []) = Ret e
    \<and> calls (snd (syncSGRules exampleSG exactCompare exampleAfter (Some exampleBefore) [])) = calls [] @ ys
    \<and> prefix ys (revokePlan exactCompare exampleAfter (Some exampleBefore) @ authorizePlan exactCompare exampleAfter (Some exampleBefore))
    \<and> (e = None \<longrightarrow> ys = revokePlan exactCompare exampleAfter (Some exampleBefore) @ authorizePlan exactCompare exampleAfter (Some exampleBefore))"
  by (rule syncSGRules_plan) (simp_all add: wfRules_examples)

text \<open>A service that accepts every call.\<close>

definition willingSG :: sg_api where
  "willingSG = exampleSG\<lparr>onRevokeEgress := (\<lambda>_ _. None)\<rparr>"

lemma syncSGRules_converges_witness:
  "\<exists>ys t. syncSGRules willingSG exactCompare exampleAfter (Some exampleBefore) [] = (Ret None, t) \<and> calls t = ys
    \<and> fold rulesAfter ys (sentRules exampleBefore) = sentRules exampleAfter \<and> ys \<noteq> []"
proof -
  have "follows (syncSGRules willingSG exactCompare exampleAfter (Some exampleBefore))
      (revokePlan exactCompare exampleAfter (Some exampleBefore) @ authorizePlan exactCompare exampleAfter (Some exampleBefore))"
    by (intro syncSGRules_follows) (simp_all add: wfRules_examples)
  then obtain new e where r: "syncSGRules willingSG exactCompare exampleAfter (Some exampleBefore) [] = (Ret e, [] @ new)"
    by (rule follows_haltsE [OF _ syncSGRules_halts])
  have "fst (syncSGRules willingSG exactCompare exampleAfter (Some exampleBefore) []) = Ret None" by code_simp
  with r have e: "syncSGRules willingSG exactCompare exampleAfter (Some exampleBefore) [] = (Ret None, new)" by simp
  have "ruleSet IngressRules exampleAfter \<noteq> ruleSet IngressRules exampleBefore"
    by (simp add: ruleSet_def exampleGroup_def exampleRule_def noNil_def)
  moreover have "inj_on (asSent exampleBefore) (ruleSet IngressRules exampleBefore)" "inj_on (asSent exampleBefore) (ruleSet EgressRules exampleBefore)"
    by (simp_all add: ruleSet_def exampleGroup_def)
  moreover have "ID (Status exampleAfter) = ID (Status exampleBefore)" "VPCID (Spec exampleAfter) = VPCID (Spec exampleBefore)"
    by (simp_all add: exampleGroup_def)
  moreover have "grant_equality_law exactGrants" by (simp add: law_exactGrants)
  ultimately show ?thesis
    using syncSGRules_converges [OF refl _ refl wfRules_examples(2,1) _ _ _ _ e] e by auto
qed

lemma getRules_pages_witness:
  "\<exists>rules t. getRules 2 exampleSG exampleBefore [] = (Ret (rules, None), t)
    \<and> elems rules = map setResourceSecurityGroupRule (outSecurityGroupRules examplePage)"
proof -
  let ?t = "[Call (DescribeSecurityGroupRules (rulesRequest ''sg-1'')),
             Metric ''READ_MANY'' ''DescribeSecurityGroupRules'' None]"
  have "rulesServed exampleSG ''sg-1'' [] [examplePage] ?t"
    unfolding rulesServed_def
    by (rule paged.last) (simp_all add: fetchRules_def exampleSG_def lastPage_def examplePage_def)
  moreover have "ID (Status exampleBefore) = Some ''sg-1''" by (simp add: exampleGroup_def)
  ultimately show ?thesis
    using getRules_pages [of exampleBefore "''sg-1''" exampleSG "[]" "[examplePage]" ?t 2] by auto
qed

lemma sdkDelete_revokes_first_witness:
  "\<exists>new e. sdkDelete exampleSG exactCompare exampleBefore [] = (Ret (None, e), new) \<and> stops e new
    \<and> (e = None \<longrightarrow> last (calls new) = DeleteSecurityGroup (ID (Status exampleBefore)))"
proof -
  obtain new e where "sdkDelete exampleSG exactCompare exampleBefore [] = (Ret (None, e), [] @ new)" "stops e new"
    "e = None \<longrightarrow> calls new = rulesCalls RevokeSecurityGroupIngress exampleBefore (elems (IngressRules (Spec exampleBefore)))
        @ rulesCalls RevokeSecurityGroupEgress exampleBefore (elems (EgressRules (Spec exampleBefore)))
        @ [DeleteSecurityGroup (ID (Status exampleBefore))]"
    using sdkDelete_revokes_first [OF wfRules_examples(1), of exampleSG exactCompare "[]"] by blast
  then show ?thesis by (intro exI [of _ new] exI [of _ e]) (simp add: last_append)
qed

lemma Create_reports_error_witness:
  "\<exists>y t. Create (sgKind 1 exampleSG exactCompare id exampleManager plainTexts (\<lambda>d p. p \<in> set d) id) exampleBefore []
      = (Ret (Some y, Some (APIError ''InvalidGroup.Duplicate'' '''')), t)"
proof -
  let ?e = "APIError ''InvalidGroup.Duplicate'' ''''"
  let ?t = "snd (sdkCreate 1 exampleSG exactCompare id exampleManager exampleBefore [])"
  have "sdkCreate 1 exampleSG exactCompare id exampleManager exampleBefore [] = (Ret (None, Some ?e), ?t)"
    by (simp add: sdkCreate_def Let_def exampleSG_def)
  moreover have "uniqueTypes (Conditions (Status exampleBefore))" by (simp add: exampleGroup_def uniqueTypes_def)
  moreover have "\<not> isTerminal [] (Some ?e)" by code_simp
  ultimately show ?thesis
    using Create_reports_error [OF plainTexts_law, of exampleBefore 1 exampleSG exactCompare id exampleManager "[]" None ?e ?t
        "\<lambda>d p. p \<in> set d" id] by auto
qed

end
