(* ===== verification/Vpc.thy ===== *)
theory Vpc
  imports SecurityGroup
begin

text \<open>
  The VPC controller (\<open>pkg/resource/vpc/sdk.go\<close>, \<open>hooks.go\<close>, \<open>delta.go\<close>): reading a VPC with
  its DNS attributes and the rules of its default security group, creating it with its
  secondary CIDR blocks, updating and deleting it. Names that another kind uses too carry the
  suffix \<open>_VPC\<close>.
\<close>

subsection \<open>Data\<close>

record vpc_cidr_block_state =
  cbState :: "string option"
  cbStatusMessage :: "string option"

record vpc_cidr_block_association =
  AssociationID :: "string option"
  CIDRBlock :: "string option"
  CIDRBlockState :: "vpc_cidr_block_state option"

record vpc_ipv6_cidr_block_association =
  v6AssociationID :: "string option"
  v6CIDRBlock :: "string option"
  v6CIDRBlockState :: "vpc_cidr_block_state option"
  v6Pool :: "string option"
  v6NetworkBorderGroup :: "string option"

record vpc_spec =
  AmazonProvidedIPv6CIDRBlock :: "bool option"
  CIDRBlocks :: "string option list"
  DisallowSecurityGroupDefaultRules :: "bool option"
  EnableDNSHostnames :: "bool option"
  EnableDNSSupport :: "bool option"
  EnableNetworkAddressUsageMetrics :: "bool option"
  InstanceTenancy :: "string option"
  IPv4IPAMPoolID :: "string option"
  IPv4NetmaskLength :: "int64 option"
  IPv6CIDRBlock :: "string option"
  IPv6CIDRBlockNetworkBorderGroup :: "string option"
  IPv6IPAMPoolID :: "string option"
  IPv6NetmaskLength :: "int64 option"
  IPv6Pool :: "string option"
  vpcTags :: "tag list option"

record vpc_status = common_status +
  CIDRBlockAssociationSet :: "vpc_cidr_block_association slice"
  DHCPOptionsID :: "string option"
  IPv6CIDRBlockAssociationSet :: "vpc_ipv6_cidr_block_association slice"
  IsDefault :: "bool option"
  OwnerID :: "string option"
  SecurityGroupDefaultRulesExist :: "bool option"
  State :: "string option"
  statusVPCID :: "string option"

record vpc =
  vpcSpec :: vpc_spec
  vpcStatus :: vpc_status

record vpc_api = sg_api +
  onDescribeVpcs :: "call log \<Rightarrow> string list \<Rightarrow> error + sdk_vpc list option"
  onCreateVpc :: "call log \<Rightarrow> create_vpc_input \<Rightarrow> error + sdk_vpc option option"
  onDeleteVpc :: "call log \<Rightarrow> string option \<Rightarrow> error option"
  onDescribeVpcAttribute :: "call log \<Rightarrow> string \<times> string \<Rightarrow> error + describe_vpc_attribute_output option"
  onModifyVpcAttribute :: "call log \<Rightarrow> modify_vpc_attribute_input \<Rightarrow> error option"
  onAssociateVpcCidrBlock :: "call log \<Rightarrow> string option \<times> string option \<Rightarrow> error + sdk_cidr_association option option"
  onDisassociateVpcCidrBlock :: "call log \<Rightarrow> string option \<Rightarrow> error option"

subsection \<open>DNS attributes\<close>

record dns_attrs =
  EnableSupport :: "bool option"
  EnableHostnames :: "bool option"
  attrNetworkAddressUsageMetrics :: "bool option"

definition newDescribeVpcAttributePayload :: "string \<Rightarrow> string \<Rightarrow> string \<times> string" where
  "newDescribeVpcAttributePayload vpcID attribute = (vpcID, attribute)"

definition describeAttribute ::
  "'x vpc_api_scheme \<Rightarrow> string \<Rightarrow> string \<Rightarrow> (describe_vpc_attribute_output \<Rightarrow> attribute_boolean option)
   \<Rightarrow> (error + bool option) act" where
  "describeAttribute api vpcID attribute field =
     bind (invoke (\<lambda>(v, a). DescribeVpcAttribute v a) (onDescribeVpcAttribute api)
            (newDescribeVpcAttributePayload vpcID attribute)) (\<lambda>r.
     case r of Inl e \<Rightarrow> ret (Inl e) | Inr out \<Rightarrow>
     bind (deref out) (\<lambda>o'. bind (deref (field o')) (\<lambda>v. ret (Inr v))))"

definition getDNSAttributes :: "'x vpc_api_scheme \<Rightarrow> string \<Rightarrow> (error + dns_attrs) act" where
  "getDNSAttributes api vpcID =
     bind (describeAttribute api vpcID ''enableDnsSupport'' dvEnableDnsSupport) (\<lambda>r.
     case r of Inl e \<Rightarrow> ret (Inl e) | Inr support \<Rightarrow>
     bind (describeAttribute api vpcID ''enableDnsHostnames'' dvEnableDnsHostnames) (\<lambda>r.
     case r of Inl e \<Rightarrow> ret (Inl e) | Inr hostnames \<Rightarrow>
     bind (describeAttribute api vpcID ''enableNetworkAddressUsageMetrics'' dvEnableNetworkAddressUsageMetrics) (\<lambda>r.
     case r of Inl e \<Rightarrow> ret (Inl e) | Inr metrics \<Rightarrow>
     ret (Inr \<lparr>EnableSupport = support, EnableHostnames = hostnames,
               attrNetworkAddressUsageMetrics = metrics\<rparr>))))"

definition newModifyDNSSupportAttributeInputPayload :: "vpc \<Rightarrow> modify_vpc_attribute_input" where
  "newModifyDNSSupportAttributeInputPayload r =
     \<lparr>mvVpcId = statusVPCID (vpcStatus r),
      mvEnableDnsSupport = (if EnableDNSSupport (vpcSpec r) \<noteq> None then Some (EnableDNSSupport (vpcSpec r)) else None),
      mvEnableDnsHostnames = None, mvEnableNetworkAddressUsageMetrics = None\<rparr>"

definition newModifyDNSHostnamesAttributeInputPayload :: "vpc \<Rightarrow> modify_vpc_attribute_input" where
  "newModifyDNSHostnamesAttributeInputPayload r =
     \<lparr>mvVpcId = statusVPCID (vpcStatus r), mvEnableDnsSupport = None,
      mvEnableDnsHostnames = (if EnableDNSHostnames (vpcSpec r) \<noteq> None then Some (EnableDNSHostnames (vpcSpec r)) else None),
      mvEnableNetworkAddressUsageMetrics = None\<rparr>"

definition newModifyNetworkAddressUsageMetricsAttributeInputPayload :: "vpc \<Rightarrow> modify_vpc_attribute_input" where
  "newModifyNetworkAddressUsageMetricsAttributeInputPayload r =
     \<lparr>mvVpcId = statusVPCID (vpcStatus r), mvEnableDnsSupport = None, mvEnableDnsHostnames = None,
      mvEnableNetworkAddressUsageMetrics =
        (if EnableNetworkAddressUsageMetrics (vpcSpec r) \<noteq> None
         then Some (EnableNetworkAddressUsageMetrics (vpcSpec r)) else None)\<rparr>"

definition syncDNSSupportAttribute :: "'x vpc_api_scheme \<Rightarrow> vpc \<Rightarrow> error option act" where
  "syncDNSSupportAttribute api r =
     callRecord ModifyVpcAttribute (onModifyVpcAttribute api) ''UPDATE'' ''ModifyVpcAttribute''
       (newModifyDNSSupportAttributeInputPayload r)"

definition syncDNSHostnamesAttribute :: "'x vpc_api_scheme \<Rightarrow> vpc \<Rightarrow> error option act" where
  "syncDNSHostnamesAttribute api r =
     callRecord ModifyVpcAttribute (onModifyVpcAttribute api) ''UPDATE'' ''ModifyVpcAttribute''
       (newModifyDNSHostnamesAttributeInputPayload r)"

definition syncNetworkAddressUsageMetricsAttribute :: "'x vpc_api_scheme \<Rightarrow> vpc \<Rightarrow> error option act" where
  "syncNetworkAddressUsageMetricsAttribute api r =
     callRecord ModifyVpcAttribute (onModifyVpcAttribute api) ''UPDATE'' ''ModifyVpcAttribute''
       (newModifyNetworkAddressUsageMetricsAttributeInputPayload r)"

definition createAttributes :: "'x vpc_api_scheme \<Rightarrow> vpc \<Rightarrow> error option act" where
  "createAttributes api r =
     whenErr (EnableDNSHostnames (vpcSpec r) \<noteq> None) (syncDNSHostnamesAttribute api r)
    (whenErr (EnableDNSSupport (vpcSpec r) \<noteq> None) (syncDNSSupportAttribute api r)
    (whenErr (EnableNetworkAddressUsageMetrics (vpcSpec r) \<noteq> None) (syncNetworkAddressUsageMetricsAttribute api r)
    (ret None)))"

subsection \<open>CIDR blocks\<close>

text \<open>The values of two slices of pointers to strings; a nil element panics.\<close>

definition computeStringPDifference :: "string option list \<Rightarrow> string option list \<Rightarrow> (string list \<times> string list) act" where
  "computeStringPDifference a b =
     bind (mapAct deref b) (\<lambda>bs. bind (mapAct deref a) (\<lambda>as.
     ret (filter (\<lambda>x. x \<notin> set bs) as, filter (\<lambda>x. x \<notin> set as) bs)))"

text \<open>The inner loop over the associations, for one CIDR to delete.\<close>

fun disassociateLoop ::
  "'x vpc_api_scheme \<Rightarrow> string \<Rightarrow> vpc_cidr_block_association list \<Rightarrow> vpc_cidr_block_association list
   \<Rightarrow> (error option \<times> vpc_cidr_block_association list) act" where
  "disassociateLoop api cidr [] acc = ret (None, acc)"
| "disassociateLoop api cidr (a # as) acc =
     bind (deref (CIDRBlock a)) (\<lambda>b.
     if cidr = b
     then bind (callRecord DisassociateVpcCidrBlock (onDisassociateVpcCidrBlock api) ''UPDATE''
                  ''DisassociateVpcCidrBlock'' (AssociationID a)) (\<lambda>err.
          ifErr err (\<lambda>e. ret (Some e, acc)) (disassociateLoop api cidr as acc))
     else disassociateLoop api cidr as (acc @ [a]))"

fun deleteLoop ::
  "'x vpc_api_scheme \<Rightarrow> string list \<Rightarrow> vpc_cidr_block_association list \<Rightarrow> vpc_cidr_block_association list
   \<Rightarrow> (error option \<times> vpc_cidr_block_association list) act" where
  "deleteLoop api [] states acc = ret (None, acc)"
| "deleteLoop api (cidr # cidrs) states acc =
     bind (disassociateLoop api cidr states acc) (\<lambda>(err, acc').
     ifErr err (\<lambda>e. ret (Some e, acc')) (deleteLoop api cidrs states acc'))"

text \<open>The state of the new association is computed but never stored in it.\<close>

definition newAssociation :: "sdk_cidr_association \<Rightarrow> vpc_cidr_block_association" where
  "newAssociation a = \<lparr>AssociationID = sdkCaAssociationId a, CIDRBlock = sdkCaCidrBlock a, CIDRBlockState = None\<rparr>"

fun addLoop ::
  "'x vpc_api_scheme \<Rightarrow> string option \<Rightarrow> string list \<Rightarrow> vpc_cidr_block_association list
   \<Rightarrow> (error option \<times> vpc_cidr_block_association list) act" where
  "addLoop api vpcID [] acc = ret (None, acc)"
| "addLoop api vpcID (cidr # cidrs) acc =
     bind (invoke (\<lambda>(v, c). AssociateVpcCidrBlock v c) (onAssociateVpcCidrBlock api) (vpcID, Some cidr)) (\<lambda>r.
     bind (recordAPICall ''UPDATE'' ''AssociateVpcCidrBlock'' (errOf r)) (\<lambda>_.
     case r of Inl e \<Rightarrow> ret (Some e, acc) | Inr out \<Rightarrow>
     bind (deref out) (\<lambda>res.
     addLoop api vpcID cidrs (case res of None \<Rightarrow> acc | Some a \<Rightarrow> acc @ [newAssociation a]))))"

text \<open>\<open>syncCIDRBlocks\<close> changes \<open>latest\<close> in place: it is returned with the error.\<close>

definition syncCIDRBlocks :: "'x vpc_api_scheme \<Rightarrow> vpc \<Rightarrow> vpc \<Rightarrow> (vpc \<times> error option) act" where
  "syncCIDRBlocks api desired latest =
     bind (computeStringPDifference (CIDRBlocks (vpcSpec desired)) (CIDRBlocks (vpcSpec latest)))
       (\<lambda>(toAddCIDRs, toDeleteCIDRs).
     bind (deleteLoop api toDeleteCIDRs (elems (CIDRBlockAssociationSet (vpcStatus latest))) []) (\<lambda>(err, kept).
     ifErr err (\<lambda>e. ret (latest, Some e))
    (bind (addLoop api (statusVPCID (vpcStatus latest)) toAddCIDRs kept) (\<lambda>(err, cidrset).
     ifErr err (\<lambda>e. ret (latest, Some e))
    (ret (latest\<lparr>vpcStatus := (vpcStatus latest)\<lparr>CIDRBlockAssociationSet :=
            (if toDeleteCIDRs \<noteq> [] then Some cidrset
             else appendAll (CIDRBlockAssociationSet (vpcStatus latest)) cidrset)\<rparr>\<rparr>, None))))))"

definition setSpecCIDRs :: "vpc \<Rightarrow> vpc" where
  "setSpecCIDRs k = k\<lparr>vpcSpec := (vpcSpec k)\<lparr>CIDRBlocks := map CIDRBlock (elems (CIDRBlockAssociationSet (vpcStatus k)))\<rparr>\<rparr>"

definition isTransitional :: "vpc_cidr_block_association \<Rightarrow> bool" where
  "isTransitional a =
     (case CIDRBlockState a of None \<Rightarrow> False | Some st \<Rightarrow>
     (case cbState st of None \<Rightarrow> False | Some state \<Rightarrow> state = ''associating'' \<or> state = ''disassociating''))"

definition areCIDRBlocksSyncing :: "vpc \<Rightarrow> bool" where
  "areCIDRBlocksSyncing r =
     (case CIDRBlockAssociationSet (vpcStatus r) of None \<Rightarrow> False
      | Some cs \<Rightarrow> (\<exists>c \<in> set cs. isTransitional c))"

subsection \<open>The default security group\<close>

definition getDefaultSGId :: "'x vpc_api_scheme \<Rightarrow> vpc \<Rightarrow> (string option \<times> error option) act" where
  "getDefaultSGId api res =
     bind (deref (statusVPCID (vpcStatus res))) (\<lambda>v.
     bind (invoke (\<lambda>(i, f). DescribeSecurityGroups i f) (onDescribeSecurityGroups api)
            ([], [\<lparr>filterName = ''vpc-id'', filterValues = [v]\<rparr>,
                  \<lparr>filterName = ''group-name'', filterValues = [''default'']\<rparr>])) (\<lambda>r.
     bind (recordAPICall ''READ_MANY'' ''DescribeSecurityGroupRules'' (errOf r)) (\<lambda>_.
     case r of
       Inl e \<Rightarrow> ret (None, Some e)
     | Inr None \<Rightarrow> ret (None, None)
     | Inr (Some sgs) \<Rightarrow>
         if length sgs = 0 then ret (None, Some (GoError ''default security group not found''))
         else ret (sdkSgGroupId (sgs ! 0), None))))"

definition isDefaultSGIngressRule :: "sdk_security_group_rule \<Rightarrow> bool" where
  "isDefaultSGIngressRule rule =
     (case (sdkSgrFromPort rule, sdkSgrToPort rule, sdkSgrIpProtocol rule, sdkSgrIsEgress rule,
            sdkSgrReferencedGroupInfo rule, sdkSgrGroupId rule) of
        (Some from, Some to, Some proto, Some egress, Some (Some ref), Some grp) \<Rightarrow>
          ref = grp \<and> from = - 1 \<and> to = - 1 \<and> proto = ''-1'' \<and> \<not> egress
      | _ \<Rightarrow> False)"

definition isDefaultSGEgressRule :: "sdk_security_group_rule \<Rightarrow> bool" where
  "isDefaultSGEgressRule rule =
     (case (sdkSgrCidrIpv4 rule, sdkSgrFromPort rule, sdkSgrToPort rule, sdkSgrIpProtocol rule, sdkSgrIsEgress rule) of
        (Some cidr, Some from, Some to, Some proto, Some egress) \<Rightarrow>
          cidr = ''0.0.0.0/0'' \<and> from = - 1 \<and> to = - 1 \<and> proto = ''-1'' \<and> egress
      | _ \<Rightarrow> False)"

definition hasDefaultRule :: "sg_rules_output \<Rightarrow> bool" where
  "hasDefaultRule resp \<longleftrightarrow>
     (\<exists>r \<in> set (outSecurityGroupRules resp). isDefaultSGIngressRule r \<or> isDefaultSGEgressRule r)"

text \<open>As in \<open>getRules\<close>, the loop's \<open>err\<close> is its own: a failed page ends the search with no error.\<close>

fun defaultRulesLoop :: "nat \<Rightarrow> 'x sg_api_scheme \<Rightarrow> describe_input \<Rightarrow> (bool \<times> error option) act" where
  "defaultRulesLoop 0 api input = noFuel"
| "defaultRulesLoop (Suc n) api input =
     bind (fetchRules api input) (\<lambda>r. case r of
       Inl e \<Rightarrow> ret (False, None)
     | Inr None \<Rightarrow> ret (False, None)
     | Inr (Some resp) \<Rightarrow>
         if hasDefaultRule resp then ret (True, None)
         else if lastPage resp then ret (False, None)
         else defaultRulesLoop n api (input\<lparr>inNextToken := outRulesNextToken resp\<rparr>))"

definition hasSecurityGroupDefaultRules :: "nat \<Rightarrow> 'x vpc_api_scheme \<Rightarrow> vpc \<Rightarrow> (bool \<times> error option) act" where
  "hasSecurityGroupDefaultRules n api r =
     bind (getDefaultSGId api r) (\<lambda>(sgID, err).
     ifErr err (\<lambda>e. ret (False, Some e))
    (bind (deref sgID) (\<lambda>i. defaultRulesLoop n api (rulesRequest i))))"

text \<open>
  The revocation of a default rule: an error returns, also where its (v1) code is the
  tolerated one, since the bare \<open>return\<close> returns the named result.
\<close>

definition revokeDefault ::
  "(sg_rules_input \<Rightarrow> call) \<Rightarrow> (call log \<Rightarrow> sg_rules_input \<Rightarrow> error option) \<Rightarrow> string
   \<Rightarrow> sg_rules_input \<Rightarrow> error option act \<Rightarrow> error option act" where
  "revokeDefault c answer op req rest =
     bind (callRecord c answer ''DELETE'' op req) (\<lambda>err.
     case err of
       None \<Rightarrow> rest
     | Some (AwsErrV1 code msg) \<Rightarrow> if code = ''InvalidPermission.NotFound'' then ret err else ret err
     | Some e \<Rightarrow> ret err)"

definition defaultPermission :: sdk_ip_permission where
  "defaultPermission = \<lparr>sdkFromPort = Some (- 1), sdkIpProtocol = Some ''-1'', sdkIpRanges = None,
     sdkIpv6Ranges = None, sdkPrefixListIds = None, sdkToPort = Some (- 1), sdkUserIdGroupPairs = None\<rparr>"

definition deleteSecurityGroupDefaultRules :: "'x vpc_api_scheme \<Rightarrow> vpc \<Rightarrow> error option act" where
  "deleteSecurityGroupDefaultRules api r =
     bind (getDefaultSGId api r) (\<lambda>(sgID, err).
     ifErr err (\<lambda>e. ret (Some e))
    (revokeDefault RevokeSecurityGroupEgress (onRevokeEgress api) ''RevokeSecurityGroupEgress''
       \<lparr>inGroupId = sgID, inIpPermissions = [defaultPermission\<lparr>sdkIpRanges :=
          Some [\<lparr>sdkCidrIp = Some ''0.0.0.0/0'', sdkRangeDescription = None\<rparr>]\<rparr>]\<rparr>
    (revokeDefault RevokeSecurityGroupIngress (onRevokeIngress api) ''RevokeSecurityGroupIngress''
       \<lparr>inGroupId = sgID, inIpPermissions = [defaultPermission\<lparr>sdkUserIdGroupPairs :=
          Some [\<lparr>sdkPairDescription = None, sdkGroupId = sgID, sdkGroupName = None, sdkPeeringStatus = None,
                 sdkUserId = None, sdkVpcId = None, sdkVpcPeeringConnectionId = None\<rparr>]\<rparr>]\<rparr>
    (ret None))))"

subsection \<open>Reading\<close>

definition cidrBlockState :: "sdk_cidr_block_state \<Rightarrow> vpc_cidr_block_state" where
  "cidrBlockState s =
     \<lparr>cbState = (if sdkCbState s \<noteq> [] then Some (sdkCbState s) else None), cbStatusMessage = sdkCbStatusMessage s\<rparr>"

definition cidrAssociation :: "sdk_cidr_association \<Rightarrow> vpc_cidr_block_association" where
  "cidrAssociation a =
     \<lparr>AssociationID = sdkCaAssociationId a, CIDRBlock = sdkCaCidrBlock a,
      CIDRBlockState = map_option cidrBlockState (sdkCaCidrBlockState a)\<rparr>"

definition ipv6CidrAssociation :: "sdk_ipv6_cidr_association \<Rightarrow> vpc_ipv6_cidr_block_association" where
  "ipv6CidrAssociation a =
     \<lparr>v6AssociationID = sdkCa6AssociationId a, v6CIDRBlock = sdkCa6Ipv6CidrBlock a,
      v6CIDRBlockState = map_option cidrBlockState (sdkCa6Ipv6CidrBlockState a),
      v6Pool = sdkCa6Ipv6Pool a, v6NetworkBorderGroup = sdkCa6NetworkBorderGroup a\<rparr>"

text \<open>What \<open>sdkFind\<close> and \<open>sdkCreate\<close> copy from the VPC of an answer.\<close>

definition setFromVpc :: "vpc \<Rightarrow> sdk_vpc \<Rightarrow> vpc" where
  "setFromVpc k elem =
     k\<lparr>vpcSpec := (vpcSpec k)\<lparr>InstanceTenancy := enumPtr (sdkVpcInstanceTenancy elem),
                              vpcTags := map_option resourceTags (sdkVpcTags elem)\<rparr>,
       vpcStatus := (vpcStatus k)\<lparr>
         CIDRBlockAssociationSet := map_option (map cidrAssociation) (sdkVpcCidrBlockAssociationSet elem),
         DHCPOptionsID := sdkVpcDhcpOptionsId elem,
         IPv6CIDRBlockAssociationSet := map_option (map ipv6CidrAssociation) (sdkVpcIpv6CidrBlockAssociationSet elem),
         IsDefault := sdkVpcIsDefault elem, OwnerID := sdkVpcOwnerId elem,
         State := enumPtr (sdkVpcState elem), statusVPCID := sdkVpcVpcId elem\<rparr>\<rparr>"

definition defaults_VPC :: "resource_manager \<Rightarrow> vpc \<Rightarrow> vpc" where
  "defaults_VPC rm k = k\<lparr>vpcStatus := setStatusDefaults rm (vpcStatus k)\<rparr>"

definition requiredFieldsMissing_VPC :: "vpc \<Rightarrow> bool" where
  "requiredFieldsMissing_VPC r \<longleftrightarrow> statusVPCID (vpcStatus r) = None"

definition newListRequestPayload_VPC :: "vpc \<Rightarrow> string list" where
  "newListRequestPayload_VPC r = (case statusVPCID (vpcStatus r) of None \<Rightarrow> [] | Some i \<Rightarrow> [i])"

definition requeueWaitWhileCIDRBlocksSyncing :: error where
  "requeueWaitWhileCIDRBlocksSyncing =
     RequeueNeededAfter (Some (GoError ''VPC has CIDR blocks in transitional state, cannot be modified'')) 5"

text \<open>What follows once the answer was copied.\<close>

definition afterRead_VPC ::
  "nat \<Rightarrow> 'x vpc_api_scheme \<Rightarrow> vpc \<Rightarrow> (vpc option \<times> error option) act" where
  "afterRead_VPC n api k0 =
     (let k = setSpecCIDRs k0 in
      bind (deref (statusVPCID (vpcStatus k))) (\<lambda>i.
      bind (getDNSAttributes api i) (\<lambda>r. case r of Inl e \<Rightarrow> ret (None, Some e) | Inr dnsAttrs \<Rightarrow>
      let k' = k\<lparr>vpcSpec := (vpcSpec k)\<lparr>EnableDNSSupport := EnableSupport dnsAttrs,
                   EnableDNSHostnames := EnableHostnames dnsAttrs,
                   EnableNetworkAddressUsageMetrics := attrNetworkAddressUsageMetrics dnsAttrs\<rparr>\<rparr> in
      bind (hasSecurityGroupDefaultRules n api k') (\<lambda>(sgDefaultRulesExist, err).
      ifErr err (\<lambda>e. ret (None, Some e))
     (let k'' = k'\<lparr>vpcSpec := (vpcSpec k')\<lparr>DisallowSecurityGroupDefaultRules := Some (\<not> sgDefaultRulesExist)\<rparr>\<rparr> in
      if areCIDRBlocksSyncing k'' then ret (Some k'', Some requeueWaitWhileCIDRBlocksSyncing)
      else ret (Some k'', None))))))"

definition sdkFind_VPC ::
  "nat \<Rightarrow> 'x vpc_api_scheme \<Rightarrow> resource_manager \<Rightarrow> vpc \<Rightarrow> (vpc option \<times> error option) act" where
  "sdkFind_VPC n api rm r =
     (if requiredFieldsMissing_VPC r then ret (None, Some NotFound)
      else
        bind (invoke DescribeVpcs (onDescribeVpcs api) (newListRequestPayload_VPC r)) (\<lambda>resp.
        bind (recordAPICall ''READ_MANY'' ''DescribeVpcs'' (errOf resp)) (\<lambda>_.
        case resp of
          Inl e \<Rightarrow> ret (None, Some (if errorCode e = Some ''InvalidVpcID.NotFound'' then NotFound else e))
        | Inr out \<Rightarrow>
            bind (deref out) (\<lambda>vpcs.
            case vpcs of
              [] \<Rightarrow> ret (None, Some NotFound)
            | elem # _ \<Rightarrow> afterRead_VPC n api (defaults_VPC rm (setFromVpc r elem))))))"

subsection \<open>Creating\<close>

definition newCreateRequestPayload_VPC :: "vpc \<Rightarrow> error + create_vpc_input" where
  "newCreateRequestPayload_VPC r =
     (case narrowInt32 ''Ipv4NetmaskLength'' (IPv4NetmaskLength (vpcSpec r)) of Inl e \<Rightarrow> Inl e | Inr v4 \<Rightarrow>
     (case narrowInt32 ''Ipv6NetmaskLength'' (IPv6NetmaskLength (vpcSpec r)) of Inl e \<Rightarrow> Inl e | Inr v6 \<Rightarrow>
      Inr \<lparr>cvAmazonProvidedIpv6CidrBlock = AmazonProvidedIPv6CIDRBlock (vpcSpec r),
           cvCidrBlock = None,
           cvInstanceTenancy = (case InstanceTenancy (vpcSpec r) of None \<Rightarrow> [] | Some t \<Rightarrow> t),
           cvIpv4IpamPoolId = IPv4IPAMPoolID (vpcSpec r),
           cvIpv4NetmaskLength = v4,
           cvIpv6CidrBlock = IPv6CIDRBlock (vpcSpec r),
           cvIpv6CidrBlockNetworkBorderGroup = IPv6CIDRBlockNetworkBorderGroup (vpcSpec r),
           cvIpv6IpamPoolId = IPv6IPAMPoolID (vpcSpec r),
           cvIpv6NetmaskLength = v6,
           cvIpv6Pool = IPv6Pool (vpcSpec r),
           cvTagSpecifications = None\<rparr>))"

definition updateTagSpecifications_VPC :: "vpc \<Rightarrow> create_vpc_input \<Rightarrow> create_vpc_input" where
  "updateTagSpecifications_VPC r input =
     (case vpcTags (vpcSpec r) of
        None \<Rightarrow> input\<lparr>cvTagSpecifications := None\<rparr>
      | Some ts \<Rightarrow> input\<lparr>cvTagSpecifications := Some [\<lparr>tsResourceType = ''vpc'', tsTags = map requestedTag ts\<rparr>]\<rparr>)"

definition applyPrimaryCIDRBlockInCreateRequest :: "vpc \<Rightarrow> create_vpc_input \<Rightarrow> create_vpc_input" where
  "applyPrimaryCIDRBlockInCreateRequest r input =
     (if length (CIDRBlocks (vpcSpec r)) > 0 then input\<lparr>cvCidrBlock := CIDRBlocks (vpcSpec r) ! 0\<rparr> else input)"

text \<open>
  What follows once the VPC exists. The error of \<open>syncCIDRBlocks\<close> is dropped; \<open>setSynced\<close>
  stands for the runtime's \<open>SetSynced\<close> with status False and the given message.
\<close>

definition afterCreate_VPC ::
  "nat \<Rightarrow> 'x vpc_api_scheme \<Rightarrow> (string option \<Rightarrow> condition list \<Rightarrow> condition list) \<Rightarrow> vpc \<Rightarrow> vpc
   \<Rightarrow> (vpc option \<times> error option) act" where
  "afterCreate_VPC n api setSynced desired k0 =
     bind (syncCIDRBlocks api desired k0) (\<lambda>(k1, ignored).
     let k = setSpecCIDRs k1 in
     bind (createAttributes api k) (\<lambda>err.
     ifErr err (\<lambda>e. ret (None, Some e))
    (bind (hasSecurityGroupDefaultRules n api k) (\<lambda>(sgDefaultRulesExist, err).
     ifErr err (\<lambda>e. ret (None, Some e))
    (let k' = k\<lparr>vpcStatus := (vpcStatus k)\<lparr>SecurityGroupDefaultRulesExist := Some sgDefaultRulesExist\<rparr>\<rparr> in
     if sgDefaultRulesExist \<and> DisallowSecurityGroupDefaultRules (vpcSpec desired) = Some True
     then ret (Some (k'\<lparr>vpcStatus := (vpcStatus k')\<lparr>Conditions :=
                 setSynced (Some ''VPC created, requeue to delete default security group rules'')
                   (Conditions (vpcStatus k'))\<rparr>\<rparr>),
               Some (RequeueNeededAfter (Some (GoError ''VPC created but default security group rules need to be deleted'')) 1))
     else ret (Some k', None))))))"

definition sdkCreate_VPC ::
  "nat \<Rightarrow> 'x vpc_api_scheme \<Rightarrow> (string option \<Rightarrow> condition list \<Rightarrow> condition list) \<Rightarrow> resource_manager \<Rightarrow> vpc
   \<Rightarrow> (vpc option \<times> error option) act" where
  "sdkCreate_VPC n api setSynced rm desired =
     (case newCreateRequestPayload_VPC desired of Inl e \<Rightarrow> ret (None, Some e) | Inr input0 \<Rightarrow>
      let input = applyPrimaryCIDRBlockInCreateRequest desired (updateTagSpecifications_VPC desired input0) in
      bind (invoke CreateVpc (onCreateVpc api) input) (\<lambda>r.
      bind (recordAPICall ''CREATE'' ''CreateVpc'' (errOf r)) (\<lambda>_.
      case r of Inl e \<Rightarrow> ret (None, Some e) | Inr out \<Rightarrow>
      bind (deref out) (\<lambda>resp.
      bind (deref resp) (\<lambda>v.
      let k1 = defaults_VPC rm (setFromVpc desired v);
          k2 = (case sdkVpcCidrBlock v of None \<Rightarrow> k1
                | Some c \<Rightarrow> k1\<lparr>vpcSpec := (vpcSpec k1)\<lparr>CIDRBlocks := [Some c]\<rparr>\<rparr>)
      in afterCreate_VPC n api setSynced desired k2)))))"

subsection \<open>Updating and deleting\<close>

text \<open>The steps of an update after the CIDR blocks; each returns at its first error.\<close>

definition defaultRulesStep ::
  "'x vpc_api_scheme \<Rightarrow> (string \<Rightarrow> bool) \<Rightarrow> vpc \<Rightarrow> vpc \<Rightarrow> (vpc \<times> error option) act" where
  "defaultRulesStep api differentAt desired updated =
     (if differentAt ''Spec.DisallowSecurityGroupDefaultRules''
         \<and> DisallowSecurityGroupDefaultRules (vpcSpec desired) = Some True
      then bind (deleteSecurityGroupDefaultRules api desired) (\<lambda>err.
           ret (updated\<lparr>vpcStatus := (vpcStatus updated)\<lparr>SecurityGroupDefaultRulesExist := Some (err \<noteq> None)\<rparr>\<rparr>, err))
      else ret (updated, None))"

definition attributeSteps :: "'x vpc_api_scheme \<Rightarrow> (string \<Rightarrow> bool) \<Rightarrow> vpc \<Rightarrow> vpc \<Rightarrow> error option act" where
  "attributeSteps api differentAt desired latest =
     whenErr (differentAt ''Spec.EnableDNSSupport'') (syncDNSSupportAttribute api desired)
    (whenErr (differentAt ''Spec.EnableDNSHostnames'') (syncDNSHostnamesAttribute api desired)
    (whenErr (differentAt ''Spec.EnableNetworkAddressUsageMetrics'') (syncNetworkAddressUsageMetricsAttribute api desired)
    (whenErr (differentAt ''Spec.Tags'')
       (bind (deref (statusVPCID (vpcStatus latest))) (\<lambda>i.
        Sync api i (elems (vpcTags (vpcSpec desired))) (elems (vpcTags (vpcSpec latest)))))
    (ret None))))"

text \<open>The first result is \<open>latest\<close>, whose association set \<open>syncCIDRBlocks\<close> changes in place.\<close>

definition customUpdateVPC ::
  "'x vpc_api_scheme \<Rightarrow> vpc \<Rightarrow> vpc \<Rightarrow> (string \<Rightarrow> bool) \<Rightarrow> (vpc \<times> vpc option \<times> error option) act" where
  "customUpdateVPC api desired latest0 differentAt =
     bind (if differentAt ''Spec.CIDRBlocks'' then syncCIDRBlocks api desired latest0 else ret (latest0, None)) (\<lambda>(latest, err).
     ifErr err (\<lambda>e. ret (latest, None, Some e))
    (let updated = desired\<lparr>vpcStatus := (vpcStatus desired)\<lparr>
           CIDRBlockAssociationSet := CIDRBlockAssociationSet (vpcStatus latest),
           IPv6CIDRBlockAssociationSet := IPv6CIDRBlockAssociationSet (vpcStatus latest)\<rparr>\<rparr> in
     bind (defaultRulesStep api differentAt desired updated) (\<lambda>(updated, err).
     ifErr err (\<lambda>e. ret (latest, None, Some e))
    (bind (attributeSteps api differentAt desired latest) (\<lambda>err.
     ifErr err (\<lambda>e. ret (latest, None, Some e)) (ret (latest, Some updated, None)))))))"

definition newDeleteRequestPayload_VPC :: "vpc \<Rightarrow> string option" where
  "newDeleteRequestPayload_VPC r = statusVPCID (vpcStatus r)"

definition sdkDelete_VPC :: "'x vpc_api_scheme \<Rightarrow> vpc \<Rightarrow> (vpc option \<times> error option) act" where
  "sdkDelete_VPC api r =
     bind (callRecord DeleteVpc (onDeleteVpc api) ''DELETE'' ''DeleteVpc'' (newDeleteRequestPayload_VPC r)) (\<lambda>err.
     ret (None, err))"

subsection \<open>Comparing\<close>

text \<open>\<open>customPreCompare\<close> writes the documented defaults into the first resource.\<close>

definition customPreCompare_VPC :: "vpc \<Rightarrow> vpc" where
  "customPreCompare_VPC a =
     a\<lparr>vpcSpec := (vpcSpec a)\<lparr>
         EnableDNSHostnames := orDefault (EnableDNSHostnames (vpcSpec a)) False,
         EnableDNSSupport := orDefault (EnableDNSSupport (vpcSpec a)) True,
         DisallowSecurityGroupDefaultRules := orDefault (DisallowSecurityGroupDefaultRules (vpcSpec a)) False\<rparr>\<rparr>"

definition compareSpecs_VPC :: "('x) ackcompare_scheme \<Rightarrow> vpc_spec \<Rightarrow> vpc_spec \<Rightarrow> delta" where
  "compareSpecs_VPC C a b =
    (let d1 = cmpBool C ''Spec.AmazonProvidedIPv6CIDRBlock'' (AmazonProvidedIPv6CIDRBlock a) (AmazonProvidedIPv6CIDRBlock b) [];
         d2 = cmpStrs C ''Spec.CIDRBlocks'' (CIDRBlocks a) (CIDRBlocks b) d1;
         d3 = cmpBool C ''Spec.DisallowSecurityGroupDefaultRules'' (DisallowSecurityGroupDefaultRules a)
                (DisallowSecurityGroupDefaultRules b) d2;
         d4 = cmpBool C ''Spec.EnableDNSHostnames'' (EnableDNSHostnames a) (EnableDNSHostnames b) d3;
         d5 = cmpBool C ''Spec.EnableDNSSupport'' (EnableDNSSupport a) (EnableDNSSupport b) d4;
         d6 = cmpBool C ''Spec.EnableNetworkAddressUsageMetrics'' (EnableNetworkAddressUsageMetrics a)
                (EnableNetworkAddressUsageMetrics b) d5;
         d7 = cmpStr C ''Spec.InstanceTenancy'' (InstanceTenancy a) (InstanceTenancy b) d6;
         d8 = cmpStr C ''Spec.IPv4IPAMPoolID'' (IPv4IPAMPoolID a) (IPv4IPAMPoolID b) d7;
         d9 = cmpInt C ''Spec.IPv4NetmaskLength'' (IPv4NetmaskLength a) (IPv4NetmaskLength b) d8;
         d10 = cmpStr C ''Spec.IPv6CIDRBlock'' (IPv6CIDRBlock a) (IPv6CIDRBlock b) d9;
         d11 = cmpStr C ''Spec.IPv6CIDRBlockNetworkBorderGroup'' (IPv6CIDRBlockNetworkBorderGroup a)
                 (IPv6CIDRBlockNetworkBorderGroup b) d10;
         d12 = cmpStr C ''Spec.IPv6IPAMPoolID'' (IPv6IPAMPoolID a) (IPv6IPAMPoolID b) d11;
         d13 = cmpInt C ''Spec.IPv6NetmaskLength'' (IPv6NetmaskLength a) (IPv6NetmaskLength b) d12;
         d14 = cmpStr C ''Spec.IPv6Pool'' (IPv6Pool a) (IPv6Pool b) d13
     in compareTags C ''Spec.Tags'' (vpcTags a) (vpcTags b) d14)"

text \<open>The first result is the first resource, which the comparison changes in place.\<close>

definition newResourceDelta_VPC :: "('x) ackcompare_scheme \<Rightarrow> vpc option \<Rightarrow> vpc option \<Rightarrow> (vpc option \<times> delta) act" where
  "newResourceDelta_VPC C a b =
     bothResources a b
       (\<lambda>x y. let x' = customPreCompare_VPC x in (Some x', compareSpecs_VPC C (vpcSpec x') (vpcSpec y)))
       (\<lambda>d. (a, d))"

subsection \<open>The kind\<close>

definition mirrorTags_VPC :: "(acktags \<Rightarrow> acktags) \<Rightarrow> vpc \<Rightarrow> vpc option \<Rightarrow> vpc" where
  "mirrorTags_VPC iter a b =
     (case b of None \<Rightarrow> a
      | Some l \<Rightarrow> a\<lparr>vpcSpec := (vpcSpec a)\<lparr>vpcTags := mirrorAWSTags iter (vpcTags (vpcSpec a)) (vpcTags (vpcSpec l))\<rparr>\<rparr>)"

definition vpcKind ::
  "nat \<Rightarrow> 'x vpc_api_scheme \<Rightarrow> (string option \<Rightarrow> condition list \<Rightarrow> condition list)
   \<Rightarrow> resource_manager \<Rightarrow> error_texts \<Rightarrow> (delta \<Rightarrow> string \<Rightarrow> bool) \<Rightarrow> (acktags \<Rightarrow> acktags) \<Rightarrow> vpc kind" where
  "vpcKind n api setSynced rm env differentAt iter =
     \<lparr>findOp = (\<lambda>r. bind (sdkFind_VPC n api rm r) (\<lambda>x. ret (r, x))),
      createOp = sdkCreate_VPC n api setSynced rm,
      updateOp = (\<lambda>desired latest d. customUpdateVPC api desired latest (differentAt d)),
      deleteOp = sdkDelete_VPC api,
      mirrorOp = mirrorTags_VPC iter,
      conditionsOp = (\<lambda>k. Conditions (vpcStatus k)),
      updateConditionsOp = conditionsUpdater env [''InvalidParameterValue''] rm vpcStatus (\<lambda>st k. k\<lparr>vpcStatus := st\<rparr>)\<rparr>"

subsection \<open>Synchronising the CIDR blocks\<close>

definition cidrDiff :: "string list \<Rightarrow> string list \<Rightarrow> string list \<times> string list" where
  "cidrDiff desired latest =
     (filter (\<lambda>x. x \<notin> set latest) desired, filter (\<lambda>x. x \<notin> set desired) latest)"

interpretation cidr_diff: two_way_diff id cidrDiff
  by unfold_locales (auto simp: cidrDiff_def)

abbreviation cidrsOf :: "vpc \<Rightarrow> string list" where "cidrsOf k \<equiv> map the (CIDRBlocks (vpcSpec k))"
abbreviation associationsOf :: "vpc \<Rightarrow> vpc_cidr_block_association list" where
  "associationsOf k \<equiv> elems (CIDRBlockAssociationSet (vpcStatus k))"

definition wfCIDRs :: "vpc \<Rightarrow> bool" where
  "wfCIDRs k \<longleftrightarrow> None \<notin> set (CIDRBlocks (vpcSpec k)) \<and> None \<notin> CIDRBlock ` set (associationsOf k)"

lemma mapAct_deref: "None \<notin> set xs \<Longrightarrow> mapAct deref xs = ret (map the xs)"
  by (rule mapAct_ret) (metis deref_simps(1) option.exhaust_sel)

lemma computeStringPDifference_ret:
  "None \<notin> set a \<Longrightarrow> None \<notin> set b \<Longrightarrow> computeStringPDifference a b = ret (cidrDiff (map the a) (map the b))"
  by (simp add: computeStringPDifference_def cidrDiff_def mapAct_deref fun_eq_iff)

abbreviation without :: "string \<Rightarrow> vpc_cidr_block_association list \<Rightarrow> vpc_cidr_block_association list" where
  "without c as \<equiv> filter (\<lambda>a. CIDRBlock a \<noteq> Some c) as"

definition disassociations :: "vpc_cidr_block_association list \<Rightarrow> string list \<Rightarrow> call list" where
  "disassociations as cidrs =
     concat (map (\<lambda>c. map (\<lambda>a. DisassociateVpcCidrBlock (AssociationID a)) (filter (\<lambda>a. CIDRBlock a = Some c) as)) cidrs)"

lemma disassociateLoop_yields:
  "None \<notin> CIDRBlock ` set as \<Longrightarrow>
   yields (disassociateLoop api c as acc) (disassociations as [c]) (\<lambda>x. x = acc @ without c as)"
proof (induction as arbitrary: acc)
  case Nil
  then show ?case by (simp add: disassociations_def yields_def)
next
  case (Cons a as)
  then obtain b where b: "CIDRBlock a = Some b" by (cases "CIDRBlock a") auto
  show ?case
  proof (cases "c = b")
    case True
    from Cons.prems have IH: "yields (disassociateLoop api c as acc) (disassociations as [c]) (\<lambda>x. x = acc @ without c as)"
      using Cons.IH by simp
    have "disassociateLoop api c (a # as) acc =
        bind (callRecord DisassociateVpcCidrBlock (onDisassociateVpcCidrBlock api) ''UPDATE'' ''DisassociateVpcCidrBlock''
               (AssociationID a)) (\<lambda>err. ifErr err (\<lambda>e. ret (Some e, acc)) (disassociateLoop api c as acc))"
      by (simp only: disassociateLoop.simps b deref_simps bind_simps True if_True simp_thms)
    moreover have "disassociations (a # as) [c] = [DisassociateVpcCidrBlock (AssociationID a)] @ disassociations as [c]"
      "without c (a # as) = without c as"
      using b True by (simp_all add: disassociations_def)
    ultimately show ?thesis by (simp only: yields_after [OF follows_callRecord IH])
  next
    case False
    with Cons b show ?thesis using Cons.IH [of "acc @ [a]"] by (simp add: disassociations_def)
  qed
qed

lemma deleteLoop_yields:
  "None \<notin> CIDRBlock ` set as \<Longrightarrow>
   yields (deleteLoop api cidrs as acc) (disassociations as cidrs)
     (\<lambda>x. x = acc @ concat (map (\<lambda>c. without c as) cidrs))"
proof (induction cidrs arbitrary: acc)
  case Nil
  then show ?case by (simp add: disassociations_def yields_def)
next
  case (Cons c cidrs)
  have "yields (deleteLoop api cidrs as x) (disassociations as cidrs)
      (\<lambda>y. y = acc @ concat (map (\<lambda>c. without c as) (c # cidrs)))" if "x = acc @ without c as" for x
    using Cons.IH [OF Cons.prems, of x] that by simp
  then have "yields (deleteLoop api (c # cidrs) as acc) (disassociations as [c] @ disassociations as cidrs)
      (\<lambda>y. y = acc @ concat (map (\<lambda>c. without c as) (c # cidrs)))"
    unfolding deleteLoop.simps by (rule yields_seq [OF disassociateLoop_yields [OF Cons.prems], where f = "\<lambda>x. x"])
  then show ?case by (simp add: disassociations_def)
qed

definition answersAssociations :: "'x vpc_api_scheme \<Rightarrow> bool" where
  "answersAssociations api \<longleftrightarrow> (\<forall>s i. onAssociateVpcCidrBlock api s i \<noteq> Inr None)"

lemma addLoop_yields:
  assumes "answersAssociations api"
  shows "yields (addLoop api v cidrs acc) (map (\<lambda>c. AssociateVpcCidrBlock v (Some c)) cidrs)
     (\<lambda>x. \<exists>new. x = acc @ new \<and> length new \<le> length cidrs \<and> (\<forall>a \<in> set new. CIDRBlockState a = None))"
proof (induction cidrs arbitrary: acc)
  case Nil
  then show ?case by (simp add: yields_def)
next
  case (Cons c cidrs)
  show ?case
  proof (rule yieldsI)
    fix s
    let ?i = "(v, Some c)"
    let ?P = "\<lambda>ys e x t. addLoop api v (c # cidrs) acc s = (Ret (e, x), t) \<and> calls t = calls s @ ys
        \<and> prefix ys (map (\<lambda>c. AssociateVpcCidrBlock v (Some c)) (c # cidrs))
        \<and> (e = None \<longrightarrow> ys = map (\<lambda>c. AssociateVpcCidrBlock v (Some c)) (c # cidrs)
             \<and> (\<exists>new. x = acc @ new \<and> length new \<le> length (c # cidrs) \<and> (\<forall>a \<in> set new. CIDRBlockState a = None)))"
    show "\<exists>ys e x t. ?P ys e x t"
    proof (cases "onAssociateVpcCidrBlock api s ?i")
      case (Inl e)
      then show ?thesis
        by (intro exI [of _ "[AssociateVpcCidrBlock v (Some c)]"] exI [of _ "Some e"] exI [of _ acc]
            exI [of _ "s @ [Call (AssociateVpcCidrBlock v (Some c)), Metric ''UPDATE'' ''AssociateVpcCidrBlock'' (Some e)]"]) simp
    next
      case (Inr out)
      with assms obtain res where res: "out = Some res" by (cases out) (auto simp: answersAssociations_def)
      let ?s = "s @ [Call (AssociateVpcCidrBlock v (Some c)), Metric ''UPDATE'' ''AssociateVpcCidrBlock'' None]"
      let ?n = "case res of None \<Rightarrow> [] | Some a \<Rightarrow> [newAssociation a]"
      have acc: "(case res of None \<Rightarrow> acc | Some a \<Rightarrow> acc @ [newAssociation a]) = acc @ ?n" by (cases res) simp_all
      obtain zs e x t where r: "addLoop api v cidrs (acc @ ?n) ?s = (Ret (e, x), t)" "calls t = calls ?s @ zs"
        "prefix zs (map (\<lambda>c. AssociateVpcCidrBlock v (Some c)) cidrs)"
        "e = None \<longrightarrow> zs = map (\<lambda>c. AssociateVpcCidrBlock v (Some c)) cidrs \<and>
          (\<exists>new. x = (acc @ ?n) @ new \<and> length new \<le> length cidrs \<and> (\<forall>a \<in> set new. CIDRBlockState a = None))"
        by (rule yieldsE [OF Cons.IH, where s = ?s])
      have nl: "length ?n \<le> 1" "\<forall>a \<in> set ?n. CIDRBlockState a = None" by (auto simp: newAssociation_def split: option.splits)
      have "e = None \<longrightarrow> (\<exists>new. x = acc @ new \<and> length new \<le> length (c # cidrs) \<and> (\<forall>a \<in> set new. CIDRBlockState a = None))"
      proof
        assume "e = None"
        with r(4) obtain new where "x = (acc @ ?n) @ new" "length new \<le> length cidrs" "\<forall>a \<in> set new. CIDRBlockState a = None"
          by blast
        with nl show "\<exists>new. x = acc @ new \<and> length new \<le> length (c # cidrs) \<and> (\<forall>a \<in> set new. CIDRBlockState a = None)"
          by (intro exI [of _ "?n @ new"]) (auto simp del: append_assoc simp: append_assoc [symmetric])
      qed
      with r Inr res show ?thesis
        by (intro exI [of _ "AssociateVpcCidrBlock v (Some c) # zs"] exI [of _ e] exI [of _ x] exI [of _ t])
           (simp add: acc)
    qed
  qed
qed

definition cidrPlan :: "vpc \<Rightarrow> vpc \<Rightarrow> call list" where
  "cidrPlan desired latest =
     (let (toAdd, toDelete) = cidrDiff (cidrsOf desired) (cidrsOf latest) in
      disassociations (associationsOf latest) toDelete
      @ map (\<lambda>c. AssociateVpcCidrBlock (statusVPCID (vpcStatus latest)) (Some c)) toAdd)"

lemma syncCIDRBlocks_run:
  assumes "wfCIDRs desired" "wfCIDRs latest" "answersAssociations api"
  obtains ys e latest' t new where "syncCIDRBlocks api desired latest s = (Ret (latest', e), t)"
    "calls t = calls s @ ys" "prefix ys (cidrPlan desired latest)"
    "e = None \<longrightarrow> ys = cidrPlan desired latest"
    "e \<noteq> None \<longrightarrow> latest' = latest"
    "e = None \<longrightarrow> (let toDelete = snd (cidrDiff (cidrsOf desired) (cidrsOf latest)) in
        associationsOf latest' = (if toDelete \<noteq> [] then concat (map (\<lambda>c. without c (associationsOf latest)) toDelete)
                                  else associationsOf latest) @ new)"
    "e = None \<longrightarrow> length new \<le> length (fst (cidrDiff (cidrsOf desired) (cidrsOf latest))) \<and> (\<forall>a \<in> set new. CIDRBlockState a = None)"
    "latest'\<lparr>vpcStatus := (vpcStatus latest')\<lparr>CIDRBlockAssociationSet := CIDRBlockAssociationSet (vpcStatus latest)\<rparr>\<rparr> = latest"
proof -
  obtain toAdd toDelete where d: "cidrDiff (cidrsOf desired) (cidrsOf latest) = (toAdd, toDelete)" by fastforce
  let ?as = "associationsOf latest"
  let ?v = "statusVPCID (vpcStatus latest)"
  let ?kept = "concat (map (\<lambda>c. without c ?as) toDelete)"
  let ?m = "bind (deleteLoop api toDelete ?as []) (\<lambda>(e, kept). ifErr e (\<lambda>e. ret (Some e, kept)) (addLoop api ?v toAdd kept))"
  let ?put = "\<lambda>x. latest\<lparr>vpcStatus := (vpcStatus latest)\<lparr>CIDRBlockAssociationSet :=
            (if toDelete \<noteq> [] then Some x else appendAll (CIDRBlockAssociationSet (vpcStatus latest)) x)\<rparr>\<rparr>"
  have "yields (deleteLoop api toDelete ?as []) (disassociations ?as toDelete) (\<lambda>x. x = ?kept)"
    using deleteLoop_yields [of ?as api toDelete "[]"] assms(2) by (simp add: wfCIDRs_def)
  then have y: "yields ?m (disassociations ?as toDelete @ map (\<lambda>c. AssociateVpcCidrBlock ?v (Some c)) toAdd)
      (\<lambda>x. \<exists>new. x = ?kept @ new \<and> length new \<le> length toAdd \<and> (\<forall>a \<in> set new. CIDRBlockState a = None))"
    by (rule yields_seq [where f = "\<lambda>x. x"]) (simp add: addLoop_yields [OF assms(3)])
  have run: "syncCIDRBlocks api desired latest = bind ?m (\<lambda>(e, x). ret (case e of Some e \<Rightarrow> (latest, Some e) | None \<Rightarrow> (?put x, None)))"
    using assms d by (auto simp: syncCIDRBlocks_def computeStringPDifference_ret wfCIDRs_def bind_assoc fun_eq_iff bind_def
        ifErr_def split: prod.split outcome.split option.split)
  obtain ys e x t where m: "?m s = (Ret (e, x), t)" "calls t = calls s @ ys"
    "prefix ys (disassociations ?as toDelete @ map (\<lambda>c. AssociateVpcCidrBlock ?v (Some c)) toAdd)"
    "e = None \<longrightarrow> ys = disassociations ?as toDelete @ map (\<lambda>c. AssociateVpcCidrBlock ?v (Some c)) toAdd \<and>
      (\<exists>new. x = ?kept @ new \<and> length new \<le> length toAdd \<and> (\<forall>a \<in> set new. CIDRBlockState a = None))"
    by (rule yieldsE [OF y, where s = s])
  obtain new where new: "e = None \<longrightarrow> x = ?kept @ new \<and> length new \<le> length toAdd \<and> (\<forall>a \<in> set new. CIDRBlockState a = None)"
    using m(4) by blast
  show ?thesis
  proof (rule that [of "if e = None then ?put x else latest" e t ys new])
    show "syncCIDRBlocks api desired latest s = (Ret (if e = None then ?put x else latest, e), t)"
      using m(1) by (cases e) (simp_all add: run)
  qed (use m new d in \<open>auto simp: cidrPlan_def Let_def\<close>)
qed


text \<open>
  C19. The plan of \<open>syncCIDRBlocks\<close>. On any answers of EC2 it disassociates the blocks that are
  no longer desired, each by its association, then associates the missing ones, stops at the
  first failing call and returns its error; without error it made every call of the plan. An
  error leaves \<open>latest\<close> as it was, and when both sides list the same blocks nothing is called.
\<close>

theorem syncCIDRBlocks_plan:
  assumes "wfCIDRs desired" "wfCIDRs latest" "answersAssociations api"
  shows "\<exists>ys e latest'. fst (syncCIDRBlocks api desired latest s) = Ret (latest', e)
    \<and> calls (snd (syncCIDRBlocks api desired latest s)) = calls s @ ys
    \<and> prefix ys (cidrPlan desired latest) \<and> (e = None \<longrightarrow> ys = cidrPlan desired latest)
    \<and> (e \<noteq> None \<longrightarrow> latest' = latest)
    \<and> (set (cidrsOf desired) = set (cidrsOf latest) \<longrightarrow> ys = [])"
proof -
  obtain ys e latest' t where r: "syncCIDRBlocks api desired latest s = (Ret (latest', e), t)"
    "calls t = calls s @ ys" "prefix ys (cidrPlan desired latest)" "e = None \<longrightarrow> ys = cidrPlan desired latest"
    "e \<noteq> None \<longrightarrow> latest' = latest"
    by (rule syncCIDRBlocks_run [OF assms, where s = s])
  have "cidrPlan desired latest = []" if "set (cidrsOf desired) = set (cidrsOf latest)"
  proof -
    from that have "cidrDiff (cidrsOf desired) (cidrsOf latest) = ([], [])" by (simp add: cidr_diff.idle_iff)
    then show ?thesis by (simp add: cidrPlan_def disassociations_def)
  qed
  with r show ?thesis by (intro exI [of _ ys] exI [of _ e] exI [of _ latest']) auto
qed

text \<open>The associations that EC2 answers while blocks are associated from the log \<open>s\<close> on.\<close>

fun answeredTo :: "'x vpc_api_scheme \<Rightarrow> string option \<Rightarrow> string list \<Rightarrow> call log \<Rightarrow> sdk_cidr_association list" where
  "answeredTo api v [] s = []"
| "answeredTo api v (c # cs) s =
     (case onAssociateVpcCidrBlock api s (v, Some c) of Inr (Some (Some a)) \<Rightarrow> [a] | _ \<Rightarrow> [])
     @ answeredTo api v cs (s @ [Call (AssociateVpcCidrBlock v (Some c)), Metric ''UPDATE'' ''AssociateVpcCidrBlock'' None])"

definition associated :: "string option \<Rightarrow> string list \<Rightarrow> call log" where
  "associated v cidrs = concat (map (\<lambda>c. [Call (AssociateVpcCidrBlock v (Some c)), Metric ''UPDATE'' ''AssociateVpcCidrBlock'' None]) cidrs)"

lemma addLoop_answers:
  assumes "answersAssociations api" "addLoop api v cidrs acc s = (Ret (None, x), t)"
  shows "t = s @ associated v cidrs \<and> x = acc @ map newAssociation (answeredTo api v cidrs s)"
  using assms(2)
proof (induction cidrs arbitrary: acc s)
  case (Cons c cidrs)
  show ?case
  proof (cases "onAssociateVpcCidrBlock api s (v, Some c)")
    case (Inr out)
    with assms(1) obtain res where res: "out = Some res" by (cases out) (auto simp: answersAssociations_def)
    let ?s = "s @ [Call (AssociateVpcCidrBlock v (Some c)), Metric ''UPDATE'' ''AssociateVpcCidrBlock'' None]"
    have "addLoop api v cidrs (case res of None \<Rightarrow> acc | Some a \<Rightarrow> acc @ [newAssociation a]) ?s = (Ret (None, x), t)"
      using Inr res Cons.prems by simp
    from Cons.IH [OF this] show ?thesis using Inr res by (cases res) (simp_all add: associated_def)
  qed (use Cons.prems in simp)
qed (simp add: associated_def)

text \<open>
  C20. The association set after \<open>syncCIDRBlocks\<close> succeeded. The blocks to delete were disassociated
  first, then those to add associated, and the association EC2 answered for each of these
  is appended with its identifier and block, but without its state. Of the old associations, all
  stay when no block is deleted; when one is, exactly its associations go; but when two different
  blocks are deleted, every old association is still in the set, the deleted ones
  included: the loop keeps, for each deleted block, the associations of all others.
\<close>

theorem syncCIDRBlocks_associations:
  assumes "wfCIDRs desired" "wfCIDRs latest" "answersAssociations api"
    and "cidrDiff (cidrsOf desired) (cidrsOf latest) = (toAdd, toDelete)"
    and "syncCIDRBlocks api desired latest s = (Ret (latest', None), t)"
  shows "\<exists>u old. t = u @ associated (statusVPCID (vpcStatus latest)) toAdd
    \<and> calls u = calls s @ disassociations (associationsOf latest) toDelete
    \<and> associationsOf latest' = old @ map (\<lambda>a. \<lparr>AssociationID = sdkCaAssociationId a, CIDRBlock = sdkCaCidrBlock a, CIDRBlockState = None\<rparr>)
        (answeredTo api (statusVPCID (vpcStatus latest)) toAdd u)
    \<and> (case toDelete of
         [] \<Rightarrow> old = associationsOf latest
       | [c] \<Rightarrow> old = without c (associationsOf latest)
       | c # c' # cs \<Rightarrow> c \<noteq> c' \<longrightarrow> set (associationsOf latest) \<subseteq> set old)"
proof -
  let ?as = "associationsOf latest"
  let ?v = "statusVPCID (vpcStatus latest)"
  let ?kept = "concat (map (\<lambda>c. without c ?as) toDelete)"
  have "yields (deleteLoop api toDelete ?as []) (disassociations ?as toDelete) (\<lambda>x. x = ?kept)"
    using deleteLoop_yields [of ?as api toDelete "[]"] assms(2) by (simp add: wfCIDRs_def)
  then obtain ys e kept u where u: "deleteLoop api toDelete ?as [] s = (Ret (e, kept), u)" "calls u = calls s @ ys"
    "e = None \<longrightarrow> ys = disassociations ?as toDelete \<and> kept = ?kept"
    by (rule yieldsE [where s = s])
  have run: "syncCIDRBlocks api desired latest s = bind (deleteLoop api toDelete ?as []) (\<lambda>(err, kept).
     ifErr err (\<lambda>e. ret (latest, Some e))
    (bind (addLoop api ?v toAdd kept) (\<lambda>(err, cidrset).
     ifErr err (\<lambda>e. ret (latest, Some e))
    (ret (latest\<lparr>vpcStatus := (vpcStatus latest)\<lparr>CIDRBlockAssociationSet :=
            (if toDelete \<noteq> [] then Some cidrset
             else appendAll (CIDRBlockAssociationSet (vpcStatus latest)) cidrset)\<rparr>\<rparr>, None))))) s"
    using assms(1,2,4) by (simp add: syncCIDRBlocks_def computeStringPDifference_ret wfCIDRs_def)
  have e: "e = None" using assms(5) u(1) unfolding run by (cases e) simp_all
  then have kept: "kept = ?kept" "calls u = calls s @ disassociations ?as toDelete" using u(2,3) by simp_all
  obtain x where x: "addLoop api ?v toAdd ?kept u = (Ret (None, x), t)"
    "latest' = latest\<lparr>vpcStatus := (vpcStatus latest)\<lparr>CIDRBlockAssociationSet :=
            (if toDelete \<noteq> [] then Some x else appendAll (CIDRBlockAssociationSet (vpcStatus latest)) x)\<rparr>\<rparr>"
    using assms(5) u(1) unfolding run e kept(1)
    by (cases "addLoop api ?v toAdd ?kept u") (auto simp: bind_def ifErr_def split: outcome.splits option.splits)
  note a = addLoop_answers [OF assms(3) x(1)]
  show ?thesis
    by (intro exI [of _ u] exI [of _ "if toDelete \<noteq> [] then ?kept else ?as"])
      (use a kept(2) x(2) in \<open>auto simp: newAssociation_def [abs_def] split: list.split\<close>)
qed

subsection \<open>The rules of the default group\<close>

interpretation default_rule_pages: returning_pager "fetchRules api" "\<lambda>p. hasDefaultRule p \<or> lastPage p"
  "\<lambda>p i. i\<lparr>inNextToken := outRulesNextToken p\<rparr>" "\<lambda>p b. b \<or> hasDefaultRule p" "\<lambda>b. (b, None)"
  "\<lambda>n i b. bind (defaultRulesLoop n api i) (\<lambda>(found, err). ret (b \<or> found, err))"
  for api :: "'x sg_api_scheme"
  by unfold_locales (auto simp: fetchRules_def bind_assoc fun_eq_iff bind_def split: sum.split option.split)

definition defaultGroupFilters :: "string \<Rightarrow> filter_input list" where
  "defaultGroupFilters v = [\<lparr>filterName = ''vpc-id'', filterValues = [v]\<rparr>,
                            \<lparr>filterName = ''group-name'', filterValues = [''default'']\<rparr>]"

definition afterDefaultGroup :: "call log \<Rightarrow> string \<Rightarrow> call log" where
  "afterDefaultGroup s v = s @ [Call (DescribeSecurityGroups [] (defaultGroupFilters v)),
     Metric ''READ_MANY'' ''DescribeSecurityGroupRules'' None]"

lemma getDefaultSGId_found:
  assumes "statusVPCID (vpcStatus r) = Some v"
    and "onDescribeSecurityGroups api s ([], defaultGroupFilters v) = Inr (Some (sg # sgs))"
  shows "getDefaultSGId api r s = (Ret (sdkSgGroupId sg, None), afterDefaultGroup s v)"
  using assms by (simp add: getDefaultSGId_def afterDefaultGroup_def defaultGroupFilters_def)

lemma fold_or: "fold (\<lambda>p b. b \<or> P p) ps a \<longleftrightarrow> a \<or> (\<exists>p \<in> set ps. P p)"
  by (induction ps arbitrary: a) auto

text \<open>
  Looking for the default rules. With more fuel than pages are read,
  \<open>hasSecurityGroupDefaultRules\<close> says whether one of the pages read holds the automatic ingress
  or egress rule, and never an error: a failed page ends the search as if nothing were left.
\<close>

theorem hasSecurityGroupDefaultRules_pages:
  assumes "statusVPCID (vpcStatus r) = Some v"
    and "onDescribeSecurityGroups api s ([], defaultGroupFilters v) = Inr (Some (sg # sgs))"
    and "sdkSgGroupId sg = Some i"
    and "paged (fetchRules api) (\<lambda>p. hasDefaultRule p \<or> lastPage p) (\<lambda>p i. i\<lparr>inNextToken := outRulesNextToken p\<rparr>)
           (rulesRequest i) (afterDefaultGroup s v) ps t"
    and "length ps < n"
  shows "hasSecurityGroupDefaultRules n api r s = (Ret (\<exists>p \<in> set ps. hasDefaultRule p, None), t)"
proof -
  have "bind (defaultRulesLoop n api (rulesRequest i)) (\<lambda>(found, err). ret (False \<or> found, err)) (afterDefaultGroup s v)
      = (Ret (fold (\<lambda>p b. b \<or> hasDefaultRule p) ps False, None), t)"
    using default_rule_pages.reads_all [OF assms(4,5), of False] by simp
  moreover have "bind (defaultRulesLoop n api (rulesRequest i)) (\<lambda>(found, err). ret (False \<or> found, err))
      = defaultRulesLoop n api (rulesRequest i)"
    by (auto simp: fun_eq_iff bind_def split: prod.split outcome.split)
  ultimately show ?thesis
    using assms(3) getDefaultSGId_found [OF assms(1,2)] by (simp add: hasSecurityGroupDefaultRules_def fold_or)
qed

text \<open>
  Removing the default rules. When revoking the egress rule fails, with whatever error
  (that the rule is already gone, too), the ingress rule is not revoked and the error is
  returned: its revocation is the last call made.
\<close>

theorem default_ingress_needs_egress:
  assumes "statusVPCID (vpcStatus r) = Some v"
    and "onDescribeSecurityGroups api s ([], defaultGroupFilters v) = Inr (Some (sg # sgs))"
    and "\<And>t i. onRevokeEgress api t i = Some e"
  shows "\<exists>req. fst (deleteSecurityGroupDefaultRules api r s) = Ret (Some e)
    \<and> inGroupId req = sdkSgGroupId sg
    \<and> calls (snd (deleteSecurityGroupDefaultRules api r s)) =
        calls s @ [DescribeSecurityGroups [] (defaultGroupFilters v), RevokeSecurityGroupEgress req]"
  using assms(3) getDefaultSGId_found [OF assms(1,2)]
  by (cases e) (auto simp: deleteSecurityGroupDefaultRules_def revokeDefault_def afterDefaultGroup_def)

subsection \<open>Reading a VPC\<close>

lemma areCIDRBlocksSyncing_iff: "areCIDRBlocksSyncing k \<longleftrightarrow> (\<exists>a \<in> set (associationsOf k). isTransitional a)"
  by (simp add: areCIDRBlocksSyncing_def split: option.split)

lemma isTransitional_cidrAssociation:
  "isTransitional (cidrAssociation a) \<longleftrightarrow>
     (\<exists>st. sdkCaCidrBlockState a = Some st \<and> sdkCbState st \<in> {''associating'', ''disassociating''})"
  by (auto simp: isTransitional_def cidrAssociation_def cidrBlockState_def split: option.splits if_splits)

lemma afterRead_VPC_result:
  assumes "fst (afterRead_VPC n api k0 s) = Ret (Some k, err)"
  shows "vpcStatus k = vpcStatus k0 \<and> CIDRBlocks (vpcSpec k) = map CIDRBlock (associationsOf k0)
    \<and> vpcTags (vpcSpec k) = vpcTags (vpcSpec k0)
    \<and> err = (if areCIDRBlocksSyncing k0 then Some requeueWaitWhileCIDRBlocksSyncing else None)"
  using assms
  by (auto simp: afterRead_VPC_def bind_def Let_def ifErr_def setSpecCIDRs_def areCIDRBlocksSyncing_iff
      split: sum.splits option.splits if_splits prod.splits outcome.splits)

text \<open>
  What \<open>sdkFind\<close> returns. A resource it returns is the first VPC of the answer for the
  stored identifier: its identifier and its CIDR blocks are those of the answer, and there is
  an error, the request to come back in five seconds, exactly when one of its blocks is still
  being associated or disassociated.
\<close>

theorem sdkFind_VPC_reads:
  assumes "fst (sdkFind_VPC n api rm r s) = Ret (Some k, err)"
  shows "\<exists>i elem rest. statusVPCID (vpcStatus r) = Some i \<and> onDescribeVpcs api s [i] = Inr (Some (elem # rest))
    \<and> statusVPCID (vpcStatus k) = sdkVpcVpcId elem
    \<and> CIDRBlocks (vpcSpec k) = map sdkCaCidrBlock (elems (sdkVpcCidrBlockAssociationSet elem))
    \<and> err = (if \<exists>a \<in> set (elems (sdkVpcCidrBlockAssociationSet elem)). \<exists>st. sdkCaCidrBlockState a = Some st
                  \<and> sdkCbState st \<in> {''associating'', ''disassociating''}
             then Some requeueWaitWhileCIDRBlocksSyncing else None)"
proof -
  from assms obtain i where i: "statusVPCID (vpcStatus r) = Some i"
    by (auto simp: sdkFind_VPC_def requiredFieldsMissing_VPC_def split: if_splits)
  with assms obtain elem rest t where a: "onDescribeVpcs api s [i] = Inr (Some (elem # rest))"
    "fst (afterRead_VPC n api (defaults_VPC rm (setFromVpc r elem)) t) = Ret (Some k, err)"
    by (auto simp: sdkFind_VPC_def requiredFieldsMissing_VPC_def newListRequestPayload_VPC_def bind_def deref_def
        split: sum.splits list.splits option.splits)
  let ?k = "defaults_VPC rm (setFromVpc r elem)"
  have as: "associationsOf ?k = map cidrAssociation (elems (sdkVpcCidrBlockAssociationSet elem))"
    by (simp add: defaults_VPC_def setFromVpc_def setStatusDefaults_def Let_def)
  have "statusVPCID (vpcStatus ?k) = sdkVpcVpcId elem"
    by (simp add: defaults_VPC_def setFromVpc_def setStatusDefaults_def Let_def)
  moreover have "areCIDRBlocksSyncing ?k \<longleftrightarrow> (\<exists>a \<in> set (elems (sdkVpcCidrBlockAssociationSet elem)). \<exists>st.
      sdkCaCidrBlockState a = Some st \<and> sdkCbState st \<in> {''associating'', ''disassociating''})"
    by (simp add: areCIDRBlocksSyncing_iff as isTransitional_cidrAssociation)
  moreover have "map CIDRBlock (associationsOf ?k) = map sdkCaCidrBlock (elems (sdkVpcCidrBlockAssociationSet elem))"
    by (simp add: as cidrAssociation_def)
  ultimately show ?thesis using i a(1) afterRead_VPC_result [OF a(2)]
    by (intro exI [of _ i] exI [of _ elem] exI [of _ rest]) simp
qed

subsection \<open>Creating a VPC\<close>

lemma statusVPCID_more: "common_status.more a = common_status.more b \<Longrightarrow> statusVPCID a = statusVPCID b"
  by (cases a; cases b) simp

lemma vpc_reports:
  "AWSError_law env \<Longrightarrow> reporting_kind (vpcKind n api setSynced rm env differentAt iter) [''InvalidParameterValue'']"
  by (rule conditionsUpdater_reports [where get = vpcStatus and put = "\<lambda>st k. k\<lparr>vpcStatus := st\<rparr>"])
     (simp_all add: vpcKind_def)

interpretation vpc_kind: reporting_kind "vpcKind n api setSynced rm plainTexts differentAt iter" "[''InvalidParameterValue'']"
  for n and api :: "'x vpc_api_scheme" and setSynced rm differentAt iter
  by (rule vpc_reports [OF plainTexts_law])

definition createInput_VPC :: "vpc \<Rightarrow> create_vpc_input \<Rightarrow> create_vpc_input" where
  "createInput_VPC r input = applyPrimaryCIDRBlockInCreateRequest r (updateTagSpecifications_VPC r input)"

lemma afterCreate_VPC_attribute_error:
  assumes "wfCIDRs desired" "wfCIDRs k0" "answersAssociations api"
    and "EnableDNSHostnames (vpcSpec k0) \<noteq> None" "\<And>t x. onModifyVpcAttribute api t x = Some e"
  shows "\<exists>u ys. afterCreate_VPC n api setSynced desired k0 t = (Ret (None, Some e), u) \<and> calls u = calls t @ ys"
proof -
  obtain ys err k1 u where r: "syncCIDRBlocks api desired k0 t = (Ret (k1, err), u)" "calls u = calls t @ ys"
    "k1\<lparr>vpcStatus := (vpcStatus k1)\<lparr>CIDRBlockAssociationSet := CIDRBlockAssociationSet (vpcStatus k0)\<rparr>\<rparr> = k0"
    by (rule syncCIDRBlocks_run [OF assms(1-3), where s = t])
  from r(3) have "vpcSpec k1 = vpcSpec k0" by (metis vpc.select_convs(1) vpc.surjective vpc.update_convs(2))
  with assms(4,5) have "createAttributes api (setSpecCIDRs k1) =
      (\<lambda>s. (Ret (Some e), s @ [Call (ModifyVpcAttribute (newModifyDNSHostnamesAttributeInputPayload (setSpecCIDRs k1))),
                              Metric ''UPDATE'' ''ModifyVpcAttribute'' (Some e)]))"
    by (simp add: createAttributes_def whenErr_def setSpecCIDRs_def syncDNSHostnamesAttribute_def fun_eq_iff)
  with r(1,2) show ?thesis by (simp add: afterCreate_VPC_def Let_def)
qed

text \<open>
  C18. A failed creation can orphan the VPC. When \<open>CreateVpc\<close> succeeds but setting the DNS
  hostnames attribute then fails, \<open>sdkCreate\<close> returns no resource: \<open>Create\<close> hands the reconciler
  a resource without the identifier of the new VPC, and the next read answers \<open>NotFound\<close>
  without a call, so that a second VPC is created.
\<close>

theorem failed_attribute_orphans_vpc:
  assumes "AWSError_law env" "newCreateRequestPayload_VPC desired = Inr input"
    and "onCreateVpc api s (createInput_VPC desired input) = Inr (Some (Some v))"
    and "EnableDNSHostnames (vpcSpec desired) \<noteq> None" "\<And>t x. onModifyVpcAttribute api t x = Some e"
    and "wfCIDRs desired" "wfCIDRs (setFromVpc desired v)" "answersAssociations api"
    and "statusVPCID (vpcStatus desired) = None"
  shows "\<exists>k err t. Create (vpcKind n api setSynced rm env differentAt iter) desired s = (Ret (Some k, Some err), t)
    \<and> CreateVpc (createInput_VPC desired input) \<in> set (calls t)
    \<and> statusVPCID (vpcStatus k) = None
    \<and> sdkFind_VPC n api rm k t = (Ret (None, Some NotFound), t)"
proof -
  let ?K = "vpcKind n api setSynced rm env differentAt iter"
  let ?c = "CreateVpc (createInput_VPC desired input)"
  let ?k1 = "defaults_VPC rm (setFromVpc desired v)"
  let ?k = "case sdkVpcCidrBlock v of None \<Rightarrow> ?k1 | Some c \<Rightarrow> ?k1\<lparr>vpcSpec := (vpcSpec ?k1)\<lparr>CIDRBlocks := [Some c]\<rparr>\<rparr>"
  let ?t = "s @ [Call ?c, Metric ''CREATE'' ''CreateVpc'' None]"
  have wf: "wfCIDRs ?k"
    using assms(7) by (simp add: wfCIDRs_def defaults_VPC_def setStatusDefaults_def Let_def split: option.split)
  have "EnableDNSHostnames (vpcSpec ?k) \<noteq> None"
    using assms(4) by (simp add: defaults_VPC_def setFromVpc_def split: option.split)
  from afterCreate_VPC_attribute_error [OF assms(6) wf assms(8) this, of e n setSynced ?t] assms(5)
  obtain u ys where u: "afterCreate_VPC n api setSynced desired ?k ?t = (Ret (None, Some e), u)" "calls u = calls ?t @ ys"
    by auto
  have "sdkCreate_VPC n api setSynced rm desired s = afterCreate_VPC n api setSynced desired ?k ?t"
    using assms(2,3) by (simp add: sdkCreate_VPC_def createInput_VPC_def Let_def)
  with u have c: "sdkCreate_VPC n api setSynced rm desired s = (Ret (None, Some e), u)" "?c \<in> set (calls u)" by simp_all
  have "createOp ?K desired s = (Ret (None, Some e), u)" "updateConditionsOp ?K
      = conditionsUpdater env [''InvalidParameterValue''] rm vpcStatus (\<lambda>st k. k\<lparr>vpcStatus := st\<rparr>)"
    using c(1) by (simp_all add: vpcKind_def)
  moreover have "statusVPCID (vpcStatus (desired\<lparr>vpcStatus := st\<rparr>)) = None"
    if "common_status.more st = common_status.more (vpcStatus desired)" for st
    using statusVPCID_more [OF that] assms(9) by simp
  ultimately obtain k err where
    k: "Create ?K desired s = (Ret (Some k, Some err), u)" "statusVPCID (vpcStatus k) = None"
    using Create_lost [OF assms(1), of ?K desired s e u "[''InvalidParameterValue'']" rm vpcStatus
        "\<lambda>st k. k\<lparr>vpcStatus := st\<rparr>" "\<lambda>k. statusVPCID (vpcStatus k) = None"] assms(9) by auto
  with c k show ?thesis by (auto simp: sdkFind_VPC_def requiredFieldsMissing_VPC_def)
qed

subsection \<open>A difference that no update removes\<close>

text \<open>
  Allowing the default rules again does not converge. When the default group has no default
  rule left, the resource read says \<open>DisallowSecurityGroupDefaultRules\<close>; a spec that does not
  ask for it then always differs there, and updating for that difference alone makes no call
  and reports success, so that every later reconciliation finds the difference again.
\<close>

theorem default_rules_difference_persists:
  assumes "DisallowSecurityGroupDefaultRules (vpcSpec desired) \<noteq> Some True"
    and "DisallowSecurityGroupDefaultRules (vpcSpec latest) = Some True"
  shows "''Spec.DisallowSecurityGroupDefaultRules'' \<in> set (compareSpecs_VPC C (vpcSpec (customPreCompare_VPC desired)) (vpcSpec latest))
    \<and> (\<exists>updated. customUpdateVPC api desired latest (\<lambda>p. p = ''Spec.DisallowSecurityGroupDefaultRules'') s
          = (Ret (latest, Some updated, None), s) \<and> vpcSpec updated = vpcSpec desired)"
proof
  have "DisallowSecurityGroupDefaultRules (vpcSpec (customPreCompare_VPC desired)) = Some False"
    using assms(1) by (cases "DisallowSecurityGroupDefaultRules (vpcSpec desired)") (auto simp: customPreCompare_VPC_def orDefault_def)
  then show "''Spec.DisallowSecurityGroupDefaultRules'' \<in> set (compareSpecs_VPC C (vpcSpec (customPreCompare_VPC desired)) (vpcSpec latest))"
    unfolding compareSpecs_VPC_def Let_def cmpStrs_def
    using assms(2) by (simp add: mem_compare comparePtr_values)
  show "\<exists>updated. customUpdateVPC api desired latest (\<lambda>p. p = ''Spec.DisallowSecurityGroupDefaultRules'') s
          = (Ret (latest, Some updated, None), s) \<and> vpcSpec updated = vpcSpec desired"
    using assms(1) by (simp add: customUpdateVPC_def defaultRulesStep_def attributeSteps_def whenErr_def Let_def)
qed

subsection \<open>Witnesses\<close>

definition exampleVpcSpec :: "string option list \<Rightarrow> vpc_spec" where
  "exampleVpcSpec cidrs = \<lparr>AmazonProvidedIPv6CIDRBlock = None, CIDRBlocks = cidrs,
     DisallowSecurityGroupDefaultRules = None, EnableDNSHostnames = Some True, EnableDNSSupport = None,
     EnableNetworkAddressUsageMetrics = None, InstanceTenancy = None, IPv4IPAMPoolID = None, IPv4NetmaskLength = None,
     IPv6CIDRBlock = None, IPv6CIDRBlockNetworkBorderGroup = None, IPv6IPAMPoolID = None, IPv6NetmaskLength = None,
     IPv6Pool = None, vpcTags = None\<rparr>"

definition exampleAssociation :: "string \<Rightarrow> string \<Rightarrow> vpc_cidr_block_association" where
  "exampleAssociation i c = \<lparr>AssociationID = Some i, CIDRBlock = Some c, CIDRBlockState = None\<rparr>"

definition exampleVpc :: "string option \<Rightarrow> string list \<Rightarrow> vpc" where
  "exampleVpc i cidrs = \<lparr>vpcSpec = exampleVpcSpec (map Some cidrs), vpcStatus = \<lparr>ACKResourceMetadata = None, Conditions = [],
     CIDRBlockAssociationSet = (if i = None then None else Some (map (\<lambda>c. exampleAssociation (''assoc-'' @ c) c) cidrs)),
     DHCPOptionsID = None, IPv6CIDRBlockAssociationSet = None, IsDefault = None, OwnerID = None,
     SecurityGroupDefaultRulesExist = None, State = None, statusVPCID = i\<rparr>\<rparr>"

definition exampleSdkVpc :: sdk_vpc where
  "exampleSdkVpc = \<lparr>sdkVpcCidrBlock = Some ''10.0.0.0/16'', sdkVpcCidrBlockAssociationSet = Some
     [\<lparr>sdkCaAssociationId = Some ''assoc-1'', sdkCaCidrBlock = Some ''10.0.0.0/16'',
       sdkCaCidrBlockState = Some \<lparr>sdkCbState = ''associating'', sdkCbStatusMessage = None\<rparr>\<rparr>],
     sdkVpcDhcpOptionsId = None, sdkVpcInstanceTenancy = ''default'', sdkVpcIpv6CidrBlockAssociationSet = None,
     sdkVpcIsDefault = None, sdkVpcOwnerId = None, sdkVpcState = ''available'', sdkVpcTags = None,
     sdkVpcVpcId = Some ''vpc-1''\<rparr>"

definition exampleGroupOfVpc :: sdk_security_group where
  "exampleGroupOfVpc = \<lparr>sdkSgDescription = None, sdkSgGroupId = Some ''sg-1'', sdkSgGroupName = Some ''default'',
     sdkSgIpPermissions = None, sdkSgIpPermissionsEgress = None, sdkSgArn = None, sdkSgTags = None, sdkSgVpcId = None\<rparr>"

definition exampleVpcApi :: "error option \<Rightarrow> vpc_api" where
  "exampleVpcApi e = sg_api.extend (exampleSG\<lparr>onDescribeSecurityGroups := (\<lambda>_ _. Inr (Some [exampleGroupOfVpc]))\<rparr>)
     \<lparr>onDescribeVpcs = (\<lambda>_ _. Inr (Some [exampleSdkVpc])), onCreateVpc = (\<lambda>_ _. Inr (Some (Some exampleSdkVpc))),
      onDeleteVpc = (\<lambda>_ _. None),
      onDescribeVpcAttribute = (\<lambda>_ _. Inr (Some \<lparr>dvEnableDnsSupport = Some (Some True), dvEnableDnsHostnames = Some (Some True),
         dvEnableNetworkAddressUsageMetrics = Some (Some False)\<rparr>)),
      onModifyVpcAttribute = (\<lambda>_ _. e),
      onAssociateVpcCidrBlock = (\<lambda>_ (v, c). Inr (Some (Some \<lparr>sdkCaAssociationId = Some ''assoc-2'', sdkCaCidrBlock = c,
         sdkCaCidrBlockState = None\<rparr>))),
      onDisassociateVpcCidrBlock = (\<lambda>_ _. None)\<rparr>"

lemmas exampleVpc_defs = exampleVpc_def exampleVpcSpec_def exampleAssociation_def exampleVpcApi_def sg_api.defs exampleSG_def

lemma exampleVpc_facts:
  "answersAssociations (exampleVpcApi e)" "wfCIDRs (exampleVpc i cidrs)"
  by (auto simp: answersAssociations_def wfCIDRs_def exampleVpc_defs)

lemma syncCIDRBlocks_plan_witness:
  "\<exists>ys e latest'. fst (syncCIDRBlocks (exampleVpcApi None) (exampleVpc None [''10.0.0.0/16'', ''10.2.0.0/16''])
      (exampleVpc (Some ''vpc-1'') [''10.0.0.0/16'', ''10.1.0.0/16'']) []) = Ret (latest', e)
    \<and> prefix ys [DisassociateVpcCidrBlock (Some ''assoc-10.1.0.0/16''), AssociateVpcCidrBlock (Some ''vpc-1'') (Some ''10.2.0.0/16'')]"
proof -
  let ?d = "exampleVpc None [''10.0.0.0/16'', ''10.2.0.0/16'']"
  let ?l = "exampleVpc (Some ''vpc-1'') [''10.0.0.0/16'', ''10.1.0.0/16'']"
  have "cidrPlan ?d ?l
      = [DisassociateVpcCidrBlock (Some ''assoc-10.1.0.0/16''), AssociateVpcCidrBlock (Some ''vpc-1'') (Some ''10.2.0.0/16'')]"
    by code_simp
  with syncCIDRBlocks_plan [where desired = ?d and latest = ?l and s = "[]", OF exampleVpc_facts(2,2,1), of None]
  show ?thesis by auto
qed

lemma syncCIDRBlocks_associations_witness:
  "\<exists>latest' u old. syncCIDRBlocks (exampleVpcApi None) (exampleVpc None [''10.0.0.0/16'', ''10.3.0.0/16''])
      (exampleVpc (Some ''vpc-1'') [''10.0.0.0/16'', ''10.1.0.0/16'', ''10.2.0.0/16'']) []
        = (Ret (latest', None), u @ associated (Some ''vpc-1'') [''10.3.0.0/16''])
    \<and> associationsOf latest' = old @ [\<lparr>AssociationID = Some ''assoc-2'', CIDRBlock = Some ''10.3.0.0/16'', CIDRBlockState = None\<rparr>]
    \<and> set (associationsOf (exampleVpc (Some ''vpc-1'') [''10.0.0.0/16'', ''10.1.0.0/16'', ''10.2.0.0/16''])) \<subseteq> set old"
proof -
  let ?d = "exampleVpc None [''10.0.0.0/16'', ''10.3.0.0/16'']"
  let ?l = "exampleVpc (Some ''vpc-1'') [''10.0.0.0/16'', ''10.1.0.0/16'', ''10.2.0.0/16'']"
  have "case fst (syncCIDRBlocks (exampleVpcApi None) ?d ?l []) of Ret (_, None) \<Rightarrow> True | _ \<Rightarrow> False" by code_simp
  then obtain l' t where l': "syncCIDRBlocks (exampleVpcApi None) ?d ?l [] = (Ret (l', None), t)"
    by (cases "syncCIDRBlocks (exampleVpcApi None) ?d ?l []") (auto split: outcome.splits option.splits)
  have c: "cidrDiff (cidrsOf ?d) (cidrsOf ?l) = ([''10.3.0.0/16''], [''10.1.0.0/16'', ''10.2.0.0/16''])" by code_simp
  have "statusVPCID (vpcStatus ?l) = Some ''vpc-1''" by (simp add: exampleVpc_def)
  moreover have "answeredTo (exampleVpcApi None) (Some ''vpc-1'') [''10.3.0.0/16''] u
      = [\<lparr>sdkCaAssociationId = Some ''assoc-2'', sdkCaCidrBlock = Some ''10.3.0.0/16'', sdkCaCidrBlockState = None\<rparr>]" for u
    by (simp add: exampleVpc_defs)
  ultimately show ?thesis
    using syncCIDRBlocks_associations [OF exampleVpc_facts(2) exampleVpc_facts(2) exampleVpc_facts(1) c l'] l' by auto
qed

lemma hasSecurityGroupDefaultRules_pages_witness:
  "fst (hasSecurityGroupDefaultRules 2 (exampleVpcApi None) (exampleVpc (Some ''vpc-1'') []) []) = Ret (False, None)"
proof -
  let ?t = "afterDefaultGroup [] ''vpc-1'' @ [Call (DescribeSecurityGroupRules (rulesRequest ''sg-1'')),
             Metric ''READ_MANY'' ''DescribeSecurityGroupRules'' None]"
  have "paged (fetchRules (exampleVpcApi None)) (\<lambda>p. hasDefaultRule p \<or> lastPage p)
      (\<lambda>p i. i\<lparr>inNextToken := outRulesNextToken p\<rparr>) (rulesRequest ''sg-1'') (afterDefaultGroup [] ''vpc-1'') [examplePage] ?t"
    by (rule paged.last) (simp_all add: fetchRules_def exampleVpc_defs lastPage_def examplePage_def)
  moreover have "statusVPCID (vpcStatus (exampleVpc (Some ''vpc-1'') [])) = Some ''vpc-1''" by (simp add: exampleVpc_def)
  moreover have "onDescribeSecurityGroups (exampleVpcApi None) [] ([], defaultGroupFilters ''vpc-1'') = Inr (Some (exampleGroupOfVpc # []))"
    by (simp add: exampleVpc_defs)
  moreover have "sdkSgGroupId exampleGroupOfVpc = Some ''sg-1''" by (simp add: exampleGroupOfVpc_def)
  moreover have "\<not> hasDefaultRule examplePage" by code_simp
  ultimately show ?thesis
    using hasSecurityGroupDefaultRules_pages [of "exampleVpc (Some ''vpc-1'') []" "''vpc-1''" "exampleVpcApi None" "[]"
        exampleGroupOfVpc "[]" "''sg-1''" "[examplePage]" ?t 2] by simp
qed

lemma default_ingress_needs_egress_witness:
  "\<exists>req. fst (deleteSecurityGroupDefaultRules (exampleVpcApi None) (exampleVpc (Some ''vpc-1'') []) [])
      = Ret (Some (APIError ''InvalidPermission.NotFound'' ''''))
    \<and> calls (snd (deleteSecurityGroupDefaultRules (exampleVpcApi None) (exampleVpc (Some ''vpc-1'') []) [])) =
        [DescribeSecurityGroups [] (defaultGroupFilters ''vpc-1''), RevokeSecurityGroupEgress req]"
proof -
  have "statusVPCID (vpcStatus (exampleVpc (Some ''vpc-1'') [])) = Some ''vpc-1''" by (simp add: exampleVpc_def)
  moreover have "onDescribeSecurityGroups (exampleVpcApi None) [] ([], defaultGroupFilters ''vpc-1'') = Inr (Some (exampleGroupOfVpc # []))"
    "\<And>t i. onRevokeEgress (exampleVpcApi None) t i = Some (APIError ''InvalidPermission.NotFound'' '''')"
    by (simp_all add: exampleVpc_defs)
  ultimately show ?thesis
    using default_ingress_needs_egress [of "exampleVpc (Some ''vpc-1'') []" "''vpc-1''" "exampleVpcApi None" "[]"
        exampleGroupOfVpc "[]" "APIError ''InvalidPermission.NotFound'' ''''"] by auto
qed

lemma sdkFind_VPC_reads_witness:
  "\<exists>k. fst (sdkFind_VPC 2 (exampleVpcApi None) exampleManager (exampleVpc (Some ''vpc-1'') []) [])
     = Ret (Some k, Some requeueWaitWhileCIDRBlocksSyncing) \<and> statusVPCID (vpcStatus k) = Some ''vpc-1''"
proof -
  let ?r = "exampleVpc (Some ''vpc-1'') []"
  have "case fst (sdkFind_VPC 2 (exampleVpcApi None) exampleManager ?r []) of Ret (Some _, _) \<Rightarrow> True | _ \<Rightarrow> False"
    by code_simp
  then obtain k err where k: "fst (sdkFind_VPC 2 (exampleVpcApi None) exampleManager ?r []) = Ret (Some k, err)"
    by (cases "fst (sdkFind_VPC 2 (exampleVpcApi None) exampleManager ?r [])") (auto split: option.splits)
  from sdkFind_VPC_reads [OF k] k show ?thesis by (auto simp: exampleVpc_def exampleVpcApi_def sg_api.defs exampleSdkVpc_def)
qed

lemma failed_attribute_orphans_vpc_witness:
  "\<exists>k err t. Create (vpcKind 2 (exampleVpcApi (Some (APIError ''UnauthorizedOperation'' ''''))) (\<lambda>_ cs. cs) exampleManager plainTexts
        (\<lambda>d p. p \<in> set d) id) (exampleVpc None [''10.0.0.0/16'']) [] = (Ret (Some k, Some err), t)
    \<and> statusVPCID (vpcStatus k) = None"
proof -
  let ?d = "exampleVpc None [''10.0.0.0/16'']"
  let ?e = "APIError ''UnauthorizedOperation'' ''''"
  obtain input where i: "newCreateRequestPayload_VPC ?d = Inr input"
    by (simp add: newCreateRequestPayload_VPC_def exampleVpc_def exampleVpcSpec_def narrowInt32_def)
  have v: "onCreateVpc (exampleVpcApi (Some ?e)) [] (createInput_VPC ?d input) = Inr (Some (Some exampleSdkVpc))"
    "\<And>t x. onModifyVpcAttribute (exampleVpcApi (Some ?e)) t x = Some ?e"
    by (simp_all add: exampleVpcApi_def sg_api.defs)
  have "EnableDNSHostnames (vpcSpec ?d) \<noteq> None" "wfCIDRs (setFromVpc ?d exampleSdkVpc)" "statusVPCID (vpcStatus ?d) = None"
    by code_simp+
  with failed_attribute_orphans_vpc [OF plainTexts_law i v(1) _ v(2) exampleVpc_facts(2) _ exampleVpc_facts(1),
      of 2 "\<lambda>_ cs. cs" exampleManager "\<lambda>d p. p \<in> set d" id] show ?thesis by blast
qed

lemma default_rules_difference_persists_witness:
  "''Spec.DisallowSecurityGroupDefaultRules'' \<in> set (compareSpecs_VPC exactComparisons
     (vpcSpec (customPreCompare_VPC (exampleVpc None [])))
     (vpcSpec ((exampleVpc None [])\<lparr>vpcSpec := (exampleVpcSpec [])\<lparr>DisallowSecurityGroupDefaultRules := Some True\<rparr>\<rparr>)))"
proof -
  let ?l = "(exampleVpc None [])\<lparr>vpcSpec := (exampleVpcSpec [])\<lparr>DisallowSecurityGroupDefaultRules := Some True\<rparr>\<rparr>"
  have "DisallowSecurityGroupDefaultRules (vpcSpec (exampleVpc None [])) \<noteq> Some True"
    "DisallowSecurityGroupDefaultRules (vpcSpec ?l) = Some True"
    by (simp_all add: exampleVpc_def exampleVpcSpec_def)
  from default_rules_difference_persists [OF this] show ?thesis by blast
qed

end
