(* ===== verification/TableAssociations.thy ===== *)
theory TableAssociations
  imports Kinds
begin

text \<open>
  The route tables a subnet or an internet gateway is associated with
  (\<open>pkg/resource/subnet/hooks.go\<close> and \<open>internet_gateway/hooks.go\<close>, which repeat this code): reading
  the associations page by page, and bringing them to the desired ones. What differs between the
  two kinds, how a table's association is found and what associating one calls, is an argument.
\<close>

record tables_api = tags_api +
  onDescribeRouteTables :: "call log \<Rightarrow> describe_tables_input \<Rightarrow> error + route_tables_output option"

record associations_api = tables_api +
  onAssociateRouteTable :: "call log \<Rightarrow> associate_table_input \<Rightarrow> error option"
  onDisassociateRouteTable :: "call log \<Rightarrow> string option \<Rightarrow> error option"

subsection \<open>Reading the associations\<close>

text \<open>
  One round of the loop: a page is fetched and the associations of its tables are collected. A
  failed or nil answer is not recorded, and ends the loop without an error: the \<open>err\<close> of the
  loop is its own.
\<close>

definition fetchAssociations ::
  "'x tables_api_scheme \<Rightarrow> (sdk_route_table \<Rightarrow> sdk_route_table_association list act) \<Rightarrow> describe_tables_input
   \<Rightarrow> (error + (sdk_route_table_association list \<times> string option) option) act" where
  "fetchAssociations api collect input =
     bind (invoke DescribeRouteTables (onDescribeRouteTables api) input) (\<lambda>r. case r of
       Inl e \<Rightarrow> ret (Inl e)
     | Inr None \<Rightarrow> ret (Inr None)
     | Inr (Some resp) \<Rightarrow>
         bind (recordAPICall ''GET'' ''DescribeRouteTables'' None) (\<lambda>_.
         bind (mapAct collect (outRouteTables resp)) (\<lambda>as.
         ret (Inr (Some (concat as, outTablesNextToken resp))))))"

definition lastTables :: "sdk_route_table_association list \<times> string option \<Rightarrow> bool" where
  "lastTables p \<longleftrightarrow> snd p = None \<or> snd p = Some []"

fun associationsLoop ::
  "nat \<Rightarrow> 'x tables_api_scheme \<Rightarrow> (sdk_route_table \<Rightarrow> sdk_route_table_association list act) \<Rightarrow> describe_tables_input
   \<Rightarrow> sdk_route_table_association list \<Rightarrow> (sdk_route_table_association list \<times> error option) act" where
  "associationsLoop 0 api collect input assocs = noFuel"
| "associationsLoop (Suc n) api collect input assocs =
     bind (fetchAssociations api collect input) (\<lambda>r. case r of
       Inl e \<Rightarrow> ret (assocs, None)
     | Inr None \<Rightarrow> ret (assocs, None)
     | Inr (Some p) \<Rightarrow>
         if lastTables p then ret (assocs @ fst p, None)
         else associationsLoop n api collect (input\<lparr>dtNextToken := snd p\<rparr>) (assocs @ fst p))"

interpretation association_pages: pager "fetchAssociations api collect" lastTables
  "\<lambda>p i. i\<lparr>dtNextToken := snd p\<rparr>" "\<lambda>p as. as @ fst p" "\<lambda>as. (as, None)"
  "\<lambda>n. associationsLoop n api collect"
  for api :: "'x tables_api_scheme" and collect
  by unfold_locales simp_all

subsection \<open>Changing the associations\<close>

fun inAssociations :: "string \<Rightarrow> sdk_route_table_association list \<Rightarrow> bool act" where
  "inAssociations rtID [] = ret False"
| "inAssociations rtID (a # as) =
     bind (deref (sdkRtaRouteTableId a)) (\<lambda>i. if i = rtID then ret True else inAssociations rtID as)"

definition disassociateRouteTable :: "'x associations_api_scheme \<Rightarrow> string \<Rightarrow> error option act" where
  "disassociateRouteTable api associationID =
     bind (callRecord DisassociateRouteTable (onDisassociateRouteTable api) ''UPDATE'' ''DisassociateRouteTable''
             (Some associationID)) (\<lambda>err. ifErr err (\<lambda>e. ret (Some e)) (ret None))"

text \<open>\<open>InStringPs\<close> belongs to the ACK runtime; as documented it looks for a value among pointers.\<close>

definition InStringPs_law :: "(string \<Rightarrow> string option list \<Rightarrow> bool) \<Rightarrow> bool" where
  "InStringPs_law InStringPs \<longleftrightarrow> (\<forall>s ps. None \<notin> set ps \<longrightarrow> (InStringPs s ps \<longleftrightarrow> Some s \<in> set ps))"

definition changeAssociations ::
  "'x associations_api_scheme \<Rightarrow> (string \<Rightarrow> string option list \<Rightarrow> bool) \<Rightarrow> (string \<Rightarrow> error option act)
   \<Rightarrow> sdk_route_table_association list \<Rightarrow> string option list \<Rightarrow> error option act" where
  "changeAssociations api InStringPs associate existingRTs routeTables =
     bind (filterAct (\<lambda>rt. bind (deref (sdkRtaRouteTableId rt)) (\<lambda>i. ret (\<not> InStringPs i routeTables))) existingRTs) (\<lambda>toDelete.
     bind (filterAct (\<lambda>rt. bind (deref rt) (\<lambda>i. bind (inAssociations i existingRTs) (\<lambda>b. ret (\<not> b)))) routeTables) (\<lambda>toAdd.
     bind (forErr (\<lambda>t. bind (deref (sdkRtaRouteTableId t)) (\<lambda>_.
             bind (deref (sdkRtaRouteTableAssociationId t)) (\<lambda>a. disassociateRouteTable api a))) toDelete) (\<lambda>err.
     ifErr err (\<lambda>e. ret (Some e))
    (forErr (\<lambda>rt. bind (deref rt) associate) toAdd))))"

definition updateAssociations ::
  "nat \<Rightarrow> 'x associations_api_scheme \<Rightarrow> (string \<Rightarrow> string option list \<Rightarrow> bool)
   \<Rightarrow> (sdk_route_table_association list \<times> error option) act \<Rightarrow> (string \<Rightarrow> error option act)
   \<Rightarrow> string option list \<Rightarrow> error option act" where
  "updateAssociations n api InStringPs existing associate routeTables =
     bind existing (\<lambda>(existingRTs, err). ifErr err (\<lambda>e. ret (Some e))
       (changeAssociations api InStringPs associate existingRTs routeTables))"

subsection \<open>What the change does\<close>

definition wfAssociations :: "sdk_route_table_association list \<Rightarrow> bool" where
  "wfAssociations as \<longleftrightarrow> (\<forall>a \<in> set as. sdkRtaRouteTableId a \<noteq> None \<and> sdkRtaRouteTableAssociationId a \<noteq> None)"

abbreviation tablesOf :: "sdk_route_table_association list \<Rightarrow> string set" where
  "tablesOf as \<equiv> (\<lambda>a. the (sdkRtaRouteTableId a)) ` set as"

text \<open>The disassociations of the tables that are not desired, then the associations of the missing ones.\<close>

definition associationsPlan ::
  "(string \<Rightarrow> call) \<Rightarrow> sdk_route_table_association list \<Rightarrow> string option list \<Rightarrow> call list" where
  "associationsPlan associateCall existing desired =
     map (\<lambda>a. DisassociateRouteTable (sdkRtaRouteTableAssociationId a))
       (filter (\<lambda>a. sdkRtaRouteTableId a \<notin> set desired) existing)
   @ map (\<lambda>rt. associateCall (the rt)) (filter (\<lambda>rt. the rt \<notin> tablesOf existing) desired)"

lemma inAssociations_ret: "wfAssociations as \<Longrightarrow> inAssociations i as = ret (i \<in> tablesOf as)"
  by (induction as) (auto simp: wfAssociations_def fun_eq_iff)

lemma follows_disassociate: "follows (disassociateRouteTable api a) [DisassociateRouteTable (Some a)]"
  unfolding disassociateRouteTable_def by (rule follows_done [OF follows_callRecord])

lemma follows_forErr_on:
  "(\<And>x. x \<in> set xs \<Longrightarrow> follows (f x) [g x]) \<Longrightarrow> follows (forErr f xs) (map g xs)"
proof (induction xs)
  case Nil
  show ?case by (simp add: follows_def)
next
  case (Cons x xs)
  then have "follows (bind (f x) (\<lambda>err. ifErr err (\<lambda>e. ret (Some e)) (forErr f xs))) ([g x] @ map g xs)"
    by (intro follows_seq) simp_all
  then show ?case by simp
qed

lemma changeAssociations_follows:
  assumes "InStringPs_law isIn" "wfAssociations existing" "None \<notin> set desired"
    and "\<And>rt. follows (associate rt) [associateCall rt]"
  shows "follows (changeAssociations api isIn associate existing desired) (associationsPlan associateCall existing desired)"
proof -
  let ?dels = "filter (\<lambda>a. sdkRtaRouteTableId a \<notin> set desired) existing"
  let ?adds = "filter (\<lambda>rt. the rt \<notin> tablesOf existing) desired"
  have some: "\<exists>i j. sdkRtaRouteTableId a = Some i \<and> sdkRtaRouteTableAssociationId a = Some j" if "a \<in> set existing" for a
    using that assms(2) by (auto simp: wfAssociations_def)
  have d: "filterAct (\<lambda>rt. bind (deref (sdkRtaRouteTableId rt)) (\<lambda>i. ret (\<not> isIn i desired))) existing = (ret ?dels :: _ act)"
    by (rule filterAct_ret) (use some assms(1,3) in \<open>fastforce simp: InStringPs_law_def\<close>)
  have a: "filterAct (\<lambda>rt. bind (deref rt) (\<lambda>i. bind (inAssociations i existing) (\<lambda>b. ret (\<not> b)))) desired = (ret ?adds :: _ act)"
  proof (rule filterAct_ret)
    fix rt assume "rt \<in> set desired"
    with assms(3) obtain i where "rt = Some i" by (cases rt) auto
    then show "bind (deref rt) (\<lambda>i. bind (inAssociations i existing) (\<lambda>b. ret (\<not> b))) = ret (the rt \<notin> tablesOf existing)"
      by (simp only: deref_simps bind_simps inAssociations_ret [OF assms(2)] option.sel)
  qed
  let ?del = "\<lambda>t. bind (deref (sdkRtaRouteTableId t)) (\<lambda>_.
      bind (deref (sdkRtaRouteTableAssociationId t)) (\<lambda>a. disassociateRouteTable api a))"
  have "follows (?del t) [DisassociateRouteTable (sdkRtaRouteTableAssociationId t)]" if "t \<in> set ?dels" for t
    using some [of t] that follows_disassociate by auto
  then have 1: "follows (forErr ?del ?dels) (map (\<lambda>a. DisassociateRouteTable (sdkRtaRouteTableAssociationId a)) ?dels)"
    by (rule follows_forErr_on)
  have "follows (bind (deref rt) associate) [associateCall (the rt)]" if "rt \<in> set ?adds" for rt
  proof -
    from that have "rt \<in> set desired" by simp
    with assms(3) obtain i where "rt = Some i" by (cases rt) auto
    then show ?thesis using assms(4) [of i] by simp
  qed
  then have 2: "follows (forErr (\<lambda>rt. bind (deref rt) associate) ?adds) (map (\<lambda>rt. associateCall (the rt)) ?adds)"
    by (rule follows_forErr_on)
  show ?thesis
    unfolding changeAssociations_def d a bind_simps associationsPlan_def by (rule follows_seq [OF 1 2])
qed

end
