(* ===== verification/RouteTable.thy ===== *)
theory RouteTable
  imports TableAssociations
begin

text \<open>
  The route-table controller (\<open>pkg/resource/route_table/hooks.go\<close>, \<open>sdk.go\<close>, \<open>delta.go\<close>): the
  difference of two lists of routes, its synchronisation (leaving local and AWS-managed routes
  alone), and the operations of the kind. A list of routes is a list of the structs its
  pointers point to; nil and empty slices of routes are the same list, which the code never
  tells apart.
\<close>

subsection \<open>Data\<close>

record create_route_input =
  crCarrierGatewayID :: "string option"
  crCoreNetworkARN :: "string option"
  crDestinationCIDRBlock :: "string option"
  crDestinationIPv6CIDRBlock :: "string option"
  crDestinationPrefixListID :: "string option"
  crEgressOnlyInternetGatewayID :: "string option"
  crGatewayID :: "string option"
  crGatewayRef :: "ref_wrapper option"
  crInstanceID :: "string option"
  crLocalGatewayID :: "string option"
  crNATGatewayID :: "string option"
  crNATGatewayRef :: "ref_wrapper option"
  crNetworkInterfaceID :: "string option"
  crTransitGatewayID :: "string option"
  crTransitGatewayRef :: "ref_wrapper option"
  crVPCEndpointID :: "string option"
  crVPCEndpointRef :: "ref_wrapper option"
  crVPCPeeringConnectionID :: "string option"
  crVPCPeeringConnectionRef :: "ref_wrapper option"

record route =
  rCarrierGatewayID :: "string option"
  rCoreNetworkARN :: "string option"
  rDestinationCIDRBlock :: "string option"
  rDestinationIPv6CIDRBlock :: "string option"
  rDestinationPrefixListID :: "string option"
  rEgressOnlyInternetGatewayID :: "string option"
  rGatewayID :: "string option"
  rInstanceID :: "string option"
  rInstanceOwnerID :: "string option"
  rLocalGatewayID :: "string option"
  rNATGatewayID :: "string option"
  rNetworkInterfaceID :: "string option"
  rOrigin :: "string option"
  rState :: "string option"
  rTransitGatewayID :: "string option"
  rVPCPeeringConnectionID :: "string option"

record route_table_association_state =
  rtasState :: "string option"
  rtasStatusMessage :: "string option"

record route_table_association =
  rtaAssociationState :: "route_table_association_state option"
  rtaGatewayID :: "string option"
  rtaMain :: "bool option"
  rtaRouteTableAssociationID :: "string option"
  rtaRouteTableID :: "string option"
  rtaSubnetID :: "string option"

record route_table_spec =
  Routes :: "create_route_input list"
  rtTags :: "tag list option"
  rtVPCID :: "string option"
  rtVPCRef :: "ref_wrapper option"

record route_table_status = common_status +
  rtAssociations :: "route_table_association slice"
  rtOwnerID :: "string option"
  PropagatingVGWs :: "string option slice"
  RouteStatuses :: "route slice"
  RouteTableID :: "string option"

record route_table =
  rtSpec :: route_table_spec
  rtStatus :: route_table_status

record route_api = tables_api +
  onCreateRouteTable :: "call log \<Rightarrow> create_in_vpc_input \<Rightarrow> error + sdk_route_table option option"
  onDeleteRouteTable :: "call log \<Rightarrow> string option \<Rightarrow> error option"
  onCreateRoute :: "call log \<Rightarrow> create_route_request \<Rightarrow> error option"
  onDeleteRoute :: "call log \<Rightarrow> delete_route_request \<Rightarrow> error option"
  onDescribeManagedPrefixLists :: "call log \<Rightarrow> string list \<Rightarrow> error + managed_prefix_list list option"

text \<open>
  The slice helpers of \<open>samber/lo\<close>, at the types the code uses them; the function given to
  \<open>FilterMap\<close> may panic. \<open>lo_law\<close> is what their documentation says.
\<close>

record lo_helpers =
  loReject :: "(create_route_input \<Rightarrow> bool) \<Rightarrow> create_route_input list \<Rightarrow> create_route_input list"
  loFilter :: "(create_route_input \<Rightarrow> bool) \<Rightarrow> create_route_input list \<Rightarrow> create_route_input list"
  loMap :: "(create_route_input \<Rightarrow> string act) \<Rightarrow> create_route_input list \<Rightarrow> string list act"
  loFilterMapLists :: "(managed_prefix_list \<Rightarrow> string option act) \<Rightarrow> managed_prefix_list list \<Rightarrow> string list act"
  loFilterMapRoutes :: "(create_route_input \<Rightarrow> create_route_input option act) \<Rightarrow> create_route_input list
    \<Rightarrow> create_route_input list act"
  loIndexOf :: "string list \<Rightarrow> string \<Rightarrow> int"

definition filterMapAct :: "('a \<Rightarrow> 'b option act) \<Rightarrow> 'a list \<Rightarrow> 'b list act" where
  "filterMapAct f xs = bind (mapAct f xs) (\<lambda>ys. ret (List.map_filter id ys))"

definition lo_law :: "lo_helpers \<Rightarrow> bool" where
  "lo_law L \<longleftrightarrow> loReject L = (\<lambda>p. filter (\<lambda>x. \<not> p x)) \<and> loFilter L = filter \<and> loMap L = mapAct
     \<and> loFilterMapLists L = filterMapAct \<and> loFilterMapRoutes L = filterMapAct
     \<and> (\<forall>xs x. loIndexOf L xs x = - 1 \<longleftrightarrow> x \<notin> set xs)"

subsection \<open>Comparing routes\<close>

definition compareCreateRouteInput ::
  "(iface \<Rightarrow> iface \<Rightarrow> bool) \<Rightarrow> create_route_input \<Rightarrow> create_route_input \<Rightarrow> delta" where
  "compareCreateRouteInput hnd a b =
    (let c = comparePtr hnd IStr;
         d1 = c ''CreateRouteInput.CarrierGatewayID'' (crCarrierGatewayID a) (crCarrierGatewayID b) [];
         d2 = c ''CreateRouteInput.CoreNetworkARN'' (crCoreNetworkARN a) (crCoreNetworkARN b) d1;
         d3 = c ''CreateRouteInput.DestinationCIDRBlock'' (crDestinationCIDRBlock a) (crDestinationCIDRBlock b) d2;
         d4 = c ''CreateRouteInput.DestinationIPv6CIDRBlock'' (crDestinationIPv6CIDRBlock a) (crDestinationIPv6CIDRBlock b) d3;
         d5 = c ''CreateRouteInput.DestinationPrefixListID'' (crDestinationPrefixListID a) (crDestinationPrefixListID b) d4;
         d6 = c ''CreateRouteInput.EgressOnlyInternetGatewayID'' (crEgressOnlyInternetGatewayID a)
                (crEgressOnlyInternetGatewayID b) d5;
         d7 = c ''CreateRouteInput.GatewayID'' (crGatewayID a) (crGatewayID b) d6;
         d8 = c ''CreateRouteInput.InstanceID'' (crInstanceID a) (crInstanceID b) d7;
         d9 = c ''CreateRouteInput.LocalGatewayID'' (crLocalGatewayID a) (crLocalGatewayID b) d8;
         d10 = c ''CreateRouteInput.NATGatewayID'' (crNATGatewayID a) (crNATGatewayID b) d9;
         d11 = c ''CreateRouteInput.NetworkInterfaceID'' (crNetworkInterfaceID a) (crNetworkInterfaceID b) d10;
         d12 = c ''CreateRouteInput.TransitGatewayID'' (crTransitGatewayID a) (crTransitGatewayID b) d11;
         d13 = c ''CreateRouteInput.VPCEndpointID'' (crVPCEndpointID a) (crVPCEndpointID b) d12
     in c ''CreateRouteInput.VPCPeeringConnectionID'' (crVPCPeeringConnectionID a) (crVPCPeeringConnectionID b) d13)"

text \<open>The last element takes the place of the removed one.\<close>

definition swapRemove :: "'a list \<Rightarrow> nat \<Rightarrow> 'a list" where
  "swapRemove s i = take (length s - 1) (if i < length s - 1 then s[i := s ! (length s - 1)] else s)"

fun firstMatch :: "('a \<Rightarrow> bool) \<Rightarrow> 'a list \<Rightarrow> nat option" where
  "firstMatch p [] = None"
| "firstMatch p (x # xs) = (if p x then Some 0 else map_option Suc (firstMatch p xs))"

fun differenceLoop ::
  "('a \<Rightarrow> 'a \<Rightarrow> delta) \<Rightarrow> 'a list \<Rightarrow> 'a list \<Rightarrow> 'a list \<Rightarrow> 'a list \<times> 'a list" where
  "differenceLoop cmp [] toAdd toDelete = (toAdd, toDelete)"
| "differenceLoop cmp (routeA # desired) toAdd toDelete =
     (case firstMatch (\<lambda>routeB. length (cmp routeA routeB) = 0) toDelete of
        Some idx \<Rightarrow> differenceLoop cmp desired toAdd (swapRemove toDelete idx)
      | None \<Rightarrow> differenceLoop cmp desired (toAdd @ [routeA]) toDelete)"

definition getRoutesDifference :: "('a \<Rightarrow> 'a \<Rightarrow> delta) \<Rightarrow> 'a list \<Rightarrow> 'a list \<Rightarrow> 'a list \<times> 'a list" where
  "getRoutesDifference cmp desired latest = differenceLoop cmp desired [] latest"

definition LocalRouteGateway :: string where "LocalRouteGateway = ''local''"

definition removeLocalRoute :: "create_route_input list \<Rightarrow> create_route_input list" where
  "removeLocalRoute routes =
     filter (\<lambda>route. crGatewayID route = None \<or> crGatewayID route \<noteq> Some LocalRouteGateway) routes"

text \<open>
  \<open>strings.EqualFold(s, "AWS")\<close>: the letters fold to their lower case, and \<open>S\<close> also to the
  long s, U+017F, whose UTF-8 bytes are C5 BF.
\<close>

definition equalFoldAWS :: "string \<Rightarrow> bool" where
  "equalFoldAWS s = (case s of
       a # w # rest \<Rightarrow> (a = CHR ''A'' \<or> a = CHR ''a'') \<and> (w = CHR ''W'' \<or> w = CHR ''w'')
         \<and> (rest = ''S'' \<or> rest = ''s'' \<or> rest = [CHR 0xC5, CHR 0xBF])
     | _ \<Rightarrow> False)"

text \<open>A failed \<open>DescribeManagedPrefixLists\<close> is recorded as a success and drops all prefix-list routes.\<close>

definition excludeAWSRoute ::
  "'x route_api_scheme \<Rightarrow> lo_helpers \<Rightarrow> create_route_input list \<Rightarrow> (create_route_input list \<times> error option) act" where
  "excludeAWSRoute api L routes =
     (let rest = loReject L (\<lambda>route. crDestinationPrefixListID route \<noteq> None) routes;
          prefixListRoutes = loFilter L (\<lambda>route. crDestinationPrefixListID route \<noteq> None) routes
      in bind (loMap L (\<lambda>route. deref (crDestinationPrefixListID route)) prefixListRoutes) (\<lambda>prefixListIds.
         bind (invoke DescribeManagedPrefixLists (onDescribeManagedPrefixLists api) prefixListIds) (\<lambda>r.
         bind (recordAPICall ''READ_MANY'' ''DescribeManagedPrefixLists'' None) (\<lambda>_.
         case r of Inl e \<Rightarrow> ret (rest, None) | Inr out \<Rightarrow>
         bind (deref out) (\<lambda>prefixLists.
         bind (loFilterMapLists L (\<lambda>mpl. bind (deref (mplOwnerId mpl)) (\<lambda>owner.
                 if equalFoldAWS owner then bind (deref (mplPrefixListId mpl)) (\<lambda>i. ret (Some i)) else ret None))
               prefixLists) (\<lambda>m.
         bind (loFilterMapRoutes L (\<lambda>route. bind (deref (crDestinationPrefixListID route)) (\<lambda>i.
                 ret (if loIndexOf L m i = - 1 then Some route else None))) prefixListRoutes) (\<lambda>filtered_routes.
         ret (rest @ filtered_routes, None))))))))"

subsection \<open>Synchronising the routes\<close>

definition newCreateRouteInput :: "create_route_input \<Rightarrow> create_route_request" where
  "newCreateRouteInput c =
     \<lparr>crqCarrierGatewayId = crCarrierGatewayID c, crqCoreNetworkArn = crCoreNetworkARN c,
      crqDestinationCidrBlock = crDestinationCIDRBlock c, crqDestinationIpv6CidrBlock = crDestinationIPv6CIDRBlock c,
      crqDestinationPrefixListId = crDestinationPrefixListID c,
      crqEgressOnlyInternetGatewayId = crEgressOnlyInternetGatewayID c,
      crqGatewayId = crGatewayID c, crqInstanceId = crInstanceID c, crqLocalGatewayId = crLocalGatewayID c,
      crqNatGatewayId = crNATGatewayID c, crqNetworkInterfaceId = crNetworkInterfaceID c,
      crqTransitGatewayId = crTransitGatewayID c, crqVpcEndpointId = crVPCEndpointID c,
      crqVpcPeeringConnectionId = crVPCPeeringConnectionID c, crqRouteTableId = None\<rparr>"

definition newDeleteRouteInput :: "create_route_input \<Rightarrow> delete_route_request" where
  "newDeleteRouteInput c =
     \<lparr>drqDestinationCidrBlock = crDestinationCIDRBlock c, drqDestinationIpv6CidrBlock = crDestinationIPv6CIDRBlock c,
      drqDestinationPrefixListId = crDestinationPrefixListID c, drqRouteTableId = None\<rparr>"

definition createRoute :: "'x route_api_scheme \<Rightarrow> route_table \<Rightarrow> create_route_input \<Rightarrow> error option act" where
  "createRoute api r c =
     callRecord CreateRoute (onCreateRoute api) ''CREATE'' ''CreateRoute''
       ((newCreateRouteInput c)\<lparr>crqRouteTableId := RouteTableID (rtStatus r)\<rparr>)"

definition deleteRoute :: "'x route_api_scheme \<Rightarrow> route_table option \<Rightarrow> create_route_input \<Rightarrow> error option act" where
  "deleteRoute api r c =
     bind (deref r) (\<lambda>k. callRecord DeleteRoute (onDeleteRoute api) ''DELETE'' ''DeleteRoute''
       ((newDeleteRouteInput c)\<lparr>drqRouteTableId := RouteTableID (rtStatus k)\<rparr>))"

definition putRoutes :: "create_route_input list \<Rightarrow> route_table \<Rightarrow> route_table" where
  "putRoutes rs k = k\<lparr>rtSpec := (rtSpec k)\<lparr>Routes := rs\<rparr>\<rparr>"

text \<open>
  \<open>syncRoutes\<close> filters the routes of its arguments in place, which are returned with the
  error. The desired resource is never nil at its call sites.
\<close>

definition filterRoutes ::
  "'x route_api_scheme \<Rightarrow> lo_helpers \<Rightarrow> route_table \<Rightarrow> (route_table \<times> error option) act" where
  "filterRoutes api L k =
     (let k' = putRoutes (removeLocalRoute (Routes (rtSpec k))) k in
      bind (excludeAWSRoute api L (Routes (rtSpec k'))) (\<lambda>(rs, err). ret (putRoutes rs k', err)))"

definition syncRoutes ::
  "'x route_api_scheme \<Rightarrow> lo_helpers \<Rightarrow> (create_route_input \<Rightarrow> create_route_input \<Rightarrow> delta)
   \<Rightarrow> route_table \<Rightarrow> route_table option \<Rightarrow> (route_table \<times> route_table option \<times> error option) act" where
  "syncRoutes api L cmp desired0 latest0 =
     bind (case latest0 of None \<Rightarrow> ret (None, None)
           | Some l \<Rightarrow> bind (filterRoutes api L l) (\<lambda>(l', err). ret (Some l', err))) (\<lambda>(latest, err).
     ifErr err (\<lambda>e. ret (desired0, latest, Some e))
    (bind (filterRoutes api L desired0) (\<lambda>(desired, err).
     ifErr err (\<lambda>e. ret (desired, latest, Some e))
    (let (toAdd, toDelete) =
           (case latest of Some l \<Rightarrow> getRoutesDifference cmp (Routes (rtSpec desired)) (Routes (rtSpec l))
            | None \<Rightarrow> (Routes (rtSpec desired), []))
     in bind (forErr (deleteRoute api latest) toDelete) (\<lambda>err.
        ifErr err (\<lambda>e. ret (desired, latest, Some e))
       (bind (forErr (createRoute api desired) toAdd) (\<lambda>err.
        ret (desired, latest, err))))))))"

definition createRoutes ::
  "'x route_api_scheme \<Rightarrow> lo_helpers \<Rightarrow> (create_route_input \<Rightarrow> create_route_input \<Rightarrow> delta)
   \<Rightarrow> route_table \<Rightarrow> (route_table \<times> error option) act" where
  "createRoutes api L cmp r = bind (syncRoutes api L cmp r None) (\<lambda>(r', _, err). ret (r', err))"

subsection \<open>Reading\<close>

definition setResourceRoute :: "sdk_route \<Rightarrow> route" where
  "setResourceRoute x =
     \<lparr>rCarrierGatewayID = sdkRoCarrierGatewayId x, rCoreNetworkARN = sdkRoCoreNetworkArn x,
      rDestinationCIDRBlock = sdkRoDestinationCidrBlock x,
      rDestinationIPv6CIDRBlock = sdkRoDestinationIpv6CidrBlock x,
      rDestinationPrefixListID = sdkRoDestinationPrefixListId x,
      rEgressOnlyInternetGatewayID = sdkRoEgressOnlyInternetGatewayId x, rGatewayID = sdkRoGatewayId x,
      rInstanceID = sdkRoInstanceId x, rInstanceOwnerID = sdkRoInstanceOwnerId x,
      rLocalGatewayID = sdkRoLocalGatewayId x, rNATGatewayID = sdkRoNatGatewayId x,
      rNetworkInterfaceID = sdkRoNetworkInterfaceId x, rOrigin = enumPtr (sdkRoOrigin x),
      rState = enumPtr (sdkRoState x), rTransitGatewayID = sdkRoTransitGatewayId x,
      rVPCPeeringConnectionID = sdkRoVpcPeeringConnectionId x\<rparr>"

definition addRoutesToStatus :: "route_table \<Rightarrow> sdk_route_table \<Rightarrow> route_table" where
  "addRoutesToStatus ko routeTable =
     ko\<lparr>rtStatus := (rtStatus ko)\<lparr>RouteStatuses := map_option (map setResourceRoute) (sdkRtRoutes routeTable)\<rparr>\<rparr>"

text \<open>The route of an answer as a route of the spec; the VPC endpoint and the references stay nil.\<close>

definition routeFromSdk :: "sdk_route \<Rightarrow> create_route_input" where
  "routeFromSdk x =
     \<lparr>crCarrierGatewayID = sdkRoCarrierGatewayId x, crCoreNetworkARN = sdkRoCoreNetworkArn x,
      crDestinationCIDRBlock = sdkRoDestinationCidrBlock x,
      crDestinationIPv6CIDRBlock = sdkRoDestinationIpv6CidrBlock x,
      crDestinationPrefixListID = sdkRoDestinationPrefixListId x,
      crEgressOnlyInternetGatewayID = sdkRoEgressOnlyInternetGatewayId x, crGatewayID = sdkRoGatewayId x,
      crGatewayRef = None, crInstanceID = sdkRoInstanceId x, crLocalGatewayID = sdkRoLocalGatewayId x,
      crNATGatewayID = sdkRoNatGatewayId x, crNATGatewayRef = None,
      crNetworkInterfaceID = sdkRoNetworkInterfaceId x, crTransitGatewayID = sdkRoTransitGatewayId x,
      crTransitGatewayRef = None, crVPCEndpointID = None, crVPCEndpointRef = None,
      crVPCPeeringConnectionID = sdkRoVpcPeeringConnectionId x, crVPCPeeringConnectionRef = None\<rparr>"

definition associationFromSdk :: "sdk_route_table_association \<Rightarrow> route_table_association" where
  "associationFromSdk x =
     \<lparr>rtaAssociationState = map_option (\<lambda>st. \<lparr>rtasState = enumPtr (sdkAsState st),
        rtasStatusMessage = sdkAsStatusMessage st\<rparr>) (sdkRtaAssociationState x),
      rtaGatewayID = sdkRtaGatewayId x, rtaMain = sdkRtaMain x,
      rtaRouteTableAssociationID = sdkRtaRouteTableAssociationId x, rtaRouteTableID = sdkRtaRouteTableId x,
      rtaSubnetID = sdkRtaSubnetId x\<rparr>"

text \<open>What \<open>sdkFind\<close> and \<open>sdkCreate\<close> copy from the route table of an answer.\<close>

definition setFromRouteTable :: "route_table \<Rightarrow> sdk_route_table \<Rightarrow> route_table" where
  "setFromRouteTable k elem =
     k\<lparr>rtSpec := (rtSpec k)\<lparr>Routes := map routeFromSdk (elems (sdkRtRoutes elem)),
                            rtTags := map_option resourceTags (sdkRtTags elem), rtVPCID := sdkRtVpcId elem\<rparr>,
       rtStatus := (rtStatus k)\<lparr>
         rtAssociations := map_option (map associationFromSdk) (sdkRtAssociations elem),
         rtOwnerID := sdkRtOwnerId elem, PropagatingVGWs := sdkRtPropagatingVgws elem,
         RouteTableID := sdkRtRouteTableId elem\<rparr>\<rparr>"

definition defaults_RouteTable :: "resource_manager \<Rightarrow> route_table \<Rightarrow> route_table" where
  "defaults_RouteTable rm k = k\<lparr>rtStatus := setStatusDefaults rm (rtStatus k)\<rparr>"

text \<open>EC2 reports the VPC endpoint of a route as its gateway.\<close>

definition vpcePrefix :: string where "vpcePrefix = ''vpce-''"

definition moveVpcEndpoint :: "create_route_input \<Rightarrow> create_route_input" where
  "moveVpcEndpoint route =
     (case crGatewayID route of
        Some g \<Rightarrow> if prefix vpcePrefix g then route\<lparr>crVPCEndpointID := Some g, crGatewayID := None\<rparr> else route
      | None \<Rightarrow> route)"

definition requiredFieldsMissing_RouteTable :: "route_table \<Rightarrow> bool" where
  "requiredFieldsMissing_RouteTable r \<longleftrightarrow> RouteTableID (rtStatus r) = None"

definition newListRequestPayload_RouteTable :: "route_table \<Rightarrow> describe_tables_input" where
  "newListRequestPayload_RouteTable r =
     \<lparr>dtRouteTableIds = (case RouteTableID (rtStatus r) of None \<Rightarrow> [] | Some i \<Rightarrow> [i]), dtFilters = [], dtNextToken = None\<rparr>"

definition keepTagOrder_RouteTable :: "route_table \<Rightarrow> route_table \<Rightarrow> route_table" where
  "keepTagOrder_RouteTable r ko = ko\<lparr>rtSpec := (rtSpec ko)\<lparr>rtTags := keepTagOrder (rtTags (rtSpec r)) (rtTags (rtSpec ko))\<rparr>\<rparr>"

definition readRouteTable :: "resource_manager \<Rightarrow> route_table \<Rightarrow> sdk_route_table \<Rightarrow> route_table" where
  "readRouteTable rm r elem =
     (let ko = addRoutesToStatus (defaults_RouteTable rm (setFromRouteTable r elem)) elem;
          ko' = keepTagOrder_RouteTable r ko
      in putRoutes (map moveVpcEndpoint (Routes (rtSpec ko'))) ko')"

definition sdkFind_RouteTable ::
  "'x route_api_scheme \<Rightarrow> resource_manager \<Rightarrow> route_table \<Rightarrow> (route_table option \<times> error option) act" where
  "sdkFind_RouteTable api rm r =
     (if requiredFieldsMissing_RouteTable r then ret (None, Some NotFound)
      else
        bind (invoke DescribeRouteTables (onDescribeRouteTables api) (newListRequestPayload_RouteTable r)) (\<lambda>resp.
        bind (recordAPICall ''READ_MANY'' ''DescribeRouteTables'' (errOf resp)) (\<lambda>_.
        case resp of
          Inl e \<Rightarrow> ret (None, Some (if errorCode e = Some ''UNKNOWN'' then NotFound else e))
        | Inr out \<Rightarrow>
            bind (deref out) (\<lambda>o'.
            case outRouteTables o' of
              [] \<Rightarrow> ret (None, Some NotFound)
            | elem # _ \<Rightarrow> ret (Some (readRouteTable rm r elem), None)))))"

subsection \<open>Creating\<close>

definition newCreateRequestPayload_RouteTable :: "route_table \<Rightarrow> create_in_vpc_input" where
  "newCreateRequestPayload_RouteTable r = \<lparr>civVpcId = rtVPCID (rtSpec r), civTagSpecifications = None\<rparr>"

definition updateTagSpecifications_RouteTable :: "route_table \<Rightarrow> create_in_vpc_input \<Rightarrow> create_in_vpc_input" where
  "updateTagSpecifications_RouteTable r input =
     input\<lparr>civTagSpecifications := tagSpecificationsFor ''route-table'' (rtTags (rtSpec r))\<rparr>"

definition requiredFieldsMissingForCreateRoute :: "route_table \<Rightarrow> bool" where
  "requiredFieldsMissingForCreateRoute r \<longleftrightarrow> RouteTableID (rtStatus r) = None"

text \<open>What follows once the table exists: its routes are created through a copy.\<close>

definition afterCreate_RouteTable ::
  "'x route_api_scheme \<Rightarrow> lo_helpers \<Rightarrow> (create_route_input \<Rightarrow> create_route_input \<Rightarrow> delta)
   \<Rightarrow> route_table \<Rightarrow> route_table \<Rightarrow> (route_table option \<times> error option) act" where
  "afterCreate_RouteTable api L cmp desired ko =
     (if requiredFieldsMissingForCreateRoute ko then ret (None, Some NotFound)
      else if length (Routes (rtSpec desired)) > 0
      then (let ko' = putRoutes (Routes (rtSpec ko) @ Routes (rtSpec desired)) ko in
            bind (createRoutes api L cmp ko') (\<lambda>(_, err).
            ifErr err (\<lambda>e. ret (None, Some e)) (ret (Some (keepTagOrder_RouteTable desired ko'), None))))
      else ret (Some (keepTagOrder_RouteTable desired ko), None))"

definition sdkCreate_RouteTable ::
  "'x route_api_scheme \<Rightarrow> lo_helpers \<Rightarrow> (create_route_input \<Rightarrow> create_route_input \<Rightarrow> delta)
   \<Rightarrow> resource_manager \<Rightarrow> route_table \<Rightarrow> (route_table option \<times> error option) act" where
  "sdkCreate_RouteTable api L cmp rm desired =
     (let input = updateTagSpecifications_RouteTable desired (newCreateRequestPayload_RouteTable desired) in
      bind (invoke CreateRouteTable (onCreateRouteTable api) input) (\<lambda>r.
      bind (recordAPICall ''CREATE'' ''CreateRouteTable'' (errOf r)) (\<lambda>_.
      case r of Inl e \<Rightarrow> ret (None, Some e) | Inr out \<Rightarrow>
      bind (deref out) (\<lambda>resp.
      bind (deref resp) (\<lambda>elem.
      afterCreate_RouteTable api L cmp desired
        (addRoutesToStatus (defaults_RouteTable rm (setFromRouteTable desired elem)) elem))))))"

subsection \<open>Updating and deleting\<close>

text \<open>The first result is \<open>latest\<close>, whose routes \<open>syncRoutes\<close> filters in place.\<close>

definition customUpdateRouteTable ::
  "'x route_api_scheme \<Rightarrow> lo_helpers \<Rightarrow> (create_route_input \<Rightarrow> create_route_input \<Rightarrow> delta) \<Rightarrow> resource_manager
   \<Rightarrow> route_table \<Rightarrow> route_table \<Rightarrow> (string \<Rightarrow> bool) \<Rightarrow> (route_table \<times> route_table option \<times> error option) act" where
  "customUpdateRouteTable api L cmp rm desired latest differentAt =
     bind (if differentAt ''Spec.Tags''
           then bind (deref (RouteTableID (rtStatus latest))) (\<lambda>i.
                Sync api i (elems (rtTags (rtSpec desired))) (elems (rtTags (rtSpec latest))))
           else ret None) (\<lambda>err.
     ifErr err (\<lambda>e. ret (latest, None, Some e))
    (if \<not> differentAt ''Spec.Routes'' then ret (latest, Some desired, None)
     else bind (syncRoutes api L cmp desired (Some latest)) (\<lambda>(desired', latest0, err).
          bind (deref latest0) (\<lambda>latest'.
          ifErr err (\<lambda>e. ret (latest', None, Some e))
         (bind (sdkFind_RouteTable api rm desired') (\<lambda>(found, err).
          ifErr err (\<lambda>e. ret (latest', None, Some e))
         (bind (deref found) (\<lambda>updated.
          ret (latest', Some (desired'\<lparr>rtStatus := rtStatus updated\<rparr>), None)))))))))"

definition newDeleteRequestPayload_RouteTable :: "route_table \<Rightarrow> string option" where
  "newDeleteRequestPayload_RouteTable r = RouteTableID (rtStatus r)"

definition sdkDelete_RouteTable :: "'x route_api_scheme \<Rightarrow> route_table \<Rightarrow> (route_table option \<times> error option) act" where
  "sdkDelete_RouteTable api r =
     bind (callRecord DeleteRouteTable (onDeleteRouteTable api) ''DELETE'' ''DeleteRouteTable''
             (newDeleteRequestPayload_RouteTable r)) (\<lambda>err. ret (None, err))"

subsection \<open>Comparing\<close>

text \<open>The comparison removes the local routes of both resources in place.\<close>

definition customPreCompare_RouteTable ::
  "(create_route_input \<Rightarrow> create_route_input \<Rightarrow> delta) \<Rightarrow> route_table \<Rightarrow> route_table \<Rightarrow> route_table \<times> route_table \<times> delta" where
  "customPreCompare_RouteTable cmp a b =
     (let a' = putRoutes (removeLocalRoute (Routes (rtSpec a))) a;
          b' = putRoutes (removeLocalRoute (Routes (rtSpec b))) b;
          (desired, latest) = getRoutesDifference cmp (Routes (rtSpec a')) (Routes (rtSpec b'))
      in (a', b', if length desired > 0 \<or> length latest > 0 then addDiff ''Spec.Routes'' [] else []))"

definition newResourceDelta_RouteTable ::
  "('x) ackcompare_scheme \<Rightarrow> route_table option \<Rightarrow> route_table option
   \<Rightarrow> (route_table option \<times> route_table option \<times> delta) act" where
  "newResourceDelta_RouteTable C a b =
     bothResources a b
       (\<lambda>x y. let (x', y', d1) = customPreCompare_RouteTable (compareCreateRouteInput (HasNilDifference C)) x y;
                  d2 = compareTags C ''Spec.Tags'' (rtTags (rtSpec x')) (rtTags (rtSpec y')) d1;
                  d3 = cmpStr C ''Spec.VPCID'' (rtVPCID (rtSpec x')) (rtVPCID (rtSpec y')) d2
              in (Some x', Some y', compareRef C ''Spec.VPCRef'' (rtVPCRef (rtSpec x')) (rtVPCRef (rtSpec y')) d3))
       (\<lambda>d. (a, b, d))"

subsection \<open>The kind\<close>

definition mirrorTags_RouteTable :: "(acktags \<Rightarrow> acktags) \<Rightarrow> route_table \<Rightarrow> route_table option \<Rightarrow> route_table" where
  "mirrorTags_RouteTable iter a b =
     (case b of None \<Rightarrow> a
      | Some l \<Rightarrow> a\<lparr>rtSpec := (rtSpec a)\<lparr>rtTags := mirrorAWSTags iter (rtTags (rtSpec a)) (rtTags (rtSpec l))\<rparr>\<rparr>)"

definition rtKind ::
  "'x route_api_scheme \<Rightarrow> lo_helpers \<Rightarrow> (create_route_input \<Rightarrow> create_route_input \<Rightarrow> delta)
   \<Rightarrow> resource_manager \<Rightarrow> error_texts \<Rightarrow> (delta \<Rightarrow> string \<Rightarrow> bool) \<Rightarrow> (acktags \<Rightarrow> acktags) \<Rightarrow> route_table kind" where
  "rtKind api L cmp rm env differentAt iter =
     \<lparr>findOp = (\<lambda>r. bind (sdkFind_RouteTable api rm r) (\<lambda>x. ret (r, x))),
      createOp = sdkCreate_RouteTable api L cmp rm,
      updateOp = (\<lambda>desired latest d. customUpdateRouteTable api L cmp rm desired latest (differentAt d)),
      deleteOp = sdkDelete_RouteTable api,
      mirrorOp = mirrorTags_RouteTable iter,
      conditionsOp = (\<lambda>k. Conditions (rtStatus k)),
      updateConditionsOp = conditionsUpdater env [] rm rtStatus (\<lambda>st k. k\<lparr>rtStatus := st\<rparr>)\<rparr>"

subsection \<open>The difference of two lists of routes\<close>

text \<open>The comparison looks at every field but the references, which are resolved by then.\<close>

definition withoutRefs :: "create_route_input \<Rightarrow> create_route_input" where
  "withoutRefs c = c\<lparr>crGatewayRef := None, crNATGatewayRef := None, crTransitGatewayRef := None,
     crVPCEndpointRef := None, crVPCPeeringConnectionRef := None\<rparr>"

abbreviation sameRoute :: "create_route_input \<Rightarrow> create_route_input \<Rightarrow> delta" where
  "sameRoute \<equiv> compareCreateRouteInput nilDiff"

lemma compareStr_Nil: "comparePtr nilDiff IStr p x y d = [] \<longleftrightarrow> d = [] \<and> x = y"
  by (simp add: hnd_law_nilDiff)

lemma compareCreateRouteInput_exact: "sameRoute a b = [] \<longleftrightarrow> withoutRefs a = withoutRefs b"
  unfolding compareCreateRouteInput_def Let_def compareStr_Nil
  by (cases a; cases b) (simp add: withoutRefs_def conj_assoc)

lemma mset_swapRemove: "i < length s \<Longrightarrow> mset (swapRemove s i) = mset s - {#s ! i#}"
proof -
  assume i: "i < length s"
  then obtain xs x where s: "s = xs @ [x]" by (cases s rule: rev_cases) auto
  show ?thesis
  proof (cases "i < length xs")
    case True
    then have "mset (xs[i := x]) = add_mset x (mset xs - {#xs ! i#})" by (simp add: mset_update)
    moreover have "xs ! i \<in># mset xs" using True by simp
    ultimately show ?thesis using True s by (simp add: swapRemove_def nth_append list_update_append)
  next
    case False
    with i s show ?thesis by (simp add: swapRemove_def nth_append)
  qed
qed

lemma firstMatch_None: "firstMatch p xs = None \<longleftrightarrow> (\<forall>x \<in> set xs. \<not> p x)"
  by (induction xs) auto

lemma firstMatch_Some: "firstMatch p xs = Some i \<Longrightarrow> i < length xs \<and> p (xs ! i)"
  by (induction xs arbitrary: i) (auto split: if_splits)

lemma differenceLoop_bags:
  assumes "\<And>a b. cmp a b = [] \<longleftrightarrow> key a = key b"
  shows "image_mset key (mset (fst (differenceLoop cmp desired add del)))
       = image_mset key (mset add) + (image_mset key (mset desired) - image_mset key (mset del))
    \<and> image_mset key (mset (snd (differenceLoop cmp desired add del)))
       = image_mset key (mset del) - image_mset key (mset desired)"
proof (induction desired arbitrary: add del)
  case (Cons a desired)
  show ?case
  proof (cases "firstMatch (\<lambda>b. length (cmp a b) = 0) del")
    case None
    then have "key a \<notin># image_mset key (mset del)"
      using assms by (auto simp: firstMatch_None)
    with Cons.IH [of "add @ [a]" del] None show ?thesis
      by (simp add: diff_union_swap2 diff_add_mset_swap)
  next
    case (Some i)
    then have i: "i < length del" "key (del ! i) = key a"
      using firstMatch_Some [OF Some] assms by auto
    then have "image_mset key (mset (swapRemove del i)) = image_mset key (mset del) - {#key a#}"
      by (simp add: mset_swapRemove image_mset_Diff)
    moreover from i have "key a \<in># image_mset key (mset del)"
      by (metis imageI nth_mem set_image_mset set_mset_mset)
    then obtain M where "image_mset key (mset del) = add_mset (key a) M" by (metis insert_DiffM)
    ultimately show ?thesis using Cons.IH [of add "swapRemove del i"] Some by simp
  qed
qed simp

lemmas differenceLoop_routes = differenceLoop_bags [where cmp = sameRoute and key = withoutRefs, OF compareCreateRouteInput_exact]

interpretation route_diff: bag_diff withoutRefs "getRoutesDifference sameRoute"
  by unfold_locales (simp_all add: getRoutesDifference_def differenceLoop_routes)

text \<open>
  C22. \<open>getRoutesDifference\<close>, which removes matches from a copy of \<open>latest\<close> by moving its last
  element, computes the two differences of the lists as multisets: a route that occurs more
  often in one list is in that list's difference as often as it occurs more. Removing and
  adding what it returns turns the latest routes into the desired ones, and it returns two empty
  lists exactly when the lists are permutations of each other up to references.
\<close>

theorem getRoutesDifference_multisets:
  "let (toAdd, toDelete) = getRoutesDifference sameRoute desired latest;
       routes = \<lambda>rs. image_mset withoutRefs (mset rs) in
     routes toAdd = routes desired - routes latest
   \<and> routes toDelete = routes latest - routes desired
   \<and> routes latest - routes toDelete + routes toAdd = routes desired
   \<and> (toAdd = [] \<and> toDelete = [] \<longleftrightarrow> routes desired = routes latest)"
proof -
  obtain toAdd toDelete where d: "getRoutesDifference sameRoute desired latest = (toAdd, toDelete)" by fastforce
  note facts = route_diff.bag_toAdd [of desired latest] route_diff.bag_toDelete [of desired latest]
    route_diff.bag_converges [of latest desired] route_diff.bag_idle_iff [of desired latest]
  show ?thesis using facts unfolding d Let_def by simp
qed

subsection \<open>Routes that belong to AWS\<close>

text \<open>
  An answer of \<open>DescribeManagedPrefixLists\<close> in which every list has an owner and an identifier,
  the lists of it that AWS owns, and the routes that \<open>excludeAWSRoute\<close> leaves.
\<close>

definition wfLists :: "error + managed_prefix_list list option \<Rightarrow> bool" where
  "wfLists ans = (case ans of Inl _ \<Rightarrow> True | Inr None \<Rightarrow> False
     | Inr (Some ls) \<Rightarrow> \<forall>l \<in> set ls. mplOwnerId l \<noteq> None \<and> mplPrefixListId l \<noteq> None)"

definition awsLists :: "error + managed_prefix_list list option \<Rightarrow> string set" where
  "awsLists ans = (case ans of Inr (Some ls) \<Rightarrow>
       (\<lambda>l. the (mplPrefixListId l)) ` {l \<in> set ls. equalFoldAWS (the (mplOwnerId l))}
     | _ \<Rightarrow> {})"

definition userRoutes :: "error + managed_prefix_list list option \<Rightarrow> create_route_input list \<Rightarrow> create_route_input list" where
  "userRoutes ans routes =
     filter (\<lambda>r. crDestinationPrefixListID r = None) routes
     @ (case ans of Inl _ \<Rightarrow> [] | Inr _ \<Rightarrow>
          filter (\<lambda>r. the (crDestinationPrefixListID r) \<notin> awsLists ans)
            (filter (\<lambda>r. crDestinationPrefixListID r \<noteq> None) routes))"

abbreviation listIds :: "create_route_input list \<Rightarrow> string list" where
  "listIds routes \<equiv> List.map_filter crDestinationPrefixListID routes"

definition describedLists :: "call log \<Rightarrow> create_route_input list \<Rightarrow> call log" where
  "describedLists s routes = s @ [Call (DescribeManagedPrefixLists (listIds routes)),
     Metric ''READ_MANY'' ''DescribeManagedPrefixLists'' None]"

abbreviation answersLists :: "'x route_api_scheme \<Rightarrow> bool" where
  "answersLists api \<equiv> \<forall>s ids. wfLists (onDescribeManagedPrefixLists api s ids)"

lemma filterMapAct_ret:
  "(\<And>x. x \<in> set xs \<Longrightarrow> f x = ret (g x)) \<Longrightarrow> filterMapAct f xs = ret (List.map_filter g xs)"
  by (simp add: filterMapAct_def mapAct_ret [of xs f g] List.map_filter_def comp_def fun_eq_iff filter_map)

lemma map_filter_if: "List.map_filter (\<lambda>x. if P x then Some x else None) xs = filter P xs"
  by (induction xs) (simp_all add: List.map_filter_def)

lemma excludeAWSRoute_run:
  assumes "lo_law L" and "wfLists (onDescribeManagedPrefixLists api s (listIds routes))"
  shows "excludeAWSRoute api L routes s
    = (Ret (userRoutes (onDescribeManagedPrefixLists api s (listIds routes)) routes, None), describedLists s routes)"
proof -
  let ?ans = "onDescribeManagedPrefixLists api s (listIds routes)"
  let ?pls = "filter (\<lambda>r. crDestinationPrefixListID r \<noteq> None) routes"
  have ids: "mapAct (\<lambda>route. deref (crDestinationPrefixListID route)) ?pls = (ret (listIds routes) :: string list act)"
    by (subst mapAct_ret [where g = "\<lambda>r. the (crDestinationPrefixListID r)"]) (auto simp: List.map_filter_def comp_def)
  show ?thesis
  proof (cases ?ans)
    case (Inl e)
    with assms(1) ids show ?thesis
      by (simp add: excludeAWSRoute_def Let_def lo_law_def userRoutes_def describedLists_def del: not_None_eq)
  next
    case (Inr out)
    with assms(2) obtain ls where ls: "?ans = Inr (Some ls)"
      "\<forall>l \<in> set ls. mplOwnerId l \<noteq> None \<and> mplPrefixListId l \<noteq> None"
      by (auto simp: wfLists_def split: option.splits)
    let ?own = "\<lambda>mpl. if equalFoldAWS (the (mplOwnerId mpl)) then mplPrefixListId mpl else None"
    have m: "filterMapAct (\<lambda>mpl. bind (deref (mplOwnerId mpl)) (\<lambda>owner.
                 if equalFoldAWS owner then bind (deref (mplPrefixListId mpl)) (\<lambda>i. ret (Some i)) else ret None)) ls
        = (ret (List.map_filter ?own ls) :: string list act)"
      by (rule filterMapAct_ret, drule ls(2) [rule_format]) auto
    have aws: "set (List.map_filter ?own ls) = awsLists ?ans"
      using ls by (force simp: awsLists_def List.map_filter_def)
    have f: "filterMapAct (\<lambda>route. bind (deref (crDestinationPrefixListID route)) (\<lambda>i.
                 ret (if loIndexOf L (List.map_filter ?own ls) i = - 1 then Some route else None))) ?pls
        = (ret (filter (\<lambda>r. the (crDestinationPrefixListID r) \<notin> awsLists ?ans) ?pls) :: create_route_input list act)"
    proof (subst filterMapAct_ret [where g = "\<lambda>r. if the (crDestinationPrefixListID r) \<notin> awsLists ?ans then Some r else None"])
      show "bind (deref (crDestinationPrefixListID x)) (\<lambda>i. ret (if loIndexOf L (List.map_filter ?own ls) i = - 1 then Some x else None))
          = ret (if the (crDestinationPrefixListID x) \<notin> awsLists ?ans then Some x else None)" if "x \<in> set ?pls" for x
        using that assms(1) by (auto simp: lo_law_def aws)
    qed (simp only: map_filter_if)
    show ?thesis
      using assms(1) ids ls(1) m f by (simp add: excludeAWSRoute_def Let_def lo_law_def userRoutes_def describedLists_def del: not_None_eq)
  qed
qed

lemma userRoutes_subset: "set (userRoutes ans routes) \<subseteq> set routes"
  by (auto simp: userRoutes_def split: sum.split)

lemma userRoutes_spares: "r \<in> set (userRoutes ans routes) \<Longrightarrow> crDestinationPrefixListID r = Some i \<Longrightarrow> i \<notin> awsLists ans"
  by (auto simp: userRoutes_def split: sum.splits)

lemma userRoutes_all_aws:
  assumes "\<forall>c \<in> set routes. \<forall>i. crDestinationPrefixListID c = Some i \<longrightarrow> i \<in> awsLists ans"
  shows "userRoutes ans routes = filter (\<lambda>c. crDestinationPrefixListID c = None) routes"
proof -
  have "filter (\<lambda>r. the (crDestinationPrefixListID r) \<notin> awsLists ans)
      (filter (\<lambda>r. crDestinationPrefixListID r \<noteq> None) routes) = []"
    using assms by (auto simp: filter_empty_conv) (metis option.exhaust_sel)
  then show ?thesis by (simp only: userRoutes_def) (simp split: sum.split)
qed

lemma differenceLoop_subset:
  "set (fst (differenceLoop cmp desired add del)) \<subseteq> set desired \<union> set add
   \<and> set (snd (differenceLoop cmp desired add del)) \<subseteq> set del"
proof (induction desired arbitrary: add del)
  case (Cons a desired)
  have sub: "set (swapRemove del i) \<subseteq> set del" if "i < length del" for i
    using that mset_swapRemove [OF that] by (metis diff_subset_eq_self set_mset_mono set_mset_mset)
  show ?case
  proof (cases "firstMatch (\<lambda>b. length (cmp a b) = 0) del")
    case None
    with Cons.IH [of "add @ [a]" del] show ?thesis by auto
  next
    case (Some i)
    with Cons.IH [of add "swapRemove del i"] sub [of i] firstMatch_Some [OF Some] show ?thesis by auto
  qed
qed simp

lemma getRoutesDifference_subset:
  "getRoutesDifference cmp desired latest = (toAdd, toDelete) \<Longrightarrow> set toAdd \<subseteq> set desired \<and> set toDelete \<subseteq> set latest"
  using differenceLoop_subset [of cmp desired "[]" latest] by (simp add: getRoutesDifference_def)

subsection \<open>What \<open>syncRoutes\<close> does\<close>

abbreviation routesOf :: "route_table \<Rightarrow> create_route_input list" where "routesOf k \<equiv> Routes (rtSpec k)"
abbreviation tableOf :: "route_table \<Rightarrow> string option" where "tableOf k \<equiv> RouteTableID (rtStatus k)"

definition deleteCall :: "route_table \<Rightarrow> create_route_input \<Rightarrow> call" where
  "deleteCall k c = DeleteRoute ((newDeleteRouteInput c)\<lparr>drqRouteTableId := tableOf k\<rparr>)"

definition createCall :: "route_table \<Rightarrow> create_route_input \<Rightarrow> call" where
  "createCall k c = CreateRoute ((newCreateRouteInput c)\<lparr>crqRouteTableId := tableOf k\<rparr>)"

lemma follows_routes:
  "follows (deleteRoute api (Some k) c) [deleteCall k c]" "follows (createRoute api k c) [createCall k c]"
  using follows_callRecord [where c = DeleteRoute] follows_callRecord [where c = CreateRoute]
  by (simp_all only: deleteRoute_def createRoute_def deleteCall_def createCall_def deref_simps bind_simps)

lemma putRoutes_simps [simp]:
  "routesOf (putRoutes rs k) = rs" "tableOf (putRoutes rs k) = tableOf k" "rtStatus (putRoutes rs k) = rtStatus k"
  "deleteCall (putRoutes rs k) = deleteCall k" "createCall (putRoutes rs k) = createCall k"
  by (simp_all add: putRoutes_def deleteCall_def createCall_def fun_eq_iff)

text \<open>The routes of a resource that are the user's, given an answer on the prefix lists.\<close>

abbreviation ownRoutes :: "error + managed_prefix_list list option \<Rightarrow> route_table \<Rightarrow> create_route_input list" where
  "ownRoutes ans k \<equiv> userRoutes ans (removeLocalRoute (routesOf k))"

lemma filterRoutes_run:
  assumes "lo_law L" "answersLists api"
  shows "\<exists>ans t. filterRoutes api L k s = (Ret (putRoutes (ownRoutes ans k) k, None), t)
    \<and> calls t = calls s @ [DescribeManagedPrefixLists (listIds (removeLocalRoute (routesOf k)))]
    \<and> ans = onDescribeManagedPrefixLists api s (listIds (removeLocalRoute (routesOf k)))"
proof -
  have "wfLists (onDescribeManagedPrefixLists api s (listIds (removeLocalRoute (routesOf k))))" using assms(2) by blast
  from excludeAWSRoute_run [OF assms(1) this] show ?thesis
    by (simp add: filterRoutes_def Let_def putRoutes_def describedLists_def)
qed

definition routesPlan ::
  "(create_route_input \<Rightarrow> create_route_input \<Rightarrow> delta) \<Rightarrow> route_table \<Rightarrow> create_route_input list
   \<Rightarrow> route_table \<Rightarrow> create_route_input list \<Rightarrow> call list" where
  "routesPlan cmp desired d latest l =
     map (deleteCall latest) (snd (getRoutesDifference cmp d l)) @ map (createCall desired) (fst (getRoutesDifference cmp d l))"

lemma syncRoutes_run:
  assumes "lo_law L" "answersLists api"
  obtains ans1 ans2 ys e t where
    "syncRoutes api L cmp desired (Some latest) s
      = (Ret (putRoutes (ownRoutes ans2 desired) desired, Some (putRoutes (ownRoutes ans1 latest) latest), e), t)"
    "calls t = calls s @ [DescribeManagedPrefixLists (listIds (removeLocalRoute (routesOf latest))),
                          DescribeManagedPrefixLists (listIds (removeLocalRoute (routesOf desired)))] @ ys"
    "prefix ys (routesPlan cmp desired (ownRoutes ans2 desired) latest (ownRoutes ans1 latest))"
    "e = None \<longrightarrow> ys = routesPlan cmp desired (ownRoutes ans2 desired) latest (ownRoutes ans1 latest)"
    "ans1 = onDescribeManagedPrefixLists api s (listIds (removeLocalRoute (routesOf latest)))"
    "wfLists ans2" "getRoutesDifference cmp (ownRoutes ans2 desired) (ownRoutes ans1 latest) = ([], []) \<longrightarrow> e = None"
proof -
  obtain ans1 t1 where 1: "filterRoutes api L latest s = (Ret (putRoutes (ownRoutes ans1 latest) latest, None), t1)"
    "calls t1 = calls s @ [DescribeManagedPrefixLists (listIds (removeLocalRoute (routesOf latest)))]"
    "ans1 = onDescribeManagedPrefixLists api s (listIds (removeLocalRoute (routesOf latest)))"
    using filterRoutes_run [OF assms] by blast
  obtain ans2 t2 where 2: "filterRoutes api L desired t1 = (Ret (putRoutes (ownRoutes ans2 desired) desired, None), t2)"
    "calls t2 = calls t1 @ [DescribeManagedPrefixLists (listIds (removeLocalRoute (routesOf desired)))]" "wfLists ans2"
    using filterRoutes_run [OF assms, of desired t1] assms(2) by blast
  let ?l = "putRoutes (ownRoutes ans1 latest) latest"
  let ?d = "putRoutes (ownRoutes ans2 desired) desired"
  obtain add del where diff: "getRoutesDifference cmp (ownRoutes ans2 desired) (ownRoutes ans1 latest) = (add, del)" by fastforce
  let ?m = "bind (forErr (deleteRoute api (Some ?l)) del) (\<lambda>err. ifErr err (\<lambda>e. ret (Some e)) (forErr (createRoute api ?d) add))"
  have "follows (forErr (deleteRoute api (Some ?l)) del) (map (deleteCall ?l) del)"
    "follows (forErr (createRoute api ?d) add) (map (createCall ?d) add)"
    by (rule follows_forErr, rule follows_routes)+
  then have "follows ?m (routesPlan cmp desired (ownRoutes ans2 desired) latest (ownRoutes ans1 latest))"
    using follows_seq by (fastforce simp: routesPlan_def diff)
  then obtain ys e t where m: "?m t2 = (Ret e, t)" "calls t = calls t2 @ ys"
    "prefix ys (routesPlan cmp desired (ownRoutes ans2 desired) latest (ownRoutes ans1 latest))"
    "e = None \<longrightarrow> ys = routesPlan cmp desired (ownRoutes ans2 desired) latest (ownRoutes ans1 latest)"
    by (rule followsE [where s = t2])
  have "syncRoutes api L cmp desired (Some latest) s = bind ?m (\<lambda>e. ret (?d, Some ?l, e)) t2"
    using 1(1) 2(1) diff by (simp add: syncRoutes_def bind_def ifErr_def split: prod.split outcome.split option.split)
  with m(1) have "syncRoutes api L cmp desired (Some latest) s = (Ret (?d, Some ?l, e), t)" by simp
  moreover have "add = [] \<and> del = [] \<longrightarrow> e = None" using m(1) by auto
  ultimately show ?thesis using that m 1 2 diff by simp
qed

text \<open>
  C21. What \<open>syncRoutes\<close> does to a route table. It asks twice which prefix lists AWS owns, then
  deletes the user's routes that are not desired, then creates the desired ones that are missing,
  in that order; it stops at the first error, and without an error it made every call. On any
  answers, every deletion is of a route of \<open>latest\<close> that is neither the local route nor a route to
  a prefix list that AWS owns, and it names the table of \<open>latest\<close>.
\<close>

theorem syncRoutes_spares_managed:
  assumes "lo_law L" "answersLists api"
  shows "\<exists>desired' latest' e ys.
      fst (syncRoutes api L cmp desired (Some latest) s) = Ret (desired', Some latest', e)
    \<and> calls (snd (syncRoutes api L cmp desired (Some latest) s))
        = calls s @ [DescribeManagedPrefixLists (listIds (removeLocalRoute (routesOf latest))),
                     DescribeManagedPrefixLists (listIds (removeLocalRoute (routesOf desired)))] @ ys
    \<and> prefix ys (routesPlan cmp desired (routesOf desired') latest (routesOf latest'))
    \<and> (e = None \<longrightarrow> ys = routesPlan cmp desired (routesOf desired') latest (routesOf latest'))
    \<and> (\<forall>req. DeleteRoute req \<in> set ys \<longrightarrow> (\<exists>c \<in> set (routesOf latest).
         DeleteRoute req = deleteCall latest c \<and> crGatewayID c \<noteq> Some LocalRouteGateway
       \<and> (\<forall>i. crDestinationPrefixListID c = Some i
            \<longrightarrow> i \<notin> awsLists (onDescribeManagedPrefixLists api s (listIds (removeLocalRoute (routesOf latest)))))))"
proof -
  let ?ans = "onDescribeManagedPrefixLists api s (listIds (removeLocalRoute (routesOf latest)))"
  obtain ans1 ans2 ys e t where r:
    "syncRoutes api L cmp desired (Some latest) s
      = (Ret (putRoutes (ownRoutes ans2 desired) desired, Some (putRoutes (ownRoutes ans1 latest) latest), e), t)"
    "calls t = calls s @ [DescribeManagedPrefixLists (listIds (removeLocalRoute (routesOf latest))),
                          DescribeManagedPrefixLists (listIds (removeLocalRoute (routesOf desired)))] @ ys"
    "prefix ys (routesPlan cmp desired (ownRoutes ans2 desired) latest (ownRoutes ans1 latest))"
    "e = None \<longrightarrow> ys = routesPlan cmp desired (ownRoutes ans2 desired) latest (ownRoutes ans1 latest)" "ans1 = ?ans"
    "wfLists ans2" "getRoutesDifference cmp (ownRoutes ans2 desired) (ownRoutes ans1 latest) = ([], []) \<longrightarrow> e = None"
    by (rule syncRoutes_run [OF assms, where cmp = cmp and desired = desired and latest = latest and s = s])
  have "\<exists>c \<in> set (routesOf latest). DeleteRoute req = deleteCall latest c \<and> crGatewayID c \<noteq> Some LocalRouteGateway
       \<and> (\<forall>i. crDestinationPrefixListID c = Some i \<longrightarrow> i \<notin> awsLists ?ans)" if "DeleteRoute req \<in> set ys" for req
  proof -
    let ?diff = "getRoutesDifference cmp (ownRoutes ans2 desired) (ownRoutes ans1 latest)"
    from that r(3) have "DeleteRoute req \<in> set (routesPlan cmp desired (ownRoutes ans2 desired) latest (ownRoutes ans1 latest))"
      using set_mono_prefix by blast
    then obtain c where c: "c \<in> set (snd ?diff)" "DeleteRoute req = deleteCall latest c"
      unfolding routesPlan_def set_append set_map by (auto simp only: createCall_def call.distinct)
    from getRoutesDifference_subset [OF prod.collapse [symmetric], of cmp "ownRoutes ans2 desired" "ownRoutes ans1 latest"] c(1)
    have m: "c \<in> set (ownRoutes ans1 latest)" by blast
    then have "c \<in> set (removeLocalRoute (routesOf latest))" using userRoutes_subset by blast
    then have "c \<in> set (routesOf latest)" "crGatewayID c \<noteq> Some LocalRouteGateway" by (auto simp: removeLocalRoute_def)
    moreover have "i \<notin> awsLists ?ans" if "crDestinationPrefixListID c = Some i" for i
      using userRoutes_spares [OF m that] r(5) by simp
    ultimately show ?thesis using c(2) by blast
  qed
  then have "\<forall>req. DeleteRoute req \<in> set ys \<longrightarrow> (\<exists>c \<in> set (routesOf latest). DeleteRoute req = deleteCall latest c
       \<and> crGatewayID c \<noteq> Some LocalRouteGateway \<and> (\<forall>i. crDestinationPrefixListID c = Some i \<longrightarrow> i \<notin> awsLists ?ans))" by blast
  with r(2-4) show ?thesis
    by (rule_tac exI [of _ "putRoutes (ownRoutes ans2 desired) desired"],
        rule_tac exI [of _ "putRoutes (ownRoutes ans1 latest) latest"], rule_tac exI [of _ e], rule_tac exI [of _ ys])
      (simp only: r(1) fst_conv snd_conv putRoutes_simps simp_thms)
qed

subsection \<open>A difference that no update removes\<close>

lemma withoutRefs_prefixList [simp]: "crDestinationPrefixListID (withoutRefs c) = crDestinationPrefixListID c"
  by (simp add: withoutRefs_def)

text \<open>
  C25. A route that AWS manages never settles. When the table holds a route to a prefix list
  that AWS owns (which a gateway endpoint adds) and is otherwise as desired, the comparison, which
  does not leave such routes out, reports \<open>Spec.Routes\<close>; but the update for that difference leaves
  it out and changes nothing, so that every later reconciliation finds the difference again.
\<close>

theorem aws_route_difference_persists:
  assumes "lo_law L" "answersLists api" "HasNilDifference C = nilDiff"
    and "c \<in> set (removeLocalRoute (routesOf latest))" "crDestinationPrefixListID c \<noteq> None"
    and "\<forall>c \<in> set (routesOf desired). crDestinationPrefixListID c = None"
    and "\<forall>c \<in> set (removeLocalRoute (routesOf latest)). \<forall>i. crDestinationPrefixListID c = Some i
           \<longrightarrow> i \<in> awsLists (onDescribeManagedPrefixLists api s (listIds (removeLocalRoute (routesOf latest))))"
    and "image_mset withoutRefs (mset (filter (\<lambda>c. crDestinationPrefixListID c = None) (removeLocalRoute (routesOf latest))))
       = image_mset withoutRefs (mset (removeLocalRoute (routesOf desired)))"
  shows "(\<exists>a b d. newResourceDelta_RouteTable C (Some desired) (Some latest) s = (Ret (a, b, d), s) \<and> ''Spec.Routes'' \<in> set d)
    \<and> (\<exists>r. fst (syncRoutes api L sameRoute desired (Some latest) s) = Ret r \<and> snd (snd r) = None)
    \<and> calls (snd (syncRoutes api L sameRoute desired (Some latest) s))
        = calls s @ [DescribeManagedPrefixLists (listIds (removeLocalRoute (routesOf latest))), DescribeManagedPrefixLists []]"
proof (intro conjI)
  let ?d = "removeLocalRoute (routesOf desired)" and ?l = "removeLocalRoute (routesOf latest)"
  have d: "\<forall>c \<in> set ?d. crDestinationPrefixListID c = None" using assms(6) by (simp add: removeLocalRoute_def)
  then have d': "filter (\<lambda>c. crDestinationPrefixListID c = None) ?d = ?d"
    "filter (\<lambda>c. crDestinationPrefixListID c \<noteq> None) ?d = []" "listIds ?d = []"
    by (simp_all add: filter_empty_conv List.map_filter_def)
  have "withoutRefs c \<in># image_mset withoutRefs (mset ?l)" using assms(4) by simp
  moreover have "withoutRefs c \<notin># image_mset withoutRefs (mset ?d)"
    using d assms(5) by (metis (no_types, lifting) imageE set_image_mset set_mset_mset withoutRefs_prefixList)
  ultimately have "getRoutesDifference sameRoute ?d ?l \<noteq> ([], [])" by (metis route_diff.bag_idle_iff)
  then obtain toAdd toDelete where diff: "getRoutesDifference sameRoute ?d ?l = (toAdd, toDelete)" "toAdd \<noteq> [] \<or> toDelete \<noteq> []"
    by (metis prod.collapse)
  then show "\<exists>a b d. newResourceDelta_RouteTable C (Some desired) (Some latest) s = (Ret (a, b, d), s) \<and> ''Spec.Routes'' \<in> set d"
    using assms(3) by (auto simp: newResourceDelta_RouteTable_def bothResources_def customPreCompare_RouteTable_def mem_compare)
  let ?ans = "onDescribeManagedPrefixLists api s (listIds ?l)"
  obtain ans1 ans2 ys e t where r:
    "syncRoutes api L sameRoute desired (Some latest) s
      = (Ret (putRoutes (ownRoutes ans2 desired) desired, Some (putRoutes (ownRoutes ans1 latest) latest), e), t)"
    "calls t = calls s @ [DescribeManagedPrefixLists (listIds ?l), DescribeManagedPrefixLists (listIds ?d)] @ ys"
    "prefix ys (routesPlan sameRoute desired (ownRoutes ans2 desired) latest (ownRoutes ans1 latest))"
    "e = None \<longrightarrow> ys = routesPlan sameRoute desired (ownRoutes ans2 desired) latest (ownRoutes ans1 latest)" "ans1 = ?ans" "wfLists ans2"
    "getRoutesDifference sameRoute (ownRoutes ans2 desired) (ownRoutes ans1 latest) = ([], []) \<longrightarrow> e = None"
    by (rule syncRoutes_run [OF assms(1,2), where cmp = sameRoute and desired = desired and latest = latest and s = s])
  have "ownRoutes ans2 desired = ?d" by (simp only: userRoutes_def d' filter.simps) (simp split: sum.split)
  moreover have "ownRoutes ans1 latest = filter (\<lambda>c. crDestinationPrefixListID c = None) ?l"
    unfolding r(5) by (rule userRoutes_all_aws [OF assms(7)])
  ultimately have "getRoutesDifference sameRoute (ownRoutes ans2 desired) (ownRoutes ans1 latest) = ([], [])"
    using assms(8) by (simp only: route_diff.bag_idle_iff)
  with r(7) have e: "e = None" and plan: "routesPlan sameRoute desired (ownRoutes ans2 desired) latest (ownRoutes ans1 latest) = []"
    by (simp_all add: routesPlan_def)
  with r(3) have "ys = []" by simp
  with r(1,2) d'(3) show "calls (snd (syncRoutes api L sameRoute desired (Some latest) s))
        = calls s @ [DescribeManagedPrefixLists (listIds ?l), DescribeManagedPrefixLists []]" by simp
  show "\<exists>r. fst (syncRoutes api L sameRoute desired (Some latest) s) = Ret r \<and> snd (snd r) = None"
    using r(1) e by simp
qed

subsection \<open>Reading a table\<close>

text \<open>
  C26. What \<open>sdkFind\<close> reads. A table it returns is the first of the answer for the stored
  identifier. Its routes are those of the answer, in order, in a form the spec can hold: no route has
  a VPC endpoint as its gateway (it is its endpoint instead), none has a reference, and the raw
  routes are kept in the status; its tags are those of the answer.
\<close>

theorem sdkFind_RouteTable_reads:
  assumes "fst (sdkFind_RouteTable api rm r s) = Ret (Some k, err)"
  shows "err = None \<and> (\<exists>i out elem rest. tableOf r = Some i
    \<and> onDescribeRouteTables api s \<lparr>dtRouteTableIds = [i], dtFilters = [], dtNextToken = None\<rparr> = Inr (Some out)
    \<and> outRouteTables out = elem # rest \<and> tableOf k = sdkRtRouteTableId elem
    \<and> routesOf k = map (moveVpcEndpoint \<circ> routeFromSdk) (elems (sdkRtRoutes elem))
    \<and> (\<forall>c \<in> set (routesOf k). withoutRefs c = c
         \<and> (\<forall>g. crGatewayID c = Some g \<longrightarrow> \<not> prefix vpcePrefix g)
         \<and> (\<forall>g. crVPCEndpointID c = Some g \<longrightarrow> prefix vpcePrefix g))
    \<and> elems (RouteStatuses (rtStatus k)) = map setResourceRoute (elems (sdkRtRoutes elem))
    \<and> tagsOf (elems (rtTags (rtSpec k))) = tagsOf (elems (map_option resourceTags (sdkRtTags elem))))"
proof -
  from assms obtain i where i: "tableOf r = Some i"
    by (auto simp: sdkFind_RouteTable_def requiredFieldsMissing_RouteTable_def split: if_splits)
  with assms obtain out elem rest where a: "outRouteTables out = elem # rest"
    "onDescribeRouteTables api s \<lparr>dtRouteTableIds = [i], dtFilters = [], dtNextToken = None\<rparr> = Inr (Some out)"
    "k = readRouteTable rm r elem" "err = None"
    by (auto simp: sdkFind_RouteTable_def requiredFieldsMissing_RouteTable_def newListRequestPayload_RouteTable_def
        bind_def deref_def split: sum.splits list.splits option.splits)
  have "tableOf k = sdkRtRouteTableId elem" "routesOf k = map (moveVpcEndpoint \<circ> routeFromSdk) (elems (sdkRtRoutes elem))"
    "elems (RouteStatuses (rtStatus k)) = map setResourceRoute (elems (sdkRtRoutes elem))"
    "rtTags (rtSpec k) = keepTagOrder (rtTags (rtSpec r)) (map_option resourceTags (sdkRtTags elem))"
    by (simp_all add: a(3) readRouteTable_def Let_def keepTagOrder_RouteTable_def putRoutes_def addRoutesToStatus_def
        defaults_RouteTable_def setFromRouteTable_def setStatusDefaults_def)
  moreover have "withoutRefs c = c \<and> (\<forall>g. crGatewayID c = Some g \<longrightarrow> \<not> prefix vpcePrefix g)
      \<and> (\<forall>g. crVPCEndpointID c = Some g \<longrightarrow> prefix vpcePrefix g)" if "c = (moveVpcEndpoint \<circ> routeFromSdk) x" for c x
    using that by (auto simp: moveVpcEndpoint_def withoutRefs_def routeFromSdk_def split: option.split)
  ultimately show ?thesis using i a by (auto simp: keepTagOrder_tags)
qed

subsection \<open>Creating a table\<close>

lemma tableOf_more: "common_status.more a = common_status.more b \<Longrightarrow> RouteTableID a = RouteTableID b"
  by (cases a; cases b) simp

lemma rt_reports: "AWSError_law env \<Longrightarrow> reporting_kind (rtKind api L cmp rm env differentAt iter) []"
  by (rule conditionsUpdater_reports [where get = rtStatus and put = "\<lambda>st k. k\<lparr>rtStatus := st\<rparr>"]) (simp_all add: rtKind_def)

interpretation rt_kind: reporting_kind "rtKind api L cmp rm plainTexts differentAt iter" "[]"
  for api :: "'x route_api_scheme" and L cmp rm differentAt iter
  by (rule rt_reports [OF plainTexts_law])

abbreviation createInput_RouteTable :: "route_table \<Rightarrow> create_in_vpc_input" where
  "createInput_RouteTable r \<equiv> updateTagSpecifications_RouteTable r (newCreateRequestPayload_RouteTable r)"

lemma userRoutes_keeps: "c \<in> set routes \<Longrightarrow> crDestinationPrefixListID c = None \<Longrightarrow> c \<in> set (userRoutes ans routes)"
  by (simp add: userRoutes_def)

lemma createRoutes_fails:
  assumes "lo_law L" "answersLists api" "\<And>t x. onCreateRoute api t x = Some e"
    and "c \<in> set (routesOf r)" "crGatewayID c \<noteq> Some LocalRouteGateway" "crDestinationPrefixListID c = None"
  shows "\<exists>r' u ys. createRoutes api L cmp r s = (Ret (r', Some e), u) \<and> calls u = calls s @ ys"
proof -
  obtain ans t where f: "filterRoutes api L r s = (Ret (putRoutes (ownRoutes ans r) r, None), t)"
    "calls t = calls s @ [DescribeManagedPrefixLists (listIds (removeLocalRoute (routesOf r)))]"
    using filterRoutes_run [OF assms(1,2)] by blast
  have "c \<in> set (ownRoutes ans r)" using assms(4-6) by (intro userRoutes_keeps) (simp_all add: removeLocalRoute_def)
  then obtain x xs where "ownRoutes ans r = x # xs" by (cases "ownRoutes ans r") simp_all
  with f assms(3) show ?thesis by (simp add: createRoutes_def syncRoutes_def createRoute_def)
qed

text \<open>
  A failed route loses the table. When \<open>CreateRouteTable\<close> succeeds but a route of the spec
  cannot be created, \<open>sdkCreate\<close> returns no resource: what \<open>Create\<close> hands the reconciler has no table
  identifier, and the next read answers \<open>NotFound\<close> without a call, so that a second table is
  created while the first one stays behind.
\<close>

theorem failed_route_orphans_table:
  assumes "AWSError_law env" "lo_law L" "answersLists api" "\<And>t x. onCreateRoute api t x = Some e"
    and "onCreateRouteTable api s (createInput_RouteTable desired) = Inr (Some (Some v))"
    and "c \<in> set (routesOf desired)" "crGatewayID c \<noteq> Some LocalRouteGateway" "crDestinationPrefixListID c = None"
    and "tableOf desired = None" "sdkRtRouteTableId v \<noteq> None"
  shows "\<exists>k err t. Create (rtKind api L cmp rm env differentAt iter) desired s = (Ret (Some k, Some err), t)
    \<and> CreateRouteTable (createInput_RouteTable desired) \<in> set (calls t) \<and> tableOf k = None
    \<and> sdkFind_RouteTable api rm k t = (Ret (None, Some NotFound), t)"
proof -
  let ?K = "rtKind api L cmp rm env differentAt iter"
  let ?t = "s @ [Call (CreateRouteTable (createInput_RouteTable desired)), Metric ''CREATE'' ''CreateRouteTable'' None]"
  let ?ko = "addRoutesToStatus (defaults_RouteTable rm (setFromRouteTable desired v)) v"
  let ?ko' = "putRoutes (routesOf ?ko @ routesOf desired) ?ko"
  have ko: "tableOf ?ko = sdkRtRouteTableId v"
    by (simp add: addRoutesToStatus_def defaults_RouteTable_def setFromRouteTable_def setStatusDefaults_def Let_def)
  have "c \<in> set (routesOf ?ko')" using assms(6) by simp
  from createRoutes_fails [OF assms(2-4) this assms(7,8), of cmp ?t] obtain r' u ys where
    u: "createRoutes api L cmp ?ko' ?t = (Ret (r', Some e), u)" "calls u = calls ?t @ ys" by blast
  have "createOp ?K desired s = afterCreate_RouteTable api L cmp desired ?ko ?t"
    using assms(5) by (simp add: rtKind_def sdkCreate_RouteTable_def Let_def)
  also have "\<dots> = (Ret (None, Some e), u)"
    using u(1) ko assms(6,10) by (auto simp: afterCreate_RouteTable_def requiredFieldsMissingForCreateRoute_def Let_def)
  finally have "createOp ?K desired s = (Ret (None, Some e), u)" .
  moreover have "updateConditionsOp ?K = conditionsUpdater env [] rm rtStatus (\<lambda>st k. k\<lparr>rtStatus := st\<rparr>)"
    by (simp add: rtKind_def)
  moreover have "tableOf (desired\<lparr>rtStatus := st\<rparr>) = None"
    if "common_status.more st = common_status.more (rtStatus desired)" for st
    using tableOf_more [OF that] assms(9) by simp
  ultimately obtain k err where k: "Create ?K desired s = (Ret (Some k, Some err), u)" "tableOf k = None"
    using Create_lost [OF assms(1), of ?K desired s e u "[]" rm rtStatus "\<lambda>st k. k\<lparr>rtStatus := st\<rparr>" "\<lambda>k. tableOf k = None"]
      assms(9) by auto
  with k u(2) show ?thesis by (auto simp: sdkFind_RouteTable_def requiredFieldsMissing_RouteTable_def)
qed

subsection \<open>Witnesses\<close>

definition exampleLo :: lo_helpers where
  "exampleLo = \<lparr>loReject = (\<lambda>p. filter (\<lambda>x. \<not> p x)), loFilter = filter, loMap = mapAct,
     loFilterMapLists = filterMapAct, loFilterMapRoutes = filterMapAct,
     loIndexOf = (\<lambda>xs x. if x \<in> set xs then int (length (takeWhile (\<lambda>y. y \<noteq> x) xs)) else - 1)\<rparr>"

lemma exampleLo_law: "lo_law exampleLo"
  by (auto simp: lo_law_def exampleLo_def)

definition exampleRoute :: "string option \<Rightarrow> string option \<Rightarrow> string \<Rightarrow> create_route_input" where
  "exampleRoute cidr pl gw = \<lparr>crCarrierGatewayID = None, crCoreNetworkARN = None, crDestinationCIDRBlock = cidr,
     crDestinationIPv6CIDRBlock = None, crDestinationPrefixListID = pl, crEgressOnlyInternetGatewayID = None,
     crGatewayID = Some gw, crGatewayRef = None, crInstanceID = None, crLocalGatewayID = None, crNATGatewayID = None,
     crNATGatewayRef = None, crNetworkInterfaceID = None, crTransitGatewayID = None, crTransitGatewayRef = None,
     crVPCEndpointID = None, crVPCEndpointRef = None, crVPCPeeringConnectionID = None, crVPCPeeringConnectionRef = None\<rparr>"

definition exampleTable :: "string option \<Rightarrow> create_route_input list \<Rightarrow> route_table" where
  "exampleTable i rs = \<lparr>rtSpec = \<lparr>Routes = rs, rtTags = None, rtVPCID = Some ''vpc-1'', rtVPCRef = None\<rparr>,
     rtStatus = \<lparr>ACKResourceMetadata = None, Conditions = [], rtAssociations = None, rtOwnerID = None,
       PropagatingVGWs = None, RouteStatuses = None, RouteTableID = i\<rparr>\<rparr>"

definition exampleSdkTable :: sdk_route_table where
  "exampleSdkTable = \<lparr>sdkRtAssociations = None, sdkRtOwnerId = None, sdkRtPropagatingVgws = None,
     sdkRtRouteTableId = Some ''rtb-1'', sdkRtRoutes = Some [\<lparr>sdkRoCarrierGatewayId = None, sdkRoCoreNetworkArn = None,
       sdkRoDestinationCidrBlock = None, sdkRoDestinationIpv6CidrBlock = None,
       sdkRoDestinationPrefixListId = Some ''pl-s3'', sdkRoEgressOnlyInternetGatewayId = None,
       sdkRoGatewayId = Some ''vpce-1'', sdkRoInstanceId = None, sdkRoInstanceOwnerId = None, sdkRoLocalGatewayId = None,
       sdkRoNatGatewayId = None, sdkRoNetworkInterfaceId = None, sdkRoOrigin = ''CreateRoute'', sdkRoState = ''active'',
       sdkRoTransitGatewayId = None, sdkRoVpcPeeringConnectionId = None\<rparr>],
     sdkRtTags = None, sdkRtVpcId = Some ''vpc-1''\<rparr>"

definition exampleRouteApi :: "error option \<Rightarrow> route_api" where
  "exampleRouteApi e = \<lparr>onCreateTags = (\<lambda>_ _. None), onDeleteTags = (\<lambda>_ _. None),
     onDescribeRouteTables = (\<lambda>_ _. Inr (Some \<lparr>outRouteTables = [exampleSdkTable], outTablesNextToken = None\<rparr>)),
     onCreateRouteTable = (\<lambda>_ _. Inr (Some (Some exampleSdkTable))), onDeleteRouteTable = (\<lambda>_ _. None),
     onCreateRoute = (\<lambda>_ _. e), onDeleteRoute = (\<lambda>_ _. None),
     onDescribeManagedPrefixLists = (\<lambda>_ _. Inr (Some [\<lparr>mplOwnerId = Some ''AWS'', mplPrefixListId = Some ''pl-s3''\<rparr>]))\<rparr>"

lemma exampleRouteApi_answers: "answersLists (exampleRouteApi e)"
  by (simp add: exampleRouteApi_def wfLists_def)

abbreviation exampleS3Route :: create_route_input where "exampleS3Route \<equiv> exampleRoute None (Some ''pl-s3'') ''vpce-1''"
abbreviation exampleUserRoute :: create_route_input where "exampleUserRoute \<equiv> exampleRoute (Some ''0.0.0.0/0'') None ''igw-1''"
abbreviation exampleLocal :: create_route_input where "exampleLocal \<equiv> exampleRoute (Some ''10.0.0.0/16'') None ''local''"

lemma syncRoutes_spares_managed_witness:
  "\<exists>desired' latest' ys. fst (syncRoutes (exampleRouteApi None) exampleLo sameRoute (exampleTable None [])
       (Some (exampleTable (Some ''rtb-1'') [exampleLocal, exampleUserRoute, exampleS3Route])) [])
     = Ret (desired', Some latest', None)
    \<and> prefix ys [deleteCall (exampleTable (Some ''rtb-1'') []) exampleUserRoute]"
proof -
  let ?d = "exampleTable None []" and ?l = "exampleTable (Some ''rtb-1'') [exampleLocal, exampleUserRoute, exampleS3Route]"
  let ?m = "syncRoutes (exampleRouteApi None) exampleLo sameRoute ?d (Some ?l)"
  obtain desired' latest' e ys where r: "fst (?m []) = Ret (desired', Some latest', e)"
    "prefix ys (routesPlan sameRoute ?d (routesOf desired') ?l (routesOf latest'))"
    using syncRoutes_spares_managed [OF exampleLo_law exampleRouteApi_answers, of None sameRoute ?d ?l "[]"] by blast
  have c: "case fst (?m []) of Ret (d, Some l, None) \<Rightarrow>
      routesPlan sameRoute ?d (routesOf d) ?l (routesOf l) = [deleteCall (exampleTable (Some ''rtb-1'') []) exampleUserRoute] | _ \<Rightarrow> False"
    by code_simp
  from c r(1) have "e = None" by (simp split: option.splits)
  with c r show ?thesis by (intro exI [of _ desired'] exI [of _ latest'] exI [of _ ys]) auto
qed

lemma aws_route_difference_persists_witness:
  "calls (snd (syncRoutes (exampleRouteApi None) exampleLo sameRoute (exampleTable None [exampleUserRoute])
       (Some (exampleTable (Some ''rtb-1'') [exampleLocal, exampleS3Route, exampleUserRoute])) []))
     = [DescribeManagedPrefixLists [''pl-s3''], DescribeManagedPrefixLists []]"
proof -
  let ?d = "exampleTable None [exampleUserRoute]" and ?l = "exampleTable (Some ''rtb-1'') [exampleLocal, exampleS3Route, exampleUserRoute]"
  have "HasNilDifference exactComparisons = nilDiff" by (simp add: exactComparisons_def)
  moreover have "exampleS3Route \<in> set (removeLocalRoute (routesOf ?l))" "crDestinationPrefixListID exampleS3Route \<noteq> None"
    "\<forall>c \<in> set (routesOf ?d). crDestinationPrefixListID c = None" by code_simp+
  moreover have l: "removeLocalRoute (routesOf ?l) = [exampleS3Route, exampleUserRoute]" "listIds [exampleS3Route, exampleUserRoute] = [''pl-s3'']"
    by code_simp+
  moreover have "\<forall>c \<in> set (removeLocalRoute (routesOf ?l)). \<forall>i. crDestinationPrefixListID c = Some i
      \<longrightarrow> i \<in> awsLists (onDescribeManagedPrefixLists (exampleRouteApi None) [] (listIds (removeLocalRoute (routesOf ?l))))"
    unfolding l by (auto simp: exampleRoute_def exampleRouteApi_def awsLists_def equalFoldAWS_def)
  moreover have "filter (\<lambda>c. crDestinationPrefixListID c = None) (removeLocalRoute (routesOf ?l)) = removeLocalRoute (routesOf ?d)"
    by code_simp
  ultimately show ?thesis
    using aws_route_difference_persists [OF exampleLo_law exampleRouteApi_answers, of exactComparisons exampleS3Route ?l ?d None "[]"]
    by simp
qed

lemma sdkFind_RouteTable_reads_witness:
  "\<exists>k. fst (sdkFind_RouteTable (exampleRouteApi None) exampleManager (exampleTable (Some ''rtb-1'') []) []) = Ret (Some k, None)
    \<and> map crVPCEndpointID (routesOf k) = [Some ''vpce-1'']"
proof -
  let ?m = "sdkFind_RouteTable (exampleRouteApi None) exampleManager (exampleTable (Some ''rtb-1'') []) []"
  have "case fst ?m of Ret (Some _, _) \<Rightarrow> True | _ \<Rightarrow> False" by code_simp
  then obtain k err where k: "fst ?m = Ret (Some k, err)" by (cases "fst ?m") (auto split: option.splits)
  from sdkFind_RouteTable_reads [OF k] have "err = None"
    "map crVPCEndpointID (routesOf k) = map (crVPCEndpointID \<circ> moveVpcEndpoint \<circ> routeFromSdk) (elems (sdkRtRoutes exampleSdkTable))"
    by (auto simp: exampleRouteApi_def)
  moreover have "map (crVPCEndpointID \<circ> moveVpcEndpoint \<circ> routeFromSdk) (elems (sdkRtRoutes exampleSdkTable)) = [Some ''vpce-1'']"
    by code_simp
  ultimately show ?thesis using k by auto
qed

lemma failed_route_orphans_table_witness:
  "\<exists>k err t. Create (rtKind (exampleRouteApi (Some (APIError ''RouteLimitExceeded'' ''''))) exampleLo sameRoute exampleManager
        plainTexts (\<lambda>d p. p \<in> set d) id) (exampleTable None [exampleUserRoute]) [] = (Ret (Some k, Some err), t)
    \<and> tableOf k = None"
proof -
  let ?e = "APIError ''RouteLimitExceeded'' ''''" and ?d = "exampleTable None [exampleUserRoute]"
  have "onCreateRoute (exampleRouteApi (Some ?e)) t x = Some ?e" for t x by (simp add: exampleRouteApi_def)
  moreover have "onCreateRouteTable (exampleRouteApi (Some ?e)) [] (createInput_RouteTable ?d) = Inr (Some (Some exampleSdkTable))"
    by (simp add: exampleRouteApi_def)
  moreover have "exampleUserRoute \<in> set (routesOf ?d)" "crGatewayID exampleUserRoute \<noteq> Some LocalRouteGateway"
    "crDestinationPrefixListID exampleUserRoute = None" "tableOf ?d = None" "sdkRtRouteTableId exampleSdkTable \<noteq> None"
    by code_simp+
  ultimately show ?thesis
    using failed_route_orphans_table [OF plainTexts_law exampleLo_law exampleRouteApi_answers, of "Some ?e" ?e "[]" ?d exampleSdkTable
        exampleUserRoute sameRoute exampleManager "\<lambda>d p. p \<in> set d" id] by blast
qed

end
