(* ===== verification/NetworkACL.thy ===== *)
theory NetworkACL
  imports Kinds
begin

text \<open>
  The network ACL controller (\<open>pkg/resource/network_acl/hooks.go\<close>, \<open>sdk.go\<close>, \<open>delta.go\<close>): the
  synchronisation of the entries of an ACL and of the subnets it is associated with, and the
  operations of the kind. Names that another kind uses too carry the suffix \<open>_NetworkACL\<close>.
\<close>

subsection \<open>Data\<close>

record icmp_type_code =
  icmpCode :: "int64 option"
  icmpType :: "int64 option"

record port_range =
  portFrom :: "int64 option"
  portTo :: "int64 option"

record network_acl_entry =
  aeCIDRBlock :: "string option"
  aeEgress :: "bool option"
  aeICMPTypeCode :: "icmp_type_code option"
  aeIPv6CIDRBlock :: "string option"
  aePortRange :: "port_range option"
  aeProtocol :: "string option"
  RuleAction :: "string option"
  RuleNumber :: "int64 option"

record network_acl_association =
  NetworkACLAssociationID :: "string option"
  NetworkACLID :: "string option"
  naSubnetID :: "string option"
  naSubnetRef :: "ref_wrapper option"

record network_acl_spec =
  naAssociations :: "network_acl_association slice"
  Entries :: "network_acl_entry list"
  naTags :: "tag list option"
  naVPCID :: "string option"
  naVPCRef :: "ref_wrapper option"

record network_acl_status = common_status +
  naID :: "string option"
  naIsDefault :: "bool option"
  naOwnerID :: "string option"

record network_acl =
  naSpec :: network_acl_spec
  naStatus :: network_acl_status

record acl_api = tags_api +
  onDescribeNetworkAcls :: "call log \<Rightarrow> string list \<times> filter_input list \<Rightarrow> error + sdk_network_acl list option"
  onCreateNetworkAcl :: "call log \<Rightarrow> create_in_vpc_input \<Rightarrow> error + sdk_network_acl option option"
  onDeleteNetworkAcl :: "call log \<Rightarrow> string option \<Rightarrow> error option"
  onCreateNetworkAclEntry :: "call log \<Rightarrow> acl_entry_input \<Rightarrow> error option"
  onReplaceNetworkAclEntry :: "call log \<Rightarrow> acl_entry_input \<Rightarrow> error option"
  onDeleteNetworkAclEntry :: "call log \<Rightarrow> delete_acl_entry_input \<Rightarrow> error option"
  onReplaceNetworkAclAssociation :: "call log \<Rightarrow> string option \<times> string option \<Rightarrow> error option"

definition DefaultRuleNumber :: int64 where "DefaultRuleNumber = 32767"
definition TypeSubnet :: string where "TypeSubnet = ''SubnetID''"
definition TypeNaclAssocId :: string where "TypeNaclAssocId = ''NetworkACLAssociationID''"

text \<open>
  What the code takes from elsewhere: \<open>loUniqBy\<close> and the map helpers of \<open>samber/lo\<close>, the
  runtime's \<open>Delta.DifferentExcept\<close>, and the order in which a map is visited. \<open>acl_lib_law\<close> is
  what their documentation says.
\<close>

record acl_lib =
  loUniqBy :: "(network_acl_entry \<Rightarrow> string act) \<Rightarrow> network_acl_entry list \<Rightarrow> network_acl_entry list act"
  loOmitByKeys :: "acktags \<Rightarrow> string list \<Rightarrow> acktags"
  loPickByKeys :: "acktags \<Rightarrow> string list \<Rightarrow> acktags"
  loKeys :: "acktags \<Rightarrow> string list"
  loValues :: "acktags \<Rightarrow> string list"
  DifferentExcept :: "delta \<Rightarrow> string \<Rightarrow> bool"
  rangeMap :: "acktags \<Rightarrow> acktags"
  unicodeFold :: "string \<Rightarrow> string \<Rightarrow> bool"

fun uniqByKey :: "('a \<Rightarrow> 'k) \<Rightarrow> 'k set \<Rightarrow> 'a list \<Rightarrow> 'a list" where
  "uniqByKey f seen [] = []"
| "uniqByKey f seen (x # xs) =
     (if f x \<in> seen then uniqByKey f seen xs else x # uniqByKey f (insert (f x) seen) xs)"

definition acl_lib_law :: "acl_lib \<Rightarrow> bool" where
  "acl_lib_law L \<longleftrightarrow>
     (\<forall>f g xs. (\<forall>x \<in> set xs. f x = ret (g x)) \<longrightarrow> loUniqBy L f xs = ret (uniqByKey g {} xs))
   \<and> (\<forall>m ks. wfMap m \<longrightarrow> wfMap (loOmitByKeys L m ks) \<and> map_of (loOmitByKeys L m ks) = map_of m |` (- set ks))
   \<and> (\<forall>m ks. wfMap m \<longrightarrow> wfMap (loPickByKeys L m ks) \<and> map_of (loPickByKeys L m ks) = map_of m |` set ks)
   \<and> (\<forall>m. set (loKeys L m) = dom (map_of m)) \<and> (\<forall>m. wfMap m \<longrightarrow> set (loValues L m) = ran (map_of m))
   \<and> (\<forall>d p. DifferentExcept L d p \<longleftrightarrow> (\<exists>q \<in> set d. q \<noteq> p))
   \<and> range_order (rangeMap L)
   \<and> (\<forall>s t. unicodeFold L s t \<longleftrightarrow> unicodeFold L t s)"

subsection \<open>Comparing entries\<close>

definition compareNetworkACLEntry ::
  "('x) ackcompare_scheme \<Rightarrow> network_acl_entry \<Rightarrow> network_acl_entry \<Rightarrow> delta" where
  "compareNetworkACLEntry C a b =
    (let d1 = cmpStr C ''NetworkACLEntry.CIDRBlock'' (aeCIDRBlock a) (aeCIDRBlock b) [];
         d2 = cmpBool C ''NetworkACLEntry.Egress'' (aeEgress a) (aeEgress b) d1;
         d3 = compareStruct C ''NetworkACLEntry.ICMPTypeCode''
                (\<lambda>u v d. cmpInt C ''NetworkACLEntry.ICMPTypeCode.Type'' (icmpType u) (icmpType v)
                          (cmpInt C ''NetworkACLEntry.ICMPTypeCode.Code'' (icmpCode u) (icmpCode v) d))
                (aeICMPTypeCode a) (aeICMPTypeCode b) d2;
         d4 = cmpStr C ''NetworkACLEntry.IPv6CIDRBlock'' (aeIPv6CIDRBlock a) (aeIPv6CIDRBlock b) d3;
         d5 = compareStruct C ''NetworkACLEntry.PortRange''
                (\<lambda>u v d. cmpInt C ''NetworkACLEntry.PortRange.To'' (portTo u) (portTo v)
                          (cmpInt C ''NetworkACLEntry.PortRange.From'' (portFrom u) (portFrom v) d))
                (aePortRange a) (aePortRange b) d4;
         d6 = cmpStr C ''NetworkACLEntry.Protocol'' (aeProtocol a) (aeProtocol b) d5;
         d7 = cmpStr C ''NetworkACLEntry.RuleAction'' (RuleAction a) (RuleAction b) d6
     in cmpInt C ''NetworkACLEntry.RuleNumber'' (RuleNumber a) (RuleNumber b) d7)"

text \<open>\<open>strings.EqualFold\<close>: on ASCII texts equality up to case; beyond, what the Unicode tables say.\<close>

definition lowerASCII :: "char \<Rightarrow> char" where
  "lowerASCII c = (let n = (of_char c :: nat) in if 65 \<le> n \<and> n \<le> 90 then char_of (n + 32) else c)"

definition isASCII :: "string \<Rightarrow> bool" where
  "isASCII s \<longleftrightarrow> (\<forall>c \<in> set s. (of_char c :: nat) < 128)"

definition equalFold :: "acl_lib \<Rightarrow> string \<Rightarrow> string \<Rightarrow> bool" where
  "equalFold L s t =
     (if isASCII s \<and> isASCII t then map lowerASCII s = map lowerASCII t else unicodeFold L s t)"

definition compareNetworkACLEntryAtRuleAction :: "acl_lib \<Rightarrow> network_acl_entry \<Rightarrow> network_acl_entry \<Rightarrow> bool" where
  "compareNetworkACLEntryAtRuleAction L a b =
     (case (RuleAction a, RuleAction b) of
        (None, None) \<Rightarrow> True
      | (Some x, Some y) \<Rightarrow> equalFold L x y
      | _ \<Rightarrow> False)"

definition containsEntry ::
  "acl_lib \<Rightarrow> ('x) ackcompare_scheme \<Rightarrow> network_acl_entry list \<Rightarrow> network_acl_entry \<Rightarrow> bool" where
  "containsEntry L C entries entry \<longleftrightarrow>
     (\<exists>e \<in> set entries. \<not> DifferentExcept L (compareNetworkACLEntry C e entry) ''NetworkACLEntry.RuleAction''
        \<and> compareNetworkACLEntryAtRuleAction L e entry)"

definition filterDefaultRules :: "network_acl_entry list \<Rightarrow> network_acl_entry list" where
  "filterDefaultRules entries = filter (\<lambda>e. RuleNumber e \<noteq> Some DefaultRuleNumber) entries"

subsection \<open>Calls on entries\<close>

text \<open>The conversions \<open>int32(...)\<close> are not checked: they wrap around.\<close>

definition entryInput :: "network_acl \<Rightarrow> network_acl_entry \<Rightarrow> acl_entry_input" where
  "entryInput r c =
     \<lparr>sdkNeCidrBlock = aeCIDRBlock c, sdkNeEgress = aeEgress c,
      sdkNeIcmpTypeCode = map_option (\<lambda>t. \<lparr>sdkIcmpCode = map_option toInt32 (icmpCode t),
        sdkIcmpType = map_option toInt32 (icmpType t)\<rparr>) (aeICMPTypeCode c),
      sdkNeIpv6CidrBlock = aeIPv6CIDRBlock c,
      sdkNePortRange = map_option (\<lambda>p. \<lparr>sdkPortFrom = map_option toInt32 (portFrom p),
        sdkPortTo = map_option toInt32 (portTo p)\<rparr>) (aePortRange c),
      sdkNeProtocol = aeProtocol c,
      sdkNeRuleAction = (case RuleAction c of None \<Rightarrow> [] | Some x \<Rightarrow> x),
      sdkNeRuleNumber = map_option toInt32 (RuleNumber c),
      neNetworkAclId = naID (naStatus r)\<rparr>"

definition createEntry :: "'x acl_api_scheme \<Rightarrow> network_acl option \<Rightarrow> network_acl_entry \<Rightarrow> error option act" where
  "createEntry api r c =
     (case r of None \<Rightarrow> ret None
      | Some k \<Rightarrow> callRecord CreateNetworkAclEntry (onCreateNetworkAclEntry api) ''UPDATE'' ''CreateNetworkAclEntry''
                    (entryInput k c))"

definition updateEntry :: "'x acl_api_scheme \<Rightarrow> network_acl option \<Rightarrow> network_acl_entry \<Rightarrow> error option act" where
  "updateEntry api r c =
     (case r of None \<Rightarrow> ret None
      | Some k \<Rightarrow> callRecord ReplaceNetworkAclEntry (onReplaceNetworkAclEntry api) ''UPDATE'' ''ReplaceNetworkAclEntry''
                    (entryInput k c))"

definition deleteInput :: "network_acl \<Rightarrow> network_acl_entry \<Rightarrow> delete_acl_entry_input" where
  "deleteInput r c = \<lparr>dneEgress = aeEgress c, dneRuleNumber = map_option toInt32 (RuleNumber c),
                      dneNetworkAclId = naID (naStatus r)\<rparr>"

definition deleteEntry :: "'x acl_api_scheme \<Rightarrow> network_acl option \<Rightarrow> network_acl_entry \<Rightarrow> error option act" where
  "deleteEntry api r c =
     (case r of None \<Rightarrow> ret None
      | Some k \<Rightarrow> callRecord DeleteNetworkAclEntry (onDeleteNetworkAclEntry api) ''UPDATE'' ''DeleteNetworkAclEntry''
                    (deleteInput k c))"

subsection \<open>Synchronising the entries\<close>

definition entryKey :: "network_acl_entry \<Rightarrow> string act" where
  "entryKey e = bind (deref (aeEgress e)) (\<lambda>eg. bind (deref (RuleNumber e)) (\<lambda>n.
     ret ((if eg then ''true'' else ''false'') @ formatInt (sint n))))"

text \<open>The test of the loop that looks for entries to replace, and the loop.\<close>

definition sameSlot :: "network_acl_entry \<Rightarrow> network_acl_entry \<Rightarrow> bool act" where
  "sameSlot e l =
     bind (deref (RuleNumber e)) (\<lambda>n. bind (deref (RuleNumber l)) (\<lambda>m.
     if n = m then bind (deref (aeEgress e)) (\<lambda>a. bind (deref (aeEgress l)) (\<lambda>b. ret (a = b)))
     else ret False))"

fun replacements :: "network_acl_entry \<Rightarrow> network_acl_entry list \<Rightarrow> network_acl_entry list act" where
  "replacements e [] = ret []"
| "replacements e (l # latest) =
     bind (sameSlot e l) (\<lambda>b. bind (replacements e latest) (\<lambda>us. ret (if b then e # us else us)))"

fun splitUpdates ::
  "network_acl_entry list \<Rightarrow> network_acl_entry list \<Rightarrow> (network_acl_entry list \<times> network_acl_entry list) act" where
  "splitUpdates latest [] = ret ([], [])"
| "splitUpdates latest (e # es) =
     bind (replacements e latest) (\<lambda>us. bind (splitUpdates latest es) (\<lambda>(toAdd, toUpdate).
     ret (if us = [] then e # toAdd else toAdd, us @ toUpdate)))"

definition syncEntries ::
  "'x acl_api_scheme \<Rightarrow> acl_lib \<Rightarrow> 'y ackcompare_scheme \<Rightarrow> network_acl \<Rightarrow> network_acl option \<Rightarrow> error option act" where
  "syncEntries api L C desired latest =
     bind (loUniqBy L entryKey (Entries (naSpec desired))) (\<lambda>uniqEntries.
     if length (Entries (naSpec desired)) \<noteq> length uniqEntries
     then ret (Some (GoError ''multple rules with the same rule number and Egress in the desired spec''))
     else
       let latestEntries = (case latest of None \<Rightarrow> [] | Some l \<Rightarrow> Entries (naSpec l));
           toAdd = filter (\<lambda>e. latest \<noteq> None \<and> \<not> containsEntry L C latestEntries e) (Entries (naSpec desired));
           toDelete = filter (\<lambda>e. \<not> containsEntry L C (Entries (naSpec desired)) e) latestEntries
       in bind (splitUpdates latestEntries toAdd) (\<lambda>(toAdd, toUpdate).
          bind (forErr (createEntry api (Some desired)) toAdd) (\<lambda>err. ifErr err (\<lambda>e. ret (Some e))
         (bind (forErr (deleteEntry api latest) toDelete) (\<lambda>err. ifErr err (\<lambda>e. ret (Some e))
         (forErr (updateEntry api latest) toUpdate))))))"

definition createEntries :: "'x acl_api_scheme \<Rightarrow> network_acl \<Rightarrow> error option act" where
  "createEntries api desired = forErr (createEntry api (Some desired)) (filterDefaultRules (Entries (naSpec desired)))"

subsection \<open>Synchronising the associations\<close>

text \<open>Which identifiers the associations name, each with its type, and the association of each subnet.\<close>

fun namedIds :: "network_acl_association list \<Rightarrow> acktags \<Rightarrow> acktags" where
  "namedIds [] m = m"
| "namedIds (a # as) m =
     (let m1 = (case NetworkACLAssociationID a of None \<Rightarrow> m | Some i \<Rightarrow> AList.update i TypeNaclAssocId m)
      in namedIds as (case naSubnetID a of None \<Rightarrow> m1 | Some i \<Rightarrow> AList.update i TypeSubnet m1))"

fun subnetAssociations :: "network_acl_association list \<Rightarrow> acktags \<Rightarrow> acktags" where
  "subnetAssociations [] m = m"
| "subnetAssociations (a # as) m =
     subnetAssociations as (case (NetworkACLAssociationID a, naSubnetID a) of
        (Some i, Some s) \<Rightarrow> AList.update s i m | _ \<Rightarrow> m)"

fun findAssociation :: "string \<Rightarrow> sdk_acl_association list \<Rightarrow> string option act" where
  "findAssociation rid [] = ret None"
| "findAssociation rid (a # as) =
     bind (deref (sdkNaSubnetId a)) (\<lambda>s.
     if s = rid then ret (sdkNaNetworkAclAssociationId a) else findAssociation rid as)"

definition describeAcls ::
  "'x acl_api_scheme \<Rightarrow> filter_input list \<Rightarrow> (error + sdk_network_acl list option) act" where
  "describeAcls api filters =
     bind (invoke (\<lambda>(i, f). DescribeNetworkAcls i f) (onDescribeNetworkAcls api) ([], filters)) (\<lambda>r.
     bind (recordAPICall ''READ_MANY'' ''DescribeNetworkAcls'' (errOf r)) (\<lambda>_. ret r))"

definition replaceAssociation :: "'x acl_api_scheme \<Rightarrow> string option \<times> string option \<Rightarrow> error option act" where
  "replaceAssociation api = callRecord (\<lambda>(a, n). ReplaceNetworkAclAssociation a n) (onReplaceNetworkAclAssociation api)
     ''UPDATE'' ''ReplaceNetworkAclAssociation''"

text \<open>The subnet \<open>rid\<close> goes to the ACL \<open>target\<close>: its association is looked up with \<open>filters\<close>.\<close>

definition moveSubnet ::
  "'x acl_api_scheme \<Rightarrow> filter_input list \<Rightarrow> string option act \<Rightarrow> string \<Rightarrow> error option act" where
  "moveSubnet api filters target rid =
     bind (describeAcls api filters) (\<lambda>r. case r of Inl e \<Rightarrow> ret (Some e) | Inr out \<Rightarrow>
     bind (deref out) (\<lambda>acls.
     if length acls \<noteq> 1
     then ret (Some (GoError ''unexpected output from DescribeNetworkAcls for the given subnet''))
     else bind target (\<lambda>n.
          bind (firstOf acls) (\<lambda>acl.
          bind (findAssociation rid (elems (sdkNaclAssociations acl))) (\<lambda>a.
          replaceAssociation api (a, n))))))"

definition upsertNewAssociations ::
  "'x acl_api_scheme \<Rightarrow> acl_lib \<Rightarrow> network_acl \<Rightarrow> network_acl option \<Rightarrow> acktags \<Rightarrow> error option act" where
  "upsertNewAssociations api L desired latest toAdd =
     forErr (\<lambda>(rid, rtype).
       bind (if rtype = TypeNaclAssocId
             then bind (deref latest) (\<lambda>l. replaceAssociation api (Some rid, naID (naStatus l)))
             else ret None) (\<lambda>err. ifErr err (\<lambda>e. ret (Some e))
      (if rtype = TypeSubnet
       then moveSubnet api [\<lparr>filterName = ''association.subnet-id'', filterValues = [rid]\<rparr>]
              (ret (naID (naStatus desired))) rid
       else ret None))) (rangeMap L toAdd)"

definition defaultAclFilters :: "string \<Rightarrow> filter_input list" where
  "defaultAclFilters v = [\<lparr>filterName = ''default'', filterValues = [''true'']\<rparr>,
                          \<lparr>filterName = ''vpc-id'', filterValues = [v]\<rparr>]"

definition deleteOldAssociations ::
  "'x acl_api_scheme \<Rightarrow> acl_lib \<Rightarrow> network_acl option \<Rightarrow> network_acl option \<Rightarrow> acktags \<Rightarrow> error option act" where
  "deleteOldAssociations api L desired latest toDelete =
     bind (case desired of Some d \<Rightarrow> ret d | None \<Rightarrow> deref latest) (\<lambda>k.
     bind (deref (naVPCID (naSpec k))) (\<lambda>v.
     bind (describeAcls api (defaultAclFilters v)) (\<lambda>r. case r of
       Inl e \<Rightarrow> ret (Some e)
     | Inr None \<Rightarrow> ret (Some (GoError ''could not determine default Nacl for the given VPC''))
     | Inr (Some defaults) \<Rightarrow>
         forErr (\<lambda>(rid, rtype).
           bind (if rtype = TypeNaclAssocId
                 then bind (firstOf defaults) (\<lambda>d. replaceAssociation api (Some rid, sdkNaclNetworkAclId d))
                 else ret None) (\<lambda>err. ifErr err (\<lambda>e. ret (Some e))
          (if rtype = TypeSubnet
           then bind (deref (naID (naStatus k))) (\<lambda>aclID.
                moveSubnet api [\<lparr>filterName = ''network-acl-id'', filterValues = [aclID]\<rparr>,
                                \<lparr>filterName = ''association.subnet-id'', filterValues = [rid]\<rparr>]
                  (bind (firstOf defaults) (\<lambda>d. ret (sdkNaclNetworkAclId d))) rid)
           else ret None))) (rangeMap L toDelete))))"

text \<open>The associations to add and to delete; the desired resource is never nil at the call sites.\<close>

definition associationDiff :: "acl_lib \<Rightarrow> network_acl_association list \<Rightarrow> network_acl_association list \<Rightarrow> acktags \<times> acktags" where
  "associationDiff L desired latest =
     (let latestAssociations = namedIds latest [];
          associationidSubnet = subnetAssociations latest [];
          desiredAssociations = namedIds desired [];
          toAdd = loOmitByKeys L desiredAssociations (loKeys L latestAssociations);
          includedSubnets = loPickByKeys L associationidSubnet (loKeys L desiredAssociations);
          associations_diff = loOmitByKeys L latestAssociations (loKeys L desiredAssociations)
      in (toAdd, loOmitByKeys L associations_diff (loValues L includedSubnets)))"

definition syncAssociation ::
  "'x acl_api_scheme \<Rightarrow> acl_lib \<Rightarrow> network_acl \<Rightarrow> network_acl option \<Rightarrow> error option act" where
  "syncAssociation api L desired latest =
     (let (toAdd, toDelete) = associationDiff L (elems (naAssociations (naSpec desired)))
            (case latest of None \<Rightarrow> [] | Some l \<Rightarrow> elems (naAssociations (naSpec l)))
      in bind (upsertNewAssociations api L desired latest toAdd) (\<lambda>err. ifErr err (\<lambda>e. ret (Some e))
        (bind (deleteOldAssociations api L (Some desired) latest toDelete) (\<lambda>err. ifErr err (\<lambda>e. ret (Some e)) (ret None)))))"

definition createAssociation :: "'x acl_api_scheme \<Rightarrow> acl_lib \<Rightarrow> network_acl \<Rightarrow> error option act" where
  "createAssociation api L r =
     (if naAssociations (naSpec r) \<noteq> None then syncAssociation api L r None else ret None)"

subsection \<open>Reading and creating\<close>

definition entryFromSdk :: "sdk_acl_entry \<Rightarrow> network_acl_entry" where
  "entryFromSdk x =
     \<lparr>aeCIDRBlock = sdkNeCidrBlock x, aeEgress = sdkNeEgress x,
      aeICMPTypeCode = map_option (\<lambda>t. \<lparr>icmpCode = map_option toInt64 (sdkIcmpCode t),
        icmpType = map_option toInt64 (sdkIcmpType t)\<rparr>) (sdkNeIcmpTypeCode x),
      aeIPv6CIDRBlock = sdkNeIpv6CidrBlock x,
      aePortRange = map_option (\<lambda>p. \<lparr>portFrom = map_option toInt64 (sdkPortFrom p),
        portTo = map_option toInt64 (sdkPortTo p)\<rparr>) (sdkNePortRange x),
      aeProtocol = sdkNeProtocol x, RuleAction = enumPtr (sdkNeRuleAction x),
      RuleNumber = map_option toInt64 (sdkNeRuleNumber x)\<rparr>"

definition aclAssociationFromSdk :: "sdk_acl_association \<Rightarrow> network_acl_association" where
  "aclAssociationFromSdk x =
     \<lparr>NetworkACLAssociationID = sdkNaNetworkAclAssociationId x, NetworkACLID = sdkNaNetworkAclId x,
      naSubnetID = sdkNaSubnetId x, naSubnetRef = None\<rparr>"

text \<open>What \<open>sdkFind\<close> and \<open>sdkCreate\<close> copy; only \<open>sdkCreate\<close> also copies the identifier.\<close>

definition setFromAcl :: "network_acl \<Rightarrow> sdk_network_acl \<Rightarrow> network_acl" where
  "setFromAcl k elem =
     k\<lparr>naSpec := (naSpec k)\<lparr>naAssociations := map_option (map aclAssociationFromSdk) (sdkNaclAssociations elem),
                            Entries := map entryFromSdk (elems (sdkNaclEntries elem)),
                            naTags := map_option resourceTags (sdkNaclTags elem), naVPCID := sdkNaclVpcId elem\<rparr>,
       naStatus := (naStatus k)\<lparr>naIsDefault := sdkNaclIsDefault elem, naOwnerID := sdkNaclOwnerId elem\<rparr>\<rparr>"

definition defaults_NetworkACL :: "resource_manager \<Rightarrow> network_acl \<Rightarrow> network_acl" where
  "defaults_NetworkACL rm k = k\<lparr>naStatus := setStatusDefaults rm (naStatus k)\<rparr>"

definition requiredFieldsMissing_NetworkACL :: "network_acl \<Rightarrow> bool" where
  "requiredFieldsMissing_NetworkACL r \<longleftrightarrow> naID (naStatus r) = None"

definition newListRequestPayload_NetworkACL :: "network_acl \<Rightarrow> string list" where
  "newListRequestPayload_NetworkACL r = (case naID (naStatus r) of None \<Rightarrow> [] | Some i \<Rightarrow> [i])"

definition sdkFind_NetworkACL ::
  "'x acl_api_scheme \<Rightarrow> resource_manager \<Rightarrow> network_acl \<Rightarrow> (network_acl option \<times> error option) act" where
  "sdkFind_NetworkACL api rm r =
     (if requiredFieldsMissing_NetworkACL r then ret (None, Some NotFound)
      else
        bind (invoke (\<lambda>(i, f). DescribeNetworkAcls i f) (onDescribeNetworkAcls api) (newListRequestPayload_NetworkACL r, [])) (\<lambda>resp.
        bind (recordAPICall ''READ_MANY'' ''DescribeNetworkAcls'' (errOf resp)) (\<lambda>_.
        case resp of
          Inl e \<Rightarrow> ret (None, Some (if errorCode e = Some ''UNKNOWN'' then NotFound else e))
        | Inr out \<Rightarrow>
            bind (deref out) (\<lambda>acls.
            case acls of
              [] \<Rightarrow> ret (None, Some NotFound)
            | elem # _ \<Rightarrow> ret (Some (defaults_NetworkACL rm (setFromAcl r elem)), None)))))"

definition newCreateRequestPayload_NetworkACL :: "network_acl \<Rightarrow> create_in_vpc_input" where
  "newCreateRequestPayload_NetworkACL r = \<lparr>civVpcId = naVPCID (naSpec r), civTagSpecifications = None\<rparr>"

definition updateTagSpecifications_NetworkACL :: "network_acl \<Rightarrow> create_in_vpc_input \<Rightarrow> create_in_vpc_input" where
  "updateTagSpecifications_NetworkACL r input =
     input\<lparr>civTagSpecifications := tagSpecificationsFor ''network-acl'' (naTags (naSpec r))\<rparr>"

definition requiredFieldsMissingForCreateNetworkAcl :: "network_acl \<Rightarrow> bool" where
  "requiredFieldsMissingForCreateNetworkAcl r \<longleftrightarrow> naID (naStatus r) = None"

text \<open>What follows once the ACL exists; the errors of both steps are only logged.\<close>

definition afterCreate_NetworkACL ::
  "'x acl_api_scheme \<Rightarrow> acl_lib \<Rightarrow> network_acl \<Rightarrow> network_acl \<Rightarrow> (network_acl option \<times> error option) act" where
  "afterCreate_NetworkACL api L desired ko =
     (if requiredFieldsMissingForCreateNetworkAcl ko then ret (None, Some NotFound)
      else
        bind (if length (elems (naAssociations (naSpec desired))) > 0
              then let ko' = ko\<lparr>naSpec := (naSpec ko)\<lparr>naAssociations := naAssociations (naSpec desired)\<rparr>\<rparr>
                   in bind (createAssociation api L ko') (\<lambda>logged. ret ko')
              else ret ko) (\<lambda>ko1.
        bind (if length (Entries (naSpec desired)) > 0
              then let ko' = ko1\<lparr>naSpec := (naSpec ko1)\<lparr>Entries := Entries (naSpec desired)\<rparr>\<rparr>
                   in bind (createEntries api ko') (\<lambda>logged. ret ko')
              else ret ko1) (\<lambda>ko2. ret (Some ko2, None))))"

definition sdkCreate_NetworkACL ::
  "'x acl_api_scheme \<Rightarrow> acl_lib \<Rightarrow> resource_manager \<Rightarrow> network_acl \<Rightarrow> (network_acl option \<times> error option) act" where
  "sdkCreate_NetworkACL api L rm desired =
     (let input = updateTagSpecifications_NetworkACL desired (newCreateRequestPayload_NetworkACL desired) in
      bind (invoke CreateNetworkAcl (onCreateNetworkAcl api) input) (\<lambda>r.
      bind (recordAPICall ''CREATE'' ''CreateNetworkAcl'' (errOf r)) (\<lambda>_.
      case r of Inl e \<Rightarrow> ret (None, Some e) | Inr out \<Rightarrow>
      bind (deref out) (\<lambda>resp.
      bind (deref resp) (\<lambda>elem.
      let ko = setFromAcl desired elem in
      afterCreate_NetworkACL api L desired
        (defaults_NetworkACL rm (ko\<lparr>naStatus := (naStatus ko)\<lparr>naID := sdkNaclNetworkAclId elem\<rparr>\<rparr>)))))))"

subsection \<open>Updating and deleting\<close>

definition customUpdateNetworkAcl ::
  "'x acl_api_scheme \<Rightarrow> acl_lib \<Rightarrow> 'y ackcompare_scheme \<Rightarrow> resource_manager
   \<Rightarrow> network_acl \<Rightarrow> network_acl \<Rightarrow> (string \<Rightarrow> bool) \<Rightarrow> (network_acl option \<times> error option) act" where
  "customUpdateNetworkAcl api L C rm desired latest differentAt =
     bind (whenErr (differentAt ''Spec.Tags'')
             (bind (deref (naID (naStatus latest))) (\<lambda>i.
              Sync api i (elems (naTags (naSpec desired))) (elems (naTags (naSpec latest)))))
          (whenErr (differentAt ''Spec.Entries'') (syncEntries api L C desired (Some latest))
          (whenErr (differentAt ''Spec.Associations'') (syncAssociation api L desired (Some latest))
          (ret None)))) (\<lambda>err.
     ifErr err (\<lambda>e. ret (None, Some e))
    (bind (sdkFind_NetworkACL api rm desired) (\<lambda>(found, err).
     ifErr err (\<lambda>e. ret (None, Some e))
    (bind (deref found) (\<lambda>latestResource.
     ret (Some (desired\<lparr>naStatus := naStatus latestResource\<rparr>), None))))))"

definition newDeleteRequestPayload_NetworkACL :: "network_acl \<Rightarrow> string option" where
  "newDeleteRequestPayload_NetworkACL r = naID (naStatus r)"

definition sdkDelete_NetworkACL :: "'x acl_api_scheme \<Rightarrow> network_acl \<Rightarrow> (network_acl option \<times> error option) act" where
  "sdkDelete_NetworkACL api r =
     bind (callRecord DeleteNetworkAcl (onDeleteNetworkAcl api) ''DELETE'' ''DeleteNetworkAcl''
             (newDeleteRequestPayload_NetworkACL r)) (\<lambda>err. ret (None, err))"

subsection \<open>Comparing\<close>

definition customPreCompare_NetworkACL :: "network_acl \<Rightarrow> network_acl" where
  "customPreCompare_NetworkACL a = a\<lparr>naSpec := (naSpec a)\<lparr>Entries := filterDefaultRules (Entries (naSpec a))\<rparr>\<rparr>"

text \<open>\<open>DeepEqual\<close> of entries and associations is a parameter; the results are the resources as changed.\<close>

definition newResourceDelta_NetworkACL ::
  "'y ackcompare_scheme \<Rightarrow> (network_acl_association list \<Rightarrow> network_acl_association list \<Rightarrow> bool)
   \<Rightarrow> (network_acl_entry list \<Rightarrow> network_acl_entry list \<Rightarrow> bool)
   \<Rightarrow> network_acl option \<Rightarrow> network_acl option \<Rightarrow> (network_acl option \<times> network_acl option \<times> delta) act" where
  "newResourceDelta_NetworkACL C eqAssociations eqEntries a b =
     bothResources a b
       (\<lambda>x y. let x' = customPreCompare_NetworkACL x; y' = customPreCompare_NetworkACL y;
                  d1 = compareList eqAssociations ''Spec.Associations'' (naAssociations (naSpec x')) (naAssociations (naSpec y')) [];
                  d2 = compareList eqEntries ''Spec.Entries'' (Some (Entries (naSpec x'))) (Some (Entries (naSpec y'))) d1;
                  d3 = compareTags C ''Spec.Tags'' (naTags (naSpec x')) (naTags (naSpec y')) d2;
                  d4 = cmpStr C ''Spec.VPCID'' (naVPCID (naSpec x')) (naVPCID (naSpec y')) d3
              in (Some x', Some y', compareRef C ''Spec.VPCRef'' (naVPCRef (naSpec x')) (naVPCRef (naSpec y')) d4))
       (\<lambda>d. (a, b, d))"

subsection \<open>The kind\<close>

definition mirrorTags_NetworkACL :: "(acktags \<Rightarrow> acktags) \<Rightarrow> network_acl \<Rightarrow> network_acl option \<Rightarrow> network_acl" where
  "mirrorTags_NetworkACL iter a b =
     (case b of None \<Rightarrow> a
      | Some l \<Rightarrow> a\<lparr>naSpec := (naSpec a)\<lparr>naTags := mirrorAWSTags iter (naTags (naSpec a)) (naTags (naSpec l))\<rparr>\<rparr>)"

definition naKind ::
  "'x acl_api_scheme \<Rightarrow> acl_lib \<Rightarrow> 'y ackcompare_scheme
   \<Rightarrow> resource_manager \<Rightarrow> error_texts \<Rightarrow> (delta \<Rightarrow> string \<Rightarrow> bool) \<Rightarrow> (acktags \<Rightarrow> acktags) \<Rightarrow> network_acl kind" where
  "naKind api L C rm env differentAt iter =
     \<lparr>findOp = (\<lambda>r. bind (sdkFind_NetworkACL api rm r) (\<lambda>x. ret (r, x))),
      createOp = sdkCreate_NetworkACL api L rm,
      updateOp = (\<lambda>desired latest d. bind (customUpdateNetworkAcl api L C rm desired latest (differentAt d)) (\<lambda>x. ret (latest, x))),
      deleteOp = sdkDelete_NetworkACL api,
      mirrorOp = mirrorTags_NetworkACL iter,
      conditionsOp = (\<lambda>k. Conditions (naStatus k)),
      updateConditionsOp = conditionsUpdater env [] rm naStatus (\<lambda>st k. k\<lparr>naStatus := st\<rparr>)\<rparr>"

subsection \<open>Entries as slots\<close>

text \<open>The rule number and direction of an entry, which EC2 allows once in an ACL.\<close>

definition wfEntry :: "network_acl_entry \<Rightarrow> bool" where
  "wfEntry e \<longleftrightarrow> RuleNumber e \<noteq> None \<and> aeEgress e \<noteq> None"

abbreviation wfEntries :: "network_acl_entry list \<Rightarrow> bool" where "wfEntries es \<equiv> \<forall>e \<in> set es. wfEntry e"

definition slot :: "network_acl_entry \<Rightarrow> int64 \<times> bool" where
  "slot e = (the (RuleNumber e), the (aeEgress e))"

definition slotText :: "network_acl_entry \<Rightarrow> string" where
  "slotText e = (if the (aeEgress e) then ''true'' else ''false'') @ formatInt (sint (the (RuleNumber e)))"

lemma entryKey_ret: "wfEntry e \<Longrightarrow> entryKey e = ret (slotText e)"
  by (auto simp: wfEntry_def entryKey_def slotText_def fun_eq_iff)

lemma slotText_inject: "slotText a = slotText b \<longleftrightarrow> slot a = slot b"
  by (auto simp: slotText_def slot_def signed_word_eqI)

lemma sameSlot_ret: "wfEntry e \<Longrightarrow> wfEntry l \<Longrightarrow> sameSlot e l = ret (slot e = slot l)"
  by (auto simp: wfEntry_def sameSlot_def slot_def fun_eq_iff)

lemma uniqByKey_length: "length (uniqByKey f seen xs) \<le> length xs"
  by (induction xs arbitrary: seen) (auto intro: le_SucI)

lemma uniqByKey_all: "length xs = length (uniqByKey f seen xs) \<longleftrightarrow> distinct (map f xs) \<and> f ` set xs \<inter> seen = {}"
proof (induction xs arbitrary: seen)
  case (Cons x xs)
  show ?case
  proof (cases "f x \<in> seen")
    case True
    with uniqByKey_length [of f seen xs] show ?thesis by auto
  next
    case False
    with Cons.IH [of "insert (f x) seen"] show ?thesis by auto
  qed
qed simp

text \<open>What \<open>splitUpdates\<close> makes of the entries to add.\<close>

definition freshOnes :: "network_acl_entry list \<Rightarrow> network_acl_entry list \<Rightarrow> network_acl_entry list" where
  "freshOnes latest es = filter (\<lambda>e. slot e \<notin> slot ` set latest) es"

definition replacingOnes :: "network_acl_entry list \<Rightarrow> network_acl_entry list \<Rightarrow> network_acl_entry list" where
  "replacingOnes latest es = concat (map (\<lambda>e. map (\<lambda>_. e) (filter (\<lambda>l. slot e = slot l) latest)) es)"

lemma replacements_ret:
  "wfEntry e \<Longrightarrow> wfEntries latest \<Longrightarrow> replacements e latest = ret (map (\<lambda>_. e) (filter (\<lambda>l. slot e = slot l) latest))"
  by (induction latest) (auto simp: sameSlot_ret fun_eq_iff)

lemma splitUpdates_ret:
  "wfEntries es \<Longrightarrow> wfEntries latest \<Longrightarrow> splitUpdates latest es = ret (freshOnes latest es, replacingOnes latest es)"
proof (induction es)
  case (Cons e es)
  have "map (\<lambda>_. e) (filter (\<lambda>l. slot e = slot l) latest) = [] \<longleftrightarrow> slot e \<notin> slot ` set latest"
    by (auto simp: filter_empty_conv)
  with Cons show ?case by (simp add: replacements_ret freshOnes_def replacingOnes_def fun_eq_iff)
qed (simp add: freshOnes_def replacingOnes_def fun_eq_iff)

lemma mem_replacingOnes: "e \<in> set (replacingOnes latest es) \<longleftrightarrow> e \<in> set es \<and> slot e \<in> slot ` set latest"
  by (auto simp: replacingOnes_def)

subsection \<open>When two entries are the same\<close>

lemma comparePtr_sym: "comparePtr nilDiff K p x y d = comparePtr nilDiff K p y x d"
  by (auto simp: comparePtr_def nilDiff_def split: option.split)

lemma compareStruct_sym:
  assumes "HasNilDifference C = nilDiff" and "\<And>u v d. inner u v d = inner v u d"
  shows "compareStruct C p inner x y d = compareStruct C p inner y x d"
  using assms(2) by (cases x; cases y) (simp_all add: compareStruct_def assms(1) nilDiff_def isNilIface_def)

lemma compareNetworkACLEntry_sym:
  assumes "HasNilDifference C = nilDiff"
  shows "compareNetworkACLEntry C a b = compareNetworkACLEntry C b a"
proof -
  note s = compareStruct_sym [where C = C, OF assms]
  show ?thesis unfolding compareNetworkACLEntry_def Let_def assms
    by (simp add: comparePtr_sym s)
qed

lemma acl_lib_law_uniq:
  "acl_lib_law L \<Longrightarrow> \<forall>x \<in> set xs. f x = ret (g x) \<Longrightarrow> loUniqBy L f xs = ret (uniqByKey g {} xs)"
  unfolding acl_lib_law_def by (elim conjE) (erule allE [of _ f], erule allE [of _ g], erule allE [of _ xs], erule mp)

lemma equalFold_sym: "acl_lib_law L \<Longrightarrow> equalFold L s t \<longleftrightarrow> equalFold L t s"
  by (auto simp: equalFold_def acl_lib_law_def)

lemma compareAtRuleAction_sym:
  "acl_lib_law L \<Longrightarrow> compareNetworkACLEntryAtRuleAction L a b \<longleftrightarrow> compareNetworkACLEntryAtRuleAction L b a"
  by (auto simp: compareNetworkACLEntryAtRuleAction_def equalFold_sym split: option.split)

lemma containsEntry_slot:
  assumes "acl_lib_law L" "HasNilDifference C = nilDiff"
    and "\<not> DifferentExcept L (compareNetworkACLEntry C a b) ''NetworkACLEntry.RuleAction''"
  shows "slot a = slot b"
proof -
  have mono: "set d \<subseteq> set (comparePtr nilDiff K p x y d)" for K :: "'q option \<Rightarrow> iface" and p x y d
    by (auto simp: comparePtr_def split: option.split)
  have strct: "set d \<subseteq> set (compareStruct C p inner x y d)" if "\<And>u v. set d \<subseteq> set (inner u v d)"
    for p and inner :: "'q \<Rightarrow> 'q \<Rightarrow> delta \<Rightarrow> delta" and x y d
    using that by (auto simp: compareStruct_def split: option.split)
  have only: "q \<in> set (compareNetworkACLEntry C a b) \<Longrightarrow> q = ''NetworkACLEntry.RuleAction''" for q
    using assms(1,3) by (auto simp: acl_lib_law_def)
  have "RuleNumber a = RuleNumber b"
  proof (rule ccontr)
    assume "RuleNumber a \<noteq> RuleNumber b"
    then have "''NetworkACLEntry.RuleNumber'' \<in> set (compareNetworkACLEntry C a b)"
      by (simp add: compareNetworkACLEntry_def Let_def assms(2) hnd_law_nilDiff)
    with only show False by fastforce
  qed
  moreover have "aeEgress a = aeEgress b"
  proof (rule ccontr)
    assume "aeEgress a \<noteq> aeEgress b"
    then have e: "''NetworkACLEntry.Egress'' \<in> set (cmpBool C ''NetworkACLEntry.Egress'' (aeEgress a) (aeEgress b) d)" for d
      by (simp add: assms(2) hnd_law_nilDiff)
    have "''NetworkACLEntry.Egress'' \<in> set (compareNetworkACLEntry C a b)"
      unfolding compareNetworkACLEntry_def Let_def assms(2)
      by (intro subsetD [OF mono] subsetD [OF strct] subset_trans [OF mono mono] e [unfolded assms(2)])
    with only show False by fastforce
  qed
  ultimately show ?thesis by (simp add: slot_def)
qed

lemma containsEntry_sym:
  assumes "acl_lib_law L" "HasNilDifference C = nilDiff"
  shows "containsEntry L C es e \<longleftrightarrow> (\<exists>x \<in> set es. containsEntry L C [e] x)"
  by (auto simp: containsEntry_def compareNetworkACLEntry_sym [OF assms(2), of e] compareAtRuleAction_sym [OF assms(1), of e])

text \<open>An entry that changed in place counts as gone: its old form is among the entries to delete.\<close>

lemma changed_is_deleted:
  assumes "acl_lib_law L" "HasNilDifference C = nilDiff"
    and "distinct (map slot desired)" "e \<in> set desired" "l \<in> set latest" "slot e = slot l"
    and "\<not> containsEntry L C latest e"
  shows "\<not> containsEntry L C desired l"
proof
  assume "containsEntry L C desired l"
  then obtain d where d: "d \<in> set desired" "containsEntry L C [d] l" by (auto simp: containsEntry_def)
  with containsEntry_slot [OF assms(1,2), of d l] have "slot d = slot l" by (auto simp: containsEntry_def)
  with assms(3,4,6) d(1) have "d = e" by (metis distinct_map inj_on_def)
  with d(2) assms(5) have "containsEntry L C latest e" using containsEntry_sym [OF assms(1,2)] by blast
  with assms(7) show False by blast
qed

subsection \<open>What \<open>syncEntries\<close> does\<close>

abbreviation entriesOf :: "network_acl \<Rightarrow> network_acl_entry list" where "entriesOf k \<equiv> Entries (naSpec k)"

abbreviation createEntryCall :: "network_acl \<Rightarrow> network_acl_entry \<Rightarrow> call" where
  "createEntryCall k c \<equiv> CreateNetworkAclEntry (entryInput k c)"
abbreviation deleteEntryCall :: "network_acl \<Rightarrow> network_acl_entry \<Rightarrow> call" where
  "deleteEntryCall k c \<equiv> DeleteNetworkAclEntry (deleteInput k c)"
abbreviation replaceEntryCall :: "network_acl \<Rightarrow> network_acl_entry \<Rightarrow> call" where
  "replaceEntryCall k c \<equiv> ReplaceNetworkAclEntry (entryInput k c)"

lemma follows_entries:
  "follows (createEntry api (Some k) c) [createEntryCall k c]"
  "follows (deleteEntry api (Some k) c) [deleteEntryCall k c]"
  "follows (updateEntry api (Some k) c) [replaceEntryCall k c]"
  using follows_callRecord [where c = CreateNetworkAclEntry] follows_callRecord [where c = DeleteNetworkAclEntry]
    follows_callRecord [where c = ReplaceNetworkAclEntry]
  by (simp_all only: createEntry_def deleteEntry_def updateEntry_def option.case)

definition missing :: "acl_lib \<Rightarrow> 'y ackcompare_scheme \<Rightarrow> network_acl_entry list \<Rightarrow> network_acl_entry list \<Rightarrow> network_acl_entry list" where
  "missing L C es others = filter (\<lambda>e. \<not> containsEntry L C others e) es"

definition entriesPlan :: "acl_lib \<Rightarrow> 'y ackcompare_scheme \<Rightarrow> network_acl \<Rightarrow> network_acl \<Rightarrow> call list" where
  "entriesPlan L C desired latest =
     map (createEntryCall desired) (freshOnes (entriesOf latest) (missing L C (entriesOf desired) (entriesOf latest)))
   @ map (deleteEntryCall latest) (missing L C (entriesOf latest) (entriesOf desired))
   @ map (replaceEntryCall latest) (replacingOnes (entriesOf latest) (missing L C (entriesOf desired) (entriesOf latest)))"

lemma syncEntries_steps:
  assumes "acl_lib_law L" "wfEntries (entriesOf desired)" "wfEntries (entriesOf latest)"
  shows "syncEntries api L C desired (Some latest) =
    (if \<not> distinct (map slot (entriesOf desired))
     then ret (Some (GoError ''multple rules with the same rule number and Egress in the desired spec''))
     else bind (forErr (createEntry api (Some desired))
            (freshOnes (entriesOf latest) (missing L C (entriesOf desired) (entriesOf latest)))) (\<lambda>err. ifErr err (\<lambda>e. ret (Some e))
         (bind (forErr (deleteEntry api (Some latest)) (missing L C (entriesOf latest) (entriesOf desired))) (\<lambda>err. ifErr err (\<lambda>e. ret (Some e))
         (forErr (updateEntry api (Some latest))
            (replacingOnes (entriesOf latest) (missing L C (entriesOf desired) (entriesOf latest))))))))"
proof -
  have u: "loUniqBy L entryKey (entriesOf desired) = ret (uniqByKey slotText {} (entriesOf desired))"
    by (rule acl_lib_law_uniq [OF assms(1)]) (use assms(2) entryKey_ret in blast)
  have d: "length (entriesOf desired) = length (uniqByKey slotText {} (entriesOf desired)) \<longleftrightarrow> distinct (map slot (entriesOf desired))"
    by (simp add: uniqByKey_all distinct_map inj_on_def slotText_inject)
  have "wfEntries (missing L C (entriesOf desired) (entriesOf latest))" using assms(2) by (simp add: missing_def)
  note sp = splitUpdates_ret [OF this assms(3)]
  have some: "(Some latest \<noteq> None) = True" by simp
  show ?thesis
    by (simp only: syncEntries_def u bind_simps d Let_def option.case some simp_thms missing_def [symmetric] sp prod.case)
qed

text \<open>
  C24. The plan of \<open>syncEntries\<close>. For entries with a rule number and a direction: a spec with two
  entries for the same slot is refused without a call. Otherwise, on any answers of EC2, the
  calls made are, in this order, the creation of the entries whose slot is free, the deletion of
  the entries of \<open>latest\<close> that are not desired, and the replacement of the entries whose slot is
  taken; they stop at the first error, which is returned, and without an error all were made.
\<close>

theorem syncEntries_plan:
  assumes "acl_lib_law L" "wfEntries (entriesOf desired)" "wfEntries (entriesOf latest)"
  shows "if \<not> distinct (map slot (entriesOf desired))
    then syncEntries api L C desired (Some latest) s
       = (Ret (Some (GoError ''multple rules with the same rule number and Egress in the desired spec'')), s)
    else \<exists>ys e. fst (syncEntries api L C desired (Some latest) s) = Ret e
       \<and> calls (snd (syncEntries api L C desired (Some latest) s)) = calls s @ ys
       \<and> prefix ys (entriesPlan L C desired latest) \<and> (e = None \<longrightarrow> ys = entriesPlan L C desired latest)"
proof (cases "distinct (map slot (entriesOf desired))")
  case True
  have "follows (syncEntries api L C desired (Some latest)) (entriesPlan L C desired latest)"
    unfolding syncEntries_steps [OF assms] entriesPlan_def
    using True by (simp only: simp_thms if_False) (intro follows_seq follows_forErr follows_entries)
  with True show ?thesis by (simp add: follows_def)
next
  case False
  then show ?thesis by (simp add: syncEntries_steps [OF assms])
qed

subsection \<open>Changing an entry in place\<close>

text \<open>
  The documented behaviour of \<open>ReplaceNetworkAclEntry\<close>: it fails for an entry that the ACL does
  not have, so in particular when a call that deleted the entry succeeded and none was created since.
\<close>

definition refusesDeleted :: "'x acl_api_scheme \<Rightarrow> bool" where
  "refusesDeleted api \<longleftrightarrow> (\<forall>pre ty op mid req del.
     dneEgress del = sdkNeEgress req \<longrightarrow> dneRuleNumber del = sdkNeRuleNumber req \<longrightarrow> dneNetworkAclId del = neNetworkAclId req
     \<longrightarrow> (\<forall>c. CreateNetworkAclEntry c \<notin> set (calls mid))
     \<longrightarrow> onReplaceNetworkAclEntry api (pre @ Call (DeleteNetworkAclEntry del) # Metric ty op None # mid) req \<noteq> None)"

lemma forErr_None_split:
  "forErr f (xs @ x # ys) s = (Ret None, t) \<Longrightarrow>
     \<exists>u v. forErr f xs s = (Ret None, u) \<and> f x u = (Ret None, v) \<and> forErr f ys v = (Ret None, t)"
proof (induction xs arbitrary: s)
  case Nil
  then show ?case by (auto simp: bind_def ifErr_def split: prod.splits outcome.splits option.splits)
next
  case (Cons a xs)
  from Cons.prems obtain u where u: "f a s = (Ret None, u)" "forErr f (xs @ x # ys) u = (Ret None, t)"
    by (auto simp: bind_def ifErr_def split: prod.splits outcome.splits option.splits)
  with Cons.IH [OF u(2)] show ?case by simp
qed

lemma bind_ifErr_None:
  assumes "bind m (\<lambda>err. ifErr err (\<lambda>e. ret (Some e)) n) s = (Ret None, t)"
  shows "\<exists>u. m s = (Ret None, u) \<and> n u = (Ret None, t)"
  using assms by (auto simp: bind_def ifErr_def split: prod.splits outcome.splits option.splits)

lemma follows_None_calls: "follows m p \<Longrightarrow> m s = (Ret None, t) \<Longrightarrow> calls t = calls s @ p"
  unfolding follows_def by (metis fst_conv snd_conv outcome.inject)

lemma follows_halts_None:
  assumes "follows m p" "halts m" "m s = (Ret None, t)"
  obtains new where "t = s @ new" "calls new = p"
  using assms(3) by (rule_tac follows_haltsE [OF assms(1,2), where s = s]) auto

lemma halts_entries:
  "halts (createEntry api (Some k) c)" "halts (deleteEntry api (Some k) c)" "halts (updateEntry api (Some k) c)"
  by (simp_all only: createEntry_def deleteEntry_def updateEntry_def option.case halts_callRecord)

lemma prefix_past: "prefix (a @ x # b) (p @ q) \<Longrightarrow> x \<notin> set p \<Longrightarrow> prefix p a"
proof (induction p arbitrary: a)
  case (Cons y p)
  then show ?case by (cases a) auto
qed simp

text \<open>
  C23. An entry cannot be changed in place. When a desired entry has the rule number and direction
  of an entry of the ACL but differs from it, \<open>syncEntries\<close> calls \<open>ReplaceNetworkAclEntry\<close> for
  it only after a call that deletes the old entry. EC2 refuses to replace an entry that a
  successful call deleted: whatever else the service answers, the update returns an error.
\<close>

theorem changed_entry_fails:
  assumes "acl_lib_law L" "HasNilDifference C = nilDiff" "refusesDeleted api"
    and "wfEntries (entriesOf desired)" "wfEntries (entriesOf latest)" "distinct (map slot (entriesOf desired))"
    and "e \<in> set (entriesOf desired)" "l \<in> set (entriesOf latest)" "slot e = slot l"
    and "\<not> containsEntry L C (entriesOf latest) e"
  shows "\<exists>err t ys. syncEntries api L C desired (Some latest) s = (Ret (Some err), t) \<and> calls t = calls s @ ys
    \<and> (\<forall>before after. ys = before @ replaceEntryCall latest e # after \<longrightarrow> deleteEntryCall latest l \<in> set before)"
proof -
  let ?miss = "missing L C (entriesOf desired) (entriesOf latest)"
  let ?dels = "missing L C (entriesOf latest) (entriesOf desired)"
  let ?reps = "replacingOnes (entriesOf latest) ?miss"
  have l: "l \<in> set ?dels"
    using changed_is_deleted [OF assms(1,2,6-10)] assms(8) by (simp add: missing_def)
  obtain r ys where r: "fst (syncEntries api L C desired (Some latest) s) = Ret r"
    "calls (snd (syncEntries api L C desired (Some latest) s)) = calls s @ ys" "prefix ys (entriesPlan L C desired latest)"
    using syncEntries_plan [OF assms(1,4,5), of api C s] assms(6) by auto
  have order: "deleteEntryCall latest l \<in> set before" if "ys = before @ replaceEntryCall latest e # after" for before after
  proof -
    have "prefix (before @ replaceEntryCall latest e # after)
        ((map (createEntryCall desired) (freshOnes (entriesOf latest) ?miss) @ map (deleteEntryCall latest) ?dels) @ map (replaceEntryCall latest) ?reps)"
      using r(3) that by (simp add: entriesPlan_def)
    then have "prefix (map (createEntryCall desired) (freshOnes (entriesOf latest) ?miss) @ map (deleteEntryCall latest) ?dels) before"
      by (rule prefix_past) auto
    with l show ?thesis by (elim prefixE) simp
  qed
  have "r \<noteq> None"
  proof
    assume "r = None"
    with r(1) obtain t where t: "syncEntries api L C desired (Some latest) s = (Ret None, t)" by (metis prod.collapse)
    then obtain s1 s2 where
      s1: "forErr (createEntry api (Some desired)) (freshOnes (entriesOf latest) ?miss) s = (Ret None, s1)" and
      s2: "forErr (deleteEntry api (Some latest)) ?dels s1 = (Ret None, s2)" and
      s3: "forErr (updateEntry api (Some latest)) ?reps s2 = (Ret None, t)"
      using assms(6) by (auto simp: syncEntries_steps [OF assms(1,4,5)] dest!: bind_ifErr_None)
    from l obtain d1 d2 where dels: "?dels = d1 @ l # d2" by (meson split_list)
    have "e \<in> set ?reps" using assms(7-10) by (auto simp: mem_replacingOnes missing_def)
    then obtain r1 r2 where reps: "?reps = r1 @ e # r2" by (meson split_list)
    obtain a b where ab: "deleteEntry api (Some latest) l a = (Ret None, b)" "forErr (deleteEntry api (Some latest)) d2 b = (Ret None, s2)"
      using forErr_None_split [of _ d1 l d2] s2 dels by metis
    obtain u v where u: "forErr (updateEntry api (Some latest)) r1 s2 = (Ret None, u)"
      "updateEntry api (Some latest) e u = (Ret None, v)"
      using forErr_None_split [of _ r1 e r2] s3 reps by metis
    obtain ty op where b: "b = a @ [Call (DeleteNetworkAclEntry (deleteInput latest l)), Metric ty op None]"
      using ab(1) by (auto simp: deleteEntry_def)
    obtain m1 where m1: "s2 = b @ m1" "calls m1 = map (deleteEntryCall latest) d2"
      by (rule follows_halts_None [OF follows_forErr halts_forErr ab(2)]) (rule follows_entries halts_entries | assumption)+
    obtain m2 where m2: "u = s2 @ m2" "calls m2 = map (replaceEntryCall latest) r1"
      by (rule follows_halts_None [OF follows_forErr halts_forErr u(1)]) (rule follows_entries halts_entries | assumption)+
    have "wfEntry e" "wfEntry l" using assms(4,5,7,8) by blast+
    then have same: "RuleNumber e = RuleNumber l" "aeEgress e = aeEgress l"
      using assms(9) by (auto simp: wfEntry_def slot_def)
    have "\<forall>c. CreateNetworkAclEntry c \<notin> set (calls (m1 @ m2))" using m1(2) m2(2) by auto
    with assms(3) have "onReplaceNetworkAclEntry api u (entryInput latest e) \<noteq> None"
      unfolding m2(1) m1(1) b append_assoc append.simps refusesDeleted_def using same by (simp add: deleteInput_def entryInput_def)
    with u(2) show False by (simp add: updateEntry_def)
  qed
  with r(1) obtain err t where "syncEntries api L C desired (Some latest) s = (Ret (Some err), t)" by (metis option.exhaust prod.collapse)
  with r(2) order show ?thesis by (intro exI [of _ err] exI [of _ t] exI [of _ ys]) simp
qed

subsection \<open>Rule numbers\<close>

lemma toInt32_mod: "sint (toInt32 x) mod 2 ^ 32 = sint x mod 2 ^ 32"
proof -
  have "take_bit 32 (signed_take_bit 31 (sint x)) = take_bit 32 (sint x)"
    by (simp add: take_bit_signed_take_bit)
  then show ?thesis unfolding toInt32_def sint_sbintrunc' by (simp add: take_bit_eq_mod)
qed

lemma toInt32_eq_iff: "toInt32 x = toInt32 y \<longleftrightarrow> sint x mod 2 ^ 32 = sint y mod 2 ^ 32"
  unfolding toInt32_def word_of_int_eq_iff take_bit_eq_mod by (simp only: len_num1 len_bit0) simp

lemma toInt32_add: "toInt32 (n + 2 ^ 32) = toInt32 n"
proof -
  have "take_bit 32 (signed_take_bit 63 (sint n + 2 ^ 32)) = take_bit 32 (sint n + 2 ^ 32)"
    by (simp add: take_bit_signed_take_bit)
  then have "sint (n + 2 ^ 32) mod 2 ^ 32 = (sint n + 2 ^ 32) mod 2 ^ 32"
    by (simp add: take_bit_eq_mod sint_word_ariths)
  then show ?thesis by (simp add: toInt32_eq_iff)
qed

text \<open>
  Rule numbers and ports wrap around. The number that \<open>createEntry\<close> sends is the rule number of
  the spec exactly when that fits 32 bits; otherwise it is another number, its value modulo
  $2^{32}$, and no error is reported for it. Two entries of which the spec check says that they are
  different rules then go to the same one.
\<close>

theorem rule_number_wraps:
  assumes "RuleNumber c = Some n"
  shows "sdkNeRuleNumber (entryInput k c) = Some (toInt32 n)
    \<and> (sint (toInt32 n) = sint n \<longleftrightarrow> minInt32 \<le> sint n \<and> sint n \<le> maxInt32)
    \<and> sint (toInt32 n) mod 2 ^ 32 = sint n mod 2 ^ 32
    \<and> sdkNeRuleNumber (entryInput k (c\<lparr>RuleNumber := Some (n + 2 ^ 32)\<rparr>)) = sdkNeRuleNumber (entryInput k c)"
proof (intro conjI)
  show "sdkNeRuleNumber (entryInput k c) = Some (toInt32 n)" using assms by (simp add: entryInput_def)
  show "sint (toInt32 n) = sint n \<longleftrightarrow> minInt32 \<le> sint n \<and> sint n \<le> maxInt32"
    using sint_int32_bounds [of "toInt32 n"] sint_toInt32 [of n] by fastforce
  show "sint (toInt32 n) mod 2 ^ 32 = sint n mod 2 ^ 32"
    by (rule toInt32_mod)
  show "sdkNeRuleNumber (entryInput k (c\<lparr>RuleNumber := Some (n + 2 ^ 32)\<rparr>)) = sdkNeRuleNumber (entryInput k c)"
    using assms toInt32_add [of n] by (simp add: entryInput_def)
qed

subsection \<open>Creating an ACL\<close>

lemma na_reports: "AWSError_law env \<Longrightarrow> reporting_kind (naKind api L C rm env differentAt iter) []"
  by (rule conditionsUpdater_reports [where get = naStatus and put = "\<lambda>st k. k\<lparr>naStatus := st\<rparr>"]) (simp_all add: naKind_def)

interpretation na_kind: reporting_kind "naKind api L C rm plainTexts differentAt iter" "[]"
  for api :: "'x acl_api_scheme" and L and C :: "'y ackcompare_scheme" and rm differentAt iter
  by (rule na_reports [OF plainTexts_law])

abbreviation createInput_NetworkACL :: "network_acl \<Rightarrow> create_in_vpc_input" where
  "createInput_NetworkACL r \<equiv> updateTagSpecifications_NetworkACL r (newCreateRequestPayload_NetworkACL r)"

lemma createEntries_run:
  "\<exists>e t ys. createEntries api k s = (Ret e, t) \<and> calls t = calls s @ ys
     \<and> (\<forall>c cs. filterDefaultRules (entriesOf k) = c # cs \<longrightarrow> (\<forall>u x. onCreateNetworkAclEntry api u x \<noteq> None)
          \<longrightarrow> ys = [createEntryCall k c])"
proof -
  have "follows (createEntries api k) (map (createEntryCall k) (filterDefaultRules (entriesOf k)))"
    unfolding createEntries_def by (rule follows_forErr, rule follows_entries)
  then obtain ys e t where r: "createEntries api k s = (Ret e, t)" "calls t = calls s @ ys"
    by (rule followsE [where s = s])
  have "ys = [createEntryCall k c]" if "filterDefaultRules (entriesOf k) = c # cs"
    and "\<forall>u x. onCreateNetworkAclEntry api u x \<noteq> None" for c cs
  proof -
    from that(2) obtain x where "onCreateNetworkAclEntry api s (entryInput k c) = Some x" by blast
    with r that(1) show ?thesis by (auto simp: createEntries_def createEntry_def)
  qed
  with r show ?thesis by blast
qed

text \<open>
  Creating reports entries that do not exist. Once \<open>CreateNetworkAcl\<close> has succeeded, \<open>sdkCreate\<close>
  returns the ACL with the entries of the spec and no error, whatever \<open>CreateNetworkAclEntry\<close> answers;
  when it fails, the first entry is the only one that was tried.
\<close>

theorem sdkCreate_hides_entry_errors:
  assumes "onCreateNetworkAcl api s (createInput_NetworkACL desired) = Inr (Some (Some v))"
    and "sdkNaclNetworkAclId v = Some i"
    and "elems (naAssociations (naSpec desired)) = []" "entriesOf desired \<noteq> []"
  shows "\<exists>k t. sdkCreate_NetworkACL api L rm desired s = (Ret (Some k, None), t)
    \<and> naID (naStatus k) = Some i \<and> entriesOf k = entriesOf desired
    \<and> (\<forall>c cs. filterDefaultRules (entriesOf desired) = c # cs \<longrightarrow> (\<forall>u x. onCreateNetworkAclEntry api u x \<noteq> None)
         \<longrightarrow> calls t = calls s @ [CreateNetworkAcl (createInput_NetworkACL desired), createEntryCall k c])"
proof -
  let ?in = "createInput_NetworkACL desired"
  let ?ko0 = "setFromAcl desired v"
  let ?ko = "defaults_NetworkACL rm (?ko0\<lparr>naStatus := (naStatus ?ko0)\<lparr>naID := sdkNaclNetworkAclId v\<rparr>\<rparr>)"
  let ?k = "?ko\<lparr>naSpec := (naSpec ?ko)\<lparr>Entries := entriesOf desired\<rparr>\<rparr>"
  let ?t = "s @ [Call (CreateNetworkAcl ?in), Metric ''CREATE'' ''CreateNetworkAcl'' None]"
  have id: "naID (naStatus ?ko) = Some i"
    using assms(2) by (simp add: defaults_NetworkACL_def setStatusDefaults_def Let_def)
  obtain e t ys where r: "createEntries api ?k ?t = (Ret e, t)" "calls t = calls ?t @ ys"
    "\<forall>c cs. filterDefaultRules (entriesOf ?k) = c # cs \<longrightarrow> (\<forall>u x. onCreateNetworkAclEntry api u x \<noteq> None) \<longrightarrow> ys = [createEntryCall ?k c]"
    using createEntries_run [of api ?k ?t] by blast
  have "sdkCreate_NetworkACL api L rm desired s = afterCreate_NetworkACL api L desired ?ko ?t"
    using assms(1) by (simp add: sdkCreate_NetworkACL_def Let_def)
  also have "\<dots> = (Ret (Some ?k, None), t)"
    using r(1) id assms(3,4) by (simp add: afterCreate_NetworkACL_def requiredFieldsMissingForCreateNetworkAcl_def Let_def)
  finally have "sdkCreate_NetworkACL api L rm desired s = (Ret (Some ?k, None), t)" .
  moreover have "naID (naStatus ?k) = Some i" "entriesOf ?k = entriesOf desired" using id by simp_all
  ultimately show ?thesis using r(2,3) by (intro exI [of _ ?k] exI [of _ t]) simp
qed

subsection \<open>Witnesses\<close>

definition exampleAclLib :: acl_lib where
  "exampleAclLib = \<lparr>loUniqBy = (\<lambda>f xs. bind (mapAct f xs) (\<lambda>ks.
       ret (map snd (uniqByKey fst {} (zip ks xs))))),
     loOmitByKeys = (\<lambda>m ks. filter (\<lambda>(k, v). k \<notin> set ks) m), loPickByKeys = (\<lambda>m ks. filter (\<lambda>(k, v). k \<in> set ks) m),
     loKeys = map fst, loValues = map snd, DifferentExcept = (\<lambda>d p. \<exists>q \<in> set d. q \<noteq> p),
     rangeMap = (\<lambda>m. m), unicodeFold = (=)\<rparr>"

lemma uniqByKey_zip: "map snd (uniqByKey fst seen (zip (map g xs) xs)) = uniqByKey g seen xs"
  by (induction xs arbitrary: seen) simp_all

lemma wfMap_filter: "wfMap m \<Longrightarrow> wfMap (filter P m)"
  by (simp add: distinct_map_filter)

lemma map_of_filter_keys: "map_of (filter (\<lambda>(k, v). k \<in> S) m) = map_of m |` S"
  by (induction m) (auto simp: restrict_map_def fun_eq_iff)

lemma exampleAclLib_values: "wfMap m \<Longrightarrow> set (map snd m) = ran (map_of m)"
  by (simp add: ran_distinct)

lemma exampleAclLib_uniq:
  "\<forall>x \<in> set xs. f x = ret (g x) \<Longrightarrow> loUniqBy exampleAclLib f xs = ret (uniqByKey g {} xs)"
proof -
  assume "\<forall>x \<in> set xs. f x = ret (g x)"
  then have "mapAct f xs = ret (map g xs)" by (intro mapAct_ret) blast
  then show ?thesis by (simp add: exampleAclLib_def uniqByKey_zip fun_eq_iff)
qed

lemma exampleAclLib_law: "acl_lib_law exampleAclLib"
  unfolding acl_lib_law_def
proof (intro conjI allI impI)
  show "loUniqBy exampleAclLib f xs = ret (uniqByKey g {} xs)" if "\<forall>x \<in> set xs. f x = ret (g x)" for f g xs
    using that by (rule exampleAclLib_uniq)
  show "wfMap (loOmitByKeys exampleAclLib m ks)" if "wfMap m" for m ks
    using wfMap_filter [OF that] by (simp add: exampleAclLib_def)
  show "map_of (loOmitByKeys exampleAclLib m ks) = map_of m |` (- set ks)" for m ks
    using map_of_filter_keys [of "- set ks" m] by (simp add: exampleAclLib_def)
  show "wfMap (loPickByKeys exampleAclLib m ks)" if "wfMap m" for m ks
    using wfMap_filter [OF that] by (simp add: exampleAclLib_def)
  show "map_of (loPickByKeys exampleAclLib m ks) = map_of m |` set ks" for m ks
    using map_of_filter_keys [of "set ks" m] by (simp add: exampleAclLib_def)
  show "set (loKeys exampleAclLib m) = dom (map_of m)" for m
    by (simp add: exampleAclLib_def dom_map_of_conv_image_fst)
  show "set (loValues exampleAclLib m) = ran (map_of m)" if "wfMap m" for m
    using that by (simp add: exampleAclLib_def ran_distinct)
qed (auto simp: exampleAclLib_def range_order_def)

definition exampleEntry :: "int64 \<Rightarrow> string \<Rightarrow> string \<Rightarrow> network_acl_entry" where
  "exampleEntry n cidr action = \<lparr>aeCIDRBlock = Some cidr, aeEgress = Some True, aeICMPTypeCode = None,
     aeIPv6CIDRBlock = None, aePortRange = None, aeProtocol = Some ''-1'', RuleAction = Some action, RuleNumber = Some n\<rparr>"

definition exampleAcl :: "string option \<Rightarrow> network_acl_entry list \<Rightarrow> network_acl" where
  "exampleAcl i es = \<lparr>naSpec = \<lparr>naAssociations = None, Entries = es, naTags = None, naVPCID = Some ''vpc-1'', naVPCRef = None\<rparr>,
     naStatus = \<lparr>ACKResourceMetadata = None, Conditions = [], naID = i, naIsDefault = None, naOwnerID = None\<rparr>\<rparr>"

text \<open>A service that refuses to replace an entry deleted before, and to create any entry.\<close>

definition exampleAclApi :: acl_api where
  "exampleAclApi = \<lparr>onCreateTags = (\<lambda>_ _. None), onDeleteTags = (\<lambda>_ _. None),
     onDescribeNetworkAcls = (\<lambda>_ _. Inr (Some [])),
     onCreateNetworkAcl = (\<lambda>_ _. Inr (Some (Some \<lparr>sdkNaclAssociations = None, sdkNaclEntries = None, sdkNaclIsDefault = None,
       sdkNaclNetworkAclId = Some ''acl-1'', sdkNaclOwnerId = None, sdkNaclTags = None, sdkNaclVpcId = Some ''vpc-1''\<rparr>))),
     onDeleteNetworkAcl = (\<lambda>_ _. None),
     onCreateNetworkAclEntry = (\<lambda>_ _. Some (APIError ''NetworkAclEntryLimitExceeded'' '''')),
     onReplaceNetworkAclEntry = (\<lambda>t req. if \<exists>c \<in> set (calls t). case c of DeleteNetworkAclEntry del \<Rightarrow>
         dneEgress del = sdkNeEgress req \<and> dneRuleNumber del = sdkNeRuleNumber req | _ \<Rightarrow> False
       then Some (APIError ''InvalidNetworkAclEntry.NotFound'' '''') else None),
     onDeleteNetworkAclEntry = (\<lambda>_ _. None), onReplaceNetworkAclAssociation = (\<lambda>_ _. None)\<rparr>"

lemma exampleAclApi_refuses: "refusesDeleted exampleAclApi"
  by (simp add: refusesDeleted_def exampleAclApi_def)

abbreviation exampleOld :: network_acl where
  "exampleOld \<equiv> exampleAcl (Some ''acl-1'') [exampleEntry 100 ''10.0.0.0/8'' ''allow'', exampleEntry 200 ''0.0.0.0/0'' ''deny'']"
abbreviation exampleNew :: network_acl where
  "exampleNew \<equiv> exampleAcl (Some ''acl-1'') [exampleEntry 100 ''10.1.0.0/16'' ''allow'', exampleEntry 200 ''0.0.0.0/0'' ''DENY'']"

lemma exampleEntry_same:
  "(\<not> DifferentExcept exampleAclLib (compareNetworkACLEntry exactComparisons (exampleEntry n c a) (exampleEntry m d b)) ''NetworkACLEntry.RuleAction''
     \<and> compareNetworkACLEntryAtRuleAction exampleAclLib (exampleEntry n c a) (exampleEntry m d b))
   \<longleftrightarrow> n = m \<and> c = d \<and> equalFold exampleAclLib a b"
  by (auto simp: exampleAclLib_def compareNetworkACLEntry_def Let_def exactComparisons_def exampleEntry_def hnd_law_nilDiff
      compareStruct_def nilDiff_def isNilIface_def compareNetworkACLEntryAtRuleAction_def agree_def)

lemma exampleEntry_slot: "slot (exampleEntry n c a) = (n, True)"
  by (simp add: slot_def exampleEntry_def)

lemma exampleFold: "equalFold exampleAclLib ''deny'' ''DENY''" "equalFold exampleAclLib ''DENY'' ''deny''"
  by code_simp+

lemma exampleAcl_facts:
  "wfEntries (entriesOf exampleOld)" "wfEntries (entriesOf exampleNew)" "distinct (map slot (entriesOf exampleNew))"
  "HasNilDifference exactComparisons = nilDiff"
  by (auto simp: exampleAcl_def wfEntry_def exampleEntry_def slot_def exactComparisons_def)

lemma syncEntries_plan_witness:
  "\<exists>ys e. fst (syncEntries exampleAclApi exampleAclLib exactComparisons exampleNew (Some exampleOld) []) = Ret e
    \<and> prefix ys [deleteEntryCall exampleOld (exampleEntry 100 ''10.0.0.0/8'' ''allow''),
                 replaceEntryCall exampleOld (exampleEntry 100 ''10.1.0.0/16'' ''allow'')]"
proof -
  have "entriesPlan exampleAclLib exactComparisons exampleNew exampleOld
      = [deleteEntryCall exampleOld (exampleEntry 100 ''10.0.0.0/8'' ''allow''),
         replaceEntryCall exampleOld (exampleEntry 100 ''10.1.0.0/16'' ''allow'')]"
    by (simp add: entriesPlan_def missing_def freshOnes_def replacingOnes_def exampleAcl_def containsEntry_def exampleEntry_same
        exampleFold exampleEntry_slot)
  with syncEntries_plan [OF exampleAclLib_law exampleAcl_facts(2,1), of exampleAclApi exactComparisons "[]"] exampleAcl_facts(3)
  show ?thesis by auto
qed

lemma changed_entry_fails_witness:
  "\<exists>err t ys. syncEntries exampleAclApi exampleAclLib exactComparisons exampleNew (Some exampleOld) [] = (Ret (Some err), t) \<and> calls t = calls [] @ ys
    \<and> (\<forall>before after. ys = before @ replaceEntryCall exampleOld (exampleEntry 100 ''10.1.0.0/16'' ''allow'') # after
        \<longrightarrow> deleteEntryCall exampleOld (exampleEntry 100 ''10.0.0.0/8'' ''allow'') \<in> set before)"
proof (rule changed_entry_fails [OF exampleAclLib_law exampleAcl_facts(4) exampleAclApi_refuses exampleAcl_facts(2,1,3)])
  show "exampleEntry 100 ''10.1.0.0/16'' ''allow'' \<in> set (entriesOf exampleNew)"
    "exampleEntry 100 ''10.0.0.0/8'' ''allow'' \<in> set (entriesOf exampleOld)"
    "slot (exampleEntry 100 ''10.1.0.0/16'' ''allow'') = slot (exampleEntry 100 ''10.0.0.0/8'' ''allow'')"
    by (simp_all add: exampleAcl_def slot_def exampleEntry_def)
  show "\<not> containsEntry exampleAclLib exactComparisons (entriesOf exampleOld) (exampleEntry 100 ''10.1.0.0/16'' ''allow'')"
    by (simp add: containsEntry_def exampleAcl_def exampleEntry_same)
qed

lemma rule_number_wraps_witness:
  "sdkNeRuleNumber (entryInput exampleOld (exampleEntry 4294967396 ''10.0.0.0/8'' ''allow'')) = Some 100"
proof -
  have "RuleNumber (exampleEntry 100 ''10.0.0.0/8'' ''allow'') = Some 100" by (simp add: exampleEntry_def)
  from rule_number_wraps [OF this, of exampleOld] show ?thesis
    by (simp add: exampleEntry_def toInt32_def)
qed

lemma sdkCreate_hides_entry_errors_witness:
  "\<exists>k t. sdkCreate_NetworkACL exampleAclApi exampleAclLib exampleManager (exampleAcl None [exampleEntry 100 ''10.0.0.0/8'' ''allow'']) []
      = (Ret (Some k, None), t) \<and> entriesOf k = [exampleEntry 100 ''10.0.0.0/8'' ''allow''] \<and> length (calls t) = 2"
proof -
  let ?d = "exampleAcl None [exampleEntry 100 ''10.0.0.0/8'' ''allow'']"
  obtain v where v: "onCreateNetworkAcl exampleAclApi [] (createInput_NetworkACL ?d) = Inr (Some (Some v))"
    "sdkNaclNetworkAclId v = Some ''acl-1''" by (simp add: exampleAclApi_def)
  have d: "elems (naAssociations (naSpec ?d)) = []" "entriesOf ?d \<noteq> []" "entriesOf ?d = [exampleEntry 100 ''10.0.0.0/8'' ''allow'']"
    "filterDefaultRules (entriesOf ?d) = exampleEntry 100 ''10.0.0.0/8'' ''allow'' # []"
    by (simp_all add: exampleAcl_def filterDefaultRules_def DefaultRuleNumber_def exampleEntry_def)
  have "\<forall>u x. onCreateNetworkAclEntry exampleAclApi u x \<noteq> None" by (simp add: exampleAclApi_def)
  with sdkCreate_hides_entry_errors [OF v d(1,2), of exampleAclLib exampleManager] d(3,4) show ?thesis by fastforce
qed

end
