(* ===== verification/Subnet.thy ===== *)
theory Subnet
  imports TableAssociations
begin

text \<open>
  The subnet controller (\<open>pkg/resource/subnet/hooks.go\<close>, \<open>sdk.go\<close>, \<open>delta.go\<close>): reading a subnet with
  the route tables it is associated with, creating it, changing its attributes one by one,
  deleting and comparing it. Names that another kind uses too carry the suffix \<open>_Subnet\<close>.
\<close>

subsection \<open>Data\<close>

record subnet_cidr_block_state =
  scbState :: "string option"
  scbStatusMessage :: "string option"

record subnet_ipv6_cidr_block_association =
  sn6AssociationID :: "string option"
  sn6IPv6CIDRBlock :: "string option"
  sn6IPv6CIDRBlockState :: "subnet_cidr_block_state option"

record private_dns_name_options =
  dnsEnableResourceNameDNSAAAARecord :: "bool option"
  dnsEnableResourceNameDNSARecord :: "bool option"
  dnsHostnameType :: "string option"

record subnet_spec =
  AssignIPv6AddressOnCreation :: "bool option"
  AvailabilityZone :: "string option"
  AvailabilityZoneID :: "string option"
  snCIDRBlock :: "string option"
  CustomerOwnedIPv4Pool :: "string option"
  EnableDNS64 :: "bool option"
  EnableResourceNameDNSAAAARecord :: "bool option"
  EnableResourceNameDNSARecord :: "bool option"
  HostnameType :: "string option"
  snIPv6CIDRBlock :: "string option"
  IPv6Native :: "bool option"
  MapPublicIPOnLaunch :: "bool option"
  OutpostARN :: "string option"
  snRouteTableRefs :: "ref_wrapper option list"
  snRouteTables :: "string option list"
  snTags :: "tag list option"
  snVPCID :: "string option"
  snVPCRef :: "ref_wrapper option"

record subnet_status = common_status +
  AvailableIPAddressCount :: "int64 option"
  DefaultForAZ :: "bool option"
  EnableLniAtDeviceIndex :: "int64 option"
  snIPv6CIDRBlockAssociationSet :: "subnet_ipv6_cidr_block_association slice"
  MapCustomerOwnedIPOnLaunch :: "bool option"
  snOwnerID :: "string option"
  PrivateDNSNameOptionsOnLaunch :: "private_dns_name_options option"
  snState :: "string option"
  SubnetID :: "string option"

record subnet =
  snSpec :: subnet_spec
  snStatus :: subnet_status

record subnet_api = associations_api +
  onDescribeSubnets :: "call log \<Rightarrow> string list \<Rightarrow> error + sdk_subnet list option"
  onCreateSubnet :: "call log \<Rightarrow> create_subnet_input \<Rightarrow> error + sdk_subnet option option"
  onDeleteSubnet :: "call log \<Rightarrow> string option \<Rightarrow> error option"
  onModifySubnetAttribute :: "call log \<Rightarrow> modify_subnet_attribute_input \<Rightarrow> error option"

subsection \<open>Route tables\<close>

text \<open>
  The association of a table with the subnet: the first that names the subnet, or an empty
  struct when there is none. An association without a subnet panics.
\<close>

definition emptyAssociation :: sdk_route_table_association where
  "emptyAssociation = \<lparr>sdkRtaAssociationState = None, sdkRtaGatewayId = None, sdkRtaMain = None,
     sdkRtaRouteTableAssociationId = None, sdkRtaRouteTableId = None, sdkRtaSubnetId = None\<rparr>"

fun associationOf :: "string option \<Rightarrow> sdk_route_table_association list \<Rightarrow> sdk_route_table_association act" where
  "associationOf subnetID [] = ret emptyAssociation"
| "associationOf subnetID (a # as) =
     bind (deref (sdkRtaSubnetId a)) (\<lambda>s. bind (deref subnetID) (\<lambda>i.
     if s = i then ret a else associationOf subnetID as))"

definition collect_Subnet :: "string option \<Rightarrow> sdk_route_table \<Rightarrow> sdk_route_table_association list act" where
  "collect_Subnet subnetID rt = bind (associationOf subnetID (elems (sdkRtAssociations rt))) (\<lambda>a. ret [a])"

definition getRouteTableAssociations_Subnet ::
  "nat \<Rightarrow> 'x tables_api_scheme \<Rightarrow> subnet \<Rightarrow> (sdk_route_table_association list \<times> error option) act" where
  "getRouteTableAssociations_Subnet n api res =
     bind (deref (SubnetID (snStatus res))) (\<lambda>i.
     associationsLoop n api (collect_Subnet (SubnetID (snStatus res)))
       \<lparr>dtRouteTableIds = [], dtFilters = [\<lparr>filterName = ''association.subnet-id'', filterValues = [i]\<rparr>],
        dtNextToken = None\<rparr> [])"

definition associateRouteTable_Subnet :: "'x associations_api_scheme \<Rightarrow> string \<Rightarrow> string \<Rightarrow> error option act" where
  "associateRouteTable_Subnet api rtID subnetID =
     bind (callRecord AssociateRouteTable (onAssociateRouteTable api) ''UPDATE'' ''AssociateRouteTable''
             \<lparr>atRouteTableId = Some rtID, atSubnetId = Some subnetID, atGatewayId = None\<rparr>) (\<lambda>err.
     ifErr err (\<lambda>e. ret (Some e)) (ret None))"

definition updateRouteTableAssociations_Subnet ::
  "nat \<Rightarrow> 'x associations_api_scheme \<Rightarrow> (string \<Rightarrow> string option list \<Rightarrow> bool) \<Rightarrow> subnet \<Rightarrow> subnet \<Rightarrow> error option act" where
  "updateRouteTableAssociations_Subnet n api isIn desired latest =
     updateAssociations n api isIn (getRouteTableAssociations_Subnet n api latest)
       (\<lambda>rt. bind (deref (SubnetID (snStatus latest))) (\<lambda>i. associateRouteTable_Subnet api rt i))
       (snRouteTables (snSpec desired))"

subsection \<open>Attributes\<close>

definition emptyModify :: "subnet \<Rightarrow> modify_subnet_attribute_input" where
  "emptyModify r = \<lparr>msSubnetId = SubnetID (snStatus r), msAssignIpv6AddressOnCreation = None,
     msMapCustomerOwnedIpOnLaunch = None, msCustomerOwnedIpv4Pool = None, msEnableDns64 = None,
     msEnableResourceNameDnsAAAARecordOnLaunch = None, msEnableResourceNameDnsARecordOnLaunch = None,
     msPrivateDnsHostnameTypeOnLaunch = [], msMapPublicIpOnLaunch = None\<rparr>"

text \<open>\<open>&defaultAttrValue\<close>, whose value is false, or the value of the spec when it has one.\<close>

definition attributeOr :: "bool option \<Rightarrow> attribute_boolean option" where
  "attributeOr p = Some (case p of None \<Rightarrow> Some False | Some b \<Rightarrow> Some b)"

definition attributeInput :: "subnet \<Rightarrow> string \<Rightarrow> modify_subnet_attribute_input" where
  "attributeInput r field =
     (if field = ''AssignIPv6AddressOnCreation''
      then (emptyModify r)\<lparr>msAssignIpv6AddressOnCreation := attributeOr (AssignIPv6AddressOnCreation (snSpec r))\<rparr>
      else if field = ''CustomerOwnedIPv4Pool''
      then (emptyModify r)\<lparr>msMapCustomerOwnedIpOnLaunch := Some (Some (CustomerOwnedIPv4Pool (snSpec r) \<noteq> None)),
                           msCustomerOwnedIpv4Pool := CustomerOwnedIPv4Pool (snSpec r)\<rparr>
      else if field = ''EnableDNS64'' then (emptyModify r)\<lparr>msEnableDns64 := attributeOr (EnableDNS64 (snSpec r))\<rparr>
      else if field = ''EnableResourceNameDNSAAAARecord''
      then (emptyModify r)\<lparr>msEnableResourceNameDnsAAAARecordOnLaunch := attributeOr (EnableResourceNameDNSAAAARecord (snSpec r))\<rparr>
      else if field = ''EnableResourceNameDNSARecord''
      then (emptyModify r)\<lparr>msEnableResourceNameDnsARecordOnLaunch := attributeOr (EnableResourceNameDNSARecord (snSpec r))\<rparr>
      else if field = ''HostnameType''
      then (emptyModify r)\<lparr>msPrivateDnsHostnameTypeOnLaunch :=
             (case HostnameType (snSpec r) of None \<Rightarrow> ''ip-name'' | Some h \<Rightarrow> h)\<rparr>
      else if field = ''MapPublicIPOnLaunch''
      then (emptyModify r)\<lparr>msMapPublicIpOnLaunch := attributeOr (MapPublicIPOnLaunch (snSpec r))\<rparr>
      else emptyModify r)"

definition updateSubnetAttribute :: "'x subnet_api_scheme \<Rightarrow> subnet \<Rightarrow> string \<Rightarrow> error option act" where
  "updateSubnetAttribute api r field =
     bind (callRecord ModifySubnetAttribute (onModifySubnetAttribute api) ''UPDATE'' ''ModifySubnetAttribute''
             (attributeInput r field)) (\<lambda>err. ifErr err (\<lambda>e. ret (Some e)) (ret None))"

text \<open>
  A step of \<open>customUpdateSubnet\<close>: when the delta has the field, modify the attribute and write
  what is known of it into the status of \<open>updated\<close>, which \<open>note\<close> does; writing through nil
  DNS options panics.
\<close>

definition attributeStep ::
  "'x subnet_api_scheme \<Rightarrow> (string \<Rightarrow> bool) \<Rightarrow> subnet \<Rightarrow> string \<Rightarrow> (subnet \<Rightarrow> subnet act)
   \<Rightarrow> (subnet \<Rightarrow> (subnet option \<times> error option) act) \<Rightarrow> subnet \<Rightarrow> (subnet option \<times> error option) act" where
  "attributeStep api differentAt desired field note rest updated =
     (if differentAt (''Spec.'' @ field)
      then bind (updateSubnetAttribute api desired field) (\<lambda>err.
           ifErr err (\<lambda>e. ret (None, Some e)) (bind (note updated) rest))
      else rest updated)"

definition noteDNSOptions :: "(private_dns_name_options \<Rightarrow> private_dns_name_options) \<Rightarrow> subnet \<Rightarrow> subnet act" where
  "noteDNSOptions f k =
     bind (deref (PrivateDNSNameOptionsOnLaunch (snStatus k))) (\<lambda>d.
     ret (k\<lparr>snStatus := (snStatus k)\<lparr>PrivateDNSNameOptionsOnLaunch := Some (f d)\<rparr>\<rparr>))"

definition attributeSteps_Subnet ::
  "'x subnet_api_scheme \<Rightarrow> (string \<Rightarrow> bool) \<Rightarrow> subnet \<Rightarrow> subnet \<Rightarrow> (subnet option \<times> error option) act" where
  "attributeSteps_Subnet api differentAt desired =
     (let step = attributeStep api differentAt desired; spec = snSpec desired in
      step ''AssignIPv6AddressOnCreation'' ret
     (step ''CustomerOwnedIPv4Pool'' (\<lambda>k. ret (k\<lparr>snStatus := (snStatus k)\<lparr>MapCustomerOwnedIPOnLaunch :=
                                                Some (CustomerOwnedIPv4Pool spec \<noteq> None)\<rparr>\<rparr>))
     (step ''EnableDNS64'' ret
     (step ''EnableResourceNameDNSAAAARecord''
        (noteDNSOptions (\<lambda>d. d\<lparr>dnsEnableResourceNameDNSAAAARecord := EnableResourceNameDNSAAAARecord spec\<rparr>))
     (step ''EnableResourceNameDNSARecord''
        (noteDNSOptions (\<lambda>d. d\<lparr>dnsEnableResourceNameDNSARecord := EnableResourceNameDNSARecord spec\<rparr>))
     (step ''HostnameType'' (noteDNSOptions (\<lambda>d. d\<lparr>dnsHostnameType := HostnameType spec\<rparr>))
     (step ''MapPublicIPOnLaunch'' ret
     (\<lambda>updated. ret (Some updated, None)))))))))"

definition customUpdateSubnet ::
  "nat \<Rightarrow> 'x subnet_api_scheme \<Rightarrow> (string \<Rightarrow> string option list \<Rightarrow> bool) \<Rightarrow> subnet \<Rightarrow> subnet \<Rightarrow> (string \<Rightarrow> bool)
   \<Rightarrow> (subnet option \<times> error option) act" where
  "customUpdateSubnet n api isIn desired latest differentAt =
     bind (whenErr (differentAt ''Spec.RouteTables'') (updateRouteTableAssociations_Subnet n api isIn desired latest)
          (whenErr (differentAt ''Spec.Tags'')
             (bind (deref (SubnetID (snStatus latest))) (\<lambda>i.
              Sync api i (elems (snTags (snSpec desired))) (elems (snTags (snSpec latest)))))
          (ret None))) (\<lambda>err.
     ifErr err (\<lambda>e. ret (None, Some e)) (attributeSteps_Subnet api differentAt desired desired))"

subsection \<open>Reading and creating\<close>

definition subnetCidrAssociation :: "sdk_ipv6_cidr_association \<Rightarrow> subnet_ipv6_cidr_block_association" where
  "subnetCidrAssociation x =
     \<lparr>sn6AssociationID = sdkCa6AssociationId x, sn6IPv6CIDRBlock = sdkCa6Ipv6CidrBlock x,
      sn6IPv6CIDRBlockState = map_option (\<lambda>st. \<lparr>scbState = enumPtr (sdkCbState st),
        scbStatusMessage = sdkCbStatusMessage st\<rparr>) (sdkCa6Ipv6CidrBlockState x)\<rparr>"

definition dnsOptionsFromSdk :: "sdk_dns_options \<Rightarrow> private_dns_name_options" where
  "dnsOptionsFromSdk x =
     \<lparr>dnsEnableResourceNameDNSAAAARecord = sdkDnsAAAARecord x, dnsEnableResourceNameDNSARecord = sdkDnsARecord x,
      dnsHostnameType = enumPtr (sdkDnsHostnameType x)\<rparr>"

definition emptyMetadata :: resource_metadata where
  "emptyMetadata = \<lparr>ARN = None, OwnerAccountID = None, Region = None, Partition = None\<rparr>"

definition putARN :: "string option \<Rightarrow> resource_metadata option \<Rightarrow> resource_metadata option" where
  "putARN arn md =
     (case arn of None \<Rightarrow> md
      | Some a \<Rightarrow> Some ((case md of None \<Rightarrow> emptyMetadata | Some m \<Rightarrow> m)\<lparr>ARN := Some a\<rparr>))"

text \<open>What \<open>sdkFind\<close> and \<open>sdkCreate\<close> copy from the subnet of an answer.\<close>

definition setFromSubnet :: "subnet \<Rightarrow> sdk_subnet \<Rightarrow> subnet" where
  "setFromSubnet k elem =
     k\<lparr>snSpec := (snSpec k)\<lparr>
         AssignIPv6AddressOnCreation := sdkSnAssignIpv6AddressOnCreation elem,
         AvailabilityZone := sdkSnAvailabilityZone elem, AvailabilityZoneID := sdkSnAvailabilityZoneId elem,
         snCIDRBlock := sdkSnCidrBlock elem, CustomerOwnedIPv4Pool := sdkSnCustomerOwnedIpv4Pool elem,
         EnableDNS64 := sdkSnEnableDns64 elem, IPv6Native := sdkSnIpv6Native elem,
         MapPublicIPOnLaunch := sdkSnMapPublicIpOnLaunch elem, OutpostARN := sdkSnOutpostArn elem,
         snTags := map_option resourceTags (sdkSnTags elem), snVPCID := sdkSnVpcId elem\<rparr>,
       snStatus := (snStatus k)\<lparr>
         ACKResourceMetadata := putARN (sdkSnSubnetArn elem) (ACKResourceMetadata (snStatus k)),
         AvailableIPAddressCount := map_option toInt64 (sdkSnAvailableIpAddressCount elem),
         DefaultForAZ := sdkSnDefaultForAz elem,
         EnableLniAtDeviceIndex := map_option toInt64 (sdkSnEnableLniAtDeviceIndex elem),
         snIPv6CIDRBlockAssociationSet := map_option (map subnetCidrAssociation) (sdkSnIpv6CidrBlockAssociationSet elem),
         MapCustomerOwnedIPOnLaunch := sdkSnMapCustomerOwnedIpOnLaunch elem, snOwnerID := sdkSnOwnerId elem,
         PrivateDNSNameOptionsOnLaunch := map_option dnsOptionsFromSdk (sdkSnPrivateDnsNameOptionsOnLaunch elem),
         snState := enumPtr (sdkSnState elem), SubnetID := sdkSnSubnetId elem\<rparr>\<rparr>"

definition defaults_Subnet :: "resource_manager \<Rightarrow> subnet \<Rightarrow> subnet" where
  "defaults_Subnet rm k = k\<lparr>snStatus := setStatusDefaults rm (snStatus k)\<rparr>"

definition orElse :: "'a option \<Rightarrow> 'a option \<Rightarrow> 'a option" where
  "orElse p q = (if p \<noteq> None then p else q)"

text \<open>The DNS options of the status that are set become fields of the spec.\<close>

definition specDNSOptions :: "subnet \<Rightarrow> subnet" where
  "specDNSOptions k =
     (case PrivateDNSNameOptionsOnLaunch (snStatus k) of None \<Rightarrow> k
      | Some d \<Rightarrow> k\<lparr>snSpec := (snSpec k)\<lparr>
          EnableResourceNameDNSARecord := orElse (dnsEnableResourceNameDNSARecord d) (EnableResourceNameDNSARecord (snSpec k)),
          EnableResourceNameDNSAAAARecord := orElse (dnsEnableResourceNameDNSAAAARecord d) (EnableResourceNameDNSAAAARecord (snSpec k)),
          HostnameType := orElse (dnsHostnameType d) (HostnameType (snSpec k))\<rparr>\<rparr>)"

definition requiredFieldsMissing_Subnet :: "subnet \<Rightarrow> bool" where
  "requiredFieldsMissing_Subnet r \<longleftrightarrow> SubnetID (snStatus r) = None"

definition newListRequestPayload_Subnet :: "subnet \<Rightarrow> string list" where
  "newListRequestPayload_Subnet r = (case SubnetID (snStatus r) of None \<Rightarrow> [] | Some i \<Rightarrow> [i])"

definition sdkFind_Subnet ::
  "nat \<Rightarrow> 'x subnet_api_scheme \<Rightarrow> resource_manager \<Rightarrow> subnet \<Rightarrow> (subnet option \<times> error option) act" where
  "sdkFind_Subnet n api rm r =
     (if requiredFieldsMissing_Subnet r then ret (None, Some NotFound)
      else
        bind (invoke DescribeSubnets (onDescribeSubnets api) (newListRequestPayload_Subnet r)) (\<lambda>resp.
        bind (recordAPICall ''READ_MANY'' ''DescribeSubnets'' (errOf resp)) (\<lambda>_.
        case resp of
          Inl e \<Rightarrow> ret (None, Some (if errorCode e = Some ''UNKNOWN'' then NotFound else e))
        | Inr out \<Rightarrow>
            bind (deref out) (\<lambda>subnets.
            case subnets of
              [] \<Rightarrow> ret (None, Some NotFound)
            | elem # _ \<Rightarrow>
                let ko = specDNSOptions (defaults_Subnet rm (setFromSubnet r elem)) in
                bind (getRouteTableAssociations_Subnet n api ko) (\<lambda>(assocs, err).
                ifErr err (\<lambda>e. ret (None, Some e))
               (ret (Some (ko\<lparr>snSpec := (snSpec ko)\<lparr>snRouteTables := map sdkRtaRouteTableId assocs\<rparr>\<rparr>), None)))))))"

definition newCreateRequestPayload_Subnet :: "subnet \<Rightarrow> create_subnet_input" where
  "newCreateRequestPayload_Subnet r =
     \<lparr>csnAvailabilityZone = AvailabilityZone (snSpec r), csnAvailabilityZoneId = AvailabilityZoneID (snSpec r),
      csnCidrBlock = snCIDRBlock (snSpec r), csnIpv6CidrBlock = snIPv6CIDRBlock (snSpec r),
      csnIpv6Native = IPv6Native (snSpec r), csnOutpostArn = OutpostARN (snSpec r),
      csnVpcId = snVPCID (snSpec r), csnTagSpecifications = None\<rparr>"

definition updateTagSpecifications_Subnet :: "subnet \<Rightarrow> create_subnet_input \<Rightarrow> create_subnet_input" where
  "updateTagSpecifications_Subnet r input =
     input\<lparr>csnTagSpecifications := tagSpecificationsFor ''subnet'' (snTags (snSpec r))\<rparr>"

text \<open>The fields that \<open>CreateSubnet\<close> does not take stay as desired, so that the next update sees them.\<close>

definition keepDesired :: "subnet \<Rightarrow> subnet \<Rightarrow> subnet" where
  "keepDesired desired ko =
     ko\<lparr>snSpec := (snSpec ko)\<lparr>
        AssignIPv6AddressOnCreation := orElse (AssignIPv6AddressOnCreation (snSpec desired)) (AssignIPv6AddressOnCreation (snSpec ko)),
        CustomerOwnedIPv4Pool := orElse (CustomerOwnedIPv4Pool (snSpec desired)) (CustomerOwnedIPv4Pool (snSpec ko)),
        EnableDNS64 := orElse (EnableDNS64 (snSpec desired)) (EnableDNS64 (snSpec ko)),
        MapPublicIPOnLaunch := orElse (MapPublicIPOnLaunch (snSpec desired)) (MapPublicIPOnLaunch (snSpec ko))\<rparr>\<rparr>"

definition requeueForUpdates :: error where
  "requeueForUpdates = RequeueNeededAfter (Some (GoError ''Reconciling to sync additional fields'')) 1"

text \<open>\<open>setSynced\<close> stands for the runtime's \<open>SetSynced\<close> with status False and the given message.\<close>

definition sdkCreate_Subnet ::
  "'x subnet_api_scheme \<Rightarrow> (string option \<Rightarrow> condition list \<Rightarrow> condition list) \<Rightarrow> resource_manager \<Rightarrow> subnet
   \<Rightarrow> (subnet option \<times> error option) act" where
  "sdkCreate_Subnet api setSynced rm desired =
     (let input = updateTagSpecifications_Subnet desired (newCreateRequestPayload_Subnet desired) in
      bind (invoke CreateSubnet (onCreateSubnet api) input) (\<lambda>r.
      bind (recordAPICall ''CREATE'' ''CreateSubnet'' (errOf r)) (\<lambda>_.
      case r of Inl e \<Rightarrow> ret (None, Some e) | Inr out \<Rightarrow>
      bind (deref out) (\<lambda>resp.
      bind (deref resp) (\<lambda>elem.
      let ko = keepDesired desired (defaults_Subnet rm (setFromSubnet desired elem)) in
      ret (Some (ko\<lparr>snStatus := (snStatus ko)\<lparr>Conditions :=
             setSynced (Some ''subnet created, requeue for updates'') (Conditions (snStatus ko))\<rparr>\<rparr>),
           Some requeueForUpdates))))))"

subsection \<open>Deleting and comparing\<close>

definition newDeleteRequestPayload_Subnet :: "subnet \<Rightarrow> string option" where
  "newDeleteRequestPayload_Subnet r = SubnetID (snStatus r)"

definition sdkDelete_Subnet :: "'x subnet_api_scheme \<Rightarrow> subnet \<Rightarrow> (subnet option \<times> error option) act" where
  "sdkDelete_Subnet api r =
     bind (callRecord DeleteSubnet (onDeleteSubnet api) ''DELETE'' ''DeleteSubnet'' (newDeleteRequestPayload_Subnet r)) (\<lambda>err.
     ret (None, err))"

definition compareSpecs_Subnet :: "('x) ackcompare_scheme \<Rightarrow> subnet_spec \<Rightarrow> subnet_spec \<Rightarrow> delta" where
  "compareSpecs_Subnet C a b =
    (let d1 = cmpBool C ''Spec.AssignIPv6AddressOnCreation'' (AssignIPv6AddressOnCreation a) (AssignIPv6AddressOnCreation b) [];
         d2 = cmpStr C ''Spec.AvailabilityZone'' (AvailabilityZone a) (AvailabilityZone b) d1;
         d3 = cmpStr C ''Spec.AvailabilityZoneID'' (AvailabilityZoneID a) (AvailabilityZoneID b) d2;
         d4 = cmpStr C ''Spec.CIDRBlock'' (snCIDRBlock a) (snCIDRBlock b) d3;
         d5 = cmpStr C ''Spec.CustomerOwnedIPv4Pool'' (CustomerOwnedIPv4Pool a) (CustomerOwnedIPv4Pool b) d4;
         d6 = cmpBool C ''Spec.EnableDNS64'' (EnableDNS64 a) (EnableDNS64 b) d5;
         d7 = cmpBool C ''Spec.EnableResourceNameDNSAAAARecord'' (EnableResourceNameDNSAAAARecord a)
                (EnableResourceNameDNSAAAARecord b) d6;
         d8 = cmpBool C ''Spec.EnableResourceNameDNSARecord'' (EnableResourceNameDNSARecord a)
                (EnableResourceNameDNSARecord b) d7;
         d9 = cmpStr C ''Spec.HostnameType'' (HostnameType a) (HostnameType b) d8;
         d10 = cmpStr C ''Spec.IPv6CIDRBlock'' (snIPv6CIDRBlock a) (snIPv6CIDRBlock b) d9;
         d11 = cmpBool C ''Spec.IPv6Native'' (IPv6Native a) (IPv6Native b) d10;
         d12 = cmpBool C ''Spec.MapPublicIPOnLaunch'' (MapPublicIPOnLaunch a) (MapPublicIPOnLaunch b) d11;
         d13 = cmpStr C ''Spec.OutpostARN'' (OutpostARN a) (OutpostARN b) d12;
         d14 = compareRefs C ''Spec.RouteTableRefs'' (snRouteTableRefs a) (snRouteTableRefs b) d13;
         d15 = cmpStrs C ''Spec.RouteTables'' (snRouteTables a) (snRouteTables b) d14;
         d16 = compareTags C ''Spec.Tags'' (snTags a) (snTags b) d15;
         d17 = cmpStr C ''Spec.VPCID'' (snVPCID a) (snVPCID b) d16
     in compareRef C ''Spec.VPCRef'' (snVPCRef a) (snVPCRef b) d17)"

definition newResourceDelta_Subnet :: "('x) ackcompare_scheme \<Rightarrow> subnet option \<Rightarrow> subnet option \<Rightarrow> delta act" where
  "newResourceDelta_Subnet C a b = bothResources a b (\<lambda>x y. compareSpecs_Subnet C (snSpec x) (snSpec y)) (\<lambda>d. d)"

subsection \<open>The kind\<close>

definition mirrorTags_Subnet :: "(acktags \<Rightarrow> acktags) \<Rightarrow> subnet \<Rightarrow> subnet option \<Rightarrow> subnet" where
  "mirrorTags_Subnet iter a b =
     (case b of None \<Rightarrow> a
      | Some l \<Rightarrow> a\<lparr>snSpec := (snSpec a)\<lparr>snTags := mirrorAWSTags iter (snTags (snSpec a)) (snTags (snSpec l))\<rparr>\<rparr>)"

definition terminalCodes_Subnet :: "string list" where
  "terminalCodes_Subnet = [''InvalidParameterValue'', ''InvalidCustomerOwnedIpv4PoolID.Malformed'']"

definition snKind ::
  "nat \<Rightarrow> 'x subnet_api_scheme \<Rightarrow> (string \<Rightarrow> string option list \<Rightarrow> bool) \<Rightarrow> (string option \<Rightarrow> condition list \<Rightarrow> condition list)
   \<Rightarrow> resource_manager \<Rightarrow> error_texts \<Rightarrow> (delta \<Rightarrow> string \<Rightarrow> bool) \<Rightarrow> (acktags \<Rightarrow> acktags) \<Rightarrow> subnet kind" where
  "snKind n api isIn setSynced rm env differentAt iter =
     \<lparr>findOp = (\<lambda>r. bind (sdkFind_Subnet n api rm r) (\<lambda>x. ret (r, x))),
      createOp = sdkCreate_Subnet api setSynced rm,
      updateOp = (\<lambda>desired latest d. bind (customUpdateSubnet n api isIn desired latest (differentAt d)) (\<lambda>x. ret (latest, x))),
      deleteOp = sdkDelete_Subnet api,
      mirrorOp = mirrorTags_Subnet iter,
      conditionsOp = (\<lambda>k. Conditions (snStatus k)),
      updateConditionsOp = conditionsUpdater env terminalCodes_Subnet rm snStatus (\<lambda>st k. k\<lparr>snStatus := st\<rparr>)\<rparr>"

lemma sn_reports: "AWSError_law env \<Longrightarrow> reporting_kind (snKind n api isIn setSynced rm env differentAt iter) terminalCodes_Subnet"
  by (rule conditionsUpdater_reports [where get = snStatus and put = "\<lambda>st k. k\<lparr>snStatus := st\<rparr>"]) (simp_all add: snKind_def)

interpretation sn_kind: reporting_kind "snKind n api isIn setSynced rm plainTexts differentAt iter" terminalCodes_Subnet
  for n and api :: "'x subnet_api_scheme" and isIn setSynced rm differentAt iter
  by (rule sn_reports [OF plainTexts_law])

subsection \<open>Properties\<close>

abbreviation subnetOf :: "subnet \<Rightarrow> string option" where "subnetOf k \<equiv> SubnetID (snStatus k)"

definition tablesRequest :: "string \<Rightarrow> describe_tables_input" where
  "tablesRequest i = \<lparr>dtRouteTableIds = [], dtFilters = [\<lparr>filterName = ''association.subnet-id'', filterValues = [i]\<rparr>],
     dtNextToken = None\<rparr>"

lemma bind_Panic: "fst (m s) = Panic \<Longrightarrow> fst (bind m f s) = Panic"
  by (cases "m s") (simp add: bind_def)

lemma mapAct_panics:
  assumes "x \<in> set xs" "\<And>t. fst (f x t) = Panic" "\<And>y t. fst (f y t) \<noteq> NoFuel"
  shows "fst (mapAct f xs s) = Panic"
  using assms(1)
proof (induction xs arbitrary: s)
  case (Cons y ys)
  show ?case
  proof (cases "fst (f y s)")
    case (Ret v)
    then have "x \<in> set ys" using Cons.prems assms(2) [of s] by auto
    then have "fst (mapAct f ys u) = Panic" for u by (rule Cons.IH)
    with Ret show ?thesis by (cases "f y s") (simp add: bind_Panic)
  next
    case NoFuel
    with assms(3) show ?thesis by blast
  qed (simp add: bind_Panic)
qed simp

lemma associationOf_panics:
  assumes "sdkRtaSubnetId a = None" "Some i \<notin> sdkRtaSubnetId ` set pre"
  shows "fst (associationOf (Some i) (pre @ a # post) t) = Panic"
  using assms(2)
proof (induction pre)
  case (Cons b bs)
  then show ?case by (cases "sdkRtaSubnetId b") auto
qed (simp add: assms(1))

lemma associationOf_returns: "fst (associationOf i as t) \<noteq> NoFuel"
proof (induction as)
  case (Cons a as)
  then show ?case by (cases "sdkRtaSubnetId a"; cases i) auto
qed simp

lemma collect_Subnet_returns: "fst (collect_Subnet i rt t) \<noteq> NoFuel"
  using associationOf_returns [of i "elems (sdkRtAssociations rt)" t]
  by (cases "associationOf i (elems (sdkRtAssociations rt)) t") (auto simp: collect_Subnet_def bind_def split: outcome.split)

text \<open>
  The main association of a route table makes reading a subnet panic. When a table of the
  first page lists an association without a subnet (as the main association, or one with a
  gateway, is) before the one of the subnet, \<open>getRouteTableAssociations\<close> dereferences its nil
  subnet: \<open>sdkFind\<close> panics, whatever the other tables and associations are.
\<close>

theorem association_without_subnet_panics:
  assumes "subnetOf r = Some i" "onDescribeSubnets api s [i] = Inr (Some (elem # rest))" "sdkSnSubnetId elem = Some j"
    and "\<And>t. onDescribeRouteTables api t (tablesRequest j) = Inr (Some out)"
    and "rt \<in> set (outRouteTables out)" "elems (sdkRtAssociations rt) = pre @ a # post" "sdkRtaSubnetId a = None"
    and "Some j \<notin> sdkRtaSubnetId ` set pre"
  shows "fst (sdkFind_Subnet (Suc n) api rm r s) = Panic"
proof -
  let ?ko = "specDNSOptions (defaults_Subnet rm (setFromSubnet r elem))"
  let ?t = "s @ [Call (DescribeSubnets [i]), Metric ''READ_MANY'' ''DescribeSubnets'' None]"
  have ko: "subnetOf ?ko = Some j"
    using assms(3) by (simp add: specDNSOptions_def defaults_Subnet_def setFromSubnet_def setStatusDefaults_def Let_def split: option.split)
  have "fst (collect_Subnet (Some j) rt t) = Panic" for t
    unfolding collect_Subnet_def assms(6) by (rule bind_Panic [OF associationOf_panics [OF assms(7,8)]])
  then have "fst (mapAct (collect_Subnet (Some j)) (outRouteTables out) t) = Panic" for t
    by (rule mapAct_panics [OF assms(5) _ collect_Subnet_returns])
  then have "fst (fetchAssociations api (collect_Subnet (Some j)) (tablesRequest j) t) = Panic" for t
    using assms(4) by (simp add: fetchAssociations_def bind_Panic)
  then have "fst (getRouteTableAssociations_Subnet (Suc n) api ?ko ?t) = Panic"
    using ko by (simp add: getRouteTableAssociations_Subnet_def tablesRequest_def bind_Panic)
  then show ?thesis
    using assms(1,2) by (simp add: sdkFind_Subnet_def requiredFieldsMissing_Subnet_def newListRequestPayload_Subnet_def Let_def bind_Panic)
qed

text \<open>
  C27. Associating a subnet with its route tables. Let the associations read be complete and the
  desired tables be given: on any answers of EC2, \<open>updateRouteTableAssociations\<close> removes the
  associations with tables that are not desired, by their identifiers, then associates the missing
  tables, stops at the first error and returns it, and calls nothing when both name the same tables.
\<close>

theorem updateRouteTableAssociations_plan:
  assumes "InStringPs_law isIn" "wfAssociations existing" "None \<notin> set (snRouteTables (snSpec desired))"
    and "subnetOf latest = Some i" "getRouteTableAssociations_Subnet n api latest s = (Ret (existing, None), t)"
  shows "\<exists>ys e plan. fst (updateRouteTableAssociations_Subnet n api isIn desired latest s) = Ret e
    \<and> plan = associationsPlan (\<lambda>rt. AssociateRouteTable \<lparr>atRouteTableId = Some rt, atSubnetId = Some i, atGatewayId = None\<rparr>)
               existing (snRouteTables (snSpec desired))
    \<and> calls (snd (updateRouteTableAssociations_Subnet n api isIn desired latest s)) = calls t @ ys
    \<and> prefix ys plan \<and> (e = None \<longrightarrow> ys = plan)
    \<and> (tablesOf existing = the ` set (snRouteTables (snSpec desired)) \<longrightarrow> ys = [])"
proof -
  let ?d = "snRouteTables (snSpec desired)"
  let ?call = "\<lambda>rt. AssociateRouteTable \<lparr>atRouteTableId = Some rt, atSubnetId = Some i, atGatewayId = None\<rparr>"
  let ?assoc = "\<lambda>rt. bind (deref (subnetOf latest)) (\<lambda>i. associateRouteTable_Subnet api rt i)"
  have "follows (?assoc rt) [?call rt]" for rt
    unfolding assms(4) deref_simps bind_simps associateRouteTable_Subnet_def by (rule follows_done [OF follows_callRecord])
  from changeAssociations_follows [OF assms(1-3), of ?assoc ?call api, OF this]
  obtain ys e u where r: "changeAssociations api isIn ?assoc existing ?d t = (Ret e, u)" "calls u = calls t @ ys"
    "prefix ys (associationsPlan ?call existing ?d)" "e = None \<longrightarrow> ys = associationsPlan ?call existing ?d"
    by (rule followsE [where s = t])
  have "updateRouteTableAssociations_Subnet n api isIn desired latest s = changeAssociations api isIn ?assoc existing ?d t"
    using assms(5) by (simp add: updateRouteTableAssociations_Subnet_def updateAssociations_def)
  moreover have "associationsPlan ?call existing ?d = []" if same: "tablesOf existing = the ` set ?d"
  proof -
    have "sdkRtaRouteTableId a \<in> set ?d" if "a \<in> set existing" for a
    proof -
      from that same obtain rt where rt: "rt \<in> set ?d" "the rt = the (sdkRtaRouteTableId a)" by (metis imageE imageI)
      moreover have "rt \<noteq> None" using rt(1) assms(3) by metis
      moreover have "sdkRtaRouteTableId a \<noteq> None" using assms(2) that by (simp add: wfAssociations_def)
      ultimately show ?thesis by (metis option.exhaust_sel)
    qed
    with same show ?thesis by (auto simp: associationsPlan_def filter_empty_conv)
  qed
  ultimately show ?thesis using r by (intro exI [of _ ys] exI [of _ e] exI [of _ "associationsPlan ?call existing ?d"]) auto
qed

text \<open>
  Creating a subnet. \<open>sdkCreate\<close> makes the one call \<open>CreateSubnet\<close>; when it succeeds, the
  resource returned carries the new identifier and, for the fields that \<open>CreateSubnet\<close> does not take,
  the values of the spec, and it comes with the request to be reconciled again after a second, never
  without an error.
\<close>

theorem sdkCreate_Subnet_requeues:
  assumes "onCreateSubnet api s (updateTagSpecifications_Subnet desired (newCreateRequestPayload_Subnet desired)) = Inr (Some (Some elem))"
  shows "\<exists>k t. sdkCreate_Subnet api setSynced rm desired s = (Ret (Some k, Some requeueForUpdates), t)
    \<and> calls t = calls s @ [CreateSubnet (updateTagSpecifications_Subnet desired (newCreateRequestPayload_Subnet desired))]
    \<and> subnetOf k = sdkSnSubnetId elem
    \<and> (\<forall>b. AssignIPv6AddressOnCreation (snSpec desired) = Some b \<longrightarrow> AssignIPv6AddressOnCreation (snSpec k) = Some b)
    \<and> (\<forall>p. CustomerOwnedIPv4Pool (snSpec desired) = Some p \<longrightarrow> CustomerOwnedIPv4Pool (snSpec k) = Some p)
    \<and> (\<forall>b. EnableDNS64 (snSpec desired) = Some b \<longrightarrow> EnableDNS64 (snSpec k) = Some b)
    \<and> (\<forall>b. MapPublicIPOnLaunch (snSpec desired) = Some b \<longrightarrow> MapPublicIPOnLaunch (snSpec k) = Some b)"
  using assms
  by (simp add: sdkCreate_Subnet_def Let_def keepDesired_def orElse_def defaults_Subnet_def setStatusDefaults_def setFromSubnet_def)

text \<open>
  Changing a DNS option of a subnet whose status has no DNS options panics after EC2 was
  already changed: for the difference in the \<open>A\<close> record alone, the attribute is modified without an
  error and then written into the nil options of the status.
\<close>

theorem dns_option_update_panics:
  assumes "PrivateDNSNameOptionsOnLaunch (snStatus desired) = None"
    and "\<And>t. onModifySubnetAttribute api t (attributeInput desired ''EnableResourceNameDNSARecord'') = None"
  shows "fst (customUpdateSubnet n api isIn desired latest (\<lambda>p. p = ''Spec.EnableResourceNameDNSARecord'') s) = Panic
    \<and> calls (snd (customUpdateSubnet n api isIn desired latest (\<lambda>p. p = ''Spec.EnableResourceNameDNSARecord'') s))
        = calls s @ [ModifySubnetAttribute (attributeInput desired ''EnableResourceNameDNSARecord'')]"
  using assms
  by (simp add: customUpdateSubnet_def whenErr_def attributeSteps_Subnet_def attributeStep_def Let_def updateSubnetAttribute_def
      noteDNSOptions_def bind_def)

subsection \<open>Witnesses\<close>

definition exampleSubnet :: "string option \<Rightarrow> string list \<Rightarrow> subnet" where
  "exampleSubnet i tables = \<lparr>snSpec = \<lparr>AssignIPv6AddressOnCreation = None, AvailabilityZone = None, AvailabilityZoneID = None,
       snCIDRBlock = Some ''10.0.1.0/24'', CustomerOwnedIPv4Pool = None, EnableDNS64 = None,
       EnableResourceNameDNSAAAARecord = None, EnableResourceNameDNSARecord = Some True, HostnameType = None,
       snIPv6CIDRBlock = None, IPv6Native = None, MapPublicIPOnLaunch = Some True, OutpostARN = None, snRouteTableRefs = [],
       snRouteTables = map Some tables, snTags = None, snVPCID = Some ''vpc-1'', snVPCRef = None\<rparr>,
     snStatus = \<lparr>ACKResourceMetadata = None, Conditions = [], AvailableIPAddressCount = None, DefaultForAZ = None,
       EnableLniAtDeviceIndex = None, snIPv6CIDRBlockAssociationSet = None, MapCustomerOwnedIPOnLaunch = None,
       snOwnerID = None, PrivateDNSNameOptionsOnLaunch = None, snState = None, SubnetID = i\<rparr>\<rparr>"

definition exampleSdkSubnet :: sdk_subnet where
  "exampleSdkSubnet = \<lparr>sdkSnAssignIpv6AddressOnCreation = Some False, sdkSnAvailabilityZone = Some ''us-west-2a'',
     sdkSnAvailabilityZoneId = None, sdkSnAvailableIpAddressCount = Some 251, sdkSnCidrBlock = Some ''10.0.1.0/24'',
     sdkSnCustomerOwnedIpv4Pool = None, sdkSnDefaultForAz = Some False, sdkSnEnableDns64 = Some False,
     sdkSnEnableLniAtDeviceIndex = None, sdkSnIpv6CidrBlockAssociationSet = None, sdkSnIpv6Native = Some False,
     sdkSnMapCustomerOwnedIpOnLaunch = None, sdkSnMapPublicIpOnLaunch = Some False, sdkSnOutpostArn = None,
     sdkSnOwnerId = None, sdkSnPrivateDnsNameOptionsOnLaunch = None, sdkSnState = ''available'', sdkSnSubnetArn = None,
     sdkSnSubnetId = Some ''subnet-1'', sdkSnTags = None, sdkSnVpcId = Some ''vpc-1''\<rparr>"

definition exampleTableAssociation :: "string \<Rightarrow> string \<Rightarrow> string option \<Rightarrow> sdk_route_table_association" where
  "exampleTableAssociation rt i sn = emptyAssociation\<lparr>sdkRtaRouteTableAssociationId := Some i, sdkRtaRouteTableId := Some rt,
     sdkRtaSubnetId := sn\<rparr>"

definition exampleTables :: "sdk_route_table_association list \<Rightarrow> route_tables_output" where
  "exampleTables as = \<lparr>outRouteTables = [\<lparr>sdkRtAssociations = Some as, sdkRtOwnerId = None, sdkRtPropagatingVgws = None,
       sdkRtRouteTableId = Some ''rtb-1'', sdkRtRoutes = None, sdkRtTags = None, sdkRtVpcId = None\<rparr>],
     outTablesNextToken = None\<rparr>"

definition exampleSubnetApi :: "sdk_route_table_association list \<Rightarrow> subnet_api" where
  "exampleSubnetApi as = \<lparr>onCreateTags = (\<lambda>_ _. None), onDeleteTags = (\<lambda>_ _. None),
     onDescribeRouteTables = (\<lambda>_ _. Inr (Some (exampleTables as))), onAssociateRouteTable = (\<lambda>_ _. None),
     onDisassociateRouteTable = (\<lambda>_ _. None), onDescribeSubnets = (\<lambda>_ _. Inr (Some [exampleSdkSubnet])),
     onCreateSubnet = (\<lambda>_ _. Inr (Some (Some exampleSdkSubnet))), onDeleteSubnet = (\<lambda>_ _. None),
     onModifySubnetAttribute = (\<lambda>_ _. None)\<rparr>"

abbreviation exampleMain :: sdk_route_table_association where
  "exampleMain \<equiv> exampleTableAssociation ''rtb-1'' ''rtbassoc-main'' None"
abbreviation exampleOwn :: sdk_route_table_association where
  "exampleOwn \<equiv> exampleTableAssociation ''rtb-1'' ''rtbassoc-1'' (Some ''subnet-1'')"

definition exampleInStringPs :: "string \<Rightarrow> string option list \<Rightarrow> bool" where
  "exampleInStringPs s ps \<longleftrightarrow> Some s \<in> set ps"

lemma exampleInStringPs_law: "InStringPs_law exampleInStringPs"
  by (simp add: InStringPs_law_def exampleInStringPs_def)

lemma association_without_subnet_panics_witness:
  "fst (sdkFind_Subnet 1 (exampleSubnetApi [exampleMain, exampleOwn]) exampleManager (exampleSubnet (Some ''subnet-1'') []) []) = Panic"
proof -
  let ?api = "exampleSubnetApi [exampleMain, exampleOwn]" and ?r = "exampleSubnet (Some ''subnet-1'') []"
  obtain rt where rt: "rt \<in> set (outRouteTables (exampleTables [exampleMain, exampleOwn]))"
    "elems (sdkRtAssociations rt) = [] @ exampleMain # [exampleOwn]"
    by (simp add: exampleTables_def)
  have "subnetOf ?r = Some ''subnet-1''" "onDescribeSubnets ?api [] [''subnet-1''] = Inr (Some (exampleSdkSubnet # []))"
    "sdkSnSubnetId exampleSdkSubnet = Some ''subnet-1''" "sdkRtaSubnetId exampleMain = None"
    by (simp_all add: exampleSubnet_def exampleSubnetApi_def exampleSdkSubnet_def exampleTableAssociation_def)
  moreover have "onDescribeRouteTables ?api t (tablesRequest ''subnet-1'') = Inr (Some (exampleTables [exampleMain, exampleOwn]))" for t
    by (simp add: exampleSubnetApi_def)
  ultimately show ?thesis
    using association_without_subnet_panics [OF _ _ _ _ rt, of ?r "''subnet-1''" ?api "[]" exampleSdkSubnet "[]" "''subnet-1''" 0 exampleManager]
    by simp
qed

lemma updateRouteTableAssociations_plan_witness:
  "\<exists>ys e. fst (updateRouteTableAssociations_Subnet 1 (exampleSubnetApi [exampleOwn]) exampleInStringPs
       (exampleSubnet None [''rtb-2'']) (exampleSubnet (Some ''subnet-1'') [''rtb-1'']) []) = Ret e
    \<and> prefix ys [DisassociateRouteTable (Some ''rtbassoc-1''),
         AssociateRouteTable \<lparr>atRouteTableId = Some ''rtb-2'', atSubnetId = Some ''subnet-1'', atGatewayId = None\<rparr>]"
proof -
  let ?api = "exampleSubnetApi [exampleOwn]" and ?l = "exampleSubnet (Some ''subnet-1'') [''rtb-1'']"
  let ?d = "exampleSubnet None [''rtb-2'']"
  have "wfAssociations [exampleOwn]" "None \<notin> set (snRouteTables (snSpec ?d))" "subnetOf ?l = Some ''subnet-1''"
    by (auto simp: wfAssociations_def exampleTableAssociation_def exampleSubnet_def)
  moreover have "case getRouteTableAssociations_Subnet 1 ?api ?l [] of (Ret (as, None), t) \<Rightarrow> as = [exampleOwn] | _ \<Rightarrow> False"
    by code_simp
  then obtain t where "getRouteTableAssociations_Subnet 1 ?api ?l [] = (Ret ([exampleOwn], None), t)"
    by (cases "getRouteTableAssociations_Subnet 1 ?api ?l []") (auto split: outcome.splits option.splits)
  moreover have "associationsPlan (\<lambda>rt. AssociateRouteTable \<lparr>atRouteTableId = Some rt, atSubnetId = Some ''subnet-1'', atGatewayId = None\<rparr>)
      [exampleOwn] (snRouteTables (snSpec ?d)) = [DisassociateRouteTable (Some ''rtbassoc-1''),
         AssociateRouteTable \<lparr>atRouteTableId = Some ''rtb-2'', atSubnetId = Some ''subnet-1'', atGatewayId = None\<rparr>]"
    by code_simp
  ultimately show ?thesis
    using updateRouteTableAssociations_plan [OF exampleInStringPs_law, of "[exampleOwn]" ?d ?l "''subnet-1''" 1 ?api "[]" t] by auto
qed

lemma sdkCreate_Subnet_requeues_witness:
  "\<exists>k t. sdkCreate_Subnet (exampleSubnetApi []) (\<lambda>_ cs. cs) exampleManager (exampleSubnet None []) [] = (Ret (Some k, Some requeueForUpdates), t)
    \<and> subnetOf k = Some ''subnet-1'' \<and> MapPublicIPOnLaunch (snSpec k) = Some True"
proof -
  let ?d = "exampleSubnet None []"
  have "onCreateSubnet (exampleSubnetApi []) [] (updateTagSpecifications_Subnet ?d (newCreateRequestPayload_Subnet ?d)) = Inr (Some (Some exampleSdkSubnet))"
    by (simp add: exampleSubnetApi_def)
  moreover have "sdkSnSubnetId exampleSdkSubnet = Some ''subnet-1''" "MapPublicIPOnLaunch (snSpec ?d) = Some True"
    by (simp_all add: exampleSdkSubnet_def exampleSubnet_def)
  ultimately show ?thesis
    using sdkCreate_Subnet_requeues [of "exampleSubnetApi []" "[]" ?d exampleSdkSubnet "\<lambda>_ cs. cs" exampleManager] by auto
qed

lemma dns_option_update_panics_witness:
  "fst (customUpdateSubnet 1 (exampleSubnetApi []) exampleInStringPs (exampleSubnet (Some ''subnet-1'') [])
      (exampleSubnet (Some ''subnet-1'') []) (\<lambda>p. p = ''Spec.EnableResourceNameDNSARecord'') []) = Panic"
proof -
  let ?d = "exampleSubnet (Some ''subnet-1'') []"
  have "PrivateDNSNameOptionsOnLaunch (snStatus ?d) = None"
    "\<And>t. onModifySubnetAttribute (exampleSubnetApi []) t (attributeInput ?d ''EnableResourceNameDNSARecord'') = None"
    by (simp_all add: exampleSubnet_def exampleSubnetApi_def)
  from dns_option_update_panics [OF this] show ?thesis by blast
qed

end
