(* ===== verification/InternetGateway.thy ===== *)
theory InternetGateway
  imports TableAssociations
begin

text \<open>
  The internet gateway controller (\<open>pkg/resource/internet_gateway/hooks.go\<close>, \<open>sdk.go\<close>,
  \<open>delta.go\<close>): a gateway is attached to at most one VPC and associated with route tables. Names that
  another kind uses too carry the suffix \<open>_Gateway\<close>.
\<close>

subsection \<open>Data\<close>

record internet_gateway_attachment =
  igaState :: "string option"
  igaVPCID :: "string option"

record internet_gateway_spec =
  igRouteTableRefs :: "ref_wrapper option list"
  igRouteTables :: "string option list"
  igTags :: "tag list option"
  igVPC :: "string option"
  igVPCRef :: "ref_wrapper option"

record internet_gateway_status = common_status +
  Attachments :: "internet_gateway_attachment slice"
  InternetGatewayID :: "string option"
  igOwnerID :: "string option"

record internet_gateway =
  igSpec :: internet_gateway_spec
  igStatus :: internet_gateway_status

record gateway_api = associations_api +
  onDescribeInternetGateways :: "call log \<Rightarrow> string list \<Rightarrow> error + sdk_internet_gateway list option"
  onCreateInternetGateway :: "call log \<Rightarrow> create_in_vpc_input \<Rightarrow> error + sdk_internet_gateway option option"
  onDeleteInternetGateway :: "call log \<Rightarrow> string option \<Rightarrow> error option"
  onAttachInternetGateway :: "call log \<Rightarrow> string option \<Rightarrow> string option \<Rightarrow> error option"
  onDetachInternetGateway :: "call log \<Rightarrow> string option \<Rightarrow> string option \<Rightarrow> error option"

subsection \<open>The VPC\<close>

definition AttachmentStatusDetached :: string where "AttachmentStatusDetached = ''detached''"
definition AttachmentStatusDetaching :: string where "AttachmentStatusDetaching = ''detaching''"

text \<open>The VPC of the first attachment that is neither detached nor being detached; a nil state panics.\<close>

fun attachedVPC :: "internet_gateway_attachment list \<Rightarrow> string option act" where
  "attachedVPC [] = ret None"
| "attachedVPC (att # atts) =
     bind (deref (igaState att)) (\<lambda>st.
     if st \<noteq> AttachmentStatusDetached \<and> st \<noteq> AttachmentStatusDetaching then ret (igaVPCID att)
     else attachedVPC atts)"

definition getAttachedVPC :: "internet_gateway \<Rightarrow> (string option \<times> error option) act" where
  "getAttachedVPC latest = bind (attachedVPC (elems (Attachments (igStatus latest)))) (\<lambda>v. ret (v, None))"

definition attachToVPC :: "'x gateway_api_scheme \<Rightarrow> internet_gateway \<Rightarrow> error option act" where
  "attachToVPC api desired =
     bind (callRecord (\<lambda>(g, v). AttachInternetGateway g v) (\<lambda>t (g, v). onAttachInternetGateway api t g v)
             ''UPDATE'' ''AttachInternetGateway'' (InternetGatewayID (igStatus desired), igVPC (igSpec desired))) (\<lambda>err.
     ifErr err (\<lambda>e. ret (Some e)) (ret None))"

definition detachFromVPC :: "'x gateway_api_scheme \<Rightarrow> string \<Rightarrow> string \<Rightarrow> error option act" where
  "detachFromVPC api vpcID igwID =
     bind (callRecord (\<lambda>(g, v). DetachInternetGateway g v) (\<lambda>t (g, v). onDetachInternetGateway api t g v)
             ''UPDATE'' ''DetachInternetGateway'' (Some igwID, Some vpcID)) (\<lambda>err.
     ifErr err (\<lambda>e. ret (Some e)) (ret None))"

subsection \<open>Route tables\<close>

definition AssociationAssociated :: string where "AssociationAssociated = ''associated''"

text \<open>
  The association of a table with the gateway: associations without a gateway are skipped, the
  first that names the gateway and is associated is taken. One that names the gateway and has no
  state panics.
\<close>

fun gatewayAssociation ::
  "string option \<Rightarrow> sdk_route_table_association list \<Rightarrow> sdk_route_table_association list act" where
  "gatewayAssociation igwID [] = ret []"
| "gatewayAssociation igwID (a # as) =
     (if sdkRtaGatewayId a = None \<or> igwID = None then gatewayAssociation igwID as
      else if sdkRtaGatewayId a = igwID
      then bind (deref (sdkRtaAssociationState a)) (\<lambda>st.
           if sdkAsState st = AssociationAssociated then ret [a] else gatewayAssociation igwID as)
      else gatewayAssociation igwID as)"

definition collect_Gateway :: "string option \<Rightarrow> sdk_route_table \<Rightarrow> sdk_route_table_association list act" where
  "collect_Gateway igwID rt = gatewayAssociation igwID (elems (sdkRtAssociations rt))"

definition getRouteTableAssociations_Gateway ::
  "nat \<Rightarrow> 'x tables_api_scheme \<Rightarrow> internet_gateway \<Rightarrow> (sdk_route_table_association list \<times> error option) act" where
  "getRouteTableAssociations_Gateway n api res =
     associationsLoop n api (collect_Gateway (InternetGatewayID (igStatus res)))
       \<lparr>dtRouteTableIds = [], dtFilters = [], dtNextToken = None\<rparr> []"

definition associateRouteTable_Gateway :: "'x associations_api_scheme \<Rightarrow> string \<Rightarrow> string \<Rightarrow> error option act" where
  "associateRouteTable_Gateway api rtID igwID =
     bind (callRecord AssociateRouteTable (onAssociateRouteTable api) ''UPDATE'' ''AssociateRouteTable''
             \<lparr>atRouteTableId = Some rtID, atSubnetId = None, atGatewayId = Some igwID\<rparr>) (\<lambda>err.
     ifErr err (\<lambda>e. ret (Some e)) (ret None))"

definition createRouteTableAssociations :: "'x associations_api_scheme \<Rightarrow> internet_gateway \<Rightarrow> error option act" where
  "createRouteTableAssociations api desired =
     (if length (igRouteTables (igSpec desired)) = 0 then ret None
      else forErr (\<lambda>rt. bind (deref rt) (\<lambda>r. bind (deref (InternetGatewayID (igStatus desired))) (\<lambda>i.
             associateRouteTable_Gateway api r i))) (igRouteTables (igSpec desired)))"

definition updateRouteTableAssociations_Gateway ::
  "nat \<Rightarrow> 'x associations_api_scheme \<Rightarrow> (string \<Rightarrow> string option list \<Rightarrow> bool) \<Rightarrow> internet_gateway \<Rightarrow> internet_gateway
   \<Rightarrow> error option act" where
  "updateRouteTableAssociations_Gateway n api isIn desired latest =
     updateAssociations n api isIn (getRouteTableAssociations_Gateway n api latest)
       (\<lambda>rt. bind (deref (InternetGatewayID (igStatus latest))) (\<lambda>i. associateRouteTable_Gateway api rt i))
       (igRouteTables (igSpec desired))"

subsection \<open>Updating\<close>

definition moveVPC :: "'x gateway_api_scheme \<Rightarrow> internet_gateway \<Rightarrow> internet_gateway \<Rightarrow> error option act" where
  "moveVPC api desired latest =
     whenErr (igVPC (igSpec latest) \<noteq> None)
       (bind (deref (igVPC (igSpec latest))) (\<lambda>v. bind (deref (InternetGatewayID (igStatus latest))) (\<lambda>i.
        detachFromVPC api v i)))
    (whenErr (igVPC (igSpec desired) \<noteq> None) (attachToVPC api desired) (ret None))"

definition customUpdateInternetGateway ::
  "nat \<Rightarrow> 'x gateway_api_scheme \<Rightarrow> (string \<Rightarrow> string option list \<Rightarrow> bool) \<Rightarrow> internet_gateway \<Rightarrow> internet_gateway
   \<Rightarrow> (string \<Rightarrow> bool) \<Rightarrow> (internet_gateway option \<times> error option) act" where
  "customUpdateInternetGateway n api isIn desired latest differentAt =
     bind (whenErr (differentAt ''Spec.VPC'') (moveVPC api desired latest)
          (whenErr (differentAt ''Spec.RouteTables'') (updateRouteTableAssociations_Gateway n api isIn desired latest)
          (whenErr (differentAt ''Spec.Tags'')
             (bind (deref (InternetGatewayID (igStatus latest))) (\<lambda>i.
              Sync api i (elems (igTags (igSpec desired))) (elems (igTags (igSpec latest)))))
          (ret None)))) (\<lambda>err.
     ifErr err (\<lambda>e. ret (None, Some e)) (ret (Some desired, None)))"

subsection \<open>Reading, creating and deleting\<close>

definition attachmentFromSdk :: "sdk_gateway_attachment \<Rightarrow> internet_gateway_attachment" where
  "attachmentFromSdk x = \<lparr>igaState = enumPtr (sdkGaState x), igaVPCID = sdkGaVpcId x\<rparr>"

definition setFromGateway :: "internet_gateway \<Rightarrow> sdk_internet_gateway \<Rightarrow> internet_gateway" where
  "setFromGateway k elem =
     k\<lparr>igSpec := (igSpec k)\<lparr>igTags := map_option resourceTags (sdkIgTags elem)\<rparr>,
       igStatus := (igStatus k)\<lparr>
         Attachments := map_option (map attachmentFromSdk) (sdkIgAttachments elem),
         InternetGatewayID := sdkIgInternetGatewayId elem, igOwnerID := sdkIgOwnerId elem\<rparr>\<rparr>"

definition defaults_Gateway :: "resource_manager \<Rightarrow> internet_gateway \<Rightarrow> internet_gateway" where
  "defaults_Gateway rm k = k\<lparr>igStatus := setStatusDefaults rm (igStatus k)\<rparr>"

definition requiredFieldsMissing_Gateway :: "internet_gateway \<Rightarrow> bool" where
  "requiredFieldsMissing_Gateway r \<longleftrightarrow> InternetGatewayID (igStatus r) = None"

definition newListRequestPayload_Gateway :: "internet_gateway \<Rightarrow> string list" where
  "newListRequestPayload_Gateway r = (case InternetGatewayID (igStatus r) of None \<Rightarrow> [] | Some i \<Rightarrow> [i])"

definition sdkFind_Gateway ::
  "nat \<Rightarrow> 'x gateway_api_scheme \<Rightarrow> resource_manager \<Rightarrow> internet_gateway
   \<Rightarrow> (internet_gateway option \<times> error option) act" where
  "sdkFind_Gateway n api rm r =
     (if requiredFieldsMissing_Gateway r then ret (None, Some NotFound)
      else
        bind (invoke DescribeInternetGateways (onDescribeInternetGateways api) (newListRequestPayload_Gateway r)) (\<lambda>resp.
        bind (recordAPICall ''READ_MANY'' ''DescribeInternetGateways'' (errOf resp)) (\<lambda>_.
        case resp of
          Inl e \<Rightarrow> ret (None, Some (if errorCode e = Some ''UNKNOWN'' then NotFound else e))
        | Inr out \<Rightarrow>
            bind (deref out) (\<lambda>gateways.
            case gateways of
              [] \<Rightarrow> ret (None, Some NotFound)
            | elem # _ \<Rightarrow>
                let ko = defaults_Gateway rm (setFromGateway r elem) in
                bind (getAttachedVPC ko) (\<lambda>(vpcID, err).
                ifErr err (\<lambda>e. ret (None, Some e))
               (let ko = ko\<lparr>igSpec := (igSpec ko)\<lparr>igVPC := vpcID\<rparr>\<rparr> in
                bind (getRouteTableAssociations_Gateway n api ko) (\<lambda>(assocs, err).
                ifErr err (\<lambda>e. ret (None, Some e))
               (ret (Some (ko\<lparr>igSpec := (igSpec ko)\<lparr>igRouteTables := map sdkRtaRouteTableId assocs\<rparr>\<rparr>), None)))))))))"

definition newCreateRequestPayload_Gateway :: create_in_vpc_input where
  "newCreateRequestPayload_Gateway = \<lparr>civVpcId = None, civTagSpecifications = None\<rparr>"

definition updateTagSpecifications_Gateway :: "internet_gateway \<Rightarrow> create_in_vpc_input \<Rightarrow> create_in_vpc_input" where
  "updateTagSpecifications_Gateway r input =
     input\<lparr>civTagSpecifications := tagSpecificationsFor ''internet-gateway'' (igTags (igSpec r))\<rparr>"

definition sdkCreate_Gateway ::
  "'x gateway_api_scheme \<Rightarrow> resource_manager \<Rightarrow> internet_gateway \<Rightarrow> (internet_gateway option \<times> error option) act" where
  "sdkCreate_Gateway api rm desired =
     (let input = updateTagSpecifications_Gateway desired newCreateRequestPayload_Gateway in
      bind (invoke CreateInternetGateway (onCreateInternetGateway api) input) (\<lambda>r.
      bind (recordAPICall ''CREATE'' ''CreateInternetGateway'' (errOf r)) (\<lambda>_.
      case r of Inl e \<Rightarrow> ret (None, Some e) | Inr out \<Rightarrow>
      bind (deref out) (\<lambda>resp.
      bind (deref resp) (\<lambda>elem.
      let ko = defaults_Gateway rm (setFromGateway desired elem) in
      bind (whenErr (igVPC (igSpec ko) \<noteq> None) (attachToVPC api ko) (createRouteTableAssociations api ko)) (\<lambda>err.
      ifErr err (\<lambda>e. ret (None, Some e)) (ret (Some ko, None))))))))"

definition newDeleteRequestPayload_Gateway :: "internet_gateway \<Rightarrow> string option" where
  "newDeleteRequestPayload_Gateway r = InternetGatewayID (igStatus r)"

definition sdkDelete_Gateway ::
  "'x gateway_api_scheme \<Rightarrow> internet_gateway \<Rightarrow> (internet_gateway option \<times> error option) act" where
  "sdkDelete_Gateway api r =
     bind (whenErr (igVPC (igSpec r) \<noteq> None \<and> InternetGatewayID (igStatus r) \<noteq> None)
            (bind (deref (igVPC (igSpec r))) (\<lambda>v. bind (deref (InternetGatewayID (igStatus r))) (\<lambda>i. detachFromVPC api v i)))
            (callRecord DeleteInternetGateway (onDeleteInternetGateway api) ''DELETE'' ''DeleteInternetGateway''
              (newDeleteRequestPayload_Gateway r))) (\<lambda>err. ret (None, err))"

subsection \<open>Comparing\<close>

definition compareSpecs_Gateway ::
  "('x) ackcompare_scheme \<Rightarrow> internet_gateway_spec \<Rightarrow> internet_gateway_spec \<Rightarrow> delta" where
  "compareSpecs_Gateway C a b =
    (let d1 = compareRefs C ''Spec.RouteTableRefs'' (igRouteTableRefs a) (igRouteTableRefs b) [];
         d2 = cmpStrs C ''Spec.RouteTables'' (igRouteTables a) (igRouteTables b) d1;
         d3 = compareTags C ''Spec.Tags'' (igTags a) (igTags b) d2;
         d4 = cmpStr C ''Spec.VPC'' (igVPC a) (igVPC b) d3
     in compareRef C ''Spec.VPCRef'' (igVPCRef a) (igVPCRef b) d4)"

definition newResourceDelta_Gateway ::
  "('x) ackcompare_scheme \<Rightarrow> internet_gateway option \<Rightarrow> internet_gateway option \<Rightarrow> delta act" where
  "newResourceDelta_Gateway C a b = bothResources a b (\<lambda>x y. compareSpecs_Gateway C (igSpec x) (igSpec y)) (\<lambda>d. d)"

subsection \<open>The kind\<close>

definition mirrorTags_Gateway :: "(acktags \<Rightarrow> acktags) \<Rightarrow> internet_gateway \<Rightarrow> internet_gateway option \<Rightarrow> internet_gateway" where
  "mirrorTags_Gateway iter a b =
     (case b of None \<Rightarrow> a
      | Some l \<Rightarrow> a\<lparr>igSpec := (igSpec a)\<lparr>igTags := mirrorAWSTags iter (igTags (igSpec a)) (igTags (igSpec l))\<rparr>\<rparr>)"

definition igKind ::
  "nat \<Rightarrow> 'x gateway_api_scheme \<Rightarrow> (string \<Rightarrow> string option list \<Rightarrow> bool) \<Rightarrow> resource_manager \<Rightarrow> error_texts
   \<Rightarrow> (delta \<Rightarrow> string \<Rightarrow> bool) \<Rightarrow> (acktags \<Rightarrow> acktags) \<Rightarrow> internet_gateway kind" where
  "igKind n api isIn rm env differentAt iter =
     \<lparr>findOp = (\<lambda>r. bind (sdkFind_Gateway n api rm r) (\<lambda>x. ret (r, x))),
      createOp = sdkCreate_Gateway api rm,
      updateOp = (\<lambda>desired latest d. bind (customUpdateInternetGateway n api isIn desired latest (differentAt d)) (\<lambda>x. ret (latest, x))),
      deleteOp = sdkDelete_Gateway api,
      mirrorOp = mirrorTags_Gateway iter,
      conditionsOp = (\<lambda>k. Conditions (igStatus k)),
      updateConditionsOp = conditionsUpdater env [] rm igStatus (\<lambda>st k. k\<lparr>igStatus := st\<rparr>)\<rparr>"

lemma ig_reports: "AWSError_law env \<Longrightarrow> reporting_kind (igKind n api isIn rm env differentAt iter) []"
  by (rule conditionsUpdater_reports [where get = igStatus and put = "\<lambda>st k. k\<lparr>igStatus := st\<rparr>"]) (simp_all add: igKind_def)

interpretation ig_kind: reporting_kind "igKind n api isIn rm plainTexts differentAt iter" "[]"
  for n and api :: "'x gateway_api_scheme" and isIn rm differentAt iter
  by (rule ig_reports [OF plainTexts_law])

subsection \<open>Properties\<close>

abbreviation gatewayOf :: "internet_gateway \<Rightarrow> string option" where "gatewayOf k \<equiv> InternetGatewayID (igStatus k)"


lemma follows_whenErr:
  "follows m p \<Longrightarrow> follows n q \<Longrightarrow> follows (whenErr c m n) ((if c then p else []) @ q)"
  by (cases c) (simp_all add: whenErr_def follows_seq)

lemma follows_attachToVPC: "follows (attachToVPC api k) [AttachInternetGateway (gatewayOf k) (igVPC (igSpec k))]"
  unfolding attachToVPC_def
  using follows_done [OF follows_callRecord [of "\<lambda>(g, v). AttachInternetGateway g v"
      "\<lambda>t (g, v). onAttachInternetGateway api t g v" "''UPDATE''" "''AttachInternetGateway''" "(gatewayOf k, igVPC (igSpec k))"]]
  by simp

lemma follows_detachFromVPC: "follows (detachFromVPC api v i) [DetachInternetGateway (Some i) (Some v)]"
  unfolding detachFromVPC_def
  using follows_done [OF follows_callRecord [of "\<lambda>(g, v). DetachInternetGateway g v"
      "\<lambda>t (g, v). onDetachInternetGateway api t g v" "''UPDATE''" "''DetachInternetGateway''" "(Some i, Some v)"]]
  by simp

definition movePlan :: "internet_gateway \<Rightarrow> internet_gateway \<Rightarrow> call list" where
  "movePlan desired latest =
     (if igVPC (igSpec latest) \<noteq> None then [DetachInternetGateway (gatewayOf latest) (igVPC (igSpec latest))] else [])
   @ (if igVPC (igSpec desired) \<noteq> None then [AttachInternetGateway (gatewayOf desired) (igVPC (igSpec desired))] else [])"

lemma moveVPC_follows:
  assumes "gatewayOf latest = Some i"
  shows "follows (moveVPC api desired latest) (movePlan desired latest)"
proof -
  let ?a = "whenErr (igVPC (igSpec desired) \<noteq> None) (attachToVPC api desired) (ret None)"
  have a: "follows ?a ((if igVPC (igSpec desired) \<noteq> None then [AttachInternetGateway (gatewayOf desired) (igVPC (igSpec desired))] else []) @ [])"
    by (rule follows_whenErr [OF follows_attachToVPC follows_None])
  show ?thesis
  proof (cases "igVPC (igSpec latest)")
    case None
    with a show ?thesis by (simp only: moveVPC_def movePlan_def whenErr_def) simp
  next
    case (Some v)
    have "follows (bind (deref (igVPC (igSpec latest))) (\<lambda>v. bind (deref (gatewayOf latest)) (\<lambda>i. detachFromVPC api v i)))
        [DetachInternetGateway (gatewayOf latest) (igVPC (igSpec latest))]"
      unfolding Some assms deref_simps bind_simps by (rule follows_detachFromVPC)
    from follows_whenErr [OF this a, of "igVPC (igSpec latest) \<noteq> None"] show ?thesis
      unfolding moveVPC_def movePlan_def by (simp only: append_Nil2)
  qed
qed

lemma halts_moveVPC: "halts (moveVPC api desired latest)"
proof -
  have a: "halts (attachToVPC api k)" for k unfolding attachToVPC_def by (intro go_extends)
  have "halts (detachFromVPC api v i)" for v i unfolding detachFromVPC_def by (intro go_extends)
  with a show ?thesis unfolding moveVPC_def whenErr_def by (intro go_extends)
qed

text \<open>
  C28. Moving a gateway to another VPC. When only the VPC differs, the update detaches the gateway
  from the VPC it was read with, if any, before it attaches it to the desired one, if any. It makes
  no call after one that failed (\<open>stops\<close>): then it returns the error of that call without a resource;
  without an error it made every call and returns the desired one. It panics on no answer of EC2.
\<close>

theorem gateway_moves_after_detaching:
  assumes "gatewayOf latest = Some i"
    and "differentAt ''Spec.VPC''" "\<not> differentAt ''Spec.RouteTables''" "\<not> differentAt ''Spec.Tags''"
  shows "\<exists>new err. customUpdateInternetGateway n api isIn desired latest differentAt s
      = (Ret (if err = None then Some desired else None, err), s @ new) \<and> stops err new
    \<and> prefix (calls new) (movePlan desired latest) \<and> (err = None \<longrightarrow> calls new = movePlan desired latest)"
proof -
  obtain new err where m: "moveVPC api desired latest s = (Ret err, s @ new)" "stops err new"
    "prefix (calls new) (movePlan desired latest)" "err = None \<longrightarrow> calls new = movePlan desired latest"
    by (rule follows_haltsE [OF moveVPC_follows [OF assms(1)] halts_moveVPC, where s = s])
  have "customUpdateInternetGateway n api isIn desired latest differentAt s
      = (Ret (if err = None then Some desired else None, err), s @ new)"
    using assms(2-4) m(1) by (cases err) (simp_all add: customUpdateInternetGateway_def whenErr_def)
  with m(2-4) show ?thesis by blast
qed

text \<open>
  Deleting an attached gateway. The gateway is detached from its VPC first; when that fails the
  error is returned and the gateway is not deleted, otherwise \<open>DeleteInternetGateway\<close> is called and
  its error is the result.
\<close>

theorem sdkDelete_Gateway_detaches:
  assumes "igVPC (igSpec r) = Some v" "gatewayOf r = Some i"
  shows "\<exists>u t. calls u = calls s @ [DetachInternetGateway (Some i) (Some v)]
    \<and> sdkDelete_Gateway api r s = (Ret (None, case onDetachInternetGateway api s (Some i) (Some v) of
          Some e \<Rightarrow> Some e | None \<Rightarrow> onDeleteInternetGateway api u (Some i)), t)
    \<and> calls t = (if onDetachInternetGateway api s (Some i) (Some v) = None
                 then calls u @ [DeleteInternetGateway (Some i)] else calls u)"
proof -
  let ?u = "s @ [Call (DetachInternetGateway (Some i) (Some v)),
    Metric ''UPDATE'' ''DetachInternetGateway'' (onDetachInternetGateway api s (Some i) (Some v))]"
  have d: "detachFromVPC api v i s = (Ret (onDetachInternetGateway api s (Some i) (Some v)), ?u)"
    by (cases "onDetachInternetGateway api s (Some i) (Some v)") (simp_all add: detachFromVPC_def)
  show ?thesis
    using assms by (cases "onDetachInternetGateway api s (Some i) (Some v)"; rule_tac exI [where x = ?u])
      (simp_all add: sdkDelete_Gateway_def whenErr_def newDeleteRequestPayload_Gateway_def d)
qed

lemma gatewayOf_more:
  "common_status.more st = common_status.more (igStatus k) \<Longrightarrow> gatewayOf (k\<lparr>igStatus := st\<rparr>) = gatewayOf k"
  by (cases st; cases "igStatus k") (simp add: internet_gateway_status.defs)

text \<open>
  A failed attachment loses the gateway. When \<open>CreateInternetGateway\<close> succeeds but attaching
  the gateway to the VPC of the spec fails, \<open>Create\<close> hands the reconciler a resource without the
  identifier: the next read answers \<open>NotFound\<close> without a call, and a second gateway is created
  while the first one stays behind.
\<close>

theorem failed_attach_orphans_gateway:
  assumes "AWSError_law env" "\<And>t g v. onAttachInternetGateway api t g v = Some e"
    and "input = updateTagSpecifications_Gateway desired newCreateRequestPayload_Gateway"
    and "onCreateInternetGateway api s input = Inr (Some (Some elem))"
    and "igVPC (igSpec desired) = Some v" "gatewayOf desired = None"
  shows "\<exists>k err t. Create (igKind n api isIn rm env differentAt iter) desired s = (Ret (Some k, Some err), t)
    \<and> CreateInternetGateway input \<in> set (calls t) \<and> gatewayOf k = None
    \<and> sdkFind_Gateway n api rm k t = (Ret (None, Some NotFound), t)"
proof -
  let ?K = "igKind n api isIn rm env differentAt iter"
  let ?t = "s @ [Call (CreateInternetGateway input), Metric ''CREATE'' ''CreateInternetGateway'' None]"
  let ?ko = "defaults_Gateway rm (setFromGateway desired elem)"
  have ko: "igVPC (igSpec ?ko) = Some v" using assms(5) by (simp add: defaults_Gateway_def setFromGateway_def)
  obtain u where a: "attachToVPC api ?ko ?t = (Ret (Some e), u)" "calls u = calls ?t @ [AttachInternetGateway (gatewayOf ?ko) (Some v)]"
    using assms(2) ko by (simp add: attachToVPC_def)
  have "createOp ?K desired s = (Ret (None, Some e), u)"
    using assms(4) a(1) ko by (simp add: igKind_def sdkCreate_Gateway_def assms(3) [symmetric] whenErr_def Let_def)
  moreover have "updateConditionsOp ?K = conditionsUpdater env [] rm igStatus (\<lambda>st k. k\<lparr>igStatus := st\<rparr>)"
    by (simp add: igKind_def)
  moreover have "gatewayOf (desired\<lparr>igStatus := st\<rparr>) = None"
    if "common_status.more st = common_status.more (igStatus desired)" for st
    using gatewayOf_more [OF that] assms(6) by simp
  ultimately obtain k err where k: "Create ?K desired s = (Ret (Some k, Some err), u)" "gatewayOf k = None"
    using Create_lost [OF assms(1), of ?K desired s e u "[]" rm igStatus "\<lambda>st k. k\<lparr>igStatus := st\<rparr>" "\<lambda>k. gatewayOf k = None"]
      assms(6) by auto
  moreover have "CreateInternetGateway input \<in> set (calls u)" unfolding a(2) by simp
  moreover have "sdkFind_Gateway n api rm k u = (Ret (None, Some NotFound), u)"
    using k(2) by (simp add: sdkFind_Gateway_def requiredFieldsMissing_Gateway_def)
  ultimately show ?thesis by blast
qed

text \<open>
  An unreadable list of route tables counts as an empty one. When \<open>DescribeRouteTables\<close> fails,
  \<open>updateRouteTableAssociations\<close> drops the error: it disassociates nothing and associates every
  desired table, the ones that already are associated too.
\<close>

theorem unread_tables_are_associated:
  assumes "\<And>t. onDescribeRouteTables api t \<lparr>dtRouteTableIds = [], dtFilters = [], dtNextToken = None\<rparr> = Inl e"
    and "InStringPs_law isIn" "gatewayOf latest = Some i" "None \<notin> set (igRouteTables (igSpec desired))"
  shows "\<exists>ys err t plan. updateRouteTableAssociations_Gateway (Suc n) api isIn desired latest s = (Ret err, t)
    \<and> plan = map (\<lambda>rt. AssociateRouteTable \<lparr>atRouteTableId = rt, atSubnetId = None, atGatewayId = Some i\<rparr>)
               (igRouteTables (igSpec desired))
    \<and> calls t = calls s @ DescribeRouteTables \<lparr>dtRouteTableIds = [], dtFilters = [], dtNextToken = None\<rparr> # ys
    \<and> prefix ys plan \<and> (err = None \<longrightarrow> ys = plan)"
proof -
  let ?d = "igRouteTables (igSpec desired)"
  let ?call = "\<lambda>rt. AssociateRouteTable \<lparr>atRouteTableId = Some rt, atSubnetId = None, atGatewayId = Some i\<rparr>"
  let ?plan = "map (\<lambda>rt. AssociateRouteTable \<lparr>atRouteTableId = rt, atSubnetId = None, atGatewayId = Some i\<rparr>) ?d"
  let ?assoc = "\<lambda>rt. bind (deref (gatewayOf latest)) (\<lambda>i. associateRouteTable_Gateway api rt i)"
  let ?t = "s @ [Call (DescribeRouteTables \<lparr>dtRouteTableIds = [], dtFilters = [], dtNextToken = None\<rparr>)]"
  have f: "follows (?assoc rt) [?call rt]" for rt
    unfolding assms(3) deref_simps bind_simps associateRouteTable_Gateway_def by (rule follows_done [OF follows_callRecord])
  have wf: "wfAssociations []" by (simp add: wfAssociations_def)
  have plan: "associationsPlan ?call [] ?d = ?plan"
    using assms(4) by (auto simp: associationsPlan_def) (metis option.collapse)
  from changeAssociations_follows [OF assms(2) wf assms(4) f, of api]
  obtain ys err u where r: "changeAssociations api isIn ?assoc [] ?d ?t = (Ret err, u)" "calls u = calls ?t @ ys"
    "prefix ys (associationsPlan ?call [] ?d)" "err = None \<longrightarrow> ys = associationsPlan ?call [] ?d"
    by (rule followsE [where s = ?t])
  have "updateRouteTableAssociations_Gateway (Suc n) api isIn desired latest s = (Ret err, u)"
    using assms(1) r(1) by (simp add: updateRouteTableAssociations_Gateway_def updateAssociations_def
        getRouteTableAssociations_Gateway_def fetchAssociations_def)
  with r show ?thesis unfolding plan by auto
qed

subsection \<open>Witnesses\<close>

definition exampleGateway :: "string option \<Rightarrow> string option \<Rightarrow> internet_gateway" where
  "exampleGateway i vpc = \<lparr>igSpec = \<lparr>igRouteTableRefs = [], igRouteTables = [Some ''rtb-1''], igTags = None, igVPC = vpc,
       igVPCRef = None\<rparr>,
     igStatus = \<lparr>ACKResourceMetadata = None, Conditions = [], Attachments = None, InternetGatewayID = i, igOwnerID = None\<rparr>\<rparr>"

definition exampleSdkGateway :: sdk_internet_gateway where
  "exampleSdkGateway = \<lparr>sdkIgAttachments = None, sdkIgInternetGatewayId = Some ''igw-1'', sdkIgOwnerId = None, sdkIgTags = None\<rparr>"

definition exampleGatewayApi :: "error option \<Rightarrow> gateway_api" where
  "exampleGatewayApi e = \<lparr>onCreateTags = (\<lambda>_ _. None), onDeleteTags = (\<lambda>_ _. None),
     onDescribeRouteTables = (\<lambda>_ _. Inl (GoError ''throttled'')), onAssociateRouteTable = (\<lambda>_ _. None),
     onDisassociateRouteTable = (\<lambda>_ _. None), onDescribeInternetGateways = (\<lambda>_ _. Inr (Some [exampleSdkGateway])),
     onCreateInternetGateway = (\<lambda>_ _. Inr (Some (Some exampleSdkGateway))), onDeleteInternetGateway = (\<lambda>_ _. None),
     onAttachInternetGateway = (\<lambda>_ _ _. e), onDetachInternetGateway = (\<lambda>_ _ _. None)\<rparr>"

lemma gateway_moves_after_detaching_witness:
  "\<exists>new err. customUpdateInternetGateway 1 (exampleGatewayApi None) (\<lambda>s ps. Some s \<in> set ps)
        (exampleGateway (Some ''igw-1'') (Some ''vpc-2'')) (exampleGateway (Some ''igw-1'') (Some ''vpc-1'')) (\<lambda>p. p = ''Spec.VPC'') []
      = (Ret (if err = None then Some (exampleGateway (Some ''igw-1'') (Some ''vpc-2'')) else None, err), [] @ new) \<and> stops err new
    \<and> prefix (calls new) [DetachInternetGateway (Some ''igw-1'') (Some ''vpc-1''), AttachInternetGateway (Some ''igw-1'') (Some ''vpc-2'')]"
proof -
  let ?l = "exampleGateway (Some ''igw-1'') (Some ''vpc-1'')" and ?d = "exampleGateway (Some ''igw-1'') (Some ''vpc-2'')"
  have i: "gatewayOf ?l = Some ''igw-1''" by (simp add: exampleGateway_def)
  have p: "movePlan ?d ?l = [DetachInternetGateway (Some ''igw-1'') (Some ''vpc-1''), AttachInternetGateway (Some ''igw-1'') (Some ''vpc-2'')]"
    by (simp add: movePlan_def exampleGateway_def)
  have h: "''Spec.VPC'' = ''Spec.VPC''" "''Spec.RouteTables'' \<noteq> ''Spec.VPC''" "''Spec.Tags'' \<noteq> ''Spec.VPC''" by simp_all
  show ?thesis
    using gateway_moves_after_detaching [where differentAt = "\<lambda>p. p = ''Spec.VPC''", OF i h, of 1 "exampleGatewayApi None"
        "\<lambda>s ps. Some s \<in> set ps" ?d "[]"] unfolding p by blast
qed

lemma sdkDelete_Gateway_detaches_witness:
  "\<exists>u t. calls u = [DetachInternetGateway (Some ''igw-1'') (Some ''vpc-1'')]
    \<and> sdkDelete_Gateway (exampleGatewayApi None) (exampleGateway (Some ''igw-1'') (Some ''vpc-1'')) [] = (Ret (None, None), t)
    \<and> calls t = calls u @ [DeleteInternetGateway (Some ''igw-1'')]"
  using sdkDelete_Gateway_detaches [of "exampleGateway (Some ''igw-1'') (Some ''vpc-1'')" "''vpc-1''" "''igw-1''" "[]" "exampleGatewayApi None"]
  by (simp add: exampleGateway_def exampleGatewayApi_def)

lemma failed_attach_orphans_gateway_witness:
  "\<exists>k err t. Create (igKind 1 (exampleGatewayApi (Some (APIError ''Resource.AlreadyAssociated'' ''''))) (\<lambda>s ps. Some s \<in> set ps)
        exampleManager plainTexts (\<lambda>d p. p \<in> set d) id) (exampleGateway None (Some ''vpc-1'')) [] = (Ret (Some k, Some err), t)
    \<and> gatewayOf k = None"
proof -
  let ?e = "APIError ''Resource.AlreadyAssociated'' ''''" and ?d = "exampleGateway None (Some ''vpc-1'')"
  have "onAttachInternetGateway (exampleGatewayApi (Some ?e)) t g v = Some ?e" for t g v by (simp add: exampleGatewayApi_def)
  moreover have "onCreateInternetGateway (exampleGatewayApi (Some ?e)) []
      (updateTagSpecifications_Gateway ?d newCreateRequestPayload_Gateway) = Inr (Some (Some exampleSdkGateway))"
    by (simp add: exampleGatewayApi_def)
  moreover have "igVPC (igSpec ?d) = Some ''vpc-1''" "gatewayOf ?d = None" by (simp_all add: exampleGateway_def)
  ultimately show ?thesis
    using failed_attach_orphans_gateway [OF plainTexts_law _ refl, of "exampleGatewayApi (Some ?e)" ?e "[]" ?d exampleSdkGateway "''vpc-1''"
        1 "\<lambda>s ps. Some s \<in> set ps" exampleManager "\<lambda>d p. p \<in> set d" id] by blast
qed

lemma unread_tables_are_associated_witness:
  "\<exists>ys err t. updateRouteTableAssociations_Gateway 1 (exampleGatewayApi None) (\<lambda>s ps. Some s \<in> set ps)
        (exampleGateway (Some ''igw-1'') None) (exampleGateway (Some ''igw-1'') None) [] = (Ret err, t)
    \<and> calls t = DescribeRouteTables \<lparr>dtRouteTableIds = [], dtFilters = [], dtNextToken = None\<rparr> # ys
    \<and> prefix ys [AssociateRouteTable \<lparr>atRouteTableId = Some ''rtb-1'', atSubnetId = None, atGatewayId = Some ''igw-1''\<rparr>]"
proof -
  let ?g = "exampleGateway (Some ''igw-1'') None"
  have "onDescribeRouteTables (exampleGatewayApi None) t \<lparr>dtRouteTableIds = [], dtFilters = [], dtNextToken = None\<rparr>
      = Inl (GoError ''throttled'')" for t by (simp add: exampleGatewayApi_def)
  moreover have "InStringPs_law (\<lambda>s ps. Some s \<in> set ps)" by (simp add: InStringPs_law_def)
  moreover have g: "gatewayOf ?g = Some ''igw-1''" "igRouteTables (igSpec ?g) = [Some ''rtb-1'']" by (simp_all add: exampleGateway_def)
  ultimately show ?thesis
    using unread_tables_are_associated [of "exampleGatewayApi None" "GoError ''throttled''" "\<lambda>s ps. Some s \<in> set ps" ?g "''igw-1''" ?g 0 "[]"]
    by auto
qed

end
