(* ===== verification/References.thy ===== *)
theory References
  imports Kinds
begin

text \<open>
  References between resources (\<open>references.go\<close> of every kind, generated from one template): a
  field of a spec can name another resource of the cluster instead of giving an identifier. Before
  each reconciliation the references are validated and resolved, that is, the identifier is read
  from the status of the named resource; before the spec is written back they are cleared. Every
  file unrolls the same code for its fields; here a field is a record of the three operations,
  built from what \<open>resolveAt\<close> does to one place that holds a reference and its identifier.
\<close>

subsection \<open>The cluster\<close>

text \<open>
  \<open>getObject\<close> is the reader of the cluster: for a kind, a namespace and a name it answers with the
  conditions of the object and the one field of it that is looked at, its identifier.
  \<open>resolveNamespace\<close> is the runtime's \<open>ResolveCrossNamespaceReference\<close>, with the configuration and
  the namespace of the resource already given: it may write the conditions of the resource, and
  returns the namespace to look in.
\<close>

record referenced =
  roConditions :: "condition list"
  roIdentifier :: "string option"

record ref_env =
  getObject :: "string \<Rightarrow> string \<Rightarrow> string \<Rightarrow> error + referenced"
  resolveNamespace :: "condition list \<Rightarrow> string option \<Rightarrow> string \<Rightarrow> condition list \<times> (error + string)"

text \<open>The errors of the ACK runtime, by the name of the function that makes them.\<close>

definition ResourceReferenceAndIDNotSupportedFor :: "string \<Rightarrow> string \<Rightarrow> error" where
  "ResourceReferenceAndIDNotSupportedFor field refField = ReferenceError ''AndIDNotSupported'' [field, refField]"

definition ResourceReferenceOrIDRequiredFor :: "string \<Rightarrow> string \<Rightarrow> error" where
  "ResourceReferenceOrIDRequiredFor field refField = ReferenceError ''OrIDRequired'' [field, refField]"

definition isTrue :: "string \<Rightarrow> condition \<Rightarrow> bool" where
  "isTrue ty c \<longleftrightarrow> condType c = ty \<and> condStatus c = ConditionTrue"

definition getReferencedResourceState :: "('x) ref_env_scheme \<Rightarrow> string \<Rightarrow> string \<Rightarrow> string \<Rightarrow> string \<Rightarrow> error + string option" where
  "getReferencedResourceState env kind field name namespace =
     (case getObject env kind namespace name of
        Inl e \<Rightarrow> Inl e
      | Inr obj \<Rightarrow>
          if \<exists>c \<in> set (roConditions obj). isTrue ConditionTypeTerminal c
          then Inl (ReferenceError ''Terminal'' [kind, namespace, name])
          else if \<not> (\<exists>c \<in> set (roConditions obj). isTrue ConditionTypeResourceSynced c)
          then Inl (ReferenceError ''NotSynced'' [kind, namespace, name])
          else if roIdentifier obj = None
          then Inl (ReferenceError ''MissingTargetField'' [kind, namespace, name, field])
          else Inr (roIdentifier obj))"

text \<open>For a security group it is not required that it is synced, nor that it has an identifier.\<close>

definition getReferencedResourceState_SecurityGroup :: "('x) ref_env_scheme \<Rightarrow> string \<Rightarrow> string \<Rightarrow> error + string option" where
  "getReferencedResourceState_SecurityGroup env name namespace =
     (case getObject env ''SecurityGroup'' namespace name of
        Inl e \<Rightarrow> Inl e
      | Inr obj \<Rightarrow>
          if \<exists>c \<in> set (roConditions obj). isTrue ConditionTypeTerminal c
          then Inl (ReferenceError ''Terminal'' [''SecurityGroup'', namespace, name])
          else Inr (roIdentifier obj))"

subsection \<open>One reference\<close>

text \<open>
  The body of every \<open>resolveReferenceFor...\<close>: \<open>None\<close> when there is no reference; otherwise the
  conditions, which the namespace check may have written, and the identifier or an error.
\<close>

definition emptyReference :: "string \<Rightarrow> error" where
  "emptyReference refField = GoError (''provided resource reference is nil or empty: '' @ refField)"

definition resolveRef ::
  "('x) ref_env_scheme \<Rightarrow> (string \<Rightarrow> string \<Rightarrow> error + string option) \<Rightarrow> string \<Rightarrow> ref_wrapper option \<Rightarrow> condition list
   \<Rightarrow> (condition list \<times> (error + string option)) option" where
  "resolveRef env lookup refField r conditions =
     (case r of
        Some (Some arr) \<Rightarrow>
          Some (case refName arr of
             None \<Rightarrow> (conditions, Inl (emptyReference refField))
           | Some name \<Rightarrow>
               if name = [] then (conditions, Inl (emptyReference refField))
               else (case resolveNamespace env conditions (refNamespace arr) name of
                       (conditions', Inl e) \<Rightarrow> (conditions', Inl e)
                     | (conditions', Inr namespace) \<Rightarrow> (conditions', lookup name namespace)))
      | _ \<Rightarrow> None)"

text \<open>A place that holds a reference and the identifier it is resolved to.\<close>

record 'e place =
  refOf :: "'e \<Rightarrow> ref_wrapper option"
  idOf :: "'e \<Rightarrow> string option"
  putId :: "string option \<Rightarrow> 'e \<Rightarrow> 'e"

type_synonym 'e resolver = "'e \<Rightarrow> condition list \<Rightarrow> ('e \<times> condition list \<times> bool \<times> error option) act"

definition resolveAt ::
  "('x) ref_env_scheme \<Rightarrow> (string \<Rightarrow> string \<Rightarrow> error + string option) \<Rightarrow> string \<Rightarrow> 'e place \<Rightarrow> 'e resolver" where
  "resolveAt env lookup refField P x conditions =
     (case resolveRef env lookup refField (refOf P x) conditions of
        None \<Rightarrow> ret (x, conditions, False, None)
      | Some (conditions', Inl e) \<Rightarrow> ret (x, conditions', True, Some e)
      | Some (conditions', Inr i) \<Rightarrow> ret (putId P i x, conditions', True, None))"

definition clearAt :: "'e place \<Rightarrow> 'e \<Rightarrow> 'e act" where
  "clearAt P x = ret (if refOf P x \<noteq> None then putId P None x else x)"

definition validateAt :: "string \<Rightarrow> string \<Rightarrow> 'e place \<Rightarrow> 'e \<Rightarrow> error option act" where
  "validateAt field refField P x =
     ret (if refOf P x \<noteq> None \<and> idOf P x \<noteq> None then Some (ResourceReferenceAndIDNotSupportedFor field refField) else None)"

definition validateRequiredAt :: "string \<Rightarrow> string \<Rightarrow> 'e place \<Rightarrow> 'e \<Rightarrow> error option act" where
  "validateRequiredAt field refField P x =
     ret (if refOf P x \<noteq> None \<and> idOf P x \<noteq> None then Some (ResourceReferenceAndIDNotSupportedFor field refField)
          else if refOf P x = None \<and> idOf P x = None then Some (ResourceReferenceOrIDRequiredFor field refField)
          else None)"

subsection \<open>Lists and pointers\<close>

text \<open>\<open>for idx, iter := range xs { ... xs[idx].ID = ... }\<close>: an error leaves the rest as it is.\<close>

fun resolveEach :: "'e resolver \<Rightarrow> 'e list resolver" where
  "resolveEach f [] conditions = ret ([], conditions, False, None)"
| "resolveEach f (x # xs) conditions =
     bind (f x conditions) (\<lambda>(y, conditions, hasReferences, err).
     case err of
       Some e \<Rightarrow> ret (y # xs, conditions, hasReferences, Some e)
     | None \<Rightarrow>
         bind (resolveEach f xs conditions) (\<lambda>(ys, conditions, more, err).
         ret (y # ys, conditions, hasReferences \<or> more, err)))"

definition resolvePtr :: "'e resolver \<Rightarrow> 'e option resolver" where
  "resolvePtr f p conditions =
     bind (deref p) (\<lambda>x. bind (f x conditions) (\<lambda>(y, conditions, hasReferences, err).
     ret (Some y, conditions, hasReferences, err)))"

definition clearPtr :: "('e \<Rightarrow> 'e act) \<Rightarrow> 'e option \<Rightarrow> 'e option act" where
  "clearPtr f p = bind (deref p) (\<lambda>x. bind (f x) (\<lambda>y. ret (Some y)))"

definition validatePtr :: "('e \<Rightarrow> error option act) \<Rightarrow> 'e option \<Rightarrow> error option act" where
  "validatePtr f p = bind (deref p) f"

text \<open>A part of a larger structure, read and written back.\<close>

definition resolveIn :: "('r \<Rightarrow> 'e) \<Rightarrow> ('e \<Rightarrow> 'r \<Rightarrow> 'r) \<Rightarrow> 'e resolver \<Rightarrow> 'r resolver" where
  "resolveIn get put f r conditions =
     bind (f (get r) conditions) (\<lambda>(y, conditions, hasReferences, err). ret (put y r, conditions, hasReferences, err))"

definition clearIn :: "('r \<Rightarrow> 'e) \<Rightarrow> ('e \<Rightarrow> 'r \<Rightarrow> 'r) \<Rightarrow> ('e \<Rightarrow> 'e act) \<Rightarrow> 'r \<Rightarrow> 'r act" where
  "clearIn get put f r = bind (f (get r)) (\<lambda>y. ret (put y r))"

text \<open>A list of references whose identifiers are appended to a list; nil references are skipped.\<close>

fun resolveAll ::
  "('x) ref_env_scheme \<Rightarrow> (string \<Rightarrow> string \<Rightarrow> error + string option) \<Rightarrow> string \<Rightarrow> ref_wrapper option list \<Rightarrow> string option list
   \<Rightarrow> condition list \<Rightarrow> string option list \<times> condition list \<times> bool \<times> error option" where
  "resolveAll env lookup refField [] ids conditions = (ids, conditions, False, None)"
| "resolveAll env lookup refField (r # rs) ids conditions =
     (case resolveRef env lookup refField r conditions of
        None \<Rightarrow> resolveAll env lookup refField rs ids conditions
      | Some (conditions', Inl e) \<Rightarrow> (ids, conditions', True, Some e)
      | Some (conditions', Inr i) \<Rightarrow>
          (case resolveAll env lookup refField rs (ids @ [i]) conditions' of
             (ids', conditions'', _, err) \<Rightarrow> (ids', conditions'', True, err)))"

definition validateList :: "string \<Rightarrow> string \<Rightarrow> ref_wrapper option list \<Rightarrow> string option list \<Rightarrow> error option act" where
  "validateList field refField refs ids =
     ret (if length refs > 0 \<and> length ids > 0 then Some (ResourceReferenceAndIDNotSupportedFor field refField) else None)"

definition clearList :: "ref_wrapper option list \<Rightarrow> string option list \<Rightarrow> string option list" where
  "clearList refs ids = (if length refs > 0 then [] else ids)"

subsection \<open>A kind\<close>

record 'r reference_field =
  validateField :: "'r \<Rightarrow> error option act"
  resolveField :: "'r resolver"
  clearField :: "'r \<Rightarrow> 'r act"

definition validateReferenceFields :: "'r reference_field list \<Rightarrow> 'r \<Rightarrow> error option act" where
  "validateReferenceFields fs ko = forErr (\<lambda>F. validateField F ko) fs"

fun clearFields :: "'r reference_field list \<Rightarrow> 'r \<Rightarrow> 'r act" where
  "clearFields [] ko = ret ko"
| "clearFields (F # fs) ko = bind (clearField F ko) (clearFields fs)"

definition ClearResolvedReferences :: "'r reference_field list \<Rightarrow> 'r \<Rightarrow> 'r act" where
  "ClearResolvedReferences fs res = clearFields fs res"

fun resolveFields :: "'r reference_field list \<Rightarrow> 'r resolver" where
  "resolveFields [] ko conditions = ret (ko, conditions, False, None)"
| "resolveFields (F # fs) ko conditions =
     bind (resolveField F ko conditions) (\<lambda>(ko, conditions, hasReferences, err).
     case err of
       Some e \<Rightarrow> ret (ko, conditions, hasReferences, Some e)
     | None \<Rightarrow>
         bind (resolveFields fs ko conditions) (\<lambda>(ko, conditions, more, err).
         ret (ko, conditions, hasReferences \<or> more, err)))"

text \<open>
  The error of the validation is the result only when every field could be resolved: the \<open>err\<close> of
  each field shadows it.
\<close>

definition ResolveReferences ::
  "'r reference_field list \<Rightarrow> ('r \<Rightarrow> condition list) \<Rightarrow> (condition list \<Rightarrow> 'r \<Rightarrow> 'r) \<Rightarrow> 'r \<Rightarrow> ('r \<times> bool \<times> error option) act" where
  "ResolveReferences fs conditionsOf putConditions res =
     bind (validateReferenceFields fs res) (\<lambda>invalid.
     bind (resolveFields fs res (conditionsOf res)) (\<lambda>(ko, conditions, hasReferences, err).
     ret (putConditions conditions ko, hasReferences, case err of None \<Rightarrow> invalid | Some e \<Rightarrow> Some e)))"

subsection \<open>Clearing what was resolved\<close>

text \<open>
  \<open>erase\<close> forgets every identifier that has a reference. A kind's fields keep their contract when
  resolving a field changes nothing that \<open>erase\<close> keeps, and clearing is \<open>erase\<close> on resources
  whose references are valid, where there is nothing to erase yet.
\<close>

definition keeps :: "'e resolver \<Rightarrow> ('e \<Rightarrow> 'e) \<Rightarrow> bool" where
  "keeps f erase \<longleftrightarrow> (\<forall>x conditions s y conditions' h e t.
     f x conditions s = (Ret (y, conditions', h, e), t) \<longrightarrow> t = s \<and> erase y = erase x)"

lemma keepsI:
  "(\<And>x conditions s y conditions' h e t. f x conditions s = (Ret (y, conditions', h, e), t) \<Longrightarrow> t = s \<and> erase y = erase x)
    \<Longrightarrow> keeps f erase"
  unfolding keeps_def by blast

lemma keepsD: "keeps f erase \<Longrightarrow> f x conditions s = (Ret (y, conditions', h, e), t) \<Longrightarrow> t = s \<and> erase y = erase x"
  unfolding keeps_def by blast

lemma keeps_resolveAt:
  assumes "\<And>i x. refOf P x \<noteq> None \<Longrightarrow> erase (putId P i x) = erase x"
  shows "keeps (resolveAt env lookup refField P) erase"
proof (rule keepsI)
  fix x conditions s y conditions' h e t
  assume "resolveAt env lookup refField P x conditions s = (Ret (y, conditions', h, e), t)"
  moreover have "resolveRef env lookup refField (refOf P x) conditions \<noteq> None \<Longrightarrow> refOf P x \<noteq> None"
    by (cases "refOf P x") (simp_all add: resolveRef_def)
  ultimately show "t = s \<and> erase y = erase x"
    using assms by (auto simp: resolveAt_def split: option.splits sum.splits)
qed

lemma keeps_resolveEach:
  assumes "keeps f erase"
  shows "keeps (resolveEach f) (map erase)"
proof (rule keepsI)
  fix xs conditions s ys conditions' h e t
  assume "resolveEach f xs conditions s = (Ret (ys, conditions', h, e), t)"
  then show "t = s \<and> map erase ys = map erase xs"
  proof (induction xs arbitrary: conditions s ys conditions' h e t)
    case (Cons x xs)
    from Cons.prems obtain y c1 h1 e1 t1 where x: "f x conditions s = (Ret (y, c1, h1, e1), t1)"
      by (auto simp: bind_def split: prod.splits outcome.splits)
    from keepsD [OF assms x] have "t1 = s" "erase y = erase x" by simp_all
    show ?case
    proof (cases e1)
      case None
      with Cons.prems x obtain zs c2 h2 e2 t2 where zs: "resolveEach f xs c1 t1 = (Ret (zs, c2, h2, e2), t2)"
        by (auto simp: bind_def split: prod.splits outcome.splits)
      from Cons.IH [OF this] Cons.prems x None zs \<open>t1 = s\<close> \<open>erase y = erase x\<close> show ?thesis by auto
    next
      case (Some e2)
      with Cons.prems x \<open>t1 = s\<close> \<open>erase y = erase x\<close> show ?thesis by auto
    qed
  qed simp
qed

lemma keeps_resolvePtr:
  assumes "keeps f erase"
  shows "keeps (resolvePtr f) (map_option erase)"
proof (rule keepsI)
  fix p conditions s q conditions' h e t
  assume a: "resolvePtr f p conditions s = (Ret (q, conditions', h, e), t)"
  then obtain x where p: "p = Some x" by (cases p) (auto simp: resolvePtr_def)
  with a obtain y c1 h1 e1 t1 where x: "f x conditions s = (Ret (y, c1, h1, e1), t1)"
    by (auto simp: resolvePtr_def bind_def split: prod.splits outcome.splits)
  with a p keepsD [OF assms x] show "t = s \<and> map_option erase q = map_option erase p"
    by (auto simp: resolvePtr_def)
qed

lemma keeps_resolveIn:
  assumes "keeps f part" and "\<And>y r. part y = part (get r) \<Longrightarrow> erase (put y r) = erase r"
  shows "keeps (resolveIn get put f) erase"
proof (rule keepsI)
  fix r conditions s y conditions' h e t
  assume a: "resolveIn get put f r conditions s = (Ret (y, conditions', h, e), t)"
  then obtain z c1 h1 e1 t1 where x: "f (get r) conditions s = (Ret (z, c1, h1, e1), t1)"
    by (auto simp: resolveIn_def bind_def split: prod.splits outcome.splits)
  with a keepsD [OF assms(1) x] assms(2) show "t = s \<and> erase y = erase r"
    by (auto simp: resolveIn_def)
qed

locale reference_fields =
  fixes fs :: "'r reference_field list" and erase :: "'r \<Rightarrow> 'r" and putConditions :: "condition list \<Rightarrow> 'r \<Rightarrow> 'r"
  assumes field_keeps: "F \<in> set fs \<Longrightarrow> keeps (resolveField F) erase"
    and valid_erased: "validateReferenceFields fs x s = (Ret None, t) \<Longrightarrow> erase x = x"
    and clear_erases: "validateReferenceFields fs x s = (Ret None, t) \<Longrightarrow> erase y = putConditions c x
      \<Longrightarrow> clearFields fs y = ret (erase y)"
    and erase_put: "erase (putConditions c x) = putConditions c (erase x)"
begin

lemma resolveFields_erase:
  assumes "set gs \<subseteq> set fs" "resolveFields gs x conditions s = (Ret (y, conditions', h, e), t)"
  shows "t = s \<and> erase y = erase x"
  using assms
proof (induction gs arbitrary: x conditions s y conditions' h e t)
  case (Cons F gs)
  from Cons.prems(2) obtain z c1 h1 e1 t1 where x: "resolveField F x conditions s = (Ret (z, c1, h1, e1), t1)"
    by (auto simp: bind_def split: prod.splits outcome.splits)
  from Cons.prems(1) keepsD [OF field_keeps x] have "t1 = s" "erase z = erase x" by simp_all
  show ?case
  proof (cases e1)
    case None
    with Cons.prems x obtain w c2 h2 e2 t2 where w: "resolveFields gs z c1 t1 = (Ret (w, c2, h2, e2), t2)"
      by (auto simp: bind_def split: prod.splits outcome.splits)
    have "set gs \<subseteq> set fs" using Cons.prems(1) by simp
    from Cons.IH [OF this w] Cons.prems(2) x None w \<open>t1 = s\<close> \<open>erase z = erase x\<close> show ?thesis by auto
  next
    case (Some e2)
    with Cons.prems x \<open>t1 = s\<close> \<open>erase z = erase x\<close> show ?thesis by auto
  qed
qed simp

text \<open>Whatever became of the resolution, clearing gives the resource back, but for its conditions.\<close>

lemma clear_resolved:
  assumes "validateReferenceFields fs x s = (Ret None, u)"
    and "ResolveReferences fs conditionsOf putConditions x s = (Ret (k, h, err), t)"
  shows "\<exists>c. ClearResolvedReferences fs k = ret (putConditions c x)"
proof -
  from assms obtain y c h' e t' where r: "resolveFields fs x (conditionsOf x) u = (Ret (y, c, h', e), t')"
    by (auto simp: ResolveReferences_def bind_def split: prod.splits outcome.splits)
  with assms have k: "k = putConditions c y" by (auto simp: ResolveReferences_def)
  from resolveFields_erase [OF subset_refl r] valid_erased [OF assms(1)] have "erase y = x" by simp
  then have "erase k = putConditions c x" by (simp add: k erase_put)
  from clear_erases [OF assms(1) this] this show ?thesis by (auto simp: ClearResolvedReferences_def)
qed

end

subsection \<open>The forms of fields\<close>

text \<open>A single reference; \<open>required\<close> when either the reference or the identifier has to be given.\<close>

definition singleField ::
  "('x) ref_env_scheme \<Rightarrow> (string \<Rightarrow> string \<Rightarrow> error + string option) \<Rightarrow> bool \<Rightarrow> string \<Rightarrow> string \<Rightarrow> 'r place \<Rightarrow> 'r reference_field" where
  "singleField env lookup required field refField P =
     \<lparr>validateField = (if required then validateRequiredAt field refField P else validateAt field refField P),
      resolveField = resolveAt env lookup refField P, clearField = clearAt P\<rparr>"

text \<open>A list of references and a list of identifiers.\<close>

definition listField ::
  "('x) ref_env_scheme \<Rightarrow> (string \<Rightarrow> string \<Rightarrow> error + string option) \<Rightarrow> string \<Rightarrow> string
   \<Rightarrow> ('r \<Rightarrow> ref_wrapper option list) \<Rightarrow> ('r \<Rightarrow> string option list) \<Rightarrow> (string option list \<Rightarrow> 'r \<Rightarrow> 'r) \<Rightarrow> 'r reference_field" where
  "listField env lookup field refField refs ids putIds =
     \<lparr>validateField = (\<lambda>r. validateList field refField (refs r) (ids r)),
      resolveField = (\<lambda>r conditions. case resolveAll env lookup refField (refs r) (ids r) conditions of
        (is, conditions', h, err) \<Rightarrow> ret (putIds is r, conditions', h, err)),
      clearField = (\<lambda>r. ret (putIds (clearList (refs r) (ids r)) r))\<rparr>"

text \<open>A reference in every element of a list of structs.\<close>

definition eachField ::
  "('x) ref_env_scheme \<Rightarrow> (string \<Rightarrow> string \<Rightarrow> error + string option) \<Rightarrow> string \<Rightarrow> string
   \<Rightarrow> ('r \<Rightarrow> 'e list) \<Rightarrow> ('e list \<Rightarrow> 'r \<Rightarrow> 'r) \<Rightarrow> 'e place \<Rightarrow> 'r reference_field" where
  "eachField env lookup field refField get put P =
     \<lparr>validateField = (\<lambda>r. forErr (validateAt field refField P) (get r)),
      resolveField = resolveIn get put (resolveEach (resolveAt env lookup refField P)),
      clearField = clearIn get put (mapAct (clearAt P))\<rparr>"

definition clearPlace :: "'e place \<Rightarrow> 'e \<Rightarrow> 'e" where
  "clearPlace P x = (if refOf P x \<noteq> None then putId P None x else x)"

lemma clearAt_ret: "clearAt P x = ret (clearPlace P x)"
  by (simp add: clearAt_def clearPlace_def)

lemma clear_singleField: "clearField (singleField env lookup required field refField P) x = ret (clearPlace P x)"
  by (simp add: singleField_def clearAt_ret)

lemma clear_listField:
  "clearField (listField env lookup field refField refs ids putIds) r = ret (putIds (clearList (refs r) (ids r)) r)"
  by (simp add: listField_def)

lemma clear_eachField:
  "clearField (eachField env lookup field refField get put P) r = ret (put (map (clearPlace P) (get r)) r)"
  by (rule ext) (simp add: eachField_def clearIn_def mapAct_ret [where g = "clearPlace P"] clearAt_ret)

lemmas clear_fields = clear_singleField clear_listField clear_eachField

lemma keeps_singleField:
  "(\<And>i x. refOf P x \<noteq> None \<Longrightarrow> erase (putId P i x) = erase x)
    \<Longrightarrow> keeps (resolveField (singleField env lookup required field refField P)) erase"
  unfolding singleField_def reference_field.simps by (rule keeps_resolveAt)

lemma resolveAll_idle:
  "\<forall>r \<in> set refs. resolveRef env lookup refField r conditions = None
    \<Longrightarrow> resolveAll env lookup refField refs ids conditions = (ids, conditions, False, None)"
  by (induction refs) simp_all

lemma keeps_listField:
  assumes "\<And>is x. refs x \<noteq> [] \<Longrightarrow> erase (putIds is x) = erase x" "\<And>x. putIds (ids x) x = x"
  shows "keeps (resolveField (listField env lookup field refField refs ids putIds)) erase"
proof (rule keepsI)
  fix x conditions s y conditions' h e t
  assume "resolveField (listField env lookup field refField refs ids putIds) x conditions s = (Ret (y, conditions', h, e), t)"
  with assms show "t = s \<and> erase y = erase x"
    by (cases "refs x = []") (auto simp: listField_def split: prod.splits)
qed

lemma keeps_eachField:
  fixes part :: "'e \<Rightarrow> 'e"
  assumes "\<And>i x. refOf P x \<noteq> None \<Longrightarrow> part (putId P i x) = part x"
    and "\<And>y r. map part y = map part (get r) \<Longrightarrow> erase (put y r) = erase r"
  shows "keeps (resolveField (eachField env lookup field refField get put P)) erase"
  unfolding eachField_def reference_field.simps
  by (rule keeps_resolveIn [OF keeps_resolveEach [OF keeps_resolveAt [where erase = part]]]) (use assms in blast)+

text \<open>What a validation without an error says.\<close>

lemma validate_fields_None:
  "validateReferenceFields [] x s = (Ret None, t) \<longleftrightarrow> t = s"
  "validateReferenceFields (F # fs) x s = (Ret None, t) \<longleftrightarrow>
     (\<exists>u. validateField F x s = (Ret None, u) \<and> validateReferenceFields fs x u = (Ret None, t))"
  by (auto simp: validateReferenceFields_def bind_def ifErr_def split: prod.splits outcome.splits option.splits)

lemma forErr_None:
  "forErr f [] s = (Ret None, t) \<longleftrightarrow> t = s"
  "forErr f (x # xs) s = (Ret None, t) \<longleftrightarrow> (\<exists>u. f x s = (Ret None, u) \<and> forErr f xs u = (Ret None, t))"
  by (auto simp: bind_def ifErr_def split: prod.splits outcome.splits option.splits)

lemma validateAt_None: "validateAt field refField P x s = (Ret None, t) \<longleftrightarrow> t = s \<and> (refOf P x = None \<or> idOf P x = None)"
  by (auto simp: validateAt_def)

lemma validateRequiredAt_None:
  "validateRequiredAt field refField P x s = (Ret None, t) \<longleftrightarrow> t = s \<and> (refOf P x = None \<longleftrightarrow> idOf P x \<noteq> None)"
  by (auto simp: validateRequiredAt_def)

lemma forErr_validateAt_None:
  "forErr (validateAt field refField P) xs s = (Ret None, t) \<longleftrightarrow> t = s \<and> (\<forall>x \<in> set xs. refOf P x = None \<or> idOf P x = None)"
  by (induction xs arbitrary: s) (auto simp: forErr_None validateAt_None simp del: forErr.simps)

lemma validate_singleField_None:
  "validateField (singleField env lookup required field refField P) x s = (Ret None, t) \<longleftrightarrow>
     t = s \<and> (refOf P x = None \<or> idOf P x = None) \<and> (required \<longrightarrow> refOf P x \<noteq> None \<or> idOf P x \<noteq> None)"
  by (auto simp: singleField_def validateAt_None validateRequiredAt_None)

lemma validate_listField_None:
  "validateField (listField env lookup field refField refs ids putIds) x s = (Ret None, t) \<longleftrightarrow> t = s \<and> (refs x = [] \<or> ids x = [])"
  by (auto simp: listField_def validateList_def)

lemma validate_eachField_None:
  "validateField (eachField env lookup field refField get put P) x s = (Ret None, t) \<longleftrightarrow>
     t = s \<and> (\<forall>y \<in> set (get x). refOf P y = None \<or> idOf P y = None)"
  by (simp add: eachField_def forErr_validateAt_None)

lemmas validate_None = validate_fields_None validate_singleField_None validate_listField_None validate_eachField_None

end
