(* ===== verification/ReferenceFields.thy ===== *)
theory ReferenceFields
  imports References SecurityGroup RouteTable NetworkACL Subnet InternetGateway
begin

text \<open>
  The references of the kinds modelled so far, one definition per \<open>resolveReferenceFor...\<close> of their
  \<open>references.go\<close>, and the three operations of each kind on them.
\<close>

subsection \<open>What is referred to\<close>

definition lookupVPC :: "('x) ref_env_scheme \<Rightarrow> string \<Rightarrow> string \<Rightarrow> error + string option" where
  "lookupVPC env = getReferencedResourceState env ''VPC'' ''Status.VPCID''"

definition lookupSubnet :: "('x) ref_env_scheme \<Rightarrow> string \<Rightarrow> string \<Rightarrow> error + string option" where
  "lookupSubnet env = getReferencedResourceState env ''Subnet'' ''Status.SubnetID''"

definition lookupRouteTable :: "('x) ref_env_scheme \<Rightarrow> string \<Rightarrow> string \<Rightarrow> error + string option" where
  "lookupRouteTable env = getReferencedResourceState env ''RouteTable'' ''Status.RouteTableID''"

definition lookupInternetGateway :: "('x) ref_env_scheme \<Rightarrow> string \<Rightarrow> string \<Rightarrow> error + string option" where
  "lookupInternetGateway env = getReferencedResourceState env ''InternetGateway'' ''Status.InternetGatewayID''"

definition lookupNATGateway :: "('x) ref_env_scheme \<Rightarrow> string \<Rightarrow> string \<Rightarrow> error + string option" where
  "lookupNATGateway env = getReferencedResourceState env ''NATGateway'' ''Status.NATGatewayID''"

definition lookupTransitGateway :: "('x) ref_env_scheme \<Rightarrow> string \<Rightarrow> string \<Rightarrow> error + string option" where
  "lookupTransitGateway env = getReferencedResourceState env ''TransitGateway'' ''Status.TransitGatewayID''"

definition lookupVPCEndpoint :: "('x) ref_env_scheme \<Rightarrow> string \<Rightarrow> string \<Rightarrow> error + string option" where
  "lookupVPCEndpoint env = getReferencedResourceState env ''VPCEndpoint'' ''Status.VPCEndpointID''"

definition lookupVPCPeeringConnection :: "('x) ref_env_scheme \<Rightarrow> string \<Rightarrow> string \<Rightarrow> error + string option" where
  "lookupVPCPeeringConnection env = getReferencedResourceState env ''VPCPeeringConnection'' ''Status.VPCPeeringConnectionID''"

subsection \<open>Subnets\<close>

definition routeTablesField_Subnet :: "('x) ref_env_scheme \<Rightarrow> subnet reference_field" where
  "routeTablesField_Subnet env = listField env (lookupRouteTable env) ''RouteTables'' ''RouteTableRefs''
     (\<lambda>k. snRouteTableRefs (snSpec k)) (\<lambda>k. snRouteTables (snSpec k))
     (\<lambda>is k. k\<lparr>snSpec := (snSpec k)\<lparr>snRouteTables := is\<rparr>\<rparr>)"

definition vpcPlace_Subnet :: "subnet place" where
  "vpcPlace_Subnet = \<lparr>refOf = (\<lambda>k. snVPCRef (snSpec k)), idOf = (\<lambda>k. snVPCID (snSpec k)),
     putId = (\<lambda>i k. k\<lparr>snSpec := (snSpec k)\<lparr>snVPCID := i\<rparr>\<rparr>)\<rparr>"

definition vpcField_Subnet :: "('x) ref_env_scheme \<Rightarrow> subnet reference_field" where
  "vpcField_Subnet env = singleField env (lookupVPC env) True ''VPCID'' ''VPCRef'' vpcPlace_Subnet"

definition references_Subnet :: "('x) ref_env_scheme \<Rightarrow> subnet reference_field list" where
  "references_Subnet env = [routeTablesField_Subnet env, vpcField_Subnet env]"

definition putConditions_Subnet :: "condition list \<Rightarrow> subnet \<Rightarrow> subnet" where
  "putConditions_Subnet c k = k\<lparr>snStatus := (snStatus k)\<lparr>Conditions := c\<rparr>\<rparr>"

definition ResolveReferences_Subnet :: "('x) ref_env_scheme \<Rightarrow> subnet \<Rightarrow> (subnet \<times> bool \<times> error option) act" where
  "ResolveReferences_Subnet env =
     ResolveReferences (references_Subnet env) (\<lambda>k. Conditions (snStatus k)) putConditions_Subnet"

definition ClearResolvedReferences_Subnet :: "('x) ref_env_scheme \<Rightarrow> subnet \<Rightarrow> subnet act" where
  "ClearResolvedReferences_Subnet env = ClearResolvedReferences (references_Subnet env)"

definition erase_Subnet :: "subnet \<Rightarrow> subnet" where
  "erase_Subnet k = k\<lparr>snSpec := (snSpec k)\<lparr>
     snRouteTables := clearList (snRouteTableRefs (snSpec k)) (snRouteTables (snSpec k)),
     snVPCID := (if snVPCRef (snSpec k) \<noteq> None then None else snVPCID (snSpec k))\<rparr>\<rparr>"

lemmas subnet_fields = references_Subnet_def routeTablesField_Subnet_def vpcField_Subnet_def

lemma keeps_vpcField_Subnet: "keeps (resolveField (vpcField_Subnet env)) erase_Subnet"
  unfolding vpcField_Subnet_def by (rule keeps_singleField) (simp add: vpcPlace_Subnet_def erase_Subnet_def)

lemma keeps_routeTablesField_Subnet: "keeps (resolveField (routeTablesField_Subnet env)) erase_Subnet"
  unfolding routeTablesField_Subnet_def by (rule keeps_listField) (simp_all add: erase_Subnet_def clearList_def)

interpretation sn_references: reference_fields "references_Subnet env" erase_Subnet putConditions_Subnet
  for env :: "('x) ref_env_scheme"
proof (rule reference_fields.intro)
  fix F assume "F \<in> set (references_Subnet env)"
  then have "F = routeTablesField_Subnet env \<or> F = vpcField_Subnet env" by (simp add: references_Subnet_def)
  then show "keeps (resolveField F) erase_Subnet"
    by (elim disjE) (simp_all only: keeps_vpcField_Subnet keeps_routeTablesField_Subnet)
next
  fix x :: subnet and s t
  assume "validateReferenceFields (references_Subnet env) x s = (Ret None, t)"
  then show "erase_Subnet x = x"
    by (cases x; cases "snSpec x") (auto simp: subnet_fields validate_None vpcPlace_Subnet_def erase_Subnet_def clearList_def)
next
  fix x y :: subnet
  show "clearFields (references_Subnet env) y = ret (erase_Subnet y)"
    by (rule ext) (simp add: subnet_fields clear_fields clearPlace_def vpcPlace_Subnet_def erase_Subnet_def clearList_def)
next
  show "erase_Subnet (putConditions_Subnet c x) = putConditions_Subnet c (erase_Subnet x)" for c x
    by (simp add: putConditions_Subnet_def erase_Subnet_def)
qed

subsection \<open>Internet gateways\<close>

definition routeTablesField_Gateway :: "('x) ref_env_scheme \<Rightarrow> internet_gateway reference_field" where
  "routeTablesField_Gateway env = listField env (lookupRouteTable env) ''RouteTables'' ''RouteTableRefs''
     (\<lambda>k. igRouteTableRefs (igSpec k)) (\<lambda>k. igRouteTables (igSpec k))
     (\<lambda>is k. k\<lparr>igSpec := (igSpec k)\<lparr>igRouteTables := is\<rparr>\<rparr>)"

definition vpcPlace_Gateway :: "internet_gateway place" where
  "vpcPlace_Gateway = \<lparr>refOf = (\<lambda>k. igVPCRef (igSpec k)), idOf = (\<lambda>k. igVPC (igSpec k)),
     putId = (\<lambda>i k. k\<lparr>igSpec := (igSpec k)\<lparr>igVPC := i\<rparr>\<rparr>)\<rparr>"

definition vpcField_Gateway :: "('x) ref_env_scheme \<Rightarrow> internet_gateway reference_field" where
  "vpcField_Gateway env = singleField env (lookupVPC env) False ''VPC'' ''VPCRef'' vpcPlace_Gateway"

definition references_Gateway :: "('x) ref_env_scheme \<Rightarrow> internet_gateway reference_field list" where
  "references_Gateway env = [routeTablesField_Gateway env, vpcField_Gateway env]"

definition putConditions_Gateway :: "condition list \<Rightarrow> internet_gateway \<Rightarrow> internet_gateway" where
  "putConditions_Gateway c k = k\<lparr>igStatus := (igStatus k)\<lparr>Conditions := c\<rparr>\<rparr>"

definition ResolveReferences_Gateway :: "('x) ref_env_scheme \<Rightarrow> internet_gateway \<Rightarrow> (internet_gateway \<times> bool \<times> error option) act" where
  "ResolveReferences_Gateway env =
     ResolveReferences (references_Gateway env) (\<lambda>k. Conditions (igStatus k)) putConditions_Gateway"

definition ClearResolvedReferences_Gateway :: "('x) ref_env_scheme \<Rightarrow> internet_gateway \<Rightarrow> internet_gateway act" where
  "ClearResolvedReferences_Gateway env = ClearResolvedReferences (references_Gateway env)"

definition erase_Gateway :: "internet_gateway \<Rightarrow> internet_gateway" where
  "erase_Gateway k = k\<lparr>igSpec := (igSpec k)\<lparr>
     igRouteTables := clearList (igRouteTableRefs (igSpec k)) (igRouteTables (igSpec k)),
     igVPC := (if igVPCRef (igSpec k) \<noteq> None then None else igVPC (igSpec k))\<rparr>\<rparr>"

lemmas gateway_fields = references_Gateway_def routeTablesField_Gateway_def vpcField_Gateway_def

lemma keeps_vpcField_Gateway: "keeps (resolveField (vpcField_Gateway env)) erase_Gateway"
  unfolding vpcField_Gateway_def by (rule keeps_singleField) (simp add: vpcPlace_Gateway_def erase_Gateway_def)

lemma keeps_routeTablesField_Gateway: "keeps (resolveField (routeTablesField_Gateway env)) erase_Gateway"
  unfolding routeTablesField_Gateway_def by (rule keeps_listField) (simp_all add: erase_Gateway_def clearList_def)

interpretation ig_references: reference_fields "references_Gateway env" erase_Gateway putConditions_Gateway
  for env :: "('x) ref_env_scheme"
proof (rule reference_fields.intro)
  fix F assume "F \<in> set (references_Gateway env)"
  then have "F = routeTablesField_Gateway env \<or> F = vpcField_Gateway env" by (simp add: references_Gateway_def)
  then show "keeps (resolveField F) erase_Gateway"
    by (elim disjE) (simp_all only: keeps_vpcField_Gateway keeps_routeTablesField_Gateway)
next
  fix x :: internet_gateway and s t
  assume "validateReferenceFields (references_Gateway env) x s = (Ret None, t)"
  then show "erase_Gateway x = x"
    by (cases x; cases "igSpec x") (auto simp: gateway_fields validate_None vpcPlace_Gateway_def erase_Gateway_def clearList_def)
next
  fix y :: internet_gateway
  show "clearFields (references_Gateway env) y = ret (erase_Gateway y)"
    by (rule ext) (simp add: gateway_fields clear_fields clearPlace_def vpcPlace_Gateway_def erase_Gateway_def clearList_def)
next
  show "erase_Gateway (putConditions_Gateway c x) = putConditions_Gateway c (erase_Gateway x)" for c x
    by (simp add: putConditions_Gateway_def erase_Gateway_def)
qed

subsection \<open>Network ACLs\<close>

definition subnetPlace_NetworkACL :: "network_acl_association place" where
  "subnetPlace_NetworkACL = \<lparr>refOf = naSubnetRef, idOf = naSubnetID, putId = (\<lambda>i a. a\<lparr>naSubnetID := i\<rparr>)\<rparr>"

definition subnetField_NetworkACL :: "('x) ref_env_scheme \<Rightarrow> network_acl reference_field" where
  "subnetField_NetworkACL env = eachField env (lookupSubnet env) ''Associations.SubnetID'' ''Associations.SubnetRef''
     (\<lambda>k. elems (naAssociations (naSpec k)))
     (\<lambda>as k. k\<lparr>naSpec := (naSpec k)\<lparr>naAssociations := map_option (\<lambda>_. as) (naAssociations (naSpec k))\<rparr>\<rparr>) subnetPlace_NetworkACL"

definition vpcPlace_NetworkACL :: "network_acl place" where
  "vpcPlace_NetworkACL = \<lparr>refOf = (\<lambda>k. naVPCRef (naSpec k)), idOf = (\<lambda>k. naVPCID (naSpec k)),
     putId = (\<lambda>i k. k\<lparr>naSpec := (naSpec k)\<lparr>naVPCID := i\<rparr>\<rparr>)\<rparr>"

definition vpcField_NetworkACL :: "('x) ref_env_scheme \<Rightarrow> network_acl reference_field" where
  "vpcField_NetworkACL env = singleField env (lookupVPC env) True ''VPCID'' ''VPCRef'' vpcPlace_NetworkACL"

definition references_NetworkACL :: "('x) ref_env_scheme \<Rightarrow> network_acl reference_field list" where
  "references_NetworkACL env = [subnetField_NetworkACL env, vpcField_NetworkACL env]"

definition putConditions_NetworkACL :: "condition list \<Rightarrow> network_acl \<Rightarrow> network_acl" where
  "putConditions_NetworkACL c k = k\<lparr>naStatus := (naStatus k)\<lparr>Conditions := c\<rparr>\<rparr>"

definition ResolveReferences_NetworkACL :: "('x) ref_env_scheme \<Rightarrow> network_acl \<Rightarrow> (network_acl \<times> bool \<times> error option) act" where
  "ResolveReferences_NetworkACL env =
     ResolveReferences (references_NetworkACL env) (\<lambda>k. Conditions (naStatus k)) putConditions_NetworkACL"

definition ClearResolvedReferences_NetworkACL :: "('x) ref_env_scheme \<Rightarrow> network_acl \<Rightarrow> network_acl act" where
  "ClearResolvedReferences_NetworkACL env = ClearResolvedReferences (references_NetworkACL env)"

definition erase_NetworkACL :: "network_acl \<Rightarrow> network_acl" where
  "erase_NetworkACL k = k\<lparr>naSpec := (naSpec k)\<lparr>
     naAssociations := map_option (map (clearPlace subnetPlace_NetworkACL)) (naAssociations (naSpec k)),
     naVPCID := (if naVPCRef (naSpec k) \<noteq> None then None else naVPCID (naSpec k))\<rparr>\<rparr>"

lemmas acl_fields = references_NetworkACL_def subnetField_NetworkACL_def vpcField_NetworkACL_def

lemma clearPlace_idle: "refOf P x = None \<or> idOf P x = None \<Longrightarrow> (\<And>y. idOf P y = None \<Longrightarrow> putId P None y = y) \<Longrightarrow> clearPlace P x = x"
  by (auto simp: clearPlace_def)

lemma clear_vpcPlace_NetworkACL:
  "clearPlace vpcPlace_NetworkACL k =
     k\<lparr>naSpec := (naSpec k)\<lparr>naVPCID := (if naVPCRef (naSpec k) \<noteq> None then None else naVPCID (naSpec k))\<rparr>\<rparr>"
  by (simp add: clearPlace_def vpcPlace_NetworkACL_def)

lemma keeps_vpcField_NetworkACL: "keeps (resolveField (vpcField_NetworkACL env)) erase_NetworkACL"
  unfolding vpcField_NetworkACL_def by (rule keeps_singleField) (simp add: vpcPlace_NetworkACL_def erase_NetworkACL_def)

lemma keeps_subnetField_NetworkACL: "keeps (resolveField (subnetField_NetworkACL env)) erase_NetworkACL"
  unfolding subnetField_NetworkACL_def
proof (rule keeps_eachField [where part = "clearPlace subnetPlace_NetworkACL"])
  show "clearPlace subnetPlace_NetworkACL (putId subnetPlace_NetworkACL i x) = clearPlace subnetPlace_NetworkACL x"
    if "refOf subnetPlace_NetworkACL x \<noteq> None" for i x
    using that by (simp add: clearPlace_def subnetPlace_NetworkACL_def)
  fix y and r :: network_acl
  assume "map (clearPlace subnetPlace_NetworkACL) y = map (clearPlace subnetPlace_NetworkACL) (elems (naAssociations (naSpec r)))"
  then show "erase_NetworkACL (r\<lparr>naSpec := (naSpec r)\<lparr>naAssociations := map_option (\<lambda>_. y) (naAssociations (naSpec r))\<rparr>\<rparr>)
      = erase_NetworkACL r"
    by (cases "naAssociations (naSpec r)") (simp_all add: erase_NetworkACL_def)
qed

interpretation na_references: reference_fields "references_NetworkACL env" erase_NetworkACL putConditions_NetworkACL
  for env :: "('x) ref_env_scheme"
proof (rule reference_fields.intro)
  fix F assume "F \<in> set (references_NetworkACL env)"
  then have "F = subnetField_NetworkACL env \<or> F = vpcField_NetworkACL env" by (simp add: references_NetworkACL_def)
  then show "keeps (resolveField F) erase_NetworkACL"
    by (elim disjE) (simp_all only: keeps_vpcField_NetworkACL keeps_subnetField_NetworkACL)
next
  fix x :: network_acl and s t
  assume v: "validateReferenceFields (references_NetworkACL env) x s = (Ret None, t)"
  then have "\<forall>a \<in> set (elems (naAssociations (naSpec x))). clearPlace subnetPlace_NetworkACL a = a"
    by (auto simp: acl_fields validate_None subnetPlace_NetworkACL_def intro!: clearPlace_idle)
  then have "map_option (map (clearPlace subnetPlace_NetworkACL)) (naAssociations (naSpec x)) = naAssociations (naSpec x)"
    by (cases "naAssociations (naSpec x)") (simp_all add: map_idI)
  moreover have "(if naVPCRef (naSpec x) \<noteq> None then None else naVPCID (naSpec x)) = naVPCID (naSpec x)"
    using v by (auto simp: acl_fields validate_None vpcPlace_NetworkACL_def)
  ultimately show "erase_NetworkACL x = x" unfolding erase_NetworkACL_def by simp
next
  fix y :: network_acl
  show "clearFields (references_NetworkACL env) y = ret (erase_NetworkACL y)"
    by (rule ext) (cases "naAssociations (naSpec y)";
      simp add: acl_fields clear_fields clear_vpcPlace_NetworkACL erase_NetworkACL_def)
next
  show "erase_NetworkACL (putConditions_NetworkACL c x) = putConditions_NetworkACL c (erase_NetworkACL x)" for c x
    by (simp add: putConditions_NetworkACL_def erase_NetworkACL_def)
qed

subsection \<open>Route tables\<close>

definition gatewayPlace_RouteTable :: "create_route_input place" where
  "gatewayPlace_RouteTable = \<lparr>refOf = crGatewayRef, idOf = crGatewayID, putId = (\<lambda>i r. r\<lparr>crGatewayID := i\<rparr>)\<rparr>"

definition natGatewayPlace_RouteTable :: "create_route_input place" where
  "natGatewayPlace_RouteTable = \<lparr>refOf = crNATGatewayRef, idOf = crNATGatewayID, putId = (\<lambda>i r. r\<lparr>crNATGatewayID := i\<rparr>)\<rparr>"

definition transitGatewayPlace_RouteTable :: "create_route_input place" where
  "transitGatewayPlace_RouteTable =
     \<lparr>refOf = crTransitGatewayRef, idOf = crTransitGatewayID, putId = (\<lambda>i r. r\<lparr>crTransitGatewayID := i\<rparr>)\<rparr>"

definition vpcEndpointPlace_RouteTable :: "create_route_input place" where
  "vpcEndpointPlace_RouteTable =
     \<lparr>refOf = crVPCEndpointRef, idOf = crVPCEndpointID, putId = (\<lambda>i r. r\<lparr>crVPCEndpointID := i\<rparr>)\<rparr>"

definition vpcPeeringPlace_RouteTable :: "create_route_input place" where
  "vpcPeeringPlace_RouteTable =
     \<lparr>refOf = crVPCPeeringConnectionRef, idOf = crVPCPeeringConnectionID, putId = (\<lambda>i r. r\<lparr>crVPCPeeringConnectionID := i\<rparr>)\<rparr>"

definition routesField ::
  "('x) ref_env_scheme \<Rightarrow> (string \<Rightarrow> string \<Rightarrow> error + string option) \<Rightarrow> string \<Rightarrow> string \<Rightarrow> create_route_input place
   \<Rightarrow> route_table reference_field" where
  "routesField env lookup field refField P = eachField env lookup field refField
     (\<lambda>k. Routes (rtSpec k)) (\<lambda>rs k. k\<lparr>rtSpec := (rtSpec k)\<lparr>Routes := rs\<rparr>\<rparr>) P"

definition gatewayField_RouteTable :: "('x) ref_env_scheme \<Rightarrow> route_table reference_field" where
  "gatewayField_RouteTable env =
     routesField env (lookupInternetGateway env) ''Routes.GatewayID'' ''Routes.GatewayRef'' gatewayPlace_RouteTable"

definition natGatewayField_RouteTable :: "('x) ref_env_scheme \<Rightarrow> route_table reference_field" where
  "natGatewayField_RouteTable env =
     routesField env (lookupNATGateway env) ''Routes.NATGatewayID'' ''Routes.NATGatewayRef'' natGatewayPlace_RouteTable"

definition transitGatewayField_RouteTable :: "('x) ref_env_scheme \<Rightarrow> route_table reference_field" where
  "transitGatewayField_RouteTable env =
     routesField env (lookupTransitGateway env) ''Routes.TransitGatewayID'' ''Routes.TransitGatewayRef'' transitGatewayPlace_RouteTable"

definition vpcEndpointField_RouteTable :: "('x) ref_env_scheme \<Rightarrow> route_table reference_field" where
  "vpcEndpointField_RouteTable env =
     routesField env (lookupVPCEndpoint env) ''Routes.VPCEndpointID'' ''Routes.VPCEndpointRef'' vpcEndpointPlace_RouteTable"

definition vpcPeeringField_RouteTable :: "('x) ref_env_scheme \<Rightarrow> route_table reference_field" where
  "vpcPeeringField_RouteTable env =
     routesField env (lookupVPCPeeringConnection env) ''Routes.VPCPeeringConnectionID'' ''Routes.VPCPeeringConnectionRef''
       vpcPeeringPlace_RouteTable"

definition vpcPlace_RouteTable :: "route_table place" where
  "vpcPlace_RouteTable = \<lparr>refOf = (\<lambda>k. rtVPCRef (rtSpec k)), idOf = (\<lambda>k. rtVPCID (rtSpec k)),
     putId = (\<lambda>i k. k\<lparr>rtSpec := (rtSpec k)\<lparr>rtVPCID := i\<rparr>\<rparr>)\<rparr>"

definition vpcField_RouteTable :: "('x) ref_env_scheme \<Rightarrow> route_table reference_field" where
  "vpcField_RouteTable env = singleField env (lookupVPC env) True ''VPCID'' ''VPCRef'' vpcPlace_RouteTable"

definition references_RouteTable :: "('x) ref_env_scheme \<Rightarrow> route_table reference_field list" where
  "references_RouteTable env = [gatewayField_RouteTable env, natGatewayField_RouteTable env, transitGatewayField_RouteTable env,
     vpcEndpointField_RouteTable env, vpcPeeringField_RouteTable env, vpcField_RouteTable env]"

definition putConditions_RouteTable :: "condition list \<Rightarrow> route_table \<Rightarrow> route_table" where
  "putConditions_RouteTable c k = k\<lparr>rtStatus := (rtStatus k)\<lparr>Conditions := c\<rparr>\<rparr>"

definition ResolveReferences_RouteTable :: "('x) ref_env_scheme \<Rightarrow> route_table \<Rightarrow> (route_table \<times> bool \<times> error option) act" where
  "ResolveReferences_RouteTable env =
     ResolveReferences (references_RouteTable env) (\<lambda>k. Conditions (rtStatus k)) putConditions_RouteTable"

definition ClearResolvedReferences_RouteTable :: "('x) ref_env_scheme \<Rightarrow> route_table \<Rightarrow> route_table act" where
  "ClearResolvedReferences_RouteTable env = ClearResolvedReferences (references_RouteTable env)"

definition unlessRef :: "ref_wrapper option \<Rightarrow> string option \<Rightarrow> string option" where
  "unlessRef r i = (if r \<noteq> None then None else i)"

definition erase_Route :: "create_route_input \<Rightarrow> create_route_input" where
  "erase_Route r = r\<lparr>crGatewayID := unlessRef (crGatewayRef r) (crGatewayID r),
     crNATGatewayID := unlessRef (crNATGatewayRef r) (crNATGatewayID r),
     crTransitGatewayID := unlessRef (crTransitGatewayRef r) (crTransitGatewayID r),
     crVPCEndpointID := unlessRef (crVPCEndpointRef r) (crVPCEndpointID r),
     crVPCPeeringConnectionID := unlessRef (crVPCPeeringConnectionRef r) (crVPCPeeringConnectionID r)\<rparr>"

definition erase_RouteTable :: "route_table \<Rightarrow> route_table" where
  "erase_RouteTable k = k\<lparr>rtSpec := (rtSpec k)\<lparr>Routes := map erase_Route (Routes (rtSpec k)),
     rtVPCID := unlessRef (rtVPCRef (rtSpec k)) (rtVPCID (rtSpec k))\<rparr>\<rparr>"

lemmas route_places = gatewayPlace_RouteTable_def natGatewayPlace_RouteTable_def transitGatewayPlace_RouteTable_def
  vpcEndpointPlace_RouteTable_def vpcPeeringPlace_RouteTable_def

lemmas table_fields = references_RouteTable_def gatewayField_RouteTable_def natGatewayField_RouteTable_def
  transitGatewayField_RouteTable_def vpcEndpointField_RouteTable_def vpcPeeringField_RouteTable_def vpcField_RouteTable_def
  routesField_def

lemma unlessRef_simps [simp]: "r \<noteq> None \<Longrightarrow> unlessRef r i = None" "unlessRef None i = i"
  by (simp_all add: unlessRef_def)

lemma unlessRef_idle: "r = None \<or> i = None \<Longrightarrow> unlessRef r i = i"
  by (auto simp: unlessRef_def)

lemma keeps_routesField:
  assumes "\<And>i x. refOf P x \<noteq> None \<Longrightarrow> erase_Route (putId P i x) = erase_Route x"
  shows "keeps (resolveField (routesField env lookup field refField P)) erase_RouteTable"
  unfolding routesField_def by (rule keeps_eachField [where part = erase_Route]) (use assms in \<open>auto simp: erase_RouteTable_def\<close>)

lemma keeps_vpcField_RouteTable: "keeps (resolveField (vpcField_RouteTable env)) erase_RouteTable"
  unfolding vpcField_RouteTable_def by (rule keeps_singleField) (simp add: vpcPlace_RouteTable_def erase_RouteTable_def)

lemma clear_vpcPlace_RouteTable:
  "clearPlace vpcPlace_RouteTable k =
     k\<lparr>rtSpec := (rtSpec k)\<lparr>rtVPCID := unlessRef (rtVPCRef (rtSpec k)) (rtVPCID (rtSpec k))\<rparr>\<rparr>"
  by (simp add: clearPlace_def unlessRef_def vpcPlace_RouteTable_def)

lemma clear_route_places:
  "clearPlace gatewayPlace_RouteTable r = r\<lparr>crGatewayID := unlessRef (crGatewayRef r) (crGatewayID r)\<rparr>"
  "clearPlace natGatewayPlace_RouteTable r = r\<lparr>crNATGatewayID := unlessRef (crNATGatewayRef r) (crNATGatewayID r)\<rparr>"
  "clearPlace transitGatewayPlace_RouteTable r =
     r\<lparr>crTransitGatewayID := unlessRef (crTransitGatewayRef r) (crTransitGatewayID r)\<rparr>"
  "clearPlace vpcEndpointPlace_RouteTable r = r\<lparr>crVPCEndpointID := unlessRef (crVPCEndpointRef r) (crVPCEndpointID r)\<rparr>"
  "clearPlace vpcPeeringPlace_RouteTable r =
     r\<lparr>crVPCPeeringConnectionID := unlessRef (crVPCPeeringConnectionRef r) (crVPCPeeringConnectionID r)\<rparr>"
  by (simp_all add: clearPlace_def unlessRef_def route_places)

lemma clear_route: "clearPlace vpcPeeringPlace_RouteTable (clearPlace vpcEndpointPlace_RouteTable
     (clearPlace transitGatewayPlace_RouteTable (clearPlace natGatewayPlace_RouteTable (clearPlace gatewayPlace_RouteTable r))))
   = erase_Route r"
  by (simp add: clear_route_places erase_Route_def)

lemma erase_Route_idle:
  assumes "\<forall>P \<in> {gatewayPlace_RouteTable, natGatewayPlace_RouteTable, transitGatewayPlace_RouteTable,
      vpcEndpointPlace_RouteTable, vpcPeeringPlace_RouteTable}. refOf P r = None \<or> idOf P r = None"
  shows "erase_Route r = r"
  unfolding erase_Route_def using assms
  by (cases r) (simp add: route_places unlessRef_idle)

interpretation rt_references: reference_fields "references_RouteTable env" erase_RouteTable putConditions_RouteTable
  for env :: "('x) ref_env_scheme"
proof (rule reference_fields.intro)
  have "keeps (resolveField (gatewayField_RouteTable env)) erase_RouteTable"
    "keeps (resolveField (natGatewayField_RouteTable env)) erase_RouteTable"
    "keeps (resolveField (transitGatewayField_RouteTable env)) erase_RouteTable"
    "keeps (resolveField (vpcEndpointField_RouteTable env)) erase_RouteTable"
    "keeps (resolveField (vpcPeeringField_RouteTable env)) erase_RouteTable"
    unfolding gatewayField_RouteTable_def natGatewayField_RouteTable_def transitGatewayField_RouteTable_def
      vpcEndpointField_RouteTable_def vpcPeeringField_RouteTable_def
    by (rule keeps_routesField; simp add: erase_Route_def route_places)+
  then show "keeps (resolveField F) erase_RouteTable" if "F \<in> set (references_RouteTable env)" for F
    using that keeps_vpcField_RouteTable unfolding references_RouteTable_def by auto
next
  fix x :: route_table and s t
  assume v: "validateReferenceFields (references_RouteTable env) x s = (Ret None, t)"
  then have "map erase_Route (Routes (rtSpec x)) = Routes (rtSpec x)"
    by (intro map_idI erase_Route_idle) (auto simp: table_fields validate_None)
  moreover have "unlessRef (rtVPCRef (rtSpec x)) (rtVPCID (rtSpec x)) = rtVPCID (rtSpec x)"
    using v by (intro unlessRef_idle) (auto simp: table_fields validate_None vpcPlace_RouteTable_def)
  ultimately show "erase_RouteTable x = x" unfolding erase_RouteTable_def by simp
next
  fix y :: route_table
  show "clearFields (references_RouteTable env) y = ret (erase_RouteTable y)"
    by (rule ext) (simp add: table_fields clear_fields clear_vpcPlace_RouteTable erase_RouteTable_def clear_route o_def)
next
  show "erase_RouteTable (putConditions_RouteTable c x) = putConditions_RouteTable c (erase_RouteTable x)" for c x
    by (simp add: putConditions_RouteTable_def erase_RouteTable_def)
qed

subsection \<open>Security groups\<close>

definition lookupSecurityGroup :: "('x) ref_env_scheme \<Rightarrow> string \<Rightarrow> string \<Rightarrow> error + string option" where
  "lookupSecurityGroup env = getReferencedResourceState_SecurityGroup env"

definition groupPlace_SecurityGroup :: "user_id_group_pair place" where
  "groupPlace_SecurityGroup = \<lparr>refOf = GroupRef, idOf = GroupID, putId = (\<lambda>i p. p\<lparr>GroupID := i\<rparr>)\<rparr>"

definition pairVPCPlace_SecurityGroup :: "user_id_group_pair place" where
  "pairVPCPlace_SecurityGroup = \<lparr>refOf = pairVPCRef, idOf = pairVPCID, putId = (\<lambda>i p. p\<lparr>pairVPCID := i\<rparr>)\<rparr>"

definition pairsOf :: "ip_permission \<Rightarrow> user_id_group_pair option list" where
  "pairsOf r = elems (UserIDGroupPairs r)"

definition putPairs :: "user_id_group_pair option list \<Rightarrow> ip_permission \<Rightarrow> ip_permission" where
  "putPairs ps r = r\<lparr>UserIDGroupPairs := map_option (\<lambda>_. ps) (UserIDGroupPairs r)\<rparr>"

definition ingressOf :: "security_group \<Rightarrow> ip_permission option list" where
  "ingressOf k = elems (IngressRules (Spec k))"

definition putIngress :: "ip_permission option list \<Rightarrow> security_group \<Rightarrow> security_group" where
  "putIngress rs k = k\<lparr>Spec := (Spec k)\<lparr>IngressRules := map_option (\<lambda>_. rs) (IngressRules (Spec k))\<rparr>\<rparr>"

definition egressOf :: "security_group \<Rightarrow> ip_permission option list" where
  "egressOf k = elems (EgressRules (Spec k))"

definition putEgress :: "ip_permission option list \<Rightarrow> security_group \<Rightarrow> security_group" where
  "putEgress rs k = k\<lparr>Spec := (Spec k)\<lparr>EgressRules := map_option (\<lambda>_. rs) (EgressRules (Spec k))\<rparr>\<rparr>"

text \<open>A reference in every pair of every rule, behind two pointers that are not checked.\<close>

definition pairsField ::
  "('x) ref_env_scheme \<Rightarrow> (string \<Rightarrow> string \<Rightarrow> error + string option) \<Rightarrow> string \<Rightarrow> string
   \<Rightarrow> (security_group \<Rightarrow> ip_permission option list) \<Rightarrow> (ip_permission option list \<Rightarrow> security_group \<Rightarrow> security_group)
   \<Rightarrow> user_id_group_pair place \<Rightarrow> security_group reference_field" where
  "pairsField env lookup field refField get put P =
     \<lparr>validateField = (\<lambda>k. forErr (validatePtr (\<lambda>rule. forErr (validatePtr (validateAt field refField P)) (pairsOf rule))) (get k)),
      resolveField = resolveIn get put (resolveEach (resolvePtr (resolveIn pairsOf putPairs (resolveEach (resolvePtr
        (resolveAt env lookup refField P)))))),
      clearField = clearIn get put (mapAct (clearPtr (clearIn pairsOf putPairs (mapAct (clearPtr (clearAt P))))))\<rparr>"

definition egressGroupField :: "('x) ref_env_scheme \<Rightarrow> security_group reference_field" where
  "egressGroupField env = pairsField env (lookupSecurityGroup env) ''EgressRules.UserIDGroupPairs.GroupID''
     ''EgressRules.UserIDGroupPairs.GroupRef'' egressOf putEgress groupPlace_SecurityGroup"

definition egressVPCField :: "('x) ref_env_scheme \<Rightarrow> security_group reference_field" where
  "egressVPCField env = pairsField env (lookupVPC env) ''EgressRules.UserIDGroupPairs.VPCID''
     ''EgressRules.UserIDGroupPairs.VPCRef'' egressOf putEgress pairVPCPlace_SecurityGroup"

definition ingressGroupField :: "('x) ref_env_scheme \<Rightarrow> security_group reference_field" where
  "ingressGroupField env = pairsField env (lookupSecurityGroup env) ''IngressRules.UserIDGroupPairs.GroupID''
     ''IngressRules.UserIDGroupPairs.GroupRef'' ingressOf putIngress groupPlace_SecurityGroup"

definition ingressVPCField :: "('x) ref_env_scheme \<Rightarrow> security_group reference_field" where
  "ingressVPCField env = pairsField env (lookupVPC env) ''IngressRules.UserIDGroupPairs.VPCID''
     ''IngressRules.UserIDGroupPairs.VPCRef'' ingressOf putIngress pairVPCPlace_SecurityGroup"

definition vpcPlace_SecurityGroup :: "security_group place" where
  "vpcPlace_SecurityGroup = \<lparr>refOf = (\<lambda>k. VPCRef (Spec k)), idOf = (\<lambda>k. VPCID (Spec k)),
     putId = (\<lambda>i k. k\<lparr>Spec := (Spec k)\<lparr>VPCID := i\<rparr>\<rparr>)\<rparr>"

definition vpcField_SecurityGroup :: "('x) ref_env_scheme \<Rightarrow> security_group reference_field" where
  "vpcField_SecurityGroup env = singleField env (lookupVPC env) True ''VPCID'' ''VPCRef'' vpcPlace_SecurityGroup"

definition references_SecurityGroup :: "('x) ref_env_scheme \<Rightarrow> security_group reference_field list" where
  "references_SecurityGroup env = [egressGroupField env, egressVPCField env, ingressGroupField env, ingressVPCField env,
     vpcField_SecurityGroup env]"

definition putConditions_SecurityGroup :: "condition list \<Rightarrow> security_group \<Rightarrow> security_group" where
  "putConditions_SecurityGroup c k = k\<lparr>Status := (Status k)\<lparr>Conditions := c\<rparr>\<rparr>"

definition ResolveReferences_SecurityGroup ::
  "('x) ref_env_scheme \<Rightarrow> security_group \<Rightarrow> (security_group \<times> bool \<times> error option) act" where
  "ResolveReferences_SecurityGroup env =
     ResolveReferences (references_SecurityGroup env) (\<lambda>k. Conditions (Status k)) putConditions_SecurityGroup"

definition ClearResolvedReferences_SecurityGroup :: "('x) ref_env_scheme \<Rightarrow> security_group \<Rightarrow> security_group act" where
  "ClearResolvedReferences_SecurityGroup env = ClearResolvedReferences (references_SecurityGroup env)"

definition erase_Pair :: "user_id_group_pair \<Rightarrow> user_id_group_pair" where
  "erase_Pair p = p\<lparr>GroupID := unlessRef (GroupRef p) (GroupID p), pairVPCID := unlessRef (pairVPCRef p) (pairVPCID p)\<rparr>"

definition erase_Rule :: "ip_permission \<Rightarrow> ip_permission" where
  "erase_Rule r = r\<lparr>UserIDGroupPairs := map_option (map (map_option erase_Pair)) (UserIDGroupPairs r)\<rparr>"

definition erase_SecurityGroup :: "security_group \<Rightarrow> security_group" where
  "erase_SecurityGroup k = k\<lparr>Spec := (Spec k)\<lparr>
     EgressRules := map_option (map (map_option erase_Rule)) (EgressRules (Spec k)),
     IngressRules := map_option (map (map_option erase_Rule)) (IngressRules (Spec k)),
     VPCID := unlessRef (VPCRef (Spec k)) (VPCID (Spec k))\<rparr>\<rparr>"

lemma keeps_pairsField:
  assumes "\<And>i x. refOf P x \<noteq> None \<Longrightarrow> erase_Pair (putId P i x) = erase_Pair x"
    and "\<And>y k. map (map_option erase_Rule) y = map (map_option erase_Rule) (get k) \<Longrightarrow> erase_SecurityGroup (put y k) = erase_SecurityGroup k"
  shows "keeps (resolveField (pairsField env lookup field refField get put P)) erase_SecurityGroup"
  unfolding pairsField_def reference_field.simps
proof (rule keeps_resolveIn [OF keeps_resolveEach [OF keeps_resolvePtr [OF keeps_resolveIn [OF keeps_resolveEach
          [OF keeps_resolvePtr [OF keeps_resolveAt]]]]]])
  show "erase_Pair (putId P i x) = erase_Pair x" if "refOf P x \<noteq> None" for i x by (rule assms(1) [OF that])
  show "erase_Rule (putPairs y r) = erase_Rule r" if "map (map_option erase_Pair) y = map (map_option erase_Pair) (pairsOf r)" for y r
    using that by (cases "UserIDGroupPairs r") (simp_all add: erase_Rule_def putPairs_def pairsOf_def)
qed (rule assms(2))

lemma erase_put_rules:
  "map (map_option erase_Rule) y = map (map_option erase_Rule) (egressOf k) \<Longrightarrow> erase_SecurityGroup (putEgress y k) = erase_SecurityGroup k"
  "map (map_option erase_Rule) y = map (map_option erase_Rule) (ingressOf k) \<Longrightarrow> erase_SecurityGroup (putIngress y k) = erase_SecurityGroup k"
  by (cases "EgressRules (Spec k)"; cases "IngressRules (Spec k)";
    simp add: erase_SecurityGroup_def putEgress_def putIngress_def egressOf_def ingressOf_def)+

lemma keeps_vpcField_SecurityGroup: "keeps (resolveField (vpcField_SecurityGroup env)) erase_SecurityGroup"
  unfolding vpcField_SecurityGroup_def by (rule keeps_singleField) (simp add: vpcPlace_SecurityGroup_def erase_SecurityGroup_def)

lemma keeps_references_SecurityGroup:
  assumes "F \<in> set (references_SecurityGroup env)"
  shows "keeps (resolveField F) erase_SecurityGroup"
proof -
  have "keeps (resolveField (egressGroupField env)) erase_SecurityGroup" "keeps (resolveField (egressVPCField env)) erase_SecurityGroup"
    "keeps (resolveField (ingressGroupField env)) erase_SecurityGroup" "keeps (resolveField (ingressVPCField env)) erase_SecurityGroup"
    unfolding egressGroupField_def egressVPCField_def ingressGroupField_def ingressVPCField_def
    by (rule keeps_pairsField; (rule erase_put_rules; assumption | simp add: erase_Pair_def groupPlace_SecurityGroup_def pairVPCPlace_SecurityGroup_def))+
  with assms keeps_vpcField_SecurityGroup show ?thesis unfolding references_SecurityGroup_def by auto
qed

text \<open>No nil among the rules and the pairs, as a validation without an error (or a panic) shows.\<close>

definition solidRules :: "ip_permission option list \<Rightarrow> bool" where
  "solidRules rs \<longleftrightarrow> (\<forall>p \<in> set rs. \<exists>r. p = Some r \<and> None \<notin> set (pairsOf r))"

lemma forErr_each:
  assumes "\<And>x s t. f x s = (Ret None, t) \<longleftrightarrow> t = s \<and> Q x"
  shows "forErr f xs s = (Ret None, t) \<longleftrightarrow> t = s \<and> (\<forall>x \<in> set xs. Q x)"
  by (induction xs arbitrary: s) (auto simp: forErr_None assms simp del: forErr.simps)

lemma validatePtr_None:
  assumes "\<And>x s t. f x s = (Ret None, t) \<longleftrightarrow> t = s \<and> Q x"
  shows "validatePtr f p s = (Ret None, t) \<longleftrightarrow> t = s \<and> (\<exists>x. p = Some x \<and> Q x)"
  by (cases p) (auto simp: validatePtr_def assms)

lemma validate_pairsField_None:
  "validateField (pairsField env lookup field refField get put P) k s = (Ret None, t) \<longleftrightarrow> t = s \<and>
     (\<forall>p \<in> set (get k). \<exists>r. p = Some r \<and> (\<forall>q \<in> set (pairsOf r). \<exists>x. q = Some x \<and> (refOf P x = None \<or> idOf P x = None)))"
  unfolding pairsField_def reference_field.simps
  by (rule forErr_each, rule validatePtr_None, rule forErr_each, rule validatePtr_None, rule validateAt_None)

definition clearRule :: "user_id_group_pair place \<Rightarrow> ip_permission \<Rightarrow> ip_permission" where
  "clearRule P r = r\<lparr>UserIDGroupPairs := map_option (map (map_option (clearPlace P))) (UserIDGroupPairs r)\<rparr>"

lemma clear_pairsField:
  assumes "solidRules (get k)"
  shows "clearField (pairsField env lookup field refField get put P) k = ret (put (map (map_option (clearRule P)) (get k)) k)"
proof -
  have pairs: "mapAct (clearPtr (clearAt P)) (pairsOf r) = ret (map (map_option (clearPlace P)) (pairsOf r))"
    if "None \<notin> set (pairsOf r)" for r
  proof (rule mapAct_ret)
    fix q assume "q \<in> set (pairsOf r)"
    with that obtain x where "q = Some x" by (cases q) auto
    then show "clearPtr (clearAt P) q = ret (map_option (clearPlace P) q)"
      by (auto simp: clearPtr_def clearAt_ret fun_eq_iff)
  qed
  have "mapAct (clearPtr (clearIn pairsOf putPairs (mapAct (clearPtr (clearAt P))))) (get k) = ret (map (map_option (clearRule P)) (get k))"
  proof (rule mapAct_ret)
    fix p assume "p \<in> set (get k)"
    with assms obtain r where r: "p = Some r" "None \<notin> set (pairsOf r)" by (auto simp: solidRules_def)
    have "putPairs (map (map_option (clearPlace P)) (pairsOf r)) r = clearRule P r"
      by (cases "UserIDGroupPairs r") (simp_all add: putPairs_def pairsOf_def clearRule_def)
    with r show "clearPtr (clearIn pairsOf putPairs (mapAct (clearPtr (clearAt P)))) p = ret (map_option (clearRule P) p)"
      by (auto simp: clearPtr_def clearIn_def pairs [OF r(2)] fun_eq_iff)
  qed
  then show ?thesis by (auto simp: pairsField_def clearIn_def fun_eq_iff)
qed

lemma clear_vpcPlace_SecurityGroup:
  "clearPlace vpcPlace_SecurityGroup k = k\<lparr>Spec := (Spec k)\<lparr>VPCID := unlessRef (VPCRef (Spec k)) (VPCID (Spec k))\<rparr>\<rparr>"
  by (simp add: clearPlace_def unlessRef_def vpcPlace_SecurityGroup_def)

lemma clearRule_both: "clearRule pairVPCPlace_SecurityGroup (clearRule groupPlace_SecurityGroup r) = erase_Rule r"
proof -
  have "clearPlace pairVPCPlace_SecurityGroup (clearPlace groupPlace_SecurityGroup p) = erase_Pair p" for p
    by (simp add: clearPlace_def groupPlace_SecurityGroup_def pairVPCPlace_SecurityGroup_def erase_Pair_def unlessRef_def)
  then show ?thesis
    by (cases "UserIDGroupPairs r") (simp_all add: clearRule_def erase_Rule_def option.map_comp o_def)
qed

lemma solid_map:
  assumes "\<And>r. None \<in> set (pairsOf (f r)) \<longleftrightarrow> None \<in> set (pairsOf r)"
  shows "solidRules (map (map_option f) rs) \<longleftrightarrow> solidRules rs"
  using assms by (fastforce simp: solidRules_def)

lemma pairsOf_maps [simp]:
  "None \<in> set (pairsOf (clearRule P r)) \<longleftrightarrow> None \<in> set (pairsOf r)"
  "None \<in> set (pairsOf (erase_Rule r)) \<longleftrightarrow> None \<in> set (pairsOf r)"
  by (cases "UserIDGroupPairs r"; auto simp: pairsOf_def clearRule_def erase_Rule_def image_iff)+

lemma clearFields_SecurityGroup:
  assumes "solidRules (egressOf k)" "solidRules (ingressOf k)"
  shows "clearFields (references_SecurityGroup env) k = ret (erase_SecurityGroup k)"
proof -
  let ?g = "map (map_option (clearRule groupPlace_SecurityGroup))" and ?v = "map (map_option (clearRule pairVPCPlace_SecurityGroup))"
  let ?k1 = "putEgress (?g (egressOf k)) k"
  let ?k2 = "putEgress (?v (egressOf ?k1)) ?k1"
  let ?k3 = "putIngress (?g (ingressOf ?k2)) ?k2"
  let ?k4 = "putIngress (?v (ingressOf ?k3)) ?k3"
  have e1: "egressOf ?k1 = ?g (egressOf k)" and i2: "ingressOf ?k2 = ingressOf k" and i3: "ingressOf ?k3 = ?g (ingressOf k)"
    by (cases "EgressRules (Spec k)"; cases "IngressRules (Spec k)"; simp add: egressOf_def ingressOf_def putEgress_def putIngress_def)+
  have s: "solidRules (egressOf ?k1)" "solidRules (ingressOf ?k2)"
    by (simp only: e1 solid_map pairsOf_maps assms) (simp only: i2 assms)
  have s3: "solidRules (ingressOf ?k3)" by (simp only: i3 solid_map pairsOf_maps assms)
  have "clearField (egressGroupField env) k = ret ?k1" "clearField (egressVPCField env) ?k1 = ret ?k2"
    "clearField (ingressGroupField env) ?k2 = ret ?k3" "clearField (ingressVPCField env) ?k3 = ret ?k4"
    unfolding egressGroupField_def egressVPCField_def ingressGroupField_def ingressVPCField_def
    by (rule clear_pairsField [where get = egressOf, OF assms(1)] clear_pairsField [where get = egressOf, OF s(1)]
        clear_pairsField [where get = ingressOf, OF s(2)] clear_pairsField [where get = ingressOf, OF s3])+
  moreover have "clearField (vpcField_SecurityGroup env) ?k4 = ret (erase_SecurityGroup k)"
    unfolding vpcField_SecurityGroup_def clear_singleField clear_vpcPlace_SecurityGroup
    by (cases "EgressRules (Spec k)"; cases "IngressRules (Spec k)"; rule arg_cong [where f = ret];
      simp add: egressOf_def ingressOf_def putEgress_def putIngress_def erase_SecurityGroup_def clearRule_both option.map_comp o_def)
  ultimately show ?thesis by (simp only: references_SecurityGroup_def clearFields.simps bind_simps)
qed

interpretation sg_references: reference_fields "references_SecurityGroup env" erase_SecurityGroup putConditions_SecurityGroup
  for env :: "('x) ref_env_scheme"
proof (rule reference_fields.intro)
  show "keeps (resolveField F) erase_SecurityGroup" if "F \<in> set (references_SecurityGroup env)" for F
    using that by (rule keeps_references_SecurityGroup)
next
  fix x :: security_group and s t
  assume v: "validateReferenceFields (references_SecurityGroup env) x s = (Ret None, t)"
  then have e: "\<forall>p \<in> set (egressOf x). \<exists>r. p = Some r \<and> (\<forall>q \<in> set (pairsOf r). \<exists>y. q = Some y \<and>
        (GroupRef y = None \<or> GroupID y = None))"
      "\<forall>p \<in> set (egressOf x). \<exists>r. p = Some r \<and> (\<forall>q \<in> set (pairsOf r). \<exists>y. q = Some y \<and>
        (pairVPCRef y = None \<or> pairVPCID y = None))"
      "\<forall>p \<in> set (ingressOf x). \<exists>r. p = Some r \<and> (\<forall>q \<in> set (pairsOf r). \<exists>y. q = Some y \<and>
        (GroupRef y = None \<or> GroupID y = None))"
      "\<forall>p \<in> set (ingressOf x). \<exists>r. p = Some r \<and> (\<forall>q \<in> set (pairsOf r). \<exists>y. q = Some y \<and>
        (pairVPCRef y = None \<or> pairVPCID y = None))"
    and vpc: "VPCRef (Spec x) = None \<or> VPCID (Spec x) = None"
    unfolding references_SecurityGroup_def validate_fields_None egressGroupField_def egressVPCField_def ingressGroupField_def
      ingressVPCField_def vpcField_SecurityGroup_def validate_pairsField_None validate_singleField_None
    by (simp_all add: groupPlace_SecurityGroup_def pairVPCPlace_SecurityGroup_def vpcPlace_SecurityGroup_def)
  have idle: "map (map_option erase_Rule) rs = rs"
    if g: "\<forall>p \<in> set rs. \<exists>r. p = Some r \<and> (\<forall>q \<in> set (pairsOf r). \<exists>y. q = Some y \<and> (GroupRef y = None \<or> GroupID y = None))"
      and w: "\<forall>p \<in> set rs. \<exists>r. p = Some r \<and> (\<forall>q \<in> set (pairsOf r). \<exists>y. q = Some y \<and> (pairVPCRef y = None \<or> pairVPCID y = None))"
    for rs
  proof (rule map_idI)
    fix p assume p: "p \<in> set rs"
    with g obtain r where r: "p = Some r" "\<forall>q \<in> set (pairsOf r). \<exists>y. q = Some y \<and> (GroupRef y = None \<or> GroupID y = None)" by blast
    with w p have "\<forall>q \<in> set (pairsOf r). \<exists>y. q = Some y \<and> (pairVPCRef y = None \<or> pairVPCID y = None)" by blast
    with r(2) have "map_option erase_Pair q = q" if "q \<in> set (pairsOf r)" for q
      using that by (fastforce simp: erase_Pair_def unlessRef_idle)
    then have "erase_Rule r = r" by (cases "UserIDGroupPairs r") (simp_all add: erase_Rule_def pairsOf_def map_idI)
    with r(1) show "map_option erase_Rule p = p" by simp
  qed
  show same: "erase_SecurityGroup x = x"
    using idle [OF e(1,2)] idle [OF e(3,4)] unlessRef_idle [OF vpc]
    by (cases "EgressRules (Spec x)"; cases "IngressRules (Spec x)") (simp_all add: erase_SecurityGroup_def egressOf_def ingressOf_def)
  fix y c assume y: "erase_SecurityGroup y = putConditions_SecurityGroup c x"
  have "solidRules (egressOf x)" "solidRules (ingressOf x)" unfolding solidRules_def using e by fastforce+
  moreover have "map (map_option erase_Rule) (egressOf y) = egressOf (erase_SecurityGroup y)"
    "map (map_option erase_Rule) (ingressOf y) = ingressOf (erase_SecurityGroup y)"
    by (simp_all add: egressOf_def ingressOf_def erase_SecurityGroup_def)
  moreover have "egressOf (putConditions_SecurityGroup c x) = egressOf x" "ingressOf (putConditions_SecurityGroup c x) = ingressOf x"
    by (simp_all add: egressOf_def ingressOf_def putConditions_SecurityGroup_def)
  ultimately have "solidRules (egressOf y)" "solidRules (ingressOf y)"
    by (metis y solid_map pairsOf_maps(2))+
  then show "clearFields (references_SecurityGroup env) y = ret (erase_SecurityGroup y)" by (rule clearFields_SecurityGroup)
next
  show "erase_SecurityGroup (putConditions_SecurityGroup c x) = putConditions_SecurityGroup c (erase_SecurityGroup x)" for c x
    by (simp add: putConditions_SecurityGroup_def erase_SecurityGroup_def)
qed

subsection \<open>Properties\<close>

text \<open>
  C29. Resolving and clearing references. For a security group whose references are valid, whatever
  the cluster answers and even when the resolution fails half way, clearing the references of the
  resolved group gives back the group as it was written, but for its conditions: no resolved
  identifier reaches the spec that is stored.
\<close>

theorem references_cleared_SecurityGroup:
  assumes "validateReferenceFields (references_SecurityGroup env) k s = (Ret None, u)"
    and "ResolveReferences_SecurityGroup env k s = (Ret (k', h, err), t)"
  shows "\<exists>c. ClearResolvedReferences_SecurityGroup env k' = ret (putConditions_SecurityGroup c k)"
  unfolding ClearResolvedReferences_SecurityGroup_def
  by (rule sg_references.clear_resolved [OF assms(1) assms(2) [unfolded ResolveReferences_SecurityGroup_def]])

text \<open>The same for a route table and for a subnet.\<close>

lemma references_cleared_RouteTable:
  assumes "validateReferenceFields (references_RouteTable env) k s = (Ret None, u)"
    and "ResolveReferences_RouteTable env k s = (Ret (k', h, err), t)"
  shows "\<exists>c. ClearResolvedReferences_RouteTable env k' = ret (putConditions_RouteTable c k)"
  unfolding ClearResolvedReferences_RouteTable_def
  by (rule rt_references.clear_resolved [OF assms(1) assms(2) [unfolded ResolveReferences_RouteTable_def]])

lemma references_cleared_Subnet:
  assumes "validateReferenceFields (references_Subnet env) k s = (Ret None, u)"
    and "ResolveReferences_Subnet env k s = (Ret (k', h, err), t)"
  shows "\<exists>c. ClearResolvedReferences_Subnet env k' = ret (putConditions_Subnet c k)"
  unfolding ClearResolvedReferences_Subnet_def
  by (rule sn_references.clear_resolved [OF assms(1) assms(2) [unfolded ResolveReferences_Subnet_def]])

text \<open>An identifier that comes from an object which is synced and not in a terminal state.\<close>

definition readyObject :: "referenced \<Rightarrow> bool" where
  "readyObject obj \<longleftrightarrow> (\<exists>c \<in> set (roConditions obj). isTrue ConditionTypeResourceSynced c)
     \<and> \<not> (\<exists>c \<in> set (roConditions obj). isTrue ConditionTypeTerminal c) \<and> roIdentifier obj \<noteq> None"

definition resolvedTo :: "('x) ref_env_scheme \<Rightarrow> string \<Rightarrow> ref_wrapper option \<Rightarrow> string option \<Rightarrow> bool" where
  "resolvedTo env kind r i \<longleftrightarrow> (\<exists>arr name namespace c obj. r = Some (Some arr) \<and> refName arr = Some name
     \<and> snd (resolveNamespace env c (refNamespace arr) name) = Inr namespace
     \<and> getObject env kind namespace name = Inr obj \<and> readyObject obj \<and> i = roIdentifier obj)"

lemma resolveRef_Inr:
  assumes "resolveRef env lookup refField r c = Some (c', Inr i)"
  shows "\<exists>arr name namespace. r = Some (Some arr) \<and> refName arr = Some name
    \<and> resolveNamespace env c (refNamespace arr) name = (c', Inr namespace) \<and> lookup name namespace = Inr i"
proof (cases r)
  case (Some q)
  then obtain arr where q: "q = Some arr" using assms by (cases q) (simp_all add: resolveRef_def)
  then obtain name where name: "refName arr = Some name" "name \<noteq> []"
    using assms Some by (cases "refName arr") (auto simp: resolveRef_def split: if_splits)
  obtain d n where d: "resolveNamespace env c (refNamespace arr) name = (d, n)" by fastforce
  with assms Some q name have "d = c' \<and> (\<exists>namespace. n = Inr namespace \<and> lookup name namespace = Inr i)"
    by (cases n) (simp_all add: resolveRef_def)
  with Some q name d show ?thesis by auto
qed (use assms in \<open>simp add: resolveRef_def\<close>)

lemma getReferencedResourceState_ready:
  assumes "getReferencedResourceState env kind field name namespace = Inr i"
  shows "\<exists>obj. getObject env kind namespace name = Inr obj \<and> readyObject obj \<and> i = roIdentifier obj"
proof (cases "getObject env kind namespace name")
  case (Inr obj)
  with assms have "readyObject obj \<and> i = roIdentifier obj"
    by (simp add: getReferencedResourceState_def readyObject_def split: if_splits)
  with Inr show ?thesis by blast
qed (use assms in \<open>simp add: getReferencedResourceState_def\<close>)

lemma resolveRef_ready:
  assumes "resolveRef env (getReferencedResourceState env kind field) refField r c = Some (c', Inr i)"
  shows "resolvedTo env kind r i"
proof -
  obtain arr name namespace where a: "r = Some (Some arr)" "refName arr = Some name"
    "resolveNamespace env c (refNamespace arr) name = (c', Inr namespace)"
    and l: "getReferencedResourceState env kind field name namespace = Inr i"
    using resolveRef_Inr [OF assms] by blast
  obtain obj where "getObject env kind namespace name = Inr obj" "readyObject obj" "i = roIdentifier obj"
    using getReferencedResourceState_ready [OF l] by blast
  moreover from a(3) have "snd (resolveNamespace env c (refNamespace arr) name) = Inr namespace" by simp
  ultimately show ?thesis unfolding resolvedTo_def using a(1,2) by blast
qed

definition given :: "ref_wrapper option \<Rightarrow> bool" where
  "given r \<longleftrightarrow> r \<noteq> None \<and> r \<noteq> Some None"

lemma resolveRef_None: "resolveRef env lookup refField r c = None \<longleftrightarrow> \<not> given r"
  by (auto simp: resolveRef_def given_def split: option.splits)

lemma resolveAll_ready:
  assumes "resolveAll env (getReferencedResourceState env kind field) refField refs ids c = (ids', c', h, None)"
  shows "\<exists>added. ids' = ids @ added \<and> list_all2 (resolvedTo env kind) (filter given refs) added \<and> (h \<longleftrightarrow> (\<exists>r \<in> set refs. given r))"
  using assms
proof (induction refs arbitrary: ids c ids' c' h)
  case (Cons r refs)
  let ?l = "getReferencedResourceState env kind field"
  show ?case
  proof (cases "resolveRef env ?l refField r c")
    case None
    with Cons.prems Cons.IH [of ids c ids' c' h] show ?thesis by (auto simp: resolveRef_None)
  next
    case (Some p)
    then obtain d x where p: "resolveRef env ?l refField r c = Some (d, x)" by (cases p) auto
    with Cons.prems obtain i where i: "x = Inr i" by (cases x) auto
    obtain js d' h' e where w: "resolveAll env ?l refField refs (ids @ [i]) d = (js, d', h', e)" by (metis prod.exhaust)
    with Cons.prems p i have j: "js = ids'" "e = None" "h" by auto
    from Cons.IH [OF w [unfolded j(2)]] j obtain added where
      added: "ids' = (ids @ [i]) @ added" "list_all2 (resolvedTo env kind) (filter given refs) added" by blast
    have "given r" using p resolveRef_None [of env ?l refField r c] by simp
    moreover have "resolvedTo env kind r i" by (rule resolveRef_ready [OF p [unfolded i]])
    ultimately show ?thesis using added j(3) by (intro exI [of _ "i # added"]) simp
  qed
qed simp

text \<open>
  C30. Resolved references are ready. When resolving the references of a subnet ends without an
  error, no call was made, the references were valid, and every identifier filled in, of the VPC
  and of each route table in the order of the references, is that of an object of the cluster that
  is synced, not in a terminal state, and has an identifier.
\<close>

theorem subnet_references_ready:
  assumes "ResolveReferences_Subnet env k s = (Ret (k', h, None), t)"
  shows "t = s \<and> validateReferenceFields (references_Subnet env) k s = (Ret None, s)
    \<and> (\<exists>added. snRouteTables (snSpec k') = snRouteTables (snSpec k) @ added
         \<and> list_all2 (resolvedTo env ''RouteTable'') (filter given (snRouteTableRefs (snSpec k))) added)
    \<and> (given (snVPCRef (snSpec k)) \<longrightarrow> resolvedTo env ''VPC'' (snVPCRef (snSpec k)) (snVPCID (snSpec k')))
    \<and> (\<not> given (snVPCRef (snSpec k)) \<longrightarrow> snVPCID (snSpec k') = snVPCID (snSpec k))
    \<and> (h \<longleftrightarrow> given (snVPCRef (snSpec k)) \<or> (\<exists>r \<in> set (snRouteTableRefs (snSpec k)). given r))"
proof -
  let ?l = "getReferencedResourceState env ''RouteTable'' ''Status.RouteTableID''"
  let ?v = "getReferencedResourceState env ''VPC'' ''Status.VPCID''"
  let ?refs = "snRouteTableRefs (snSpec k)" and ?ref = "snVPCRef (snSpec k)"
  have q: "quiet (validateReferenceFields (references_Subnet env) k)"
    by (auto simp: quiet_def subnet_fields validateReferenceFields_def listField_def singleField_def validateList_def
        validateRequiredAt_def bind_def ifErr_def)
  obtain w u where v: "validateReferenceFields (references_Subnet env) k s = (w, u)" by fastforce
  with q have u: "u = s" unfolding quiet_def by (metis snd_conv)
  with assms v obtain invalid where w: "w = Ret invalid"
    by (cases w) (auto simp: ResolveReferences_Subnet_def ResolveReferences_def bind_def)
  obtain ids c h1 e1 where a: "resolveAll env ?l ''RouteTableRefs'' ?refs (snRouteTables (snSpec k)) (Conditions (snStatus k)) = (ids, c, h1, e1)"
    by (metis prod.exhaust)
  let ?k1 = "k\<lparr>snSpec := (snSpec k)\<lparr>snRouteTables := ids\<rparr>\<rparr>"
  have r: "ResolveReferences_Subnet env k s =
     (case e1 of Some e \<Rightarrow> (Ret (putConditions_Subnet c ?k1, h1, Some e), s)
      | None \<Rightarrow> (case resolveRef env ?v ''VPCRef'' ?ref c of
          None \<Rightarrow> (Ret (putConditions_Subnet c ?k1, h1, invalid), s)
        | Some (d, Inl e) \<Rightarrow> (Ret (putConditions_Subnet d ?k1, True, Some e), s)
        | Some (d, Inr i) \<Rightarrow> (Ret (putConditions_Subnet d (?k1\<lparr>snSpec := (snSpec ?k1)\<lparr>snVPCID := i\<rparr>\<rparr>), True, invalid), s)))"
    using v u w a
    by (auto simp: ResolveReferences_Subnet_def ResolveReferences_def references_Subnet_def routeTablesField_Subnet_def
        vpcField_Subnet_def listField_def singleField_def lookupRouteTable_def lookupVPC_def resolveAt_def vpcPlace_Subnet_def
        split: option.splits sum.splits)
  with assms have e1: "e1 = None" by (cases e1) auto
  from resolveAll_ready [OF a [unfolded e1]] obtain added where
    added: "ids = snRouteTables (snSpec k) @ added" "list_all2 (resolvedTo env ''RouteTable'') (filter given ?refs) added"
      "h1 \<longleftrightarrow> (\<exists>r \<in> set ?refs. given r)" by blast
  show ?thesis
  proof (cases "resolveRef env ?v ''VPCRef'' ?ref c")
    case None
    with resolveRef_None [of env ?v "''VPCRef''" ?ref c] have g: "\<not> given ?ref" by simp
    from None assms r e1 have "k' = putConditions_Subnet c ?k1" "invalid = None" "h = h1" "t = s" by simp_all
    with added g v u w show ?thesis by (auto simp: putConditions_Subnet_def)
  next
    case (Some p)
    then obtain d x where p: "resolveRef env ?v ''VPCRef'' ?ref c = Some (d, x)" by (cases p) auto
    with assms r e1 obtain i where i: "x = Inr i" by (cases x) auto
    have "given ?ref" using p resolveRef_None [of env ?v "''VPCRef''" ?ref c] by simp
    moreover have "resolvedTo env ''VPC'' ?ref i" by (rule resolveRef_ready [OF p [unfolded i]])
    moreover from p i assms r e1 have "k' = putConditions_Subnet d (?k1\<lparr>snSpec := (snSpec ?k1)\<lparr>snVPCID := i\<rparr>\<rparr>)" "invalid = None" "h" "t = s"
      by simp_all
    ultimately show ?thesis using added v u w by (auto simp: putConditions_Subnet_def)
  qed
qed

subsection \<open>Witnesses\<close>

definition syncedCondition :: condition where
  "syncedCondition = \<lparr>condType = ConditionTypeResourceSynced, condStatus = ConditionTrue, condReason = None, condMessage = None\<rparr>"

definition exampleCluster :: ref_env where
  "exampleCluster = \<lparr>getObject = (\<lambda>kind namespace name. Inr \<lparr>roConditions = [syncedCondition], roIdentifier = Some (''id-'' @ name)\<rparr>),
     resolveNamespace = (\<lambda>c namespace name. (c, Inr (case namespace of None \<Rightarrow> ''default'' | Some n \<Rightarrow> n)))\<rparr>"

definition exampleRef :: "string \<Rightarrow> ref_wrapper option" where
  "exampleRef name = Some (Some \<lparr>refName = Some name, refNamespace = None\<rparr>)"

definition examplePair :: "string option \<Rightarrow> user_id_group_pair" where
  "examplePair i = \<lparr>pairDescription = None, GroupID = i, GroupName = None, GroupRef = exampleRef ''web'', PeeringStatus = None,
     UserID = None, pairVPCID = None, VPCPeeringConnectionID = None, pairVPCRef = None\<rparr>"

definition exampleGroupWithRef :: "string option \<Rightarrow> string option \<Rightarrow> security_group" where
  "exampleGroupWithRef i v = \<lparr>Spec = \<lparr>Description = None, EgressRules = None,
       IngressRules = Some [Some \<lparr>FromPort = None, IPProtocol = Some ''-1'', IPRanges = None, IPv6Ranges = None,
         PrefixListIDs = None, ToPort = None, UserIDGroupPairs = Some [Some (examplePair i)]\<rparr>],
       Name = None, sgTags = None, VPCID = v, VPCRef = exampleRef ''main''\<rparr>,
     Status = \<lparr>ACKResourceMetadata = None, Conditions = [], ID = None, Rules = None\<rparr>\<rparr>"

lemmas example_refs = exampleGroupWithRef_def examplePair_def exampleRef_def exampleCluster_def syncedCondition_def

lemma exampleGroup_resolves:
  "ResolveReferences_SecurityGroup exampleCluster (exampleGroupWithRef None None) [] =
     (Ret (exampleGroupWithRef (Some ''id-web'') (Some ''id-main''), True, None), [])"
  "validateReferenceFields (references_SecurityGroup exampleCluster) (exampleGroupWithRef None None) [] = (Ret None, [])"
  by code_simp+

lemma references_cleared_SecurityGroup_witness:
  "ResolveReferences_SecurityGroup exampleCluster (exampleGroupWithRef None None) [] =
     (Ret (exampleGroupWithRef (Some ''id-web'') (Some ''id-main''), True, None), [])
   \<and> (\<exists>c. ClearResolvedReferences_SecurityGroup exampleCluster (exampleGroupWithRef (Some ''id-web'') (Some ''id-main''))
        = ret (putConditions_SecurityGroup c (exampleGroupWithRef None None)))"
  using exampleGroup_resolves(1)
    references_cleared_SecurityGroup [OF exampleGroup_resolves(2) exampleGroup_resolves(1)] by blast

definition exampleRefSubnet :: "string list \<Rightarrow> string option \<Rightarrow> subnet" where
  "exampleRefSubnet tables v = (let k = exampleSubnet None tables in
     k\<lparr>snSpec := (snSpec k)\<lparr>snRouteTableRefs := [exampleRef ''private''], snVPCRef := exampleRef ''main'', snVPCID := v\<rparr>\<rparr>)"

lemma exampleSubnet_resolves:
  "ResolveReferences_Subnet exampleCluster (exampleRefSubnet [] None) [] =
     (Ret (exampleRefSubnet [''id-private''] (Some ''id-main''), True, None), [])"
  by code_simp

lemma subnet_references_ready_witness:
  "ResolveReferences_Subnet exampleCluster (exampleRefSubnet [] None) [] =
     (Ret (exampleRefSubnet [''id-private''] (Some ''id-main''), True, None), [])
   \<and> validateReferenceFields (references_Subnet exampleCluster) (exampleRefSubnet [] None) [] = (Ret None, [])
   \<and> resolvedTo exampleCluster ''VPC'' (exampleRef ''main'') (Some ''id-main'')"
proof -
  have "given (snVPCRef (snSpec (exampleRefSubnet [] None)))" "snVPCRef (snSpec (exampleRefSubnet [] None)) = exampleRef ''main''"
    "snVPCID (snSpec (exampleRefSubnet [''id-private''] (Some ''id-main''))) = Some ''id-main''"
    by (simp_all add: exampleRefSubnet_def exampleSubnet_def exampleRef_def given_def Let_def)
  with subnet_references_ready [OF exampleSubnet_resolves] exampleSubnet_resolves show ?thesis by simp
qed

end
