(* ===== verification/Runtime.thy ===== *)
theory Runtime
  imports Kinds
begin

text \<open>
  What the smaller kinds have in common. \<open>ack_runtime\<close> collects the functions they take from the
  ACK runtime, from \<open>samber/lo\<close> and from the AWS SDK, with their documented behaviour as
  \<open>runtime_law\<close>. \<open>readMany\<close>, \<open>createOne\<close>, \<open>deleteOne\<close> and \<open>syncTagsIf\<close> are the steps that the
  generated \<open>sdkFind\<close>, \<open>sdkCreate\<close> and \<open>sdkDelete\<close> and the hand-written updates of these kinds
  repeat; each kind instantiates them with its call, its payload and its setter.
\<close>

subsection \<open>The libraries\<close>

record ack_runtime =
  DifferentAt :: "delta \<Rightarrow> string \<Rightarrow> bool"
  DifferentExceptAt :: "delta \<Rightarrow> string list \<Rightarrow> bool"
  InStringPs :: "string \<Rightarrow> string option list \<Rightarrow> bool"
  SetSynced :: "string \<Rightarrow> string option \<Rightarrow> string option \<Rightarrow> condition list \<Rightarrow> condition list"
  Difference :: "string list \<Rightarrow> string list \<Rightarrow> string list \<times> string list"
  ToStringSlice :: "string option list \<Rightarrow> string list"
  StringSlice :: "string list \<Rightarrow> string option list"
  rangeOf :: "acktags \<Rightarrow> acktags"
  InStrings :: "string \<Rightarrow> string list \<Rightarrow> bool"

text \<open>A path lies at another when it is that one or one of its fields.\<close>

definition liesAt :: "string \<Rightarrow> string \<Rightarrow> bool" where
  "liesAt p q \<longleftrightarrow> q = p \<or> prefix (p @ ''.'') q"

lemma liesAt_related: "liesAt p q \<Longrightarrow> liesAt p' q \<Longrightarrow> prefix p p' \<or> prefix p' p"
  unfolding liesAt_def by (metis append_prefixD prefix_order.refl prefix_same_cases)

definition runtime_law :: "('x) ack_runtime_scheme \<Rightarrow> bool" where
  "runtime_law R \<longleftrightarrow>
     (\<forall>d p. DifferentAt R d p \<longleftrightarrow> (\<exists>q \<in> set d. liesAt p q))
   \<and> (\<forall>d ps. DifferentExceptAt R d ps \<longleftrightarrow> (\<exists>q \<in> set d. \<forall>p \<in> set ps. \<not> liesAt p q))
   \<and> (\<forall>s ps. InStringPs R s ps \<longleftrightarrow> Some s \<in> set ps)
   \<and> (\<forall>xs ys. Difference R xs ys = (filter (\<lambda>x. x \<notin> set ys) xs, filter (\<lambda>y. y \<notin> set xs) ys))
   \<and> (\<forall>ps. ToStringSlice R ps = map safeString ps) \<and> (\<forall>xs. StringSlice R xs = map Some xs)
   \<and> range_order (rangeOf R) \<and> (\<forall>s xs. InStrings R s xs \<longleftrightarrow> s \<in> set xs)"

definition exactRuntime :: ack_runtime where
  "exactRuntime = \<lparr>DifferentAt = (\<lambda>d p. \<exists>q \<in> set d. liesAt p q),
     DifferentExceptAt = (\<lambda>d ps. \<exists>q \<in> set d. \<forall>p \<in> set ps. \<not> liesAt p q),
     InStringPs = (\<lambda>s ps. Some s \<in> set ps), SetSynced = (\<lambda>_ _ _ cs. cs),
     Difference = (\<lambda>xs ys. (filter (\<lambda>x. x \<notin> set ys) xs, filter (\<lambda>y. y \<notin> set xs) ys)),
     ToStringSlice = map safeString, StringSlice = map Some, rangeOf = (\<lambda>m. m),
     InStrings = (\<lambda>s xs. s \<in> set xs)\<rparr>"

lemma exactRuntime_law: "runtime_law exactRuntime"
  by (simp add: runtime_law_def exactRuntime_def range_order_def)

lemma runtime_simps:
  assumes "runtime_law R"
  shows "DifferentAt R d p \<longleftrightarrow> (\<exists>q \<in> set d. liesAt p q)"
    and "DifferentExceptAt R d ps \<longleftrightarrow> (\<exists>q \<in> set d. \<forall>p \<in> set ps. \<not> liesAt p q)"
    and "InStringPs R s ps' \<longleftrightarrow> Some s \<in> set ps'"
    and "Difference R xs ys = (filter (\<lambda>x. x \<notin> set ys) xs, filter (\<lambda>y. y \<notin> set xs) ys)"
    and "ToStringSlice R ps' = map safeString ps'" and "StringSlice R xs = map Some xs"
    and "range_order (rangeOf R)" and "InStrings R s xs \<longleftrightarrow> s \<in> set xs"
  using assms unfolding runtime_law_def by blast+

lemma map_safeString_Some [simp]: "map (safeString \<circ> Some) xs = xs"
  by (induction xs) simp_all

text \<open>\<open>aws.StringSlice\<close> and \<open>aws.ToStringSlice\<close> of a slice that may be nil; nil and empty are one list.\<close>

definition fromStrings :: "('y) ack_runtime_scheme \<Rightarrow> string list \<Rightarrow> string option list" where
  "fromStrings R xs = (if xs \<noteq> [] then StringSlice R xs else [])"

definition toStrings :: "('y) ack_runtime_scheme \<Rightarrow> string option list \<Rightarrow> string list" where
  "toStrings R ps = (if ps \<noteq> [] then ToStringSlice R ps else [])"

subsection \<open>Reading\<close>

text \<open>
  The read of a kind: no call without an identifier; otherwise one \<open>Describe\<close> call, of whose
  elements only the first is looked at.
\<close>

definition readMany ::
  "bool \<Rightarrow> ('i \<Rightarrow> call) \<Rightarrow> (call log \<Rightarrow> 'i \<Rightarrow> error + 'e list option) \<Rightarrow> string \<Rightarrow> 'i
   \<Rightarrow> ('e \<Rightarrow> ('r option \<times> error option) act) \<Rightarrow> ('r option \<times> error option) act" where
  "readMany missing c answer op input found =
     (if missing then ret (None, Some NotFound)
      else
        bind (invoke c answer input) (\<lambda>resp.
        bind (recordAPICall ''READ_MANY'' op (errOf resp)) (\<lambda>_.
        case resp of
          Inl e \<Rightarrow> ret (None, Some (if errorCode e = Some ''UNKNOWN'' then NotFound else e))
        | Inr out \<Rightarrow>
            bind (deref out) (\<lambda>xs.
            case xs of [] \<Rightarrow> ret (None, Some NotFound) | elem # _ \<Rightarrow> found elem))))"

lemma readMany_simps:
  "readMany True c answer op i found s = (Ret (None, Some NotFound), s)"
  "answer s i = Inl e \<Longrightarrow> readMany False c answer op i found s
     = (Ret (None, Some (if errorCode e = Some ''UNKNOWN'' then NotFound else e)), s @ [Call (c i), Metric ''READ_MANY'' op (Some e)])"
  "answer s i = Inr (Some []) \<Longrightarrow> readMany False c answer op i found s
     = (Ret (None, Some NotFound), s @ [Call (c i), Metric ''READ_MANY'' op None])"
  "answer s i = Inr (Some (x # xs)) \<Longrightarrow> readMany False c answer op i found s
     = found x (s @ [Call (c i), Metric ''READ_MANY'' op None])"
  by (simp_all add: readMany_def)

text \<open>A read that skips the elements of another resource, and looks at the first that is left.\<close>

definition readPicked ::
  "bool \<Rightarrow> ('i \<Rightarrow> call) \<Rightarrow> (call log \<Rightarrow> 'i \<Rightarrow> error + 'e list option) \<Rightarrow> string \<Rightarrow> 'i \<Rightarrow> ('e \<Rightarrow> bool)
   \<Rightarrow> ('e \<Rightarrow> ('r option \<times> error option) act) \<Rightarrow> ('r option \<times> error option) act" where
  "readPicked missing c answer op input pick found =
     readMany missing c (\<lambda>s i. map_sum (\<lambda>e. e) (map_option (filter pick)) (answer s i)) op input found"

text \<open>A read whose \<open>found\<close> only computes makes at most that one call.\<close>

lemma readMany_calls:
  assumes "\<And>e. found e = ret (g e)"
  shows "calls (snd (readMany missing c answer op i found s)) = calls s @ (if missing then [] else [c i])"
  by (auto simp: readMany_def assms bind_def deref_def split: sum.split option.split list.split)

text \<open>The ARN of an answer: a read sets it when there is one, a creation always makes room for it.\<close>

definition metadataOf :: "'a common_status_scheme \<Rightarrow> resource_metadata" where
  "metadataOf st =
     (case ACKResourceMetadata st of None \<Rightarrow> \<lparr>ARN = None, OwnerAccountID = None, Region = None, Partition = None\<rparr> | Some m \<Rightarrow> m)"

definition readARN :: "string option \<Rightarrow> 'a common_status_scheme \<Rightarrow> 'a common_status_scheme" where
  "readARN arn st = (if arn \<noteq> None then st\<lparr>ACKResourceMetadata := Some ((metadataOf st)\<lparr>ARN := arn\<rparr>)\<rparr> else st)"

definition createdARN :: "string option \<Rightarrow> 'a common_status_scheme \<Rightarrow> 'a common_status_scheme" where
  "createdARN arn st =
     st\<lparr>ACKResourceMetadata := Some (if arn \<noteq> None then (metadataOf st)\<lparr>ARN := arn\<rparr> else metadataOf st)\<rparr>"

subsection \<open>Comparing a value with itself\<close>

lemma comparePtr_same:
  assumes "ackcompare_law C"
  shows "comparePtr (HasNilDifference C) f p x x d = d"
proof -
  have "hnd_law (HasNilDifference C)" using assms by (simp add: ackcompare_law_def)
  then show ?thesis by (cases x) (auto simp: comparePtr_def hnd_law_def)
qed

lemma compareStruct_same:
  assumes "ackcompare_law C" "\<And>u d. inner u u d = d"
  shows "compareStruct C p inner x x d = d"
proof -
  have "hnd_law (HasNilDifference C)" using assms(1) by (simp add: ackcompare_law_def)
  then show ?thesis using assms(2) by (cases x) (auto simp: compareStruct_def hnd_law_def)
qed

lemma compareRest_same:
  assumes "ackcompare_law C"
  shows "cmpStrs C p xs xs d = d" "compareRef C p r r d = d" "compareRefs C p rs rs d = d" "compareTags C p ts ts [] = []"
  using assms by (simp_all add: cmpStrs_def compareList_def compareRef_def compareRefs_def compareTags_law ackcompare_law_def)

lemmas compare_same = comparePtr_same compareStruct_same compareRest_same

subsection \<open>Creating and deleting\<close>

text \<open>A creation, whose answer is the new resource itself or a struct that holds a pointer to it.\<close>

definition createFlat ::
  "('i \<Rightarrow> call) \<Rightarrow> (call log \<Rightarrow> 'i \<Rightarrow> error + 'e option) \<Rightarrow> string \<Rightarrow> 'i
   \<Rightarrow> ('e \<Rightarrow> ('r option \<times> error option) act) \<Rightarrow> ('r option \<times> error option) act" where
  "createFlat c answer op input created =
     bind (invoke c answer input) (\<lambda>r.
     bind (recordAPICall ''CREATE'' op (errOf r)) (\<lambda>_.
     case r of
       Inl e \<Rightarrow> ret (None, Some e)
     | Inr out \<Rightarrow> bind (deref out) created))"

definition createOne ::
  "('i \<Rightarrow> call) \<Rightarrow> (call log \<Rightarrow> 'i \<Rightarrow> error + 'e option option) \<Rightarrow> string \<Rightarrow> 'i
   \<Rightarrow> ('e \<Rightarrow> ('r option \<times> error option) act) \<Rightarrow> ('r option \<times> error option) act" where
  "createOne c answer op input created = createFlat c answer op input (\<lambda>resp. bind (deref resp) created)"

definition deleteOne ::
  "('i \<Rightarrow> call) \<Rightarrow> (call log \<Rightarrow> 'i \<Rightarrow> error option) \<Rightarrow> string \<Rightarrow> 'i \<Rightarrow> ('r option \<times> error option) act" where
  "deleteOne c answer op input = bind (callRecord c answer ''DELETE'' op input) (\<lambda>err. ret (None, err))"

lemma deleteOne_run [simp]:
  "deleteOne c answer op i s = (Ret (None, answer s i), s @ [Call (c i), Metric ''DELETE'' op (answer s i)])"
  by (simp add: deleteOne_def)

lemma createFlat_simps:
  "answer s i = Inl e \<Longrightarrow> createFlat c answer op i created s
     = (Ret (None, Some e), s @ [Call (c i), Metric ''CREATE'' op (Some e)])"
  "answer s i = Inr (Some x) \<Longrightarrow> createFlat c answer op i created s
     = created x (s @ [Call (c i), Metric ''CREATE'' op None])"
  by (simp_all add: createFlat_def)

lemma createOne_simps:
  "answer s i = Inl e \<Longrightarrow> createOne c answer op i created s
     = (Ret (None, Some e), s @ [Call (c i), Metric ''CREATE'' op (Some e)])"
  "answer s i = Inr (Some (Some x)) \<Longrightarrow> createOne c answer op i created s
     = created x (s @ [Call (c i), Metric ''CREATE'' op None])"
  by (simp_all add: createOne_def createFlat_simps)

subsection \<open>Tags\<close>

text \<open>\<open>if delta.DifferentAt("Spec.Tags") { if err := tags.Sync(..., *id, desired, latest); err != nil { return nil, err } }\<close>\<close>

definition syncTagsIf ::
  "'x tags_api_scheme \<Rightarrow> bool \<Rightarrow> string option \<Rightarrow> tag list option \<Rightarrow> tag list option
   \<Rightarrow> ('r option \<times> error option) act \<Rightarrow> ('r option \<times> error option) act" where
  "syncTagsIf api different i desired latest rest =
     (if different
      then bind (bind (deref i) (\<lambda>i. Sync api i (elems desired) (elems latest))) (\<lambda>err.
           ifErr err (\<lambda>e. ret (None, Some e)) rest)
      else rest)"

lemma syncTagsIf_idle [simp]: "syncTagsIf api False i desired latest rest = rest"
  by (simp add: syncTagsIf_def)

text \<open>
  The calls of \<open>Sync\<close>: the surplus tags are deleted, then the missing ones are created, and an
  error stops before the rest.
\<close>

definition tagsPlan :: "string \<Rightarrow> tag list \<Rightarrow> tag list \<Rightarrow> call list" where
  "tagsPlan i desired latest =
     (let (add, del) = ComputeTagsDelta desired latest in
      (if del = [] then [] else [DeleteTags (tagsInput i del)]) @ (if add = [] then [] else [CreateTags (tagsInput i add)]))"

lemma Sync_follows: "follows (Sync api i desired latest) (tagsPlan i desired latest)"
proof -
  obtain add del where d: "ComputeTagsDelta desired latest = (add, del)" by fastforce
  have a: "follows (if length add > 0 then callRecord CreateTags (onCreateTags api) ''UPDATE'' ''CreateTags'' (tagsInput i add)
      else ret None) (if add = [] then [] else [CreateTags (tagsInput i add)])"
    by (simp add: follows_callRecord follows_None)
  have b: "follows (if length del > 0 then callRecord DeleteTags (onDeleteTags api) ''UPDATE'' ''DeleteTags'' (tagsInput i del)
      else ret None) (if del = [] then [] else [DeleteTags (tagsInput i del)])"
    by (simp add: follows_callRecord follows_None)
  show ?thesis
    unfolding Sync_def tagsPlan_def d Let_def prod.case by (rule follows_seq [OF b follows_done [OF a]])
qed

lemma tagsPlan_calls: "x \<in> set (tagsPlan i desired latest) \<Longrightarrow> \<exists>j. x = DeleteTags j \<or> x = CreateTags j"
  by (cases "ComputeTagsDelta desired latest") (auto simp: tagsPlan_def split: if_splits)

text \<open>
  \<open>IsSynced\<close> of a kind whose resources have a state: not without one, and only in one of the
  \<open>candidates\<close>.
\<close>

definition syncedIn :: "('y) ack_runtime_scheme \<Rightarrow> string list \<Rightarrow> string option \<Rightarrow> bool" where
  "syncedIn R candidates state = (case state of None \<Rightarrow> False | Some s \<Rightarrow> InStrings R s candidates)"

subsection \<open>Updates that only synchronise tags\<close>

text \<open>
  The update of several kinds looks at the tags and at nothing else of the delta. \<open>result\<close> is the
  resource it hands back when the tags are done.
\<close>

locale tags_only =
  fixes api :: "'x tags_api_scheme" and R :: "('y) ack_runtime_scheme"
    and update :: "'r \<Rightarrow> 'r \<Rightarrow> delta \<Rightarrow> ('r option \<times> error option) act"
    and idOf :: "'r \<Rightarrow> string option" and tagsIn :: "'r \<Rightarrow> tag list option" and result :: "'r \<Rightarrow> 'r \<Rightarrow> 'r"
  assumes updates: "update desired latest d = syncTagsIf api (DifferentAt R d ''Spec.Tags'') (idOf latest) (tagsIn desired) (tagsIn latest)
    (ret (Some (result desired latest), None))"
begin

lemma idle: "\<not> DifferentAt R d ''Spec.Tags'' \<Longrightarrow> update desired latest d s = (Ret (Some (result desired latest), None), s)"
  by (simp add: updates)

text \<open>Between paths that are not at the tags, no difference is ever acted on.\<close>

lemma ignores_others:
  assumes "runtime_law R" "\<forall>q \<in> set d. \<not> liesAt ''Spec.Tags'' q"
  shows "update desired latest d s = (Ret (Some (result desired latest), None), s)"
proof (rule idle)
  show "\<not> DifferentAt R d ''Spec.Tags''" unfolding runtime_simps(1) [OF assms(1)] using assms(2) by blast
qed

lemma run:
  assumes "DifferentAt R d ''Spec.Tags''" "idOf latest = Some i"
  shows "\<exists>ys e t. update desired latest d s = (Ret (if e = None then Some (result desired latest) else None, e), t)
    \<and> calls t = calls s @ ys \<and> prefix ys (tagsPlan i (elems (tagsIn desired)) (elems (tagsIn latest)))
    \<and> (e = None \<longrightarrow> ys = tagsPlan i (elems (tagsIn desired)) (elems (tagsIn latest)))"
proof -
  let ?a = "elems (tagsIn desired)" and ?b = "elems (tagsIn latest)"
  obtain ys e t where "Sync api i ?a ?b s = (Ret e, t)" "calls t = calls s @ ys" "prefix ys (tagsPlan i ?a ?b)"
    "e = None \<longrightarrow> ys = tagsPlan i ?a ?b"
    by (rule followsE [OF Sync_follows, where s = s]) blast
  with assms show ?thesis by (intro exI [of _ ys] exI [of _ e] exI [of _ t]) (cases e; simp add: updates syncTagsIf_def)
qed

text \<open>A latest resource without its identifier makes the update panic, once there are tags to change.\<close>

lemma needs_id:
  assumes "DifferentAt R d ''Spec.Tags''" "idOf latest = None"
  shows "update desired latest d s = (Panic, s)"
  using assms by (simp add: updates syncTagsIf_def)

end

subsection \<open>Differences of lists of strings\<close>

text \<open>What one list has and the other lacks, both ways: an instance of the contract of \<open>Diffs\<close>.\<close>

definition missing :: "string list \<Rightarrow> string list \<Rightarrow> string list \<times> string list" where
  "missing desired latest = (filter (\<lambda>x. x \<notin> set latest) desired, filter (\<lambda>x. x \<notin> set desired) latest)"

interpretation missing_diff: two_way_diff id missing
  by unfold_locales (auto simp: missing_def)

lemma Difference_missing: "runtime_law R \<Longrightarrow> Difference R = missing"
  by (simp add: fun_eq_iff runtime_simps(4) missing_def)

subsection \<open>Loops that drop errors\<close>

text \<open>A loop whose body always returns makes all the calls of its rounds, whatever they answer.\<close>

lemma mapAct_calls:
  assumes "\<And>x s. \<exists>r t. f x s = (Ret r, t) \<and> calls t = calls s @ g x"
  shows "\<exists>rs t. mapAct f xs s = (Ret rs, t) \<and> calls t = calls s @ concat (map g xs)"
proof (induction xs arbitrary: s)
  case (Cons x xs)
  from assms obtain r t where x: "f x s = (Ret r, t)" "calls t = calls s @ g x" by blast
  from Cons.IH [of t] obtain rs u where "mapAct f xs t = (Ret rs, u)" "calls u = calls t @ concat (map g xs)" by blast
  with x show ?case by simp
qed simp

lemma mapAct_deref_Some: "mapAct deref (map Some xs) = ret xs"
  by (induction xs) (simp_all add: fun_eq_iff)

lemma no_nils: "None \<notin> set ps \<Longrightarrow> ps = map Some (map the ps)"
  by (induction ps) auto

end
