(* ===== verification/DhcpOptions.thy ===== *)
theory DhcpOptions
  imports Runtime
begin

text \<open>
  The DHCP options controller (\<open>pkg/resource/dhcp_options/hooks.go\<close>, \<open>sdk.go\<close>, \<open>delta.go\<close>): a set of
  DHCP options is associated with any number of VPCs. Names that another kind uses too carry the
  suffix \<open>_Dhcp\<close>.
\<close>

subsection \<open>Data\<close>

record dhcp_configuration =
  dcKey :: "string option"
  dcValues :: "string option list"

record dhcp_options_spec =
  dhDHCPConfigurations :: "dhcp_configuration slice"
  dhTags :: "tag list option"
  dhVPC :: "string option list"
  dhVPCRefs :: "ref_wrapper option list"

record dhcp_options_status = common_status +
  DHCPOptionsID :: "string option"
  dhOwnerID :: "string option"

record dhcp_options =
  dhSpec :: dhcp_options_spec
  dhStatus :: dhcp_options_status

record dhcp_api = tags_api +
  onDescribeDhcpOptions :: "call log \<Rightarrow> string list \<Rightarrow> error + sdk_dhcp_options list option"
  onCreateDhcpOptions :: "call log \<Rightarrow> create_dhcp_input \<Rightarrow> error + sdk_dhcp_options option option"
  onDeleteDhcpOptions :: "call log \<Rightarrow> string option \<Rightarrow> error option"
  onAssociateDhcpOptions :: "call log \<Rightarrow> string option \<times> string option \<Rightarrow> error option"
  onDescribeVpcsWith :: "call log \<Rightarrow> filter_input list \<Rightarrow> error + sdk_vpc list option"

subsection \<open>The VPCs\<close>

definition attachToVPC_Dhcp :: "'x dhcp_api_scheme \<Rightarrow> dhcp_options \<Rightarrow> string \<Rightarrow> error option act" where
  "attachToVPC_Dhcp api desired vpc =
     (if vpc = [] then ret None
      else bind (callRecord (\<lambda>(d, v). DhcpCall (AssociateDhcpOptions d v)) (onAssociateDhcpOptions api)
                  ''UPDATE'' ''AssociateDhcpOptions'' (DHCPOptionsID (dhStatus desired), Some vpc)) (\<lambda>err.
           ifErr err (\<lambda>e. ret (Some e)) (ret None)))"

definition detachFromVPC_Dhcp :: "'x dhcp_api_scheme \<Rightarrow> string \<Rightarrow> error option act" where
  "detachFromVPC_Dhcp api vpc =
     bind (callRecord (\<lambda>(d, v). DhcpCall (AssociateDhcpOptions d v)) (onAssociateDhcpOptions api)
             ''UPDATE'' ''AssociateDhcpOptions'' (Some ''default'', Some vpc)) (\<lambda>err.
     ifErr err (\<lambda>e. ret (Some e)) (ret None))"

text \<open>The loops over the VPCs drop what the calls return.\<close>

definition syncVPCs ::
  "'x dhcp_api_scheme \<Rightarrow> ('y) ack_runtime_scheme \<Rightarrow> dhcp_options \<Rightarrow> dhcp_options option \<Rightarrow> error option act" where
  "syncVPCs api R desired latest =
     bind (case latest of None \<Rightarrow> ret [] | Some l \<Rightarrow> mapAct deref (dhVPC (dhSpec l))) (\<lambda>latestVPC.
     bind (mapAct deref (dhVPC (dhSpec desired))) (\<lambda>desiredVPC.
     let (toAdd, toDelete) = Difference R desiredVPC latestVPC in
     bind (mapAct (attachToVPC_Dhcp api desired) toAdd) (\<lambda>_.
     bind (mapAct (detachFromVPC_Dhcp api) toDelete) (\<lambda>_.
     ret None))))"

definition getAttachedVPC_Dhcp :: "'x dhcp_api_scheme \<Rightarrow> dhcp_options \<Rightarrow> (string option list \<times> error option) act" where
  "getAttachedVPC_Dhcp api latest =
     bind (deref (DHCPOptionsID (dhStatus latest))) (\<lambda>i.
     let input = [\<lparr>filterName = ''dhcp-options-id'', filterValues = [i]\<rparr>] in
     bind (invoke (\<lambda>fs. DhcpCall (DescribeVpcsWith fs)) (onDescribeVpcsWith api) input) (\<lambda>resp.
     bind (recordAPICall ''READ_MANY'' ''DescribeVpcs'' (errOf resp)) (\<lambda>_.
     case resp of
       Inl e \<Rightarrow> ret ([], Some e)
     | Inr out \<Rightarrow> bind (deref out) (\<lambda>vpcs. ret (map sdkVpcVpcId vpcs, None)))))"

subsection \<open>Reading\<close>

definition configurationFromSdk :: "sdk_dhcp_configuration \<Rightarrow> dhcp_configuration" where
  "configurationFromSdk x = \<lparr>dcKey = sdkDcKey x, dcValues = elems (sdkDcValues x)\<rparr>"

definition setFrom_Dhcp :: "dhcp_options \<Rightarrow> sdk_dhcp_options \<Rightarrow> dhcp_options" where
  "setFrom_Dhcp k elem =
     k\<lparr>dhSpec := (dhSpec k)\<lparr>dhDHCPConfigurations := map_option (map configurationFromSdk) (sdkDhDhcpConfigurations elem),
         dhTags := map_option resourceTags (sdkDhTags elem)\<rparr>,
       dhStatus := (dhStatus k)\<lparr>DHCPOptionsID := sdkDhDhcpOptionsId elem, dhOwnerID := sdkDhOwnerId elem\<rparr>\<rparr>"

definition defaults_Dhcp :: "resource_manager \<Rightarrow> dhcp_options \<Rightarrow> dhcp_options" where
  "defaults_Dhcp rm k = k\<lparr>dhStatus := setStatusDefaults rm (dhStatus k)\<rparr>"

definition requiredFieldsMissing_Dhcp :: "dhcp_options \<Rightarrow> bool" where
  "requiredFieldsMissing_Dhcp r \<longleftrightarrow> DHCPOptionsID (dhStatus r) = None"

definition newListRequestPayload_Dhcp :: "dhcp_options \<Rightarrow> string list" where
  "newListRequestPayload_Dhcp r = (case DHCPOptionsID (dhStatus r) of None \<Rightarrow> [] | Some i \<Rightarrow> [i])"

definition sdkFind_Dhcp ::
  "'x dhcp_api_scheme \<Rightarrow> resource_manager \<Rightarrow> dhcp_options \<Rightarrow> (dhcp_options option \<times> error option) act" where
  "sdkFind_Dhcp api rm r =
     readMany (requiredFieldsMissing_Dhcp r) (\<lambda>i. DhcpCall (DescribeDhcpOptions i)) (onDescribeDhcpOptions api)
       ''DescribeDhcpOptions'' (newListRequestPayload_Dhcp r) (\<lambda>elem.
         let ko = defaults_Dhcp rm (setFrom_Dhcp r elem) in
         bind (getAttachedVPC_Dhcp api ko) (\<lambda>(vpcs, err).
         ifErr err (\<lambda>e. ret (None, Some e))
        (ret (Some (ko\<lparr>dhSpec := (dhSpec ko)\<lparr>dhVPC := vpcs\<rparr>\<rparr>), None))))"

subsection \<open>Creating and deleting\<close>

definition newConfiguration :: "('y) ack_runtime_scheme \<Rightarrow> dhcp_configuration \<Rightarrow> new_dhcp_configuration" where
  "newConfiguration R c = \<lparr>ndcKey = dcKey c, ndcValues = (if dcValues c \<noteq> [] then ToStringSlice R (dcValues c) else [])\<rparr>"

definition newCreateRequestPayload_Dhcp :: "('y) ack_runtime_scheme \<Rightarrow> dhcp_options \<Rightarrow> create_dhcp_input" where
  "newCreateRequestPayload_Dhcp R r =
     \<lparr>cdhDhcpConfigurations = map_option (map (newConfiguration R)) (dhDHCPConfigurations (dhSpec r)), cdhTagSpecifications = None\<rparr>"

definition updateTagSpecifications_Dhcp :: "dhcp_options \<Rightarrow> create_dhcp_input \<Rightarrow> create_dhcp_input" where
  "updateTagSpecifications_Dhcp r input = input\<lparr>cdhTagSpecifications := tagSpecificationsFor ''dhcp-options'' (dhTags (dhSpec r))\<rparr>"

text \<open>A nil and an empty list of VPCs are the same list; for the empty one the synchronisation makes no call.\<close>

definition sdkCreate_Dhcp ::
  "'x dhcp_api_scheme \<Rightarrow> ('y) ack_runtime_scheme \<Rightarrow> resource_manager \<Rightarrow> dhcp_options \<Rightarrow> (dhcp_options option \<times> error option) act" where
  "sdkCreate_Dhcp api R rm desired =
     createOne (\<lambda>i. DhcpCall (CreateDhcpOptions i)) (onCreateDhcpOptions api) ''CreateDhcpOptions''
       (updateTagSpecifications_Dhcp desired (newCreateRequestPayload_Dhcp R desired)) (\<lambda>resp.
         let ko = defaults_Dhcp rm (setFrom_Dhcp desired resp) in
         bind (if dhVPC (dhSpec ko) \<noteq> [] then syncVPCs api R ko None else ret None) (\<lambda>err.
         ifErr err (\<lambda>e. ret (None, Some e)) (ret (Some ko, None))))"

definition newDeleteRequestPayload_Dhcp :: "dhcp_options \<Rightarrow> string option" where
  "newDeleteRequestPayload_Dhcp r = DHCPOptionsID (dhStatus r)"

definition sdkDelete_Dhcp ::
  "'x dhcp_api_scheme \<Rightarrow> ('y) ack_runtime_scheme \<Rightarrow> dhcp_options \<Rightarrow> (dhcp_options option \<times> error option) act" where
  "sdkDelete_Dhcp api R r =
     bind (if dhVPC (dhSpec r) \<noteq> [] \<and> DHCPOptionsID (dhStatus r) \<noteq> None
           then syncVPCs api R (r\<lparr>dhSpec := (dhSpec r)\<lparr>dhVPC := []\<rparr>\<rparr>) (Some r) else ret None) (\<lambda>err.
     ifErr err (\<lambda>e. ret (None, Some e))
    (deleteOne (\<lambda>i. DhcpCall (DeleteDhcpOptions i)) (onDeleteDhcpOptions api) ''DeleteDhcpOptions'' (newDeleteRequestPayload_Dhcp r)))"

subsection \<open>Updating\<close>

definition customUpdateDHCPOptions ::
  "'x dhcp_api_scheme \<Rightarrow> ('y) ack_runtime_scheme \<Rightarrow> resource_manager \<Rightarrow> dhcp_options \<Rightarrow> dhcp_options \<Rightarrow> delta
   \<Rightarrow> (dhcp_options option \<times> error option) act" where
  "customUpdateDHCPOptions api R rm desired latest d =
     bind (if DifferentAt R d ''Spec.VPC''
           then bind (syncVPCs api R desired (Some latest)) (\<lambda>err.
                ifErr err (\<lambda>e. ret (None, Some e)) (sdkFind_Dhcp api rm desired))
           else ret (Some desired, None)) (\<lambda>(updated, err).
     ifErr err (\<lambda>e. ret (None, Some e))
    (syncTagsIf api (DifferentAt R d ''Spec.Tags'') (DHCPOptionsID (dhStatus latest)) (dhTags (dhSpec desired)) (dhTags (dhSpec latest))
       (ret (updated, None))))"

subsection \<open>Comparing\<close>

definition compareSpecs_Dhcp ::
  "('x) ackcompare_scheme \<Rightarrow> (dhcp_configuration list \<Rightarrow> dhcp_configuration list \<Rightarrow> bool) \<Rightarrow> dhcp_options_spec \<Rightarrow> dhcp_options_spec \<Rightarrow> delta" where
  "compareSpecs_Dhcp C eq a b =
    (let d1 = compareList eq ''Spec.DHCPConfigurations'' (dhDHCPConfigurations a) (dhDHCPConfigurations b) [];
         d2 = compareTags C ''Spec.Tags'' (dhTags a) (dhTags b) d1;
         d3 = cmpStrs C ''Spec.VPC'' (dhVPC a) (dhVPC b) d2
     in compareRefs C ''Spec.VPCRefs'' (dhVPCRefs a) (dhVPCRefs b) d3)"

definition newResourceDelta_Dhcp ::
  "('x) ackcompare_scheme \<Rightarrow> (dhcp_configuration list \<Rightarrow> dhcp_configuration list \<Rightarrow> bool) \<Rightarrow> dhcp_options option \<Rightarrow> dhcp_options option
   \<Rightarrow> delta act" where
  "newResourceDelta_Dhcp C eq a b = bothResources a b (\<lambda>x y. compareSpecs_Dhcp C eq (dhSpec x) (dhSpec y)) (\<lambda>d. d)"

subsection \<open>The kind\<close>

definition mirrorTags_Dhcp :: "(acktags \<Rightarrow> acktags) \<Rightarrow> dhcp_options \<Rightarrow> dhcp_options option \<Rightarrow> dhcp_options" where
  "mirrorTags_Dhcp iter a b =
     (case b of None \<Rightarrow> a
      | Some l \<Rightarrow> a\<lparr>dhSpec := (dhSpec a)\<lparr>dhTags := mirrorAWSTags iter (dhTags (dhSpec a)) (dhTags (dhSpec l))\<rparr>\<rparr>)"

definition terminalCodes_Dhcp :: "string list" where
  "terminalCodes_Dhcp = [''InvalidParameterValue'']"

definition dhKind ::
  "'x dhcp_api_scheme \<Rightarrow> ('y) ack_runtime_scheme \<Rightarrow> resource_manager \<Rightarrow> error_texts \<Rightarrow> dhcp_options kind" where
  "dhKind api R rm env =
     \<lparr>findOp = (\<lambda>r. bind (sdkFind_Dhcp api rm r) (\<lambda>x. ret (r, x))),
      createOp = sdkCreate_Dhcp api R rm,
      updateOp = (\<lambda>desired latest d. bind (customUpdateDHCPOptions api R rm desired latest d) (\<lambda>x. ret (latest, x))),
      deleteOp = sdkDelete_Dhcp api R,
      mirrorOp = mirrorTags_Dhcp (rangeOf R),
      conditionsOp = (\<lambda>k. Conditions (dhStatus k)),
      updateConditionsOp = conditionsUpdater env terminalCodes_Dhcp rm dhStatus (\<lambda>st k. k\<lparr>dhStatus := st\<rparr>)\<rparr>"

lemma dh_reports: "AWSError_law env \<Longrightarrow> reporting_kind (dhKind api R rm env) terminalCodes_Dhcp"
  by (rule conditionsUpdater_reports [where get = dhStatus and put = "\<lambda>st k. k\<lparr>dhStatus := st\<rparr>"]) (simp_all add: dhKind_def)

interpretation dh_kind: reporting_kind "dhKind api R rm plainTexts" terminalCodes_Dhcp
  for api :: "'x dhcp_api_scheme" and R :: "('y) ack_runtime_scheme" and rm
  by (rule dh_reports [OF plainTexts_law])

subsection \<open>Properties\<close>

abbreviation optionsIdOf :: "dhcp_options \<Rightarrow> string option" where "optionsIdOf k \<equiv> DHCPOptionsID (dhStatus k)"

definition associateCall :: "string option \<Rightarrow> string \<Rightarrow> call" where
  "associateCall i v = DhcpCall (AssociateDhcpOptions i (Some v))"

lemma attachToVPC_Dhcp_returns:
  "\<exists>r t. attachToVPC_Dhcp api k v s = (Ret r, t) \<and> calls t = calls s @ (if v = [] then [] else [associateCall (optionsIdOf k) v])"
  by (cases "onAssociateDhcpOptions api s (optionsIdOf k, Some v)") (simp_all add: attachToVPC_Dhcp_def associateCall_def)

lemma detachFromVPC_Dhcp_returns:
  "\<exists>r t. detachFromVPC_Dhcp api v s = (Ret r, t) \<and> calls t = calls s @ [associateCall (Some ''default'') v]"
  by (cases "onAssociateDhcpOptions api s (Some ''default'', Some v)") (simp_all add: detachFromVPC_Dhcp_def associateCall_def)

lemma defaults_Dhcp_id [simp]: "optionsIdOf (defaults_Dhcp rm k) = optionsIdOf k" "dhSpec (defaults_Dhcp rm k) = dhSpec k"
  by (cases "dhStatus k"; simp add: defaults_Dhcp_def setStatusDefaults_def Let_def dhcp_options_status.defs)+

text \<open>What a synchronisation calls, for the desired and the latest VPCs.\<close>

definition vpcsPlan :: "string option \<Rightarrow> string list \<Rightarrow> string list \<Rightarrow> call list" where
  "vpcsPlan i desired latest =
     map (associateCall i) (filter (\<lambda>v. v \<noteq> [] \<and> v \<notin> set latest) desired)
   @ map (associateCall (Some ''default'')) (filter (\<lambda>v. v \<notin> set desired) latest)"

lemma concat_filter: "concat (map (\<lambda>v. if v = [] then [] else [f v]) xs) = map f (filter (\<lambda>v. v \<noteq> []) xs)"
  by (induction xs) simp_all

lemma syncVPCs_run:
  assumes "runtime_law R" "dhVPC (dhSpec desired) = map Some ds"
    and "case latest of None \<Rightarrow> ls = [] | Some l \<Rightarrow> dhVPC (dhSpec l) = map Some ls"
  shows "\<exists>t. syncVPCs api R desired latest s = (Ret None, t) \<and> calls t = calls s @ vpcsPlan (optionsIdOf desired) ds ls"
proof -
  let ?add = "filter (\<lambda>v. v \<notin> set ls) ds" and ?del = "filter (\<lambda>v. v \<notin> set ds) ls"
  have l: "(case latest of None \<Rightarrow> ret [] | Some l \<Rightarrow> mapAct deref (dhVPC (dhSpec l))) = ret ls"
    using assms(3) by (cases latest) (simp_all add: mapAct_deref_Some)
  obtain rs t where a: "mapAct (attachToVPC_Dhcp api desired) ?add s = (Ret rs, t)"
    "calls t = calls s @ concat (map (\<lambda>v. if v = [] then [] else [associateCall (optionsIdOf desired) v]) ?add)"
    using mapAct_calls [of "attachToVPC_Dhcp api desired" "\<lambda>v. if v = [] then [] else [associateCall (optionsIdOf desired) v]" ?add s]
      attachToVPC_Dhcp_returns by blast
  obtain rs' u where b: "mapAct (detachFromVPC_Dhcp api) ?del t = (Ret rs', u)"
    "calls u = calls t @ concat (map (\<lambda>v. [associateCall (Some ''default'') v]) ?del)"
    using mapAct_calls [of "detachFromVPC_Dhcp api" "\<lambda>v. [associateCall (Some ''default'') v]" ?del t]
      detachFromVPC_Dhcp_returns by blast
  have c: "concat (map (\<lambda>v. [associateCall (Some ''default'') v]) xs) = map (associateCall (Some ''default'')) xs" for xs
    by (induction xs) simp_all
  show ?thesis
    using a b by (simp add: syncVPCs_def l assms(2) mapAct_deref_Some runtime_simps(4) [OF assms(1)] vpcsPlan_def concat_filter c conj_commute)
qed

text \<open>
  C40. Errors of the association are lost. Whatever the calls answer, \<open>syncVPCs\<close> associates the
  options with every desired VPC that the latest resource lacks (an empty identifier is skipped),
  gives every other VPC of the latest resource back to the default options, and returns no error:
  an update or a creation in which they all fail is reported as done.
\<close>

theorem syncVPCs_drops_errors:
  assumes "runtime_law R" "dhVPC (dhSpec desired) = map Some ds" "dhVPC (dhSpec latest) = map Some ls"
  shows "\<exists>t. syncVPCs api R desired (Some latest) s = (Ret None, t)
    \<and> calls t = calls s @ map (associateCall (optionsIdOf desired)) (filter (\<lambda>v. v \<noteq> [] \<and> v \<notin> set ls) ds)
        @ map (associateCall (Some ''default'')) (filter (\<lambda>v. v \<notin> set ds) ls)"
  using syncVPCs_run [OF assms(1,2), of ls "Some latest"] assms(3) by (simp add: vpcsPlan_def)

text \<open>
  Deleting. Every VPC of the resource is given back to the default options before the options
  are deleted, and they are deleted even when that failed; the error of the deletion is the result.
\<close>

theorem sdkDelete_Dhcp_detaches:
  assumes "runtime_law R" "dhVPC (dhSpec r) = map Some vs" "optionsIdOf r = Some i"
  shows "\<exists>t e. sdkDelete_Dhcp api R r s = (Ret (None, e), t)
    \<and> calls t = calls s @ map (associateCall (Some ''default'')) vs @ [DhcpCall (DeleteDhcpOptions (Some i))]"
proof -
  let ?d = "r\<lparr>dhSpec := (dhSpec r)\<lparr>dhVPC := []\<rparr>\<rparr>"
  have "dhVPC (dhSpec ?d) = map Some []" by simp
  from syncVPCs_run [OF assms(1) this, of vs "Some r" api s] assms(2) obtain t where
    "syncVPCs api R ?d (Some r) s = (Ret None, t)" "calls t = calls s @ map (associateCall (Some ''default'')) vs"
    by (auto simp: vpcsPlan_def)
  with assms(2,3) show ?thesis by (cases "vs = []") (simp_all add: sdkDelete_Dhcp_def newDeleteRequestPayload_Dhcp_def)
qed

text \<open>
  An update returns the tags it is about to replace. When both the VPCs and the tags differ,
  the resource is read again before its tags are synchronised, and what was read is returned: the
  spec handed back has the tags of EC2's answer, not the desired ones that were just written.
\<close>

theorem update_returns_old_tags:
  assumes "runtime_law R" "dhVPC (dhSpec desired) = map Some ds" "dhVPC (dhSpec latest) = map Some ls"
    and "DifferentAt R d ''Spec.VPC''" "DifferentAt R d ''Spec.Tags''"
    and "optionsIdOf desired = Some i" "optionsIdOf latest = Some i"
    and "\<And>t. onDescribeDhcpOptions api t [i] = Inr (Some (elem # rest))"
    and "sdkDhDhcpOptionsId elem = Some i" "\<And>t fs. onDescribeVpcsWith api t fs = Inr (Some vpcs)"
    and "\<And>t j. onDeleteTags api t j = None" "\<And>t j. onCreateTags api t j = None"
  shows "\<exists>k t. customUpdateDHCPOptions api R rm desired latest d s = (Ret (Some k, None), t)
    \<and> dhTags (dhSpec k) = map_option resourceTags (sdkDhTags elem)
    \<and> calls t = calls s @ vpcsPlan (Some i) ds ls
        @ [DhcpCall (DescribeDhcpOptions [i]), DhcpCall (DescribeVpcsWith [\<lparr>filterName = ''dhcp-options-id'', filterValues = [i]\<rparr>])]
        @ tagsPlan i (elems (dhTags (dhSpec desired))) (elems (dhTags (dhSpec latest)))"
proof -
  let ?ko = "defaults_Dhcp rm (setFrom_Dhcp desired elem)"
  let ?k = "?ko\<lparr>dhSpec := (dhSpec ?ko)\<lparr>dhVPC := map sdkVpcVpcId vpcs\<rparr>\<rparr>"
  let ?reads = "[DhcpCall (DescribeDhcpOptions [i]), DhcpCall (DescribeVpcsWith [\<lparr>filterName = ''dhcp-options-id'', filterValues = [i]\<rparr>])]"
  obtain t where v: "syncVPCs api R desired (Some latest) s = (Ret None, t)" "calls t = calls s @ vpcsPlan (Some i) ds ls"
    using syncVPCs_run [OF assms(1,2), of ls "Some latest" api s] assms(3,6) by auto
  have id: "optionsIdOf ?ko = Some i"
    using assms(9) by (simp add: setFrom_Dhcp_def)
  obtain u where f: "sdkFind_Dhcp api rm desired t = (Ret (Some ?k, None), u)" "calls u = calls t @ ?reads"
    using assms(6,8,10) id by (simp add: sdkFind_Dhcp_def requiredFieldsMissing_Dhcp_def newListRequestPayload_Dhcp_def
        readMany_def getAttachedVPC_Dhcp_def Let_def)
  let ?a = "elems (dhTags (dhSpec desired))" and ?b = "elems (dhTags (dhSpec latest))"
  obtain ys e w where y: "Sync api i ?a ?b u = (Ret e, w)" "calls w = calls u @ ys" "e = None \<longrightarrow> ys = tagsPlan i ?a ?b"
    by (rule followsE [OF Sync_follows, where s = u]) blast
  have "e = None"
    using y(1) assms(11,12) by (cases "ComputeTagsDelta ?a ?b") (auto simp: Sync_run Let_def split: if_splits)
  with v f y assms(4,5,7) have "customUpdateDHCPOptions api R rm desired latest d s = (Ret (Some ?k, None), w)"
    "calls w = calls s @ vpcsPlan (Some i) ds ls @ ?reads @ tagsPlan i ?a ?b"
    by (simp_all add: customUpdateDHCPOptions_def syncTagsIf_def)
  moreover have "dhTags (dhSpec ?k) = map_option resourceTags (sdkDhTags elem)" by (simp add: setFrom_Dhcp_def)
  ultimately show ?thesis by blast
qed

subsection \<open>Witnesses\<close>

definition exampleDhcp :: "string option \<Rightarrow> string list \<Rightarrow> tag list option \<Rightarrow> dhcp_options" where
  "exampleDhcp i vpcs ts = \<lparr>dhSpec = \<lparr>dhDHCPConfigurations = None, dhTags = ts, dhVPC = map Some vpcs, dhVPCRefs = []\<rparr>,
     dhStatus = \<lparr>ACKResourceMetadata = None, Conditions = [], DHCPOptionsID = i, dhOwnerID = None\<rparr>\<rparr>"

definition exampleSdkDhcp :: sdk_dhcp_options where
  "exampleSdkDhcp = \<lparr>sdkDhDhcpConfigurations = None, sdkDhDhcpOptionsId = Some ''dopt-1'', sdkDhOwnerId = None, sdkDhTags = Some []\<rparr>"

definition exampleDhcpApi :: "error option \<Rightarrow> dhcp_api" where
  "exampleDhcpApi e = \<lparr>onCreateTags = (\<lambda>_ _. None), onDeleteTags = (\<lambda>_ _. None),
     onDescribeDhcpOptions = (\<lambda>_ _. Inr (Some [exampleSdkDhcp])), onCreateDhcpOptions = (\<lambda>_ _. Inr (Some (Some exampleSdkDhcp))),
     onDeleteDhcpOptions = (\<lambda>_ _. None), onAssociateDhcpOptions = (\<lambda>_ _. e), onDescribeVpcsWith = (\<lambda>_ _. Inr (Some []))\<rparr>"

lemma syncVPCs_drops_errors_witness:
  "\<exists>t. syncVPCs (exampleDhcpApi (Some (GoError ''denied''))) exactRuntime (exampleDhcp (Some ''dopt-1'') [''vpc-1'', ''vpc-2''] None)
        (Some (exampleDhcp (Some ''dopt-1'') [''vpc-2'', ''vpc-3''] None)) [] = (Ret None, t)
    \<and> calls t = [associateCall (Some ''dopt-1'') ''vpc-1'', associateCall (Some ''default'') ''vpc-3'']"
  using syncVPCs_drops_errors [OF exactRuntime_law, of "exampleDhcp (Some ''dopt-1'') [''vpc-1'', ''vpc-2''] None" "[''vpc-1'', ''vpc-2'']"
      "exampleDhcp (Some ''dopt-1'') [''vpc-2'', ''vpc-3''] None" "[''vpc-2'', ''vpc-3'']" "exampleDhcpApi (Some (GoError ''denied''))" "[]"]
  by (simp add: exampleDhcp_def)

lemma sdkDelete_Dhcp_detaches_witness:
  "\<exists>t e. sdkDelete_Dhcp (exampleDhcpApi None) exactRuntime (exampleDhcp (Some ''dopt-1'') [''vpc-1''] None) [] = (Ret (None, e), t)
    \<and> calls t = [associateCall (Some ''default'') ''vpc-1'', DhcpCall (DeleteDhcpOptions (Some ''dopt-1''))]"
  using sdkDelete_Dhcp_detaches [OF exactRuntime_law, of "exampleDhcp (Some ''dopt-1'') [''vpc-1''] None" "[''vpc-1'']" "''dopt-1''" "exampleDhcpApi None" "[]"]
  by (simp add: exampleDhcp_def)

lemma update_returns_old_tags_witness:
  "\<exists>k t. customUpdateDHCPOptions (exampleDhcpApi None) exactRuntime exampleManager
        (exampleDhcp (Some ''dopt-1'') [''vpc-1''] (Some [\<lparr>Key = Some ''a'', Value = Some ''b''\<rparr>]))
        (exampleDhcp (Some ''dopt-1'') [] None) [''Spec.VPC'', ''Spec.Tags''] [] = (Ret (Some k, None), t)
    \<and> dhTags (dhSpec k) = Some []"
proof -
  let ?d = "exampleDhcp (Some ''dopt-1'') [''vpc-1''] (Some [\<lparr>Key = Some ''a'', Value = Some ''b''\<rparr>])"
  let ?l = "exampleDhcp (Some ''dopt-1'') [] None" and ?api = "exampleDhcpApi None"
  have "DifferentAt exactRuntime [''Spec.VPC'', ''Spec.Tags''] ''Spec.VPC''" "DifferentAt exactRuntime [''Spec.VPC'', ''Spec.Tags''] ''Spec.Tags''"
    by (simp_all add: exactRuntime_def liesAt_def)
  moreover have "dhVPC (dhSpec ?d) = map Some [''vpc-1'']" "dhVPC (dhSpec ?l) = map Some []" "optionsIdOf ?d = Some ''dopt-1''"
    "optionsIdOf ?l = Some ''dopt-1''" by (simp_all add: exampleDhcp_def)
  moreover have "onDescribeDhcpOptions ?api t [''dopt-1''] = Inr (Some (exampleSdkDhcp # []))" "onDescribeVpcsWith ?api t fs = Inr (Some [])"
    "onDeleteTags ?api t j = None" "onCreateTags ?api t j = None" for t fs j by (simp_all add: exampleDhcpApi_def)
  moreover have "sdkDhDhcpOptionsId exampleSdkDhcp = Some ''dopt-1''" "sdkDhTags exampleSdkDhcp = Some []" by (simp_all add: exampleSdkDhcp_def)
  ultimately show ?thesis
    using update_returns_old_tags [OF exactRuntime_law, of ?d "[''vpc-1'']" ?l "[]" "[''Spec.VPC'', ''Spec.Tags'']" "''dopt-1''" ?api exampleSdkDhcp "[]" "[]"
        exampleManager "[]"] by (simp add: resourceTags_def) blast
qed

end
