(* ===== verification/PrefixList.thy ===== *)
theory PrefixList
  imports Runtime
begin

text \<open>
  The managed prefix list controller (\<open>pkg/resource/managed_prefix_list/hooks.go\<close>, \<open>sdk.go\<close>,
  \<open>delta.go\<close>): a list of CIDR blocks with descriptions and a version. Names that another kind uses
  too carry the suffix \<open>_PrefixList\<close>.
\<close>

subsection \<open>Data\<close>

record prefix_list_entry =
  peCIDR :: "string option"
  peDescription :: "string option"

record prefix_list_spec =
  plAddressFamily :: "string option"
  plEntries :: "prefix_list_entry slice"
  plMaxEntries :: "int64 option"
  plName :: "string option"
  plTags :: "tag list option"

record prefix_list_status = common_status +
  plID :: "string option"
  plOwnerID :: "string option"
  plState :: "string option"
  plStateMessage :: "string option"
  plVersion :: "int64 option"

record prefix_list =
  plSpec :: prefix_list_spec
  plStatus :: prefix_list_status

record prefix_list_api = tags_api +
  onDescribePrefixLists :: "call log \<Rightarrow> string list \<Rightarrow> error + sdk_managed_prefix_list list option"
  onGetManagedPrefixListEntries :: "call log \<Rightarrow> string option \<Rightarrow> error + sdk_prefix_list_entry list option option"
  onCreateManagedPrefixList :: "call log \<Rightarrow> create_prefix_list_input \<Rightarrow> error + sdk_managed_prefix_list option option"
  onModifyManagedPrefixList :: "call log \<Rightarrow> modify_prefix_list_input \<Rightarrow> error + sdk_managed_prefix_list option option"
  onDeleteManagedPrefixList :: "call log \<Rightarrow> string option \<Rightarrow> error option"

subsection \<open>Entries\<close>

text \<open>A Go map from CIDR to description; an entry without a CIDR is skipped, the last of a CIDR counts.\<close>

definition buildEntriesMap :: "prefix_list_entry slice \<Rightarrow> acktags" where
  "buildEntriesMap entries =
     fold (\<lambda>e m. case peCIDR e of None \<Rightarrow> m
                 | Some c \<Rightarrow> AList.update c (case peDescription e of None \<Rightarrow> [] | Some d \<Rightarrow> d) m) (elems entries) []"

definition computeEntriesToAdd :: "(acktags \<Rightarrow> acktags) \<Rightarrow> acktags \<Rightarrow> acktags \<Rightarrow> sdk_prefix_list_entry list" where
  "computeEntriesToAdd iter desired current =
     map (\<lambda>(c, d). \<lparr>sdkPeCidr = Some c, sdkPeDescription = (if d \<noteq> [] then Some d else None)\<rparr>)
       (filter (\<lambda>(c, d). case map_of current c of None \<Rightarrow> True | Some currentDesc \<Rightarrow> currentDesc \<noteq> d) (iter desired))"

definition computeEntriesToRemove :: "(acktags \<Rightarrow> acktags) \<Rightarrow> acktags \<Rightarrow> acktags \<Rightarrow> string option list" where
  "computeEntriesToRemove iter desired current =
     map (\<lambda>(c, _). Some c) (filter (\<lambda>(c, _). map_of desired c = None) (iter current))"

subsection \<open>Updating\<close>

definition modifyInput ::
  "('y) ack_runtime_scheme \<Rightarrow> prefix_list \<Rightarrow> prefix_list \<Rightarrow> delta \<Rightarrow> modify_prefix_list_input" where
  "modifyInput R desired latest d =
     (let currentEntries = buildEntriesMap (plEntries (plSpec latest));
          desiredEntries = buildEntriesMap (plEntries (plSpec desired));
          entriesDiffer = DifferentAt R d ''Spec.Entries''
      in \<lparr>mpiPrefixListId = plID (plStatus latest),
          mpiPrefixListName = plName (plSpec desired),
          mpiMaxEntries = (if DifferentAt R d ''Spec.MaxEntries'' then map_option toInt32 (plMaxEntries (plSpec desired)) else None),
          mpiAddEntries = (if entriesDiffer then computeEntriesToAdd (rangeOf R) desiredEntries currentEntries else []),
          mpiRemoveEntries = (if entriesDiffer then computeEntriesToRemove (rangeOf R) desiredEntries currentEntries else []),
          mpiCurrentVersion = plVersion (plStatus latest)\<rparr>)"

definition afterModify :: "prefix_list \<Rightarrow> sdk_managed_prefix_list \<Rightarrow> prefix_list" where
  "afterModify desired x =
     desired\<lparr>plStatus := (plStatus desired)\<lparr>
       plState := (if sdkMplState x \<noteq> [] then Some (sdkMplState x) else plState (plStatus desired)),
       plVersion := (if sdkMplVersion x \<noteq> None then sdkMplVersion x else plVersion (plStatus desired))\<rparr>\<rparr>"

definition customUpdateManagedPrefixList ::
  "'x prefix_list_api_scheme \<Rightarrow> ('y) ack_runtime_scheme \<Rightarrow> prefix_list \<Rightarrow> prefix_list \<Rightarrow> delta
   \<Rightarrow> (prefix_list option \<times> error option) act" where
  "customUpdateManagedPrefixList api R desired latest d =
     syncTagsIf api (DifferentAt R d ''Spec.Tags'') (plID (plStatus latest)) (plTags (plSpec desired)) (plTags (plSpec latest))
    (if \<not> DifferentExceptAt R d [''Spec.Tags''] then ret (Some desired, None)
     else
       (let input = modifyInput R desired latest d in
        if mpiPrefixListName input \<noteq> None \<or> mpiMaxEntries input \<noteq> None
           \<or> length (mpiAddEntries input) > 0 \<or> length (mpiRemoveEntries input) > 0
        then bind (invoke (\<lambda>i. PrefixListCall (ModifyManagedPrefixList i)) (onModifyManagedPrefixList api) input) (\<lambda>r.
             bind (recordAPICall ''UPDATE'' ''ModifyManagedPrefixList'' (errOf r)) (\<lambda>_.
             case r of
               Inl e \<Rightarrow> ret (None, Some e)
             | Inr out \<Rightarrow> bind (deref out) (\<lambda>resp.
                 case resp of None \<Rightarrow> ret (Some desired, None) | Some x \<Rightarrow> ret (Some (afterModify desired x), None))))
        else ret (Some desired, None)))"

subsection \<open>Reading, creating and deleting\<close>

definition setFields_PrefixList ::
  "(string option \<Rightarrow> prefix_list_status \<Rightarrow> prefix_list_status) \<Rightarrow> prefix_list \<Rightarrow> sdk_managed_prefix_list \<Rightarrow> prefix_list" where
  "setFields_PrefixList putARN k x =
     k\<lparr>plSpec := (plSpec k)\<lparr>plAddressFamily := sdkMplAddressFamily x, plMaxEntries := map_option toInt64 (sdkMplMaxEntries x),
         plName := sdkMplPrefixListName x, plTags := map_option resourceTags (sdkMplTags x)\<rparr>,
       plStatus := (putARN (sdkMplPrefixListArn x) (plStatus k))\<lparr>plOwnerID := sdkMplOwnerId x, plID := sdkMplPrefixListId x,
         plState := enumPtr (sdkMplState x), plStateMessage := sdkMplStateMessage x, plVersion := sdkMplVersion x\<rparr>\<rparr>"

definition setFrom_PrefixList :: "prefix_list \<Rightarrow> sdk_managed_prefix_list \<Rightarrow> prefix_list" where
  "setFrom_PrefixList = setFields_PrefixList readARN"

definition setCreated_PrefixList :: "prefix_list \<Rightarrow> sdk_managed_prefix_list \<Rightarrow> prefix_list" where
  "setCreated_PrefixList = setFields_PrefixList createdARN"

definition defaults_PrefixList :: "resource_manager \<Rightarrow> prefix_list \<Rightarrow> prefix_list" where
  "defaults_PrefixList rm k = k\<lparr>plStatus := setStatusDefaults rm (plStatus k)\<rparr>"

definition checkForMissingRequiredFields_PrefixList :: "prefix_list \<Rightarrow> bool" where
  "checkForMissingRequiredFields_PrefixList r \<longleftrightarrow> plID (plStatus r) = None"

definition newListRequestPayload_PrefixList :: "prefix_list \<Rightarrow> string list" where
  "newListRequestPayload_PrefixList r = (case plID (plStatus r) of None \<Rightarrow> [] | Some i \<Rightarrow> [i])"

definition entryFromSdk_PrefixList :: "sdk_prefix_list_entry \<Rightarrow> prefix_list_entry" where
  "entryFromSdk_PrefixList x = \<lparr>peCIDR = sdkPeCidr x, peDescription = sdkPeDescription x\<rparr>"

text \<open>The first page of entries is the whole list for the code; \<open>None\<close> in the answer is a nil slice.\<close>

definition readEntries :: "'x prefix_list_api_scheme \<Rightarrow> prefix_list \<Rightarrow> (prefix_list option \<times> error option) act" where
  "readEntries api ko =
     (if plID (plStatus ko) = None then ret (Some ko, None)
      else
        bind (invoke (\<lambda>i. PrefixListCall (GetManagedPrefixListEntries i)) (onGetManagedPrefixListEntries api) (plID (plStatus ko))) (\<lambda>resp.
        bind (recordAPICall ''GET'' ''GetManagedPrefixListEntries'' (errOf resp)) (\<lambda>_.
        case resp of
          Inl e \<Rightarrow> ret (None, Some e)
        | Inr out \<Rightarrow> bind (deref out) (\<lambda>entries.
            ret (Some (ko\<lparr>plSpec := (plSpec ko)\<lparr>plEntries := map_option (map entryFromSdk_PrefixList) entries\<rparr>\<rparr>), None)))))"

definition sdkFind_PrefixList ::
  "'x prefix_list_api_scheme \<Rightarrow> resource_manager \<Rightarrow> prefix_list \<Rightarrow> (prefix_list option \<times> error option) act" where
  "sdkFind_PrefixList api rm r =
     readMany (checkForMissingRequiredFields_PrefixList r) (\<lambda>i. PrefixListCall (DescribePrefixLists i)) (onDescribePrefixLists api)
       ''DescribeManagedPrefixLists'' (newListRequestPayload_PrefixList r)
       (\<lambda>elem. readEntries api (defaults_PrefixList rm (setFrom_PrefixList r elem)))"

definition entryToSdk_PrefixList :: "prefix_list_entry \<Rightarrow> sdk_prefix_list_entry" where
  "entryToSdk_PrefixList e = \<lparr>sdkPeCidr = peCIDR e, sdkPeDescription = peDescription e\<rparr>"

definition newCreateRequestPayload_PrefixList :: "prefix_list \<Rightarrow> error + create_prefix_list_input" where
  "newCreateRequestPayload_PrefixList r =
     (case narrowInt32 ''MaxEntries'' (plMaxEntries (plSpec r)) of
        Inl e \<Rightarrow> Inl e
      | Inr m \<Rightarrow> Inr \<lparr>cplAddressFamily = plAddressFamily (plSpec r), cplEntries = map_option (map entryToSdk_PrefixList) (plEntries (plSpec r)),
          cplMaxEntries = m, cplPrefixListName = plName (plSpec r), cplTagSpecifications = None\<rparr>)"

definition updateTagSpecifications_PrefixList :: "prefix_list \<Rightarrow> create_prefix_list_input \<Rightarrow> create_prefix_list_input" where
  "updateTagSpecifications_PrefixList r input = input\<lparr>cplTagSpecifications := tagSpecificationsFor ''prefix-list'' (plTags (plSpec r))\<rparr>"

definition sdkCreate_PrefixList ::
  "'x prefix_list_api_scheme \<Rightarrow> resource_manager \<Rightarrow> prefix_list \<Rightarrow> (prefix_list option \<times> error option) act" where
  "sdkCreate_PrefixList api rm desired =
     (case newCreateRequestPayload_PrefixList desired of
        Inl e \<Rightarrow> ret (None, Some e)
      | Inr input \<Rightarrow>
          createOne (\<lambda>i. PrefixListCall (CreateManagedPrefixList i)) (onCreateManagedPrefixList api) ''CreateManagedPrefixList''
            (updateTagSpecifications_PrefixList desired input)
            (\<lambda>resp. ret (Some (defaults_PrefixList rm (setCreated_PrefixList desired resp)), None)))"

definition sdkDelete_PrefixList :: "'x prefix_list_api_scheme \<Rightarrow> prefix_list \<Rightarrow> (prefix_list option \<times> error option) act" where
  "sdkDelete_PrefixList api r =
     deleteOne (\<lambda>i. PrefixListCall (DeleteManagedPrefixList i)) (onDeleteManagedPrefixList api) ''DeleteManagedPrefixList'' (plID (plStatus r))"

subsection \<open>Comparing\<close>

definition compareSpecs_PrefixList ::
  "('x) ackcompare_scheme \<Rightarrow> (prefix_list_entry list \<Rightarrow> prefix_list_entry list \<Rightarrow> bool) \<Rightarrow> prefix_list_spec \<Rightarrow> prefix_list_spec \<Rightarrow> delta" where
  "compareSpecs_PrefixList C eq a b =
    (let d1 = cmpStr C ''Spec.AddressFamily'' (plAddressFamily a) (plAddressFamily b) [];
         d2 = compareList eq ''Spec.Entries'' (plEntries a) (plEntries b) d1;
         d3 = cmpInt C ''Spec.MaxEntries'' (plMaxEntries a) (plMaxEntries b) d2;
         d4 = cmpStr C ''Spec.Name'' (plName a) (plName b) d3
     in compareTags C ''Spec.Tags'' (plTags a) (plTags b) d4)"

definition newResourceDelta_PrefixList ::
  "('x) ackcompare_scheme \<Rightarrow> (prefix_list_entry list \<Rightarrow> prefix_list_entry list \<Rightarrow> bool) \<Rightarrow> prefix_list option \<Rightarrow> prefix_list option
   \<Rightarrow> delta act" where
  "newResourceDelta_PrefixList C eq a b = bothResources a b (\<lambda>x y. compareSpecs_PrefixList C eq (plSpec x) (plSpec y)) (\<lambda>d. d)"

subsection \<open>The kind\<close>

definition IsSynced_PrefixList :: "('y) ack_runtime_scheme \<Rightarrow> prefix_list \<Rightarrow> bool" where
  "IsSynced_PrefixList R k =
     syncedIn R [''create-complete'', ''create-failed'', ''modify-complete'', ''modify-failed'', ''restore-complete'', ''restore-failed'',
       ''delete-complete'', ''delete-failed''] (plState (plStatus k))"

definition mirrorTags_PrefixList :: "(acktags \<Rightarrow> acktags) \<Rightarrow> prefix_list \<Rightarrow> prefix_list option \<Rightarrow> prefix_list" where
  "mirrorTags_PrefixList iter a b =
     (case b of None \<Rightarrow> a
      | Some l \<Rightarrow> a\<lparr>plSpec := (plSpec a)\<lparr>plTags := mirrorAWSTags iter (plTags (plSpec a)) (plTags (plSpec l))\<rparr>\<rparr>)"

definition terminalCodes_PrefixList :: "string list" where
  "terminalCodes_PrefixList = [''InvalidParameterValue'', ''PrefixListMaxEntriesExceeded'']"

definition plKind ::
  "'x prefix_list_api_scheme \<Rightarrow> ('y) ack_runtime_scheme \<Rightarrow> resource_manager \<Rightarrow> error_texts \<Rightarrow> prefix_list kind" where
  "plKind api R rm env =
     \<lparr>findOp = (\<lambda>r. bind (sdkFind_PrefixList api rm r) (\<lambda>x. ret (r, x))),
      createOp = sdkCreate_PrefixList api rm,
      updateOp = (\<lambda>desired latest d. bind (customUpdateManagedPrefixList api R desired latest d) (\<lambda>x. ret (latest, x))),
      deleteOp = sdkDelete_PrefixList api,
      mirrorOp = mirrorTags_PrefixList (rangeOf R),
      conditionsOp = (\<lambda>k. Conditions (plStatus k)),
      updateConditionsOp = conditionsUpdater env terminalCodes_PrefixList rm plStatus (\<lambda>st k. k\<lparr>plStatus := st\<rparr>)\<rparr>"

lemma pl_reports: "AWSError_law env \<Longrightarrow> reporting_kind (plKind api R rm env) terminalCodes_PrefixList"
  by (rule conditionsUpdater_reports [where get = plStatus and put = "\<lambda>st k. k\<lparr>plStatus := st\<rparr>"]) (simp_all add: plKind_def)

interpretation pl_kind: reporting_kind "plKind api R rm plainTexts" terminalCodes_PrefixList
  for api :: "'x prefix_list_api_scheme" and R :: "('y) ack_runtime_scheme" and rm
  by (rule pl_reports [OF plainTexts_law])

subsection \<open>Properties\<close>

lemma wfMap_buildEntriesMap: "wfMap (buildEntriesMap entries)"
proof -
  have "wfMap m \<Longrightarrow> wfMap (fold (\<lambda>e m. case peCIDR e of None \<Rightarrow> m
      | Some c \<Rightarrow> AList.update c (case peDescription e of None \<Rightarrow> [] | Some d \<Rightarrow> d) m) es m)" for es :: "prefix_list_entry list" and m
    by (induction es arbitrary: m) (auto simp: distinct_update split: option.split)
  then show ?thesis by (simp add: buildEntriesMap_def)
qed

abbreviation entriesOf :: "prefix_list \<Rightarrow> (string \<rightharpoonup> string)" where
  "entriesOf k \<equiv> map_of (buildEntriesMap (plEntries (plSpec k)))"

text \<open>The documented effect of a modification on the entries of a list: removals, then additions.\<close>

definition entriesAfter :: "(string \<rightharpoonup> string) \<Rightarrow> modify_prefix_list_input \<Rightarrow> (string \<rightharpoonup> string)" where
  "entriesAfter m i = (\<lambda>c.
     case find (\<lambda>e. sdkPeCidr e = Some c) (mpiAddEntries i) of
       Some e \<Rightarrow> Some (safeString (sdkPeDescription e))
     | None \<Rightarrow> if Some c \<in> set (mpiRemoveEntries i) then None else m c)"

lemma find_entry:
  assumes "wfMap xs"
  shows "find (\<lambda>e. sdkPeCidr e = Some c) (map (\<lambda>(c, d). \<lparr>sdkPeCidr = Some c, sdkPeDescription = f d\<rparr>) (filter P xs))
    = (case map_of xs c of None \<Rightarrow> None | Some d \<Rightarrow> if P (c, d) then Some \<lparr>sdkPeCidr = Some c, sdkPeDescription = f d\<rparr> else None)"
  using assms
proof (induction xs)
  case (Cons x xs)
  obtain k v where x: "x = (k, v)" by fastforce
  have "map_of xs k = None" using Cons.prems x by (simp add: map_of_eq_None_iff)
  with Cons x show ?case by auto
qed simp

lemma find_toAdd:
  assumes "range_order iter" "wfMap desired"
  shows "find (\<lambda>e. sdkPeCidr e = Some c) (computeEntriesToAdd iter desired current)
    = (case map_of desired c of None \<Rightarrow> None
       | Some d \<Rightarrow> if map_of current c \<noteq> Some d then Some \<lparr>sdkPeCidr = Some c, sdkPeDescription = (if d \<noteq> [] then Some d else None)\<rparr> else None)"
  unfolding computeEntriesToAdd_def find_entry [OF range_order_facts(1) [OF assms]] range_order_facts(2) [OF assms]
  by (auto split: option.splits)

lemma mem_toRemove:
  assumes "range_order iter" "wfMap current"
  shows "Some c \<in> set (computeEntriesToRemove iter desired current) \<longleftrightarrow> map_of desired c = None \<and> map_of current c \<noteq> None"
proof -
  have "Some c \<in> set (computeEntriesToRemove iter desired current) \<longleftrightarrow> map_of desired c = None \<and> c \<in> fst ` set current"
    by (force simp: computeEntriesToRemove_def range_order_facts(3) [OF assms])
  then show ?thesis by (simp add: map_of_eq_None_iff)
qed

lemma modifyInput_entries:
  assumes "DifferentAt R d ''Spec.Entries''"
  shows "mpiAddEntries (modifyInput R desired latest d)
      = computeEntriesToAdd (rangeOf R) (buildEntriesMap (plEntries (plSpec desired))) (buildEntriesMap (plEntries (plSpec latest)))"
    and "mpiRemoveEntries (modifyInput R desired latest d)
      = computeEntriesToRemove (rangeOf R) (buildEntriesMap (plEntries (plSpec desired))) (buildEntriesMap (plEntries (plSpec latest)))"
  using assms by (simp_all add: modifyInput_def Let_def)

text \<open>
  C31. A modification brings the entries to the desired ones. In whatever order the maps are
  visited, removing and adding what the request names turns the entries that the list was read
  with into the desired entries; no block is both added and removed, and the request carries the
  version that was read, so that EC2 can refuse it when the list has changed since.
\<close>

theorem modification_converges:
  assumes "runtime_law R" "DifferentAt R d ''Spec.Entries''"
  shows "entriesAfter (entriesOf latest) (modifyInput R desired latest d) = entriesOf desired
    \<and> sdkPeCidr ` set (mpiAddEntries (modifyInput R desired latest d)) \<inter> set (mpiRemoveEntries (modifyInput R desired latest d)) = {}
    \<and> mpiCurrentVersion (modifyInput R desired latest d) = plVersion (plStatus latest)"
proof (intro conjI)
  let ?D = "buildEntriesMap (plEntries (plSpec desired))" and ?M = "buildEntriesMap (plEntries (plSpec latest))"
  note law = runtime_simps(7) [OF assms(1)]
  note add = find_toAdd [OF law wfMap_buildEntriesMap] and del = mem_toRemove [OF law wfMap_buildEntriesMap]
  show "entriesAfter (entriesOf latest) (modifyInput R desired latest d) = entriesOf desired"
  proof
    fix c
    show "entriesAfter (entriesOf latest) (modifyInput R desired latest d) c = entriesOf desired c"
      unfolding entriesAfter_def modifyInput_entries [OF assms(2)] add del by (auto split: option.splits)
  qed
  have "map_of ?D c \<noteq> None" if "e \<in> set (computeEntriesToAdd (rangeOf R) ?D ?M)" "sdkPeCidr e = Some c" for e c
  proof -
    from that have "find (\<lambda>e. sdkPeCidr e = Some c) (computeEntriesToAdd (rangeOf R) ?D ?M) \<noteq> None"
      by (auto simp: find_None_iff)
    then show ?thesis unfolding add by (auto split: option.splits)
  qed
  moreover have "sdkPeCidr e \<noteq> None" if "e \<in> set (computeEntriesToAdd (rangeOf R) ?D ?M)" for e
    using that by (auto simp: computeEntriesToAdd_def)
  ultimately show "sdkPeCidr ` set (mpiAddEntries (modifyInput R desired latest d)) \<inter> set (mpiRemoveEntries (modifyInput R desired latest d)) = {}"
    unfolding modifyInput_entries [OF assms(2)] using del by fastforce
  show "mpiCurrentVersion (modifyInput R desired latest d) = plVersion (plStatus latest)"
    by (simp add: modifyInput_def Let_def)
qed

lemma idle_entries:
  assumes "runtime_law R" "entriesOf desired = entriesOf latest"
  shows "mpiAddEntries (modifyInput R desired latest d) = []" and "mpiRemoveEntries (modifyInput R desired latest d) = []"
proof -
  let ?D = "buildEntriesMap (plEntries (plSpec desired))" and ?M = "buildEntriesMap (plEntries (plSpec latest))"
  note law = runtime_simps(7) [OF assms(1)]
  have "map_of ?M c = Some v" if "(c, v) \<in> set (rangeOf R ?D)" for c v
    using that assms(2) range_order_facts [OF law wfMap_buildEntriesMap] by (metis map_of_eq_Some_iff)
  then show "mpiAddEntries (modifyInput R desired latest d) = []"
    by (auto simp: modifyInput_def Let_def computeEntriesToAdd_def filter_empty_conv split: option.splits)
  have "map_of ?D c \<noteq> None" if "(c, v) \<in> set (rangeOf R ?M)" for c v
    using that assms(2) range_order_facts [OF law wfMap_buildEntriesMap] by (metis map_of_eq_Some_iff option.discI)
  then show "mpiRemoveEntries (modifyInput R desired latest d) = []"
    by (auto simp: modifyInput_def Let_def computeEntriesToRemove_def filter_empty_conv)
qed

text \<open>
  Entries in another order never settle. When the desired entries are those of the list in an
  order that \<open>DeepEqual\<close> tells apart, the comparison reports a difference, and the update sends a
  modification that adds and removes nothing: the same happens at every reconciliation.
\<close>

theorem reordered_entries_never_settle:
  assumes "runtime_law R" "entriesOf desired = entriesOf latest"
    and "\<not> eq (elems (plEntries (plSpec desired))) (elems (plEntries (plSpec latest)))"
    and "length (elems (plEntries (plSpec desired))) = length (elems (plEntries (plSpec latest)))" "elems (plEntries (plSpec desired)) \<noteq> []"
    and "plName (plSpec desired) = Some name"
    and "d = compareSpecs_PrefixList C eq (plSpec desired) (plSpec latest)" "compareTags C ''Spec.Tags'' (plTags (plSpec desired)) (plTags (plSpec latest)) [] = []"
  shows "\<exists>input. calls (snd (customUpdateManagedPrefixList api R desired latest d s)) = calls s @ [PrefixListCall (ModifyManagedPrefixList input)]
    \<and> ''Spec.Entries'' \<in> set d \<and> mpiAddEntries input = [] \<and> mpiRemoveEntries input = []"
proof -
  have ne: "compareList eq ''Spec.Entries'' (plEntries (plSpec desired)) (plEntries (plSpec latest)) [] \<noteq> []"
    using assms(3-5) by (cases "elems (plEntries (plSpec latest))") (auto simp: compareList_def)
  then have e: "''Spec.Entries'' \<in> set d"
    unfolding assms(7) compareSpecs_PrefixList_def Let_def mem_compare by simp
  have "''Spec.Tags'' \<notin> set d" "\<not> prefix (''Spec.Tags'' @ ''.'') q" if "q \<in> set d" for q
    using that assms(8) unfolding assms(7) compareSpecs_PrefixList_def Let_def mem_compare by auto
  then have t: "\<not> DifferentAt R d ''Spec.Tags''"
    unfolding runtime_simps(1) [OF assms(1)] liesAt_def by blast
  have x: "DifferentExceptAt R d [''Spec.Tags'']"
    unfolding runtime_simps(2) [OF assms(1)] using e by (auto simp: liesAt_def intro!: bexI [of _ "''Spec.Entries''"])
  have "mpiPrefixListName (modifyInput R desired latest d) = Some name" using assms(6) by (simp add: modifyInput_def Let_def)
  with t x have "calls (snd (customUpdateManagedPrefixList api R desired latest d s))
      = calls s @ [PrefixListCall (ModifyManagedPrefixList (modifyInput R desired latest d))]"
    by (auto simp: customUpdateManagedPrefixList_def Let_def bind_def deref_def split: sum.split option.split)
  with e idle_entries [OF assms(1,2)] show ?thesis by blast
qed

subsection \<open>Witnesses\<close>

definition exampleEntries :: "(string \<times> string) list \<Rightarrow> prefix_list_entry slice" where
  "exampleEntries es = Some (map (\<lambda>(c, d). \<lparr>peCIDR = Some c, peDescription = Some d\<rparr>) es)"

definition examplePrefixList :: "(string \<times> string) list \<Rightarrow> prefix_list" where
  "examplePrefixList es = \<lparr>plSpec = \<lparr>plAddressFamily = Some ''IPv4'', plEntries = exampleEntries es, plMaxEntries = Some 5,
       plName = Some ''office'', plTags = None\<rparr>,
     plStatus = \<lparr>ACKResourceMetadata = None, Conditions = [], plID = Some ''pl-1'', plOwnerID = None, plState = None,
       plStateMessage = None, plVersion = Some 3\<rparr>\<rparr>"

definition examplePrefixListApi :: prefix_list_api where
  "examplePrefixListApi = \<lparr>onCreateTags = (\<lambda>_ _. None), onDeleteTags = (\<lambda>_ _. None), onDescribePrefixLists = (\<lambda>_ _. Inr (Some [])),
     onGetManagedPrefixListEntries = (\<lambda>_ _. Inr (Some None)), onCreateManagedPrefixList = (\<lambda>_ _. Inr None),
     onModifyManagedPrefixList = (\<lambda>_ _. Inr (Some None)), onDeleteManagedPrefixList = (\<lambda>_ _. None)\<rparr>"

lemma modification_converges_witness:
  "entriesAfter (entriesOf (examplePrefixList [(''10.0.0.0/8'', ''a''), (''10.1.0.0/16'', ''b'')]))
      (modifyInput exactRuntime (examplePrefixList [(''10.0.0.0/8'', ''c''), (''10.2.0.0/16'', ''d'')])
        (examplePrefixList [(''10.0.0.0/8'', ''a''), (''10.1.0.0/16'', ''b'')]) [''Spec.Entries''])
    = entriesOf (examplePrefixList [(''10.0.0.0/8'', ''c''), (''10.2.0.0/16'', ''d'')])"
proof -
  have "DifferentAt exactRuntime [''Spec.Entries''] ''Spec.Entries''" by (simp add: exactRuntime_def liesAt_def)
  then show ?thesis using modification_converges [OF exactRuntime_law] by blast
qed

lemma reordered_entries_never_settle_witness:
  "\<exists>input. calls (snd (customUpdateManagedPrefixList examplePrefixListApi exactRuntime
        (examplePrefixList [(''10.0.0.0/8'', ''a''), (''10.1.0.0/16'', ''b'')])
        (examplePrefixList [(''10.1.0.0/16'', ''b''), (''10.0.0.0/8'', ''a'')]) [''Spec.Entries''] []))
      = [PrefixListCall (ModifyManagedPrefixList input)]
    \<and> mpiAddEntries input = [] \<and> mpiRemoveEntries input = []"
proof -
  let ?a = "examplePrefixList [(''10.0.0.0/8'', ''a''), (''10.1.0.0/16'', ''b'')]"
  let ?b = "examplePrefixList [(''10.1.0.0/16'', ''b''), (''10.0.0.0/8'', ''a'')]"
  have "entriesOf ?a = entriesOf ?b"
    by (simp add: examplePrefixList_def exampleEntries_def buildEntriesMap_def fun_eq_iff)
  moreover have "elems (plEntries (plSpec ?a)) \<noteq> elems (plEntries (plSpec ?b))"
    "length (elems (plEntries (plSpec ?a))) = length (elems (plEntries (plSpec ?b)))" "elems (plEntries (plSpec ?a)) \<noteq> []"
    "plName (plSpec ?a) = Some ''office''"
    by (simp_all add: examplePrefixList_def exampleEntries_def)
  moreover have "[''Spec.Entries''] = compareSpecs_PrefixList exactComparisons (=) (plSpec ?a) (plSpec ?b)"
    "compareTags exactComparisons ''Spec.Tags'' (plTags (plSpec ?a)) (plTags (plSpec ?b)) [] = []"
    by code_simp+
  ultimately show ?thesis
    using reordered_entries_never_settle [OF exactRuntime_law, of ?a ?b "(=)" "''office''" "[''Spec.Entries'']" exactComparisons examplePrefixListApi "[]"]
    by (metis append_Nil calls.simps(1))
qed

end
