(* ===== verification/VpcAttachment.thy ===== *)
theory VpcAttachment
  imports Runtime
begin

text \<open>
  The controller of the attachments of a VPC to a transit gateway
  (\<open>pkg/resource/transit_gateway_vpc_attachment/hooks.go\<close>, \<open>sdk.go\<close>, \<open>delta.go\<close>). Names that another
  kind uses too carry the suffix \<open>_Attachment\<close>.
\<close>

subsection \<open>Data\<close>

record attachment_options =
  ApplianceModeSupport :: "string option"
  DNSSupport :: "string option"
  IPv6Support :: "string option"
  SecurityGroupReferencingSupport :: "string option"

record vpc_attachment_spec =
  taOptions :: "attachment_options option"
  taSubnetIDs :: "string option list"
  taSubnetRefs :: "ref_wrapper option list"
  taTags :: "tag list option"
  taTransitGatewayID :: "string option"
  taTransitGatewayRef :: "ref_wrapper option"
  taVPCID :: "string option"
  taVPCRef :: "ref_wrapper option"

record vpc_attachment_status = common_status +
  taCreationTime :: "timestamp option"
  taID :: "string option"
  taState :: "string option"
  taVPCOwnerID :: "string option"

record vpc_attachment =
  taSpec :: vpc_attachment_spec
  taStatus :: vpc_attachment_status

record attachment_api = tags_api +
  onDescribeTransitGatewayVpcAttachments :: "call log \<Rightarrow> string list \<Rightarrow> error + sdk_vpc_attachment list option"
  onCreateTransitGatewayVpcAttachment :: "call log \<Rightarrow> create_attachment_input \<Rightarrow> error + sdk_vpc_attachment option option"
  onModifyTransitGatewayVpcAttachment :: "call log \<Rightarrow> modify_attachment_input \<Rightarrow> error + sdk_vpc_attachment option option"
  onDeleteTransitGatewayVpcAttachment :: "call log \<Rightarrow> string option \<Rightarrow> error option"

subsection \<open>Helpers\<close>

definition AttachmentStateAvailable :: string where "AttachmentStateAvailable = ''available''"

text \<open>\<open>None\<close> is the nil pointer, which the caller returns as an error that is not nil.\<close>

definition requeueWaitUntilCanModify :: "vpc_attachment \<Rightarrow> error option" where
  "requeueWaitUntilCanModify r =
     (case taState (taStatus r) of None \<Rightarrow> None
      | Some status \<Rightarrow> Some (RequeueNeeded (GoError (''transitGatewayAttachment is in '' @ [CHR 39] @ status @ [CHR 39]
          @ '' and state, cannot be modified until '' @ [CHR 39] @ AttachmentStateAvailable @ [CHR 39]))))"

definition asError :: "error option \<Rightarrow> error" where
  "asError p = (case p of None \<Rightarrow> NilRequeueNeeded | Some e \<Rightarrow> e)"

text \<open>
  The second loop writes \<open>toRemove = append(toAdd, l)\<close>: every subnet to remove replaces the list by
  that of the subnets to add and itself.
\<close>

fun removals :: "string list \<Rightarrow> string list \<Rightarrow> string list \<Rightarrow> string list \<Rightarrow> string list" where
  "removals toAdd desired [] toRemove = toRemove"
| "removals toAdd desired (l # ls) toRemove =
     removals toAdd desired ls (if l \<in> set desired then toRemove else toAdd @ [l])"

definition compareSubnetIDs ::
  "('y) ack_runtime_scheme \<Rightarrow> string option list \<Rightarrow> string option list \<Rightarrow> string list \<times> string list" where
  "compareSubnetIDs R desiredSubnetIDs latestSubnetIDs =
     (let desired = ToStringSlice R desiredSubnetIDs;
          latest = ToStringSlice R latestSubnetIDs;
          toAdd = filter (\<lambda>d. d \<notin> set latest) desired
      in (toAdd, removals toAdd desired latest []))"

subsection \<open>Reading\<close>

definition attachmentOptionsFromSdk :: "sdk_attachment_options \<Rightarrow> attachment_options" where
  "attachmentOptionsFromSdk x = \<lparr>ApplianceModeSupport = enumPtr (sdkAoApplianceModeSupport x), DNSSupport = enumPtr (sdkAoDnsSupport x),
     IPv6Support = enumPtr (sdkAoIpv6Support x),
     SecurityGroupReferencingSupport = enumPtr (sdkAoSecurityGroupReferencingSupport x)\<rparr>"

text \<open>A nil slice of subnets gives the empty list, as \<open>StringSlice\<close> of an empty one does.\<close>

definition setFrom_Attachment :: "('y) ack_runtime_scheme \<Rightarrow> vpc_attachment \<Rightarrow> sdk_vpc_attachment \<Rightarrow> vpc_attachment" where
  "setFrom_Attachment R k x =
     k\<lparr>taSpec := (taSpec k)\<lparr>taOptions := map_option attachmentOptionsFromSdk (sdkTvaOptions x),
         taSubnetIDs := (if sdkTvaSubnetIds x \<noteq> [] then StringSlice R (sdkTvaSubnetIds x) else []),
         taTags := map_option resourceTags (sdkTvaTags x), taTransitGatewayID := sdkTvaTransitGatewayId x, taVPCID := sdkTvaVpcId x\<rparr>,
       taStatus := (taStatus k)\<lparr>taCreationTime := sdkTvaCreationTime x, taState := enumPtr (sdkTvaState x),
         taID := sdkTvaTransitGatewayAttachmentId x, taVPCOwnerID := sdkTvaVpcOwnerId x\<rparr>\<rparr>"

definition defaults_Attachment :: "resource_manager \<Rightarrow> vpc_attachment \<Rightarrow> vpc_attachment" where
  "defaults_Attachment rm k = k\<lparr>taStatus := setStatusDefaults rm (taStatus k)\<rparr>"

definition checkForMissingRequiredFields_Attachment :: "vpc_attachment \<Rightarrow> bool" where
  "checkForMissingRequiredFields_Attachment r \<longleftrightarrow> taID (taStatus r) = None"

definition newListRequestPayload_Attachment :: "vpc_attachment \<Rightarrow> string list" where
  "newListRequestPayload_Attachment r = (case taID (taStatus r) of None \<Rightarrow> [] | Some i \<Rightarrow> [i])"

definition sdkFind_Attachment ::
  "'x attachment_api_scheme \<Rightarrow> ('y) ack_runtime_scheme \<Rightarrow> resource_manager \<Rightarrow> vpc_attachment
   \<Rightarrow> (vpc_attachment option \<times> error option) act" where
  "sdkFind_Attachment api R rm r =
     readMany (checkForMissingRequiredFields_Attachment r) (\<lambda>i. AttachmentCall (DescribeTransitGatewayVpcAttachments i))
       (onDescribeTransitGatewayVpcAttachments api) ''DescribeTransitGatewayVpcAttachments'' (newListRequestPayload_Attachment r)
       (\<lambda>elem. ret (Some (defaults_Attachment rm (setFrom_Attachment R r elem)), None))"

subsection \<open>Creating and deleting\<close>

definition optionsRequest :: "attachment_options \<Rightarrow> sdk_attachment_options" where
  "optionsRequest x = \<lparr>sdkAoApplianceModeSupport = safeString (ApplianceModeSupport x), sdkAoDnsSupport = safeString (DNSSupport x),
     sdkAoIpv6Support = safeString (IPv6Support x),
     sdkAoSecurityGroupReferencingSupport = safeString (SecurityGroupReferencingSupport x)\<rparr>"

definition newCreateRequestPayload_Attachment :: "('y) ack_runtime_scheme \<Rightarrow> vpc_attachment \<Rightarrow> create_attachment_input" where
  "newCreateRequestPayload_Attachment R r =
     \<lparr>ctaOptions = map_option optionsRequest (taOptions (taSpec r)),
      ctaSubnetIds = (if taSubnetIDs (taSpec r) \<noteq> [] then ToStringSlice R (taSubnetIDs (taSpec r)) else []),
      ctaTransitGatewayId = taTransitGatewayID (taSpec r), ctaVpcId = taVPCID (taSpec r), ctaTagSpecifications = None\<rparr>"

definition updateTagSpecifications_Attachment :: "vpc_attachment \<Rightarrow> create_attachment_input \<Rightarrow> create_attachment_input" where
  "updateTagSpecifications_Attachment r input =
     input\<lparr>ctaTagSpecifications := tagSpecificationsFor ''transit-gateway-attachment'' (taTags (taSpec r))\<rparr>"

definition sdkCreate_Attachment ::
  "'x attachment_api_scheme \<Rightarrow> ('y) ack_runtime_scheme \<Rightarrow> resource_manager \<Rightarrow> vpc_attachment
   \<Rightarrow> (vpc_attachment option \<times> error option) act" where
  "sdkCreate_Attachment api R rm desired =
     createOne (\<lambda>i. AttachmentCall (CreateTransitGatewayVpcAttachment i)) (onCreateTransitGatewayVpcAttachment api)
       ''CreateTransitGatewayVpcAttachment''
       (updateTagSpecifications_Attachment desired (newCreateRequestPayload_Attachment R desired))
       (\<lambda>resp. ret (Some (defaults_Attachment rm (setFrom_Attachment R desired resp)), None))"

definition sdkDelete_Attachment :: "'x attachment_api_scheme \<Rightarrow> vpc_attachment \<Rightarrow> (vpc_attachment option \<times> error option) act" where
  "sdkDelete_Attachment api r =
     deleteOne (\<lambda>i. AttachmentCall (DeleteTransitGatewayVpcAttachment i)) (onDeleteTransitGatewayVpcAttachment api)
       ''DeleteTransitGatewayVpcAttachment'' (taID (taStatus r))"

subsection \<open>Updating\<close>

definition newUpdateRequestPayload_Attachment :: "vpc_attachment \<Rightarrow> modify_attachment_input" where
  "newUpdateRequestPayload_Attachment r =
     \<lparr>mtaOptions = map_option optionsRequest (taOptions (taSpec r)), mtaTransitGatewayAttachmentId = taID (taStatus r),
      mtaAddSubnetIds = [], mtaRemoveSubnetIds = []\<rparr>"

definition modifyAttachmentInput :: "('y) ack_runtime_scheme \<Rightarrow> vpc_attachment \<Rightarrow> vpc_attachment \<Rightarrow> modify_attachment_input" where
  "modifyAttachmentInput R desired latest =
     (let (add, remove) = compareSubnetIDs R (taSubnetIDs (taSpec desired)) (taSubnetIDs (taSpec latest))
      in (newUpdateRequestPayload_Attachment desired)\<lparr>mtaAddSubnetIds := add, mtaRemoveSubnetIds := remove\<rparr>)"

definition sdkUpdate_Attachment ::
  "'x attachment_api_scheme \<Rightarrow> ('y) ack_runtime_scheme \<Rightarrow> resource_manager \<Rightarrow> vpc_attachment \<Rightarrow> vpc_attachment \<Rightarrow> delta
   \<Rightarrow> (vpc_attachment option \<times> error option) act" where
  "sdkUpdate_Attachment api R rm desired latest d =
     syncTagsIf api (DifferentAt R d ''Spec.Tags'') (taID (taStatus latest)) (taTags (taSpec desired)) (taTags (taSpec latest))
    (if \<not> DifferentExceptAt R d [''Spec.Tags''] then ret (Some desired, None)
     else
       bind (deref (taState (taStatus latest))) (\<lambda>state.
       if state \<noteq> AttachmentStateAvailable then ret (Some desired, Some (asError (requeueWaitUntilCanModify desired)))
       else
         bind (invoke (\<lambda>i. AttachmentCall (ModifyTransitGatewayVpcAttachment i)) (onModifyTransitGatewayVpcAttachment api)
                 (modifyAttachmentInput R desired latest)) (\<lambda>r.
         bind (recordAPICall ''UPDATE'' ''ModifyTransitGatewayVpcAttachment'' (errOf r)) (\<lambda>_.
         case r of
           Inl e \<Rightarrow> ret (None, Some e)
         | Inr out \<Rightarrow>
             bind (deref out) (\<lambda>resp. bind (deref resp) (\<lambda>elem.
             ret (Some (defaults_Attachment rm (setFrom_Attachment R desired elem)), None)))))))"

subsection \<open>Comparing\<close>

definition compareAttachmentOptions ::
  "('x) ackcompare_scheme \<Rightarrow> attachment_options option \<Rightarrow> attachment_options option \<Rightarrow> delta \<Rightarrow> delta" where
  "compareAttachmentOptions C =
     compareStruct C ''Spec.Options'' (\<lambda>u v d.
       cmpStr C ''Spec.Options.SecurityGroupReferencingSupport'' (SecurityGroupReferencingSupport u) (SecurityGroupReferencingSupport v)
      (cmpStr C ''Spec.Options.IPv6Support'' (IPv6Support u) (IPv6Support v)
      (cmpStr C ''Spec.Options.DNSSupport'' (DNSSupport u) (DNSSupport v)
      (cmpStr C ''Spec.Options.ApplianceModeSupport'' (ApplianceModeSupport u) (ApplianceModeSupport v) d))))"

definition compareSpecs_Attachment ::
  "('x) ackcompare_scheme \<Rightarrow> vpc_attachment_spec \<Rightarrow> vpc_attachment_spec \<Rightarrow> delta" where
  "compareSpecs_Attachment C a b =
    (let d1 = compareAttachmentOptions C (taOptions a) (taOptions b) [];
         d2 = cmpStrs C ''Spec.SubnetIDs'' (taSubnetIDs a) (taSubnetIDs b) d1;
         d3 = compareRefs C ''Spec.SubnetRefs'' (taSubnetRefs a) (taSubnetRefs b) d2;
         d4 = compareTags C ''Spec.Tags'' (taTags a) (taTags b) d3;
         d5 = cmpStr C ''Spec.TransitGatewayID'' (taTransitGatewayID a) (taTransitGatewayID b) d4;
         d6 = compareRef C ''Spec.TransitGatewayRef'' (taTransitGatewayRef a) (taTransitGatewayRef b) d5;
         d7 = cmpStr C ''Spec.VPCID'' (taVPCID a) (taVPCID b) d6
     in compareRef C ''Spec.VPCRef'' (taVPCRef a) (taVPCRef b) d7)"

definition newResourceDelta_Attachment ::
  "('x) ackcompare_scheme \<Rightarrow> vpc_attachment option \<Rightarrow> vpc_attachment option \<Rightarrow> delta act" where
  "newResourceDelta_Attachment C a b = bothResources a b (\<lambda>x y. compareSpecs_Attachment C (taSpec x) (taSpec y)) (\<lambda>d. d)"

subsection \<open>The kind\<close>

definition mirrorTags_Attachment :: "(acktags \<Rightarrow> acktags) \<Rightarrow> vpc_attachment \<Rightarrow> vpc_attachment option \<Rightarrow> vpc_attachment" where
  "mirrorTags_Attachment iter a b =
     (case b of None \<Rightarrow> a
      | Some l \<Rightarrow> a\<lparr>taSpec := (taSpec a)\<lparr>taTags := mirrorAWSTags iter (taTags (taSpec a)) (taTags (taSpec l))\<rparr>\<rparr>)"

definition taKind ::
  "'x attachment_api_scheme \<Rightarrow> ('y) ack_runtime_scheme \<Rightarrow> resource_manager \<Rightarrow> error_texts \<Rightarrow> vpc_attachment kind" where
  "taKind api R rm env =
     \<lparr>findOp = (\<lambda>r. bind (sdkFind_Attachment api R rm r) (\<lambda>x. ret (r, x))),
      createOp = sdkCreate_Attachment api R rm,
      updateOp = (\<lambda>desired latest d. bind (sdkUpdate_Attachment api R rm desired latest d) (\<lambda>x. ret (latest, x))),
      deleteOp = sdkDelete_Attachment api,
      mirrorOp = mirrorTags_Attachment (rangeOf R),
      conditionsOp = (\<lambda>k. Conditions (taStatus k)),
      updateConditionsOp = conditionsUpdater env [] rm taStatus (\<lambda>st k. k\<lparr>taStatus := st\<rparr>)\<rparr>"

lemma ta_reports: "AWSError_law env \<Longrightarrow> reporting_kind (taKind api R rm env) []"
  by (rule conditionsUpdater_reports [where get = taStatus and put = "\<lambda>st k. k\<lparr>taStatus := st\<rparr>"]) (simp_all add: taKind_def)

interpretation ta_kind: reporting_kind "taKind api R rm plainTexts" "[]"
  for api :: "'x attachment_api_scheme" and R :: "('y) ack_runtime_scheme" and rm
  by (rule ta_reports [OF plainTexts_law])

subsection \<open>Properties\<close>

abbreviation missingIn :: "string list \<Rightarrow> string list \<Rightarrow> string list" where
  "missingIn ys xs \<equiv> filter (\<lambda>x. x \<notin> set ys) xs"

lemma removals_eq:
  "removals toAdd desired ls acc = (if missingIn desired ls = [] then acc else toAdd @ [last (missingIn desired ls)])"
  by (induction ls arbitrary: acc) auto

lemma compareSubnetIDs_eq:
  assumes "runtime_law R" "ds = map safeString desired" "ls = map safeString latest"
  shows "compareSubnetIDs R desired latest
    = (missingIn ls ds, if missingIn ds ls = [] then [] else missingIn ls ds @ [last (missingIn ds ls)])"
  by (simp add: compareSubnetIDs_def runtime_simps(5) [OF assms(1)] assms(2,3) removals_eq Let_def)

text \<open>
  C33. Which subnets a modification names. When something other than the tags differs and the
  attachment is available, the update sends one modification. It adds the desired subnets that the
  attachment lacks; but as soon as a subnet has to go it asks to remove those very subnets, and of
  the subnets that have to go only the last: the removal list is appended to the wrong list.
\<close>

theorem modification_removes_added_subnets:
  assumes "runtime_law R" "ds = map safeString (taSubnetIDs (taSpec desired))" "ls = map safeString (taSubnetIDs (taSpec latest))"
    and "\<not> DifferentAt R d ''Spec.Tags''" "DifferentExceptAt R d [''Spec.Tags'']"
    and "taState (taStatus latest) = Some AttachmentStateAvailable"
  shows "\<exists>input. calls (snd (sdkUpdate_Attachment api R rm desired latest d s)) = calls s @ [AttachmentCall (ModifyTransitGatewayVpcAttachment input)]
    \<and> mtaAddSubnetIds input = missingIn ls ds
    \<and> mtaRemoveSubnetIds input = (if missingIn ds ls = [] then [] else missingIn ls ds @ [last (missingIn ds ls)])"
proof (intro exI conjI)
  let ?input = "modifyAttachmentInput R desired latest"
  show "calls (snd (sdkUpdate_Attachment api R rm desired latest d s)) = calls s @ [AttachmentCall (ModifyTransitGatewayVpcAttachment ?input)]"
    using assms(4-6) by (auto simp: sdkUpdate_Attachment_def bind_def deref_def split: sum.split option.split)
  show "mtaAddSubnetIds ?input = missingIn ls ds"
    "mtaRemoveSubnetIds ?input = (if missingIn ds ls = [] then [] else missingIn ls ds @ [last (missingIn ds ls)])"
    by (simp_all add: modifyAttachmentInput_def compareSubnetIDs_eq [OF assms(1-3)] split_def)
qed

text \<open>
  An attachment that is not available is not modified. The update makes no call and returns the
  desired resource with an error: a requeue that names the desired resource's state, or, when that
  resource has none yet, a nil pointer, which in the returned error is not nil.
\<close>

theorem update_waits_for_available:
  assumes "\<not> DifferentAt R d ''Spec.Tags''" "DifferentExceptAt R d [''Spec.Tags'']"
    and "taState (taStatus latest) = Some st" "st \<noteq> AttachmentStateAvailable"
  shows "\<exists>e. sdkUpdate_Attachment api R rm desired latest d s = (Ret (Some desired, Some e), s)
    \<and> (e = NilRequeueNeeded \<longleftrightarrow> taState (taStatus desired) = None)
    \<and> (taState (taStatus desired) \<noteq> None \<longrightarrow> (\<exists>m. e = RequeueNeeded (GoError m)))"
  using assms by (cases "taState (taStatus desired)")
    (simp_all add: sdkUpdate_Attachment_def asError_def requeueWaitUntilCanModify_def)

subsection \<open>Witnesses\<close>

definition exampleAttachment :: "string list \<Rightarrow> string option \<Rightarrow> vpc_attachment" where
  "exampleAttachment subnets st = \<lparr>taSpec = \<lparr>taOptions = None, taSubnetIDs = map Some subnets, taSubnetRefs = [], taTags = None,
       taTransitGatewayID = Some ''tgw-1'', taTransitGatewayRef = None, taVPCID = Some ''vpc-1'', taVPCRef = None\<rparr>,
     taStatus = \<lparr>ACKResourceMetadata = None, Conditions = [], taCreationTime = None, taID = Some ''tgw-attach-1'', taState = st,
       taVPCOwnerID = None\<rparr>\<rparr>"

definition exampleAttachmentApi :: attachment_api where
  "exampleAttachmentApi = \<lparr>onCreateTags = (\<lambda>_ _. None), onDeleteTags = (\<lambda>_ _. None),
     onDescribeTransitGatewayVpcAttachments = (\<lambda>_ _. Inr (Some [])), onCreateTransitGatewayVpcAttachment = (\<lambda>_ _. Inr None),
     onModifyTransitGatewayVpcAttachment = (\<lambda>_ _. Inl (APIError ''InvalidParameterValue'' '''')),
     onDeleteTransitGatewayVpcAttachment = (\<lambda>_ _. None)\<rparr>"

lemma modification_removes_added_subnets_witness:
  "\<exists>input. calls (snd (sdkUpdate_Attachment exampleAttachmentApi exactRuntime exampleManager
        (exampleAttachment [''subnet-1'', ''subnet-2''] None) (exampleAttachment [''subnet-1'', ''subnet-3'', ''subnet-4''] (Some ''available''))
        [''Spec.SubnetIDs''] [])) = [AttachmentCall (ModifyTransitGatewayVpcAttachment input)]
    \<and> mtaAddSubnetIds input = [''subnet-2''] \<and> mtaRemoveSubnetIds input = [''subnet-2'', ''subnet-4'']"
proof -
  let ?d = "exampleAttachment [''subnet-1'', ''subnet-2''] None"
  let ?l = "exampleAttachment [''subnet-1'', ''subnet-3'', ''subnet-4''] (Some ''available'')"
  have "\<not> DifferentAt exactRuntime [''Spec.SubnetIDs''] ''Spec.Tags''" "DifferentExceptAt exactRuntime [''Spec.SubnetIDs''] [''Spec.Tags'']"
    by (simp_all add: exactRuntime_def liesAt_def)
  moreover have "[''subnet-1'', ''subnet-2''] = map safeString (taSubnetIDs (taSpec ?d))"
    "[''subnet-1'', ''subnet-3'', ''subnet-4''] = map safeString (taSubnetIDs (taSpec ?l))"
    "taState (taStatus ?l) = Some AttachmentStateAvailable"
    by (simp_all add: exampleAttachment_def AttachmentStateAvailable_def)
  ultimately show ?thesis
    using modification_removes_added_subnets [OF exactRuntime_law, of "[''subnet-1'', ''subnet-2'']" ?d "[''subnet-1'', ''subnet-3'', ''subnet-4'']" ?l
        "[''Spec.SubnetIDs'']" exampleAttachmentApi exampleManager "[]"] by simp
qed

lemma update_waits_for_available_witness:
  "sdkUpdate_Attachment exampleAttachmentApi exactRuntime exampleManager (exampleAttachment [] None)
      (exampleAttachment [''subnet-1''] (Some ''pending'')) [''Spec.SubnetIDs''] []
    = (Ret (Some (exampleAttachment [] None), Some NilRequeueNeeded), [])"
proof -
  have "\<not> DifferentAt exactRuntime [''Spec.SubnetIDs''] ''Spec.Tags''" "DifferentExceptAt exactRuntime [''Spec.SubnetIDs''] [''Spec.Tags'']"
    by (simp_all add: exactRuntime_def liesAt_def)
  moreover have "taState (taStatus (exampleAttachment [''subnet-1''] (Some ''pending''))) = Some ''pending''"
    "''pending'' \<noteq> AttachmentStateAvailable" "taState (taStatus (exampleAttachment [] None)) = None"
    by (simp_all add: exampleAttachment_def AttachmentStateAvailable_def)
  ultimately show ?thesis
    using update_waits_for_available [of exactRuntime "[''Spec.SubnetIDs'']" "exampleAttachment [''subnet-1''] (Some ''pending'')" "''pending''"
        exampleAttachmentApi exampleManager "exampleAttachment [] None" "[]"] by auto
qed

end
