(* ===== verification/VpcPeering.thy ===== *)
theory VpcPeering
  imports Runtime
begin

text \<open>
  The VPC peering connection controller (\<open>pkg/resource/vpc_peering_connection/hooks.go\<close>, \<open>sdk.go\<close>,
  \<open>delta.go\<close>): a connection is requested by one VPC, accepted by the other, and carries options of
  both sides. Names that another kind uses too carry the suffix \<open>_Peering\<close>.
\<close>

subsection \<open>Data\<close>

record peering_options =
  AllowDNSResolution :: "bool option"
  AllowEgressFromLocalClassicLink :: "bool option"
  AllowEgressFromLocalVPC :: "bool option"

text \<open>A CIDR block of a set is a struct with one field.\<close>

record peering_vpc_info =
  viCIDRBlock :: "string option"
  viCIDRBlockSet :: "string option list option"
  viIPv6CIDRBlockSet :: "string option list option"
  viOwnerID :: "string option"
  viPeeringOptions :: "peering_options option"
  viRegion :: "string option"
  viVPCID :: "string option"

record peering_state_reason =
  srCode :: "string option"
  srMessage :: "string option"

record vpc_peering_spec =
  pcAcceptRequest :: "bool option"
  pcAccepterOptions :: "peering_options option"
  pcPeerOwnerID :: "string option"
  pcPeerRegion :: "string option"
  pcPeerVPCID :: "string option"
  pcPeerVPCRef :: "ref_wrapper option"
  pcRequesterOptions :: "peering_options option"
  pcTags :: "tag list option"
  pcVPCID :: "string option"
  pcVPCRef :: "ref_wrapper option"

record vpc_peering_status = common_status +
  pcAccepterVPCInfo :: "peering_vpc_info option"
  pcExpirationTime :: "timestamp option"
  pcRequesterVPCInfo :: "peering_vpc_info option"
  pcState :: "peering_state_reason option"
  pcPeeringID :: "string option"

record vpc_peering =
  pcSpec :: vpc_peering_spec
  pcStatus :: vpc_peering_status

record peering_api = tags_api +
  onDescribeVpcPeeringConnections :: "call log \<Rightarrow> string list \<Rightarrow> error + sdk_peering_connection list option"
  onCreateVpcPeeringConnection :: "call log \<Rightarrow> create_peering_input \<Rightarrow> error + sdk_peering_connection option option"
  onAcceptVpcPeeringConnection :: "call log \<Rightarrow> string option \<Rightarrow> error option"
  onModifyVpcPeeringConnectionOptions :: "call log \<Rightarrow> modify_peering_input \<Rightarrow> error + modify_peering_options option"
  onDeleteVpcPeeringConnection :: "call log \<Rightarrow> string option \<Rightarrow> error option"

subsection \<open>The state of a connection\<close>

definition codeOf :: "vpc_peering \<Rightarrow> string option" where
  "codeOf r = (case pcState (pcStatus r) of None \<Rightarrow> None | Some s \<Rightarrow> srCode s)"

definition isVPCPeeringConnectionCreating :: "vpc_peering \<Rightarrow> bool" where
  "isVPCPeeringConnectionCreating r \<longleftrightarrow> codeOf r = Some ''initiating-request''"

definition isVPCPeeringConnectionProvisioning :: "vpc_peering \<Rightarrow> bool" where
  "isVPCPeeringConnectionProvisioning r \<longleftrightarrow> codeOf r = Some ''provisioning''"

definition isVPCPeeringConnectionDeleting :: "vpc_peering \<Rightarrow> bool" where
  "isVPCPeeringConnectionDeleting r \<longleftrightarrow> codeOf r = Some ''deleting''"

definition isVPCPeeringConnectionActive :: "vpc_peering \<Rightarrow> bool" where
  "isVPCPeeringConnectionActive r \<longleftrightarrow> codeOf r = Some ''active''"

definition isVPCPeeringConnectionPendingAcceptance :: "vpc_peering \<Rightarrow> bool" where
  "isVPCPeeringConnectionPendingAcceptance r \<longleftrightarrow> codeOf r = Some ''pending-acceptance''"

definition requeueWait :: "string \<Rightarrow> error" where
  "requeueWait state = RequeueNeededAfter (Some (GoError (''VPCPeeringConnection in '' @ [CHR 39] @ state @ [CHR 39]
     @ '' state, cannot be modified or deleted''))) 5"

definition requeueWaitWhileCreating :: error where "requeueWaitWhileCreating = requeueWait ''creating''"
definition requeueWaitWhileProvisioning :: error where "requeueWaitWhileProvisioning = requeueWait ''provisioning''"
definition requeueWaitWhileDeleting :: error where "requeueWaitWhileDeleting = requeueWait ''deleting''"

subsection \<open>Reading\<close>

definition optionsFromSdk :: "sdk_peering_options \<Rightarrow> peering_options" where
  "optionsFromSdk x = \<lparr>AllowDNSResolution = sdkPoAllowDnsResolutionFromRemoteVpc x,
     AllowEgressFromLocalClassicLink = sdkPoAllowEgressFromLocalClassicLinkToRemoteVpc x,
     AllowEgressFromLocalVPC = sdkPoAllowEgressFromLocalVpcToRemoteClassicLink x\<rparr>"

definition vpcInfoFromSdk :: "sdk_peering_vpc_info \<Rightarrow> peering_vpc_info" where
  "vpcInfoFromSdk x = \<lparr>viCIDRBlock = sdkPvCidrBlock x, viCIDRBlockSet = sdkPvCidrBlockSet x,
     viIPv6CIDRBlockSet = sdkPvIpv6CidrBlockSet x, viOwnerID = sdkPvOwnerId x,
     viPeeringOptions = map_option optionsFromSdk (sdkPvPeeringOptions x), viRegion = sdkPvRegion x, viVPCID = sdkPvVpcId x\<rparr>"

definition stateFromSdk :: "sdk_peering_state \<Rightarrow> peering_state_reason" where
  "stateFromSdk x = \<lparr>srCode = enumPtr (sdkPsCode x), srMessage = sdkPsMessage x\<rparr>"

definition setFrom_Peering :: "vpc_peering \<Rightarrow> sdk_peering_connection \<Rightarrow> vpc_peering" where
  "setFrom_Peering k x =
     k\<lparr>pcSpec := (pcSpec k)\<lparr>pcTags := map_option resourceTags (sdkPcTags x)\<rparr>,
       pcStatus := (pcStatus k)\<lparr>pcAccepterVPCInfo := map_option vpcInfoFromSdk (sdkPcAccepterVpcInfo x),
         pcExpirationTime := sdkPcExpirationTime x, pcRequesterVPCInfo := map_option vpcInfoFromSdk (sdkPcRequesterVpcInfo x),
         pcState := map_option stateFromSdk (sdkPcStatus x), pcPeeringID := sdkPcVpcPeeringConnectionId x\<rparr>\<rparr>"

definition defaults_Peering :: "resource_manager \<Rightarrow> vpc_peering \<Rightarrow> vpc_peering" where
  "defaults_Peering rm k = k\<lparr>pcStatus := setStatusDefaults rm (pcStatus k)\<rparr>"

text \<open>An adopted connection takes the VPC of the requester.\<close>

definition adoptVPC :: "vpc_peering \<Rightarrow> vpc_peering" where
  "adoptVPC k =
     (case pcRequesterVPCInfo (pcStatus k) of
        None \<Rightarrow> k
      | Some i \<Rightarrow> if pcVPCID (pcSpec k) = None \<and> viVPCID i \<noteq> None
                  then k\<lparr>pcSpec := (pcSpec k)\<lparr>pcVPCID := viVPCID i\<rparr>\<rparr> else k)"

text \<open>
  The options of a read are those of the resource it was given. On the accepter's side the first
  assignment goes to the wrong field: the DNS option is written over the egress option, and stays
  there unless the resource has that one too.
\<close>

definition copiedAccepterOptions :: "peering_options \<Rightarrow> peering_options" where
  "copiedAccepterOptions x = \<lparr>AllowDNSResolution = None,
     AllowEgressFromLocalClassicLink =
       (if AllowEgressFromLocalClassicLink x \<noteq> None then AllowEgressFromLocalClassicLink x else AllowDNSResolution x),
     AllowEgressFromLocalVPC = AllowEgressFromLocalVPC x\<rparr>"

definition copiedOptions :: "peering_options \<Rightarrow> peering_options" where
  "copiedOptions x = \<lparr>AllowDNSResolution = AllowDNSResolution x,
     AllowEgressFromLocalClassicLink = AllowEgressFromLocalClassicLink x,
     AllowEgressFromLocalVPC = AllowEgressFromLocalVPC x\<rparr>"

definition copyOptions :: "vpc_peering \<Rightarrow> vpc_peering \<Rightarrow> vpc_peering" where
  "copyOptions r k =
     k\<lparr>pcSpec := (pcSpec k)\<lparr>pcAccepterOptions := map_option copiedAccepterOptions (pcAccepterOptions (pcSpec r)),
         pcRequesterOptions := map_option copiedOptions (pcRequesterOptions (pcSpec r))\<rparr>\<rparr>"

definition putAcceptRequest :: "bool \<Rightarrow> vpc_peering \<Rightarrow> vpc_peering" where
  "putAcceptRequest b k = k\<lparr>pcSpec := (pcSpec k)\<lparr>pcAcceptRequest := Some b\<rparr>\<rparr>"

definition readState :: "vpc_peering \<Rightarrow> vpc_peering option \<times> error option" where
  "readState res =
     (if isVPCPeeringConnectionPendingAcceptance res then (Some (putAcceptRequest False res), None)
      else if isVPCPeeringConnectionActive res \<or> isVPCPeeringConnectionProvisioning res
      then (Some (putAcceptRequest True res), None)
      else if isVPCPeeringConnectionCreating res then (Some res, Some requeueWaitWhileCreating)
      else (Some res, None))"

definition requiredFieldsMissing_Peering :: "vpc_peering \<Rightarrow> bool" where
  "requiredFieldsMissing_Peering r \<longleftrightarrow> pcPeeringID (pcStatus r) = None"

definition newListRequestPayload_Peering :: "vpc_peering \<Rightarrow> string list" where
  "newListRequestPayload_Peering r = (case pcPeeringID (pcStatus r) of None \<Rightarrow> [] | Some i \<Rightarrow> [i])"

definition sdkFind_Peering ::
  "'x peering_api_scheme \<Rightarrow> resource_manager \<Rightarrow> vpc_peering \<Rightarrow> (vpc_peering option \<times> error option) act" where
  "sdkFind_Peering api rm r =
     readMany (requiredFieldsMissing_Peering r) (\<lambda>i. PeeringCall (DescribeVpcPeeringConnections i)) (onDescribeVpcPeeringConnections api)
       ''DescribeVpcPeeringConnections'' (newListRequestPayload_Peering r)
       (\<lambda>elem. ret (readState (copyOptions r (adoptVPC (defaults_Peering rm (setFrom_Peering r elem))))))"

subsection \<open>Creating and deleting\<close>

definition notSynced_Peering :: "('y) ack_runtime_scheme \<Rightarrow> vpc_peering \<Rightarrow> vpc_peering" where
  "notSynced_Peering R k =
     k\<lparr>pcStatus := (pcStatus k)\<lparr>Conditions := SetSynced R ConditionFalse None None (Conditions (pcStatus k))\<rparr>\<rparr>"

definition newCreateRequestPayload_Peering :: "vpc_peering \<Rightarrow> create_peering_input" where
  "newCreateRequestPayload_Peering r =
     \<lparr>cpcPeerOwnerId = pcPeerOwnerID (pcSpec r), cpcPeerRegion = pcPeerRegion (pcSpec r), cpcPeerVpcId = pcPeerVPCID (pcSpec r),
      cpcVpcId = pcVPCID (pcSpec r), cpcTagSpecifications = None\<rparr>"

definition updateTagSpecifications_Peering :: "vpc_peering \<Rightarrow> create_peering_input \<Rightarrow> create_peering_input" where
  "updateTagSpecifications_Peering r input =
     input\<lparr>cpcTagSpecifications := tagSpecificationsFor ''vpc-peering-connection'' (pcTags (pcSpec r))\<rparr>"

definition sdkCreate_Peering ::
  "'x peering_api_scheme \<Rightarrow> ('y) ack_runtime_scheme \<Rightarrow> resource_manager \<Rightarrow> vpc_peering \<Rightarrow> (vpc_peering option \<times> error option) act" where
  "sdkCreate_Peering api R rm desired =
     createOne (\<lambda>i. PeeringCall (CreateVpcPeeringConnection i)) (onCreateVpcPeeringConnection api) ''CreateVpcPeeringConnection''
       (updateTagSpecifications_Peering desired (newCreateRequestPayload_Peering desired))
       (\<lambda>resp. ret (Some (notSynced_Peering R (defaults_Peering rm (setFrom_Peering desired resp))), None))"

definition sdkDelete_Peering :: "'x peering_api_scheme \<Rightarrow> vpc_peering \<Rightarrow> (vpc_peering option \<times> error option) act" where
  "sdkDelete_Peering api r =
     deleteOne (\<lambda>i. PeeringCall (DeleteVpcPeeringConnection i)) (onDeleteVpcPeeringConnection api) ''DeleteVpcPeeringConnection''
       (pcPeeringID (pcStatus r))"

subsection \<open>Comparing\<close>

definition comparePeeringOptions ::
  "('x) ackcompare_scheme \<Rightarrow> string \<Rightarrow> peering_options option \<Rightarrow> peering_options option \<Rightarrow> delta \<Rightarrow> delta" where
  "comparePeeringOptions C p =
     compareStruct C p (\<lambda>u v d.
       cmpBool C (p @ ''.AllowEgressFromLocalVPCToRemoteClassicLink'') (AllowEgressFromLocalVPC u) (AllowEgressFromLocalVPC v)
      (cmpBool C (p @ ''.AllowEgressFromLocalClassicLinkToRemoteVPC'') (AllowEgressFromLocalClassicLink u) (AllowEgressFromLocalClassicLink v)
      (cmpBool C (p @ ''.AllowDNSResolutionFromRemoteVPC'') (AllowDNSResolution u) (AllowDNSResolution v) d)))"

definition compareSpecs_Peering :: "('x) ackcompare_scheme \<Rightarrow> vpc_peering_spec \<Rightarrow> vpc_peering_spec \<Rightarrow> delta" where
  "compareSpecs_Peering C a b =
    (let d1 = cmpBool C ''Spec.AcceptRequest'' (pcAcceptRequest a) (pcAcceptRequest b) [];
         d2 = comparePeeringOptions C ''Spec.AccepterPeeringConnectionOptions'' (pcAccepterOptions a) (pcAccepterOptions b) d1;
         d3 = cmpStr C ''Spec.PeerOwnerID'' (pcPeerOwnerID a) (pcPeerOwnerID b) d2;
         d4 = cmpStr C ''Spec.PeerRegion'' (pcPeerRegion a) (pcPeerRegion b) d3;
         d5 = cmpStr C ''Spec.PeerVPCID'' (pcPeerVPCID a) (pcPeerVPCID b) d4;
         d6 = compareRef C ''Spec.PeerVPCRef'' (pcPeerVPCRef a) (pcPeerVPCRef b) d5;
         d7 = comparePeeringOptions C ''Spec.RequesterPeeringConnectionOptions'' (pcRequesterOptions a) (pcRequesterOptions b) d6;
         d8 = compareTags C ''Spec.Tags'' (pcTags a) (pcTags b) d7;
         d9 = cmpStr C ''Spec.VPCID'' (pcVPCID a) (pcVPCID b) d8
     in compareRef C ''Spec.VPCRef'' (pcVPCRef a) (pcVPCRef b) d9)"

definition newResourceDelta_Peering :: "('x) ackcompare_scheme \<Rightarrow> vpc_peering option \<Rightarrow> vpc_peering option \<Rightarrow> delta act" where
  "newResourceDelta_Peering C a b = bothResources a b (\<lambda>x y. compareSpecs_Peering C (pcSpec x) (pcSpec y)) (\<lambda>d. d)"

subsection \<open>Updating\<close>

definition mirrorTags_Peering :: "(acktags \<Rightarrow> acktags) \<Rightarrow> vpc_peering \<Rightarrow> vpc_peering option \<Rightarrow> vpc_peering" where
  "mirrorTags_Peering iter a b =
     (case b of None \<Rightarrow> a
      | Some l \<Rightarrow> a\<lparr>pcSpec := (pcSpec a)\<lparr>pcTags := mirrorAWSTags iter (pcTags (pcSpec a)) (pcTags (pcSpec l))\<rparr>\<rparr>)"

text \<open>The update reads the connection with \<open>ReadOne\<close>, which uses the operations of the kind but for the update.\<close>

definition pcReader ::
  "'x peering_api_scheme \<Rightarrow> ('y) ack_runtime_scheme \<Rightarrow> resource_manager \<Rightarrow> error_texts \<Rightarrow> vpc_peering kind" where
  "pcReader api R rm env =
     \<lparr>findOp = (\<lambda>r. bind (sdkFind_Peering api rm r) (\<lambda>x. ret (r, x))),
      createOp = sdkCreate_Peering api R rm,
      updateOp = (\<lambda>_ _ _. panic),
      deleteOp = sdkDelete_Peering api,
      mirrorOp = mirrorTags_Peering (rangeOf R),
      conditionsOp = (\<lambda>k. Conditions (pcStatus k)),
      updateConditionsOp = conditionsUpdater env [] rm pcStatus (\<lambda>st k. k\<lparr>pcStatus := st\<rparr>)\<rparr>"

definition acceptPeering ::
  "'x peering_api_scheme \<Rightarrow> ('y) ack_runtime_scheme \<Rightarrow> resource_manager \<Rightarrow> error_texts \<Rightarrow> vpc_peering \<Rightarrow> vpc_peering
   \<Rightarrow> (vpc_peering option \<times> error option) act" where
  "acceptPeering api R rm env desired latest =
     bind (invoke (\<lambda>i. PeeringCall (AcceptVpcPeeringConnection i)) (onAcceptVpcPeeringConnection api) (pcPeeringID (pcStatus latest))) (\<lambda>err.
     ifErr err (\<lambda>e. ret (None, Some e))
    (bind (ReadOne (pcReader api R rm env) desired) (\<lambda>(desired, readOneLatest, err).
     ifErr err (\<lambda>e. ret (None, Some e))
    (bind (deref readOneLatest) (\<lambda>latest.
     ret (Some (notSynced_Peering R (desired\<lparr>pcStatus := (pcStatus desired)\<lparr>pcState := pcState (pcStatus latest)\<rparr>\<rparr>)), None))))))"

definition optionsToSdk :: "peering_options \<Rightarrow> sdk_peering_options" where
  "optionsToSdk x = \<lparr>sdkPoAllowDnsResolutionFromRemoteVpc = AllowDNSResolution x,
     sdkPoAllowEgressFromLocalClassicLinkToRemoteVpc = AllowEgressFromLocalClassicLink x,
     sdkPoAllowEgressFromLocalVpcToRemoteClassicLink = AllowEgressFromLocalVPC x\<rparr>"

definition newUpdateRequestPayload_Peering :: "vpc_peering \<Rightarrow> modify_peering_input" where
  "newUpdateRequestPayload_Peering r =
     \<lparr>mpoAccepterPeeringConnectionOptions = map_option optionsToSdk (pcAccepterOptions (pcSpec r)),
      mpoRequesterPeeringConnectionOptions = map_option optionsToSdk (pcRequesterOptions (pcSpec r)),
      mpoVpcPeeringConnectionId = pcPeeringID (pcStatus r)\<rparr>"

definition refreshOptions :: "vpc_peering \<Rightarrow> vpc_peering" where
  "refreshOptions k =
     k\<lparr>pcSpec := (pcSpec k)\<lparr>pcAccepterOptions := map_option copiedOptions (pcAccepterOptions (pcSpec k)),
         pcRequesterOptions := map_option copiedOptions (pcRequesterOptions (pcSpec k))\<rparr>\<rparr>"

definition setModified :: "vpc_peering \<Rightarrow> modify_peering_options \<Rightarrow> vpc_peering" where
  "setModified k x =
     k\<lparr>pcSpec := (pcSpec k)\<lparr>pcAccepterOptions := map_option optionsFromSdk (mpoAccepterPeeringConnectionOptions x),
         pcRequesterOptions := map_option optionsFromSdk (mpoRequesterPeeringConnectionOptions x)\<rparr>\<rparr>"

definition modifyOptions ::
  "'x peering_api_scheme \<Rightarrow> resource_manager \<Rightarrow> vpc_peering \<Rightarrow> (vpc_peering option \<times> error option) act" where
  "modifyOptions api rm desired =
     bind (invoke (\<lambda>i. PeeringCall (ModifyVpcPeeringConnectionOptions i)) (onModifyVpcPeeringConnectionOptions api)
             (newUpdateRequestPayload_Peering desired)) (\<lambda>r.
     bind (recordAPICall ''UPDATE'' ''ModifyVpcPeeringConnectionOptions'' (errOf r)) (\<lambda>_.
     case r of
       Inl e \<Rightarrow> ret (None, Some e)
     | Inr out \<Rightarrow> bind (deref out) (\<lambda>resp. ret (Some (defaults_Peering rm (setModified desired resp)), None))))"

definition acceptRefused :: error where
  "acceptRefused = TerminalError (GoError ''you cannot set AcceptRequest to false after setting it to true'')"

definition sdkUpdate_Peering ::
  "'x peering_api_scheme \<Rightarrow> ('y) ack_runtime_scheme \<Rightarrow> resource_manager \<Rightarrow> error_texts \<Rightarrow> vpc_peering \<Rightarrow> vpc_peering \<Rightarrow> delta
   \<Rightarrow> (vpc_peering option \<times> error option) act" where
  "sdkUpdate_Peering api R rm env desired latest d =
     (if isVPCPeeringConnectionCreating latest then ret (Some desired, Some requeueWaitWhileCreating)
      else if isVPCPeeringConnectionProvisioning latest then ret (Some desired, Some requeueWaitWhileProvisioning)
      else if isVPCPeeringConnectionDeleting latest then ret (Some desired, Some requeueWaitWhileDeleting)
      else
        syncTagsIf api (DifferentAt R d ''Spec.Tags'') (pcPeeringID (pcStatus latest)) (pcTags (pcSpec desired)) (pcTags (pcSpec latest))
       (let modify = (if \<not> DifferentExceptAt R d [''Spec.Tags'', ''Spec.AcceptRequest''] then ret (Some desired, None)
                      else modifyOptions api rm (refreshOptions desired))
        in if DifferentAt R d ''Spec.AcceptRequest''
           then (if pcAcceptRequest (pcSpec desired) = None \<or> pcAcceptRequest (pcSpec desired) = Some False
                 then ret (None, Some acceptRefused)
                 else bind (deref (pcState (pcStatus latest))) (\<lambda>st. bind (deref (srCode st)) (\<lambda>code.
                      if code = ''pending-acceptance'' then acceptPeering api R rm env desired latest else modify)))
           else modify))"

subsection \<open>The kind\<close>

definition pcKind ::
  "'x peering_api_scheme \<Rightarrow> ('y) ack_runtime_scheme \<Rightarrow> resource_manager \<Rightarrow> error_texts \<Rightarrow> vpc_peering kind" where
  "pcKind api R rm env = (pcReader api R rm env)
     \<lparr>updateOp := (\<lambda>desired latest d. bind (sdkUpdate_Peering api R rm env desired latest d) (\<lambda>x. ret (latest, x)))\<rparr>"

text \<open>Reading with or without the update is the same.\<close>

lemma ReadOne_reader: "ReadOne (pcReader api R rm env) = ReadOne (pcKind api R rm env)"
proof -
  have f: "findOp (pcReader api R rm env) = findOp (pcKind api R rm env)" "mirrorOp (pcReader api R rm env) = mirrorOp (pcKind api R rm env)"
    "conditionsOp (pcReader api R rm env) = conditionsOp (pcKind api R rm env)"
    "updateConditionsOp (pcReader api R rm env) = updateConditionsOp (pcKind api R rm env)"
    by (simp_all add: pcKind_def)
  have e: "onError (pcReader api R rm env) r e = onError (pcKind api R rm env) r e"
    "onSuccess (pcReader api R rm env) r = onSuccess (pcKind api R rm env) r" for r e
    unfolding onError_def onSuccess_def f by (rule refl)+
  show ?thesis by (intro ext) (simp only: ReadOne_def e f)
qed

lemma pc_reports: "AWSError_law env \<Longrightarrow> reporting_kind (pcKind api R rm env) []"
  by (rule conditionsUpdater_reports [where get = pcStatus and put = "\<lambda>st k. k\<lparr>pcStatus := st\<rparr>"]) (simp_all add: pcKind_def pcReader_def)

interpretation pc_kind: reporting_kind "pcKind api R rm plainTexts" "[]"
  for api :: "'x peering_api_scheme" and R :: "('y) ack_runtime_scheme" and rm
  by (rule pc_reports [OF plainTexts_law])

subsection \<open>What a read gives\<close>

lemma defaults_Peering_simps [simp]:
  "pcSpec (defaults_Peering rm k) = pcSpec k"
  "pcState (pcStatus (defaults_Peering rm k)) = pcState (pcStatus k)"
  "pcRequesterVPCInfo (pcStatus (defaults_Peering rm k)) = pcRequesterVPCInfo (pcStatus k)"
  "Conditions (pcStatus (defaults_Peering rm k)) = Conditions (pcStatus k)"
  by (cases "pcStatus k"; simp add: defaults_Peering_def setStatusDefaults_def Let_def vpc_peering_status.defs)+

lemma adoptVPC_simps [simp]:
  "pcStatus (adoptVPC k) = pcStatus k" "pcTags (pcSpec (adoptVPC k)) = pcTags (pcSpec k)"
  by (simp_all add: adoptVPC_def split: option.split)

abbreviation readPeering :: "resource_manager \<Rightarrow> vpc_peering \<Rightarrow> sdk_peering_connection \<Rightarrow> vpc_peering" where
  "readPeering rm r x \<equiv> copyOptions r (adoptVPC (defaults_Peering rm (setFrom_Peering r x)))"

lemma sdkFind_Peering_found:
  assumes "pcPeeringID (pcStatus r) = Some i" "onDescribeVpcPeeringConnections api s [i] = Inr (Some (x # xs))"
  shows "sdkFind_Peering api rm r s = (Ret (readState (readPeering rm r x)),
    s @ [Call (PeeringCall (DescribeVpcPeeringConnections [i])), Metric ''READ_MANY'' ''DescribeVpcPeeringConnections'' None])"
  using assms by (simp add: sdkFind_Peering_def requiredFieldsMissing_Peering_def newListRequestPayload_Peering_def readMany_simps)

lemma readPeering_code:
  "codeOf (readPeering rm r x) = (case sdkPcStatus x of None \<Rightarrow> None | Some st \<Rightarrow> enumPtr (sdkPsCode st))"
  by (cases "sdkPcStatus x") (simp_all add: codeOf_def copyOptions_def setFrom_Peering_def stateFromSdk_def)

text \<open>Whatever EC2 answers, the options of a read resource are copied from the one it was read for.\<close>

lemma sdkFind_Peering_options:
  assumes "sdkFind_Peering api rm r s = (Ret (Some k, e), t)"
  shows "pcAccepterOptions (pcSpec k) = map_option copiedAccepterOptions (pcAccepterOptions (pcSpec r))
    \<and> pcRequesterOptions (pcSpec k) = pcRequesterOptions (pcSpec r)"
proof -
  have id: "map_option copiedOptions o' = o'" for o' by (cases o') (simp_all add: copiedOptions_def)
  from assms obtain x where "readState (readPeering rm r x) = (Some k, e)"
    by (auto simp: sdkFind_Peering_def readMany_def bind_def deref_def split: if_splits sum.splits option.splits list.splits)
  then show ?thesis
    by (auto simp: readState_def putAcceptRequest_def copyOptions_def id split: if_splits)
qed

subsection \<open>Comparing options\<close>

definition peeringDiff :: "('x) ackcompare_scheme \<Rightarrow> string \<Rightarrow> peering_options option \<Rightarrow> peering_options option \<Rightarrow> delta" where
  "peeringDiff C p x y = comparePeeringOptions C p x y []"

lemma mem_comparePeeringOptions:
  "q \<in> set (comparePeeringOptions C p x y d) \<longleftrightarrow> q \<in> set d \<or> q \<in> set (peeringDiff C p x y)"
  unfolding peeringDiff_def comparePeeringOptions_def compareStruct_def by (auto simp: mem_comparePtr split: option.split)

lemma paths_peeringDiff: "q \<in> set (peeringDiff C p x y) \<Longrightarrow> liesAt p q"
  unfolding peeringDiff_def comparePeeringOptions_def compareStruct_def by (auto simp: mem_comparePtr liesAt_def split: option.splits if_splits)

lemma mem_compareSpecs_Peering:
  "q \<in> set (compareSpecs_Peering C a b) \<longleftrightarrow>
     q = ''Spec.AcceptRequest'' \<and> cmpBool C ''Spec.AcceptRequest'' (pcAcceptRequest a) (pcAcceptRequest b) [] \<noteq> []
   \<or> q \<in> set (peeringDiff C ''Spec.AccepterPeeringConnectionOptions'' (pcAccepterOptions a) (pcAccepterOptions b))
   \<or> q = ''Spec.PeerOwnerID'' \<and> cmpStr C ''Spec.PeerOwnerID'' (pcPeerOwnerID a) (pcPeerOwnerID b) [] \<noteq> []
   \<or> q = ''Spec.PeerRegion'' \<and> cmpStr C ''Spec.PeerRegion'' (pcPeerRegion a) (pcPeerRegion b) [] \<noteq> []
   \<or> q = ''Spec.PeerVPCID'' \<and> cmpStr C ''Spec.PeerVPCID'' (pcPeerVPCID a) (pcPeerVPCID b) [] \<noteq> []
   \<or> q = ''Spec.PeerVPCRef'' \<and> compareRef C ''Spec.PeerVPCRef'' (pcPeerVPCRef a) (pcPeerVPCRef b) [] \<noteq> []
   \<or> q \<in> set (peeringDiff C ''Spec.RequesterPeeringConnectionOptions'' (pcRequesterOptions a) (pcRequesterOptions b))
   \<or> q = ''Spec.Tags'' \<and> compareTags C ''Spec.Tags'' (pcTags a) (pcTags b) [] \<noteq> []
   \<or> q = ''Spec.VPCID'' \<and> cmpStr C ''Spec.VPCID'' (pcVPCID a) (pcVPCID b) [] \<noteq> []
   \<or> q = ''Spec.VPCRef'' \<and> compareRef C ''Spec.VPCRef'' (pcVPCRef a) (pcVPCRef b) [] \<noteq> []"
  unfolding compareSpecs_Peering_def Let_def mem_compare mem_comparePeeringOptions by (simp only: list.set empty_iff simp_thms disj_ac)

lemma comparePeeringOptions_same:
  assumes "ackcompare_law C"
  shows "comparePeeringOptions C p x x d = d"
proof -
  have hnd: "hnd_law (HasNilDifference C)" using assms by (simp add: ackcompare_law_def)
  have "\<not> HasNilDifference C (IStruct u) (IStruct u)" for u using hnd by (auto simp: hnd_law_def)
  with hnd show ?thesis by (cases x) (simp_all add: comparePeeringOptions_def compareStruct_def agree_def)
qed

subsection \<open>Properties\<close>

text \<open>
  A connection on its way is left alone. While the latest resource is being requested, is being
  provisioned or is being deleted, the update makes no call, not even for the tags, and asks to be
  called again in five seconds.
\<close>

theorem update_waits_for_peering:
  assumes "codeOf latest \<in> {Some ''initiating-request'', Some ''provisioning'', Some ''deleting''}"
  shows "\<exists>m. sdkUpdate_Peering api R rm env desired latest d s = (Ret (Some desired, Some (RequeueNeededAfter (Some m) 5)), s)"
  using assms by (auto simp: sdkUpdate_Peering_def isVPCPeeringConnectionCreating_def isVPCPeeringConnectionProvisioning_def
      isVPCPeeringConnectionDeleting_def requeueWaitWhileCreating_def requeueWaitWhileProvisioning_def requeueWaitWhileDeleting_def requeueWait_def)

text \<open>
  Leaving the acceptance to the other side ends in a terminal error. When the spec says nothing
  about the acceptance and the connection has become active, the read gives \<open>AcceptRequest\<close> true,
  the comparison takes that for a difference, and the update refuses it: the resource is terminal,
  although nobody set the field to true before.
\<close>

theorem peer_acceptance_is_terminal:
  assumes "AWSError_law env" "runtime_law R" "HasNilDifference C (IBool None) (IBool (Some True))"
    and "pcAcceptRequest (pcSpec r) = None" "pcPeeringID (pcStatus r) = Some i" "uniqueTypes (Conditions (pcStatus r))"
    and "onDescribeVpcPeeringConnections api s [i] = Inr (Some (x # xs))" "sdkPcStatus x = Some st" "sdkPsCode st = ''active''"
    and "compareTags C ''Spec.Tags'' (pcTags (pcSpec r)) (map_option resourceTags (sdkPcTags x)) [] = []"
  shows "\<exists>latest t k. sdkFind_Peering api rm r s = (Ret (Some latest, None), t)
    \<and> Update (pcKind api R rm env) r latest (compareSpecs_Peering C (pcSpec r) (pcSpec latest)) t = (Ret (Some k, Some Terminal), t)"
proof -
  let ?l = "putAcceptRequest True (readPeering rm r x)" and ?K = "pcKind api R rm env"
  let ?d = "compareSpecs_Peering C (pcSpec r) (pcSpec ?l)"
  let ?t = "s @ [Call (PeeringCall (DescribeVpcPeeringConnections [i])), Metric ''READ_MANY'' ''DescribeVpcPeeringConnections'' None]"
  have code: "codeOf (readPeering rm r x) = Some ''active''" using assms(8,9) by (simp add: readPeering_code enumPtr_def)
  then have "readState (readPeering rm r x) = (Some ?l, None)"
    by (simp add: readState_def isVPCPeeringConnectionPendingAcceptance_def isVPCPeeringConnectionActive_def)
  with sdkFind_Peering_found [OF assms(5,7)] have f: "sdkFind_Peering api rm r s = (Ret (Some ?l, None), ?t)" by simp
  have l: "codeOf ?l = Some ''active''" "pcTags (pcSpec ?l) = map_option resourceTags (sdkPcTags x)"
    "Conditions (pcStatus ?l) = Conditions (pcStatus r)" "pcAcceptRequest (pcSpec ?l) = Some True"
    using code by (simp_all add: codeOf_def putAcceptRequest_def copyOptions_def setFrom_Peering_def)
  have "''Spec.AcceptRequest'' \<in> set ?d"
    unfolding mem_compareSpecs_Peering using assms(3,4) l(4) by (simp add: comparePtr_def)
  then have a: "DifferentAt R ?d ''Spec.AcceptRequest''" unfolding runtime_simps(1) [OF assms(2)] liesAt_def by blast
  have "\<not> liesAt ''Spec.Tags'' q" if "q \<in> set ?d" for q
  proof
    assume t: "liesAt ''Spec.Tags'' q"
    have off: "q \<notin> set (peeringDiff C p u v)" if "p = ''Spec.AccepterPeeringConnectionOptions'' \<or> p = ''Spec.RequesterPeeringConnectionOptions''" for p u v
    proof
      assume "q \<in> set (peeringDiff C p u v)"
      from liesAt_related [OF t paths_peeringDiff [OF this]] that show False by auto
    qed
    from that show False unfolding mem_compareSpecs_Peering
      using t assms(10) l(2) off by (auto simp: liesAt_def)
  qed
  then have "\<not> DifferentAt R ?d ''Spec.Tags''" unfolding runtime_simps(1) [OF assms(2)] by blast
  with a l(1) assms(4) have "updateOp ?K r ?l ?d u = (Ret (?l, None, Some acceptRefused), u)" for u
    by (simp add: pcKind_def sdkUpdate_Peering_def isVPCPeeringConnectionCreating_def isVPCPeeringConnectionProvisioning_def
        isVPCPeeringConnectionDeleting_def Let_def)
  moreover have "\<exists>y. finishOp ?K ?l (None, Some acceptRefused) u = (Ret (Some y, Some Terminal), u)" for u
  proof -
    have "uniqueTypes (conditionsOp ?K ?l)" using assms(6) l(3) by (simp add: pcKind_def pcReader_def)
    moreover have "isTerminal [] (Some acceptRefused)" by (simp add: isTerminal_def acceptRefused_def)
    ultimately show ?thesis using reporting_kind.finishOp_error [OF pc_reports [OF assms(1)], of api R rm ?l None acceptRefused u] by auto
  qed
  ultimately obtain y where "Update ?K r ?l ?d ?t = (Ret (Some y, Some Terminal), ?t)" by (fastforce simp: Update_def)
  with f show ?thesis by blast
qed

text \<open>
  C37. The accepter's DNS option never settles. A read never gives that option, because it is copied
  to another field, so a spec that has it differs from what was read whatever EC2 answers.
\<close>

theorem accepter_dns_option_never_settles:
  assumes "ackcompare_law C" "HasNilDifference C (IBool (Some b)) (IBool None)"
    and "pcAccepterOptions (pcSpec r) = Some o'" "AllowDNSResolution o' = Some b"
    and "sdkFind_Peering api rm r s = (Ret (Some k, e), t)"
  shows "''Spec.AccepterPeeringConnectionOptions.AllowDNSResolutionFromRemoteVPC'' \<in> set (compareSpecs_Peering C (pcSpec r) (pcSpec k))"
proof -
  have hnd: "hnd_law (HasNilDifference C)" using assms(1) by (simp add: ackcompare_law_def)
  have k: "pcAccepterOptions (pcSpec k) = Some (copiedAccepterOptions o')" "AllowDNSResolution (copiedAccepterOptions o') = None"
    using sdkFind_Peering_options [OF assms(5)] assms(3) by (simp_all add: copiedAccepterOptions_def)
  have "\<not> HasNilDifference C (IStruct (Some ())) (IStruct (Some ()))" using hnd by (auto simp: hnd_law_def)
  moreover have "cmpBool C p (AllowDNSResolution o') (AllowDNSResolution (copiedAccepterOptions o')) [] \<noteq> []" for p
    using assms(2,4) k(2) by (simp add: comparePtr_def)
  ultimately have in2: "''Spec.AccepterPeeringConnectionOptions.AllowDNSResolutionFromRemoteVPC''
      \<in> set (peeringDiff C ''Spec.AccepterPeeringConnectionOptions'' (Some o') (Some (copiedAccepterOptions o')))"
    by (simp add: peeringDiff_def comparePeeringOptions_def compareStruct_def mem_comparePtr)
  then show ?thesis unfolding mem_compareSpecs_Peering assms(3) k(1) by blast
qed

text \<open>
  The requester's options are never compared with EC2. A read returns the options it was given,
  so they never are a difference, and the creation does not send them: alone they are never applied.
\<close>

theorem requester_options_never_differ:
  assumes "ackcompare_law C" "sdkFind_Peering api rm r s = (Ret (Some k, e), t)"
    and "q \<in> set (compareSpecs_Peering C (pcSpec r) (pcSpec k))"
  shows "\<not> liesAt ''Spec.RequesterPeeringConnectionOptions'' q"
proof -
  have "pcRequesterOptions (pcSpec k) = pcRequesterOptions (pcSpec r)" using sdkFind_Peering_options [OF assms(2)] by simp
  then have "peeringDiff C ''Spec.RequesterPeeringConnectionOptions'' (pcRequesterOptions (pcSpec r)) (pcRequesterOptions (pcSpec k)) = []"
    using comparePeeringOptions_same [OF assms(1)] by (simp add: peeringDiff_def)
  moreover have "q \<notin> set (peeringDiff C ''Spec.AccepterPeeringConnectionOptions'' u v)"
    if l: "liesAt ''Spec.RequesterPeeringConnectionOptions'' q" for u v
  proof
    assume "q \<in> set (peeringDiff C ''Spec.AccepterPeeringConnectionOptions'' u v)"
    from liesAt_related [OF l paths_peeringDiff [OF this]] show False by simp
  qed
  ultimately show ?thesis
    using assms(3) unfolding mem_compareSpecs_Peering by (auto simp: liesAt_def)
qed

subsection \<open>Witnesses\<close>

definition exampleOptions :: "bool option \<Rightarrow> peering_options" where
  "exampleOptions b = \<lparr>AllowDNSResolution = b, AllowEgressFromLocalClassicLink = None, AllowEgressFromLocalVPC = None\<rparr>"

definition examplePeering :: "string option \<Rightarrow> peering_options option \<Rightarrow> vpc_peering" where
  "examplePeering code o' = \<lparr>pcSpec = \<lparr>pcAcceptRequest = None, pcAccepterOptions = o', pcPeerOwnerID = None, pcPeerRegion = None,
       pcPeerVPCID = Some ''vpc-2'', pcPeerVPCRef = None, pcRequesterOptions = o', pcTags = None, pcVPCID = Some ''vpc-1'', pcVPCRef = None\<rparr>,
     pcStatus = \<lparr>ACKResourceMetadata = None, Conditions = [], pcAccepterVPCInfo = None, pcExpirationTime = None, pcRequesterVPCInfo = None,
       pcState = Some \<lparr>srCode = code, srMessage = None\<rparr>, pcPeeringID = Some ''pcx-1''\<rparr>\<rparr>"

definition exampleSdkPeering :: sdk_peering_connection where
  "exampleSdkPeering = \<lparr>sdkPcAccepterVpcInfo = None, sdkPcExpirationTime = None, sdkPcRequesterVpcInfo = None,
     sdkPcStatus = Some \<lparr>sdkPsCode = ''active'', sdkPsMessage = None\<rparr>, sdkPcTags = None, sdkPcVpcPeeringConnectionId = Some ''pcx-1''\<rparr>"

definition examplePeeringApi :: peering_api where
  "examplePeeringApi = \<lparr>onCreateTags = (\<lambda>_ _. None), onDeleteTags = (\<lambda>_ _. None),
     onDescribeVpcPeeringConnections = (\<lambda>_ _. Inr (Some [exampleSdkPeering])), onCreateVpcPeeringConnection = (\<lambda>_ _. Inr (Some (Some exampleSdkPeering))),
     onAcceptVpcPeeringConnection = (\<lambda>_ _. None), onModifyVpcPeeringConnectionOptions = (\<lambda>_ _. Inr None), onDeleteVpcPeeringConnection = (\<lambda>_ _. None)\<rparr>"

lemma examplePeering_read:
  "\<exists>k t. sdkFind_Peering examplePeeringApi exampleManager (examplePeering None o') [] = (Ret (Some k, None), t)"
proof -
  let ?r = "examplePeering None o'"
  have "pcPeeringID (pcStatus ?r) = Some ''pcx-1''" by (simp add: examplePeering_def)
  moreover have "onDescribeVpcPeeringConnections examplePeeringApi [] [''pcx-1''] = Inr (Some (exampleSdkPeering # []))"
    by (simp add: examplePeeringApi_def)
  moreover have "codeOf (readPeering exampleManager ?r exampleSdkPeering) = Some ''active''"
    unfolding readPeering_code by (simp add: exampleSdkPeering_def enumPtr_def)
  then have "\<exists>k. readState (readPeering exampleManager ?r exampleSdkPeering) = (Some k, None)"
    by (simp add: readState_def isVPCPeeringConnectionPendingAcceptance_def isVPCPeeringConnectionActive_def)
  ultimately show ?thesis using sdkFind_Peering_found [of ?r "''pcx-1''" examplePeeringApi "[]" exampleSdkPeering "[]" exampleManager] by auto
qed

lemma update_waits_for_peering_witness:
  "\<exists>m. sdkUpdate_Peering examplePeeringApi exactRuntime exampleManager plainTexts (examplePeering None None)
      (examplePeering (Some ''provisioning'') None) [''Spec.Tags''] [] = (Ret (Some (examplePeering None None), Some (RequeueNeededAfter (Some m) 5)), [])"
  by (rule update_waits_for_peering) (simp add: examplePeering_def codeOf_def)

lemma peer_acceptance_is_terminal_witness:
  "\<exists>latest t k. sdkFind_Peering examplePeeringApi exampleManager (examplePeering None None) [] = (Ret (Some latest, None), t)
    \<and> Update (pcKind examplePeeringApi exactRuntime exampleManager plainTexts) (examplePeering None None) latest
        (compareSpecs_Peering exactComparisons (pcSpec (examplePeering None None)) (pcSpec latest)) t = (Ret (Some k, Some Terminal), t)"
proof (rule peer_acceptance_is_terminal [OF plainTexts_law exactRuntime_law])
  show "HasNilDifference exactComparisons (IBool None) (IBool (Some True))" by (simp add: exactComparisons_def nilDiff_def isNilIface_def)
  show "pcAcceptRequest (pcSpec (examplePeering None None)) = None" "pcPeeringID (pcStatus (examplePeering None None)) = Some ''pcx-1''"
    "uniqueTypes (Conditions (pcStatus (examplePeering None None)))"
    by (simp_all add: examplePeering_def uniqueTypes_def)
  show "onDescribeVpcPeeringConnections examplePeeringApi [] [''pcx-1''] = Inr (Some (exampleSdkPeering # []))" by (simp add: examplePeeringApi_def)
  show "sdkPcStatus exampleSdkPeering = Some \<lparr>sdkPsCode = ''active'', sdkPsMessage = None\<rparr>" by (simp add: exampleSdkPeering_def)
  show "compareTags exactComparisons ''Spec.Tags'' (pcTags (pcSpec (examplePeering None None))) (map_option resourceTags (sdkPcTags exampleSdkPeering)) [] = []"
    by (simp add: compareTags_law [OF exactComparisons_law] examplePeering_def exampleSdkPeering_def)
qed simp

lemma accepter_dns_option_never_settles_witness:
  "\<exists>k t. sdkFind_Peering examplePeeringApi exampleManager (examplePeering None (Some (exampleOptions (Some True)))) [] = (Ret (Some k, None), t)
    \<and> ''Spec.AccepterPeeringConnectionOptions.AllowDNSResolutionFromRemoteVPC''
        \<in> set (compareSpecs_Peering exactComparisons (pcSpec (examplePeering None (Some (exampleOptions (Some True))))) (pcSpec k))"
proof -
  let ?o = "exampleOptions (Some True)"
  obtain k t where f: "sdkFind_Peering examplePeeringApi exampleManager (examplePeering None (Some ?o)) [] = (Ret (Some k, None), t)"
    using examplePeering_read by blast
  have "''Spec.AccepterPeeringConnectionOptions.AllowDNSResolutionFromRemoteVPC''
        \<in> set (compareSpecs_Peering exactComparisons (pcSpec (examplePeering None (Some ?o))) (pcSpec k))"
    by (rule accepter_dns_option_never_settles [OF exactComparisons_law, where b = True and o' = ?o, OF _ _ _ f])
      (simp_all add: exactComparisons_def nilDiff_def isNilIface_def exampleOptions_def examplePeering_def)
  with f show ?thesis by blast
qed

text \<open>What was read has at least the difference in \<open>AcceptRequest\<close>, which lies elsewhere.\<close>

lemma requester_options_never_differ_witness:
  "\<exists>k t q. sdkFind_Peering examplePeeringApi exampleManager (examplePeering None (Some (exampleOptions (Some True)))) [] = (Ret (Some k, None), t)
    \<and> q \<in> set (compareSpecs_Peering exactComparisons (pcSpec (examplePeering None (Some (exampleOptions (Some True))))) (pcSpec k))
    \<and> \<not> liesAt ''Spec.RequesterPeeringConnectionOptions'' q"
proof -
  let ?r = "examplePeering None (Some (exampleOptions (Some True)))"
  obtain k t where f: "sdkFind_Peering examplePeeringApi exampleManager ?r [] = (Ret (Some k, None), t)"
    using examplePeering_read by blast
  have k: "pcAccepterOptions (pcSpec k) = Some (copiedAccepterOptions (exampleOptions (Some True)))"
    using sdkFind_Peering_options [OF f] by (simp add: examplePeering_def)
  have in2: "''Spec.AccepterPeeringConnectionOptions.AllowDNSResolutionFromRemoteVPC''
      \<in> set (peeringDiff exactComparisons ''Spec.AccepterPeeringConnectionOptions'' (pcAccepterOptions (pcSpec ?r)) (pcAccepterOptions (pcSpec k)))"
    by (simp add: k peeringDiff_def comparePeeringOptions_def compareStruct_def mem_comparePtr examplePeering_def exampleOptions_def
        copiedAccepterOptions_def exactComparisons_def nilDiff_def isNilIface_def comparePtr_def)
  then have "''Spec.AccepterPeeringConnectionOptions.AllowDNSResolutionFromRemoteVPC''
      \<in> set (compareSpecs_Peering exactComparisons (pcSpec ?r) (pcSpec k))"
    unfolding mem_compareSpecs_Peering by blast
  with requester_options_never_differ [OF exactComparisons_law f this] f show ?thesis by blast
qed

end
