(* ===== verification/NatGateway.thy ===== *)
theory NatGateway
  imports Runtime
begin

text \<open>
  The NAT gateway controller (\<open>pkg/resource/nat_gateway/hooks.go\<close>, \<open>sdk.go\<close>, \<open>delta.go\<close>). Names that
  another kind uses too carry the suffix \<open>_NAT\<close>.
\<close>

subsection \<open>Data\<close>

record nat_address =
  naAllocationID :: "string option"
  naAvailabilityZone :: "string option"
  naAvailabilityZoneID :: "string option"
  naNetworkInterfaceID :: "string option"
  naPrivateIP :: "string option"
  naPublicIP :: "string option"

record provisioned_bandwidth =
  ProvisionTime :: "timestamp option"
  Provisioned :: "string option"
  RequestTime :: "timestamp option"
  Requested :: "string option"
  pbStatus :: "string option"

record zone_address =
  zaAllocationIDs :: "string option list"
  zaAvailabilityZone :: "string option"
  zaAvailabilityZoneID :: "string option"

record nat_gateway_spec =
  ngAllocationID :: "string option"
  ngAllocationRef :: "ref_wrapper option"
  ngAvailabilityMode :: "string option"
  ngAvailabilityZoneAddresses :: "zone_address list option"
  ngConnectivityType :: "string option"
  ngSubnetID :: "string option"
  ngSubnetRef :: "ref_wrapper option"
  ngTags :: "tag list option"
  ngVPCID :: "string option"
  ngVPCRef :: "ref_wrapper option"

record nat_gateway_status = common_status +
  ngCreateTime :: "timestamp option"
  ngDeleteTime :: "timestamp option"
  ngFailureCode :: "string option"
  ngFailureMessage :: "string option"
  ngNATGatewayAddresses :: "nat_address list option"
  NATGatewayID :: "string option"
  ngProvisionedBandwidth :: "provisioned_bandwidth option"
  ngState :: "string option"
  ngStatusVPCID :: "string option"

record nat_gateway =
  ngSpec :: nat_gateway_spec
  ngStatus :: nat_gateway_status

record nat_api = tags_api +
  onDescribeNatGateways :: "call log \<Rightarrow> string list \<Rightarrow> error + sdk_nat_gateway list option"
  onCreateNatGateway :: "call log \<Rightarrow> create_nat_input \<Rightarrow> error + sdk_nat_gateway option option"
  onDeleteNatGateway :: "call log \<Rightarrow> string option \<Rightarrow> error option"

subsection \<open>Reading\<close>

definition isResourceDeleted_NAT :: "nat_gateway \<Rightarrow> bool" where
  "isResourceDeleted_NAT r = (case ngState (ngStatus r) of None \<Rightarrow> True | Some status \<Rightarrow> status = ''deleted'')"

definition isResourcePending_NAT :: "nat_gateway \<Rightarrow> bool" where
  "isResourcePending_NAT r = (case ngState (ngStatus r) of None \<Rightarrow> False | Some status \<Rightarrow> status = ''pending'')"

definition addressFromSdk :: "sdk_nat_address \<Rightarrow> nat_address" where
  "addressFromSdk x = \<lparr>naAllocationID = sdkNgaAllocationId x, naAvailabilityZone = sdkNgaAvailabilityZone x,
     naAvailabilityZoneID = sdkNgaAvailabilityZoneId x, naNetworkInterfaceID = sdkNgaNetworkInterfaceId x,
     naPrivateIP = sdkNgaPrivateIp x, naPublicIP = sdkNgaPublicIp x\<rparr>"

definition bandwidthFromSdk :: "sdk_provisioned_bandwidth \<Rightarrow> provisioned_bandwidth" where
  "bandwidthFromSdk x = \<lparr>ProvisionTime = sdkPbProvisionTime x, Provisioned = sdkPbProvisioned x, RequestTime = sdkPbRequestTime x,
     Requested = sdkPbRequested x, pbStatus = sdkPbStatus x\<rparr>"

text \<open>The setter does not touch \<open>AllocationID\<close> and \<open>AvailabilityZoneAddresses\<close>.\<close>

definition setFrom_NAT :: "nat_gateway \<Rightarrow> sdk_nat_gateway \<Rightarrow> nat_gateway" where
  "setFrom_NAT k x =
     k\<lparr>ngSpec := (ngSpec k)\<lparr>ngAvailabilityMode := enumPtr (sdkNgAvailabilityMode x), ngConnectivityType := enumPtr (sdkNgConnectivityType x),
         ngSubnetID := sdkNgSubnetId x, ngTags := map_option resourceTags (sdkNgTags x), ngVPCID := sdkNgVpcId x\<rparr>,
       ngStatus := (ngStatus k)\<lparr>ngCreateTime := sdkNgCreateTime x, ngDeleteTime := sdkNgDeleteTime x,
         ngFailureCode := sdkNgFailureCode x, ngFailureMessage := sdkNgFailureMessage x,
         ngNATGatewayAddresses := map_option (map addressFromSdk) (sdkNgNatGatewayAddresses x), NATGatewayID := sdkNgNatGatewayId x,
         ngProvisionedBandwidth := map_option bandwidthFromSdk (sdkNgProvisionedBandwidth x), ngState := enumPtr (sdkNgState x)\<rparr>\<rparr>"

text \<open>The status defaults, and the VPC repeated in the status when the spec has one.\<close>

definition defaults_NAT :: "resource_manager \<Rightarrow> nat_gateway \<Rightarrow> nat_gateway" where
  "defaults_NAT rm k =
     (let st = setStatusDefaults rm (ngStatus k)
      in k\<lparr>ngStatus := (if ngVPCID (ngSpec k) \<noteq> None then st\<lparr>ngStatusVPCID := ngVPCID (ngSpec k)\<rparr> else st)\<rparr>)"

definition requiredFieldsMissing_NAT :: "nat_gateway \<Rightarrow> bool" where
  "requiredFieldsMissing_NAT r \<longleftrightarrow> NATGatewayID (ngStatus r) = None"

definition newListRequestPayload_NAT :: "nat_gateway \<Rightarrow> string list" where
  "newListRequestPayload_NAT r = (case NATGatewayID (ngStatus r) of None \<Rightarrow> [] | Some i \<Rightarrow> [i])"

definition pendingGateway :: error where
  "pendingGateway = RequeueNeeded (GoError ''resource is pending'')"

definition observed_NAT :: "nat_gateway \<Rightarrow> nat_gateway option \<times> error option" where
  "observed_NAT k =
     (if isResourceDeleted_NAT k then (None, Some NotFound)
      else if isResourcePending_NAT k then (None, Some pendingGateway)
      else (Some k, None))"

definition sdkFind_NAT ::
  "'x nat_api_scheme \<Rightarrow> resource_manager \<Rightarrow> nat_gateway \<Rightarrow> (nat_gateway option \<times> error option) act" where
  "sdkFind_NAT api rm r =
     readMany (requiredFieldsMissing_NAT r) (\<lambda>i. NatCall (DescribeNatGateways i)) (onDescribeNatGateways api) ''DescribeNatGateways''
       (newListRequestPayload_NAT r) (\<lambda>elem. ret (observed_NAT (defaults_NAT rm (setFrom_NAT r elem))))"

subsection \<open>Creating, updating and deleting\<close>

definition zoneAddressToSdk :: "('y) ack_runtime_scheme \<Rightarrow> zone_address \<Rightarrow> sdk_zone_address" where
  "zoneAddressToSdk R a = \<lparr>sdkZaAllocationIds = (if zaAllocationIDs a \<noteq> [] then ToStringSlice R (zaAllocationIDs a) else []),
     sdkZaAvailabilityZone = zaAvailabilityZone a, sdkZaAvailabilityZoneId = zaAvailabilityZoneID a\<rparr>"

definition newCreateRequestPayload_NAT :: "('y) ack_runtime_scheme \<Rightarrow> nat_gateway \<Rightarrow> create_nat_input" where
  "newCreateRequestPayload_NAT R r =
     \<lparr>cngAllocationId = ngAllocationID (ngSpec r), cngAvailabilityMode = safeString (ngAvailabilityMode (ngSpec r)),
      cngAvailabilityZoneAddresses = map_option (map (zoneAddressToSdk R)) (ngAvailabilityZoneAddresses (ngSpec r)),
      cngConnectivityType = safeString (ngConnectivityType (ngSpec r)), cngSubnetId = ngSubnetID (ngSpec r), cngVpcId = ngVPCID (ngSpec r),
      cngTagSpecifications = None\<rparr>"

definition updateTagSpecifications_NAT :: "nat_gateway \<Rightarrow> create_nat_input \<Rightarrow> create_nat_input" where
  "updateTagSpecifications_NAT r input = input\<lparr>cngTagSpecifications := tagSpecificationsFor ''natgateway'' (ngTags (ngSpec r))\<rparr>"

definition regionalPrivate :: error where
  "regionalPrivate = TerminalError (GoError (''regional NAT gateways do not currently support private connectivity type; use connectivityType ''
     @ [CHR 34] @ ''public'' @ [CHR 34] @ '' or use availabilityMode '' @ [CHR 34] @ ''zonal'' @ [CHR 34] @ '' for private connectivity''))"

definition sdkCreate_NAT ::
  "'x nat_api_scheme \<Rightarrow> ('y) ack_runtime_scheme \<Rightarrow> resource_manager \<Rightarrow> nat_gateway \<Rightarrow> (nat_gateway option \<times> error option) act" where
  "sdkCreate_NAT api R rm desired =
     (if ngAvailabilityMode (ngSpec desired) = Some ''regional'' \<and> ngConnectivityType (ngSpec desired) = Some ''private''
      then ret (None, Some regionalPrivate)
      else createOne (\<lambda>i. NatCall (CreateNatGateway i)) (onCreateNatGateway api) ''CreateNatGateway''
             (updateTagSpecifications_NAT desired (newCreateRequestPayload_NAT R desired))
             (\<lambda>resp. ret (Some (defaults_NAT rm (setFrom_NAT desired resp)), None)))"

definition customUpdateNATGateway ::
  "'x nat_api_scheme \<Rightarrow> ('y) ack_runtime_scheme \<Rightarrow> nat_gateway \<Rightarrow> nat_gateway \<Rightarrow> delta \<Rightarrow> (nat_gateway option \<times> error option) act" where
  "customUpdateNATGateway api R desired latest d =
     (let updated = desired\<lparr>ngStatus := ngStatus latest\<rparr>
      in syncTagsIf api (DifferentAt R d ''Spec.Tags'') (NATGatewayID (ngStatus latest)) (ngTags (ngSpec desired)) (ngTags (ngSpec latest))
           (ret (Some updated, None)))"

definition sdkDelete_NAT :: "'x nat_api_scheme \<Rightarrow> nat_gateway \<Rightarrow> (nat_gateway option \<times> error option) act" where
  "sdkDelete_NAT api r =
     deleteOne (\<lambda>i. NatCall (DeleteNatGateway i)) (onDeleteNatGateway api) ''DeleteNatGateway'' (NATGatewayID (ngStatus r))"

interpretation nat_tags: tags_only api R "customUpdateNATGateway api R" "\<lambda>k. NATGatewayID (ngStatus k)" "\<lambda>k. ngTags (ngSpec k)"
    "\<lambda>desired latest. desired\<lparr>ngStatus := ngStatus latest\<rparr>"
  for api :: "'x nat_api_scheme" and R :: "('y) ack_runtime_scheme"
  by unfold_locales (simp add: customUpdateNATGateway_def)

subsection \<open>Comparing\<close>

definition compareSpecs_NAT ::
  "('x) ackcompare_scheme \<Rightarrow> (zone_address list \<Rightarrow> zone_address list \<Rightarrow> bool) \<Rightarrow> nat_gateway_spec \<Rightarrow> nat_gateway_spec \<Rightarrow> delta" where
  "compareSpecs_NAT C eq a b =
    (let d1 = cmpStr C ''Spec.AllocationID'' (ngAllocationID a) (ngAllocationID b) [];
         d2 = compareRef C ''Spec.AllocationRef'' (ngAllocationRef a) (ngAllocationRef b) d1;
         d3 = cmpStr C ''Spec.AvailabilityMode'' (ngAvailabilityMode a) (ngAvailabilityMode b) d2;
         d4 = compareList eq ''Spec.AvailabilityZoneAddresses'' (ngAvailabilityZoneAddresses a) (ngAvailabilityZoneAddresses b) d3;
         d5 = cmpStr C ''Spec.ConnectivityType'' (ngConnectivityType a) (ngConnectivityType b) d4;
         d6 = cmpStr C ''Spec.SubnetID'' (ngSubnetID a) (ngSubnetID b) d5;
         d7 = compareRef C ''Spec.SubnetRef'' (ngSubnetRef a) (ngSubnetRef b) d6;
         d8 = compareTags C ''Spec.Tags'' (ngTags a) (ngTags b) d7;
         d9 = cmpStr C ''Spec.VPCID'' (ngVPCID a) (ngVPCID b) d8
     in compareRef C ''Spec.VPCRef'' (ngVPCRef a) (ngVPCRef b) d9)"

definition newResourceDelta_NAT ::
  "('x) ackcompare_scheme \<Rightarrow> (zone_address list \<Rightarrow> zone_address list \<Rightarrow> bool) \<Rightarrow> nat_gateway option \<Rightarrow> nat_gateway option \<Rightarrow> delta act" where
  "newResourceDelta_NAT C eq a b = bothResources a b (\<lambda>x y. compareSpecs_NAT C eq (ngSpec x) (ngSpec y)) (\<lambda>d. d)"

subsection \<open>The kind\<close>

definition IsSynced_NAT :: "('y) ack_runtime_scheme \<Rightarrow> nat_gateway \<Rightarrow> bool" where
  "IsSynced_NAT R k = syncedIn R [''available''] (ngState (ngStatus k))"

definition mirrorTags_NAT :: "(acktags \<Rightarrow> acktags) \<Rightarrow> nat_gateway \<Rightarrow> nat_gateway option \<Rightarrow> nat_gateway" where
  "mirrorTags_NAT iter a b =
     (case b of None \<Rightarrow> a
      | Some l \<Rightarrow> a\<lparr>ngSpec := (ngSpec a)\<lparr>ngTags := mirrorAWSTags iter (ngTags (ngSpec a)) (ngTags (ngSpec l))\<rparr>\<rparr>)"

definition terminalCodes_NAT :: "string list" where
  "terminalCodes_NAT = [''InvalidSubnet'', ''InvalidElasticIpID.Malformed'', ''MissingParameter'']"

definition ngKind :: "'x nat_api_scheme \<Rightarrow> ('y) ack_runtime_scheme \<Rightarrow> resource_manager \<Rightarrow> error_texts \<Rightarrow> nat_gateway kind" where
  "ngKind api R rm env =
     \<lparr>findOp = (\<lambda>r. bind (sdkFind_NAT api rm r) (\<lambda>x. ret (r, x))),
      createOp = sdkCreate_NAT api R rm,
      updateOp = (\<lambda>desired latest d. bind (customUpdateNATGateway api R desired latest d) (\<lambda>x. ret (latest, x))),
      deleteOp = sdkDelete_NAT api,
      mirrorOp = mirrorTags_NAT (rangeOf R),
      conditionsOp = (\<lambda>k. Conditions (ngStatus k)),
      updateConditionsOp = conditionsUpdater env terminalCodes_NAT rm ngStatus (\<lambda>st k. k\<lparr>ngStatus := st\<rparr>)\<rparr>"

lemma ng_reports: "AWSError_law env \<Longrightarrow> reporting_kind (ngKind api R rm env) terminalCodes_NAT"
  by (rule conditionsUpdater_reports [where get = ngStatus and put = "\<lambda>st k. k\<lparr>ngStatus := st\<rparr>"]) (simp_all add: ngKind_def)

interpretation ng_kind: reporting_kind "ngKind api R rm plainTexts" terminalCodes_NAT
  for api :: "'x nat_api_scheme" and R :: "('y) ack_runtime_scheme" and rm
  by (rule ng_reports [OF plainTexts_law])

subsection \<open>Properties\<close>

lemma observed_NAT_state:
  "ngState (ngStatus k) = Some st \<Longrightarrow> st \<noteq> ''deleted'' \<Longrightarrow> st \<noteq> ''pending'' \<Longrightarrow> observed_NAT k = (Some k, None)"
  by (simp add: observed_NAT_def isResourceDeleted_NAT_def isResourcePending_NAT_def)

lemma read_NAT_simps [simp]:
  "ngState (ngStatus (defaults_NAT rm (setFrom_NAT r x))) = enumPtr (sdkNgState x)"
  "ngTags (ngSpec (defaults_NAT rm (setFrom_NAT r x))) = map_option resourceTags (sdkNgTags x)"
  by (simp_all add: defaults_NAT_def setFrom_NAT_def setStatusDefaults_def Let_def nat_gateway_status.defs)

text \<open>
  A failed NAT gateway is never replaced. EC2 keeps a gateway whose creation failed in the state
  \<open>failed\<close>; a read gives it as any other resource, no update changes anything but its tags, and the
  resource that the update returns is not synced either.
\<close>

theorem failed_gateway_stays_failed:
  assumes "runtime_law R" "NATGatewayID (ngStatus r) = Some i" "onDescribeNatGateways api s [i] = Inr (Some (x # xs))"
    and "sdkNgState x = ''failed''"
  shows "\<exists>latest t. sdkFind_NAT api rm r s = (Ret (Some latest, None), t) \<and> \<not> IsSynced_NAT R latest
    \<and> (\<forall>desired d u. (\<forall>q \<in> set d. \<not> liesAt ''Spec.Tags'' q) \<longrightarrow>
        (\<exists>k. customUpdateNATGateway api R desired latest d u = (Ret (Some k, None), u) \<and> \<not> IsSynced_NAT R k
          \<and> ngStatus k = ngStatus latest))"
proof -
  let ?k = "defaults_NAT rm (setFrom_NAT r x)"
  have st: "ngState (ngStatus ?k) = Some ''failed''" using assms(4) by (simp add: enumPtr_def)
  have f: "\<exists>t. sdkFind_NAT api rm r s = (Ret (Some ?k, None), t)"
    using assms(2,3) observed_NAT_state [OF st]
    by (simp add: sdkFind_NAT_def requiredFieldsMissing_NAT_def newListRequestPayload_NAT_def readMany_simps)
  have "\<not> IsSynced_NAT R k" if "ngState (ngStatus k) = Some ''failed''" for k
    using that by (simp add: IsSynced_NAT_def syncedIn_def runtime_simps(8) [OF assms(1)])
  with st f nat_tags.ignores_others [OF assms(1)] show ?thesis by fastforce
qed

text \<open>
  A pending gateway is not read and not created a second time. The read of a pending gateway makes
  its one call and ends in a request to try again, not in \<open>NotFound\<close>; the resource that comes back is
  the one that was read for, with what EC2 answered left out.
\<close>

theorem pending_gateway_is_requeued:
  assumes "AWSError_law env" "uniqueTypes (Conditions (ngStatus r))" "NATGatewayID (ngStatus r) = Some i"
    and "onDescribeNatGateways api s [i] = Inr (Some (x # xs))" "sdkNgState x = ''pending''"
  shows "\<exists>y t. ReadOne (ngKind api R rm env) r s = (Ret (r, Some y, Some pendingGateway), t)
    \<and> calls t = calls s @ [NatCall (DescribeNatGateways [i])]"
proof -
  let ?K = "ngKind api R rm env" and ?k = "defaults_NAT rm (setFrom_NAT r x)"
  let ?t = "s @ [Call (NatCall (DescribeNatGateways [i])), Metric ''READ_MANY'' ''DescribeNatGateways'' None]"
  have "ngState (ngStatus ?k) = Some ''pending''" using assms(5) by (simp add: enumPtr_def)
  then have "observed_NAT ?k = (None, Some pendingGateway)"
    by (simp add: observed_NAT_def isResourceDeleted_NAT_def isResourcePending_NAT_def)
  with assms(3,4) have f: "findOp ?K r s = (Ret (r, None, Some pendingGateway), ?t)"
    by (simp add: ngKind_def sdkFind_NAT_def requiredFieldsMissing_NAT_def newListRequestPayload_NAT_def readMany_simps)
  have "uniqueTypes (conditionsOp ?K r)" using assms(2) by (simp add: ngKind_def)
  from reporting_kind.onError_classifies [OF ng_reports [OF assms(1)] this, of pendingGateway] obtain y where
    y: "onError ?K (Some r) pendingGateway = Some (Some y, Some (if isTerminal terminalCodes_NAT (Some pendingGateway) then Terminal else pendingGateway))"
    by blast
  have "\<not> isTerminal terminalCodes_NAT (Some pendingGateway)"
    by (simp add: isTerminal_def pendingGateway_def terminalAWSError_def)
  moreover have "mirrorOp ?K r None = r" by (simp add: ngKind_def mirrorTags_NAT_def)
  ultimately have "ReadOne ?K r s = (Ret (r, Some y, Some pendingGateway), ?t)"
    using f y by (simp add: ReadOne_def)
  then show ?thesis by simp
qed

subsection \<open>Witnesses\<close>

definition exampleNat :: nat_gateway where
  "exampleNat = \<lparr>ngSpec = \<lparr>ngAllocationID = None, ngAllocationRef = None, ngAvailabilityMode = None, ngAvailabilityZoneAddresses = None,
       ngConnectivityType = Some ''public'', ngSubnetID = Some ''subnet-1'', ngSubnetRef = None, ngTags = None, ngVPCID = None, ngVPCRef = None\<rparr>,
     ngStatus = \<lparr>ACKResourceMetadata = None, Conditions = [], ngCreateTime = None, ngDeleteTime = None, ngFailureCode = None,
       ngFailureMessage = None, ngNATGatewayAddresses = None, NATGatewayID = Some ''nat-1'', ngProvisionedBandwidth = None,
       ngState = None, ngStatusVPCID = None\<rparr>\<rparr>"

definition exampleSdkNat :: "string \<Rightarrow> sdk_nat_gateway" where
  "exampleSdkNat st = \<lparr>sdkNgAvailabilityMode = [], sdkNgConnectivityType = ''public'', sdkNgCreateTime = None, sdkNgDeleteTime = None,
     sdkNgFailureCode = None, sdkNgFailureMessage = None, sdkNgNatGatewayAddresses = None, sdkNgNatGatewayId = Some ''nat-1'',
     sdkNgProvisionedBandwidth = None, sdkNgState = st, sdkNgSubnetId = Some ''subnet-1'', sdkNgTags = None, sdkNgVpcId = Some ''vpc-1''\<rparr>"

definition exampleNatApi :: "string \<Rightarrow> nat_api" where
  "exampleNatApi st = \<lparr>onCreateTags = (\<lambda>_ _. None), onDeleteTags = (\<lambda>_ _. None),
     onDescribeNatGateways = (\<lambda>_ _. Inr (Some [exampleSdkNat st])), onCreateNatGateway = (\<lambda>_ _. Inr (Some (Some (exampleSdkNat st)))),
     onDeleteNatGateway = (\<lambda>_ _. None)\<rparr>"

lemma failed_gateway_stays_failed_witness:
  "\<exists>latest t k. sdkFind_NAT (exampleNatApi ''failed'') exampleManager exampleNat [] = (Ret (Some latest, None), t)
    \<and> customUpdateNATGateway (exampleNatApi ''failed'') exactRuntime exampleNat latest [''Spec.SubnetID''] [] = (Ret (Some k, None), [])
    \<and> \<not> IsSynced_NAT exactRuntime k"
proof -
  have "NATGatewayID (ngStatus exampleNat) = Some ''nat-1''" by (simp add: exampleNat_def)
  moreover have "onDescribeNatGateways (exampleNatApi ''failed'') [] [''nat-1''] = Inr (Some (exampleSdkNat ''failed'' # []))"
    by (simp add: exampleNatApi_def)
  moreover have "sdkNgState (exampleSdkNat ''failed'') = ''failed''" by (simp add: exampleSdkNat_def)
  moreover have "\<forall>q \<in> set [''Spec.SubnetID'']. \<not> liesAt ''Spec.Tags'' q" by (simp add: liesAt_def)
  ultimately show ?thesis
    using failed_gateway_stays_failed [OF exactRuntime_law, of exampleNat "''nat-1''" "exampleNatApi ''failed''" "[]" "exampleSdkNat ''failed''" "[]"
        exampleManager] by blast
qed

lemma pending_gateway_is_requeued_witness:
  "\<exists>y t. ReadOne (ngKind (exampleNatApi ''pending'') exactRuntime exampleManager plainTexts) exampleNat [] = (Ret (exampleNat, Some y, Some pendingGateway), t)
    \<and> calls t = [NatCall (DescribeNatGateways [''nat-1''])]"
proof -
  have "NATGatewayID (ngStatus exampleNat) = Some ''nat-1''" "uniqueTypes (Conditions (ngStatus exampleNat))"
    by (simp_all add: exampleNat_def uniqueTypes_def)
  moreover have "onDescribeNatGateways (exampleNatApi ''pending'') [] [''nat-1''] = Inr (Some (exampleSdkNat ''pending'' # []))"
    by (simp add: exampleNatApi_def)
  moreover have "sdkNgState (exampleSdkNat ''pending'') = ''pending''" by (simp add: exampleSdkNat_def)
  ultimately show ?thesis
    using pending_gateway_is_requeued [OF plainTexts_law, of exampleNat "''nat-1''" "exampleNatApi ''pending''" "[]" "exampleSdkNat ''pending''" "[]"
        exactRuntime exampleManager] by simp
qed

end
