(* ===== verification/TransitGateway.thy ===== *)
theory TransitGateway
  imports Runtime
begin

text \<open>
  The transit gateway controller (\<open>pkg/resource/transit_gateway/hooks.go\<close>, \<open>sdk.go\<close>, \<open>delta.go\<close>).
  Names that another kind uses too carry the suffix \<open>_Transit\<close>.
\<close>

subsection \<open>Data\<close>

record transit_options =
  AmazonSideASN :: "int64 option"
  AutoAcceptSharedAttachments :: "string option"
  DefaultRouteTableAssociation :: "string option"
  DefaultRouteTablePropagation :: "string option"
  toDNSSupport :: "string option"
  MulticastSupport :: "string option"
  TransitGatewayCIDRBlocks :: "string option list"
  VPNECMPSupport :: "string option"

record transit_gateway_spec =
  tgDescription :: "string option"
  tgOptions :: "transit_options option"
  tgTags :: "tag list option"

record transit_gateway_status = common_status +
  tgCreationTime :: "timestamp option"
  tgOwnerID :: "string option"
  tgState :: "string option"
  TransitGatewayID :: "string option"

record transit_gateway =
  tgSpec :: transit_gateway_spec
  tgStatus :: transit_gateway_status

record transit_api = tags_api +
  onDescribeTransitGateways :: "call log \<Rightarrow> string list \<Rightarrow> error + sdk_transit_gateway list option"
  onCreateTransitGateway :: "call log \<Rightarrow> create_transit_input \<Rightarrow> error + sdk_transit_gateway option option"
  onDeleteTransitGateway :: "call log \<Rightarrow> string option \<Rightarrow> error option"

subsection \<open>Reading\<close>

definition isResourceDeleted_Transit :: "transit_gateway \<Rightarrow> bool" where
  "isResourceDeleted_Transit r = (case tgState (tgStatus r) of None \<Rightarrow> True | Some status \<Rightarrow> status = ''deleted'')"

definition isResourcePending_Transit :: "transit_gateway \<Rightarrow> bool" where
  "isResourcePending_Transit r = (case tgState (tgStatus r) of None \<Rightarrow> False | Some status \<Rightarrow> status = ''pending'')"

definition transitOptionsFromSdk :: "('y) ack_runtime_scheme \<Rightarrow> sdk_transit_options \<Rightarrow> transit_options" where
  "transitOptionsFromSdk R x = \<lparr>AmazonSideASN = sdkToAmazonSideAsn x,
     AutoAcceptSharedAttachments = enumPtr (sdkToAutoAcceptSharedAttachments x),
     DefaultRouteTableAssociation = enumPtr (sdkToDefaultRouteTableAssociation x),
     DefaultRouteTablePropagation = enumPtr (sdkToDefaultRouteTablePropagation x), toDNSSupport = enumPtr (sdkToDnsSupport x),
     MulticastSupport = enumPtr (sdkToMulticastSupport x),
     TransitGatewayCIDRBlocks = (if sdkToTransitGatewayCidrBlocks x \<noteq> [] then StringSlice R (sdkToTransitGatewayCidrBlocks x) else []),
     VPNECMPSupport = enumPtr (sdkToVpnEcmpSupport x)\<rparr>"

definition setCommon_Transit :: "('y) ack_runtime_scheme \<Rightarrow> transit_gateway \<Rightarrow> sdk_transit_gateway \<Rightarrow> transit_gateway" where
  "setCommon_Transit R k x =
     k\<lparr>tgSpec := (tgSpec k)\<lparr>tgDescription := sdkTgDescription x, tgOptions := map_option (transitOptionsFromSdk R) (sdkTgOptions x),
         tgTags := map_option resourceTags (sdkTgTags x)\<rparr>,
       tgStatus := (tgStatus k)\<lparr>tgCreationTime := sdkTgCreationTime x, tgOwnerID := sdkTgOwnerId x, tgState := enumPtr (sdkTgState x),
         TransitGatewayID := sdkTgTransitGatewayId x\<rparr>\<rparr>"

definition setFrom_Transit :: "('y) ack_runtime_scheme \<Rightarrow> transit_gateway \<Rightarrow> sdk_transit_gateway \<Rightarrow> transit_gateway" where
  "setFrom_Transit R k x =
     (let k1 = setCommon_Transit R k x in k1\<lparr>tgStatus := readARN (sdkTgTransitGatewayArn x) (tgStatus k1)\<rparr>)"

definition setCreated_Transit :: "('y) ack_runtime_scheme \<Rightarrow> transit_gateway \<Rightarrow> sdk_transit_gateway \<Rightarrow> transit_gateway" where
  "setCreated_Transit R k x =
     (let k1 = setCommon_Transit R k x in k1\<lparr>tgStatus := createdARN (sdkTgTransitGatewayArn x) (tgStatus k1)\<rparr>)"

definition defaults_Transit :: "resource_manager \<Rightarrow> transit_gateway \<Rightarrow> transit_gateway" where
  "defaults_Transit rm k = k\<lparr>tgStatus := setStatusDefaults rm (tgStatus k)\<rparr>"

definition requiredFieldsMissing_Transit :: "transit_gateway \<Rightarrow> bool" where
  "requiredFieldsMissing_Transit r \<longleftrightarrow> TransitGatewayID (tgStatus r) = None"

definition newListRequestPayload_Transit :: "transit_gateway \<Rightarrow> string list" where
  "newListRequestPayload_Transit r = (case TransitGatewayID (tgStatus r) of None \<Rightarrow> [] | Some i \<Rightarrow> [i])"

definition observed_Transit :: "transit_gateway \<Rightarrow> transit_gateway option \<times> error option" where
  "observed_Transit k =
     (if isResourceDeleted_Transit k then (None, Some NotFound)
      else if isResourcePending_Transit k then (None, Some (RequeueNeeded (GoError ''resource is pending'')))
      else (Some k, None))"

definition sdkFind_Transit ::
  "'x transit_api_scheme \<Rightarrow> ('y) ack_runtime_scheme \<Rightarrow> resource_manager \<Rightarrow> transit_gateway \<Rightarrow> (transit_gateway option \<times> error option) act" where
  "sdkFind_Transit api R rm r =
     readMany (requiredFieldsMissing_Transit r) (\<lambda>i. TransitCall (DescribeTransitGateways i)) (onDescribeTransitGateways api)
       ''DescribeTransitGateways'' (newListRequestPayload_Transit r)
       (\<lambda>elem. ret (observed_Transit (defaults_Transit rm (setFrom_Transit R r elem))))"

subsection \<open>Creating, updating and deleting\<close>

definition transitOptionsToSdk :: "('y) ack_runtime_scheme \<Rightarrow> transit_options \<Rightarrow> sdk_transit_options" where
  "transitOptionsToSdk R x = \<lparr>sdkToAmazonSideAsn = AmazonSideASN x,
     sdkToAutoAcceptSharedAttachments = safeString (AutoAcceptSharedAttachments x),
     sdkToDefaultRouteTableAssociation = safeString (DefaultRouteTableAssociation x),
     sdkToDefaultRouteTablePropagation = safeString (DefaultRouteTablePropagation x), sdkToDnsSupport = safeString (toDNSSupport x),
     sdkToMulticastSupport = safeString (MulticastSupport x),
     sdkToTransitGatewayCidrBlocks = (if TransitGatewayCIDRBlocks x \<noteq> [] then ToStringSlice R (TransitGatewayCIDRBlocks x) else []),
     sdkToVpnEcmpSupport = safeString (VPNECMPSupport x)\<rparr>"

definition newCreateRequestPayload_Transit :: "('y) ack_runtime_scheme \<Rightarrow> transit_gateway \<Rightarrow> create_transit_input" where
  "newCreateRequestPayload_Transit R r =
     \<lparr>ctgDescription = tgDescription (tgSpec r), ctgOptions = map_option (transitOptionsToSdk R) (tgOptions (tgSpec r)),
      ctgTagSpecifications = None\<rparr>"

definition updateTagSpecifications_Transit :: "transit_gateway \<Rightarrow> create_transit_input \<Rightarrow> create_transit_input" where
  "updateTagSpecifications_Transit r input = input\<lparr>ctgTagSpecifications := tagSpecificationsFor ''transit-gateway'' (tgTags (tgSpec r))\<rparr>"

definition sdkCreate_Transit ::
  "'x transit_api_scheme \<Rightarrow> ('y) ack_runtime_scheme \<Rightarrow> resource_manager \<Rightarrow> transit_gateway \<Rightarrow> (transit_gateway option \<times> error option) act" where
  "sdkCreate_Transit api R rm desired =
     createOne (\<lambda>i. TransitCall (CreateTransitGateway i)) (onCreateTransitGateway api) ''CreateTransitGateway''
       (updateTagSpecifications_Transit desired (newCreateRequestPayload_Transit R desired))
       (\<lambda>resp. ret (Some (defaults_Transit rm (setCreated_Transit R desired resp)), None))"

definition customUpdateTransitGateway ::
  "'x transit_api_scheme \<Rightarrow> ('y) ack_runtime_scheme \<Rightarrow> transit_gateway \<Rightarrow> transit_gateway \<Rightarrow> delta
   \<Rightarrow> (transit_gateway option \<times> error option) act" where
  "customUpdateTransitGateway api R desired latest d =
     syncTagsIf api (DifferentAt R d ''Spec.Tags'') (TransitGatewayID (tgStatus latest)) (tgTags (tgSpec desired)) (tgTags (tgSpec latest))
       (ret (Some desired, None))"

definition sdkDelete_Transit :: "'x transit_api_scheme \<Rightarrow> transit_gateway \<Rightarrow> (transit_gateway option \<times> error option) act" where
  "sdkDelete_Transit api r =
     deleteOne (\<lambda>i. TransitCall (DeleteTransitGateway i)) (onDeleteTransitGateway api) ''DeleteTransitGateway'' (TransitGatewayID (tgStatus r))"

interpretation transit_tags: tags_only api R "customUpdateTransitGateway api R" "\<lambda>k. TransitGatewayID (tgStatus k)"
    "\<lambda>k. tgTags (tgSpec k)" "\<lambda>desired latest. desired"
  for api :: "'x transit_api_scheme" and R :: "('y) ack_runtime_scheme"
  by unfold_locales (simp add: customUpdateTransitGateway_def)

subsection \<open>Comparing\<close>

definition compareTransitOptions ::
  "('x) ackcompare_scheme \<Rightarrow> transit_options \<Rightarrow> transit_options \<Rightarrow> delta \<Rightarrow> delta" where
  "compareTransitOptions C u v d =
    (let d1 = cmpInt C ''Spec.Options.AmazonSideASN'' (AmazonSideASN u) (AmazonSideASN v) d;
         d2 = cmpStr C ''Spec.Options.AutoAcceptSharedAttachments'' (AutoAcceptSharedAttachments u) (AutoAcceptSharedAttachments v) d1;
         d3 = cmpStr C ''Spec.Options.DefaultRouteTableAssociation'' (DefaultRouteTableAssociation u) (DefaultRouteTableAssociation v) d2;
         d4 = cmpStr C ''Spec.Options.DefaultRouteTablePropagation'' (DefaultRouteTablePropagation u) (DefaultRouteTablePropagation v) d3;
         d5 = cmpStr C ''Spec.Options.DNSSupport'' (toDNSSupport u) (toDNSSupport v) d4;
         d6 = cmpStr C ''Spec.Options.MulticastSupport'' (MulticastSupport u) (MulticastSupport v) d5;
         d7 = cmpStrs C ''Spec.Options.TransitGatewayCIDRBlocks'' (TransitGatewayCIDRBlocks u) (TransitGatewayCIDRBlocks v) d6
     in cmpStr C ''Spec.Options.VPNECMPSupport'' (VPNECMPSupport u) (VPNECMPSupport v) d7)"

definition compareSpecs_Transit :: "('x) ackcompare_scheme \<Rightarrow> transit_gateway_spec \<Rightarrow> transit_gateway_spec \<Rightarrow> delta" where
  "compareSpecs_Transit C a b =
    (let d1 = cmpStr C ''Spec.Description'' (tgDescription a) (tgDescription b) [];
         d2 = compareStruct C ''Spec.Options'' (compareTransitOptions C) (tgOptions a) (tgOptions b) d1
     in compareTags C ''Spec.Tags'' (tgTags a) (tgTags b) d2)"

definition newResourceDelta_Transit :: "('x) ackcompare_scheme \<Rightarrow> transit_gateway option \<Rightarrow> transit_gateway option \<Rightarrow> delta act" where
  "newResourceDelta_Transit C a b = bothResources a b (\<lambda>x y. compareSpecs_Transit C (tgSpec x) (tgSpec y)) (\<lambda>d. d)"

subsection \<open>The kind\<close>

definition mirrorTags_Transit :: "(acktags \<Rightarrow> acktags) \<Rightarrow> transit_gateway \<Rightarrow> transit_gateway option \<Rightarrow> transit_gateway" where
  "mirrorTags_Transit iter a b =
     (case b of None \<Rightarrow> a
      | Some l \<Rightarrow> a\<lparr>tgSpec := (tgSpec a)\<lparr>tgTags := mirrorAWSTags iter (tgTags (tgSpec a)) (tgTags (tgSpec l))\<rparr>\<rparr>)"

definition tgKind :: "'x transit_api_scheme \<Rightarrow> ('y) ack_runtime_scheme \<Rightarrow> resource_manager \<Rightarrow> error_texts \<Rightarrow> transit_gateway kind" where
  "tgKind api R rm env =
     \<lparr>findOp = (\<lambda>r. bind (sdkFind_Transit api R rm r) (\<lambda>x. ret (r, x))),
      createOp = sdkCreate_Transit api R rm,
      updateOp = (\<lambda>desired latest d. bind (customUpdateTransitGateway api R desired latest d) (\<lambda>x. ret (latest, x))),
      deleteOp = sdkDelete_Transit api,
      mirrorOp = mirrorTags_Transit (rangeOf R),
      conditionsOp = (\<lambda>k. Conditions (tgStatus k)),
      updateConditionsOp = conditionsUpdater env [] rm tgStatus (\<lambda>st k. k\<lparr>tgStatus := st\<rparr>)\<rparr>"

lemma tg_reports: "AWSError_law env \<Longrightarrow> reporting_kind (tgKind api R rm env) []"
  by (rule conditionsUpdater_reports [where get = tgStatus and put = "\<lambda>st k. k\<lparr>tgStatus := st\<rparr>"]) (simp_all add: tgKind_def)

interpretation tg_kind: reporting_kind "tgKind api R rm plainTexts" "[]"
  for api :: "'x transit_api_scheme" and R :: "('y) ack_runtime_scheme" and rm
  by (rule tg_reports [OF plainTexts_law])

subsection \<open>Properties\<close>

text \<open>Options that EC2 can hand back as they were sent: no field is an empty string, no block is nil.\<close>

definition plainOptions :: "transit_options \<Rightarrow> bool" where
  "plainOptions x \<longleftrightarrow> (\<forall>p \<in> {AutoAcceptSharedAttachments x, DefaultRouteTableAssociation x, DefaultRouteTablePropagation x, toDNSSupport x,
     MulticastSupport x, VPNECMPSupport x}. p \<noteq> Some []) \<and> None \<notin> set (TransitGatewayCIDRBlocks x)"

lemma enumPtr_safeString: "p \<noteq> Some [] \<Longrightarrow> enumPtr (safeString p) = p"
  by (cases p) (simp_all add: enumPtr_def)

lemma StringSlice_ToStringSlice:
  assumes "runtime_law R" "None \<notin> set ps"
  shows "StringSlice R (ToStringSlice R ps) = ps"
  using no_nils [OF assms(2)] by (metis map_map map_safeString_Some runtime_simps(5,6) [OF assms(1)])

lemma transitOptions_roundtrip:
  assumes "runtime_law R" "plainOptions x"
  shows "transitOptionsFromSdk R (transitOptionsToSdk R x) = x"
  using assms(2) StringSlice_ToStringSlice [OF assms(1), of "TransitGatewayCIDRBlocks x"]
  by (auto simp: transitOptionsFromSdk_def transitOptionsToSdk_def enumPtr_safeString plainOptions_def runtime_simps(5) [OF assms(1)])

text \<open>
  C35. What was created reads back as no difference. When EC2 answers a creation with the description,
  the options and the tags it was sent, the created resource has the spec that was asked for, and
  comparing the two finds nothing.
\<close>

theorem created_gateway_has_no_difference:
  assumes "runtime_law R" "ackcompare_law C" "\<forall>x. tgOptions (tgSpec r) = Some x \<longrightarrow> plainOptions x"
    and "sdkTgDescription x = ctgDescription input" "sdkTgOptions x = ctgOptions input"
    and "sdkTgTags x = map_option (map (\<lambda>t. \<lparr>sdkKey = Key t, sdkValue = Value t\<rparr>)) (tgTags (tgSpec r))"
    and "input = updateTagSpecifications_Transit r (newCreateRequestPayload_Transit R r)"
    and "onCreateTransitGateway api s input = Inr (Some (Some x))"
  shows "\<exists>k t. sdkCreate_Transit api R rm r s = (Ret (Some k, None), t) \<and> tgSpec k = tgSpec r
    \<and> compareSpecs_Transit C (tgSpec r) (tgSpec k) = []"
proof -
  let ?k = "defaults_Transit rm (setCreated_Transit R r x)"
  have "map_option (transitOptionsFromSdk R \<circ> transitOptionsToSdk R) (tgOptions (tgSpec r)) = tgOptions (tgSpec r)"
    using transitOptions_roundtrip [OF assms(1)] assms(3) by (cases "tgOptions (tgSpec r)") simp_all
  moreover have "resourceTags (map (\<lambda>t. \<lparr>sdkKey = Key t, sdkValue = Value t\<rparr>) ts) = ts" for ts
    by (induction ts) (simp_all add: resourceTags_def)
  then have "map_option (resourceTags \<circ> map (\<lambda>t. \<lparr>sdkKey = Key t, sdkValue = Value t\<rparr>)) (tgTags (tgSpec r)) = tgTags (tgSpec r)"
    by (cases "tgTags (tgSpec r)") simp_all
  ultimately have sp: "tgSpec ?k = tgSpec r"
    by (simp add: defaults_Transit_def setCreated_Transit_def setCommon_Transit_def Let_def option.map_comp assms(4-7)
        updateTagSpecifications_Transit_def newCreateRequestPayload_Transit_def)
  have "compareTransitOptions C u u d = d" for u d
    by (simp add: compareTransitOptions_def Let_def compare_same [OF assms(2)])
  then have "compareSpecs_Transit C (tgSpec r) (tgSpec r) = []"
    by (simp add: compareSpecs_Transit_def Let_def compare_same [OF assms(2)])
  moreover have "\<exists>t. sdkCreate_Transit api R rm r s = (Ret (Some ?k, None), t)"
    using assms(7,8) by (simp add: sdkCreate_Transit_def createOne_simps)
  ultimately show ?thesis using sp by auto
qed

subsection \<open>Witnesses\<close>

definition exampleTransit :: transit_gateway where
  "exampleTransit = \<lparr>tgSpec = \<lparr>tgDescription = Some ''hub'', tgOptions = Some \<lparr>AmazonSideASN = Some 64512, AutoAcceptSharedAttachments = None,
       DefaultRouteTableAssociation = Some ''enable'', DefaultRouteTablePropagation = None, toDNSSupport = Some ''enable'', MulticastSupport = None,
       TransitGatewayCIDRBlocks = [Some ''10.0.0.0/24''], VPNECMPSupport = None\<rparr>, tgTags = None\<rparr>,
     tgStatus = \<lparr>ACKResourceMetadata = None, Conditions = [], tgCreationTime = None, tgOwnerID = None, tgState = None, TransitGatewayID = None\<rparr>\<rparr>"

definition exampleSdkTransit :: "create_transit_input \<Rightarrow> sdk_transit_gateway" where
  "exampleSdkTransit i = \<lparr>sdkTgCreationTime = None, sdkTgDescription = ctgDescription i, sdkTgOptions = ctgOptions i, sdkTgOwnerId = None,
     sdkTgState = ''pending'', sdkTgTags = None, sdkTgTransitGatewayArn = None, sdkTgTransitGatewayId = Some ''tgw-1''\<rparr>"

definition exampleTransitApi :: transit_api where
  "exampleTransitApi = \<lparr>onCreateTags = (\<lambda>_ _. None), onDeleteTags = (\<lambda>_ _. None), onDescribeTransitGateways = (\<lambda>_ _. Inr (Some [])),
     onCreateTransitGateway = (\<lambda>_ i. Inr (Some (Some (exampleSdkTransit i)))), onDeleteTransitGateway = (\<lambda>_ _. None)\<rparr>"

lemma created_gateway_has_no_difference_witness:
  "\<exists>k t. sdkCreate_Transit exampleTransitApi exactRuntime exampleManager exampleTransit [] = (Ret (Some k, None), t)
    \<and> compareSpecs_Transit exactComparisons (tgSpec exampleTransit) (tgSpec k) = []"
proof -
  let ?i = "updateTagSpecifications_Transit exampleTransit (newCreateRequestPayload_Transit exactRuntime exampleTransit)"
  have "\<forall>x. tgOptions (tgSpec exampleTransit) = Some x \<longrightarrow> plainOptions x" "tgTags (tgSpec exampleTransit) = None"
    by (simp_all add: exampleTransit_def plainOptions_def)
  moreover have "sdkTgDescription (exampleSdkTransit ?i) = ctgDescription ?i" "sdkTgOptions (exampleSdkTransit ?i) = ctgOptions ?i"
    "sdkTgTags (exampleSdkTransit ?i) = None" by (simp_all add: exampleSdkTransit_def)
  moreover have "onCreateTransitGateway exampleTransitApi [] ?i = Inr (Some (Some (exampleSdkTransit ?i)))"
    by (simp add: exampleTransitApi_def)
  ultimately show ?thesis
    using created_gateway_has_no_difference [OF exactRuntime_law exactComparisons_law, of exampleTransit "exampleSdkTransit ?i" ?i exampleTransitApi "[]"
        exampleManager] by auto
qed

end
