(* ===== verification/ElasticIP.thy ===== *)
theory ElasticIP
  imports Runtime
begin

text \<open>
  The elastic IP address controller (\<open>pkg/resource/elastic_ip_address/hooks.go\<close>, \<open>sdk.go\<close>,
  \<open>delta.go\<close>). Names that another kind uses too carry the suffix \<open>_EIP\<close>.
\<close>

subsection \<open>Data\<close>

record elastic_ip_spec =
  eiAddress :: "string option"
  eiCustomerOwnedIPv4Pool :: "string option"
  eiNetworkBorderGroup :: "string option"
  eiPublicIPv4Pool :: "string option"
  eiTags :: "tag list option"

record elastic_ip_status = common_status +
  eiAllocationID :: "string option"
  eiCarrierIP :: "string option"
  eiCustomerOwnedIP :: "string option"
  eiPublicIP :: "string option"

record elastic_ip =
  eiSpec :: elastic_ip_spec
  eiStatus :: elastic_ip_status

record address_api = tags_api +
  onDescribeAddresses :: "call log \<Rightarrow> describe_addresses_input \<Rightarrow> error + sdk_tagged_address list option"
  onAllocateAddress :: "call log \<Rightarrow> allocate_address_input \<Rightarrow> error + sdk_address option"
  onReleaseAddress :: "call log \<Rightarrow> release_address_input \<Rightarrow> error option"

subsection \<open>Reading\<close>

definition setFrom_EIP :: "elastic_ip \<Rightarrow> ('a) sdk_address_scheme \<Rightarrow> elastic_ip" where
  "setFrom_EIP k x =
     k\<lparr>eiSpec := (eiSpec k)\<lparr>eiCustomerOwnedIPv4Pool := sdkAdCustomerOwnedIpv4Pool x, eiNetworkBorderGroup := sdkAdNetworkBorderGroup x,
         eiPublicIPv4Pool := sdkAdPublicIpv4Pool x\<rparr>,
       eiStatus := (eiStatus k)\<lparr>eiAllocationID := sdkAdAllocationId x, eiCarrierIP := sdkAdCarrierIp x,
         eiCustomerOwnedIP := sdkAdCustomerOwnedIp x, eiPublicIP := sdkAdPublicIp x\<rparr>\<rparr>"

definition setRead_EIP :: "elastic_ip \<Rightarrow> sdk_tagged_address \<Rightarrow> elastic_ip" where
  "setRead_EIP k x =
     (let k1 = setFrom_EIP k x in k1\<lparr>eiSpec := (eiSpec k1)\<lparr>eiTags := map_option resourceTags (sdkAdTags x)\<rparr>\<rparr>)"

definition defaults_EIP :: "resource_manager \<Rightarrow> elastic_ip \<Rightarrow> elastic_ip" where
  "defaults_EIP rm k = k\<lparr>eiStatus := setStatusDefaults rm (eiStatus k)\<rparr>"

text \<open>The generated payload is empty; the hook puts in the allocation, or else the public address.\<close>

definition listInput_EIP :: "elastic_ip \<Rightarrow> describe_addresses_input" where
  "listInput_EIP r =
     (case eiAllocationID (eiStatus r) of
        Some i \<Rightarrow> \<lparr>daAllocationIds = [i], daPublicIps = []\<rparr>
      | None \<Rightarrow> \<lparr>daAllocationIds = [], daPublicIps = (case eiPublicIP (eiStatus r) of None \<Rightarrow> [] | Some p \<Rightarrow> [p])\<rparr>)"

text \<open>An element with the identifier of another address is skipped.\<close>

definition sameAllocation :: "elastic_ip \<Rightarrow> sdk_tagged_address \<Rightarrow> bool" where
  "sameAllocation r x \<longleftrightarrow> sdkAdAllocationId x = None \<or> eiAllocationID (eiStatus r) = None
     \<or> sdkAdAllocationId x = eiAllocationID (eiStatus r)"

definition sdkFind_EIP ::
  "'x address_api_scheme \<Rightarrow> resource_manager \<Rightarrow> elastic_ip \<Rightarrow> (elastic_ip option \<times> error option) act" where
  "sdkFind_EIP api rm r =
     readPicked (eiAllocationID (eiStatus r) = None) (\<lambda>i. AddressCall (DescribeAddresses i)) (onDescribeAddresses api) ''DescribeAddresses''
       (listInput_EIP r) (sameAllocation r) (\<lambda>elem. ret (Some (defaults_EIP rm (setRead_EIP r elem)), None))"

subsection \<open>Creating, updating and deleting\<close>

definition newCreateRequestPayload_EIP :: "elastic_ip \<Rightarrow> allocate_address_input" where
  "newCreateRequestPayload_EIP r =
     \<lparr>aaAddress = eiAddress (eiSpec r), aaCustomerOwnedIpv4Pool = eiCustomerOwnedIPv4Pool (eiSpec r),
      aaNetworkBorderGroup = eiNetworkBorderGroup (eiSpec r), aaPublicIpv4Pool = eiPublicIPv4Pool (eiSpec r), aaDomain = [],
      aaTagSpecifications = None\<rparr>"

definition updateTagSpecifications_EIP :: "elastic_ip \<Rightarrow> allocate_address_input \<Rightarrow> allocate_address_input" where
  "updateTagSpecifications_EIP r input = input\<lparr>aaTagSpecifications := tagSpecificationsFor ''elastic-ip'' (eiTags (eiSpec r))\<rparr>"

definition sdkCreate_EIP ::
  "'x address_api_scheme \<Rightarrow> resource_manager \<Rightarrow> elastic_ip \<Rightarrow> (elastic_ip option \<times> error option) act" where
  "sdkCreate_EIP api rm desired =
     createFlat (\<lambda>i. AddressCall (AllocateAddress i)) (onAllocateAddress api) ''AllocateAddress''
       ((updateTagSpecifications_EIP desired (newCreateRequestPayload_EIP desired))\<lparr>aaDomain := ''vpc''\<rparr>)
       (\<lambda>resp. ret (Some (defaults_EIP rm (setFrom_EIP desired resp)), None))"

definition customUpdateElasticIP ::
  "'x address_api_scheme \<Rightarrow> ('y) ack_runtime_scheme \<Rightarrow> elastic_ip \<Rightarrow> elastic_ip \<Rightarrow> delta \<Rightarrow> (elastic_ip option \<times> error option) act" where
  "customUpdateElasticIP api R desired latest d =
     syncTagsIf api (DifferentAt R d ''Spec.Tags'') (eiAllocationID (eiStatus latest)) (eiTags (eiSpec desired)) (eiTags (eiSpec latest))
       (ret (Some desired, None))"

definition newDeleteRequestPayload_EIP :: "elastic_ip \<Rightarrow> release_address_input" where
  "newDeleteRequestPayload_EIP r =
     \<lparr>raAllocationId = eiAllocationID (eiStatus r), raNetworkBorderGroup = eiNetworkBorderGroup (eiSpec r), raPublicIp = eiPublicIP (eiStatus r)\<rparr>"

definition sdkDelete_EIP :: "'x address_api_scheme \<Rightarrow> elastic_ip \<Rightarrow> (elastic_ip option \<times> error option) act" where
  "sdkDelete_EIP api r =
     (let input = newDeleteRequestPayload_EIP r
      in deleteOne (\<lambda>i. AddressCall (ReleaseAddress i)) (onReleaseAddress api) ''ReleaseAddress''
           (if raPublicIp input \<noteq> None \<and> raAllocationId input \<noteq> None then input\<lparr>raPublicIp := None\<rparr> else input))"

interpretation eip_tags: tags_only api R "customUpdateElasticIP api R" "\<lambda>k. eiAllocationID (eiStatus k)" "\<lambda>k. eiTags (eiSpec k)"
    "\<lambda>desired latest. desired"
  for api :: "'x address_api_scheme" and R :: "('y) ack_runtime_scheme"
  by unfold_locales (simp add: customUpdateElasticIP_def)

subsection \<open>Comparing\<close>

definition compareSpecs_EIP :: "('x) ackcompare_scheme \<Rightarrow> elastic_ip_spec \<Rightarrow> elastic_ip_spec \<Rightarrow> delta" where
  "compareSpecs_EIP C a b =
    (let d1 = cmpStr C ''Spec.Address'' (eiAddress a) (eiAddress b) [];
         d2 = cmpStr C ''Spec.CustomerOwnedIPv4Pool'' (eiCustomerOwnedIPv4Pool a) (eiCustomerOwnedIPv4Pool b) d1;
         d3 = cmpStr C ''Spec.NetworkBorderGroup'' (eiNetworkBorderGroup a) (eiNetworkBorderGroup b) d2;
         d4 = cmpStr C ''Spec.PublicIPv4Pool'' (eiPublicIPv4Pool a) (eiPublicIPv4Pool b) d3
     in compareTags C ''Spec.Tags'' (eiTags a) (eiTags b) d4)"

definition newResourceDelta_EIP :: "('x) ackcompare_scheme \<Rightarrow> elastic_ip option \<Rightarrow> elastic_ip option \<Rightarrow> delta act" where
  "newResourceDelta_EIP C a b = bothResources a b (\<lambda>x y. compareSpecs_EIP C (eiSpec x) (eiSpec y)) (\<lambda>d. d)"

subsection \<open>The kind\<close>

definition mirrorTags_EIP :: "(acktags \<Rightarrow> acktags) \<Rightarrow> elastic_ip \<Rightarrow> elastic_ip option \<Rightarrow> elastic_ip" where
  "mirrorTags_EIP iter a b =
     (case b of None \<Rightarrow> a
      | Some l \<Rightarrow> a\<lparr>eiSpec := (eiSpec a)\<lparr>eiTags := mirrorAWSTags iter (eiTags (eiSpec a)) (eiTags (eiSpec l))\<rparr>\<rparr>)"

definition terminalCodes_EIP :: "string list" where
  "terminalCodes_EIP = [''InvalidParameterCombination'', ''InvalidParameterValue'']"

definition eiKind :: "'x address_api_scheme \<Rightarrow> ('y) ack_runtime_scheme \<Rightarrow> resource_manager \<Rightarrow> error_texts \<Rightarrow> elastic_ip kind" where
  "eiKind api R rm env =
     \<lparr>findOp = (\<lambda>r. bind (sdkFind_EIP api rm r) (\<lambda>x. ret (r, x))),
      createOp = sdkCreate_EIP api rm,
      updateOp = (\<lambda>desired latest d. bind (customUpdateElasticIP api R desired latest d) (\<lambda>x. ret (latest, x))),
      deleteOp = sdkDelete_EIP api,
      mirrorOp = mirrorTags_EIP (rangeOf R),
      conditionsOp = (\<lambda>k. Conditions (eiStatus k)),
      updateConditionsOp = conditionsUpdater env terminalCodes_EIP rm eiStatus (\<lambda>st k. k\<lparr>eiStatus := st\<rparr>)\<rparr>"

lemma ei_reports: "AWSError_law env \<Longrightarrow> reporting_kind (eiKind api R rm env) terminalCodes_EIP"
  by (rule conditionsUpdater_reports [where get = eiStatus and put = "\<lambda>st k. k\<lparr>eiStatus := st\<rparr>"]) (simp_all add: eiKind_def)

interpretation ei_kind: reporting_kind "eiKind api R rm plainTexts" terminalCodes_EIP
  for api :: "'x address_api_scheme" and R :: "('y) ack_runtime_scheme" and rm
  by (rule ei_reports [OF plainTexts_law])

subsection \<open>Properties\<close>

text \<open>
  A deletion releases the address the resource stands for. Whatever addresses EC2 lists beside it,
  as long as each has its allocation identifier, the resource that was read has the identifier it was
  read for, and its deletion is the release of that allocation, without the public address.
\<close>

theorem deletion_releases_own_address:
  assumes "eiAllocationID (eiStatus r) = Some i" "onDescribeAddresses api s \<lparr>daAllocationIds = [i], daPublicIps = []\<rparr> = Inr (Some xs)"
    and "\<forall>x \<in> set xs. sdkAdAllocationId x \<noteq> None" "sdkFind_EIP api rm r s = (Ret (Some k, e), t)"
  shows "\<exists>b. calls (snd (sdkDelete_EIP api k u)) = calls u @ [AddressCall (ReleaseAddress
    \<lparr>raAllocationId = Some i, raNetworkBorderGroup = b, raPublicIp = None\<rparr>)]"
proof -
  have input: "listInput_EIP r = \<lparr>daAllocationIds = [i], daPublicIps = []\<rparr>" using assms(1) by (simp add: listInput_EIP_def)
  obtain x where x: "x \<in> set (filter (sameAllocation r) xs)" "k = defaults_EIP rm (setRead_EIP r x)"
  proof (cases "filter (sameAllocation r) xs")
    case Nil
    with assms(1,2,4) input show ?thesis by (simp add: sdkFind_EIP_def readPicked_def readMany_simps)
  next
    case (Cons x ys)
    with assms(1,2,4) input have "k = defaults_EIP rm (setRead_EIP r x)"
      by (simp add: sdkFind_EIP_def readPicked_def readMany_simps)
    with Cons that [of x] show ?thesis by simp
  qed
  then have "eiAllocationID (eiStatus k) = Some i"
    using assms(1,3) by (auto simp: sameAllocation_def defaults_EIP_def setRead_EIP_def setFrom_EIP_def setStatusDefaults_def Let_def
        elastic_ip_status.defs)
  then show ?thesis
    by (cases "eiPublicIP (eiStatus k)") (simp_all add: sdkDelete_EIP_def newDeleteRequestPayload_EIP_def Let_def)
qed

subsection \<open>Witnesses\<close>

definition exampleEIP :: elastic_ip where
  "exampleEIP = \<lparr>eiSpec = \<lparr>eiAddress = None, eiCustomerOwnedIPv4Pool = None, eiNetworkBorderGroup = None, eiPublicIPv4Pool = None, eiTags = None\<rparr>,
     eiStatus = \<lparr>ACKResourceMetadata = None, Conditions = [], eiAllocationID = Some ''eipalloc-1'', eiCarrierIP = None, eiCustomerOwnedIP = None,
       eiPublicIP = None\<rparr>\<rparr>"

definition exampleSdkAddress :: "string \<Rightarrow> sdk_tagged_address" where
  "exampleSdkAddress i = \<lparr>sdkAdAllocationId = Some i, sdkAdCarrierIp = None, sdkAdCustomerOwnedIp = None, sdkAdCustomerOwnedIpv4Pool = None,
     sdkAdNetworkBorderGroup = Some ''us-west-2'', sdkAdPublicIp = Some ''203.0.113.9'', sdkAdPublicIpv4Pool = Some ''amazon'', sdkAdTags = None\<rparr>"

definition exampleAddressApi :: address_api where
  "exampleAddressApi = \<lparr>onCreateTags = (\<lambda>_ _. None), onDeleteTags = (\<lambda>_ _. None),
     onDescribeAddresses = (\<lambda>_ _. Inr (Some [exampleSdkAddress ''eipalloc-2'', exampleSdkAddress ''eipalloc-1''])),
     onAllocateAddress = (\<lambda>_ _. Inr None), onReleaseAddress = (\<lambda>_ _. None)\<rparr>"

lemma deletion_releases_own_address_witness:
  "\<exists>k t b. sdkFind_EIP exampleAddressApi exampleManager exampleEIP [] = (Ret (Some k, None), t)
    \<and> calls (snd (sdkDelete_EIP exampleAddressApi k [])) = [AddressCall (ReleaseAddress
        \<lparr>raAllocationId = Some ''eipalloc-1'', raNetworkBorderGroup = b, raPublicIp = None\<rparr>)]"
proof -
  obtain k t where f: "sdkFind_EIP exampleAddressApi exampleManager exampleEIP [] = (Ret (Some k, None), t)"
    by (simp add: sdkFind_EIP_def readPicked_def readMany_simps exampleEIP_def exampleAddressApi_def sameAllocation_def exampleSdkAddress_def)
  have "eiAllocationID (eiStatus exampleEIP) = Some ''eipalloc-1''" by (simp add: exampleEIP_def)
  moreover have "onDescribeAddresses exampleAddressApi [] \<lparr>daAllocationIds = [''eipalloc-1''], daPublicIps = []\<rparr>
      = Inr (Some [exampleSdkAddress ''eipalloc-2'', exampleSdkAddress ''eipalloc-1''])" by (simp add: exampleAddressApi_def)
  moreover have "\<forall>x \<in> set [exampleSdkAddress ''eipalloc-2'', exampleSdkAddress ''eipalloc-1'']. sdkAdAllocationId x \<noteq> None"
    by (simp add: exampleSdkAddress_def)
  ultimately have "\<exists>b. calls (snd (sdkDelete_EIP exampleAddressApi k [])) = calls [] @ [AddressCall (ReleaseAddress
        \<lparr>raAllocationId = Some ''eipalloc-1'', raNetworkBorderGroup = b, raPublicIp = None\<rparr>)]"
    by (rule deletion_releases_own_address [OF _ _ _ f])
  with f show ?thesis by auto
qed

end
