(* ===== verification/EgressGateway.thy ===== *)
theory EgressGateway
  imports Runtime
begin

text \<open>
  The egress-only internet gateway controller (\<open>pkg/resource/egress_only_internet_gateway/hooks.go\<close>,
  \<open>sdk.go\<close>, \<open>delta.go\<close>). Names that another kind uses too carry the suffix \<open>_Egress\<close>.
\<close>

subsection \<open>Data\<close>

record egress_attachment =
  eaState :: "string option"
  eaVPCID :: "string option"

record egress_gateway_spec =
  egTags :: "tag list option"
  egVPCID :: "string option"
  egVPCRef :: "ref_wrapper option"

record egress_gateway_status = common_status +
  egAttachments :: "egress_attachment list option"
  egID :: "string option"

record egress_gateway =
  egSpec :: egress_gateway_spec
  egStatus :: egress_gateway_status

record egress_api = tags_api +
  onDescribeEgressOnlyInternetGateways :: "call log \<Rightarrow> string list \<Rightarrow> error + sdk_egress_gateway list option"
  onCreateEgressOnlyInternetGateway :: "call log \<Rightarrow> create_in_vpc_input \<Rightarrow> error + sdk_egress_gateway option option"
  onDeleteEgressOnlyInternetGateway :: "call log \<Rightarrow> string option \<Rightarrow> error option"

subsection \<open>Reading\<close>

definition egressAttachmentFromSdk :: "sdk_gateway_attachment \<Rightarrow> egress_attachment" where
  "egressAttachmentFromSdk x = \<lparr>eaState = enumPtr (sdkGaState x), eaVPCID = sdkGaVpcId x\<rparr>"

text \<open>The setter does not touch the VPC of the spec.\<close>

definition setFrom_Egress :: "egress_gateway \<Rightarrow> sdk_egress_gateway \<Rightarrow> egress_gateway" where
  "setFrom_Egress k x =
     k\<lparr>egSpec := (egSpec k)\<lparr>egTags := map_option resourceTags (sdkEgTags x)\<rparr>,
       egStatus := (egStatus k)\<lparr>egAttachments := map_option (map egressAttachmentFromSdk) (sdkEgAttachments x),
         egID := sdkEgEgressOnlyInternetGatewayId x\<rparr>\<rparr>"

definition defaults_Egress :: "resource_manager \<Rightarrow> egress_gateway \<Rightarrow> egress_gateway" where
  "defaults_Egress rm k = k\<lparr>egStatus := setStatusDefaults rm (egStatus k)\<rparr>"

definition requiredFieldsMissing_Egress :: "egress_gateway \<Rightarrow> bool" where
  "requiredFieldsMissing_Egress r \<longleftrightarrow> egID (egStatus r) = None"

definition newListRequestPayload_Egress :: "egress_gateway \<Rightarrow> string list" where
  "newListRequestPayload_Egress r = (case egID (egStatus r) of None \<Rightarrow> [] | Some i \<Rightarrow> [i])"

definition sdkFind_Egress ::
  "'x egress_api_scheme \<Rightarrow> resource_manager \<Rightarrow> egress_gateway \<Rightarrow> (egress_gateway option \<times> error option) act" where
  "sdkFind_Egress api rm r =
     readMany (requiredFieldsMissing_Egress r) (\<lambda>i. EgressCall (DescribeEgressOnlyInternetGateways i))
       (onDescribeEgressOnlyInternetGateways api) ''DescribeEgressOnlyInternetGateways'' (newListRequestPayload_Egress r)
       (\<lambda>elem. ret (Some (defaults_Egress rm (setFrom_Egress r elem)), None))"

subsection \<open>Creating, updating and deleting\<close>

definition newCreateRequestPayload_Egress :: "egress_gateway \<Rightarrow> create_in_vpc_input" where
  "newCreateRequestPayload_Egress r = \<lparr>civVpcId = egVPCID (egSpec r), civTagSpecifications = None\<rparr>"

definition updateTagSpecifications_Egress :: "egress_gateway \<Rightarrow> create_in_vpc_input \<Rightarrow> create_in_vpc_input" where
  "updateTagSpecifications_Egress r input =
     input\<lparr>civTagSpecifications := tagSpecificationsFor ''egress-only-internet-gateway'' (egTags (egSpec r))\<rparr>"

definition sdkCreate_Egress ::
  "'x egress_api_scheme \<Rightarrow> resource_manager \<Rightarrow> egress_gateway \<Rightarrow> (egress_gateway option \<times> error option) act" where
  "sdkCreate_Egress api rm desired =
     createOne (\<lambda>i. EgressCall (CreateEgressOnlyInternetGateway i)) (onCreateEgressOnlyInternetGateway api) ''CreateEgressOnlyInternetGateway''
       (updateTagSpecifications_Egress desired (newCreateRequestPayload_Egress desired))
       (\<lambda>resp. ret (Some (defaults_Egress rm (setFrom_Egress desired resp)), None))"

definition customUpdateEgressOnlyInternetGateway ::
  "'x egress_api_scheme \<Rightarrow> ('y) ack_runtime_scheme \<Rightarrow> egress_gateway \<Rightarrow> egress_gateway \<Rightarrow> delta
   \<Rightarrow> (egress_gateway option \<times> error option) act" where
  "customUpdateEgressOnlyInternetGateway api R desired latest d =
     (let updated = desired\<lparr>egStatus := egStatus latest\<rparr>
      in syncTagsIf api (DifferentAt R d ''Spec.Tags'') (egID (egStatus latest)) (egTags (egSpec desired)) (egTags (egSpec latest))
           (ret (Some updated, None)))"

definition sdkDelete_Egress :: "'x egress_api_scheme \<Rightarrow> egress_gateway \<Rightarrow> (egress_gateway option \<times> error option) act" where
  "sdkDelete_Egress api r =
     deleteOne (\<lambda>i. EgressCall (DeleteEgressOnlyInternetGateway i)) (onDeleteEgressOnlyInternetGateway api)
       ''DeleteEgressOnlyInternetGateway'' (egID (egStatus r))"

interpretation egress_tags: tags_only api R "customUpdateEgressOnlyInternetGateway api R" "\<lambda>k. egID (egStatus k)" "\<lambda>k. egTags (egSpec k)"
    "\<lambda>desired latest. desired\<lparr>egStatus := egStatus latest\<rparr>"
  for api :: "'x egress_api_scheme" and R :: "('y) ack_runtime_scheme"
  by unfold_locales (simp add: customUpdateEgressOnlyInternetGateway_def)

subsection \<open>Comparing\<close>

definition compareSpecs_Egress :: "('x) ackcompare_scheme \<Rightarrow> egress_gateway_spec \<Rightarrow> egress_gateway_spec \<Rightarrow> delta" where
  "compareSpecs_Egress C a b =
    (let d1 = compareTags C ''Spec.Tags'' (egTags a) (egTags b) [];
         d2 = cmpStr C ''Spec.VPCID'' (egVPCID a) (egVPCID b) d1
     in compareRef C ''Spec.VPCRef'' (egVPCRef a) (egVPCRef b) d2)"

definition newResourceDelta_Egress :: "('x) ackcompare_scheme \<Rightarrow> egress_gateway option \<Rightarrow> egress_gateway option \<Rightarrow> delta act" where
  "newResourceDelta_Egress C a b = bothResources a b (\<lambda>x y. compareSpecs_Egress C (egSpec x) (egSpec y)) (\<lambda>d. d)"

subsection \<open>The kind\<close>

definition mirrorTags_Egress :: "(acktags \<Rightarrow> acktags) \<Rightarrow> egress_gateway \<Rightarrow> egress_gateway option \<Rightarrow> egress_gateway" where
  "mirrorTags_Egress iter a b =
     (case b of None \<Rightarrow> a
      | Some l \<Rightarrow> a\<lparr>egSpec := (egSpec a)\<lparr>egTags := mirrorAWSTags iter (egTags (egSpec a)) (egTags (egSpec l))\<rparr>\<rparr>)"

definition egKind :: "'x egress_api_scheme \<Rightarrow> ('y) ack_runtime_scheme \<Rightarrow> resource_manager \<Rightarrow> error_texts \<Rightarrow> egress_gateway kind" where
  "egKind api R rm env =
     \<lparr>findOp = (\<lambda>r. bind (sdkFind_Egress api rm r) (\<lambda>x. ret (r, x))),
      createOp = sdkCreate_Egress api rm,
      updateOp = (\<lambda>desired latest d. bind (customUpdateEgressOnlyInternetGateway api R desired latest d) (\<lambda>x. ret (latest, x))),
      deleteOp = sdkDelete_Egress api,
      mirrorOp = mirrorTags_Egress (rangeOf R),
      conditionsOp = (\<lambda>k. Conditions (egStatus k)),
      updateConditionsOp = conditionsUpdater env [] rm egStatus (\<lambda>st k. k\<lparr>egStatus := st\<rparr>)\<rparr>"

lemma eg_reports: "AWSError_law env \<Longrightarrow> reporting_kind (egKind api R rm env) []"
  by (rule conditionsUpdater_reports [where get = egStatus and put = "\<lambda>st k. k\<lparr>egStatus := st\<rparr>"]) (simp_all add: egKind_def)

interpretation eg_kind: reporting_kind "egKind api R rm plainTexts" "[]"
  for api :: "'x egress_api_scheme" and R :: "('y) ack_runtime_scheme" and rm
  by (rule eg_reports [OF plainTexts_law])

end
