(* ===== verification/FlowLog.thy ===== *)
theory FlowLog
  imports Runtime
begin

text \<open>
  The flow log controller (\<open>pkg/resource/flow_log/hooks.go\<close>, \<open>sdk.go\<close>, \<open>delta.go\<close>). Names that another
  kind uses too carry the suffix \<open>_FlowLog\<close>.
\<close>

subsection \<open>Data\<close>

record destination_options =
  FileFormat :: "string option"
  HiveCompatiblePartitions :: "bool option"
  PerHourPartition :: "bool option"

record flow_log_spec =
  flDeliverLogsPermissionARN :: "string option"
  flDeliverLogsPermissionRef :: "ref_wrapper option"
  flDestinationOptions :: "destination_options option"
  flLogDestination :: "string option"
  flLogDestinationType :: "string option"
  flLogFormat :: "string option"
  flLogGroupName :: "string option"
  flLogGroupRef :: "ref_wrapper option"
  flMaxAggregationInterval :: "int64 option"
  flResourceID :: "string option"
  flResourceType :: "string option"
  flTags :: "tag list option"
  flTrafficType :: "string option"

record unsuccessful_error =
  ueCode :: "string option"
  ueMessage :: "string option"

record unsuccessful_item =
  uiError :: "unsuccessful_error option"
  uiResourceID :: "string option"

record flow_log_status = common_status +
  flClientToken :: "string option"
  FlowLogID :: "string option"
  flUnsuccessful :: "unsuccessful_item list option"

record flow_log =
  flSpec :: flow_log_spec
  flStatus :: flow_log_status

record flow_log_api = tags_api +
  onDescribeFlowLogs :: "call log \<Rightarrow> string list \<Rightarrow> error + sdk_flow_log list option"
  onCreateFlowLogs :: "call log \<Rightarrow> create_flow_logs_input \<Rightarrow> error + create_flow_logs_output option"
  onDeleteFlowLogs :: "call log \<Rightarrow> string list \<Rightarrow> error option"

subsection \<open>Reading\<close>

definition destinationFromSdk :: "sdk_destination_options \<Rightarrow> destination_options" where
  "destinationFromSdk x = \<lparr>FileFormat = enumPtr (sdkDoFileFormat x), HiveCompatiblePartitions = sdkDoHiveCompatiblePartitions x,
     PerHourPartition = sdkDoPerHourPartition x\<rparr>"

text \<open>The setter touches the spec only; neither the resource nor its type are read.\<close>

definition setFrom_FlowLog :: "flow_log \<Rightarrow> sdk_flow_log \<Rightarrow> flow_log" where
  "setFrom_FlowLog k x =
     k\<lparr>flSpec := (flSpec k)\<lparr>flDeliverLogsPermissionARN := sdkFlDeliverLogsPermissionArn x,
         flDestinationOptions := map_option destinationFromSdk (sdkFlDestinationOptions x), flLogDestination := sdkFlLogDestination x,
         flLogDestinationType := enumPtr (sdkFlLogDestinationType x), flLogFormat := sdkFlLogFormat x, flLogGroupName := sdkFlLogGroupName x,
         flMaxAggregationInterval := map_option toInt64 (sdkFlMaxAggregationInterval x), flTags := map_option resourceTags (sdkFlTags x),
         flTrafficType := enumPtr (sdkFlTrafficType x)\<rparr>\<rparr>"

definition defaults_FlowLog :: "resource_manager \<Rightarrow> flow_log \<Rightarrow> flow_log" where
  "defaults_FlowLog rm k = k\<lparr>flStatus := setStatusDefaults rm (flStatus k)\<rparr>"

definition requiredFieldsMissing_FlowLog :: "flow_log \<Rightarrow> bool" where
  "requiredFieldsMissing_FlowLog r \<longleftrightarrow> FlowLogID (flStatus r) = None"

definition newListRequestPayload_FlowLog :: "flow_log \<Rightarrow> string list" where
  "newListRequestPayload_FlowLog r = (case FlowLogID (flStatus r) of None \<Rightarrow> [] | Some i \<Rightarrow> [i])"

definition sdkFind_FlowLog ::
  "'x flow_log_api_scheme \<Rightarrow> resource_manager \<Rightarrow> flow_log \<Rightarrow> (flow_log option \<times> error option) act" where
  "sdkFind_FlowLog api rm r =
     readMany (requiredFieldsMissing_FlowLog r) (\<lambda>i. FlowLogCall (DescribeFlowLogs i)) (onDescribeFlowLogs api) ''DescribeFlowLogs''
       (newListRequestPayload_FlowLog r) (\<lambda>elem. ret (Some (defaults_FlowLog rm (setFrom_FlowLog r elem)), None))"

subsection \<open>Creating, updating and deleting\<close>

definition destinationToSdk :: "destination_options \<Rightarrow> sdk_destination_options" where
  "destinationToSdk x = \<lparr>sdkDoFileFormat = safeString (FileFormat x), sdkDoHiveCompatiblePartitions = HiveCompatiblePartitions x,
     sdkDoPerHourPartition = PerHourPartition x\<rparr>"

definition newCreateRequestPayload_FlowLog :: "flow_log \<Rightarrow> error + create_flow_logs_input" where
  "newCreateRequestPayload_FlowLog r =
     (case narrowInt32 ''MaxAggregationInterval'' (flMaxAggregationInterval (flSpec r)) of
        Inl e \<Rightarrow> Inl e
      | Inr interval \<Rightarrow> Inr
         \<lparr>cflDeliverLogsPermissionArn = flDeliverLogsPermissionARN (flSpec r),
          cflDestinationOptions = map_option destinationToSdk (flDestinationOptions (flSpec r)),
          cflLogDestination = flLogDestination (flSpec r), cflLogDestinationType = safeString (flLogDestinationType (flSpec r)),
          cflLogFormat = flLogFormat (flSpec r), cflLogGroupName = flLogGroupName (flSpec r), cflMaxAggregationInterval = interval,
          cflResourceType = safeString (flResourceType (flSpec r)), cflTrafficType = safeString (flTrafficType (flSpec r)),
          cflResourceIds = [], cflTagSpecifications = None\<rparr>)"

definition updateTagSpecifications_FlowLog :: "flow_log \<Rightarrow> create_flow_logs_input \<Rightarrow> create_flow_logs_input" where
  "updateTagSpecifications_FlowLog r input = input\<lparr>cflTagSpecifications := tagSpecificationsFor ''vpc-flow-log'' (flTags (flSpec r))\<rparr>"

definition unsuccessfulFromSdk :: "sdk_unsuccessful_item \<Rightarrow> unsuccessful_item" where
  "unsuccessfulFromSdk x = \<lparr>uiError = map_option (\<lambda>e. \<lparr>ueCode = sdkLeCode e, ueMessage = sdkLeMessage e\<rparr>) (sdkUiError x),
     uiResourceID = sdkUiResourceId x\<rparr>"

definition setCreated_FlowLog :: "resource_manager \<Rightarrow> flow_log \<Rightarrow> create_flow_logs_output \<Rightarrow> flow_log" where
  "setCreated_FlowLog rm k resp =
     (let k1 = defaults_FlowLog rm (k\<lparr>flStatus := (flStatus k)\<lparr>flClientToken := outFlClientToken resp,
            flUnsuccessful := map_option (map unsuccessfulFromSdk) (outFlUnsuccessful resp)\<rparr>\<rparr>)
      in case outFlFlowLogIds resp of
           i # _ \<Rightarrow> if i \<noteq> [] then k1\<lparr>flStatus := (flStatus k1)\<lparr>FlowLogID := Some i\<rparr>\<rparr> else k1
         | [] \<Rightarrow> k1)"

definition sdkCreate_FlowLog ::
  "'x flow_log_api_scheme \<Rightarrow> resource_manager \<Rightarrow> flow_log \<Rightarrow> (flow_log option \<times> error option) act" where
  "sdkCreate_FlowLog api rm desired =
     (case newCreateRequestPayload_FlowLog desired of
        Inl e \<Rightarrow> ret (None, Some e)
      | Inr payload \<Rightarrow>
          bind (deref (flResourceID (flSpec desired))) (\<lambda>resource.
          createFlat (\<lambda>i. FlowLogCall (CreateFlowLogs i)) (onCreateFlowLogs api) ''CreateFlowLogs''
            ((updateTagSpecifications_FlowLog desired payload)\<lparr>cflResourceIds := [resource]\<rparr>)
            (\<lambda>resp. ret (Some (setCreated_FlowLog rm desired resp), None))))"

definition customUpdateFlowLog ::
  "'x flow_log_api_scheme \<Rightarrow> ('y) ack_runtime_scheme \<Rightarrow> flow_log \<Rightarrow> flow_log \<Rightarrow> delta \<Rightarrow> (flow_log option \<times> error option) act" where
  "customUpdateFlowLog api R desired latest d =
     syncTagsIf api (DifferentAt R d ''Spec.Tags'') (FlowLogID (flStatus latest)) (flTags (flSpec desired)) (flTags (flSpec latest))
       (ret (Some desired, None))"

definition sdkDelete_FlowLog :: "'x flow_log_api_scheme \<Rightarrow> flow_log \<Rightarrow> (flow_log option \<times> error option) act" where
  "sdkDelete_FlowLog api r =
     (case FlowLogID (flStatus r) of
        None \<Rightarrow> ret (None, Some NotFound)
      | Some i \<Rightarrow> deleteOne (\<lambda>i. FlowLogCall (DeleteFlowLogs i)) (onDeleteFlowLogs api) ''DeleteFlowLogs'' [i])"

interpretation flow_log_tags: tags_only api R "customUpdateFlowLog api R" "\<lambda>k. FlowLogID (flStatus k)" "\<lambda>k. flTags (flSpec k)"
    "\<lambda>desired latest. desired"
  for api :: "'x flow_log_api_scheme" and R :: "('y) ack_runtime_scheme"
  by unfold_locales (simp add: customUpdateFlowLog_def)

subsection \<open>Comparing\<close>

definition compareDestination :: "('x) ackcompare_scheme \<Rightarrow> destination_options \<Rightarrow> destination_options \<Rightarrow> delta \<Rightarrow> delta" where
  "compareDestination C u v d =
    (let d1 = cmpStr C ''Spec.DestinationOptions.FileFormat'' (FileFormat u) (FileFormat v) d;
         d2 = cmpBool C ''Spec.DestinationOptions.HiveCompatiblePartitions'' (HiveCompatiblePartitions u) (HiveCompatiblePartitions v) d1
     in cmpBool C ''Spec.DestinationOptions.PerHourPartition'' (PerHourPartition u) (PerHourPartition v) d2)"

definition compareSpecs_FlowLog :: "('x) ackcompare_scheme \<Rightarrow> flow_log_spec \<Rightarrow> flow_log_spec \<Rightarrow> delta" where
  "compareSpecs_FlowLog C a b =
    (let d1 = cmpStr C ''Spec.DeliverLogsPermissionARN'' (flDeliverLogsPermissionARN a) (flDeliverLogsPermissionARN b) [];
         d2 = compareRef C ''Spec.DeliverLogsPermissionRef'' (flDeliverLogsPermissionRef a) (flDeliverLogsPermissionRef b) d1;
         d3 = compareStruct C ''Spec.DestinationOptions'' (compareDestination C) (flDestinationOptions a) (flDestinationOptions b) d2;
         d4 = cmpStr C ''Spec.LogDestination'' (flLogDestination a) (flLogDestination b) d3;
         d5 = cmpStr C ''Spec.LogDestinationType'' (flLogDestinationType a) (flLogDestinationType b) d4;
         d6 = cmpStr C ''Spec.LogFormat'' (flLogFormat a) (flLogFormat b) d5;
         d7 = cmpStr C ''Spec.LogGroupName'' (flLogGroupName a) (flLogGroupName b) d6;
         d8 = compareRef C ''Spec.LogGroupRef'' (flLogGroupRef a) (flLogGroupRef b) d7;
         d9 = cmpInt C ''Spec.MaxAggregationInterval'' (flMaxAggregationInterval a) (flMaxAggregationInterval b) d8;
         d10 = cmpStr C ''Spec.ResourceID'' (flResourceID a) (flResourceID b) d9;
         d11 = cmpStr C ''Spec.ResourceType'' (flResourceType a) (flResourceType b) d10;
         d12 = compareTags C ''Spec.Tags'' (flTags a) (flTags b) d11
     in cmpStr C ''Spec.TrafficType'' (flTrafficType a) (flTrafficType b) d12)"

definition newResourceDelta_FlowLog :: "('x) ackcompare_scheme \<Rightarrow> flow_log option \<Rightarrow> flow_log option \<Rightarrow> delta act" where
  "newResourceDelta_FlowLog C a b = bothResources a b (\<lambda>x y. compareSpecs_FlowLog C (flSpec x) (flSpec y)) (\<lambda>d. d)"

subsection \<open>The kind\<close>

definition mirrorTags_FlowLog :: "(acktags \<Rightarrow> acktags) \<Rightarrow> flow_log \<Rightarrow> flow_log option \<Rightarrow> flow_log" where
  "mirrorTags_FlowLog iter a b =
     (case b of None \<Rightarrow> a
      | Some l \<Rightarrow> a\<lparr>flSpec := (flSpec a)\<lparr>flTags := mirrorAWSTags iter (flTags (flSpec a)) (flTags (flSpec l))\<rparr>\<rparr>)"

definition terminalCodes_FlowLog :: "string list" where
  "terminalCodes_FlowLog = [''InvalidParameter'', ''InvalidParameterValue'']"

definition flKind :: "'x flow_log_api_scheme \<Rightarrow> ('y) ack_runtime_scheme \<Rightarrow> resource_manager \<Rightarrow> error_texts \<Rightarrow> flow_log kind" where
  "flKind api R rm env =
     \<lparr>findOp = (\<lambda>r. bind (sdkFind_FlowLog api rm r) (\<lambda>x. ret (r, x))),
      createOp = sdkCreate_FlowLog api rm,
      updateOp = (\<lambda>desired latest d. bind (customUpdateFlowLog api R desired latest d) (\<lambda>x. ret (latest, x))),
      deleteOp = sdkDelete_FlowLog api,
      mirrorOp = mirrorTags_FlowLog (rangeOf R),
      conditionsOp = (\<lambda>k. Conditions (flStatus k)),
      updateConditionsOp = conditionsUpdater env terminalCodes_FlowLog rm flStatus (\<lambda>st k. k\<lparr>flStatus := st\<rparr>)\<rparr>"

lemma fl_reports: "AWSError_law env \<Longrightarrow> reporting_kind (flKind api R rm env) terminalCodes_FlowLog"
  by (rule conditionsUpdater_reports [where get = flStatus and put = "\<lambda>st k. k\<lparr>flStatus := st\<rparr>"]) (simp_all add: flKind_def)

interpretation fl_kind: reporting_kind "flKind api R rm plainTexts" terminalCodes_FlowLog
  for api :: "'x flow_log_api_scheme" and R :: "('y) ack_runtime_scheme" and rm
  by (rule fl_reports [OF plainTexts_law])

subsection \<open>Properties\<close>

lemma payload_FlowLog_spec:
  "flSpec a = flSpec b \<Longrightarrow> newCreateRequestPayload_FlowLog a = newCreateRequestPayload_FlowLog b
    \<and> updateTagSpecifications_FlowLog a = updateTagSpecifications_FlowLog b"
  by (simp add: newCreateRequestPayload_FlowLog_def updateTagSpecifications_FlowLog_def fun_eq_iff split: sum.split)

lemma setCreated_FlowLog_facts:
  "flSpec (setCreated_FlowLog rm k resp) = flSpec k"
  "outFlFlowLogIds resp = [] \<Longrightarrow> FlowLogID (flStatus (setCreated_FlowLog rm k resp)) = FlowLogID (flStatus k)"
  "outFlFlowLogIds resp = [] \<Longrightarrow> flUnsuccessful (flStatus (setCreated_FlowLog rm k resp)) = map_option (map unsuccessfulFromSdk) (outFlUnsuccessful resp)"
  by (simp_all add: setCreated_FlowLog_def defaults_FlowLog_def setStatusDefaults_def Let_def flow_log_status.defs split: list.split)

text \<open>
  A refused flow log is created again and again. When EC2 answers a creation with the items it
  refused and with no identifier, the creation reports success; the next read finds the resource
  missing without a call, and the creation that follows sends the very same request.
\<close>

theorem refused_flow_log_is_created_again:
  assumes "newCreateRequestPayload_FlowLog r = Inr payload" "flResourceID (flSpec r) = Some resource" "FlowLogID (flStatus r) = None"
    and "input = (updateTagSpecifications_FlowLog r payload)\<lparr>cflResourceIds := [resource]\<rparr>"
    and "onCreateFlowLogs api s input = Inr (Some out)" "outFlFlowLogIds out = []"
  shows "\<exists>k t. sdkCreate_FlowLog api rm r s = (Ret (Some k, None), t) \<and> calls t = calls s @ [FlowLogCall (CreateFlowLogs input)]
    \<and> flUnsuccessful (flStatus k) = map_option (map unsuccessfulFromSdk) (outFlUnsuccessful out)
    \<and> sdkFind_FlowLog api rm k t = (Ret (None, Some NotFound), t)
    \<and> (\<forall>u. onCreateFlowLogs api u input = Inr (Some out) \<longrightarrow>
        calls (snd (sdkCreate_FlowLog api rm k u)) = calls u @ [FlowLogCall (CreateFlowLogs input)])"
proof -
  let ?k = "setCreated_FlowLog rm r out"
  let ?t = "s @ [Call (FlowLogCall (CreateFlowLogs input)), Metric ''CREATE'' ''CreateFlowLogs'' None]"
  have spec: "flSpec ?k = flSpec r" by (rule setCreated_FlowLog_facts)
  have none: "FlowLogID (flStatus ?k) = None" using assms(3,6) by (simp add: setCreated_FlowLog_facts)
  have "sdkCreate_FlowLog api rm r s = (Ret (Some ?k, None), ?t)"
    using assms(1,2,5) by (simp add: sdkCreate_FlowLog_def createFlat_simps assms(4) [symmetric])
  moreover have "sdkFind_FlowLog api rm ?k ?t = (Ret (None, Some NotFound), ?t)"
    using none by (simp add: sdkFind_FlowLog_def requiredFieldsMissing_FlowLog_def readMany_simps)
  moreover have "calls (snd (sdkCreate_FlowLog api rm ?k u)) = calls u @ [FlowLogCall (CreateFlowLogs input)]"
    if "onCreateFlowLogs api u input = Inr (Some out)" for u
    using assms(1,2) that payload_FlowLog_spec [OF spec] spec by (simp add: sdkCreate_FlowLog_def createFlat_simps assms(4) [symmetric])
  ultimately show ?thesis using assms(6) by (simp add: setCreated_FlowLog_facts)
qed

subsection \<open>Witnesses\<close>

definition exampleFlowLog :: flow_log where
  "exampleFlowLog = \<lparr>flSpec = \<lparr>flDeliverLogsPermissionARN = None, flDeliverLogsPermissionRef = None, flDestinationOptions = None,
       flLogDestination = Some ''arn:aws:s3:::logs'', flLogDestinationType = Some ''s3'', flLogFormat = None, flLogGroupName = None,
       flLogGroupRef = None, flMaxAggregationInterval = None, flResourceID = Some ''vpc-1'', flResourceType = Some ''VPC'', flTags = None,
       flTrafficType = Some ''ALL''\<rparr>,
     flStatus = \<lparr>ACKResourceMetadata = None, Conditions = [], flClientToken = None, FlowLogID = None, flUnsuccessful = None\<rparr>\<rparr>"

definition exampleRefusal :: create_flow_logs_output where
  "exampleRefusal = \<lparr>outFlClientToken = None, outFlFlowLogIds = [],
     outFlUnsuccessful = Some [\<lparr>sdkUiError = Some \<lparr>sdkLeCode = Some ''400'', sdkLeMessage = Some ''LogDestination not found''\<rparr>,
       sdkUiResourceId = Some ''vpc-1''\<rparr>]\<rparr>"

definition exampleFlowLogApi :: flow_log_api where
  "exampleFlowLogApi = \<lparr>onCreateTags = (\<lambda>_ _. None), onDeleteTags = (\<lambda>_ _. None), onDescribeFlowLogs = (\<lambda>_ _. Inr (Some [])),
     onCreateFlowLogs = (\<lambda>_ _. Inr (Some exampleRefusal)), onDeleteFlowLogs = (\<lambda>_ _. None)\<rparr>"

lemma refused_flow_log_is_created_again_witness:
  "\<exists>k t. sdkCreate_FlowLog exampleFlowLogApi exampleManager exampleFlowLog [] = (Ret (Some k, None), t)
    \<and> sdkFind_FlowLog exampleFlowLogApi exampleManager k t = (Ret (None, Some NotFound), t)"
proof -
  obtain payload where "newCreateRequestPayload_FlowLog exampleFlowLog = Inr payload"
    by (simp add: newCreateRequestPayload_FlowLog_def exampleFlowLog_def narrowInt32_def)
  moreover have "flResourceID (flSpec exampleFlowLog) = Some ''vpc-1''" "FlowLogID (flStatus exampleFlowLog) = None"
    by (simp_all add: exampleFlowLog_def)
  moreover have "onCreateFlowLogs exampleFlowLogApi [] i = Inr (Some exampleRefusal)" "outFlFlowLogIds exampleRefusal = []" for i
    by (simp_all add: exampleFlowLogApi_def exampleRefusal_def)
  ultimately show ?thesis
    using refused_flow_log_is_created_again [of exampleFlowLog payload "''vpc-1''" _ exampleFlowLogApi "[]" exampleRefusal exampleManager] by blast
qed

end
