(* ===== verification/Payloads.thy ===== *)
theory Payloads
  imports Runtime
begin

text \<open>
  The steps out of which the generated code builds the large requests and comparisons of
  \<open>pkg/resource/instance\<close> and \<open>pkg/resource/launch_template\<close>: fields that may not fit and stop the
  request with an error, optional structs and lists of structs, and comparisons run one after
  the other, each of which only reports paths below its own.
\<close>

named_theorems sends "a value read from an answer goes back into a request unchanged"
named_theorems fields "the comparison reports paths below its own only"

subsection \<open>Requests that may fail\<close>

text \<open>\<open>if err := f(); err != nil { return nil, err }\<close> on values, then the rest.\<close>

definition onOk :: "error + 'a \<Rightarrow> ('a \<Rightarrow> error + 'b) \<Rightarrow> error + 'b" where
  "onOk m f = (case m of Inl e \<Rightarrow> Inl e | Inr x \<Rightarrow> f x)"

definition optOk :: "('a \<Rightarrow> error + 'b) \<Rightarrow> 'a option \<Rightarrow> error + 'b option" where
  "optOk f p = (case p of None \<Rightarrow> Inr None | Some x \<Rightarrow> onOk (f x) (\<lambda>y. Inr (Some y)))"

fun listOk :: "('a \<Rightarrow> error + 'b) \<Rightarrow> 'a list \<Rightarrow> error + 'b list" where
  "listOk f [] = Inr []"
| "listOk f (x # xs) = onOk (f x) (\<lambda>y. onOk (listOk f xs) (\<lambda>ys. Inr (y # ys)))"

definition isOk :: "error + 'a \<Rightarrow> bool" where
  "isOk m \<longleftrightarrow> (case m of Inl _ \<Rightarrow> False | Inr _ \<Rightarrow> True)"

lemma onOk_simps [simp]: "onOk (Inl e) f = Inl e" "onOk (Inr x) f = f x"
  by (simp_all add: onOk_def)

lemma optOk_simps [simp]: "optOk f None = Inr None" "optOk f (Some x) = onOk (f x) (\<lambda>y. Inr (Some y))"
  by (simp_all add: optOk_def)

lemma isOk_simps [simp]: "isOk (Inr x)" "\<not> isOk (Inl e)"
  by (simp_all add: isOk_def)

lemma isOk_iff: "isOk m \<longleftrightarrow> (\<exists>x. m = Inr x)"
  by (cases m) simp_all

lemma isOk_onOk [simp]: "isOk (onOk m f) \<longleftrightarrow> isOk m \<and> isOk (f (projr m))"
  by (cases m) simp_all

lemma isOk_optOk [simp]: "isOk (optOk f p) \<longleftrightarrow> (\<forall>x. p = Some x \<longrightarrow> isOk (f x))"
  by (cases p) simp_all

lemma isOk_listOk [simp]: "isOk (listOk f xs) \<longleftrightarrow> (\<forall>x \<in> set xs. isOk (f x))"
  by (induction xs) auto

text \<open>The same where a step may also panic.\<close>

definition okAct :: "(error + 'a) act \<Rightarrow> ('a \<Rightarrow> (error + 'b) act) \<Rightarrow> (error + 'b) act" where
  "okAct m f = bind m (\<lambda>r. case r of Inl e \<Rightarrow> ret (Inl e) | Inr x \<Rightarrow> f x)"

definition optAct :: "('a \<Rightarrow> (error + 'b) act) \<Rightarrow> 'a option \<Rightarrow> (error + 'b option) act" where
  "optAct f p = (case p of None \<Rightarrow> ret (Inr None) | Some x \<Rightarrow> okAct (f x) (\<lambda>y. ret (Inr (Some y))))"

lemma okAct_ret [simp]: "okAct (ret (Inl e)) f = ret (Inl e)" "okAct (ret (Inr x)) f = f x"
  by (simp_all add: okAct_def fun_eq_iff)

lemma okAct_run:
  "m s = (Ret (Inl e), t) \<Longrightarrow> okAct m f s = (Ret (Inl e), t)"
  "m s = (Ret (Inr x), t) \<Longrightarrow> okAct m f s = f x t"
  by (simp_all add: okAct_def bind_def)

lemma optAct_simps [simp]: "optAct f None = ret (Inr None)" "optAct f (Some x) = okAct (f x) (\<lambda>y. ret (Inr (Some y)))"
  by (simp_all add: optAct_def)

text \<open>A number fits when it is nil or in the range of \<open>int32\<close>.\<close>

definition fits :: "int64 option \<Rightarrow> bool" where
  "fits p \<longleftrightarrow> (case p of None \<Rightarrow> True | Some x \<Rightarrow> minInt32 \<le> sint x \<and> sint x \<le> maxInt32)"

lemma isOk_narrowInt32 [simp]: "isOk (narrowInt32 f p) \<longleftrightarrow> fits p"
  by (cases p) (auto simp: narrowInt32_def fits_def)

subsection \<open>Back into a request\<close>

definition tagToSdk :: "tag \<Rightarrow> sdk_tag" where
  "tagToSdk t = \<lparr>sdkKey = Key t, sdkValue = Value t\<rparr>"

lemma narrow_back [sends]: "narrowInt32 f (map_option toInt64 p) = Inr p"
proof (cases p)
  case (Some y)
  with sint_int32_bounds [of y] show ?thesis by (simp add: narrowInt32_def sint_toInt64 not_less)
qed (simp add: narrowInt32_def)

lemma enum_back [sends]: "safeString (enumPtr s) = s"
  by (simp add: enumPtr_def safeString_def)

lemma tags_back [sends]: "map tagToSdk (resourceTags ts) = ts"
  by (induction ts) (simp_all add: resourceTags_def tagToSdk_def)

lemma strings_back [sends]: "runtime_law R \<Longrightarrow> toStrings R (fromStrings R xs) = xs"
  by (cases xs) (simp_all add: toStrings_def fromStrings_def runtime_simps)

text \<open>Optional fields and lists, once their elements go back.\<close>

lemma back_opt [sends]: "(\<And>x. g (f x) = x) \<Longrightarrow> map_option g (map_option f p) = p"
  by (cases p) simp_all

lemma back_list [sends]: "(\<And>x. g (f x) = x) \<Longrightarrow> map g (map f xs) = xs"
  by (simp add: comp_def)

lemma back_optOk [sends]: "(\<And>x. g (f x) = Inr x) \<Longrightarrow> optOk g (map_option f p) = Inr p"
  by (cases p) simp_all

lemma back_listOk [sends]: "(\<And>x. g (f x) = Inr x) \<Longrightarrow> listOk g (map f xs) = Inr xs"
  by (induction xs) simp_all

lemma back_optAct [sends]: "(\<And>x. g (f x) = ret (Inr x)) \<Longrightarrow> optAct g (map_option f p) = ret (Inr p)"
  by (cases p) (simp_all add: fun_eq_iff okAct_run)

text \<open>The same where \<open>h\<close> is what is left of the elements.\<close>

lemma back_optOk_as: "(\<And>x. g (f x) = Inr (h x)) \<Longrightarrow> optOk g (map_option f p) = Inr (map_option h p)"
  by (cases p) simp_all

lemma back_listOk_as: "(\<And>x. g (f x) = Inr (h x)) \<Longrightarrow> listOk g (map f xs) = Inr (map h xs)"
  by (induction xs) simp_all

lemma back_optAct_as: "(\<And>x. g (f x) = ret (Inr (h x))) \<Longrightarrow> optAct g (map_option f p) = ret (Inr (map_option h p))"
  by (cases p) (simp_all add: fun_eq_iff okAct_run)

lemma back_deref [sends]: "mapAct deref (map Some xs) = ret xs"
  by (rule mapAct_deref_Some)

subsection \<open>Comparisons in sequence\<close>

text \<open>The comparisons of \<open>delta.go\<close>, each on the delta of those before it.\<close>

definition inOrder :: "(delta \<Rightarrow> delta) list \<Rightarrow> delta \<Rightarrow> delta" where
  "inOrder fs d = fold (\<lambda>f d. f d) fs d"

text \<open>Two dates: pointers to structs, compared with their \<open>Equal\<close>.\<close>

abbreviation cmpTime where "cmpTime C \<equiv> comparePtr (HasNilDifference C) (\<lambda>t. IStruct (map_option (\<lambda>_. ()) t))"

text \<open>Go's \<open>==\<close> on \<open>float64\<close>: not a number is not equal to itself, and both zeros are equal.\<close>

definition floatNaN :: "float64 \<Rightarrow> bool" where
  "floatNaN w \<longleftrightarrow> unat (take_bit 63 w) > 0x7FF0000000000000"

definition floatEq :: "float64 \<Rightarrow> float64 \<Rightarrow> bool" where
  "floatEq u v \<longleftrightarrow> \<not> floatNaN u \<and> \<not> floatNaN v \<and> (u = v \<or> take_bit 63 u = 0 \<and> take_bit 63 v = 0)"

definition cmpFloat :: "('x) ackcompare_scheme \<Rightarrow> string \<Rightarrow> float64 option \<Rightarrow> float64 option \<Rightarrow> delta \<Rightarrow> delta" where
  "cmpFloat C p = compareStruct C p (\<lambda>u v d. if \<not> floatEq u v then addDiff p d else d)"

lemma floatEq_refl: "floatEq u u \<longleftrightarrow> \<not> floatNaN u"
  by (auto simp: floatEq_def)

text \<open>A comparison of the field at \<open>p\<close> appends, and what it appends lies at \<open>p\<close>.\<close>

definition compares :: "string \<Rightarrow> (delta \<Rightarrow> delta) \<Rightarrow> bool" where
  "compares p f \<longleftrightarrow> (\<exists>ys. (\<forall>d. f d = d @ ys) \<and> (\<forall>q \<in> set ys. liesAt p q))"

lemma comparesI: "(\<And>d. f d = d @ ys) \<Longrightarrow> (\<And>q. q \<in> set ys \<Longrightarrow> liesAt p q) \<Longrightarrow> compares p f"
  by (auto simp: compares_def)

lemma compares_append: "compares p f \<Longrightarrow> f d = d @ f []"
  by (auto simp: compares_def)

lemma compares_at: "compares p f \<Longrightarrow> q \<in> set (f []) \<Longrightarrow> liesAt p q"
  by (auto simp: compares_def)

lemma liesAt_self [simp]: "liesAt p p"
  by (simp add: liesAt_def)

lemma liesAt_trans: "liesAt p q \<Longrightarrow> liesAt q r \<Longrightarrow> liesAt p r"
  by (auto simp: liesAt_def prefix_def)

lemma compares_add: "compares p (\<lambda>d. if c then addDiff p d else d)"
  by (rule comparesI [of _ "if c then [p] else []"]) (simp_all add: addDiff_def split: if_splits)

lemma compares_id: "compares p (\<lambda>d. d)"
  by (rule comparesI [of _ "[]"]) simp_all

lemma compares_comparePtr [fields]: "compares p (comparePtr hnd I p x y)"
proof -
  have "comparePtr hnd I p x y = (\<lambda>d. if hnd (I x) (I y) \<or> (x \<noteq> None \<and> y \<noteq> None \<and> x \<noteq> y) then addDiff p d else d)"
    by (auto simp: comparePtr_def fun_eq_iff split: option.split)
  then show ?thesis by (simp only: compares_add)
qed

lemma compares_compareList [fields]: "compares p (compareList eq p x y)"
proof -
  have "compareList eq p x y = (\<lambda>d. if length (elems x) \<noteq> length (elems y) \<or> (elems x \<noteq> [] \<and> \<not> eq (elems x) (elems y))
      then addDiff p d else d)" by (auto simp: compareList_def fun_eq_iff)
  then show ?thesis by (simp only: compares_add)
qed

lemma compares_cmpStrs [fields]: "compares p (cmpStrs C p xs ys)"
  using compares_compareList by (simp add: cmpStrs_def [abs_def])

lemma compares_rest [fields]: "compares p (compareTags C p x y)" "compares p (compareRef C p r q)" "compares p (compareRefs C p rs qs)"
  using compares_add by (simp_all add: compareTags_def [abs_def] compareRef_def [abs_def] compareRefs_def [abs_def] case_prod_beta Let_def)

lemma compares_compareStruct [fields]:
  assumes "\<And>u v. compares p (inner u v)"
  shows "compares p (compareStruct C p inner x y)"
proof (cases "HasNilDifference C (IStruct (map_option (\<lambda>_. ()) x)) (IStruct (map_option (\<lambda>_. ()) y))")
  case True
  with compares_add [of p True] show ?thesis by (simp add: compareStruct_def [abs_def])
next
  case False
  then have "compareStruct C p inner x y = (case (x, y) of (Some u, Some v) \<Rightarrow> inner u v | _ \<Rightarrow> (\<lambda>d. d))"
    by (auto simp: compareStruct_def fun_eq_iff split: option.split)
  with assms compares_id show ?thesis by (auto split: option.split)
qed

lemma compares_cmpFloat [fields]: "compares p (cmpFloat C p x y)"
  unfolding cmpFloat_def by (rule compares_compareStruct) (rule compares_add)

lemma inOrder_Nil [simp]: "inOrder [] d = d"
  by (simp add: inOrder_def)

lemma inOrder_Cons [simp]: "inOrder (f # fs) d = inOrder fs (f d)"
  by (simp add: inOrder_def)

lemma inOrder_appends:
  assumes "\<forall>f \<in> set fs. \<exists>p. compares p f"
  shows "inOrder fs d = d @ concat (map (\<lambda>f. f []) fs)"
  using assms
proof (induction fs arbitrary: d)
  case (Cons f fs)
  then have "f d = d @ f []" using compares_append by auto
  with Cons show ?case by simp
qed simp

lemma compares_below: "compares p' f \<Longrightarrow> liesAt p p' \<Longrightarrow> compares p f"
  unfolding compares_def using liesAt_trans by blast

lemma compares_inOrder:
  assumes "\<forall>f \<in> set fs. compares p f"
  shows "compares p (inOrder fs)"
proof (rule comparesI)
  show "inOrder fs d = d @ concat (map (\<lambda>f. f []) fs)" for d using assms by (intro inOrder_appends) blast
  show "q \<in> set (concat (map (\<lambda>f. f []) fs)) \<Longrightarrow> liesAt p q" for q
    using assms by (auto dest: compares_at)
qed

text \<open>Paths of which neither is a prefix of the other: nothing lies at both.\<close>

definition apart :: "string \<Rightarrow> string \<Rightarrow> bool" where
  "apart p q \<longleftrightarrow> \<not> prefix p q \<and> \<not> prefix q p"

lemma apart_liesAt: "apart p p' \<Longrightarrow> liesAt p q \<Longrightarrow> \<not> liesAt p' q"
  using liesAt_related by (auto simp: apart_def)

text \<open>A comparison of a field that lies apart from \<open>p\<close>.\<close>

definition elsewhere :: "string \<Rightarrow> (delta \<Rightarrow> delta) \<Rightarrow> bool" where
  "elsewhere p f \<longleftrightarrow> (\<exists>p'. compares p' f \<and> apart p p')"

lemma elsewhereI: "compares p' f \<Longrightarrow> apart p p' \<Longrightarrow> elsewhere p f"
  by (auto simp: elsewhere_def)

lemma elsewhere_at: "elsewhere p f \<Longrightarrow> q \<in> set (f []) \<Longrightarrow> \<not> liesAt p q"
  unfolding elsewhere_def using compares_at apart_liesAt by blast

lemma below_simps:
  "liesAt p p' \<Longrightarrow> compares p (comparePtr hnd I p' x y)" "liesAt p p' \<Longrightarrow> compares p (compareList eq p' us vs)"
  "liesAt p p' \<Longrightarrow> compares p (cmpStrs C p' ss ts)" "liesAt p p' \<Longrightarrow> compares p (cmpFloat C p' a b)"
  "liesAt p p' \<Longrightarrow> (\<And>u v. compares p' (inner u v)) \<Longrightarrow> compares p (compareStruct C p' inner k l)"
  by (erule compares_below [rotated], rule compares_comparePtr compares_compareList compares_cmpStrs compares_cmpFloat compares_rest compares_compareStruct, assumption?)+

lemma elsewhere_simps:
  "apart p p' \<Longrightarrow> elsewhere p (comparePtr hnd I p' x y)" "apart p p' \<Longrightarrow> elsewhere p (compareList eq p' us vs)"
  "apart p p' \<Longrightarrow> elsewhere p (cmpStrs C p' ss ts)" "apart p p' \<Longrightarrow> elsewhere p (compareTags C p' gs hs)"
  "apart p p' \<Longrightarrow> elsewhere p (compareRef C p' r q)" "apart p p' \<Longrightarrow> elsewhere p (compareRefs C p' rs qs)"
  "apart p p' \<Longrightarrow> (\<And>u v. compares p' (inner u v)) \<Longrightarrow> elsewhere p (compareStruct C p' inner k l)"
  by (rule elsewhereI, rule compares_comparePtr compares_compareList compares_cmpStrs compares_cmpFloat compares_rest compares_compareStruct, assumption+)+

text \<open>A field differs when its own comparison says so, if all the others are of fields apart from it.\<close>

lemma inOrder_at:
  assumes "f \<in> set fs" "compares p f" "\<forall>g \<in> set fs. g = f \<or> elsewhere p g"
  shows "(\<exists>q \<in> set (inOrder fs []). liesAt p q) \<longleftrightarrow> f [] \<noteq> []"
proof -
  have "\<forall>g \<in> set fs. \<exists>p. compares p g" using assms(2,3) by (auto simp: elsewhere_def)
  then have "(\<exists>q \<in> set (inOrder fs []). liesAt p q) \<longleftrightarrow> (\<exists>g \<in> set fs. \<exists>q \<in> set (g []). liesAt p q)"
    by (simp add: inOrder_appends)
  also have "\<dots> \<longleftrightarrow> (\<exists>q \<in> set (f []). liesAt p q)"
    using assms(1,3) by (auto dest: elsewhere_at)
  also have "\<dots> \<longleftrightarrow> f [] \<noteq> []"
    using compares_at [OF assms(2)] by (cases "f []") auto
  finally show ?thesis .
qed

subsection \<open>Reading under another error code\<close>

text \<open>\<open>readMany\<close>, where the service says with the error code \<open>code\<close> that there is no such resource.\<close>

definition readCoded ::
  "string \<Rightarrow> bool \<Rightarrow> ('i \<Rightarrow> call) \<Rightarrow> (call log \<Rightarrow> 'i \<Rightarrow> error + 'e list option) \<Rightarrow> string \<Rightarrow> 'i
   \<Rightarrow> ('e \<Rightarrow> ('r option \<times> error option) act) \<Rightarrow> ('r option \<times> error option) act" where
  "readCoded code absent c answer op input found =
     (if absent then ret (None, Some NotFound)
      else
        bind (invoke c answer input) (\<lambda>resp.
        bind (recordAPICall ''READ_MANY'' op (errOf resp)) (\<lambda>_.
        case resp of
          Inl e \<Rightarrow> ret (None, Some (if errorCode e = Some code then NotFound else e))
        | Inr out \<Rightarrow>
            bind (deref out) (\<lambda>xs.
            case xs of [] \<Rightarrow> ret (None, Some NotFound) | elem # _ \<Rightarrow> found elem))))"

lemma readMany_coded: "readMany = readCoded ''UNKNOWN''"
  by (simp add: fun_eq_iff readMany_def readCoded_def)

lemma readCoded_simps:
  "readCoded code True c answer op i found s = (Ret (None, Some NotFound), s)"
  "answer s i = Inl e \<Longrightarrow> readCoded code False c answer op i found s
     = (Ret (None, Some (if errorCode e = Some code then NotFound else e)), s @ [Call (c i), Metric ''READ_MANY'' op (Some e)])"
  "answer s i = Inr (Some []) \<Longrightarrow> readCoded code False c answer op i found s
     = (Ret (None, Some NotFound), s @ [Call (c i), Metric ''READ_MANY'' op None])"
  "answer s i = Inr (Some (x # xs)) \<Longrightarrow> readCoded code False c answer op i found s
     = found x (s @ [Call (c i), Metric ''READ_MANY'' op None])"
  by (simp_all add: readCoded_def)

text \<open>A resource that was found comes from \<open>found\<close>.\<close>

lemma readCoded_found:
  assumes "readCoded code absent c answer op i found s = (Ret (Some k, None), t)"
  obtains x u where "found x u = (Ret (Some k, None), t)"
proof (cases "answer s i")
  case (Inl e)
  with assms show ?thesis by (auto simp: readCoded_def split: if_splits)
next
  case (Inr out)
  with assms that show ?thesis by (cases out; cases "the out") (auto simp: readCoded_def split: if_splits)
qed

end
