(* ===== verification/CapacityReservation.thy ===== *)
theory CapacityReservation
  imports Payloads
begin

text \<open>
  The capacity reservation controller (\<open>pkg/resource/capacity_reservation/sdk.go\<close>, \<open>hooks.go\<close>,
  \<open>delta.go\<close>). Names that another kind uses too carry the suffix \<open>_Reservation\<close>.
\<close>

subsection \<open>Data\<close>

record capacity_allocation =
  caAllocationType :: "string option"
  caCount :: "int64 option"

record commitment_info =
  CommitmentEndDate :: "timestamp option"
  CommittedInstanceCount :: "int64 option"

record capacity_reservation_spec =
  crAdditionalInfo :: "string option"
  crAvailabilityZone :: "string option"
  crAvailabilityZoneID :: "string option"
  crCommitmentDuration :: "int64 option"
  crDeliveryPreference :: "string option"
  crEBSOptimized :: "bool option"
  crEndDate :: "timestamp option"
  crEndDateType :: "string option"
  crEphemeralStorage :: "bool option"
  crInstanceCount :: "int64 option"
  crInstanceMatchCriteria :: "string option"
  crInstancePlatform :: "string option"
  crInstanceType :: "string option"
  crOutpostARN :: "string option"
  crPlacementGroupARN :: "string option"
  crStartDate :: "timestamp option"
  crTags :: "tag list option"
  crTenancy :: "string option"

record capacity_reservation_status = common_status +
  crAvailableInstanceCount :: "int64 option"
  crCapacityAllocations :: "capacity_allocation list option"
  crFleetID :: "string option"
  CapacityReservationID :: "string option"
  crCommitmentInfo :: "commitment_info option"
  crCreateDate :: "timestamp option"
  crOwnerID :: "string option"
  crReservationType :: "string option"
  crState :: "string option"
  crTotalInstanceCount :: "int64 option"
  crBillingOwnerID :: "string option"

record capacity_reservation =
  crSpec :: capacity_reservation_spec
  crStatus :: capacity_reservation_status

record reservation_api = tags_api +
  onDescribeCapacityReservations :: "call log \<Rightarrow> string list \<Rightarrow> error + sdk_capacity_reservation list option"
  onCreateCapacityReservation :: "call log \<Rightarrow> create_reservation_input \<Rightarrow> error + sdk_capacity_reservation option option"
  onModifyCapacityReservation :: "call log \<Rightarrow> modify_reservation_input \<Rightarrow> error option"
  onCancelCapacityReservation :: "call log \<Rightarrow> string option \<Rightarrow> error option"

subsection \<open>Reading\<close>

definition allocationFromSdk :: "sdk_capacity_allocation \<Rightarrow> capacity_allocation" where
  "allocationFromSdk x = \<lparr>caAllocationType = enumPtr (sdkCpaAllocationType x), caCount = map_option toInt64 (sdkCpaCount x)\<rparr>"

definition commitmentFromSdk :: "sdk_commitment_info \<Rightarrow> commitment_info" where
  "commitmentFromSdk x = \<lparr>CommitmentEndDate = sdkCiCommitmentEndDate x,
     CommittedInstanceCount = map_option toInt64 (sdkCiCommittedInstanceCount x)\<rparr>"

text \<open>The setter touches neither \<open>AdditionalInfo\<close> nor \<open>CommitmentDuration\<close> nor \<open>InstanceCount\<close>.\<close>

definition readSpec_Reservation :: "sdk_capacity_reservation \<Rightarrow> capacity_reservation_spec \<Rightarrow> capacity_reservation_spec" where
  "readSpec_Reservation x sp =
     sp\<lparr>crAvailabilityZone := sdkCrAvailabilityZone x, crAvailabilityZoneID := sdkCrAvailabilityZoneId x,
        crDeliveryPreference := enumPtr (sdkCrDeliveryPreference x), crEBSOptimized := sdkCrEbsOptimized x, crEndDate := sdkCrEndDate x,
        crEndDateType := enumPtr (sdkCrEndDateType x), crEphemeralStorage := sdkCrEphemeralStorage x,
        crInstanceMatchCriteria := enumPtr (sdkCrInstanceMatchCriteria x), crInstancePlatform := enumPtr (sdkCrInstancePlatform x),
        crInstanceType := sdkCrInstanceType x, crOutpostARN := sdkCrOutpostArn x, crPlacementGroupARN := sdkCrPlacementGroupArn x,
        crStartDate := sdkCrStartDate x, crTags := map_option resourceTags (sdkCrTags x), crTenancy := enumPtr (sdkCrTenancy x)\<rparr>"

definition readStatus_Reservation ::
  "sdk_capacity_reservation \<Rightarrow> capacity_reservation_status \<Rightarrow> capacity_reservation_status" where
  "readStatus_Reservation x st =
     st\<lparr>crAvailableInstanceCount := map_option toInt64 (sdkCrAvailableInstanceCount x),
        crCapacityAllocations := map_option (map allocationFromSdk) (sdkCrCapacityAllocations x),
        crFleetID := sdkCrCapacityReservationFleetId x, CapacityReservationID := sdkCrCapacityReservationId x,
        crCommitmentInfo := map_option commitmentFromSdk (sdkCrCommitmentInfo x), crCreateDate := sdkCrCreateDate x,
        crOwnerID := sdkCrOwnerId x, crReservationType := enumPtr (sdkCrReservationType x), crState := enumPtr (sdkCrState x),
        crTotalInstanceCount := map_option toInt64 (sdkCrTotalInstanceCount x),
        crBillingOwnerID := sdkCrUnusedReservationBillingOwnerId x\<rparr>"

definition setFrom_Reservation :: "capacity_reservation \<Rightarrow> sdk_capacity_reservation \<Rightarrow> capacity_reservation" where
  "setFrom_Reservation k x =
     \<lparr>crSpec = readSpec_Reservation x (crSpec k),
      crStatus = readARN (sdkCrCapacityReservationArn x) (readStatus_Reservation x (crStatus k))\<rparr>"

definition setCreated_Reservation :: "capacity_reservation \<Rightarrow> sdk_capacity_reservation \<Rightarrow> capacity_reservation" where
  "setCreated_Reservation k x =
     \<lparr>crSpec = readSpec_Reservation x (crSpec k),
      crStatus = createdARN (sdkCrCapacityReservationArn x) (readStatus_Reservation x (crStatus k))\<rparr>"

definition defaults_Reservation :: "resource_manager \<Rightarrow> capacity_reservation \<Rightarrow> capacity_reservation" where
  "defaults_Reservation rm k = k\<lparr>crStatus := setStatusDefaults rm (crStatus k)\<rparr>"

text \<open>\<open>if ko.Status.TotalInstanceCount != nil { ko.Spec.InstanceCount = ko.Status.TotalInstanceCount }\<close>\<close>

definition countFromStatus :: "capacity_reservation \<Rightarrow> capacity_reservation" where
  "countFromStatus k =
     (if crTotalInstanceCount (crStatus k) \<noteq> None
      then k\<lparr>crSpec := (crSpec k)\<lparr>crInstanceCount := crTotalInstanceCount (crStatus k)\<rparr>\<rparr> else k)"

definition requiredFieldsMissing_Reservation :: "capacity_reservation \<Rightarrow> bool" where
  "requiredFieldsMissing_Reservation r \<longleftrightarrow> CapacityReservationID (crStatus r) = None"

definition newListRequestPayload_Reservation :: "capacity_reservation \<Rightarrow> string list" where
  "newListRequestPayload_Reservation r = (case CapacityReservationID (crStatus r) of None \<Rightarrow> [] | Some i \<Rightarrow> [i])"

definition sdkFind_Reservation ::
  "'x reservation_api_scheme \<Rightarrow> resource_manager \<Rightarrow> capacity_reservation \<Rightarrow> (capacity_reservation option \<times> error option) act" where
  "sdkFind_Reservation api rm r =
     readMany (requiredFieldsMissing_Reservation r) (\<lambda>i. ReservationCall (DescribeCapacityReservations i))
       (onDescribeCapacityReservations api) ''DescribeCapacityReservations'' (newListRequestPayload_Reservation r)
       (\<lambda>elem. ret (Some (countFromStatus (defaults_Reservation rm (setFrom_Reservation r elem))), None))"

subsection \<open>Creating and deleting\<close>

definition newCreateRequestPayload_Reservation :: "capacity_reservation \<Rightarrow> error + create_reservation_input" where
  "newCreateRequestPayload_Reservation r =
     (let sp = crSpec r in
      case narrowInt32 ''InstanceCount'' (crInstanceCount sp) of
        Inl e \<Rightarrow> Inl e
      | Inr instances \<Rightarrow> Inr
         \<lparr>ccrAvailabilityZone = crAvailabilityZone sp, ccrAvailabilityZoneId = crAvailabilityZoneID sp,
          ccrCommitmentDuration = crCommitmentDuration sp, ccrDeliveryPreference = safeString (crDeliveryPreference sp),
          ccrEbsOptimized = crEBSOptimized sp, ccrEndDate = crEndDate sp, ccrEndDateType = safeString (crEndDateType sp),
          ccrEphemeralStorage = crEphemeralStorage sp, ccrInstanceCount = instances,
          ccrInstanceMatchCriteria = safeString (crInstanceMatchCriteria sp), ccrInstancePlatform = safeString (crInstancePlatform sp),
          ccrInstanceType = crInstanceType sp, ccrOutpostArn = crOutpostARN sp, ccrPlacementGroupArn = crPlacementGroupARN sp,
          ccrStartDate = crStartDate sp, ccrTenancy = safeString (crTenancy sp), ccrTagSpecifications = None\<rparr>)"

definition updateTagSpecifications_Reservation :: "capacity_reservation \<Rightarrow> create_reservation_input \<Rightarrow> create_reservation_input" where
  "updateTagSpecifications_Reservation r input =
     input\<lparr>ccrTagSpecifications := tagSpecificationsFor ''capacity-reservation'' (crTags (crSpec r))\<rparr>"

definition sdkCreate_Reservation ::
  "'x reservation_api_scheme \<Rightarrow> resource_manager \<Rightarrow> capacity_reservation \<Rightarrow> (capacity_reservation option \<times> error option) act" where
  "sdkCreate_Reservation api rm desired =
     (case newCreateRequestPayload_Reservation desired of
        Inl e \<Rightarrow> ret (None, Some e)
      | Inr input \<Rightarrow>
          createOne (\<lambda>i. ReservationCall (CreateCapacityReservation i)) (onCreateCapacityReservation api) ''CreateCapacityReservation''
            (updateTagSpecifications_Reservation desired input)
            (\<lambda>resp. ret (Some (defaults_Reservation rm (setCreated_Reservation desired resp)), None)))"

definition sdkDelete_Reservation ::
  "'x reservation_api_scheme \<Rightarrow> capacity_reservation \<Rightarrow> (capacity_reservation option \<times> error option) act" where
  "sdkDelete_Reservation api r =
     deleteOne (\<lambda>i. ReservationCall (CancelCapacityReservation i)) (onCancelCapacityReservation api) ''CancelCapacityReservation''
       (CapacityReservationID (crStatus r))"

subsection \<open>Updating\<close>

definition newUpdateRequestPayload_Reservation :: "capacity_reservation \<Rightarrow> error + modify_reservation_input" where
  "newUpdateRequestPayload_Reservation r =
     (case narrowInt32 ''InstanceCount'' (crInstanceCount (crSpec r)) of
        Inl e \<Rightarrow> Inl e
      | Inr instances \<Rightarrow> Inr
         \<lparr>mcrAdditionalInfo = crAdditionalInfo (crSpec r), mcrCapacityReservationId = CapacityReservationID (crStatus r),
          mcrEndDate = crEndDate (crSpec r), mcrEndDateType = safeString (crEndDateType (crSpec r)), mcrInstanceCount = instances,
          mcrInstanceMatchCriteria = safeString (crInstanceMatchCriteria (crSpec r))\<rparr>)"

definition additionalInfoInput :: "modify_reservation_input \<Rightarrow> modify_reservation_input" where
  "additionalInfoInput input =
     \<lparr>mcrAdditionalInfo = mcrAdditionalInfo input, mcrCapacityReservationId = mcrCapacityReservationId input, mcrEndDate = None,
      mcrEndDateType = [], mcrInstanceCount = None, mcrInstanceMatchCriteria = []\<rparr>"

abbreviation modifyReservation :: "'x reservation_api_scheme \<Rightarrow> modify_reservation_input \<Rightarrow> error option act" where
  "modifyReservation api \<equiv> callRecord (\<lambda>i. ReservationCall (ModifyCapacityReservation i)) (onModifyCapacityReservation api)
     ''UPDATE'' ''ModifyCapacityReservation''"

text \<open>The counts and the state of the result are those of the reservation read after the change.\<close>

definition refreshedReservation :: "capacity_reservation \<Rightarrow> capacity_reservation \<Rightarrow> capacity_reservation" where
  "refreshedReservation ko latest =
     ko\<lparr>crStatus := (crStatus ko)\<lparr>crAvailableInstanceCount := crAvailableInstanceCount (crStatus latest),
       crTotalInstanceCount := crTotalInstanceCount (crStatus latest), crState := crState (crStatus latest)\<rparr>\<rparr>"

definition sdkUpdate_Reservation ::
  "'x reservation_api_scheme \<Rightarrow> ('y) ack_runtime_scheme \<Rightarrow> resource_manager \<Rightarrow> capacity_reservation \<Rightarrow> capacity_reservation \<Rightarrow> delta
   \<Rightarrow> (capacity_reservation option \<times> error option) act" where
  "sdkUpdate_Reservation api R rm desired latest d =
     syncTagsIf api (DifferentAt R d ''Spec.Tags'') (CapacityReservationID (crStatus latest)) (crTags (crSpec desired)) (crTags (crSpec latest))
    (if \<not> DifferentExceptAt R d [''Spec.Tags''] then ret (Some desired, None)
     else
      (case newUpdateRequestPayload_Reservation desired of
         Inl e \<Rightarrow> ret (None, Some e)
       | Inr input \<Rightarrow>
           bind (if mcrAdditionalInfo input \<noteq> None then modifyReservation api (additionalInfoInput input) else ret None) (\<lambda>err.
           ifErr err (\<lambda>e. ret (None, Some e))
          (bind (modifyReservation api (input\<lparr>mcrAdditionalInfo := None\<rparr>)) (\<lambda>err.
           ifErr err (\<lambda>e. ret (None, Some e))
          (bind (sdkFind_Reservation api rm desired) (\<lambda>(found, err).
           ifErr err (\<lambda>e. ret (None, Some e))
          (bind (deref found) (\<lambda>latestCopy.
           ret (Some (refreshedReservation (defaults_Reservation rm desired) latestCopy), None))))))))))"

subsection \<open>Comparing\<close>

definition compareSpecs_Reservation ::
  "('x) ackcompare_scheme \<Rightarrow> capacity_reservation_spec \<Rightarrow> capacity_reservation_spec \<Rightarrow> delta" where
  "compareSpecs_Reservation C a b =
    (let d1 = cmpStr C ''Spec.AdditionalInfo'' (crAdditionalInfo a) (crAdditionalInfo b) [];
         d2 = cmpStr C ''Spec.AvailabilityZone'' (crAvailabilityZone a) (crAvailabilityZone b) d1;
         d3 = cmpStr C ''Spec.AvailabilityZoneID'' (crAvailabilityZoneID a) (crAvailabilityZoneID b) d2;
         d4 = cmpInt C ''Spec.CommitmentDuration'' (crCommitmentDuration a) (crCommitmentDuration b) d3;
         d5 = cmpStr C ''Spec.DeliveryPreference'' (crDeliveryPreference a) (crDeliveryPreference b) d4;
         d6 = cmpBool C ''Spec.EBSOptimized'' (crEBSOptimized a) (crEBSOptimized b) d5;
         d7 = cmpTime C ''Spec.EndDate'' (crEndDate a) (crEndDate b) d6;
         d8 = cmpStr C ''Spec.EndDateType'' (crEndDateType a) (crEndDateType b) d7;
         d9 = cmpBool C ''Spec.EphemeralStorage'' (crEphemeralStorage a) (crEphemeralStorage b) d8;
         d10 = cmpInt C ''Spec.InstanceCount'' (crInstanceCount a) (crInstanceCount b) d9;
         d11 = cmpStr C ''Spec.InstanceMatchCriteria'' (crInstanceMatchCriteria a) (crInstanceMatchCriteria b) d10;
         d12 = cmpStr C ''Spec.InstancePlatform'' (crInstancePlatform a) (crInstancePlatform b) d11;
         d13 = cmpStr C ''Spec.InstanceType'' (crInstanceType a) (crInstanceType b) d12;
         d14 = cmpStr C ''Spec.OutpostARN'' (crOutpostARN a) (crOutpostARN b) d13;
         d15 = cmpStr C ''Spec.PlacementGroupARN'' (crPlacementGroupARN a) (crPlacementGroupARN b) d14;
         d16 = cmpTime C ''Spec.StartDate'' (crStartDate a) (crStartDate b) d15;
         d17 = compareTags C ''Spec.Tags'' (crTags a) (crTags b) d16
     in cmpStr C ''Spec.Tenancy'' (crTenancy a) (crTenancy b) d17)"

definition newResourceDelta_Reservation ::
  "('x) ackcompare_scheme \<Rightarrow> capacity_reservation option \<Rightarrow> capacity_reservation option \<Rightarrow> delta act" where
  "newResourceDelta_Reservation C a b = bothResources a b (\<lambda>x y. compareSpecs_Reservation C (crSpec x) (crSpec y)) (\<lambda>d. d)"

subsection \<open>The kind\<close>

definition mirrorTags_Reservation :: "(acktags \<Rightarrow> acktags) \<Rightarrow> capacity_reservation \<Rightarrow> capacity_reservation option \<Rightarrow> capacity_reservation" where
  "mirrorTags_Reservation iter a b =
     (case b of None \<Rightarrow> a
      | Some l \<Rightarrow> a\<lparr>crSpec := (crSpec a)\<lparr>crTags := mirrorAWSTags iter (crTags (crSpec a)) (crTags (crSpec l))\<rparr>\<rparr>)"

definition crKind ::
  "'x reservation_api_scheme \<Rightarrow> ('y) ack_runtime_scheme \<Rightarrow> resource_manager \<Rightarrow> error_texts \<Rightarrow> capacity_reservation kind" where
  "crKind api R rm env =
     \<lparr>findOp = (\<lambda>r. bind (sdkFind_Reservation api rm r) (\<lambda>x. ret (r, x))),
      createOp = sdkCreate_Reservation api rm,
      updateOp = (\<lambda>desired latest d. bind (sdkUpdate_Reservation api R rm desired latest d) (\<lambda>x. ret (latest, x))),
      deleteOp = sdkDelete_Reservation api,
      mirrorOp = mirrorTags_Reservation (rangeOf R),
      conditionsOp = (\<lambda>k. Conditions (crStatus k)),
      updateConditionsOp = conditionsUpdater env [] rm crStatus (\<lambda>st k. k\<lparr>crStatus := st\<rparr>)\<rparr>"

lemma cr_reports: "AWSError_law env \<Longrightarrow> reporting_kind (crKind api R rm env) []"
  by (rule conditionsUpdater_reports [where get = crStatus and put = "\<lambda>st k. k\<lparr>crStatus := st\<rparr>"]) (simp_all add: crKind_def)

interpretation cr_kind: reporting_kind "crKind api R rm plainTexts" "[]"
  for api :: "'x reservation_api_scheme" and R :: "('y) ack_runtime_scheme" and rm
  by (rule cr_reports [OF plainTexts_law])

subsection \<open>Properties\<close>

abbreviation readReservation :: "resource_manager \<Rightarrow> capacity_reservation \<Rightarrow> sdk_capacity_reservation \<Rightarrow> capacity_reservation" where
  "readReservation rm r x \<equiv> countFromStatus (defaults_Reservation rm (setFrom_Reservation r x))"

lemma readReservation_info [simp]: "crAdditionalInfo (crSpec (readReservation rm r x)) = crAdditionalInfo (crSpec r)"
  by (simp add: countFromStatus_def defaults_Reservation_def setFrom_Reservation_def readSpec_Reservation_def)

lemma crStatus_countFromStatus [simp]: "crStatus (countFromStatus k) = crStatus k"
  by (simp add: countFromStatus_def)

lemma readReservation_simps:
  "crState (crStatus (readReservation rm r x)) = enumPtr (sdkCrState x)"
  "crTotalInstanceCount (crStatus (readReservation rm r x)) = map_option toInt64 (sdkCrTotalInstanceCount x)"
  "crAvailableInstanceCount (crStatus (readReservation rm r x)) = map_option toInt64 (sdkCrAvailableInstanceCount x)"
  by (simp_all add: defaults_Reservation_def setFrom_Reservation_def setStatusDefaults_def readARN_def readStatus_Reservation_def Let_def
      capacity_reservation_status.defs)

lemma sdkFind_Reservation_result:
  assumes "sdkFind_Reservation api rm r s = (Ret (Some k, e), t)"
  shows "\<exists>x. k = readReservation rm r x"
  using assms by (auto simp: sdkFind_Reservation_def readMany_def bind_def deref_def split: if_splits sum.splits option.splits list.splits)

text \<open>
  Additional information alone is never applied. A read keeps the information of the resource it
  was given, so the comparison never sees a difference there, and no update starts because of it.
\<close>

theorem additional_info_never_differs:
  assumes "ackcompare_law C" "sdkFind_Reservation api rm r s = (Ret (Some k, e), t)"
  shows "''Spec.AdditionalInfo'' \<notin> set (compareSpecs_Reservation C (crSpec r) (crSpec k))"
proof -
  obtain x where "k = readReservation rm r x" using sdkFind_Reservation_result [OF assms(2)] by blast
  then show ?thesis
    unfolding compareSpecs_Reservation_def Let_def mem_compare by (simp add: comparePtr_same [OF assms(1)])
qed

text \<open>
  C39. A modification is sent in two calls. When something but not the tags differs and the service accepts
  the calls, the additional information goes first, alone in a call of its own, when there is any; the rest
  follows in a second call without it, and the reservation is read again. The result has the desired spec,
  and the state and the available and total instance counts of that reading.
\<close>

theorem modification_sends_info_first:
  assumes "\<not> DifferentAt R d ''Spec.Tags''" "DifferentExceptAt R d [''Spec.Tags'']"
    and "newUpdateRequestPayload_Reservation desired = Inr input" "CapacityReservationID (crStatus desired) = Some i"
    and "\<And>t j. onModifyCapacityReservation api t j = None" "\<And>t. onDescribeCapacityReservations api t [i] = Inr (Some (x # xs))"
  shows "\<exists>k t. sdkUpdate_Reservation api R rm desired latest d s = (Ret (Some k, None), t)
    \<and> calls t = calls s @ (if crAdditionalInfo (crSpec desired) = None then []
          else [ReservationCall (ModifyCapacityReservation (additionalInfoInput input))])
        @ [ReservationCall (ModifyCapacityReservation (input\<lparr>mcrAdditionalInfo := None\<rparr>)), ReservationCall (DescribeCapacityReservations [i])]
    \<and> crSpec k = crSpec desired \<and> crState (crStatus k) = enumPtr (sdkCrState x)
    \<and> crTotalInstanceCount (crStatus k) = map_option toInt64 (sdkCrTotalInstanceCount x)
    \<and> crAvailableInstanceCount (crStatus k) = map_option toInt64 (sdkCrAvailableInstanceCount x)"
proof -
  let ?k = "refreshedReservation (defaults_Reservation rm desired) (readReservation rm desired x)"
  have info: "mcrAdditionalInfo input = crAdditionalInfo (crSpec desired)"
    using assms(3) by (auto simp: newUpdateRequestPayload_Reservation_def split: sum.splits)
  have find: "sdkFind_Reservation api rm desired t
      = (Ret (Some (readReservation rm desired x), None),
         t @ [Call (ReservationCall (DescribeCapacityReservations [i])), Metric ''READ_MANY'' ''DescribeCapacityReservations'' None])" for t
    using assms(4,6) by (simp add: sdkFind_Reservation_def requiredFieldsMissing_Reservation_def newListRequestPayload_Reservation_def readMany_simps)
  have "crSpec (defaults_Reservation rm desired) = crSpec desired" by (simp add: defaults_Reservation_def)
  then have "crSpec ?k = crSpec desired" "crState (crStatus ?k) = enumPtr (sdkCrState x)"
    "crTotalInstanceCount (crStatus ?k) = map_option toInt64 (sdkCrTotalInstanceCount x)"
    "crAvailableInstanceCount (crStatus ?k) = map_option toInt64 (sdkCrAvailableInstanceCount x)"
    using readReservation_simps [of rm desired x] by (simp_all add: refreshedReservation_def)
  moreover have "\<exists>t. sdkUpdate_Reservation api R rm desired latest d s = (Ret (Some ?k, None), t)
    \<and> calls t = calls s @ (if crAdditionalInfo (crSpec desired) = None then []
          else [ReservationCall (ModifyCapacityReservation (additionalInfoInput input))])
        @ [ReservationCall (ModifyCapacityReservation (input\<lparr>mcrAdditionalInfo := None\<rparr>)), ReservationCall (DescribeCapacityReservations [i])]"
    using assms(1-3,5) info by (cases "crAdditionalInfo (crSpec desired)") (simp_all add: sdkUpdate_Reservation_def find)
  ultimately show ?thesis by blast
qed

subsection \<open>Witnesses\<close>

definition exampleReservation :: "string option \<Rightarrow> capacity_reservation" where
  "exampleReservation info = \<lparr>crSpec = \<lparr>crAdditionalInfo = info, crAvailabilityZone = None, crAvailabilityZoneID = None, crCommitmentDuration = None,
       crDeliveryPreference = None, crEBSOptimized = None, crEndDate = None, crEndDateType = None, crEphemeralStorage = None,
       crInstanceCount = None, crInstanceMatchCriteria = None, crInstancePlatform = None, crInstanceType = Some ''t3.micro'', crOutpostARN = None,
       crPlacementGroupARN = None, crStartDate = None, crTags = None, crTenancy = None\<rparr>,
     crStatus = \<lparr>ACKResourceMetadata = None, Conditions = [], crAvailableInstanceCount = None, crCapacityAllocations = None, crFleetID = None,
       CapacityReservationID = Some ''cr-1'', crCommitmentInfo = None, crCreateDate = None, crOwnerID = None, crReservationType = None,
       crState = None, crTotalInstanceCount = None, crBillingOwnerID = None\<rparr>\<rparr>"

definition exampleSdkReservation :: sdk_capacity_reservation where
  "exampleSdkReservation = \<lparr>sdkCrAvailabilityZone = None, sdkCrAvailabilityZoneId = None, sdkCrAvailableInstanceCount = Some 2,
     sdkCrCapacityAllocations = None, sdkCrCapacityReservationArn = None, sdkCrCapacityReservationFleetId = None,
     sdkCrCapacityReservationId = Some ''cr-1'', sdkCrCommitmentInfo = None, sdkCrCreateDate = None, sdkCrDeliveryPreference = [],
     sdkCrEbsOptimized = None, sdkCrEndDate = None, sdkCrEndDateType = ''unlimited'', sdkCrEphemeralStorage = None,
     sdkCrInstanceMatchCriteria = ''open'', sdkCrInstancePlatform = [], sdkCrInstanceType = Some ''t3.micro'', sdkCrOutpostArn = None,
     sdkCrOwnerId = None, sdkCrPlacementGroupArn = None, sdkCrReservationType = [], sdkCrStartDate = None, sdkCrState = ''active'',
     sdkCrTags = None, sdkCrTenancy = [], sdkCrTotalInstanceCount = Some 3, sdkCrUnusedReservationBillingOwnerId = None\<rparr>"

definition exampleReservationApi :: reservation_api where
  "exampleReservationApi = \<lparr>onCreateTags = (\<lambda>_ _. None), onDeleteTags = (\<lambda>_ _. None),
     onDescribeCapacityReservations = (\<lambda>_ _. Inr (Some [exampleSdkReservation])),
     onCreateCapacityReservation = (\<lambda>_ _. Inr (Some (Some exampleSdkReservation))), onModifyCapacityReservation = (\<lambda>_ _. None),
     onCancelCapacityReservation = (\<lambda>_ _. None)\<rparr>"

lemma additional_info_never_differs_witness:
  "\<exists>k t. sdkFind_Reservation exampleReservationApi exampleManager (exampleReservation (Some ''x'')) [] = (Ret (Some k, None), t)
    \<and> ''Spec.AdditionalInfo'' \<notin> set (compareSpecs_Reservation exactComparisons (crSpec (exampleReservation (Some ''x''))) (crSpec k))"
proof -
  obtain k t where f: "sdkFind_Reservation exampleReservationApi exampleManager (exampleReservation (Some ''x'')) [] = (Ret (Some k, None), t)"
    by (simp add: sdkFind_Reservation_def requiredFieldsMissing_Reservation_def newListRequestPayload_Reservation_def readMany_simps
        exampleReservation_def exampleReservationApi_def)
  from additional_info_never_differs [OF exactComparisons_law f] f show ?thesis by blast
qed

lemma modification_sends_info_first_witness:
  "\<exists>input k t. sdkUpdate_Reservation exampleReservationApi exactRuntime exampleManager (exampleReservation (Some ''x'')) (exampleReservation None)
      [''Spec.InstanceCount''] [] = (Ret (Some k, None), t)
    \<and> calls t = [ReservationCall (ModifyCapacityReservation (additionalInfoInput input)),
        ReservationCall (ModifyCapacityReservation (input\<lparr>mcrAdditionalInfo := None\<rparr>)), ReservationCall (DescribeCapacityReservations [''cr-1''])]
    \<and> crTotalInstanceCount (crStatus k) = Some (toInt64 3)"
proof -
  let ?d = "exampleReservation (Some ''x'')"
  obtain input where "newUpdateRequestPayload_Reservation ?d = Inr input"
    by (simp add: newUpdateRequestPayload_Reservation_def exampleReservation_def narrowInt32_def)
  moreover have "\<not> DifferentAt exactRuntime [''Spec.InstanceCount''] ''Spec.Tags''" "DifferentExceptAt exactRuntime [''Spec.InstanceCount''] [''Spec.Tags'']"
    by (simp_all add: exactRuntime_def liesAt_def)
  moreover have "CapacityReservationID (crStatus ?d) = Some ''cr-1''" "crAdditionalInfo (crSpec ?d) \<noteq> None" by (simp_all add: exampleReservation_def)
  moreover have "onModifyCapacityReservation exampleReservationApi t j = None"
    "onDescribeCapacityReservations exampleReservationApi t [''cr-1''] = Inr (Some (exampleSdkReservation # []))" for t j
    by (simp_all add: exampleReservationApi_def)
  moreover have "sdkCrTotalInstanceCount exampleSdkReservation = Some 3" by (simp add: exampleSdkReservation_def)
  ultimately show ?thesis
    using modification_sends_info_first [of exactRuntime "[''Spec.InstanceCount'']" ?d input "''cr-1''" exampleReservationApi exampleSdkReservation "[]"
        exampleManager "exampleReservation None" "[]"] by fastforce
qed

end
