(* ===== verification/VpcEndpoint.thy ===== *)
theory VpcEndpoint
  imports Runtime
begin

text \<open>
  The VPC endpoint controller (\<open>pkg/resource/vpc_endpoint/hooks.go\<close>, \<open>sdk.go\<close>, \<open>delta.go\<close>,
  \<open>manager.go\<close>). Names that another kind uses too carry the suffix \<open>_Endpoint\<close>.
\<close>

subsection \<open>Data\<close>

record dns_options =
  DNSRecordIPType :: "string option"
  PrivateDNSPreference :: "string option"
  PrivateDNSSpecifiedDomains :: "string option list"

record dns_entry =
  deDNSName :: "string option"
  deHostedZoneID :: "string option"

record group_identifier =
  giGroupID :: "string option"
  giGroupName :: "string option"

record last_error =
  leCode :: "string option"
  leMessage :: "string option"

record vpc_endpoint_spec =
  veDNSOptions :: "dns_options option"
  veIPAddressType :: "string option"
  vePolicyDocument :: "string option"
  vePrivateDNSEnabled :: "bool option"
  veRouteTableIDs :: "string option list"
  veRouteTableRefs :: "ref_wrapper option list"
  veSecurityGroupIDs :: "string option list"
  veSecurityGroupRefs :: "ref_wrapper option list"
  veServiceName :: "string option"
  veServiceNetworkARN :: "string option"
  veServiceRef :: "ref_wrapper option"
  veServiceRegion :: "string option"
  veSubnetIDs :: "string option list"
  veSubnetRefs :: "ref_wrapper option list"
  veTags :: "tag list option"
  VPCEndpointType :: "string option"
  veVPCID :: "string option"
  veVPCRef :: "ref_wrapper option"

record vpc_endpoint_status = common_status +
  veCreationTimestamp :: "timestamp option"
  veDNSEntries :: "dns_entry list option"
  veGroups :: "group_identifier list option"
  veLastError :: "last_error option"
  veNetworkInterfaceIDs :: "string option list"
  veOwnerID :: "string option"
  veRequesterManaged :: "bool option"
  veState :: "string option"
  VPCEndpointID :: "string option"

record vpc_endpoint =
  veSpec :: vpc_endpoint_spec
  veStatus :: vpc_endpoint_status

record endpoint_api = tags_api +
  onDescribeVpcEndpoints :: "call log \<Rightarrow> string list \<Rightarrow> error + sdk_vpc_endpoint list option"
  onCreateVpcEndpoint :: "call log \<Rightarrow> create_endpoint_input \<Rightarrow> error + sdk_vpc_endpoint option option"
  onModifyVpcEndpoint :: "call log \<Rightarrow> modify_endpoint_input \<Rightarrow> error option"
  onDeleteVpcEndpoints :: "call log \<Rightarrow> string list \<Rightarrow> error option"

subsection \<open>Reading\<close>

definition dnsOptionsFromSdk_Endpoint :: "('y) ack_runtime_scheme \<Rightarrow> sdk_endpoint_dns \<Rightarrow> dns_options" where
  "dnsOptionsFromSdk_Endpoint R x = \<lparr>DNSRecordIPType = enumPtr (sdkEdDnsRecordIpType x), PrivateDNSPreference = sdkEdPrivateDnsPreference x,
     PrivateDNSSpecifiedDomains = fromStrings R (sdkEdPrivateDnsSpecifiedDomains x)\<rparr>"

text \<open>The security groups of the answer go to the status; those of the spec are not touched.\<close>

definition readSpec_Endpoint :: "('y) ack_runtime_scheme \<Rightarrow> sdk_vpc_endpoint \<Rightarrow> vpc_endpoint_spec \<Rightarrow> vpc_endpoint_spec" where
  "readSpec_Endpoint R x sp =
     sp\<lparr>veDNSOptions := map_option (dnsOptionsFromSdk_Endpoint R) (sdkVeDnsOptions x), veIPAddressType := enumPtr (sdkVeIpAddressType x),
        vePolicyDocument := sdkVePolicyDocument x, vePrivateDNSEnabled := sdkVePrivateDnsEnabled x,
        veRouteTableIDs := fromStrings R (sdkVeRouteTableIds x), veServiceName := sdkVeServiceName x,
        veServiceNetworkARN := sdkVeServiceNetworkArn x, veServiceRegion := sdkVeServiceRegion x,
        veSubnetIDs := fromStrings R (sdkVeSubnetIds x), veTags := map_option resourceTags (sdkVeTags x),
        VPCEndpointType := enumPtr (sdkVeVpcEndpointType x), veVPCID := sdkVeVpcId x\<rparr>"

definition readStatus_Endpoint :: "('y) ack_runtime_scheme \<Rightarrow> sdk_vpc_endpoint \<Rightarrow> vpc_endpoint_status \<Rightarrow> vpc_endpoint_status" where
  "readStatus_Endpoint R x st =
     st\<lparr>veCreationTimestamp := sdkVeCreationTimestamp x,
        veDNSEntries := map_option (map (\<lambda>e. \<lparr>deDNSName = sdkDeDnsName e, deHostedZoneID = sdkDeHostedZoneId e\<rparr>)) (sdkVeDnsEntries x),
        veGroups := map_option (map (\<lambda>g. \<lparr>giGroupID = sdkGiGroupId g, giGroupName = sdkGiGroupName g\<rparr>)) (sdkVeGroups x),
        veLastError := map_option (\<lambda>e. \<lparr>leCode = sdkLeCode e, leMessage = sdkLeMessage e\<rparr>) (sdkVeLastError x),
        veNetworkInterfaceIDs := fromStrings R (sdkVeNetworkInterfaceIds x), veOwnerID := sdkVeOwnerId x,
        veRequesterManaged := sdkVeRequesterManaged x, veState := enumPtr (sdkVeState x), VPCEndpointID := sdkVeVpcEndpointId x\<rparr>"

definition setFrom_Endpoint :: "('y) ack_runtime_scheme \<Rightarrow> vpc_endpoint \<Rightarrow> sdk_vpc_endpoint \<Rightarrow> vpc_endpoint" where
  "setFrom_Endpoint R k x = \<lparr>veSpec = readSpec_Endpoint R x (veSpec k), veStatus = readStatus_Endpoint R x (veStatus k)\<rparr>"

definition defaults_Endpoint :: "resource_manager \<Rightarrow> vpc_endpoint \<Rightarrow> vpc_endpoint" where
  "defaults_Endpoint rm k = k\<lparr>veStatus := setStatusDefaults rm (veStatus k)\<rparr>"

definition vpcEndpointPending :: "vpc_endpoint \<Rightarrow> bool" where
  "vpcEndpointPending r = (case veState (veStatus r) of None \<Rightarrow> False | Some cs \<Rightarrow> cs = ''pending'')"

definition notSynced_Endpoint :: "('y) ack_runtime_scheme \<Rightarrow> vpc_endpoint \<Rightarrow> vpc_endpoint" where
  "notSynced_Endpoint R k =
     k\<lparr>veStatus := (veStatus k)\<lparr>Conditions := SetSynced R ConditionFalse None None (Conditions (veStatus k))\<rparr>\<rparr>"

definition requiredFieldsMissing_Endpoint :: "vpc_endpoint \<Rightarrow> bool" where
  "requiredFieldsMissing_Endpoint r \<longleftrightarrow> VPCEndpointID (veStatus r) = None"

definition newListRequestPayload_Endpoint :: "vpc_endpoint \<Rightarrow> string list" where
  "newListRequestPayload_Endpoint r = (case VPCEndpointID (veStatus r) of None \<Rightarrow> [] | Some i \<Rightarrow> [i])"

definition sdkFind_Endpoint ::
  "'x endpoint_api_scheme \<Rightarrow> ('y) ack_runtime_scheme \<Rightarrow> resource_manager \<Rightarrow> vpc_endpoint \<Rightarrow> (vpc_endpoint option \<times> error option) act" where
  "sdkFind_Endpoint api R rm r =
     readMany (requiredFieldsMissing_Endpoint r) (\<lambda>i. EndpointCall (DescribeVpcEndpoints i)) (onDescribeVpcEndpoints api) ''DescribeVpcEndpoints''
       (newListRequestPayload_Endpoint r) (\<lambda>elem.
         let ko = defaults_Endpoint rm (setFrom_Endpoint R r elem) in
         ret (Some (if vpcEndpointPending ko then notSynced_Endpoint R ko else ko), None))"

subsection \<open>Creating and deleting\<close>

definition dnsOptionsToSdk_Endpoint :: "('y) ack_runtime_scheme \<Rightarrow> dns_options \<Rightarrow> sdk_endpoint_dns" where
  "dnsOptionsToSdk_Endpoint R o' = \<lparr>sdkEdDnsRecordIpType = safeString (DNSRecordIPType o'), sdkEdPrivateDnsPreference = PrivateDNSPreference o',
     sdkEdPrivateDnsSpecifiedDomains = toStrings R (PrivateDNSSpecifiedDomains o')\<rparr>"

definition newCreateRequestPayload_Endpoint :: "('y) ack_runtime_scheme \<Rightarrow> vpc_endpoint \<Rightarrow> create_endpoint_input" where
  "newCreateRequestPayload_Endpoint R r =
     (let sp = veSpec r in
      \<lparr>cveDnsOptions = map_option (dnsOptionsToSdk_Endpoint R) (veDNSOptions sp), cveIpAddressType = safeString (veIPAddressType sp),
       cvePolicyDocument = vePolicyDocument sp, cvePrivateDnsEnabled = vePrivateDNSEnabled sp,
       cveRouteTableIds = toStrings R (veRouteTableIDs sp), cveSecurityGroupIds = toStrings R (veSecurityGroupIDs sp),
       cveServiceName = veServiceName sp, cveServiceNetworkArn = veServiceNetworkARN sp, cveServiceRegion = veServiceRegion sp,
       cveSubnetIds = toStrings R (veSubnetIDs sp), cveVpcEndpointType = safeString (VPCEndpointType sp), cveVpcId = veVPCID sp,
       cveTagSpecifications = None\<rparr>)"

definition updateTagSpecifications_Endpoint :: "vpc_endpoint \<Rightarrow> create_endpoint_input \<Rightarrow> create_endpoint_input" where
  "updateTagSpecifications_Endpoint r input = input\<lparr>cveTagSpecifications := tagSpecificationsFor ''vpc-endpoint'' (veTags (veSpec r))\<rparr>"

definition sdkCreate_Endpoint ::
  "'x endpoint_api_scheme \<Rightarrow> ('y) ack_runtime_scheme \<Rightarrow> resource_manager \<Rightarrow> vpc_endpoint \<Rightarrow> (vpc_endpoint option \<times> error option) act" where
  "sdkCreate_Endpoint api R rm desired =
     createOne (\<lambda>i. EndpointCall (CreateVpcEndpoint i)) (onCreateVpcEndpoint api) ''CreateVpcEndpoint''
       (updateTagSpecifications_Endpoint desired (newCreateRequestPayload_Endpoint R desired))
       (\<lambda>resp. ret (Some (notSynced_Endpoint R (defaults_Endpoint rm (setFrom_Endpoint R desired resp))), None))"

text \<open>\<open>addIDToDeleteRequest\<close>; without an identifier the deletion answers \<open>NotFound\<close>.\<close>

definition addIDToDeleteRequest_Endpoint :: "vpc_endpoint \<Rightarrow> error + string list" where
  "addIDToDeleteRequest_Endpoint r =
     (case VPCEndpointID (veStatus r) of
        None \<Rightarrow> Inl (GoError ''unable to extract VPCEndpointID from resource'')
      | Some i \<Rightarrow> Inr [i])"

definition sdkDelete_Endpoint :: "'x endpoint_api_scheme \<Rightarrow> vpc_endpoint \<Rightarrow> (vpc_endpoint option \<times> error option) act" where
  "sdkDelete_Endpoint api r =
     (case addIDToDeleteRequest_Endpoint r of
        Inl _ \<Rightarrow> ret (None, Some NotFound)
      | Inr input \<Rightarrow> deleteOne (\<lambda>i. EndpointCall (DeleteVpcEndpoints i)) (onDeleteVpcEndpoints api) ''DeleteVpcEndpoints'' input)"

subsection \<open>Updating\<close>

text \<open>The keys of a map made from a list, in the order of a \<open>range\<close> over it.\<close>

definition rangeKeys :: "('y) ack_runtime_scheme \<Rightarrow> string list \<Rightarrow> string list" where
  "rangeKeys R xs = map fst (rangeOf R (map (\<lambda>k. (k, [])) (remdups xs)))"

definition calculateSubnetDifferences :: "('y) ack_runtime_scheme \<Rightarrow> string list \<Rightarrow> string list \<Rightarrow> string list \<times> string list" where
  "calculateSubnetDifferences R desired latest =
     (filter (\<lambda>i. i \<notin> set latest) (rangeKeys R desired), filter (\<lambda>i. i \<notin> set desired) (rangeKeys R latest))"

definition modifyDnsOptions :: "('y) ack_runtime_scheme \<Rightarrow> delta \<Rightarrow> dns_options \<Rightarrow> sdk_endpoint_dns" where
  "modifyDnsOptions R d o' =
     \<lparr>sdkEdDnsRecordIpType = safeString (DNSRecordIPType o'),
      sdkEdPrivateDnsPreference = (if DifferentAt R d ''Spec.DNSOptions.PrivateDNSPreference'' then PrivateDNSPreference o' else None),
      sdkEdPrivateDnsSpecifiedDomains =
        (if DifferentAt R d ''Spec.DNSOptions.PrivateDNSSpecifiedDomains'' then ToStringSlice R (PrivateDNSSpecifiedDomains o') else [])\<rparr>"

definition modifyEndpointInput :: "('y) ack_runtime_scheme \<Rightarrow> vpc_endpoint \<Rightarrow> vpc_endpoint \<Rightarrow> delta \<Rightarrow> modify_endpoint_input" where
  "modifyEndpointInput R desired latest d =
     (let a = veSpec desired; b = veSpec latest;
          differences = (\<lambda>p field. if DifferentAt R d p
            then calculateSubnetDifferences R (ToStringSlice R (field a)) (ToStringSlice R (field b)) else ([], []));
          subnets = differences ''Spec.SubnetIDs'' veSubnetIDs;
          tables = differences ''Spec.RouteTableIDs'' veRouteTableIDs;
          groups = differences ''Spec.SecurityGroupIDs'' veSecurityGroupIDs
      in \<lparr>mveVpcEndpointId = VPCEndpointID (veStatus latest), mveAddSubnetIds = fst subnets, mveRemoveSubnetIds = snd subnets,
          mveAddRouteTableIds = fst tables, mveRemoveRouteTableIds = snd tables,
          mvePolicyDocument = (if DifferentAt R d ''Spec.PolicyDocument'' then vePolicyDocument a else None),
          mvePrivateDnsEnabled = (if DifferentAt R d ''Spec.PrivateDNSEnabled'' then vePrivateDNSEnabled a else None),
          mveAddSecurityGroupIds = fst groups, mveRemoveSecurityGroupIds = snd groups,
          mveDnsOptions = (if DifferentAt R d ''Spec.DNSOptions'' then map_option (modifyDnsOptions R d) (veDNSOptions a) else None),
          mveIpAddressType = (if DifferentAt R d ''Spec.IPAddressType'' then safeString (veIPAddressType a) else [])\<rparr>)"

definition dnsOptionsRefused :: "('y) ack_runtime_scheme \<Rightarrow> delta \<Rightarrow> error" where
  "dnsOptionsRefused R d =
     TerminalError (GoError
      ((if DifferentAt R d ''Spec.DNSOptions.PrivateDNSPreference'' then ''DnsOptions.PrivateDNSPreference''
        else if DifferentAt R d ''Spec.DNSOptions.DNSRecordIPType'' then ''DnsOptions.DNSRecordIPType''
        else if DifferentAt R d ''Spec.DNSOptions.PrivateDNSSpecifiedDomains'' then ''DnsOptions.PrivateDNSSpecifiedDomains''
        else ''DnsOptions'') @ '' cannot be modified for ServiceNetwork endpoints''))"

definition customUpdateVPCEndpoint ::
  "'x endpoint_api_scheme \<Rightarrow> ('y) ack_runtime_scheme \<Rightarrow> vpc_endpoint \<Rightarrow> vpc_endpoint \<Rightarrow> delta \<Rightarrow> (vpc_endpoint option \<times> error option) act" where
  "customUpdateVPCEndpoint api R desired latest d =
     (if DifferentAt R d ''Spec.DNSOptions'' \<and> VPCEndpointType (veSpec latest) = Some ''ServiceNetwork''
      then ret (Some latest, Some (dnsOptionsRefused R d))
      else
        syncTagsIf api (DifferentAt R d ''Spec.Tags'') (VPCEndpointID (veStatus latest)) (veTags (veSpec desired)) (veTags (veSpec latest))
       (if \<not> DifferentExceptAt R d [''Spec.Tags''] then ret (Some desired, None)
        else
          bind (callRecord (\<lambda>i. EndpointCall (ModifyVpcEndpoint i)) (onModifyVpcEndpoint api) ''UPDATE'' ''ModifyVpcEndpoint''
                  (modifyEndpointInput R desired latest d)) (\<lambda>err.
          ifErr err (\<lambda>e. ret (None, Some e)) (ret (Some desired, None)))))"

subsection \<open>Comparing\<close>

text \<open>\<open>samePolicy\<close> stands for \<open>IAMPolicyDocumentEqual\<close>; \<open>Inl\<close> is a document it cannot parse.\<close>

definition comparePolicy ::
  "('x) ackcompare_scheme \<Rightarrow> (string \<Rightarrow> string \<Rightarrow> error + bool) \<Rightarrow> string \<Rightarrow> string option \<Rightarrow> string option \<Rightarrow> delta \<Rightarrow> delta" where
  "comparePolicy C samePolicy p x y d =
     (if HasNilDifference C (IStr x) (IStr y) then addDiff p d
      else case (x, y) of
             (Some u, Some v) \<Rightarrow> (if samePolicy u v \<noteq> Inr True then addDiff p d else d)
           | _ \<Rightarrow> d)"

definition compareDnsOptions :: "('x) ackcompare_scheme \<Rightarrow> dns_options \<Rightarrow> dns_options \<Rightarrow> delta \<Rightarrow> delta" where
  "compareDnsOptions C u v d =
    (let d1 = cmpStr C ''Spec.DNSOptions.DNSRecordIPType'' (DNSRecordIPType u) (DNSRecordIPType v) d;
         d2 = cmpStr C ''Spec.DNSOptions.PrivateDNSPreference'' (PrivateDNSPreference u) (PrivateDNSPreference v) d1
     in cmpStrs C ''Spec.DNSOptions.PrivateDNSSpecifiedDomains'' (PrivateDNSSpecifiedDomains u) (PrivateDNSSpecifiedDomains v) d2)"

definition compareSpecs_Endpoint ::
  "('x) ackcompare_scheme \<Rightarrow> (string \<Rightarrow> string \<Rightarrow> error + bool) \<Rightarrow> vpc_endpoint_spec \<Rightarrow> vpc_endpoint_spec \<Rightarrow> delta" where
  "compareSpecs_Endpoint C samePolicy a b =
    (let d1 = compareStruct C ''Spec.DNSOptions'' (compareDnsOptions C) (veDNSOptions a) (veDNSOptions b) [];
         d2 = cmpStr C ''Spec.IPAddressType'' (veIPAddressType a) (veIPAddressType b) d1;
         d3 = comparePolicy C samePolicy ''Spec.PolicyDocument'' (vePolicyDocument a) (vePolicyDocument b) d2;
         d4 = cmpBool C ''Spec.PrivateDNSEnabled'' (vePrivateDNSEnabled a) (vePrivateDNSEnabled b) d3;
         d5 = cmpStrs C ''Spec.RouteTableIDs'' (veRouteTableIDs a) (veRouteTableIDs b) d4;
         d6 = compareRefs C ''Spec.RouteTableRefs'' (veRouteTableRefs a) (veRouteTableRefs b) d5;
         d7 = cmpStrs C ''Spec.SecurityGroupIDs'' (veSecurityGroupIDs a) (veSecurityGroupIDs b) d6;
         d8 = compareRefs C ''Spec.SecurityGroupRefs'' (veSecurityGroupRefs a) (veSecurityGroupRefs b) d7;
         d9 = cmpStr C ''Spec.ServiceName'' (veServiceName a) (veServiceName b) d8;
         d10 = cmpStr C ''Spec.ServiceNetworkARN'' (veServiceNetworkARN a) (veServiceNetworkARN b) d9;
         d11 = compareRef C ''Spec.ServiceRef'' (veServiceRef a) (veServiceRef b) d10;
         d12 = cmpStr C ''Spec.ServiceRegion'' (veServiceRegion a) (veServiceRegion b) d11;
         d13 = cmpStrs C ''Spec.SubnetIDs'' (veSubnetIDs a) (veSubnetIDs b) d12;
         d14 = compareRefs C ''Spec.SubnetRefs'' (veSubnetRefs a) (veSubnetRefs b) d13;
         d15 = compareTags C ''Spec.Tags'' (veTags a) (veTags b) d14;
         d16 = cmpStr C ''Spec.VPCEndpointType'' (VPCEndpointType a) (VPCEndpointType b) d15;
         d17 = cmpStr C ''Spec.VPCID'' (veVPCID a) (veVPCID b) d16
     in compareRef C ''Spec.VPCRef'' (veVPCRef a) (veVPCRef b) d17)"

definition newResourceDelta_Endpoint ::
  "('x) ackcompare_scheme \<Rightarrow> (string \<Rightarrow> string \<Rightarrow> error + bool) \<Rightarrow> vpc_endpoint option \<Rightarrow> vpc_endpoint option \<Rightarrow> delta act" where
  "newResourceDelta_Endpoint C samePolicy a b =
     bothResources a b (\<lambda>x y. compareSpecs_Endpoint C samePolicy (veSpec x) (veSpec y)) (\<lambda>d. d)"

subsection \<open>The kind\<close>

definition mirrorTags_Endpoint :: "(acktags \<Rightarrow> acktags) \<Rightarrow> vpc_endpoint \<Rightarrow> vpc_endpoint option \<Rightarrow> vpc_endpoint" where
  "mirrorTags_Endpoint iter a b =
     (case b of None \<Rightarrow> a
      | Some l \<Rightarrow> a\<lparr>veSpec := (veSpec a)\<lparr>veTags := mirrorAWSTags iter (veTags (veSpec a)) (veTags (veSpec l))\<rparr>\<rparr>)"

definition terminalCodes_Endpoint :: "string list" where
  "terminalCodes_Endpoint = [''InvalidVpcId.Malformed'', ''InvalidServiceName'']"

definition veKind ::
  "'x endpoint_api_scheme \<Rightarrow> ('y) ack_runtime_scheme \<Rightarrow> resource_manager \<Rightarrow> error_texts \<Rightarrow> vpc_endpoint kind" where
  "veKind api R rm env =
     \<lparr>findOp = (\<lambda>r. bind (sdkFind_Endpoint api R rm r) (\<lambda>x. ret (r, x))),
      createOp = sdkCreate_Endpoint api R rm,
      updateOp = (\<lambda>desired latest d. bind (customUpdateVPCEndpoint api R desired latest d) (\<lambda>x. ret (latest, x))),
      deleteOp = sdkDelete_Endpoint api,
      mirrorOp = mirrorTags_Endpoint (rangeOf R),
      conditionsOp = (\<lambda>k. Conditions (veStatus k)),
      updateConditionsOp = conditionsUpdater env terminalCodes_Endpoint rm veStatus (\<lambda>st k. k\<lparr>veStatus := st\<rparr>)\<rparr>"

lemma ve_reports: "AWSError_law env \<Longrightarrow> reporting_kind (veKind api R rm env) terminalCodes_Endpoint"
  by (rule conditionsUpdater_reports [where get = veStatus and put = "\<lambda>st k. k\<lparr>veStatus := st\<rparr>"]) (simp_all add: veKind_def)

interpretation ve_kind: reporting_kind "veKind api R rm plainTexts" terminalCodes_Endpoint
  for api :: "'x endpoint_api_scheme" and R :: "('y) ack_runtime_scheme" and rm
  by (rule ve_reports [OF plainTexts_law])

text \<open>The policy document is initialised late, from the first read that has one.\<close>

definition copyFields_Endpoint :: "vpc_endpoint \<Rightarrow> vpc_endpoint \<Rightarrow> vpc_endpoint" where
  "copyFields_Endpoint observed latest =
     (if vePolicyDocument (veSpec observed) \<noteq> None \<and> vePolicyDocument (veSpec latest) = None
      then latest\<lparr>veSpec := (veSpec latest)\<lparr>vePolicyDocument := vePolicyDocument (veSpec observed)\<rparr>\<rparr> else latest)"

definition LateInitialize_Endpoint ::
  "'x endpoint_api_scheme \<Rightarrow> ('y) ack_runtime_scheme \<Rightarrow> resource_manager \<Rightarrow> error_texts
   \<Rightarrow> (string \<Rightarrow> string option \<Rightarrow> string option \<Rightarrow> vpc_endpoint \<Rightarrow> vpc_endpoint) \<Rightarrow> vpc_endpoint \<Rightarrow> (vpc_endpoint \<times> error option) act" where
  "LateInitialize_Endpoint api R rm env SetLateInitialized =
     LateInitialize (veKind api R rm env) SetLateInitialized
       (\<lambda>st m reason k. k\<lparr>veStatus := (veStatus k)\<lparr>Conditions := SetSynced R st m reason (Conditions (veStatus k))\<rparr>\<rparr>)
       copyFields_Endpoint (\<lambda>_. False) [''PolicyDocument'']"

subsection \<open>Differences of lists\<close>

lemma set_rangeKeys: "runtime_law R \<Longrightarrow> set (rangeKeys R xs) = set xs"
proof -
  assume R: "runtime_law R"
  let ?m = "map (\<lambda>k. (k, [] :: string)) (remdups xs)"
  have "set (rangeOf R ?m) = set ?m" using range_order_perm [OF runtime_simps(7) [OF R], of ?m] by (metis set_mset_mset)
  then show ?thesis by (simp add: rangeKeys_def image_image)
qed

lemma distinct_rangeKeys: "runtime_law R \<Longrightarrow> distinct (rangeKeys R xs)"
proof -
  assume R: "runtime_law R"
  let ?m = "map (\<lambda>k. (k, [] :: string)) (remdups xs)"
  have "mset (map fst (rangeOf R ?m)) = mset (map fst ?m)" using range_order_perm [OF runtime_simps(7) [OF R], of ?m] by (simp add: multiset.map_comp)
  moreover have "distinct (map fst ?m)" by (simp add: comp_def)
  ultimately show ?thesis unfolding rangeKeys_def by (metis mset_eq_imp_distinct_iff)
qed

lemma endpoint_diff: "runtime_law R \<Longrightarrow> two_way_diff id (calculateSubnetDifferences R)"
  by unfold_locales (auto simp: calculateSubnetDifferences_def set_rangeKeys)

interpretation exact_endpoint_diff: two_way_diff id "calculateSubnetDifferences exactRuntime"
  by (rule endpoint_diff [OF exactRuntime_law])

subsection \<open>Properties\<close>

lemma sdkFind_Endpoint_result:
  assumes "sdkFind_Endpoint api R rm r s = (Ret (Some k, e), t)"
  shows "veSecurityGroupIDs (veSpec k) = veSecurityGroupIDs (veSpec r)"
proof -
  from assms obtain x where "k = defaults_Endpoint rm (setFrom_Endpoint R r x) \<or> k = notSynced_Endpoint R (defaults_Endpoint rm (setFrom_Endpoint R r x))"
    by (auto simp: sdkFind_Endpoint_def readMany_def bind_def deref_def Let_def split: if_splits sum.splits option.splits list.splits)
  then show ?thesis by (auto simp: notSynced_Endpoint_def defaults_Endpoint_def setFrom_Endpoint_def readSpec_Endpoint_def)
qed

lemma mem_comparePolicy: "q \<in> set (comparePolicy C eq p x y d) \<longleftrightarrow> q \<in> set d \<or> q = p \<and> comparePolicy C eq p x y [] \<noteq> []"
  by (auto simp: comparePolicy_def split: option.split)

definition dnsDiff :: "('x) ackcompare_scheme \<Rightarrow> dns_options option \<Rightarrow> dns_options option \<Rightarrow> delta" where
  "dnsDiff C x y = compareStruct C ''Spec.DNSOptions'' (compareDnsOptions C) x y []"

lemma mem_compareDnsOptions:
  "q \<in> set (compareStruct C ''Spec.DNSOptions'' (compareDnsOptions C) x y d) \<longleftrightarrow> q \<in> set d \<or> q \<in> set (dnsDiff C x y)"
  unfolding dnsDiff_def compareStruct_def compareDnsOptions_def Let_def cmpStrs_def by (auto simp: mem_compare split: option.split)

lemma paths_dnsDiff: "q \<in> set (dnsDiff C x y) \<Longrightarrow> liesAt ''Spec.DNSOptions'' q"
  unfolding dnsDiff_def compareStruct_def compareDnsOptions_def Let_def cmpStrs_def
  by (auto simp: mem_compare liesAt_def split: option.splits if_splits)

text \<open>
  C38. The security groups of an endpoint are never changed. What a read puts in the spec leaves the
  security groups as they were in the resource it was given, so their comparison finds nothing, and no
  modification that follows names a security group.
\<close>

theorem security_groups_never_change:
  assumes "runtime_law R" "ackcompare_law C" "sdkFind_Endpoint api R rm r s = (Ret (Some k, e), t)"
    and "d = compareSpecs_Endpoint C samePolicy (veSpec r) (veSpec k)"
  shows "(\<forall>q \<in> set d. \<not> liesAt ''Spec.SecurityGroupIDs'' q)
    \<and> mveAddSecurityGroupIds (modifyEndpointInput R r k d) = [] \<and> mveRemoveSecurityGroupIds (modifyEndpointInput R r k d) = []"
proof -
  have "\<not> liesAt ''Spec.SecurityGroupIDs'' q" if q: "q \<in> set d" for q
  proof
    assume l: "liesAt ''Spec.SecurityGroupIDs'' q"
    have dns: "q \<notin> set (dnsDiff C u v)" for u v
    proof
      assume "q \<in> set (dnsDiff C u v)"
      from liesAt_related [OF l paths_dnsDiff [OF this]] show False by simp
    qed
    from q show False unfolding assms(4) compareSpecs_Endpoint_def Let_def
      using l sdkFind_Endpoint_result [OF assms(3)] compareRest_same(1) [OF assms(2)]
      by (simp add: cmpStrs_def mem_compare mem_comparePolicy mem_compareDnsOptions dns) (auto simp: liesAt_def)
  qed
  then have "\<not> DifferentAt R d ''Spec.SecurityGroupIDs''" unfolding runtime_simps(1) [OF assms(1)] by blast
  with \<open>\<And>q. q \<in> set d \<Longrightarrow> \<not> liesAt ''Spec.SecurityGroupIDs'' q\<close> show ?thesis
    by (simp add: modifyEndpointInput_def Let_def)
qed

lemma endpoint_difference:
  assumes "runtime_law R" "(add, remove) = calculateSubnetDifferences R ds ls"
  shows "distinct add" "distinct remove" "set add \<inter> set remove = {}" "(set ls - set remove) \<union> set add = set ds"
    and "set ls' = set ds \<Longrightarrow> calculateSubnetDifferences R ds ls' = ([], [])"
proof -
  note diff = endpoint_diff [OF assms(1)]
  have f: "add = fst (calculateSubnetDifferences R ds ls)" "remove = snd (calculateSubnetDifferences R ds ls)"
    by (simp_all add: assms(2) [symmetric])
  show "distinct add" "distinct remove"
    unfolding f by (simp_all add: calculateSubnetDifferences_def distinct_rangeKeys [OF assms(1)])
  show "set add \<inter> set remove = {}" using two_way_diff.disjoint [OF diff, of ds ls] unfolding f by simp
  show "(set ls - set remove) \<union> set add = set ds" using two_way_diff.converges [OF diff, of ls ds] unfolding f by simp
  show "calculateSubnetDifferences R ds ls' = ([], [])" if "set ls' = set ds"
    using that by (simp add: two_way_diff.idle_iff [OF diff])
qed

text \<open>
  C32. A modification of the subnets, or of the route tables, leads to the desired ones. When one of these
  two lists differs, no tags do and the change is not one of the DNS options of a service network, the update
  makes one call, a modification of the endpoint that was read, and returns its error, or the desired resource.
  The elements it asks to add and to remove for that list have none in common and none twice, and applying them to the list of the
  latest resource gives the desired one as a set; a modification from any resource that has this set
  then names none.
\<close>

theorem subnet_modification_converges:
  assumes "runtime_law R"
    and "(path, ids, add, remove) \<in> {(''Spec.SubnetIDs'', veSubnetIDs, mveAddSubnetIds, mveRemoveSubnetIds),
      (''Spec.RouteTableIDs'', veRouteTableIDs, mveAddRouteTableIds, mveRemoveRouteTableIds)}"
    and "DifferentAt R d path" "\<not> DifferentAt R d ''Spec.Tags''"
    and "\<not> (DifferentAt R d ''Spec.DNSOptions'' \<and> VPCEndpointType (veSpec latest) = Some ''ServiceNetwork'')"
  shows "\<exists>input e t. customUpdateVPCEndpoint api R desired latest d s = (Ret (if e = None then Some desired else None, e), t)
    \<and> calls t = calls s @ [EndpointCall (ModifyVpcEndpoint input)] \<and> mveVpcEndpointId input = VPCEndpointID (veStatus latest)
    \<and> distinct (add input) \<and> distinct (remove input) \<and> set (add input) \<inter> set (remove input) = {}
    \<and> (safeString ` set (ids (veSpec latest)) - set (remove input)) \<union> set (add input) = safeString ` set (ids (veSpec desired))
    \<and> (\<forall>latest' d'. safeString ` set (ids (veSpec latest')) = safeString ` set (ids (veSpec desired))
        \<longrightarrow> add (modifyEndpointInput R desired latest' d') = [] \<and> remove (modifyEndpointInput R desired latest' d') = [])"
proof -
  let ?input = "modifyEndpointInput R desired latest d" and ?names = "\<lambda>k. map safeString (ids (veSpec k))"
  let ?e = "onModifyVpcEndpoint api s ?input"
  let ?t = "s @ [Call (EndpointCall (ModifyVpcEndpoint ?input)), Metric ''UPDATE'' ''ModifyVpcEndpoint'' ?e]"
  have input: "(add (modifyEndpointInput R desired k d'), remove (modifyEndpointInput R desired k d')) =
      (if DifferentAt R d' path then calculateSubnetDifferences R (?names desired) (?names k) else ([], []))" for k d'
    using assms(2) unfolding insert_iff empty_iff prod.inject
    by (elim disjE conjE FalseE; simp only: modifyEndpointInput_def Let_def runtime_simps(5) [OF assms(1)] modify_endpoint_input.simps prod.collapse)
  note diff = endpoint_difference [OF assms(1), of "add ?input" "remove ?input" "?names desired" "?names latest"]
  have eq: "(add ?input, remove ?input) = calculateSubnetDifferences R (?names desired) (?names latest)"
    using input [of latest d] assms(3) by simp
  have idle: "add (modifyEndpointInput R desired k d') = [] \<and> remove (modifyEndpointInput R desired k d') = []"
    if "safeString ` set (ids (veSpec k)) = safeString ` set (ids (veSpec desired))" for k d'
    using input [of k d'] diff(5) [OF eq, of "?names k"] that by (simp split: if_splits)
  have "DifferentExceptAt R d [''Spec.Tags'']"
    using assms(3,4) unfolding runtime_simps(1,2) [OF assms(1)] by auto
  then have run: "customUpdateVPCEndpoint api R desired latest d s = (Ret (if ?e = None then Some desired else None, ?e), ?t)"
    using assms(4,5) by (cases ?e) (simp_all add: customUpdateVPCEndpoint_def)
  have calls: "calls ?t = calls s @ [EndpointCall (ModifyVpcEndpoint ?input)]" by simp
  have i: "mveVpcEndpointId ?input = VPCEndpointID (veStatus latest)" by (simp add: modifyEndpointInput_def Let_def)
  show ?thesis
    by (intro exI [of _ ?input] exI [of _ ?e] exI [of _ ?t] conjI allI impI; (rule run calls i diff(1-3) [OF eq] idle [THEN conjunct1] idle [THEN conjunct2] | assumption)?)
      (use diff(4) [OF eq] in simp)
qed

lemma paths_compareSpecs_Endpoint:
  assumes "q \<in> set (compareSpecs_Endpoint C eq a b)"
  shows "q \<in> set (dnsDiff C (veDNSOptions a) (veDNSOptions b)) \<or> q \<in> {''Spec.IPAddressType'', ''Spec.PolicyDocument'', ''Spec.PrivateDNSEnabled'',
    ''Spec.RouteTableIDs'', ''Spec.RouteTableRefs'', ''Spec.SecurityGroupIDs'', ''Spec.SecurityGroupRefs'', ''Spec.ServiceName'',
    ''Spec.ServiceNetworkARN'', ''Spec.ServiceRef'', ''Spec.ServiceRegion'', ''Spec.SubnetIDs'', ''Spec.SubnetRefs'', ''Spec.Tags'',
    ''Spec.VPCEndpointType'', ''Spec.VPCID'', ''Spec.VPCRef''}"
  using assms unfolding compareSpecs_Endpoint_def Let_def cmpStrs_def mem_compare mem_comparePolicy mem_compareDnsOptions
  by (elim disjE conjE; simp)

lemma same_tags_Endpoint:
  assumes "runtime_law R" "compareTags C ''Spec.Tags'' (veTags a) (veTags b) [] = []"
  shows "\<not> DifferentAt R (compareSpecs_Endpoint C eq a b) ''Spec.Tags''"
proof -
  have no: "\<not> liesAt ''Spec.Tags'' q" if "q \<in> set (dnsDiff C u v)" for q u v
  proof
    assume "liesAt ''Spec.Tags'' q"
    from liesAt_related [OF this paths_dnsDiff [OF that]] show False by simp
  qed
  then have "''Spec.Tags'' \<notin> set (dnsDiff C u v)" for u v by (auto simp: liesAt_def)
  then have "''Spec.Tags'' \<notin> set (compareSpecs_Endpoint C eq a b)"
    unfolding compareSpecs_Endpoint_def Let_def cmpStrs_def mem_compare mem_comparePolicy mem_compareDnsOptions by (simp add: assms(2))
  then have "\<not> liesAt ''Spec.Tags'' q" if "q \<in> set (compareSpecs_Endpoint C eq a b)" for q
    using paths_compareSpecs_Endpoint [OF that] that no by (auto simp: liesAt_def)
  then show ?thesis unfolding runtime_simps(1) [OF assms(1)] by blast
qed

text \<open>
  A DNS preference that is set for the first time is not sent. When the endpoint has no DNS options
  and the spec asks for some, the difference is that of the whole options; the modification carries
  options without the preference and without the domains, and its success is the success of the update.
\<close>

theorem first_dns_preference_not_sent:
  assumes "runtime_law R" "HasNilDifference C (IStruct (Some ())) (IStruct None)"
    and "veDNSOptions (veSpec desired) = Some o'" "veDNSOptions (veSpec latest) = None"
    and "d = compareSpecs_Endpoint C samePolicy (veSpec desired) (veSpec latest)" "\<not> DifferentAt R d ''Spec.Tags''"
    and "VPCEndpointType (veSpec latest) \<noteq> Some ''ServiceNetwork''" "\<And>t j. onModifyVpcEndpoint api t j = None"
  shows "\<exists>input t. customUpdateVPCEndpoint api R desired latest d s = (Ret (Some desired, None), t)
    \<and> calls t = calls s @ [EndpointCall (ModifyVpcEndpoint input)]
    \<and> mveDnsOptions input = Some \<lparr>sdkEdDnsRecordIpType = safeString (DNSRecordIPType o'), sdkEdPrivateDnsPreference = None,
        sdkEdPrivateDnsSpecifiedDomains = []\<rparr>"
proof -
  have dns: "dnsDiff C (Some o') None = [''Spec.DNSOptions'']"
    using assms(2) by (simp add: dnsDiff_def compareStruct_def addDiff_def)
  have only: "q = ''Spec.DNSOptions''" if "q \<in> set d" "liesAt ''Spec.DNSOptions'' q" for q
    using paths_compareSpecs_Endpoint [OF that(1) [unfolded assms(5)]] that(2)
    unfolding assms(3,4) dns by (auto simp: liesAt_def)
  have "''Spec.DNSOptions'' \<in> set d"
    unfolding assms(5) compareSpecs_Endpoint_def Let_def cmpStrs_def mem_compare mem_comparePolicy mem_compareDnsOptions assms(3,4) dns
    by simp
  then have "DifferentAt R d ''Spec.DNSOptions''" "DifferentExceptAt R d [''Spec.Tags'']"
    unfolding runtime_simps(1,2) [OF assms(1)] by (auto simp: liesAt_def intro!: bexI [of _ "''Spec.DNSOptions''"])
  moreover have "\<not> DifferentAt R d (''Spec.DNSOptions.'' @ f)" for f
  proof
    assume "DifferentAt R d (''Spec.DNSOptions.'' @ f)"
    then obtain q where q: "q \<in> set d" "liesAt (''Spec.DNSOptions.'' @ f) q" unfolding runtime_simps(1) [OF assms(1)] by blast
    from q(2) have "liesAt ''Spec.DNSOptions'' q" "q \<noteq> ''Spec.DNSOptions''" by (auto simp: liesAt_def prefix_def)
    with q(1) only show False by blast
  qed
  from this [of "''PrivateDNSPreference''"] this [of "''PrivateDNSSpecifiedDomains''"]
  have "\<not> DifferentAt R d ''Spec.DNSOptions.PrivateDNSPreference''" "\<not> DifferentAt R d ''Spec.DNSOptions.PrivateDNSSpecifiedDomains''"
    by simp_all
  ultimately have "mveDnsOptions (modifyEndpointInput R desired latest d) = Some \<lparr>sdkEdDnsRecordIpType = safeString (DNSRecordIPType o'),
      sdkEdPrivateDnsPreference = None, sdkEdPrivateDnsSpecifiedDomains = []\<rparr>"
    "customUpdateVPCEndpoint api R desired latest d s = (Ret (Some desired, None),
       s @ [Call (EndpointCall (ModifyVpcEndpoint (modifyEndpointInput R desired latest d))), Metric ''UPDATE'' ''ModifyVpcEndpoint'' None])"
    using assms(3,6-8) by (simp_all add: modifyEndpointInput_def modifyDnsOptions_def customUpdateVPCEndpoint_def Let_def)
  then show ?thesis by auto
qed

text \<open>
  The DNS options of a service network endpoint are refused before anything is changed. The update
  makes no call, not even for the tags, and the resource becomes terminal.
\<close>

theorem service_network_options_refused:
  assumes "AWSError_law env" "uniqueTypes (Conditions (veStatus latest))"
    and "DifferentAt R d ''Spec.DNSOptions''" "VPCEndpointType (veSpec latest) = Some ''ServiceNetwork''"
  shows "\<exists>k. Update (veKind api R rm env) desired latest d s = (Ret (Some k, Some Terminal), s)"
proof -
  let ?K = "veKind api R rm env"
  have "updateOp ?K desired latest d s = (Ret (latest, Some latest, Some (dnsOptionsRefused R d)), s)"
    using assms(3,4) by (simp add: veKind_def customUpdateVPCEndpoint_def)
  moreover have "isTerminal terminalCodes_Endpoint (Some (dnsOptionsRefused R d))"
    by (simp add: isTerminal_def dnsOptionsRefused_def)
  moreover have "uniqueTypes (conditionsOp ?K latest)" using assms(2) by (simp add: veKind_def)
  ultimately show ?thesis
    using reporting_kind.finishOp_error [OF ve_reports [OF assms(1)], of api R rm latest "Some latest" "dnsOptionsRefused R d" s]
    by (auto simp: Update_def)
qed

subsection \<open>Witnesses\<close>

definition exampleEndpoint :: "string \<Rightarrow> dns_options option \<Rightarrow> string list \<Rightarrow> vpc_endpoint" where
  "exampleEndpoint ty o' subnets = \<lparr>veSpec = \<lparr>veDNSOptions = o', veIPAddressType = None, vePolicyDocument = None, vePrivateDNSEnabled = None,
       veRouteTableIDs = [], veRouteTableRefs = [], veSecurityGroupIDs = [Some ''sg-1''], veSecurityGroupRefs = [],
       veServiceName = Some ''com.amazonaws.us-west-2.s3'', veServiceNetworkARN = None, veServiceRef = None, veServiceRegion = None,
       veSubnetIDs = map Some subnets, veSubnetRefs = [], veTags = None, VPCEndpointType = Some ty, veVPCID = Some ''vpc-1'', veVPCRef = None\<rparr>,
     veStatus = \<lparr>ACKResourceMetadata = None, Conditions = [], veCreationTimestamp = None, veDNSEntries = None, veGroups = None,
       veLastError = None, veNetworkInterfaceIDs = [], veOwnerID = None, veRequesterManaged = None, veState = None, VPCEndpointID = Some ''vpce-1''\<rparr>\<rparr>"

definition exampleSdkEndpoint :: sdk_vpc_endpoint where
  "exampleSdkEndpoint = \<lparr>sdkVeCreationTimestamp = None, sdkVeDnsEntries = None, sdkVeDnsOptions = None,
     sdkVeGroups = Some [\<lparr>sdkGiGroupId = Some ''sg-2'', sdkGiGroupName = None\<rparr>], sdkVeIpAddressType = [], sdkVeLastError = None,
     sdkVeNetworkInterfaceIds = [], sdkVeOwnerId = None, sdkVePolicyDocument = None, sdkVePrivateDnsEnabled = None, sdkVeRequesterManaged = None,
     sdkVeRouteTableIds = [], sdkVeServiceName = None, sdkVeServiceNetworkArn = None, sdkVeServiceRegion = None, sdkVeState = ''available'',
     sdkVeSubnetIds = [], sdkVeTags = None, sdkVeVpcEndpointId = Some ''vpce-1'', sdkVeVpcEndpointType = ''Interface'', sdkVeVpcId = Some ''vpc-1''\<rparr>"

definition exampleEndpointApi :: endpoint_api where
  "exampleEndpointApi = \<lparr>onCreateTags = (\<lambda>_ _. None), onDeleteTags = (\<lambda>_ _. None), onDescribeVpcEndpoints = (\<lambda>_ _. Inr (Some [exampleSdkEndpoint])),
     onCreateVpcEndpoint = (\<lambda>_ _. Inr (Some (Some exampleSdkEndpoint))), onModifyVpcEndpoint = (\<lambda>_ _. None), onDeleteVpcEndpoints = (\<lambda>_ _. None)\<rparr>"

definition anyPolicy :: "string \<Rightarrow> string \<Rightarrow> error + bool" where
  "anyPolicy u v = Inr (u = v)"

lemma security_groups_never_change_witness:
  "\<exists>k t. sdkFind_Endpoint exampleEndpointApi exactRuntime exampleManager (exampleEndpoint ''Interface'' None []) [] = (Ret (Some k, None), t)
    \<and> mveAddSecurityGroupIds (modifyEndpointInput exactRuntime (exampleEndpoint ''Interface'' None []) k
        (compareSpecs_Endpoint exactComparisons anyPolicy (veSpec (exampleEndpoint ''Interface'' None [])) (veSpec k))) = []"
proof -
  obtain k t where f: "sdkFind_Endpoint exampleEndpointApi exactRuntime exampleManager (exampleEndpoint ''Interface'' None []) [] = (Ret (Some k, None), t)"
    by (simp add: sdkFind_Endpoint_def requiredFieldsMissing_Endpoint_def newListRequestPayload_Endpoint_def readMany_simps
        exampleEndpoint_def exampleEndpointApi_def Let_def)
  from security_groups_never_change [OF exactRuntime_law exactComparisons_law f refl] f show ?thesis by blast
qed

lemma subnet_modification_converges_witness:
  "\<exists>input e t. customUpdateVPCEndpoint exampleEndpointApi exactRuntime (exampleEndpoint ''Interface'' None [''subnet-1'', ''subnet-2''])
      (exampleEndpoint ''Interface'' None [''subnet-2'', ''subnet-3'']) [''Spec.SubnetIDs''] []
        = (Ret (if e = None then Some (exampleEndpoint ''Interface'' None [''subnet-1'', ''subnet-2'']) else None, e), t)
    \<and> calls t = [EndpointCall (ModifyVpcEndpoint input)]
    \<and> ({''subnet-2'', ''subnet-3''} - set (mveRemoveSubnetIds input)) \<union> set (mveAddSubnetIds input) = {''subnet-1'', ''subnet-2''}"
proof -
  let ?d = "exampleEndpoint ''Interface'' None [''subnet-1'', ''subnet-2'']" and ?l = "exampleEndpoint ''Interface'' None [''subnet-2'', ''subnet-3'']"
  have h: "DifferentAt exactRuntime [''Spec.SubnetIDs''] ''Spec.SubnetIDs''" "\<not> DifferentAt exactRuntime [''Spec.SubnetIDs''] ''Spec.Tags''"
    "\<not> (DifferentAt exactRuntime [''Spec.SubnetIDs''] ''Spec.DNSOptions'' \<and> VPCEndpointType (veSpec ?l) = Some ''ServiceNetwork'')"
    by (simp_all add: exactRuntime_def liesAt_def)
  have ids: "safeString ` set (veSubnetIDs (veSpec ?d)) = {''subnet-1'', ''subnet-2''}"
    "safeString ` set (veSubnetIDs (veSpec ?l)) = {''subnet-2'', ''subnet-3''}" by (simp_all add: exampleEndpoint_def)
  from subnet_modification_converges [OF exactRuntime_law insertI1 h, of exampleEndpointApi ?d "[]", unfolded ids] show ?thesis
    by (elim exE conjE) (intro exI conjI; (assumption | simp only: calls.simps append_Nil))
qed

definition exampleDns :: dns_options where
  "exampleDns = \<lparr>DNSRecordIPType = None, PrivateDNSPreference = Some ''VERIFIED_DOMAINS_ONLY'', PrivateDNSSpecifiedDomains = []\<rparr>"

lemma first_dns_preference_not_sent_witness:
  "\<exists>input t. customUpdateVPCEndpoint exampleEndpointApi exactRuntime
      (exampleEndpoint ''Interface'' (Some exampleDns) [])
      (exampleEndpoint ''Interface'' None [])
      (compareSpecs_Endpoint exactComparisons anyPolicy
        (veSpec (exampleEndpoint ''Interface'' (Some exampleDns) []))
        (veSpec (exampleEndpoint ''Interface'' None []))) [] = (Ret (Some
      (exampleEndpoint ''Interface'' (Some exampleDns) []),
      None), t)
    \<and> calls t = [EndpointCall (ModifyVpcEndpoint input)]
    \<and> mveDnsOptions input = Some \<lparr>sdkEdDnsRecordIpType = [], sdkEdPrivateDnsPreference = None, sdkEdPrivateDnsSpecifiedDomains = []\<rparr>"
proof -
  let ?d = "exampleEndpoint ''Interface'' (Some exampleDns) []" and ?l = "exampleEndpoint ''Interface'' None []"
  have h: "HasNilDifference exactComparisons (IStruct (Some ())) (IStruct None)" "veDNSOptions (veSpec ?d) = Some exampleDns"
    "veDNSOptions (veSpec ?l) = None" "VPCEndpointType (veSpec ?l) \<noteq> Some ''ServiceNetwork''"
    "onModifyVpcEndpoint exampleEndpointApi t j = None" for t j
    by (simp_all add: exampleEndpoint_def exactComparisons_def nilDiff_def isNilIface_def exampleEndpointApi_def)
  have tags: "\<not> DifferentAt exactRuntime (compareSpecs_Endpoint exactComparisons anyPolicy (veSpec ?d) (veSpec ?l)) ''Spec.Tags''"
    by (rule same_tags_Endpoint [OF exactRuntime_law]) (simp add: exampleEndpoint_def compare_same [OF exactComparisons_law])
  from first_dns_preference_not_sent [where s = "[]", OF exactRuntime_law h(1-3) refl tags h(4,5)]
  show ?thesis by (simp add: exampleDns_def)
qed

lemma service_network_options_refused_witness:
  "\<exists>k. Update (veKind exampleEndpointApi exactRuntime exampleManager plainTexts) (exampleEndpoint ''ServiceNetwork'' None [])
      (exampleEndpoint ''ServiceNetwork'' None []) [''Spec.DNSOptions'', ''Spec.Tags''] [] = (Ret (Some k, Some Terminal), [])"
  by (rule service_network_options_refused [OF plainTexts_law])
    (simp_all add: exampleEndpoint_def uniqueTypes_def exactRuntime_def liesAt_def)

end
