(* ===== verification/EndpointService.thy ===== *)
theory EndpointService
  imports Runtime
begin

text \<open>
  The controller of VPC endpoint services
  (\<open>pkg/resource/vpc_endpoint_service_configuration/hooks.go\<close>, \<open>sdk.go\<close>, \<open>delta.go\<close>, \<open>manager.go\<close>).
  Names that another kind uses too carry the suffix \<open>_Service\<close>.
\<close>

subsection \<open>Data\<close>

record dns_name_configuration =
  dnName :: "string option"
  dnState :: "string option"
  dnType :: "string option"
  dnValue :: "string option"

text \<open>Whether the slice of regions is nil matters, so it is kept as one; a detail of the service type is a struct with one field.\<close>

record endpoint_service_spec =
  esAcceptanceRequired :: "bool option"
  esAllowedPrincipals :: "string option list"
  esGatewayLoadBalancerARNs :: "string option list"
  esGatewayLoadBalancerRefs :: "ref_wrapper option list"
  esNetworkLoadBalancerARNs :: "string option list"
  esNetworkLoadBalancerRefs :: "ref_wrapper option list"
  esPrivateDNSName :: "string option"
  esSupportedIPAddressTypes :: "string option list"
  esSupportedRegions :: "string option slice"
  esTags :: "tag list option"

record endpoint_service_status = common_status +
  esAvailabilityZones :: "string option list"
  esBaseEndpointDNSNames :: "string option list"
  esManagesVPCEndpoints :: "bool option"
  esPayerResponsibility :: "string option"
  esPrivateDNSNameConfiguration :: "dns_name_configuration option"
  esServiceID :: "string option"
  esServiceName :: "string option"
  esServiceState :: "string option"
  esServiceType :: "string option list option"

record endpoint_service =
  esSpec :: endpoint_service_spec
  esStatus :: endpoint_service_status

text \<open>The permissions are answered as the list of principals; the deletion as the unsuccessful items, \<open>None\<close> a nil answer.\<close>

record service_api = tags_api +
  onDescribeServices :: "call log \<Rightarrow> string list \<Rightarrow> error + sdk_service_configuration list option"
  onCreateService :: "call log \<Rightarrow> create_service_input \<Rightarrow> error + sdk_service_configuration option option"
  onModifyService :: "call log \<Rightarrow> modify_service_input \<Rightarrow> error option"
  onDeleteServices :: "call log \<Rightarrow> string list \<Rightarrow> error + sdk_unsuccessful_item list option"
  onModifyPermissions :: "call log \<Rightarrow> modify_permissions_input \<Rightarrow> error option"
  onDescribePermissions :: "call log \<Rightarrow> string option \<Rightarrow> error + string option list option"

subsection \<open>Reading\<close>

definition dnsNameFromSdk :: "sdk_dns_name_configuration \<Rightarrow> dns_name_configuration" where
  "dnsNameFromSdk x = \<lparr>dnName = sdkDnName x, dnState = enumPtr (sdkDnState x), dnType = sdkDnType x, dnValue = sdkDnValue x\<rparr>"

text \<open>Regions without a state, and those that are going away, are dropped before the answer is looked at.\<close>

definition isActiveRegion :: "sdk_supported_region \<Rightarrow> bool" where
  "isActiveRegion r =
     (case sdkSrServiceState r of None \<Rightarrow> False
      | Some st \<Rightarrow> st \<noteq> ''Deleting'' \<and> st \<noteq> ''Deleted'' \<and> st \<noteq> ''Failed'' \<and> st \<noteq> ''Closed'')"

definition activeRegions :: "sdk_service_configuration \<Rightarrow> sdk_service_configuration" where
  "activeRegions x = x\<lparr>sdkScSupportedRegions := Some (filter isActiveRegion (elems (sdkScSupportedRegions x)))\<rparr>"

definition readSpec_Service :: "('y) ack_runtime_scheme \<Rightarrow> sdk_service_configuration \<Rightarrow> endpoint_service_spec \<Rightarrow> endpoint_service_spec" where
  "readSpec_Service R x sp =
     sp\<lparr>esAcceptanceRequired := sdkScAcceptanceRequired x, esGatewayLoadBalancerARNs := fromStrings R (sdkScGatewayLoadBalancerArns x),
        esNetworkLoadBalancerARNs := fromStrings R (sdkScNetworkLoadBalancerArns x), esPrivateDNSName := sdkScPrivateDnsName x,
        esSupportedIPAddressTypes := map Some (sdkScSupportedIpAddressTypes x),
        esSupportedRegions := map_option (map sdkSrRegion) (sdkScSupportedRegions x), esTags := map_option resourceTags (sdkScTags x)\<rparr>"

definition readStatus_Service ::
  "('y) ack_runtime_scheme \<Rightarrow> sdk_service_configuration \<Rightarrow> endpoint_service_status \<Rightarrow> endpoint_service_status" where
  "readStatus_Service R x st =
     st\<lparr>esAvailabilityZones := fromStrings R (sdkScAvailabilityZones x), esBaseEndpointDNSNames := fromStrings R (sdkScBaseEndpointDnsNames x),
        esManagesVPCEndpoints := sdkScManagesVpcEndpoints x, esPayerResponsibility := enumPtr (sdkScPayerResponsibility x),
        esPrivateDNSNameConfiguration := map_option dnsNameFromSdk (sdkScPrivateDnsNameConfiguration x), esServiceID := sdkScServiceId x,
        esServiceName := sdkScServiceName x, esServiceState := enumPtr (sdkScServiceState x),
        esServiceType := map_option (map enumPtr) (sdkScServiceType x)\<rparr>"

definition setFrom_Service :: "('y) ack_runtime_scheme \<Rightarrow> endpoint_service \<Rightarrow> sdk_service_configuration \<Rightarrow> endpoint_service" where
  "setFrom_Service R k x = \<lparr>esSpec = readSpec_Service R x (esSpec k), esStatus = readStatus_Service R x (esStatus k)\<rparr>"

definition defaults_Service :: "resource_manager \<Rightarrow> endpoint_service \<Rightarrow> endpoint_service" where
  "defaults_Service rm k = k\<lparr>esStatus := setStatusDefaults rm (esStatus k)\<rparr>"

text \<open>
  \<open>setAdditionalFields\<close> writes the principals into the resource it is given, and returns an error
  beside it.
\<close>

definition setAdditionalFields ::
  "'x service_api_scheme \<Rightarrow> error_texts \<Rightarrow> endpoint_service \<Rightarrow> (endpoint_service \<times> error option) act" where
  "setAdditionalFields api env k =
     bind (invoke (\<lambda>i. ServiceCall (DescribeVpcEndpointServicePermissions i)) (onDescribePermissions api) (esServiceID (esStatus k))) (\<lambda>r.
     bind (recordAPICall ''READ_MANY'' ''DescribeVpcEndpointServicePermissions'' (errOf r)) (\<lambda>_.
     case r of
       Inl e \<Rightarrow> ret (k, Some (case AWSError env e of
                   Some a \<Rightarrow> if errorCode a = Some ''UNKNOWN'' then NotFound else e
                 | None \<Rightarrow> e))
     | Inr out \<Rightarrow> bind (deref out) (\<lambda>ps.
         ret (k\<lparr>esSpec := (esSpec k)\<lparr>esAllowedPrincipals := filter (\<lambda>p. p \<noteq> None) ps\<rparr>\<rparr>, None))))"

definition checkForMissingRequiredFields_Service :: "endpoint_service \<Rightarrow> bool" where
  "checkForMissingRequiredFields_Service r \<longleftrightarrow> esServiceID (esStatus r) = None"

definition listInput_Service :: "endpoint_service \<Rightarrow> string list" where
  "listInput_Service r = (case esServiceID (esStatus r) of None \<Rightarrow> [] | Some i \<Rightarrow> [i])"

text \<open>
  A configuration with the identifier of another service is skipped (what the loop wrote before it
  skipped is written again by the next one). The error of \<open>setAdditionalFields\<close> is dropped.
\<close>

definition sameService :: "endpoint_service \<Rightarrow> sdk_service_configuration \<Rightarrow> bool" where
  "sameService r x \<longleftrightarrow> sdkScServiceId x = None \<or> esServiceID (esStatus r) = None \<or> sdkScServiceId x = esServiceID (esStatus r)"

definition sdkFind_Service ::
  "'x service_api_scheme \<Rightarrow> ('y) ack_runtime_scheme \<Rightarrow> resource_manager \<Rightarrow> error_texts \<Rightarrow> endpoint_service
   \<Rightarrow> (endpoint_service option \<times> error option) act" where
  "sdkFind_Service api R rm env r =
     readPicked (checkForMissingRequiredFields_Service r) (\<lambda>i. ServiceCall (DescribeVpcEndpointServiceConfigurations i)) (onDescribeServices api)
       ''DescribeVpcEndpointServiceConfigurations'' (listInput_Service r) (sameService r) (\<lambda>elem.
         bind (setAdditionalFields api env (defaults_Service rm (setFrom_Service R r (activeRegions elem)))) (\<lambda>(ko, _).
         ret (Some ko, None)))"

subsection \<open>Creating and deleting\<close>

definition notSynced_Service :: "('y) ack_runtime_scheme \<Rightarrow> string option \<Rightarrow> endpoint_service \<Rightarrow> endpoint_service" where
  "notSynced_Service R message k =
     k\<lparr>esStatus := (esStatus k)\<lparr>Conditions := SetSynced R ConditionFalse message None (Conditions (esStatus k))\<rparr>\<rparr>"

definition newCreateRequestPayload_Service :: "('y) ack_runtime_scheme \<Rightarrow> endpoint_service \<Rightarrow> create_service_input" where
  "newCreateRequestPayload_Service R r =
     (let sp = esSpec r in
      \<lparr>cscAcceptanceRequired = esAcceptanceRequired sp, cscGatewayLoadBalancerArns = toStrings R (esGatewayLoadBalancerARNs sp),
       cscNetworkLoadBalancerArns = toStrings R (esNetworkLoadBalancerARNs sp), cscPrivateDnsName = esPrivateDNSName sp,
       cscSupportedIpAddressTypes = toStrings R (esSupportedIPAddressTypes sp), cscSupportedRegions = toStrings R (elems (esSupportedRegions sp)),
       cscTagSpecifications = None\<rparr>)"

definition updateTagSpecifications_Service :: "endpoint_service \<Rightarrow> create_service_input \<Rightarrow> create_service_input" where
  "updateTagSpecifications_Service r input = input\<lparr>cscTagSpecifications := tagSpecificationsFor ''vpc-endpoint-service'' (esTags (esSpec r))\<rparr>"

definition sdkCreate_Service ::
  "'x service_api_scheme \<Rightarrow> ('y) ack_runtime_scheme \<Rightarrow> resource_manager \<Rightarrow> endpoint_service \<Rightarrow> (endpoint_service option \<times> error option) act" where
  "sdkCreate_Service api R rm desired =
     createOne (\<lambda>i. ServiceCall (CreateVpcEndpointServiceConfiguration i)) (onCreateService api) ''CreateVpcEndpointServiceConfiguration''
       (updateTagSpecifications_Service desired (newCreateRequestPayload_Service R desired))
       (\<lambda>resp. ret (Some (notSynced_Service R (Some ''Reconciling to sync additional fields'')
                        (defaults_Service rm (setFrom_Service R desired resp))), None))"

definition addIDToDeleteRequest_Service :: "endpoint_service \<Rightarrow> error + string list" where
  "addIDToDeleteRequest_Service r =
     (case esServiceID (esStatus r) of
        None \<Rightarrow> Inl (GoError ''unable to extract ServiceID from resource'')
      | Some i \<Rightarrow> Inr [i])"

definition unsuccessfulDeletion :: "sdk_unsuccessful_item \<Rightarrow> error" where
  "unsuccessfulDeletion x =
     GoError (''failed to delete VPC Endpoint Service Configuration'' @
       (case sdkUiError x of None \<Rightarrow> []
        | Some e \<Rightarrow> (case sdkLeMessage e of None \<Rightarrow> [] | Some m \<Rightarrow> '': '' @ m)))"

definition sdkDelete_Service :: "'x service_api_scheme \<Rightarrow> endpoint_service \<Rightarrow> (endpoint_service option \<times> error option) act" where
  "sdkDelete_Service api r =
     (case addIDToDeleteRequest_Service r of
        Inl _ \<Rightarrow> ret (None, Some NotFound)
      | Inr input \<Rightarrow>
          bind (invoke (\<lambda>i. ServiceCall (DeleteVpcEndpointServiceConfigurations i)) (onDeleteServices api) input) (\<lambda>resp.
          bind (recordAPICall ''DELETE'' ''DeleteVpcEndpointServiceConfigurations'' (errOf resp)) (\<lambda>_.
          case resp of
            Inl e \<Rightarrow> ret (None, Some e)
          | Inr None \<Rightarrow> ret (None, None)
          | Inr (Some items) \<Rightarrow> (case items of [] \<Rightarrow> ret (None, None) | x # _ \<Rightarrow> ret (None, Some (unsuccessfulDeletion x))))))"

subsection \<open>Updating\<close>

text \<open>The elements of one list of string pointers that are not in another; a nil element is a panic.\<close>

definition notAmong :: "('y) ack_runtime_scheme \<Rightarrow> string option list \<Rightarrow> string option list \<Rightarrow> string list act" where
  "notAmong R ps qs = bind (mapAct deref ps) (\<lambda>xs. ret (filter (\<lambda>x. \<not> InStringPs R x qs) xs))"

definition modifyAllowedPrincipals ::
  "'x service_api_scheme \<Rightarrow> endpoint_service \<Rightarrow> string list \<Rightarrow> string list \<Rightarrow> error option act" where
  "modifyAllowedPrincipals api latest toAdd toDelete =
     callRecord (\<lambda>i. ServiceCall (ModifyVpcEndpointServicePermissions i)) (onModifyPermissions api) ''UPDATE'' ''ModifyVpcEndpointServicePermissions''
       \<lparr>mspServiceId = esServiceID (esStatus latest), mspAddAllowedPrincipals = toAdd, mspRemoveAllowedPrincipals = toDelete\<rparr>"

definition syncAllowedPrincipals ::
  "'x service_api_scheme \<Rightarrow> ('y) ack_runtime_scheme \<Rightarrow> endpoint_service \<Rightarrow> endpoint_service \<Rightarrow> error option act" where
  "syncAllowedPrincipals api R desired latest =
     bind (notAmong R (esAllowedPrincipals (esSpec desired)) (esAllowedPrincipals (esSpec latest))) (\<lambda>toAdd.
     bind (notAmong R (esAllowedPrincipals (esSpec latest)) (esAllowedPrincipals (esSpec desired))) (\<lambda>toDelete.
     modifyAllowedPrincipals api latest toAdd toDelete))"

abbreviation modifyService :: "'x service_api_scheme \<Rightarrow> modify_service_input \<Rightarrow> error option act" where
  "modifyService api \<equiv> callRecord (\<lambda>i. ServiceCall (ModifyVpcEndpointServiceConfiguration i)) (onModifyService api)
     ''UPDATE'' ''ModifyVpcEndpointServiceConfiguration''"

definition syncSupportedRegions ::
  "'x service_api_scheme \<Rightarrow> ('y) ack_runtime_scheme \<Rightarrow> endpoint_service \<Rightarrow> endpoint_service \<Rightarrow> error option act" where
  "syncSupportedRegions api R desired latest =
     bind (notAmong R (elems (esSupportedRegions (esSpec desired))) (elems (esSupportedRegions (esSpec latest)))) (\<lambda>toAdd.
     bind (notAmong R (elems (esSupportedRegions (esSpec latest))) (elems (esSupportedRegions (esSpec desired)))) (\<lambda>toRemove.
     if length toAdd = 0 \<and> length toRemove = 0 then ret None
     else modifyService api \<lparr>mscServiceId = esServiceID (esStatus latest), mscAcceptanceRequired = None, mscPrivateDnsName = None,
            mscAddSupportedRegions = toAdd, mscRemoveSupportedRegions = toRemove\<rparr>))"

definition newUpdateRequestPayload_Service :: "endpoint_service \<Rightarrow> modify_service_input" where
  "newUpdateRequestPayload_Service r =
     \<lparr>mscServiceId = esServiceID (esStatus r), mscAcceptanceRequired = esAcceptanceRequired (esSpec r), mscPrivateDnsName = esPrivateDNSName (esSpec r),
      mscAddSupportedRegions = [], mscRemoveSupportedRegions = []\<rparr>"

definition requeueWaitNotAvailable :: error where
  "requeueWaitNotAvailable = RequeueNeededAfter (Some (GoError ''VPCEndpointService is not in Available state yet, requeuing'')) 5"

definition sdkUpdate_Service ::
  "'x service_api_scheme \<Rightarrow> ('y) ack_runtime_scheme \<Rightarrow> resource_manager \<Rightarrow> endpoint_service \<Rightarrow> endpoint_service \<Rightarrow> delta
   \<Rightarrow> (endpoint_service option \<times> error option) act" where
  "sdkUpdate_Service api R rm desired latest d =
     bind (deref (esServiceState (esStatus latest))) (\<lambda>state.
     if state \<noteq> ''Available'' then ret (Some desired, Some requeueWaitNotAvailable)
     else
       syncTagsIf api (DifferentAt R d ''Spec.Tags'') (esServiceID (esStatus latest)) (esTags (esSpec desired)) (esTags (esSpec latest))
      (bind (if DifferentAt R d ''Spec.AllowedPrincipals'' then syncAllowedPrincipals api R desired latest else ret None) (\<lambda>err.
       ifErr err (\<lambda>e. ret (Some (notSynced_Service R None desired), Some e))
      (bind (if DifferentAt R d ''Spec.SupportedRegions'' then syncSupportedRegions api R desired latest else ret None) (\<lambda>err.
       ifErr err (\<lambda>e. ret (Some (notSynced_Service R None desired), Some e))
      (if \<not> DifferentExceptAt R d [''Spec.Tags'', ''Spec.AllowedPrincipals'', ''Spec.SupportedRegions''] then ret (Some desired, None)
       else
         bind (modifyService api (newUpdateRequestPayload_Service desired)) (\<lambda>err.
         ifErr err (\<lambda>e. ret (None, Some e))
        (ret (Some (defaults_Service rm desired), None)))))))))"

subsection \<open>Comparing\<close>

text \<open>
  The regions are compared by hand: \<open>sliceNil\<close> is \<open>HasNilDifference\<close> on two slices. The loop stops
  at the first region that the other side lacks.
\<close>

fun allAmong :: "('y) ack_runtime_scheme \<Rightarrow> string option list \<Rightarrow> string option list \<Rightarrow> bool act" where
  "allAmong R [] qs = ret True"
| "allAmong R (p # ps) qs = bind (deref p) (\<lambda>x. if \<not> InStringPs R x qs then ret False else allAmong R ps qs)"

definition customPreCompare_Service ::
  "('y) ack_runtime_scheme \<Rightarrow> (string option slice \<Rightarrow> string option slice \<Rightarrow> bool) \<Rightarrow> endpoint_service_spec \<Rightarrow> endpoint_service_spec
   \<Rightarrow> delta act" where
  "customPreCompare_Service R sliceNil a b =
     (let desired = esSupportedRegions a; latest = esSupportedRegions b in
      if sliceNil desired latest \<or> length (elems desired) \<noteq> length (elems latest) then ret (addDiff ''Spec.SupportedRegions'' [])
      else bind (allAmong R (elems desired) (elems latest)) (\<lambda>same. ret (if same then [] else addDiff ''Spec.SupportedRegions'' [])))"

definition compareSpecs_Service ::
  "('x) ackcompare_scheme \<Rightarrow> endpoint_service_spec \<Rightarrow> endpoint_service_spec \<Rightarrow> delta \<Rightarrow> delta" where
  "compareSpecs_Service C a b d =
    (let d1 = cmpBool C ''Spec.AcceptanceRequired'' (esAcceptanceRequired a) (esAcceptanceRequired b) d;
         d2 = cmpStrs C ''Spec.AllowedPrincipals'' (esAllowedPrincipals a) (esAllowedPrincipals b) d1;
         d3 = cmpStrs C ''Spec.GatewayLoadBalancerARNs'' (esGatewayLoadBalancerARNs a) (esGatewayLoadBalancerARNs b) d2;
         d4 = compareRefs C ''Spec.GatewayLoadBalancerRefs'' (esGatewayLoadBalancerRefs a) (esGatewayLoadBalancerRefs b) d3;
         d5 = cmpStrs C ''Spec.NetworkLoadBalancerARNs'' (esNetworkLoadBalancerARNs a) (esNetworkLoadBalancerARNs b) d4;
         d6 = compareRefs C ''Spec.NetworkLoadBalancerRefs'' (esNetworkLoadBalancerRefs a) (esNetworkLoadBalancerRefs b) d5;
         d7 = cmpStr C ''Spec.PrivateDNSName'' (esPrivateDNSName a) (esPrivateDNSName b) d6;
         d8 = cmpStrs C ''Spec.SupportedIPAddressTypes'' (esSupportedIPAddressTypes a) (esSupportedIPAddressTypes b) d7
     in compareTags C ''Spec.Tags'' (esTags a) (esTags b) d8)"

definition newResourceDelta_Service ::
  "('y) ack_runtime_scheme \<Rightarrow> (string option slice \<Rightarrow> string option slice \<Rightarrow> bool) \<Rightarrow> ('x) ackcompare_scheme
   \<Rightarrow> endpoint_service option \<Rightarrow> endpoint_service option \<Rightarrow> delta act" where
  "newResourceDelta_Service R sliceNil C a b =
     (case (a, b) of
        (Some x, Some y) \<Rightarrow>
          bind (customPreCompare_Service R sliceNil (esSpec x) (esSpec y)) (\<lambda>d. ret (compareSpecs_Service C (esSpec x) (esSpec y) d))
      | (None, None) \<Rightarrow> panic
      | _ \<Rightarrow> ret (addDiff [] []))"

subsection \<open>The kind\<close>

definition IsSynced_Service :: "('y) ack_runtime_scheme \<Rightarrow> endpoint_service \<Rightarrow> bool" where
  "IsSynced_Service R k = syncedIn R [''Available''] (esServiceState (esStatus k))"

definition mirrorTags_Service :: "(acktags \<Rightarrow> acktags) \<Rightarrow> endpoint_service \<Rightarrow> endpoint_service option \<Rightarrow> endpoint_service" where
  "mirrorTags_Service iter a b =
     (case b of None \<Rightarrow> a
      | Some l \<Rightarrow> a\<lparr>esSpec := (esSpec a)\<lparr>esTags := mirrorAWSTags iter (esTags (esSpec a)) (esTags (esSpec l))\<rparr>\<rparr>)"

definition esKind ::
  "'x service_api_scheme \<Rightarrow> ('y) ack_runtime_scheme \<Rightarrow> resource_manager \<Rightarrow> error_texts \<Rightarrow> endpoint_service kind" where
  "esKind api R rm env =
     \<lparr>findOp = (\<lambda>r. bind (sdkFind_Service api R rm env r) (\<lambda>x. ret (r, x))),
      createOp = sdkCreate_Service api R rm,
      updateOp = (\<lambda>desired latest d. bind (sdkUpdate_Service api R rm desired latest d) (\<lambda>x. ret (latest, x))),
      deleteOp = sdkDelete_Service api,
      mirrorOp = mirrorTags_Service (rangeOf R),
      conditionsOp = (\<lambda>k. Conditions (esStatus k)),
      updateConditionsOp = conditionsUpdater env [] rm esStatus (\<lambda>st k. k\<lparr>esStatus := st\<rparr>)\<rparr>"

lemma es_reports: "AWSError_law env \<Longrightarrow> reporting_kind (esKind api R rm env) []"
  by (rule conditionsUpdater_reports [where get = esStatus and put = "\<lambda>st k. k\<lparr>esStatus := st\<rparr>"]) (simp_all add: esKind_def)

interpretation es_kind: reporting_kind "esKind api R rm plainTexts" "[]"
  for api :: "'x service_api_scheme" and R :: "('y) ack_runtime_scheme" and rm
  by (rule es_reports [OF plainTexts_law])

text \<open>The regions are initialised late, from the first read.\<close>

definition copyFields_Service :: "endpoint_service \<Rightarrow> endpoint_service \<Rightarrow> endpoint_service" where
  "copyFields_Service observed latest =
     (if esSupportedRegions (esSpec observed) \<noteq> None \<and> esSupportedRegions (esSpec latest) = None
      then latest\<lparr>esSpec := (esSpec latest)\<lparr>esSupportedRegions := esSupportedRegions (esSpec observed)\<rparr>\<rparr> else latest)"

definition LateInitialize_Service ::
  "'x service_api_scheme \<Rightarrow> ('y) ack_runtime_scheme \<Rightarrow> resource_manager \<Rightarrow> error_texts
   \<Rightarrow> (string \<Rightarrow> string option \<Rightarrow> string option \<Rightarrow> endpoint_service \<Rightarrow> endpoint_service) \<Rightarrow> endpoint_service
   \<Rightarrow> (endpoint_service \<times> error option) act" where
  "LateInitialize_Service api R rm env SetLateInitialized =
     LateInitialize (esKind api R rm env) SetLateInitialized
       (\<lambda>st m reason k. k\<lparr>esStatus := (esStatus k)\<lparr>Conditions := SetSynced R st m reason (Conditions (esStatus k))\<rparr>\<rparr>)
       copyFields_Service (\<lambda>_. False) [''SupportedRegions'']"

subsection \<open>Properties\<close>

lemma notAmong_run:
  assumes "runtime_law R"
  shows "notAmong R (map Some xs) (map Some ys) s = (Ret (filter (\<lambda>x. x \<notin> set ys) xs), s)"
proof -
  have "InStringPs R x (map Some ys) \<longleftrightarrow> x \<in> set ys" for x unfolding runtime_simps(3) [OF assms] by auto
  then show ?thesis by (simp add: notAmong_def mapAct_deref_Some)
qed

text \<open>
  A modification of the permissions leads to the desired principals. Whatever principals the
  latest resource has, one call is made; the principals it adds and removes have none in common, and
  applying them to the latest principals gives the desired ones as a set.
\<close>

theorem principals_modification_converges:
  assumes "runtime_law R" "esAllowedPrincipals (esSpec desired) = map Some ds" "esAllowedPrincipals (esSpec latest) = map Some ls"
  shows "\<exists>input. calls (snd (syncAllowedPrincipals api R desired latest s)) = calls s @ [ServiceCall (ModifyVpcEndpointServicePermissions input)]
    \<and> mspServiceId input = esServiceID (esStatus latest)
    \<and> (set ls - set (mspRemoveAllowedPrincipals input)) \<union> set (mspAddAllowedPrincipals input) = set ds
    \<and> set (mspAddAllowedPrincipals input) \<inter> set (mspRemoveAllowedPrincipals input) = {}"
proof (intro exI conjI)
  let ?input = "\<lparr>mspServiceId = esServiceID (esStatus latest), mspAddAllowedPrincipals = fst (missing ds ls),
    mspRemoveAllowedPrincipals = snd (missing ds ls)\<rparr>"
  show "calls (snd (syncAllowedPrincipals api R desired latest s)) = calls s @ [ServiceCall (ModifyVpcEndpointServicePermissions ?input)]"
    by (simp add: syncAllowedPrincipals_def assms(2,3) notAmong_run [OF assms(1)] modifyAllowedPrincipals_def missing_def)
  show "(set ls - set (mspRemoveAllowedPrincipals ?input)) \<union> set (mspAddAllowedPrincipals ?input) = set ds"
    using missing_diff.converges [of ls ds] by simp
  show "set (mspAddAllowedPrincipals ?input) \<inter> set (mspRemoveAllowedPrincipals ?input) = {}"
    using missing_diff.disjoint [of ds ls] by simp
qed simp

text \<open>
  Principals that could not be read look as if they were in place. When EC2 answers the service
  and refuses its permissions, the read reports no error and gives the principals of the resource it
  was asked for, so the comparison finds no difference in them.
\<close>

theorem unread_principals_look_synced:
  assumes "ackcompare_law C" "esServiceID (esStatus r) = Some i" "onDescribeServices api s [i] = Inr (Some (x # xs))" "sdkScServiceId x = Some i"
    and "\<And>t. onDescribePermissions api t (Some i) = Inl e"
  shows "\<exists>k t. sdkFind_Service api R rm env r s = (Ret (Some k, None), t)
    \<and> calls t = calls s @ [ServiceCall (DescribeVpcEndpointServiceConfigurations [i]), ServiceCall (DescribeVpcEndpointServicePermissions (Some i))]
    \<and> ''Spec.AllowedPrincipals'' \<notin> set (compareSpecs_Service C (esSpec r) (esSpec k) [])"
proof -
  let ?k = "defaults_Service rm (setFrom_Service R r (activeRegions x))"
  have same: "sameService r x" using assms(2,4) by (simp add: sameService_def)
  have id: "esServiceID (esStatus ?k) = Some i"
    using assms(4) by (simp add: defaults_Service_def setFrom_Service_def readStatus_Service_def setStatusDefaults_def Let_def activeRegions_def
        endpoint_service_status.defs)
  have "esAllowedPrincipals (esSpec ?k) = esAllowedPrincipals (esSpec r)"
    by (simp add: defaults_Service_def setFrom_Service_def readSpec_Service_def)
  then have "''Spec.AllowedPrincipals'' \<notin> set (compareSpecs_Service C (esSpec r) (esSpec ?k) [])"
    using compareRest_same(1) [OF assms(1)] unfolding compareSpecs_Service_def Let_def by (simp add: cmpStrs_def mem_compare)
  moreover have "\<exists>t. sdkFind_Service api R rm env r s = (Ret (Some ?k, None), t)
    \<and> calls t = calls s @ [ServiceCall (DescribeVpcEndpointServiceConfigurations [i]), ServiceCall (DescribeVpcEndpointServicePermissions (Some i))]"
    using assms(2,3,5) same id by (simp add: sdkFind_Service_def readPicked_def readMany_simps checkForMissingRequiredFields_Service_def
        listInput_Service_def setAdditionalFields_def)
  ultimately show ?thesis by blast
qed

text \<open>The service with other load balancers.\<close>

definition withBalancers :: "string option list \<Rightarrow> string option list \<Rightarrow> endpoint_service \<Rightarrow> endpoint_service" where
  "withBalancers ns gs k = k\<lparr>esSpec := (esSpec k)\<lparr>esNetworkLoadBalancerARNs := ns, esGatewayLoadBalancerARNs := gs\<rparr>\<rparr>"

text \<open>
  Load balancers are never modified. When only the load balancers of an available service differ,
  the update makes one call, which is the same whatever load balancers are asked for, and its success
  hands the desired spec back as done.
\<close>

theorem load_balancers_never_modified:
  assumes "runtime_law R" "esServiceState (esStatus latest) = Some ''Available''" "d \<noteq> []"
    and "set d \<subseteq> {''Spec.NetworkLoadBalancerARNs'', ''Spec.GatewayLoadBalancerARNs''}" "\<And>t j. onModifyService api t j = None"
  shows "\<exists>c. \<forall>ns gs. \<exists>k t. sdkUpdate_Service api R rm (withBalancers ns gs desired) latest d s = (Ret (Some k, None), t)
    \<and> calls t = calls s @ [c] \<and> esSpec k = esSpec (withBalancers ns gs desired)"
proof -
  have no: "\<not> DifferentAt R d p" if "p \<in> {''Spec.Tags'', ''Spec.AllowedPrincipals'', ''Spec.SupportedRegions''}" for p
    unfolding runtime_simps(1) [OF assms(1)] using assms(4) that by (auto simp: liesAt_def)
  moreover have "DifferentExceptAt R d [''Spec.Tags'', ''Spec.AllowedPrincipals'', ''Spec.SupportedRegions'']"
    unfolding runtime_simps(2) [OF assms(1)] using assms(3,4) by (cases d) (auto simp: liesAt_def)
  moreover have "newUpdateRequestPayload_Service (withBalancers ns gs desired) = newUpdateRequestPayload_Service desired" for ns gs
    by (simp add: newUpdateRequestPayload_Service_def withBalancers_def)
  ultimately have "sdkUpdate_Service api R rm (withBalancers ns gs desired) latest d s
      = (Ret (Some (defaults_Service rm (withBalancers ns gs desired)), None),
         s @ [Call (ServiceCall (ModifyVpcEndpointServiceConfiguration (newUpdateRequestPayload_Service desired))),
              Metric ''UPDATE'' ''ModifyVpcEndpointServiceConfiguration'' None])" for ns gs
    using assms(2,5) by (simp add: sdkUpdate_Service_def)
  then show ?thesis by (auto simp: defaults_Service_def)
qed

text \<open>
  A deletion that EC2 refuses is an error. When the call succeeds and names an item it could not
  delete, the deletion fails with the message of the first item.
\<close>

theorem refused_deletion_is_an_error:
  assumes "esServiceID (esStatus r) = Some i" "onDeleteServices api s [i] = Inr (Some items)"
  shows "fst (sdkDelete_Service api r s) = Ret (None, case items of [] \<Rightarrow> None | x # _ \<Rightarrow> Some (unsuccessfulDeletion x))"
  using assms by (simp add: sdkDelete_Service_def addIDToDeleteRequest_Service_def split: list.split)

subsection \<open>Witnesses\<close>

definition exampleService :: "string list \<Rightarrow> endpoint_service" where
  "exampleService ps = \<lparr>esSpec = \<lparr>esAcceptanceRequired = None, esAllowedPrincipals = map Some ps, esGatewayLoadBalancerARNs = [],
       esGatewayLoadBalancerRefs = [], esNetworkLoadBalancerARNs = [Some ''arn:nlb-1''], esNetworkLoadBalancerRefs = [], esPrivateDNSName = None,
       esSupportedIPAddressTypes = [], esSupportedRegions = None, esTags = None\<rparr>,
     esStatus = \<lparr>ACKResourceMetadata = None, Conditions = [], esAvailabilityZones = [], esBaseEndpointDNSNames = [], esManagesVPCEndpoints = None,
       esPayerResponsibility = None, esPrivateDNSNameConfiguration = None, esServiceID = Some ''vpce-svc-1'', esServiceName = None,
       esServiceState = Some ''Available'', esServiceType = None\<rparr>\<rparr>"

definition exampleSdkService :: sdk_service_configuration where
  "exampleSdkService = \<lparr>sdkScAcceptanceRequired = None, sdkScAvailabilityZones = [], sdkScBaseEndpointDnsNames = [], sdkScGatewayLoadBalancerArns = [],
     sdkScManagesVpcEndpoints = None, sdkScNetworkLoadBalancerArns = [''arn:nlb-1''], sdkScPayerResponsibility = [], sdkScPrivateDnsName = None,
     sdkScPrivateDnsNameConfiguration = None, sdkScServiceId = Some ''vpce-svc-1'', sdkScServiceName = None, sdkScServiceState = ''Available'',
     sdkScServiceType = None, sdkScSupportedIpAddressTypes = [],
     sdkScSupportedRegions = Some [\<lparr>sdkSrRegion = Some ''us-west-2'', sdkSrServiceState = Some ''Failed''\<rparr>], sdkScTags = None\<rparr>"

definition exampleServiceApi :: service_api where
  "exampleServiceApi = \<lparr>onCreateTags = (\<lambda>_ _. None), onDeleteTags = (\<lambda>_ _. None), onDescribeServices = (\<lambda>_ _. Inr (Some [exampleSdkService])),
     onCreateService = (\<lambda>_ _. Inr (Some (Some exampleSdkService))), onModifyService = (\<lambda>_ _. None),
     onDeleteServices = (\<lambda>_ _. Inr (Some [\<lparr>sdkUiError = Some \<lparr>sdkLeCode = None, sdkLeMessage = Some ''in use''\<rparr>, sdkUiResourceId = None\<rparr>])),
     onModifyPermissions = (\<lambda>_ _. None), onDescribePermissions = (\<lambda>_ _. Inl (APIError ''UnauthorizedOperation'' ''''))\<rparr>"

lemma principals_modification_converges_witness:
  "\<exists>input. calls (snd (syncAllowedPrincipals exampleServiceApi exactRuntime (exampleService [''arn:a'', ''arn:b'']) (exampleService [''arn:b'', ''arn:c'']) []))
      = [ServiceCall (ModifyVpcEndpointServicePermissions input)]
    \<and> ({''arn:b'', ''arn:c''} - set (mspRemoveAllowedPrincipals input)) \<union> set (mspAddAllowedPrincipals input) = {''arn:a'', ''arn:b''}"
  using principals_modification_converges [OF exactRuntime_law, of "exampleService [''arn:a'', ''arn:b'']" "[''arn:a'', ''arn:b'']"
      "exampleService [''arn:b'', ''arn:c'']" "[''arn:b'', ''arn:c'']" exampleServiceApi "[]"]
  by (auto simp: exampleService_def)

lemma unread_principals_look_synced_witness:
  "\<exists>k t. sdkFind_Service exampleServiceApi exactRuntime exampleManager plainTexts (exampleService [''arn:a'']) [] = (Ret (Some k, None), t)
    \<and> ''Spec.AllowedPrincipals'' \<notin> set (compareSpecs_Service exactComparisons (esSpec (exampleService [''arn:a''])) (esSpec k) [])"
proof -
  have "esServiceID (esStatus (exampleService [''arn:a''])) = Some ''vpce-svc-1''" by (simp add: exampleService_def)
  moreover have "onDescribeServices exampleServiceApi [] [''vpce-svc-1''] = Inr (Some (exampleSdkService # []))"
    "onDescribePermissions exampleServiceApi t (Some ''vpce-svc-1'') = Inl (APIError ''UnauthorizedOperation'' '''')" for t
    by (simp_all add: exampleServiceApi_def)
  moreover have "sdkScServiceId exampleSdkService = Some ''vpce-svc-1''" by (simp add: exampleSdkService_def)
  ultimately show ?thesis
    using unread_principals_look_synced [OF exactComparisons_law, of "exampleService [''arn:a'']" "''vpce-svc-1''" exampleServiceApi "[]" exampleSdkService
        "[]" _ exactRuntime exampleManager plainTexts] by blast
qed

lemma load_balancers_never_modified_witness:
  "\<exists>c. \<forall>ns gs. \<exists>k t. sdkUpdate_Service exampleServiceApi exactRuntime exampleManager (withBalancers ns gs (exampleService [])) (exampleService [])
      [''Spec.NetworkLoadBalancerARNs''] [] = (Ret (Some k, None), t) \<and> calls t = [c]"
proof -
  have "esServiceState (esStatus (exampleService [])) = Some ''Available''" by (simp add: exampleService_def)
  moreover have "onModifyService exampleServiceApi t j = None" for t j by (simp add: exampleServiceApi_def)
  ultimately show ?thesis
    using load_balancers_never_modified [OF exactRuntime_law, of "exampleService []" "[''Spec.NetworkLoadBalancerARNs'']" exampleServiceApi exampleManager
        "exampleService []" "[]"] by simp blast
qed

lemma refused_deletion_is_an_error_witness:
  "fst (sdkDelete_Service exampleServiceApi (exampleService []) [])
     = Ret (None, Some (GoError ''failed to delete VPC Endpoint Service Configuration: in use''))"
  using refused_deletion_is_an_error [of "exampleService []" "''vpce-svc-1''" exampleServiceApi "[]"]
  by (simp add: exampleService_def exampleServiceApi_def unsuccessfulDeletion_def)

end
