(* ===== verification/Instance_Types.thy ===== *)
theory Instance_Types
  imports Payloads
begin

text \<open>
  The data of the instance controller: the types of \<open>apis/v1alpha1\<close> that an instance is made of,
  what \<open>DescribeInstances\<close> and \<open>RunInstances\<close> answer, and the conversions both ways that
  \<open>pkg/resource/instance/sdk.go\<close> spells out field by field. Types with the same fields are one
  record. A conversion of an answer replaces every field that \<open>elem\<close> has; one for a request fails
  when a number does not fit into the SDK's \<open>int32\<close>. Names of the kind carry the suffix \<open>_Instance\<close>.
\<close>

subsection \<open>The resource\<close>

record ebs_block_device =
  ebdDeleteOnTermination :: "bool option"
  ebdEncrypted :: "bool option"
  ebdIOPS :: "int64 option"
  ebdKMSKeyID :: "string option"
  ebdOutpostARN :: "string option"
  ebdSnapshotID :: "string option"
  ebdThroughput :: "int64 option"
  ebdVolumeSize :: "int64 option"
  ebdVolumeType :: "string option"

record block_device_mapping =
  bdmDeviceName :: "string option"
  bdmEBS :: "ebs_block_device option"
  bdmNoDevice :: "string option"
  bdmVirtualName :: "string option"

record capacity_reservation_target =
  crtCapacityReservationID :: "string option"
  crtCapacityReservationResourceGroupARN :: "string option"

record capacity_reservation_specification =
  crsCapacityReservationPreference :: "string option"
  crsCapacityReservationTarget :: "capacity_reservation_target option"

record cpu_options_request =
  corCoreCount :: "int64 option"
  corNestedVirtualization :: "string option"
  corThreadsPerCore :: "int64 option"

record credit_specification_request =
  csrCPUCredits :: "string option"

record elastic_gpu_specification =
  egsType :: "string option"

record elastic_inference_accelerator =
  eiaCount :: "int64 option"
  eiaType :: "string option"

record enclave_options_request =
  eorEnabled :: "bool option"

record hibernation_options_request =
  horConfigured :: "bool option"

record iam_instance_profile_specification =
  iipsARN :: "string option"
  iipsName :: "string option"

record spot_market_options =
  smoBlockDurationMinutes :: "int64 option"
  smoInstanceInterruptionBehavior :: "string option"
  smoMaxPrice :: "string option"
  smoSpotInstanceType :: "string option"
  smoValidUntil :: "timestamp option"

record instance_market_options_request =
  mkoMarketType :: "string option"
  mkoSpotOptions :: "spot_market_options option"

record instance_ipv6_address =
  iiaIPv6Address :: "string option"

record launch_template_specification =
  ltsLaunchTemplateID :: "string option"
  ltsLaunchTemplateName :: "string option"
  ltsLaunchTemplateRef :: "ref_wrapper option"
  ltsVersion :: "string option"

record license_configuration_request =
  lcrLicenseConfigurationARN :: "string option"

record instance_maintenance_options_request =
  mntAutoRecovery :: "string option"

record instance_metadata_options_request =
  mdoHTTPEndpoint :: "string option"
  mdoHTTPProtocolIPv6 :: "string option"
  mdoHTTPPutResponseHopLimit :: "int64 option"
  mdoHTTPTokens :: "string option"
  mdoInstanceMetadataTags :: "string option"

type_synonym run_instances_monitoring_enabled = enclave_options_request

record ipv4_prefix_specification_request =
  ip4IPv4Prefix :: "string option"

record ipv6_prefix_specification_request =
  ip6IPv6Prefix :: "string option"

record private_ip_address_specification =
  piasPrimary :: "bool option"
  piasPrivateIPAddress :: "string option"

record instance_network_interface_specification =
  nisAssociateCarrierIPAddress :: "bool option"
  nisAssociatePublicIPAddress :: "bool option"
  nisDeleteOnTermination :: "bool option"
  nisDescription :: "string option"
  nisDeviceIndex :: "int64 option"
  nisInterfaceType :: "string option"
  nisIPv4PrefixCount :: "int64 option"
  nisIPv4Prefixes :: "ipv4_prefix_specification_request list option"
  nisIPv6AddressCount :: "int64 option"
  nisIPv6Addresses :: "instance_ipv6_address list option"
  nisIPv6PrefixCount :: "int64 option"
  nisIPv6Prefixes :: "ipv6_prefix_specification_request list option"
  nisNetworkCardIndex :: "int64 option"
  nisNetworkInterfaceID :: "string option"
  nisPrivateIPAddress :: "string option"
  nisPrivateIPAddresses :: "private_ip_address_specification list option"
  nisSecondaryPrivateIPAddressCount :: "int64 option"
  nisSubnetID :: "string option"

record placement =
  plcAffinity :: "string option"
  plcAvailabilityZone :: "string option"
  plcGroupName :: "string option"
  plcHostID :: "string option"
  plcHostResourceGroupARN :: "string option"
  plcPartitionNumber :: "int64 option"
  plcSpreadDomain :: "string option"
  plcTenancy :: "string option"

record private_dns_name_options_request =
  pdnEnableResourceNameDNSAAAARecord :: "bool option"
  pdnEnableResourceNameDNSARecord :: "bool option"
  pdnHostnameType :: "string option"

record instance_spec =
  insBlockDeviceMappings :: "block_device_mapping list option"
  insCapacityReservationSpecification :: "capacity_reservation_specification option"
  insCPUOptions :: "cpu_options_request option"
  insCreditSpecification :: "credit_specification_request option"
  insDisableAPIStop :: "bool option"
  insDisableAPITermination :: "bool option"
  insEBSOptimized :: "bool option"
  insElasticGPUSpecification :: "elastic_gpu_specification list option"
  insElasticInferenceAccelerators :: "elastic_inference_accelerator list option"
  insEnclaveOptions :: "enclave_options_request option"
  insHibernationOptions :: "hibernation_options_request option"
  insIAMInstanceProfile :: "iam_instance_profile_specification option"
  insImageID :: "string option"
  insInstanceInitiatedShutdownBehavior :: "string option"
  insInstanceMarketOptions :: "instance_market_options_request option"
  insInstanceType :: "string option"
  insIPv6AddressCount :: "int64 option"
  insIPv6Addresses :: "instance_ipv6_address list option"
  insKernelID :: "string option"
  insKeyName :: "string option"
  insLaunchTemplate :: "launch_template_specification option"
  insLicenseSpecifications :: "license_configuration_request list option"
  insMaintenanceOptions :: "instance_maintenance_options_request option"
  insMaxCount :: "int64 option"
  insMetadataOptions :: "instance_metadata_options_request option"
  insMinCount :: "int64 option"
  insMonitoring :: "run_instances_monitoring_enabled option"
  insNetworkInterfaces :: "instance_network_interface_specification list option"
  insPlacement :: "placement option"
  insPrivateDNSNameOptions :: "private_dns_name_options_request option"
  insPrivateIPAddress :: "string option"
  insRAMDiskID :: "string option"
  insSecurityGroupIDs :: "string option list"
  insSecurityGroups :: "string option list"
  insSourceDestCheckEnabled :: "bool option"
  insSubnetID :: "string option"
  insSubnetRef :: "ref_wrapper option"
  insTags :: "tag list option"
  insUserData :: "string option"

record elastic_gpu_association =
  egaElasticGPUAssociationID :: "string option"
  egaElasticGPUAssociationState :: "string option"
  egaElasticGPUAssociationTime :: "string option"
  egaElasticGPUID :: "string option"

record elastic_inference_accelerator_association =
  eiaaElasticInferenceAcceleratorARN :: "string option"
  eiaaElasticInferenceAcceleratorAssociationID :: "string option"
  eiaaElasticInferenceAcceleratorAssociationState :: "string option"
  eiaaElasticInferenceAcceleratorAssociationTime :: "timestamp option"

type_synonym license_configuration = license_configuration_request

record product_code =
  pcdProductCodeID :: "string option"
  pcdProductCodeType :: "string option"

record instance_state =
  istCode :: "int64 option"
  istName :: "string option"

record state_reason =
  srCode :: "string option"
  srMessage :: "string option"

record instance_status = common_status +
  instAMILaunchIndex :: "int64 option"
  instArchitecture :: "string option"
  instBootMode :: "string option"
  instCapacityReservationID :: "string option"
  instElasticGPUAssociations :: "elastic_gpu_association list option"
  instElasticInferenceAcceleratorAssociations :: "elastic_inference_accelerator_association list option"
  instENASupport :: "bool option"
  instHypervisor :: "string option"
  instInstanceID :: "string option"
  instInstanceLifecycle :: "string option"
  instIPv6Address :: "string option"
  instLaunchTime :: "timestamp option"
  instLicenses :: "license_configuration list option"
  instOutpostARN :: "string option"
  instPlatform :: "string option"
  instPlatformDetails :: "string option"
  instPrivateDNSName :: "string option"
  instProductCodes :: "product_code list option"
  instPublicDNSName :: "string option"
  instPublicIPAddress :: "string option"
  instRootDeviceName :: "string option"
  instRootDeviceType :: "string option"
  instSourceDestCheck :: "bool option"
  instSpotInstanceRequestID :: "string option"
  instSRIOVNetSupport :: "string option"
  instState :: "instance_state option"
  instStateReason :: "state_reason option"
  instStateTransitionReason :: "string option"
  instTPMSupport :: "string option"
  instUsageOperation :: "string option"
  instUsageOperationUpdateTime :: "timestamp option"
  instVirtualizationType :: "string option"
  instVPCID :: "string option"

record instance_resource =
  insSpec :: instance_spec
  insStatus :: instance_status

subsection \<open>The answers of the service\<close>

record sdk_ebs_instance_block_device =
  sdkEibdDeleteOnTermination :: "bool option"

record sdk_instance_block_device_mapping =
  sdkIbdmDeviceName :: "string option"
  sdkIbdmEbs :: "sdk_ebs_instance_block_device option"

type_synonym sdk_capacity_reservation_target_response = sdk_capacity_reservation_target

type_synonym sdk_capacity_reservation_specification_response = sdk_capacity_reservation_specification

type_synonym sdk_cpu_options = sdk_cpu_options_request

record sdk_elastic_gpu_association =
  sdkEgaElasticGpuAssociationId :: "string option"
  sdkEgaElasticGpuAssociationState :: "string option"
  sdkEgaElasticGpuAssociationTime :: "string option"
  sdkEgaElasticGpuId :: "string option"

record sdk_elastic_inference_accelerator_association =
  sdkEiaaElasticInferenceAcceleratorArn :: "string option"
  sdkEiaaElasticInferenceAcceleratorAssociationId :: "string option"
  sdkEiaaElasticInferenceAcceleratorAssociationState :: "string option"
  sdkEiaaElasticInferenceAcceleratorAssociationTime :: "timestamp option"

type_synonym sdk_enclave_options = sdk_enclave_options_request

type_synonym sdk_hibernation_options = sdk_hibernation_options_request

record sdk_iam_instance_profile =
  sdkIipArn :: "string option"

type_synonym sdk_license_configuration = sdk_license_configuration_request

type_synonym sdk_instance_maintenance_options = sdk_instance_maintenance_options_request

type_synonym sdk_instance_metadata_options_response = sdk_instance_metadata_options_request

record sdk_monitoring =
  sdkMonState :: string

type_synonym sdk_instance_ipv4_prefix = sdk_ipv4_prefix_specification_request

type_synonym sdk_instance_ipv6_prefix = sdk_ipv6_prefix_specification_request

type_synonym sdk_instance_private_ip_address = sdk_private_ip_address_specification

record sdk_instance_network_interface =
  sdkIniDescription :: "string option"
  sdkIniInterfaceType :: "string option"
  sdkIniIpv4Prefixes :: "sdk_instance_ipv4_prefix list option"
  sdkIniIpv6Addresses :: "sdk_instance_ipv6_address list option"
  sdkIniIpv6Prefixes :: "sdk_instance_ipv6_prefix list option"
  sdkIniNetworkInterfaceId :: "string option"
  sdkIniPrivateIpAddress :: "string option"
  sdkIniPrivateIpAddresses :: "sdk_instance_private_ip_address list option"
  sdkIniSubnetId :: "string option"

type_synonym sdk_private_dns_name_options_response = sdk_private_dns_name_options_request

record sdk_product_code =
  sdkPcoProductCodeId :: "string option"
  sdkPcoProductCodeType :: string

record sdk_instance_state =
  sdkIsCode :: "int32 option"
  sdkIsName :: string

record sdk_state_reason =
  sdkSreCode :: "string option"
  sdkSreMessage :: "string option"

record sdk_instance =
  sdkInAmiLaunchIndex :: "int32 option"
  sdkInArchitecture :: string
  sdkInBlockDeviceMappings :: "sdk_instance_block_device_mapping list option"
  sdkInBootMode :: string
  sdkInCapacityReservationId :: "string option"
  sdkInCapacityReservationSpecification :: "sdk_capacity_reservation_specification_response option"
  sdkInCpuOptions :: "sdk_cpu_options option"
  sdkInEbsOptimized :: "bool option"
  sdkInElasticGpuAssociations :: "sdk_elastic_gpu_association list option"
  sdkInElasticInferenceAcceleratorAssociations :: "sdk_elastic_inference_accelerator_association list option"
  sdkInEnaSupport :: "bool option"
  sdkInEnclaveOptions :: "sdk_enclave_options option"
  sdkInHibernationOptions :: "sdk_hibernation_options option"
  sdkInHypervisor :: string
  sdkInIamInstanceProfile :: "sdk_iam_instance_profile option"
  sdkInImageId :: "string option"
  sdkInInstanceId :: "string option"
  sdkInInstanceLifecycle :: string
  sdkInInstanceType :: string
  sdkInIpv6Address :: "string option"
  sdkInKernelId :: "string option"
  sdkInKeyName :: "string option"
  sdkInLaunchTime :: "timestamp option"
  sdkInLicenses :: "sdk_license_configuration list option"
  sdkInMaintenanceOptions :: "sdk_instance_maintenance_options option"
  sdkInMetadataOptions :: "sdk_instance_metadata_options_response option"
  sdkInMonitoring :: "sdk_monitoring option"
  sdkInNetworkInterfaces :: "sdk_instance_network_interface list option"
  sdkInOutpostArn :: "string option"
  sdkInPlacement :: "sdk_placement option"
  sdkInPlatform :: string
  sdkInPlatformDetails :: "string option"
  sdkInPrivateDnsName :: "string option"
  sdkInPrivateDnsNameOptions :: "sdk_private_dns_name_options_response option"
  sdkInPrivateIpAddress :: "string option"
  sdkInProductCodes :: "sdk_product_code list option"
  sdkInPublicDnsName :: "string option"
  sdkInPublicIpAddress :: "string option"
  sdkInRamdiskId :: "string option"
  sdkInRootDeviceName :: "string option"
  sdkInRootDeviceType :: string
  sdkInSecurityGroups :: "sdk_group_identifier list option"
  sdkInSourceDestCheck :: "bool option"
  sdkInSpotInstanceRequestId :: "string option"
  sdkInSriovNetSupport :: "string option"
  sdkInState :: "sdk_instance_state option"
  sdkInStateReason :: "sdk_state_reason option"
  sdkInStateTransitionReason :: "string option"
  sdkInSubnetId :: "string option"
  sdkInTags :: "sdk_tag list option"
  sdkInTpmSupport :: "string option"
  sdkInUsageOperation :: "string option"
  sdkInUsageOperationUpdateTime :: "timestamp option"
  sdkInVirtualizationType :: string
  sdkInVpcId :: "string option"

subsection \<open>Reading\<close>

definition ebsBlockDeviceFromSdk :: "sdk_ebs_instance_block_device \<Rightarrow> ebs_block_device" where
  "ebsBlockDeviceFromSdk x = \<lparr>ebdDeleteOnTermination = sdkEibdDeleteOnTermination x, ebdEncrypted = None, ebdIOPS = None, ebdKMSKeyID = None,
       ebdOutpostARN = None, ebdSnapshotID = None, ebdThroughput = None, ebdVolumeSize = None, ebdVolumeType = None\<rparr>"

definition blockDeviceMappingFromSdk :: "sdk_instance_block_device_mapping \<Rightarrow> block_device_mapping" where
  "blockDeviceMappingFromSdk x = \<lparr>bdmDeviceName = sdkIbdmDeviceName x, bdmEBS = map_option ebsBlockDeviceFromSdk (sdkIbdmEbs x), bdmNoDevice = None,
       bdmVirtualName = None\<rparr>"

definition capacityReservationTargetFromSdk :: "sdk_capacity_reservation_target_response \<Rightarrow> capacity_reservation_target" where
  "capacityReservationTargetFromSdk x = \<lparr>crtCapacityReservationID = sdkCrtCapacityReservationId x,
       crtCapacityReservationResourceGroupARN = sdkCrtCapacityReservationResourceGroupArn x\<rparr>"

definition capacityReservationSpecificationFromSdk :: "sdk_capacity_reservation_specification_response \<Rightarrow> capacity_reservation_specification" where
  "capacityReservationSpecificationFromSdk x = \<lparr>crsCapacityReservationPreference = enumPtr (sdkCrsCapacityReservationPreference x),
       crsCapacityReservationTarget = map_option capacityReservationTargetFromSdk (sdkCrsCapacityReservationTarget x)\<rparr>"

definition cpuOptionsRequestFromSdk :: "sdk_cpu_options \<Rightarrow> cpu_options_request" where
  "cpuOptionsRequestFromSdk x = \<lparr>corCoreCount = map_option toInt64 (sdkCorCoreCount x), corNestedVirtualization = enumPtr (sdkCorNestedVirtualization x),
       corThreadsPerCore = map_option toInt64 (sdkCorThreadsPerCore x)\<rparr>"

definition elasticGpuAssociationFromSdk :: "sdk_elastic_gpu_association \<Rightarrow> elastic_gpu_association" where
  "elasticGpuAssociationFromSdk x = \<lparr>egaElasticGPUAssociationID = sdkEgaElasticGpuAssociationId x,
       egaElasticGPUAssociationState = sdkEgaElasticGpuAssociationState x,
       egaElasticGPUAssociationTime = sdkEgaElasticGpuAssociationTime x, egaElasticGPUID = sdkEgaElasticGpuId x\<rparr>"

definition elasticInferenceAcceleratorAssociationFromSdk :: "sdk_elastic_inference_accelerator_association \<Rightarrow> elastic_inference_accelerator_association" where
  "elasticInferenceAcceleratorAssociationFromSdk x = \<lparr>eiaaElasticInferenceAcceleratorARN = sdkEiaaElasticInferenceAcceleratorArn x,
       eiaaElasticInferenceAcceleratorAssociationID = sdkEiaaElasticInferenceAcceleratorAssociationId x,
       eiaaElasticInferenceAcceleratorAssociationState = sdkEiaaElasticInferenceAcceleratorAssociationState x,
       eiaaElasticInferenceAcceleratorAssociationTime = sdkEiaaElasticInferenceAcceleratorAssociationTime x\<rparr>"

definition enclaveOptionsRequestFromSdk :: "sdk_enclave_options \<Rightarrow> enclave_options_request" where
  "enclaveOptionsRequestFromSdk x = \<lparr>eorEnabled = sdkEorEnabled x\<rparr>"

definition hibernationOptionsRequestFromSdk :: "sdk_hibernation_options \<Rightarrow> hibernation_options_request" where
  "hibernationOptionsRequestFromSdk x = \<lparr>horConfigured = sdkHorConfigured x\<rparr>"

definition iamInstanceProfileSpecificationFromSdk :: "sdk_iam_instance_profile \<Rightarrow> iam_instance_profile_specification" where
  "iamInstanceProfileSpecificationFromSdk x = \<lparr>iipsARN = sdkIipArn x, iipsName = None\<rparr>"

definition licenseConfigurationFromSdk :: "sdk_license_configuration \<Rightarrow> license_configuration" where
  "licenseConfigurationFromSdk x = \<lparr>lcrLicenseConfigurationARN = sdkLcrLicenseConfigurationArn x\<rparr>"

definition instanceMaintenanceOptionsRequestFromSdk :: "sdk_instance_maintenance_options \<Rightarrow> instance_maintenance_options_request" where
  "instanceMaintenanceOptionsRequestFromSdk x = \<lparr>mntAutoRecovery = enumPtr (sdkMntAutoRecovery x)\<rparr>"

definition instanceMetadataOptionsRequestFromSdk :: "sdk_instance_metadata_options_response \<Rightarrow> instance_metadata_options_request" where
  "instanceMetadataOptionsRequestFromSdk x = \<lparr>mdoHTTPEndpoint = enumPtr (sdkMdoHttpEndpoint x), mdoHTTPProtocolIPv6 = enumPtr (sdkMdoHttpProtocolIpv6 x),
       mdoHTTPPutResponseHopLimit = map_option toInt64 (sdkMdoHttpPutResponseHopLimit x),
       mdoHTTPTokens = enumPtr (sdkMdoHttpTokens x), mdoInstanceMetadataTags = enumPtr (sdkMdoInstanceMetadataTags x)\<rparr>"

definition runInstancesMonitoringEnabledFromSdk :: "sdk_monitoring \<Rightarrow> run_instances_monitoring_enabled" where
  "runInstancesMonitoringEnabledFromSdk x = \<lparr>eorEnabled = None\<rparr>"

definition ipv4PrefixSpecificationRequestFromSdk :: "sdk_instance_ipv4_prefix \<Rightarrow> ipv4_prefix_specification_request" where
  "ipv4PrefixSpecificationRequestFromSdk x = \<lparr>ip4IPv4Prefix = sdkR4Ipv4Prefix x\<rparr>"

definition instanceIpv6AddressFromSdk :: "sdk_instance_ipv6_address \<Rightarrow> instance_ipv6_address" where
  "instanceIpv6AddressFromSdk x = \<lparr>iiaIPv6Address = sdkIiaIpv6Address x\<rparr>"

definition ipv6PrefixSpecificationRequestFromSdk :: "sdk_instance_ipv6_prefix \<Rightarrow> ipv6_prefix_specification_request" where
  "ipv6PrefixSpecificationRequestFromSdk x = \<lparr>ip6IPv6Prefix = sdkR6Ipv6Prefix x\<rparr>"

definition privateIpAddressSpecificationFromSdk :: "sdk_instance_private_ip_address \<Rightarrow> private_ip_address_specification" where
  "privateIpAddressSpecificationFromSdk x = \<lparr>piasPrimary = sdkPiasPrimary x, piasPrivateIPAddress = sdkPiasPrivateIpAddress x\<rparr>"

definition instanceNetworkInterfaceSpecificationFromSdk :: "sdk_instance_network_interface \<Rightarrow> instance_network_interface_specification" where
  "instanceNetworkInterfaceSpecificationFromSdk x = \<lparr>nisAssociateCarrierIPAddress = None, nisAssociatePublicIPAddress = None, nisDeleteOnTermination = None,
       nisDescription = sdkIniDescription x, nisDeviceIndex = None, nisInterfaceType = sdkIniInterfaceType x,
       nisIPv4PrefixCount = None, nisIPv4Prefixes = map_option (map ipv4PrefixSpecificationRequestFromSdk) (sdkIniIpv4Prefixes x),
       nisIPv6AddressCount = None, nisIPv6Addresses = map_option (map instanceIpv6AddressFromSdk) (sdkIniIpv6Addresses x),
       nisIPv6PrefixCount = None, nisIPv6Prefixes = map_option (map ipv6PrefixSpecificationRequestFromSdk) (sdkIniIpv6Prefixes x),
       nisNetworkCardIndex = None, nisNetworkInterfaceID = sdkIniNetworkInterfaceId x, nisPrivateIPAddress = sdkIniPrivateIpAddress x,
       nisPrivateIPAddresses = map_option (map privateIpAddressSpecificationFromSdk) (sdkIniPrivateIpAddresses x),
       nisSecondaryPrivateIPAddressCount = None, nisSubnetID = sdkIniSubnetId x\<rparr>"

definition placementFromSdk :: "sdk_placement \<Rightarrow> placement" where
  "placementFromSdk x = \<lparr>plcAffinity = sdkPlAffinity x, plcAvailabilityZone = sdkPlAvailabilityZone x, plcGroupName = sdkPlGroupName x,
       plcHostID = sdkPlHostId x, plcHostResourceGroupARN = sdkPlHostResourceGroupArn x,
       plcPartitionNumber = map_option toInt64 (sdkPlPartitionNumber x), plcSpreadDomain = sdkPlSpreadDomain x,
       plcTenancy = enumPtr (sdkPlTenancy x)\<rparr>"

definition privateDnsNameOptionsRequestFromSdk :: "sdk_private_dns_name_options_response \<Rightarrow> private_dns_name_options_request" where
  "privateDnsNameOptionsRequestFromSdk x = \<lparr>pdnEnableResourceNameDNSAAAARecord = sdkPdnorEnableResourceNameDnsAAAARecord x,
       pdnEnableResourceNameDNSARecord = sdkPdnorEnableResourceNameDnsARecord x, pdnHostnameType = enumPtr (sdkPdnorHostnameType x)\<rparr>"

definition productCodeFromSdk :: "sdk_product_code \<Rightarrow> product_code" where
  "productCodeFromSdk x = \<lparr>pcdProductCodeID = sdkPcoProductCodeId x, pcdProductCodeType = enumPtr (sdkPcoProductCodeType x)\<rparr>"

definition instanceStateFromSdk :: "sdk_instance_state \<Rightarrow> instance_state" where
  "instanceStateFromSdk x = \<lparr>istCode = map_option toInt64 (sdkIsCode x), istName = enumPtr (sdkIsName x)\<rparr>"

definition stateReasonFromSdk :: "sdk_state_reason \<Rightarrow> state_reason" where
  "stateReasonFromSdk x = \<lparr>srCode = sdkSreCode x, srMessage = sdkSreMessage x\<rparr>"

definition readSpec_Instance :: "sdk_instance \<Rightarrow> instance_spec \<Rightarrow> instance_spec" where
  "readSpec_Instance x k =
     k\<lparr>insBlockDeviceMappings := map_option (map blockDeviceMappingFromSdk) (sdkInBlockDeviceMappings x),
        insCapacityReservationSpecification := map_option capacityReservationSpecificationFromSdk (sdkInCapacityReservationSpecification x),
        insCPUOptions := map_option cpuOptionsRequestFromSdk (sdkInCpuOptions x), insEBSOptimized := sdkInEbsOptimized x,
        insEnclaveOptions := map_option enclaveOptionsRequestFromSdk (sdkInEnclaveOptions x),
        insHibernationOptions := map_option hibernationOptionsRequestFromSdk (sdkInHibernationOptions x),
        insIAMInstanceProfile := map_option iamInstanceProfileSpecificationFromSdk (sdkInIamInstanceProfile x),
        insImageID := sdkInImageId x, insInstanceType := enumPtr (sdkInInstanceType x), insKernelID := sdkInKernelId x,
        insKeyName := sdkInKeyName x,
        insMaintenanceOptions := map_option instanceMaintenanceOptionsRequestFromSdk (sdkInMaintenanceOptions x),
        insMetadataOptions := map_option instanceMetadataOptionsRequestFromSdk (sdkInMetadataOptions x),
        insMonitoring := map_option runInstancesMonitoringEnabledFromSdk (sdkInMonitoring x),
        insNetworkInterfaces := map_option (map instanceNetworkInterfaceSpecificationFromSdk) (sdkInNetworkInterfaces x),
        insPlacement := map_option placementFromSdk (sdkInPlacement x),
        insPrivateDNSNameOptions := map_option privateDnsNameOptionsRequestFromSdk (sdkInPrivateDnsNameOptions x),
        insPrivateIPAddress := sdkInPrivateIpAddress x, insRAMDiskID := sdkInRamdiskId x,
        insSecurityGroups := map sdkGiGroupName (elems (sdkInSecurityGroups x)), insSubnetID := sdkInSubnetId x,
        insTags := map_option resourceTags (sdkInTags x)\<rparr>"

definition readStatus_Instance :: "sdk_instance \<Rightarrow> instance_status \<Rightarrow> instance_status" where
  "readStatus_Instance x k =
     k\<lparr>instAMILaunchIndex := map_option toInt64 (sdkInAmiLaunchIndex x), instArchitecture := enumPtr (sdkInArchitecture x),
        instBootMode := enumPtr (sdkInBootMode x), instCapacityReservationID := sdkInCapacityReservationId x,
        instElasticGPUAssociations := map_option (map elasticGpuAssociationFromSdk) (sdkInElasticGpuAssociations x),
        instElasticInferenceAcceleratorAssociations := map_option (map elasticInferenceAcceleratorAssociationFromSdk) (sdkInElasticInferenceAcceleratorAssociations x),
        instENASupport := sdkInEnaSupport x, instHypervisor := enumPtr (sdkInHypervisor x), instInstanceID := sdkInInstanceId x,
        instInstanceLifecycle := enumPtr (sdkInInstanceLifecycle x), instIPv6Address := sdkInIpv6Address x,
        instLaunchTime := sdkInLaunchTime x, instLicenses := map_option (map licenseConfigurationFromSdk) (sdkInLicenses x),
        instOutpostARN := sdkInOutpostArn x, instPlatform := enumPtr (sdkInPlatform x), instPlatformDetails := sdkInPlatformDetails x,
        instPrivateDNSName := sdkInPrivateDnsName x, instProductCodes := map_option (map productCodeFromSdk) (sdkInProductCodes x),
        instPublicDNSName := sdkInPublicDnsName x, instPublicIPAddress := sdkInPublicIpAddress x,
        instRootDeviceName := sdkInRootDeviceName x, instRootDeviceType := enumPtr (sdkInRootDeviceType x),
        instSourceDestCheck := sdkInSourceDestCheck x, instSpotInstanceRequestID := sdkInSpotInstanceRequestId x,
        instSRIOVNetSupport := sdkInSriovNetSupport x, instState := map_option instanceStateFromSdk (sdkInState x),
        instStateReason := map_option stateReasonFromSdk (sdkInStateReason x),
        instStateTransitionReason := sdkInStateTransitionReason x, instTPMSupport := sdkInTpmSupport x,
        instUsageOperation := sdkInUsageOperation x, instUsageOperationUpdateTime := sdkInUsageOperationUpdateTime x,
        instVirtualizationType := enumPtr (sdkInVirtualizationType x), instVPCID := sdkInVpcId x\<rparr>"

subsection \<open>Requests\<close>

definition ebsBlockDeviceToSdk :: "ebs_block_device \<Rightarrow> error + sdk_ebs_block_device" where
  "ebsBlockDeviceToSdk x =
     onOk (narrowInt32 ''Iops'' (ebdIOPS x)) (\<lambda>iops.
     onOk (narrowInt32 ''Throughput'' (ebdThroughput x)) (\<lambda>throughput.
     onOk (narrowInt32 ''VolumeSize'' (ebdVolumeSize x)) (\<lambda>volumeSize.
     Inr \<lparr>sdkEbdDeleteOnTermination = ebdDeleteOnTermination x, sdkEbdEncrypted = ebdEncrypted x, sdkEbdIops = iops,
       sdkEbdKmsKeyId = ebdKMSKeyID x, sdkEbdOutpostArn = ebdOutpostARN x, sdkEbdSnapshotId = ebdSnapshotID x,
       sdkEbdThroughput = throughput, sdkEbdVolumeSize = volumeSize, sdkEbdVolumeType = safeString (ebdVolumeType x)\<rparr>)))"

definition blockDeviceMappingToSdk :: "block_device_mapping \<Rightarrow> error + sdk_block_device_mapping" where
  "blockDeviceMappingToSdk x =
     onOk (optOk ebsBlockDeviceToSdk (bdmEBS x)) (\<lambda>ebs.
     Inr \<lparr>sdkBdmDeviceName = bdmDeviceName x, sdkBdmEbs = ebs, sdkBdmNoDevice = bdmNoDevice x, sdkBdmVirtualName = bdmVirtualName x\<rparr>)"

definition capacityReservationTargetToSdk :: "capacity_reservation_target \<Rightarrow> sdk_capacity_reservation_target" where
  "capacityReservationTargetToSdk x = \<lparr>sdkCrtCapacityReservationId = crtCapacityReservationID x,
       sdkCrtCapacityReservationResourceGroupArn = crtCapacityReservationResourceGroupARN x\<rparr>"

definition capacityReservationSpecificationToSdk :: "capacity_reservation_specification \<Rightarrow> sdk_capacity_reservation_specification" where
  "capacityReservationSpecificationToSdk x = \<lparr>sdkCrsCapacityReservationPreference = safeString (crsCapacityReservationPreference x),
       sdkCrsCapacityReservationTarget = map_option capacityReservationTargetToSdk (crsCapacityReservationTarget x)\<rparr>"

definition cpuOptionsRequestToSdk :: "cpu_options_request \<Rightarrow> error + sdk_cpu_options_request" where
  "cpuOptionsRequestToSdk x =
     onOk (narrowInt32 ''CoreCount'' (corCoreCount x)) (\<lambda>coreCount.
     onOk (narrowInt32 ''ThreadsPerCore'' (corThreadsPerCore x)) (\<lambda>threadsPerCore.
     Inr \<lparr>sdkCorCoreCount = coreCount, sdkCorNestedVirtualization = safeString (corNestedVirtualization x),
       sdkCorThreadsPerCore = threadsPerCore\<rparr>))"

definition creditSpecificationRequestToSdk :: "credit_specification_request \<Rightarrow> sdk_credit_specification_request" where
  "creditSpecificationRequestToSdk x = \<lparr>sdkCsrCpuCredits = csrCPUCredits x\<rparr>"

definition elasticGpuSpecificationToSdk :: "elastic_gpu_specification \<Rightarrow> sdk_elastic_gpu_specification" where
  "elasticGpuSpecificationToSdk x = \<lparr>sdkEgsType = egsType x\<rparr>"

definition elasticInferenceAcceleratorToSdk :: "elastic_inference_accelerator \<Rightarrow> error + sdk_elastic_inference_accelerator" where
  "elasticInferenceAcceleratorToSdk x =
     onOk (narrowInt32 ''Count'' (eiaCount x)) (\<lambda>count'.
     Inr \<lparr>sdkEiaCount = count', sdkEiaType = eiaType x\<rparr>)"

definition enclaveOptionsRequestToSdk :: "enclave_options_request \<Rightarrow> sdk_enclave_options_request" where
  "enclaveOptionsRequestToSdk x = \<lparr>sdkEorEnabled = eorEnabled x\<rparr>"

definition hibernationOptionsRequestToSdk :: "hibernation_options_request \<Rightarrow> sdk_hibernation_options_request" where
  "hibernationOptionsRequestToSdk x = \<lparr>sdkHorConfigured = horConfigured x\<rparr>"

definition iamInstanceProfileSpecificationToSdk :: "iam_instance_profile_specification \<Rightarrow> sdk_iam_instance_profile_specification" where
  "iamInstanceProfileSpecificationToSdk x = \<lparr>sdkIipsArn = iipsARN x, sdkIipsName = iipsName x\<rparr>"

definition spotMarketOptionsToSdk :: "spot_market_options \<Rightarrow> error + sdk_spot_market_options" where
  "spotMarketOptionsToSdk x =
     onOk (narrowInt32 ''BlockDurationMinutes'' (smoBlockDurationMinutes x)) (\<lambda>blockDurationMinutes.
     Inr \<lparr>sdkSmoBlockDurationMinutes = blockDurationMinutes,
       sdkSmoInstanceInterruptionBehavior = safeString (smoInstanceInterruptionBehavior x), sdkSmoMaxPrice = smoMaxPrice x,
       sdkSmoSpotInstanceType = safeString (smoSpotInstanceType x), sdkSmoValidUntil = smoValidUntil x\<rparr>)"

definition instanceMarketOptionsRequestToSdk :: "instance_market_options_request \<Rightarrow> error + sdk_instance_market_options_request" where
  "instanceMarketOptionsRequestToSdk x =
     onOk (optOk spotMarketOptionsToSdk (mkoSpotOptions x)) (\<lambda>spotOptions.
     Inr \<lparr>sdkMkoMarketType = safeString (mkoMarketType x), sdkMkoSpotOptions = spotOptions\<rparr>)"

definition instanceIpv6AddressToSdk :: "instance_ipv6_address \<Rightarrow> sdk_instance_ipv6_address" where
  "instanceIpv6AddressToSdk x = \<lparr>sdkIiaIpv6Address = iiaIPv6Address x\<rparr>"

definition launchTemplateSpecificationToSdk :: "launch_template_specification \<Rightarrow> sdk_launch_template_specification" where
  "launchTemplateSpecificationToSdk x = \<lparr>sdkLtsLaunchTemplateId = ltsLaunchTemplateID x, sdkLtsLaunchTemplateName = ltsLaunchTemplateName x, sdkLtsVersion = ltsVersion x\<rparr>"

definition licenseConfigurationRequestToSdk :: "license_configuration_request \<Rightarrow> sdk_license_configuration_request" where
  "licenseConfigurationRequestToSdk x = \<lparr>sdkLcrLicenseConfigurationArn = lcrLicenseConfigurationARN x\<rparr>"

definition instanceMaintenanceOptionsRequestToSdk :: "instance_maintenance_options_request \<Rightarrow> sdk_instance_maintenance_options_request" where
  "instanceMaintenanceOptionsRequestToSdk x = \<lparr>sdkMntAutoRecovery = safeString (mntAutoRecovery x)\<rparr>"

definition instanceMetadataOptionsRequestToSdk :: "instance_metadata_options_request \<Rightarrow> error + sdk_instance_metadata_options_request" where
  "instanceMetadataOptionsRequestToSdk x =
     onOk (narrowInt32 ''HttpPutResponseHopLimit'' (mdoHTTPPutResponseHopLimit x)) (\<lambda>httpPutResponseHopLimit.
     Inr \<lparr>sdkMdoHttpEndpoint = safeString (mdoHTTPEndpoint x), sdkMdoHttpProtocolIpv6 = safeString (mdoHTTPProtocolIPv6 x),
       sdkMdoHttpPutResponseHopLimit = httpPutResponseHopLimit, sdkMdoHttpTokens = safeString (mdoHTTPTokens x),
       sdkMdoInstanceMetadataTags = safeString (mdoInstanceMetadataTags x)\<rparr>)"

definition runInstancesMonitoringEnabledToSdk :: "run_instances_monitoring_enabled \<Rightarrow> sdk_run_instances_monitoring_enabled" where
  "runInstancesMonitoringEnabledToSdk x = \<lparr>sdkEorEnabled = eorEnabled x\<rparr>"

definition ipv4PrefixSpecificationRequestToSdk :: "ipv4_prefix_specification_request \<Rightarrow> sdk_ipv4_prefix_specification_request" where
  "ipv4PrefixSpecificationRequestToSdk x = \<lparr>sdkR4Ipv4Prefix = ip4IPv4Prefix x\<rparr>"

definition ipv6PrefixSpecificationRequestToSdk :: "ipv6_prefix_specification_request \<Rightarrow> sdk_ipv6_prefix_specification_request" where
  "ipv6PrefixSpecificationRequestToSdk x = \<lparr>sdkR6Ipv6Prefix = ip6IPv6Prefix x\<rparr>"

definition privateIpAddressSpecificationToSdk :: "private_ip_address_specification \<Rightarrow> sdk_private_ip_address_specification" where
  "privateIpAddressSpecificationToSdk x = \<lparr>sdkPiasPrimary = piasPrimary x, sdkPiasPrivateIpAddress = piasPrivateIPAddress x\<rparr>"

definition instanceNetworkInterfaceSpecificationToSdk :: "instance_network_interface_specification \<Rightarrow> error + sdk_instance_network_interface_specification" where
  "instanceNetworkInterfaceSpecificationToSdk x =
     onOk (narrowInt32 ''DeviceIndex'' (nisDeviceIndex x)) (\<lambda>deviceIndex.
     onOk (narrowInt32 ''Ipv4PrefixCount'' (nisIPv4PrefixCount x)) (\<lambda>ipv4PrefixCount.
     onOk (narrowInt32 ''Ipv6AddressCount'' (nisIPv6AddressCount x)) (\<lambda>ipv6AddressCount.
     onOk (narrowInt32 ''Ipv6PrefixCount'' (nisIPv6PrefixCount x)) (\<lambda>ipv6PrefixCount.
     onOk (narrowInt32 ''NetworkCardIndex'' (nisNetworkCardIndex x)) (\<lambda>networkCardIndex.
     onOk (narrowInt32 ''SecondaryPrivateIpAddressCount'' (nisSecondaryPrivateIPAddressCount x)) (\<lambda>secondaryPrivateIpAddressCount.
     Inr \<lparr>sdkNisAssociateCarrierIpAddress = nisAssociateCarrierIPAddress x,
       sdkNisAssociatePublicIpAddress = nisAssociatePublicIPAddress x, sdkNisDeleteOnTermination = nisDeleteOnTermination x,
       sdkNisDescription = nisDescription x, sdkNisDeviceIndex = deviceIndex, sdkNisInterfaceType = nisInterfaceType x,
       sdkNisIpv4PrefixCount = ipv4PrefixCount,
       sdkNisIpv4Prefixes = map_option (map ipv4PrefixSpecificationRequestToSdk) (nisIPv4Prefixes x),
       sdkNisIpv6AddressCount = ipv6AddressCount,
       sdkNisIpv6Addresses = map_option (map instanceIpv6AddressToSdk) (nisIPv6Addresses x), sdkNisIpv6PrefixCount = ipv6PrefixCount,
       sdkNisIpv6Prefixes = map_option (map ipv6PrefixSpecificationRequestToSdk) (nisIPv6Prefixes x),
       sdkNisNetworkCardIndex = networkCardIndex, sdkNisNetworkInterfaceId = nisNetworkInterfaceID x,
       sdkNisPrivateIpAddress = nisPrivateIPAddress x,
       sdkNisPrivateIpAddresses = map_option (map privateIpAddressSpecificationToSdk) (nisPrivateIPAddresses x),
       sdkNisSecondaryPrivateIpAddressCount = secondaryPrivateIpAddressCount, sdkNisSubnetId = nisSubnetID x\<rparr>))))))"

definition placementToSdk :: "placement \<Rightarrow> error + sdk_placement" where
  "placementToSdk x =
     onOk (narrowInt32 ''PartitionNumber'' (plcPartitionNumber x)) (\<lambda>partitionNumber.
     Inr \<lparr>sdkPlAffinity = plcAffinity x, sdkPlAvailabilityZone = plcAvailabilityZone x, sdkPlGroupName = plcGroupName x,
       sdkPlHostId = plcHostID x, sdkPlHostResourceGroupArn = plcHostResourceGroupARN x, sdkPlPartitionNumber = partitionNumber,
       sdkPlSpreadDomain = plcSpreadDomain x, sdkPlTenancy = safeString (plcTenancy x)\<rparr>)"

definition privateDnsNameOptionsRequestToSdk :: "private_dns_name_options_request \<Rightarrow> sdk_private_dns_name_options_request" where
  "privateDnsNameOptionsRequestToSdk x = \<lparr>sdkPdnorEnableResourceNameDnsAAAARecord = pdnEnableResourceNameDNSAAAARecord x,
       sdkPdnorEnableResourceNameDnsARecord = pdnEnableResourceNameDNSARecord x, sdkPdnorHostnameType = safeString (pdnHostnameType x)\<rparr>"

definition newCreateRequestPayload_Instance :: "('y) ack_runtime_scheme \<Rightarrow> instance_resource \<Rightarrow> error + run_instances_input" where
  "newCreateRequestPayload_Instance R r =
     (let x = insSpec r in
     onOk (optOk (listOk blockDeviceMappingToSdk) (insBlockDeviceMappings x)) (\<lambda>blockDeviceMappings.
     onOk (optOk cpuOptionsRequestToSdk (insCPUOptions x)) (\<lambda>cpuOptions.
     onOk (optOk (listOk elasticInferenceAcceleratorToSdk) (insElasticInferenceAccelerators x)) (\<lambda>elasticInferenceAccelerators.
     onOk (optOk instanceMarketOptionsRequestToSdk (insInstanceMarketOptions x)) (\<lambda>instanceMarketOptions.
     onOk (narrowInt32 ''Ipv6AddressCount'' (insIPv6AddressCount x)) (\<lambda>ipv6AddressCount.
     onOk (optOk instanceMetadataOptionsRequestToSdk (insMetadataOptions x)) (\<lambda>metadataOptions.
     onOk (optOk (listOk instanceNetworkInterfaceSpecificationToSdk) (insNetworkInterfaces x)) (\<lambda>networkInterfaces.
     onOk (optOk placementToSdk (insPlacement x)) (\<lambda>placement.
     Inr \<lparr>riBlockDeviceMappings = blockDeviceMappings,
       riCapacityReservationSpecification = map_option capacityReservationSpecificationToSdk (insCapacityReservationSpecification x),
       riCpuOptions = cpuOptions, riCreditSpecification = map_option creditSpecificationRequestToSdk (insCreditSpecification x),
       riDisableApiStop = insDisableAPIStop x, riDisableApiTermination = insDisableAPITermination x,
       riEbsOptimized = insEBSOptimized x,
       riElasticGpuSpecification = map_option (map elasticGpuSpecificationToSdk) (insElasticGPUSpecification x),
       riElasticInferenceAccelerators = elasticInferenceAccelerators,
       riEnclaveOptions = map_option enclaveOptionsRequestToSdk (insEnclaveOptions x),
       riHibernationOptions = map_option hibernationOptionsRequestToSdk (insHibernationOptions x),
       riIamInstanceProfile = map_option iamInstanceProfileSpecificationToSdk (insIAMInstanceProfile x), riImageId = insImageID x,
       riInstanceInitiatedShutdownBehavior = safeString (insInstanceInitiatedShutdownBehavior x),
       riInstanceMarketOptions = instanceMarketOptions, riInstanceType = safeString (insInstanceType x),
       riIpv6AddressCount = ipv6AddressCount, riIpv6Addresses = map_option (map instanceIpv6AddressToSdk) (insIPv6Addresses x),
       riKernelId = insKernelID x, riKeyName = insKeyName x,
       riLaunchTemplate = map_option launchTemplateSpecificationToSdk (insLaunchTemplate x),
       riLicenseSpecifications = map_option (map licenseConfigurationRequestToSdk) (insLicenseSpecifications x),
       riMaintenanceOptions = map_option instanceMaintenanceOptionsRequestToSdk (insMaintenanceOptions x),
       riMetadataOptions = metadataOptions, riMonitoring = map_option runInstancesMonitoringEnabledToSdk (insMonitoring x),
       riNetworkInterfaces = networkInterfaces, riPlacement = placement,
       riPrivateDnsNameOptions = map_option privateDnsNameOptionsRequestToSdk (insPrivateDNSNameOptions x),
       riPrivateIpAddress = insPrivateIPAddress x, riRamdiskId = insRAMDiskID x,
       riSecurityGroupIds = toStrings R (insSecurityGroupIDs x), riSecurityGroups = toStrings R (insSecurityGroups x),
       riSubnetId = insSubnetID x, riUserData = insUserData x, riMaxCount = Some 1, riMinCount = Some 1, riTagSpecifications = None\<rparr>)))))))))"

subsection \<open>Comparing\<close>

record instance_equalities =
  eqBlockDeviceMappings :: "block_device_mapping list \<Rightarrow> block_device_mapping list \<Rightarrow> bool"
  eqElasticGPUSpecification :: "elastic_gpu_specification list \<Rightarrow> elastic_gpu_specification list \<Rightarrow> bool"
  eqElasticInferenceAccelerators :: "elastic_inference_accelerator list \<Rightarrow> elastic_inference_accelerator list \<Rightarrow> bool"
  eqIPv6Addresses :: "instance_ipv6_address list \<Rightarrow> instance_ipv6_address list \<Rightarrow> bool"
  eqLicenseSpecifications :: "license_configuration_request list \<Rightarrow> license_configuration_request list \<Rightarrow> bool"
  eqNetworkInterfaces :: "instance_network_interface_specification list \<Rightarrow> instance_network_interface_specification list \<Rightarrow> bool"

definition compareCapacityReservationTarget_Instance :: "('x) ackcompare_scheme \<Rightarrow> capacity_reservation_target \<Rightarrow> capacity_reservation_target \<Rightarrow> delta \<Rightarrow> delta" where
  "compareCapacityReservationTarget_Instance C u v = inOrder
     [cmpStr C ''Spec.CapacityReservationSpecification.CapacityReservationTarget.CapacityReservationID'' (crtCapacityReservationID u) (crtCapacityReservationID v),
      cmpStr C ''Spec.CapacityReservationSpecification.CapacityReservationTarget.CapacityReservationResourceGroupARN'' (crtCapacityReservationResourceGroupARN u) (crtCapacityReservationResourceGroupARN v)]"

definition compareCapacityReservationSpecification_Instance :: "('x) ackcompare_scheme \<Rightarrow> capacity_reservation_specification \<Rightarrow> capacity_reservation_specification \<Rightarrow> delta \<Rightarrow> delta" where
  "compareCapacityReservationSpecification_Instance C u v = inOrder
     [cmpStr C ''Spec.CapacityReservationSpecification.CapacityReservationPreference'' (crsCapacityReservationPreference u) (crsCapacityReservationPreference v),
      compareStruct C ''Spec.CapacityReservationSpecification.CapacityReservationTarget'' (compareCapacityReservationTarget_Instance C) (crsCapacityReservationTarget u) (crsCapacityReservationTarget v)]"

definition compareCPUOptions_Instance :: "('x) ackcompare_scheme \<Rightarrow> cpu_options_request \<Rightarrow> cpu_options_request \<Rightarrow> delta \<Rightarrow> delta" where
  "compareCPUOptions_Instance C u v = inOrder
     [cmpInt C ''Spec.CPUOptions.CoreCount'' (corCoreCount u) (corCoreCount v),
      cmpStr C ''Spec.CPUOptions.NestedVirtualization'' (corNestedVirtualization u) (corNestedVirtualization v),
      cmpInt C ''Spec.CPUOptions.ThreadsPerCore'' (corThreadsPerCore u) (corThreadsPerCore v)]"

definition compareCreditSpecification_Instance :: "('x) ackcompare_scheme \<Rightarrow> credit_specification_request \<Rightarrow> credit_specification_request \<Rightarrow> delta \<Rightarrow> delta" where
  "compareCreditSpecification_Instance C u v = inOrder
     [cmpStr C ''Spec.CreditSpecification.CPUCredits'' (csrCPUCredits u) (csrCPUCredits v)]"

definition compareEnclaveOptions_Instance :: "('x) ackcompare_scheme \<Rightarrow> enclave_options_request \<Rightarrow> enclave_options_request \<Rightarrow> delta \<Rightarrow> delta" where
  "compareEnclaveOptions_Instance C u v = inOrder
     [cmpBool C ''Spec.EnclaveOptions.Enabled'' (eorEnabled u) (eorEnabled v)]"

definition compareHibernationOptions_Instance :: "('x) ackcompare_scheme \<Rightarrow> hibernation_options_request \<Rightarrow> hibernation_options_request \<Rightarrow> delta \<Rightarrow> delta" where
  "compareHibernationOptions_Instance C u v = inOrder
     [cmpBool C ''Spec.HibernationOptions.Configured'' (horConfigured u) (horConfigured v)]"

definition compareIAMInstanceProfile_Instance :: "('x) ackcompare_scheme \<Rightarrow> iam_instance_profile_specification \<Rightarrow> iam_instance_profile_specification \<Rightarrow> delta \<Rightarrow> delta" where
  "compareIAMInstanceProfile_Instance C u v = inOrder
     [cmpStr C ''Spec.IAMInstanceProfile.ARN'' (iipsARN u) (iipsARN v),
      cmpStr C ''Spec.IAMInstanceProfile.Name'' (iipsName u) (iipsName v)]"

definition compareSpotOptions_Instance :: "('x) ackcompare_scheme \<Rightarrow> spot_market_options \<Rightarrow> spot_market_options \<Rightarrow> delta \<Rightarrow> delta" where
  "compareSpotOptions_Instance C u v = inOrder
     [cmpInt C ''Spec.InstanceMarketOptions.SpotOptions.BlockDurationMinutes'' (smoBlockDurationMinutes u) (smoBlockDurationMinutes v),
      cmpStr C ''Spec.InstanceMarketOptions.SpotOptions.InstanceInterruptionBehavior'' (smoInstanceInterruptionBehavior u) (smoInstanceInterruptionBehavior v),
      cmpStr C ''Spec.InstanceMarketOptions.SpotOptions.MaxPrice'' (smoMaxPrice u) (smoMaxPrice v),
      cmpStr C ''Spec.InstanceMarketOptions.SpotOptions.SpotInstanceType'' (smoSpotInstanceType u) (smoSpotInstanceType v),
      cmpTime C ''Spec.InstanceMarketOptions.SpotOptions.ValidUntil'' (smoValidUntil u) (smoValidUntil v)]"

definition compareInstanceMarketOptions_Instance :: "('x) ackcompare_scheme \<Rightarrow> instance_market_options_request \<Rightarrow> instance_market_options_request \<Rightarrow> delta \<Rightarrow> delta" where
  "compareInstanceMarketOptions_Instance C u v = inOrder
     [cmpStr C ''Spec.InstanceMarketOptions.MarketType'' (mkoMarketType u) (mkoMarketType v),
      compareStruct C ''Spec.InstanceMarketOptions.SpotOptions'' (compareSpotOptions_Instance C) (mkoSpotOptions u) (mkoSpotOptions v)]"

definition compareLaunchTemplate_Instance :: "('x) ackcompare_scheme \<Rightarrow> launch_template_specification \<Rightarrow> launch_template_specification \<Rightarrow> delta \<Rightarrow> delta" where
  "compareLaunchTemplate_Instance C u v = inOrder
     [cmpStr C ''Spec.LaunchTemplate.LaunchTemplateID'' (ltsLaunchTemplateID u) (ltsLaunchTemplateID v),
      cmpStr C ''Spec.LaunchTemplate.LaunchTemplateName'' (ltsLaunchTemplateName u) (ltsLaunchTemplateName v),
      cmpStr C ''Spec.LaunchTemplate.Version'' (ltsVersion u) (ltsVersion v)]"

definition compareMaintenanceOptions_Instance :: "('x) ackcompare_scheme \<Rightarrow> instance_maintenance_options_request \<Rightarrow> instance_maintenance_options_request \<Rightarrow> delta \<Rightarrow> delta" where
  "compareMaintenanceOptions_Instance C u v = inOrder
     [cmpStr C ''Spec.MaintenanceOptions.AutoRecovery'' (mntAutoRecovery u) (mntAutoRecovery v)]"

definition compareMetadataOptions_Instance :: "('x) ackcompare_scheme \<Rightarrow> instance_metadata_options_request \<Rightarrow> instance_metadata_options_request \<Rightarrow> delta \<Rightarrow> delta" where
  "compareMetadataOptions_Instance C u v = inOrder
     [cmpStr C ''Spec.MetadataOptions.HTTPEndpoint'' (mdoHTTPEndpoint u) (mdoHTTPEndpoint v),
      cmpStr C ''Spec.MetadataOptions.HTTPProtocolIPv6'' (mdoHTTPProtocolIPv6 u) (mdoHTTPProtocolIPv6 v),
      cmpInt C ''Spec.MetadataOptions.HTTPPutResponseHopLimit'' (mdoHTTPPutResponseHopLimit u) (mdoHTTPPutResponseHopLimit v),
      cmpStr C ''Spec.MetadataOptions.HTTPTokens'' (mdoHTTPTokens u) (mdoHTTPTokens v),
      cmpStr C ''Spec.MetadataOptions.InstanceMetadataTags'' (mdoInstanceMetadataTags u) (mdoInstanceMetadataTags v)]"

definition compareMonitoring_Instance :: "('x) ackcompare_scheme \<Rightarrow> run_instances_monitoring_enabled \<Rightarrow> run_instances_monitoring_enabled \<Rightarrow> delta \<Rightarrow> delta" where
  "compareMonitoring_Instance C u v = inOrder
     [cmpBool C ''Spec.Monitoring.Enabled'' (eorEnabled u) (eorEnabled v)]"

definition comparePlacement_Instance :: "('x) ackcompare_scheme \<Rightarrow> placement \<Rightarrow> placement \<Rightarrow> delta \<Rightarrow> delta" where
  "comparePlacement_Instance C u v = inOrder
     [cmpStr C ''Spec.Placement.Affinity'' (plcAffinity u) (plcAffinity v),
      cmpStr C ''Spec.Placement.AvailabilityZone'' (plcAvailabilityZone u) (plcAvailabilityZone v),
      cmpStr C ''Spec.Placement.GroupName'' (plcGroupName u) (plcGroupName v),
      cmpStr C ''Spec.Placement.HostID'' (plcHostID u) (plcHostID v),
      cmpStr C ''Spec.Placement.HostResourceGroupARN'' (plcHostResourceGroupARN u) (plcHostResourceGroupARN v),
      cmpInt C ''Spec.Placement.PartitionNumber'' (plcPartitionNumber u) (plcPartitionNumber v),
      cmpStr C ''Spec.Placement.SpreadDomain'' (plcSpreadDomain u) (plcSpreadDomain v),
      cmpStr C ''Spec.Placement.Tenancy'' (plcTenancy u) (plcTenancy v)]"

definition comparePrivateDNSNameOptions_Instance :: "('x) ackcompare_scheme \<Rightarrow> private_dns_name_options_request \<Rightarrow> private_dns_name_options_request \<Rightarrow> delta \<Rightarrow> delta" where
  "comparePrivateDNSNameOptions_Instance C u v = inOrder
     [cmpBool C ''Spec.PrivateDNSNameOptions.EnableResourceNameDNSAAAARecord'' (pdnEnableResourceNameDNSAAAARecord u) (pdnEnableResourceNameDNSAAAARecord v),
      cmpBool C ''Spec.PrivateDNSNameOptions.EnableResourceNameDNSARecord'' (pdnEnableResourceNameDNSARecord u) (pdnEnableResourceNameDNSARecord v),
      cmpStr C ''Spec.PrivateDNSNameOptions.HostnameType'' (pdnHostnameType u) (pdnHostnameType v)]"

definition compareSpecs_Instance :: "('x) ackcompare_scheme \<Rightarrow> ('y) instance_equalities_scheme \<Rightarrow> instance_spec \<Rightarrow> instance_spec \<Rightarrow> delta \<Rightarrow> delta" where
  "compareSpecs_Instance C E u v = inOrder
     [compareList (eqBlockDeviceMappings E) ''Spec.BlockDeviceMappings'' (insBlockDeviceMappings u) (insBlockDeviceMappings v),
      compareStruct C ''Spec.CapacityReservationSpecification'' (compareCapacityReservationSpecification_Instance C) (insCapacityReservationSpecification u) (insCapacityReservationSpecification v),
      compareStruct C ''Spec.CPUOptions'' (compareCPUOptions_Instance C) (insCPUOptions u) (insCPUOptions v),
      compareStruct C ''Spec.CreditSpecification'' (compareCreditSpecification_Instance C) (insCreditSpecification u) (insCreditSpecification v),
      cmpBool C ''Spec.DisableAPIStop'' (insDisableAPIStop u) (insDisableAPIStop v),
      cmpBool C ''Spec.DisableAPITermination'' (insDisableAPITermination u) (insDisableAPITermination v),
      cmpBool C ''Spec.EBSOptimized'' (insEBSOptimized u) (insEBSOptimized v),
      compareList (eqElasticGPUSpecification E) ''Spec.ElasticGPUSpecification'' (insElasticGPUSpecification u) (insElasticGPUSpecification v),
      compareList (eqElasticInferenceAccelerators E) ''Spec.ElasticInferenceAccelerators'' (insElasticInferenceAccelerators u) (insElasticInferenceAccelerators v),
      compareStruct C ''Spec.EnclaveOptions'' (compareEnclaveOptions_Instance C) (insEnclaveOptions u) (insEnclaveOptions v),
      compareStruct C ''Spec.HibernationOptions'' (compareHibernationOptions_Instance C) (insHibernationOptions u) (insHibernationOptions v),
      compareStruct C ''Spec.IAMInstanceProfile'' (compareIAMInstanceProfile_Instance C) (insIAMInstanceProfile u) (insIAMInstanceProfile v),
      cmpStr C ''Spec.ImageID'' (insImageID u) (insImageID v),
      cmpStr C ''Spec.InstanceInitiatedShutdownBehavior'' (insInstanceInitiatedShutdownBehavior u) (insInstanceInitiatedShutdownBehavior v),
      compareStruct C ''Spec.InstanceMarketOptions'' (compareInstanceMarketOptions_Instance C) (insInstanceMarketOptions u) (insInstanceMarketOptions v),
      cmpStr C ''Spec.InstanceType'' (insInstanceType u) (insInstanceType v),
      cmpInt C ''Spec.IPv6AddressCount'' (insIPv6AddressCount u) (insIPv6AddressCount v),
      compareList (eqIPv6Addresses E) ''Spec.IPv6Addresses'' (insIPv6Addresses u) (insIPv6Addresses v),
      cmpStr C ''Spec.KernelID'' (insKernelID u) (insKernelID v), cmpStr C ''Spec.KeyName'' (insKeyName u) (insKeyName v),
      compareStruct C ''Spec.LaunchTemplate'' (compareLaunchTemplate_Instance C) (insLaunchTemplate u) (insLaunchTemplate v),
      compareList (eqLicenseSpecifications E) ''Spec.LicenseSpecifications'' (insLicenseSpecifications u) (insLicenseSpecifications v),
      compareStruct C ''Spec.MaintenanceOptions'' (compareMaintenanceOptions_Instance C) (insMaintenanceOptions u) (insMaintenanceOptions v),
      cmpInt C ''Spec.MaxCount'' (insMaxCount u) (insMaxCount v),
      compareStruct C ''Spec.MetadataOptions'' (compareMetadataOptions_Instance C) (insMetadataOptions u) (insMetadataOptions v),
      cmpInt C ''Spec.MinCount'' (insMinCount u) (insMinCount v),
      compareStruct C ''Spec.Monitoring'' (compareMonitoring_Instance C) (insMonitoring u) (insMonitoring v),
      compareList (eqNetworkInterfaces E) ''Spec.NetworkInterfaces'' (insNetworkInterfaces u) (insNetworkInterfaces v),
      compareStruct C ''Spec.Placement'' (comparePlacement_Instance C) (insPlacement u) (insPlacement v),
      compareStruct C ''Spec.PrivateDNSNameOptions'' (comparePrivateDNSNameOptions_Instance C) (insPrivateDNSNameOptions u) (insPrivateDNSNameOptions v),
      cmpStr C ''Spec.PrivateIPAddress'' (insPrivateIPAddress u) (insPrivateIPAddress v),
      cmpStr C ''Spec.RAMDiskID'' (insRAMDiskID u) (insRAMDiskID v),
      cmpStrs C ''Spec.SecurityGroupIDs'' (insSecurityGroupIDs u) (insSecurityGroupIDs v),
      cmpStrs C ''Spec.SecurityGroups'' (insSecurityGroups u) (insSecurityGroups v),
      cmpBool C ''Spec.SourceDestCheckEnabled'' (insSourceDestCheckEnabled u) (insSourceDestCheckEnabled v),
      cmpStr C ''Spec.SubnetID'' (insSubnetID u) (insSubnetID v), compareRef C ''Spec.SubnetRef'' (insSubnetRef u) (insSubnetRef v),
      compareTags C ''Spec.Tags'' (insTags u) (insTags v), cmpStr C ''Spec.UserData'' (insUserData u) (insUserData v)]"

text \<open>Each comparison of a struct reports paths below that of the struct.\<close>

lemma fields_Instance1 [fields]:
  shows "compares ''Spec.CapacityReservationSpecification.CapacityReservationTarget'' (compareCapacityReservationTarget_Instance C u0 v0)"
    and "compares ''Spec.InstanceMarketOptions.SpotOptions'' (compareSpotOptions_Instance C u1 v1)"
    and "compares ''Spec.CPUOptions'' (compareCPUOptions_Instance C u2 v2)"
    and "compares ''Spec.CreditSpecification'' (compareCreditSpecification_Instance C u3 v3)"
    and "compares ''Spec.EnclaveOptions'' (compareEnclaveOptions_Instance C u4 v4)"
    and "compares ''Spec.HibernationOptions'' (compareHibernationOptions_Instance C u5 v5)"
    and "compares ''Spec.IAMInstanceProfile'' (compareIAMInstanceProfile_Instance C u6 v6)"
    and "compares ''Spec.LaunchTemplate'' (compareLaunchTemplate_Instance C u7 v7)"
    and "compares ''Spec.MaintenanceOptions'' (compareMaintenanceOptions_Instance C u8 v8)"
    and "compares ''Spec.MetadataOptions'' (compareMetadataOptions_Instance C u9 v9)"
    and "compares ''Spec.Monitoring'' (compareMonitoring_Instance C u10 v10)"
    and "compares ''Spec.Placement'' (comparePlacement_Instance C u11 v11)"
    and "compares ''Spec.PrivateDNSNameOptions'' (comparePrivateDNSNameOptions_Instance C u12 v12)"
  unfolding compareCapacityReservationTarget_Instance_def compareSpotOptions_Instance_def compareCPUOptions_Instance_def
    compareCreditSpecification_Instance_def compareEnclaveOptions_Instance_def compareHibernationOptions_Instance_def
    compareIAMInstanceProfile_Instance_def compareLaunchTemplate_Instance_def compareMaintenanceOptions_Instance_def
    compareMetadataOptions_Instance_def compareMonitoring_Instance_def comparePlacement_Instance_def
    comparePrivateDNSNameOptions_Instance_def
  by (intro compares_inOrder; simp add: below_simps liesAt_def)+

lemma fields_Instance2 [fields]:
  shows "compares ''Spec.CapacityReservationSpecification'' (compareCapacityReservationSpecification_Instance C u0 v0)"
    and "compares ''Spec.InstanceMarketOptions'' (compareInstanceMarketOptions_Instance C u1 v1)"
  unfolding compareCapacityReservationSpecification_Instance_def compareInstanceMarketOptions_Instance_def
  by (intro compares_inOrder; simp add: below_simps liesAt_def fields)+

end
