(* ===== verification/Template_Types.thy ===== *)
theory Template_Types
  imports Instance_Types
begin

text \<open>
  The data of the launch template controller: the types of \<open>apis/v1alpha1\<close> that a template is made
  of, what the service answers, and the conversions of the launch template data both ways that
  \<open>pkg/resource/launch_template/sdk.go\<close> spells out (\<open>newCreateRequestPayload\<close>,
  \<open>newUpdateRequestPayload\<close>, \<open>sdkUpdate\<close> and \<open>setRequestLaunchTemplateData\<close>). Types with the same
  fields are one record, also across the two kinds. Names that instances use too carry the suffix
  \<open>_Template\<close>.
\<close>

subsection \<open>The resource\<close>

record launch_template_ebs_block_device_request =
  ltebdrDeleteOnTermination :: "bool option"
  ltebdrEncrypted :: "bool option"
  ltebdrIOPS :: "int64 option"
  ltebdrKMSKeyID :: "string option"
  ltebdrSnapshotID :: "string option"
  ltebdrThroughput :: "int64 option"
  ltebdrVolumeSize :: "int64 option"
  ltebdrVolumeType :: "string option"

record launch_template_block_device_mapping_request =
  ltbdmrDeviceName :: "string option"
  ltbdmrEBS :: "launch_template_ebs_block_device_request option"
  ltbdmrNoDevice :: "string option"
  ltbdmrVirtualName :: "string option"

type_synonym launch_template_capacity_reservation_specification_request = capacity_reservation_specification

record launch_template_cpu_options_request =
  ltcorAmdSevSnp :: "string option"
  ltcorCoreCount :: "int64 option"
  ltcorNestedVirtualization :: "string option"
  ltcorThreadsPerCore :: "int64 option"

type_synonym launch_template_elastic_inference_accelerator = elastic_inference_accelerator

type_synonym launch_template_enclave_options_request = enclave_options_request

type_synonym launch_template_hibernation_options_request = hibernation_options_request

type_synonym launch_template_iam_instance_profile_specification_request = iam_instance_profile_specification

type_synonym launch_template_spot_market_options_request = spot_market_options

type_synonym launch_template_instance_market_options_request = instance_market_options_request

record accelerator_count_request =
  acrMax :: "int64 option"
  acrMin :: "int64 option"

type_synonym accelerator_total_memory_mib_request = accelerator_count_request

type_synonym baseline_ebs_bandwidth_mbps_request = accelerator_count_request

record performance_factor_reference_request =
  pfrrInstanceFamily :: "string option"

record cpu_performance_factor_request =
  cpfrReferences :: "performance_factor_reference_request list option"

record baseline_performance_factors_request =
  bpfrCPU :: "cpu_performance_factor_request option"

record memory_gib_per_vcpu_request =
  mgpvrMax :: "float64 option"
  mgpvrMin :: "float64 option"

type_synonym memory_mib_request = accelerator_count_request

type_synonym network_bandwidth_gbps_request = memory_gib_per_vcpu_request

type_synonym network_interface_count_request = accelerator_count_request

type_synonym total_local_storage_gb_request = memory_gib_per_vcpu_request

type_synonym vcpu_count_range_request = accelerator_count_request

record instance_requirements_request =
  irrAcceleratorCount :: "accelerator_count_request option"
  irrAcceleratorManufacturers :: "string option list"
  irrAcceleratorNames :: "string option list"
  irrAcceleratorTotalMemoryMiB :: "accelerator_total_memory_mib_request option"
  irrAcceleratorTypes :: "string option list"
  irrAllowedInstanceTypes :: "string option list"
  irrBareMetal :: "string option"
  irrBaselineEBSBandwidthMbps :: "baseline_ebs_bandwidth_mbps_request option"
  irrBaselinePerformanceFactors :: "baseline_performance_factors_request option"
  irrBurstablePerformance :: "string option"
  irrCPUManufacturers :: "string option list"
  irrExcludedInstanceTypes :: "string option list"
  irrInstanceGenerations :: "string option list"
  irrLocalStorage :: "string option"
  irrLocalStorageTypes :: "string option list"
  irrMaxSpotPriceAsPercentageOfOptimalOnDemandPrice :: "int64 option"
  irrMemoryGiBPerVCPU :: "memory_gib_per_vcpu_request option"
  irrMemoryMiB :: "memory_mib_request option"
  irrNetworkBandwidthGbps :: "network_bandwidth_gbps_request option"
  irrNetworkInterfaceCount :: "network_interface_count_request option"
  irrOnDemandMaxPricePercentageOverLowestPrice :: "int64 option"
  irrRequireHibernateSupport :: "bool option"
  irrSpotMaxPricePercentageOverLowestPrice :: "int64 option"
  irrTotalLocalStorageGB :: "total_local_storage_gb_request option"
  irrVCPUCount :: "vcpu_count_range_request option"

type_synonym launch_template_license_configuration_request = license_configuration_request

type_synonym launch_template_instance_maintenance_options_request = instance_maintenance_options_request

type_synonym launch_template_instance_metadata_options_request = instance_metadata_options_request

type_synonym launch_templates_monitoring_request = enclave_options_request

type_synonym instance_ipv6_address_request = instance_ipv6_address

record launch_template_instance_network_interface_specification_request =
  ltinisrAssociateCarrierIPAddress :: "bool option"
  ltinisrAssociatePublicIPAddress :: "bool option"
  ltinisrDeleteOnTermination :: "bool option"
  ltinisrDescription :: "string option"
  ltinisrDeviceIndex :: "int64 option"
  ltinisrGroups :: "string option list"
  ltinisrInterfaceType :: "string option"
  ltinisrIPv4PrefixCount :: "int64 option"
  ltinisrIPv4Prefixes :: "ipv4_prefix_specification_request list option"
  ltinisrIPv6AddressCount :: "int64 option"
  ltinisrIPv6Addresses :: "instance_ipv6_address_request list option"
  ltinisrIPv6PrefixCount :: "int64 option"
  ltinisrIPv6Prefixes :: "ipv6_prefix_specification_request list option"
  ltinisrNetworkCardIndex :: "int64 option"
  ltinisrNetworkInterfaceID :: "string option"
  ltinisrPrimaryIPv6 :: "bool option"
  ltinisrPrivateIPAddress :: "string option"
  ltinisrPrivateIPAddresses :: "private_ip_address_specification list option"
  ltinisrSecondaryPrivateIPAddressCount :: "int64 option"
  ltinisrSubnetID :: "string option"

record launch_template_placement_request =
  ltprAffinity :: "string option"
  ltprAvailabilityZone :: "string option"
  ltprGroupID :: "string option"
  ltprGroupName :: "string option"
  ltprHostID :: "string option"
  ltprHostResourceGroupARN :: "string option"
  ltprPartitionNumber :: "int64 option"
  ltprSpreadDomain :: "string option"
  ltprTenancy :: "string option"

type_synonym launch_template_private_dns_name_options_request = private_dns_name_options_request

record launch_template_tag_specification_request =
  lttsrResourceType :: "string option"
  lttsrTags :: "tag list option"

record request_launch_template_data =
  rltdBlockDeviceMappings :: "launch_template_block_device_mapping_request list option"
  rltdCapacityReservationSpecification :: "launch_template_capacity_reservation_specification_request option"
  rltdCPUOptions :: "launch_template_cpu_options_request option"
  rltdCreditSpecification :: "credit_specification_request option"
  rltdDisableAPIStop :: "bool option"
  rltdDisableAPITermination :: "bool option"
  rltdEBSOptimized :: "bool option"
  rltdElasticGPUSpecifications :: "elastic_gpu_specification list option"
  rltdElasticInferenceAccelerators :: "launch_template_elastic_inference_accelerator list option"
  rltdEnclaveOptions :: "launch_template_enclave_options_request option"
  rltdHibernationOptions :: "launch_template_hibernation_options_request option"
  rltdIAMInstanceProfile :: "launch_template_iam_instance_profile_specification_request option"
  rltdImageID :: "string option"
  rltdInstanceInitiatedShutdownBehavior :: "string option"
  rltdInstanceMarketOptions :: "launch_template_instance_market_options_request option"
  rltdInstanceRequirements :: "instance_requirements_request option"
  rltdInstanceType :: "string option"
  rltdKernelID :: "string option"
  rltdKeyName :: "string option"
  rltdLicenseSpecifications :: "launch_template_license_configuration_request list option"
  rltdMaintenanceOptions :: "launch_template_instance_maintenance_options_request option"
  rltdMetadataOptions :: "launch_template_instance_metadata_options_request option"
  rltdMonitoring :: "launch_templates_monitoring_request option"
  rltdNetworkInterfaces :: "launch_template_instance_network_interface_specification_request list option"
  rltdPlacement :: "launch_template_placement_request option"
  rltdPrivateDNSNameOptions :: "launch_template_private_dns_name_options_request option"
  rltdRAMDiskID :: "string option"
  rltdSecurityGroupIDs :: "string option list"
  rltdSecurityGroups :: "string option list"
  rltdTagSpecifications :: "launch_template_tag_specification_request list option"
  rltdUserData :: "string option"

record launch_template_spec =
  ltspData :: "request_launch_template_data option"
  ltspDefaultVersion :: "int64 option"
  ltspName :: "string option"
  ltspTags :: "tag list option"
  ltspVersionDescription :: "string option"

record operator_response =
  oreManaged :: "bool option"
  orePrincipal :: "string option"

record launch_template_status = common_status +
  ltstCreateTime :: "timestamp option"
  ltstCreatedBy :: "string option"
  ltstID :: "string option"
  ltstLatestVersion :: "int64 option"
  ltstOperator :: "operator_response option"

record launch_template =
  ltSpec :: launch_template_spec
  ltStatus :: launch_template_status

subsection \<open>The answers of the service\<close>

type_synonym sdk_launch_template_ebs_block_device = sdk_launch_template_ebs_block_device_request

type_synonym sdk_launch_template_block_device_mapping = sdk_launch_template_block_device_mapping_request

type_synonym sdk_launch_template_capacity_reservation_specification_response = sdk_capacity_reservation_specification

type_synonym sdk_launch_template_cpu_options = sdk_launch_template_cpu_options_request

type_synonym sdk_credit_specification = sdk_credit_specification_request

type_synonym sdk_elastic_gpu_specification_response = sdk_elastic_gpu_specification

type_synonym sdk_launch_template_elastic_inference_accelerator_response = sdk_elastic_inference_accelerator

type_synonym sdk_launch_template_enclave_options = sdk_enclave_options_request

type_synonym sdk_launch_template_hibernation_options = sdk_hibernation_options_request

type_synonym sdk_launch_template_iam_instance_profile_specification = sdk_iam_instance_profile_specification

type_synonym sdk_launch_template_spot_market_options = sdk_spot_market_options

type_synonym sdk_launch_template_instance_market_options = sdk_instance_market_options_request

type_synonym sdk_accelerator_count = sdk_accelerator_count_request

type_synonym sdk_accelerator_total_memory_mib = sdk_accelerator_count_request

type_synonym sdk_baseline_ebs_bandwidth_mbps = sdk_accelerator_count_request

type_synonym sdk_performance_factor_reference = sdk_performance_factor_reference_request

type_synonym sdk_cpu_performance_factor = sdk_cpu_performance_factor_request

type_synonym sdk_baseline_performance_factors = sdk_baseline_performance_factors_request

type_synonym sdk_memory_gib_per_vcpu = sdk_memory_gib_per_v_cpu_request

type_synonym sdk_memory_mib = sdk_accelerator_count_request

type_synonym sdk_network_bandwidth_gbps = sdk_memory_gib_per_v_cpu_request

type_synonym sdk_network_interface_count = sdk_accelerator_count_request

type_synonym sdk_total_local_storage_gb = sdk_memory_gib_per_v_cpu_request

type_synonym sdk_vcpu_count_range = sdk_accelerator_count_request

type_synonym sdk_instance_requirements = sdk_instance_requirements_request

type_synonym sdk_launch_template_license_configuration = sdk_license_configuration_request

type_synonym sdk_launch_template_instance_maintenance_options = sdk_instance_maintenance_options_request

type_synonym sdk_launch_template_instance_metadata_options = sdk_instance_metadata_options_request

type_synonym sdk_launch_templates_monitoring = sdk_enclave_options_request

type_synonym sdk_ipv4_prefix_specification_response = sdk_ipv4_prefix_specification_request

type_synonym sdk_ipv6_prefix_specification_response = sdk_ipv6_prefix_specification_request

type_synonym sdk_launch_template_instance_network_interface_specification = sdk_launch_template_instance_network_interface_specification_request

type_synonym sdk_launch_template_placement = sdk_launch_template_placement_request

type_synonym sdk_launch_template_private_dns_name_options = sdk_private_dns_name_options_request

type_synonym sdk_launch_template_tag_specification = sdk_launch_template_tag_specification_request

type_synonym sdk_response_launch_template_data = sdk_request_launch_template_data

record sdk_operator_response =
  sdkOrManaged :: "bool option"
  sdkOrPrincipal :: "string option"

record sdk_launch_template =
  sdkLtCreateTime :: "timestamp option"
  sdkLtCreatedBy :: "string option"
  sdkLtDefaultVersionNumber :: "int64 option"
  sdkLtLatestVersionNumber :: "int64 option"
  sdkLtLaunchTemplateId :: "string option"
  sdkLtLaunchTemplateName :: "string option"
  sdkLtOperator :: "sdk_operator_response option"
  sdkLtTags :: "sdk_tag list option"

record sdk_launch_template_version =
  sdkLtvCreateTime :: "timestamp option"
  sdkLtvCreatedBy :: "string option"
  sdkLtvLaunchTemplateData :: "sdk_response_launch_template_data option"
  sdkLtvLaunchTemplateId :: "string option"
  sdkLtvOperator :: "sdk_operator_response option"
  sdkLtvVersionDescription :: "string option"
  sdkLtvVersionNumber :: "int64 option"

subsection \<open>Reading\<close>

definition launchTemplateEbsBlockDeviceRequestFromSdk :: "sdk_launch_template_ebs_block_device \<Rightarrow> launch_template_ebs_block_device_request" where
  "launchTemplateEbsBlockDeviceRequestFromSdk x = \<lparr>ltebdrDeleteOnTermination = sdkLtebdrDeleteOnTermination x, ltebdrEncrypted = sdkLtebdrEncrypted x,
       ltebdrIOPS = map_option toInt64 (sdkLtebdrIops x), ltebdrKMSKeyID = sdkLtebdrKmsKeyId x,
       ltebdrSnapshotID = sdkLtebdrSnapshotId x, ltebdrThroughput = map_option toInt64 (sdkLtebdrThroughput x),
       ltebdrVolumeSize = map_option toInt64 (sdkLtebdrVolumeSize x), ltebdrVolumeType = enumPtr (sdkLtebdrVolumeType x)\<rparr>"

definition launchTemplateBlockDeviceMappingRequestFromSdk :: "sdk_launch_template_block_device_mapping \<Rightarrow> launch_template_block_device_mapping_request" where
  "launchTemplateBlockDeviceMappingRequestFromSdk x = \<lparr>ltbdmrDeviceName = sdkLtbdmrDeviceName x, ltbdmrEBS = map_option launchTemplateEbsBlockDeviceRequestFromSdk (sdkLtbdmrEbs x),
       ltbdmrNoDevice = sdkLtbdmrNoDevice x, ltbdmrVirtualName = sdkLtbdmrVirtualName x\<rparr>"

definition capacityReservationTargetFromSdk_Template :: "sdk_capacity_reservation_target_response \<Rightarrow> capacity_reservation_target" where
  "capacityReservationTargetFromSdk_Template x = \<lparr>crtCapacityReservationID = sdkCrtCapacityReservationId x,
       crtCapacityReservationResourceGroupARN = sdkCrtCapacityReservationResourceGroupArn x\<rparr>"

definition launchTemplateCapacityReservationSpecificationRequestFromSdk :: "sdk_launch_template_capacity_reservation_specification_response \<Rightarrow> launch_template_capacity_reservation_specification_request" where
  "launchTemplateCapacityReservationSpecificationRequestFromSdk x = \<lparr>crsCapacityReservationPreference = enumPtr (sdkCrsCapacityReservationPreference x),
       crsCapacityReservationTarget = map_option capacityReservationTargetFromSdk_Template (sdkCrsCapacityReservationTarget x)\<rparr>"

definition launchTemplateCpuOptionsRequestFromSdk :: "sdk_launch_template_cpu_options \<Rightarrow> launch_template_cpu_options_request" where
  "launchTemplateCpuOptionsRequestFromSdk x = \<lparr>ltcorAmdSevSnp = enumPtr (sdkLtcorAmdSevSnp x), ltcorCoreCount = map_option toInt64 (sdkLtcorCoreCount x),
       ltcorNestedVirtualization = enumPtr (sdkLtcorNestedVirtualization x),
       ltcorThreadsPerCore = map_option toInt64 (sdkLtcorThreadsPerCore x)\<rparr>"

definition creditSpecificationRequestFromSdk_Template :: "sdk_credit_specification \<Rightarrow> credit_specification_request" where
  "creditSpecificationRequestFromSdk_Template x = \<lparr>csrCPUCredits = sdkCsrCpuCredits x\<rparr>"

definition elasticGpuSpecificationFromSdk_Template :: "sdk_elastic_gpu_specification_response \<Rightarrow> elastic_gpu_specification" where
  "elasticGpuSpecificationFromSdk_Template x = \<lparr>egsType = sdkEgsType x\<rparr>"

definition launchTemplateElasticInferenceAcceleratorFromSdk :: "sdk_launch_template_elastic_inference_accelerator_response \<Rightarrow> launch_template_elastic_inference_accelerator" where
  "launchTemplateElasticInferenceAcceleratorFromSdk x = \<lparr>eiaCount = map_option toInt64 (sdkEiaCount x), eiaType = sdkEiaType x\<rparr>"

definition launchTemplateEnclaveOptionsRequestFromSdk :: "sdk_launch_template_enclave_options \<Rightarrow> launch_template_enclave_options_request" where
  "launchTemplateEnclaveOptionsRequestFromSdk x = \<lparr>eorEnabled = sdkEorEnabled x\<rparr>"

definition launchTemplateHibernationOptionsRequestFromSdk :: "sdk_launch_template_hibernation_options \<Rightarrow> launch_template_hibernation_options_request" where
  "launchTemplateHibernationOptionsRequestFromSdk x = \<lparr>horConfigured = sdkHorConfigured x\<rparr>"

definition launchTemplateIamInstanceProfileSpecificationRequestFromSdk :: "sdk_launch_template_iam_instance_profile_specification \<Rightarrow> launch_template_iam_instance_profile_specification_request" where
  "launchTemplateIamInstanceProfileSpecificationRequestFromSdk x = \<lparr>iipsARN = sdkIipsArn x, iipsName = sdkIipsName x\<rparr>"

definition launchTemplateSpotMarketOptionsRequestFromSdk :: "sdk_launch_template_spot_market_options \<Rightarrow> launch_template_spot_market_options_request" where
  "launchTemplateSpotMarketOptionsRequestFromSdk x = \<lparr>smoBlockDurationMinutes = map_option toInt64 (sdkSmoBlockDurationMinutes x),
       smoInstanceInterruptionBehavior = enumPtr (sdkSmoInstanceInterruptionBehavior x), smoMaxPrice = sdkSmoMaxPrice x,
       smoSpotInstanceType = enumPtr (sdkSmoSpotInstanceType x), smoValidUntil = sdkSmoValidUntil x\<rparr>"

definition launchTemplateInstanceMarketOptionsRequestFromSdk :: "sdk_launch_template_instance_market_options \<Rightarrow> launch_template_instance_market_options_request" where
  "launchTemplateInstanceMarketOptionsRequestFromSdk x = \<lparr>mkoMarketType = enumPtr (sdkMkoMarketType x),
       mkoSpotOptions = map_option launchTemplateSpotMarketOptionsRequestFromSdk (sdkMkoSpotOptions x)\<rparr>"

definition acceleratorCountRequestFromSdk :: "sdk_accelerator_count \<Rightarrow> accelerator_count_request" where
  "acceleratorCountRequestFromSdk x = \<lparr>acrMax = map_option toInt64 (sdkAcrMax x), acrMin = map_option toInt64 (sdkAcrMin x)\<rparr>"

definition acceleratorTotalMemoryMibRequestFromSdk :: "sdk_accelerator_total_memory_mib \<Rightarrow> accelerator_total_memory_mib_request" where
  "acceleratorTotalMemoryMibRequestFromSdk x = \<lparr>acrMax = map_option toInt64 (sdkAcrMax x), acrMin = map_option toInt64 (sdkAcrMin x)\<rparr>"

definition baselineEbsBandwidthMbpsRequestFromSdk :: "sdk_baseline_ebs_bandwidth_mbps \<Rightarrow> baseline_ebs_bandwidth_mbps_request" where
  "baselineEbsBandwidthMbpsRequestFromSdk x = \<lparr>acrMax = map_option toInt64 (sdkAcrMax x), acrMin = map_option toInt64 (sdkAcrMin x)\<rparr>"

definition performanceFactorReferenceRequestFromSdk :: "sdk_performance_factor_reference \<Rightarrow> performance_factor_reference_request" where
  "performanceFactorReferenceRequestFromSdk x = \<lparr>pfrrInstanceFamily = sdkPfrrInstanceFamily x\<rparr>"

definition cpuPerformanceFactorRequestFromSdk :: "sdk_cpu_performance_factor \<Rightarrow> cpu_performance_factor_request" where
  "cpuPerformanceFactorRequestFromSdk x = \<lparr>cpfrReferences = map_option (map performanceFactorReferenceRequestFromSdk) (sdkCpfrReferences x)\<rparr>"

definition baselinePerformanceFactorsRequestFromSdk :: "sdk_baseline_performance_factors \<Rightarrow> baseline_performance_factors_request" where
  "baselinePerformanceFactorsRequestFromSdk x = \<lparr>bpfrCPU = map_option cpuPerformanceFactorRequestFromSdk (sdkBpfrCpu x)\<rparr>"

definition memoryGibPerVcpuRequestFromSdk :: "sdk_memory_gib_per_vcpu \<Rightarrow> memory_gib_per_vcpu_request" where
  "memoryGibPerVcpuRequestFromSdk x = \<lparr>mgpvrMax = sdkMgpvcrMax x, mgpvrMin = sdkMgpvcrMin x\<rparr>"

definition memoryMibRequestFromSdk :: "sdk_memory_mib \<Rightarrow> memory_mib_request" where
  "memoryMibRequestFromSdk x = \<lparr>acrMax = map_option toInt64 (sdkAcrMax x), acrMin = map_option toInt64 (sdkAcrMin x)\<rparr>"

definition networkBandwidthGbpsRequestFromSdk :: "sdk_network_bandwidth_gbps \<Rightarrow> network_bandwidth_gbps_request" where
  "networkBandwidthGbpsRequestFromSdk x = \<lparr>mgpvrMax = sdkMgpvcrMax x, mgpvrMin = sdkMgpvcrMin x\<rparr>"

definition networkInterfaceCountRequestFromSdk :: "sdk_network_interface_count \<Rightarrow> network_interface_count_request" where
  "networkInterfaceCountRequestFromSdk x = \<lparr>acrMax = map_option toInt64 (sdkAcrMax x), acrMin = map_option toInt64 (sdkAcrMin x)\<rparr>"

definition totalLocalStorageGbRequestFromSdk :: "sdk_total_local_storage_gb \<Rightarrow> total_local_storage_gb_request" where
  "totalLocalStorageGbRequestFromSdk x = \<lparr>mgpvrMax = sdkMgpvcrMax x, mgpvrMin = sdkMgpvcrMin x\<rparr>"

definition vcpuCountRangeRequestFromSdk :: "sdk_vcpu_count_range \<Rightarrow> vcpu_count_range_request" where
  "vcpuCountRangeRequestFromSdk x = \<lparr>acrMax = map_option toInt64 (sdkAcrMax x), acrMin = map_option toInt64 (sdkAcrMin x)\<rparr>"

definition instanceRequirementsRequestFromSdk :: "('y) ack_runtime_scheme \<Rightarrow> sdk_instance_requirements \<Rightarrow> instance_requirements_request" where
  "instanceRequirementsRequestFromSdk R x = \<lparr>irrAcceleratorCount = map_option acceleratorCountRequestFromSdk (sdkIrrAcceleratorCount x),
       irrAcceleratorManufacturers = map Some (sdkIrrAcceleratorManufacturers x),
       irrAcceleratorNames = map Some (sdkIrrAcceleratorNames x),
       irrAcceleratorTotalMemoryMiB = map_option acceleratorTotalMemoryMibRequestFromSdk (sdkIrrAcceleratorTotalMemoryMiB x),
       irrAcceleratorTypes = map Some (sdkIrrAcceleratorTypes x),
       irrAllowedInstanceTypes = fromStrings R (sdkIrrAllowedInstanceTypes x), irrBareMetal = enumPtr (sdkIrrBareMetal x),
       irrBaselineEBSBandwidthMbps = map_option baselineEbsBandwidthMbpsRequestFromSdk (sdkIrrBaselineEbsBandwidthMbps x),
       irrBaselinePerformanceFactors = map_option baselinePerformanceFactorsRequestFromSdk (sdkIrrBaselinePerformanceFactors x),
       irrBurstablePerformance = enumPtr (sdkIrrBurstablePerformance x), irrCPUManufacturers = map Some (sdkIrrCpuManufacturers x),
       irrExcludedInstanceTypes = fromStrings R (sdkIrrExcludedInstanceTypes x),
       irrInstanceGenerations = map Some (sdkIrrInstanceGenerations x), irrLocalStorage = enumPtr (sdkIrrLocalStorage x),
       irrLocalStorageTypes = map Some (sdkIrrLocalStorageTypes x),
       irrMaxSpotPriceAsPercentageOfOptimalOnDemandPrice = map_option toInt64 (sdkIrrMaxSpotPriceAsPercentageOfOptimalOnDemandPrice x),
       irrMemoryGiBPerVCPU = map_option memoryGibPerVcpuRequestFromSdk (sdkIrrMemoryGiBPerVCpu x),
       irrMemoryMiB = map_option memoryMibRequestFromSdk (sdkIrrMemoryMiB x),
       irrNetworkBandwidthGbps = map_option networkBandwidthGbpsRequestFromSdk (sdkIrrNetworkBandwidthGbps x),
       irrNetworkInterfaceCount = map_option networkInterfaceCountRequestFromSdk (sdkIrrNetworkInterfaceCount x),
       irrOnDemandMaxPricePercentageOverLowestPrice = map_option toInt64 (sdkIrrOnDemandMaxPricePercentageOverLowestPrice x),
       irrRequireHibernateSupport = sdkIrrRequireHibernateSupport x,
       irrSpotMaxPricePercentageOverLowestPrice = map_option toInt64 (sdkIrrSpotMaxPricePercentageOverLowestPrice x),
       irrTotalLocalStorageGB = map_option totalLocalStorageGbRequestFromSdk (sdkIrrTotalLocalStorageGB x),
       irrVCPUCount = map_option vcpuCountRangeRequestFromSdk (sdkIrrVCpuCount x)\<rparr>"

definition launchTemplateLicenseConfigurationRequestFromSdk :: "sdk_launch_template_license_configuration \<Rightarrow> launch_template_license_configuration_request" where
  "launchTemplateLicenseConfigurationRequestFromSdk x = \<lparr>lcrLicenseConfigurationARN = sdkLcrLicenseConfigurationArn x\<rparr>"

definition launchTemplateInstanceMaintenanceOptionsRequestFromSdk :: "sdk_launch_template_instance_maintenance_options \<Rightarrow> launch_template_instance_maintenance_options_request" where
  "launchTemplateInstanceMaintenanceOptionsRequestFromSdk x = \<lparr>mntAutoRecovery = enumPtr (sdkMntAutoRecovery x)\<rparr>"

definition launchTemplateInstanceMetadataOptionsRequestFromSdk :: "sdk_launch_template_instance_metadata_options \<Rightarrow> launch_template_instance_metadata_options_request" where
  "launchTemplateInstanceMetadataOptionsRequestFromSdk x = \<lparr>mdoHTTPEndpoint = enumPtr (sdkMdoHttpEndpoint x), mdoHTTPProtocolIPv6 = enumPtr (sdkMdoHttpProtocolIpv6 x),
       mdoHTTPPutResponseHopLimit = map_option toInt64 (sdkMdoHttpPutResponseHopLimit x),
       mdoHTTPTokens = enumPtr (sdkMdoHttpTokens x), mdoInstanceMetadataTags = enumPtr (sdkMdoInstanceMetadataTags x)\<rparr>"

definition launchTemplatesMonitoringRequestFromSdk :: "sdk_launch_templates_monitoring \<Rightarrow> launch_templates_monitoring_request" where
  "launchTemplatesMonitoringRequestFromSdk x = \<lparr>eorEnabled = sdkEorEnabled x\<rparr>"

definition ipv4PrefixSpecificationRequestFromSdk_Template :: "sdk_ipv4_prefix_specification_response \<Rightarrow> ipv4_prefix_specification_request" where
  "ipv4PrefixSpecificationRequestFromSdk_Template x = \<lparr>ip4IPv4Prefix = sdkR4Ipv4Prefix x\<rparr>"

definition instanceIpv6AddressRequestFromSdk :: "sdk_instance_ipv6_address \<Rightarrow> instance_ipv6_address_request" where
  "instanceIpv6AddressRequestFromSdk x = \<lparr>iiaIPv6Address = sdkIiaIpv6Address x\<rparr>"

definition ipv6PrefixSpecificationRequestFromSdk_Template :: "sdk_ipv6_prefix_specification_response \<Rightarrow> ipv6_prefix_specification_request" where
  "ipv6PrefixSpecificationRequestFromSdk_Template x = \<lparr>ip6IPv6Prefix = sdkR6Ipv6Prefix x\<rparr>"

definition privateIpAddressSpecificationFromSdk_Template :: "sdk_private_ip_address_specification \<Rightarrow> private_ip_address_specification" where
  "privateIpAddressSpecificationFromSdk_Template x = \<lparr>piasPrimary = sdkPiasPrimary x, piasPrivateIPAddress = sdkPiasPrivateIpAddress x\<rparr>"

definition launchTemplateInstanceNetworkInterfaceSpecificationRequestFromSdk :: "('y) ack_runtime_scheme \<Rightarrow> sdk_launch_template_instance_network_interface_specification \<Rightarrow> launch_template_instance_network_interface_specification_request" where
  "launchTemplateInstanceNetworkInterfaceSpecificationRequestFromSdk R x = \<lparr>ltinisrAssociateCarrierIPAddress = sdkLtinisrAssociateCarrierIpAddress x,
       ltinisrAssociatePublicIPAddress = sdkLtinisrAssociatePublicIpAddress x,
       ltinisrDeleteOnTermination = sdkLtinisrDeleteOnTermination x, ltinisrDescription = sdkLtinisrDescription x,
       ltinisrDeviceIndex = map_option toInt64 (sdkLtinisrDeviceIndex x), ltinisrGroups = fromStrings R (sdkLtinisrGroups x),
       ltinisrInterfaceType = sdkLtinisrInterfaceType x, ltinisrIPv4PrefixCount = map_option toInt64 (sdkLtinisrIpv4PrefixCount x),
       ltinisrIPv4Prefixes = map_option (map ipv4PrefixSpecificationRequestFromSdk_Template) (sdkLtinisrIpv4Prefixes x),
       ltinisrIPv6AddressCount = map_option toInt64 (sdkLtinisrIpv6AddressCount x),
       ltinisrIPv6Addresses = map_option (map instanceIpv6AddressRequestFromSdk) (sdkLtinisrIpv6Addresses x),
       ltinisrIPv6PrefixCount = map_option toInt64 (sdkLtinisrIpv6PrefixCount x),
       ltinisrIPv6Prefixes = map_option (map ipv6PrefixSpecificationRequestFromSdk_Template) (sdkLtinisrIpv6Prefixes x),
       ltinisrNetworkCardIndex = map_option toInt64 (sdkLtinisrNetworkCardIndex x),
       ltinisrNetworkInterfaceID = sdkLtinisrNetworkInterfaceId x, ltinisrPrimaryIPv6 = sdkLtinisrPrimaryIpv6 x,
       ltinisrPrivateIPAddress = sdkLtinisrPrivateIpAddress x,
       ltinisrPrivateIPAddresses = map_option (map privateIpAddressSpecificationFromSdk_Template) (sdkLtinisrPrivateIpAddresses x),
       ltinisrSecondaryPrivateIPAddressCount = map_option toInt64 (sdkLtinisrSecondaryPrivateIpAddressCount x),
       ltinisrSubnetID = sdkLtinisrSubnetId x\<rparr>"

definition launchTemplatePlacementRequestFromSdk :: "sdk_launch_template_placement \<Rightarrow> launch_template_placement_request" where
  "launchTemplatePlacementRequestFromSdk x = \<lparr>ltprAffinity = sdkLtprAffinity x, ltprAvailabilityZone = sdkLtprAvailabilityZone x, ltprGroupID = sdkLtprGroupId x,
       ltprGroupName = sdkLtprGroupName x, ltprHostID = sdkLtprHostId x, ltprHostResourceGroupARN = sdkLtprHostResourceGroupArn x,
       ltprPartitionNumber = map_option toInt64 (sdkLtprPartitionNumber x), ltprSpreadDomain = sdkLtprSpreadDomain x,
       ltprTenancy = enumPtr (sdkLtprTenancy x)\<rparr>"

definition launchTemplatePrivateDnsNameOptionsRequestFromSdk :: "sdk_launch_template_private_dns_name_options \<Rightarrow> launch_template_private_dns_name_options_request" where
  "launchTemplatePrivateDnsNameOptionsRequestFromSdk x = \<lparr>pdnEnableResourceNameDNSAAAARecord = sdkPdnorEnableResourceNameDnsAAAARecord x,
       pdnEnableResourceNameDNSARecord = sdkPdnorEnableResourceNameDnsARecord x, pdnHostnameType = enumPtr (sdkPdnorHostnameType x)\<rparr>"

definition launchTemplateTagSpecificationRequestFromSdk :: "sdk_launch_template_tag_specification \<Rightarrow> launch_template_tag_specification_request" where
  "launchTemplateTagSpecificationRequestFromSdk x = \<lparr>lttsrResourceType = enumPtr (sdkLttsrResourceType x), lttsrTags = map_option resourceTags (sdkLttsrTags x)\<rparr>"

definition requestLaunchTemplateDataFromSdk :: "('y) ack_runtime_scheme \<Rightarrow> sdk_response_launch_template_data \<Rightarrow> request_launch_template_data" where
  "requestLaunchTemplateDataFromSdk R x = \<lparr>rltdBlockDeviceMappings = map_option (map launchTemplateBlockDeviceMappingRequestFromSdk) (sdkRltdBlockDeviceMappings x),
       rltdCapacityReservationSpecification = map_option launchTemplateCapacityReservationSpecificationRequestFromSdk (sdkRltdCapacityReservationSpecification x),
       rltdCPUOptions = map_option launchTemplateCpuOptionsRequestFromSdk (sdkRltdCpuOptions x),
       rltdCreditSpecification = map_option creditSpecificationRequestFromSdk_Template (sdkRltdCreditSpecification x),
       rltdDisableAPIStop = sdkRltdDisableApiStop x, rltdDisableAPITermination = sdkRltdDisableApiTermination x,
       rltdEBSOptimized = sdkRltdEbsOptimized x,
       rltdElasticGPUSpecifications = map_option (map elasticGpuSpecificationFromSdk_Template) (sdkRltdElasticGpuSpecifications x),
       rltdElasticInferenceAccelerators = map_option (map launchTemplateElasticInferenceAcceleratorFromSdk) (sdkRltdElasticInferenceAccelerators x),
       rltdEnclaveOptions = map_option launchTemplateEnclaveOptionsRequestFromSdk (sdkRltdEnclaveOptions x),
       rltdHibernationOptions = map_option launchTemplateHibernationOptionsRequestFromSdk (sdkRltdHibernationOptions x),
       rltdIAMInstanceProfile = map_option launchTemplateIamInstanceProfileSpecificationRequestFromSdk (sdkRltdIamInstanceProfile x),
       rltdImageID = sdkRltdImageId x, rltdInstanceInitiatedShutdownBehavior = enumPtr (sdkRltdInstanceInitiatedShutdownBehavior x),
       rltdInstanceMarketOptions = map_option launchTemplateInstanceMarketOptionsRequestFromSdk (sdkRltdInstanceMarketOptions x),
       rltdInstanceRequirements = map_option (instanceRequirementsRequestFromSdk R) (sdkRltdInstanceRequirements x),
       rltdInstanceType = enumPtr (sdkRltdInstanceType x), rltdKernelID = sdkRltdKernelId x, rltdKeyName = sdkRltdKeyName x,
       rltdLicenseSpecifications = map_option (map launchTemplateLicenseConfigurationRequestFromSdk) (sdkRltdLicenseSpecifications x),
       rltdMaintenanceOptions = map_option launchTemplateInstanceMaintenanceOptionsRequestFromSdk (sdkRltdMaintenanceOptions x),
       rltdMetadataOptions = map_option launchTemplateInstanceMetadataOptionsRequestFromSdk (sdkRltdMetadataOptions x),
       rltdMonitoring = map_option launchTemplatesMonitoringRequestFromSdk (sdkRltdMonitoring x),
       rltdNetworkInterfaces = map_option (map (launchTemplateInstanceNetworkInterfaceSpecificationRequestFromSdk R)) (sdkRltdNetworkInterfaces x),
       rltdPlacement = map_option launchTemplatePlacementRequestFromSdk (sdkRltdPlacement x),
       rltdPrivateDNSNameOptions = map_option launchTemplatePrivateDnsNameOptionsRequestFromSdk (sdkRltdPrivateDnsNameOptions x),
       rltdRAMDiskID = sdkRltdRamDiskId x, rltdSecurityGroupIDs = fromStrings R (sdkRltdSecurityGroupIds x),
       rltdSecurityGroups = fromStrings R (sdkRltdSecurityGroups x),
       rltdTagSpecifications = map_option (map launchTemplateTagSpecificationRequestFromSdk) (sdkRltdTagSpecifications x),
       rltdUserData = sdkRltdUserData x\<rparr>"

subsection \<open>Requests\<close>

definition launchTemplateEbsBlockDeviceRequestToSdk :: "launch_template_ebs_block_device_request \<Rightarrow> error + sdk_launch_template_ebs_block_device_request" where
  "launchTemplateEbsBlockDeviceRequestToSdk x =
     onOk (narrowInt32 ''Iops'' (ltebdrIOPS x)) (\<lambda>iops.
     onOk (narrowInt32 ''Throughput'' (ltebdrThroughput x)) (\<lambda>throughput.
     onOk (narrowInt32 ''VolumeSize'' (ltebdrVolumeSize x)) (\<lambda>volumeSize.
     Inr \<lparr>sdkLtebdrDeleteOnTermination = ltebdrDeleteOnTermination x, sdkLtebdrEncrypted = ltebdrEncrypted x, sdkLtebdrIops = iops,
       sdkLtebdrKmsKeyId = ltebdrKMSKeyID x, sdkLtebdrSnapshotId = ltebdrSnapshotID x, sdkLtebdrThroughput = throughput,
       sdkLtebdrVolumeSize = volumeSize, sdkLtebdrVolumeType = safeString (ltebdrVolumeType x),
       sdkLtebdrEbsCardIndex = None, sdkLtebdrVolumeInitializationRate = None\<rparr>)))"

definition launchTemplateBlockDeviceMappingRequestToSdk :: "launch_template_block_device_mapping_request \<Rightarrow> error + sdk_launch_template_block_device_mapping_request" where
  "launchTemplateBlockDeviceMappingRequestToSdk x =
     onOk (optOk launchTemplateEbsBlockDeviceRequestToSdk (ltbdmrEBS x)) (\<lambda>ebs.
     Inr \<lparr>sdkLtbdmrDeviceName = ltbdmrDeviceName x, sdkLtbdmrEbs = ebs, sdkLtbdmrNoDevice = ltbdmrNoDevice x,
       sdkLtbdmrVirtualName = ltbdmrVirtualName x\<rparr>)"

definition launchTemplateCapacityReservationSpecificationRequestToSdk :: "launch_template_capacity_reservation_specification_request \<Rightarrow> sdk_launch_template_capacity_reservation_specification_request" where
  "launchTemplateCapacityReservationSpecificationRequestToSdk x = \<lparr>sdkCrsCapacityReservationPreference = safeString (crsCapacityReservationPreference x),
       sdkCrsCapacityReservationTarget = map_option capacityReservationTargetToSdk (crsCapacityReservationTarget x)\<rparr>"

definition launchTemplateCpuOptionsRequestToSdk :: "launch_template_cpu_options_request \<Rightarrow> error + sdk_launch_template_cpu_options_request" where
  "launchTemplateCpuOptionsRequestToSdk x =
     onOk (narrowInt32 ''CoreCount'' (ltcorCoreCount x)) (\<lambda>coreCount.
     onOk (narrowInt32 ''ThreadsPerCore'' (ltcorThreadsPerCore x)) (\<lambda>threadsPerCore.
     Inr \<lparr>sdkLtcorAmdSevSnp = safeString (ltcorAmdSevSnp x), sdkLtcorCoreCount = coreCount,
       sdkLtcorNestedVirtualization = safeString (ltcorNestedVirtualization x), sdkLtcorThreadsPerCore = threadsPerCore\<rparr>))"

definition launchTemplateElasticInferenceAcceleratorToSdk :: "launch_template_elastic_inference_accelerator \<Rightarrow> error + sdk_launch_template_elastic_inference_accelerator" where
  "launchTemplateElasticInferenceAcceleratorToSdk x =
     onOk (narrowInt32 ''Count'' (eiaCount x)) (\<lambda>count'.
     Inr \<lparr>sdkEiaCount = count', sdkEiaType = eiaType x\<rparr>)"

definition launchTemplateEnclaveOptionsRequestToSdk :: "launch_template_enclave_options_request \<Rightarrow> sdk_launch_template_enclave_options_request" where
  "launchTemplateEnclaveOptionsRequestToSdk x = \<lparr>sdkEorEnabled = eorEnabled x\<rparr>"

definition launchTemplateHibernationOptionsRequestToSdk :: "launch_template_hibernation_options_request \<Rightarrow> sdk_launch_template_hibernation_options_request" where
  "launchTemplateHibernationOptionsRequestToSdk x = \<lparr>sdkHorConfigured = horConfigured x\<rparr>"

definition launchTemplateIamInstanceProfileSpecificationRequestToSdk :: "launch_template_iam_instance_profile_specification_request \<Rightarrow> sdk_launch_template_iam_instance_profile_specification_request" where
  "launchTemplateIamInstanceProfileSpecificationRequestToSdk x = \<lparr>sdkIipsArn = iipsARN x, sdkIipsName = iipsName x\<rparr>"

definition launchTemplateSpotMarketOptionsRequestToSdk :: "launch_template_spot_market_options_request \<Rightarrow> error + sdk_launch_template_spot_market_options_request" where
  "launchTemplateSpotMarketOptionsRequestToSdk x =
     onOk (narrowInt32 ''BlockDurationMinutes'' (smoBlockDurationMinutes x)) (\<lambda>blockDurationMinutes.
     Inr \<lparr>sdkSmoBlockDurationMinutes = blockDurationMinutes,
       sdkSmoInstanceInterruptionBehavior = safeString (smoInstanceInterruptionBehavior x), sdkSmoMaxPrice = smoMaxPrice x,
       sdkSmoSpotInstanceType = safeString (smoSpotInstanceType x), sdkSmoValidUntil = smoValidUntil x\<rparr>)"

definition launchTemplateInstanceMarketOptionsRequestToSdk :: "launch_template_instance_market_options_request \<Rightarrow> error + sdk_launch_template_instance_market_options_request" where
  "launchTemplateInstanceMarketOptionsRequestToSdk x =
     onOk (optOk launchTemplateSpotMarketOptionsRequestToSdk (mkoSpotOptions x)) (\<lambda>spotOptions.
     Inr \<lparr>sdkMkoMarketType = safeString (mkoMarketType x), sdkMkoSpotOptions = spotOptions\<rparr>)"

definition acceleratorCountRequestToSdk :: "accelerator_count_request \<Rightarrow> error + sdk_accelerator_count_request" where
  "acceleratorCountRequestToSdk x =
     onOk (narrowInt32 ''Max'' (acrMax x)) (\<lambda>max'.
     onOk (narrowInt32 ''Min'' (acrMin x)) (\<lambda>min'.
     Inr \<lparr>sdkAcrMax = max', sdkAcrMin = min'\<rparr>))"

definition acceleratorTotalMemoryMibRequestToSdk :: "accelerator_total_memory_mib_request \<Rightarrow> error + sdk_accelerator_total_memory_mib_request" where
  "acceleratorTotalMemoryMibRequestToSdk x =
     onOk (narrowInt32 ''Max'' (acrMax x)) (\<lambda>max'.
     onOk (narrowInt32 ''Min'' (acrMin x)) (\<lambda>min'.
     Inr \<lparr>sdkAcrMax = max', sdkAcrMin = min'\<rparr>))"

definition baselineEbsBandwidthMbpsRequestToSdk :: "baseline_ebs_bandwidth_mbps_request \<Rightarrow> error + sdk_baseline_ebs_bandwidth_mbps_request" where
  "baselineEbsBandwidthMbpsRequestToSdk x =
     onOk (narrowInt32 ''Max'' (acrMax x)) (\<lambda>max'.
     onOk (narrowInt32 ''Min'' (acrMin x)) (\<lambda>min'.
     Inr \<lparr>sdkAcrMax = max', sdkAcrMin = min'\<rparr>))"

definition performanceFactorReferenceRequestToSdk :: "performance_factor_reference_request \<Rightarrow> sdk_performance_factor_reference_request" where
  "performanceFactorReferenceRequestToSdk x = \<lparr>sdkPfrrInstanceFamily = pfrrInstanceFamily x\<rparr>"

definition cpuPerformanceFactorRequestToSdk :: "cpu_performance_factor_request \<Rightarrow> sdk_cpu_performance_factor_request" where
  "cpuPerformanceFactorRequestToSdk x = \<lparr>sdkCpfrReferences = map_option (map performanceFactorReferenceRequestToSdk) (cpfrReferences x)\<rparr>"

definition baselinePerformanceFactorsRequestToSdk :: "baseline_performance_factors_request \<Rightarrow> sdk_baseline_performance_factors_request" where
  "baselinePerformanceFactorsRequestToSdk x = \<lparr>sdkBpfrCpu = map_option cpuPerformanceFactorRequestToSdk (bpfrCPU x)\<rparr>"

definition memoryGibPerVcpuRequestToSdk :: "memory_gib_per_vcpu_request \<Rightarrow> sdk_memory_gib_per_v_cpu_request" where
  "memoryGibPerVcpuRequestToSdk x = \<lparr>sdkMgpvcrMax = mgpvrMax x, sdkMgpvcrMin = mgpvrMin x\<rparr>"

definition memoryMibRequestToSdk :: "memory_mib_request \<Rightarrow> error + sdk_memory_mib_request" where
  "memoryMibRequestToSdk x =
     onOk (narrowInt32 ''Max'' (acrMax x)) (\<lambda>max'.
     onOk (narrowInt32 ''Min'' (acrMin x)) (\<lambda>min'.
     Inr \<lparr>sdkAcrMax = max', sdkAcrMin = min'\<rparr>))"

definition networkBandwidthGbpsRequestToSdk :: "network_bandwidth_gbps_request \<Rightarrow> sdk_network_bandwidth_gbps_request" where
  "networkBandwidthGbpsRequestToSdk x = \<lparr>sdkMgpvcrMax = mgpvrMax x, sdkMgpvcrMin = mgpvrMin x\<rparr>"

definition networkInterfaceCountRequestToSdk :: "network_interface_count_request \<Rightarrow> error + sdk_network_interface_count_request" where
  "networkInterfaceCountRequestToSdk x =
     onOk (narrowInt32 ''Max'' (acrMax x)) (\<lambda>max'.
     onOk (narrowInt32 ''Min'' (acrMin x)) (\<lambda>min'.
     Inr \<lparr>sdkAcrMax = max', sdkAcrMin = min'\<rparr>))"

definition totalLocalStorageGbRequestToSdk :: "total_local_storage_gb_request \<Rightarrow> sdk_total_local_storage_gb_request" where
  "totalLocalStorageGbRequestToSdk x = \<lparr>sdkMgpvcrMax = mgpvrMax x, sdkMgpvcrMin = mgpvrMin x\<rparr>"

definition vcpuCountRangeRequestToSdk :: "vcpu_count_range_request \<Rightarrow> error + sdk_v_cpu_count_range_request" where
  "vcpuCountRangeRequestToSdk x =
     onOk (narrowInt32 ''Max'' (acrMax x)) (\<lambda>max'.
     onOk (narrowInt32 ''Min'' (acrMin x)) (\<lambda>min'.
     Inr \<lparr>sdkAcrMax = max', sdkAcrMin = min'\<rparr>))"

definition instanceRequirementsRequestToSdk :: "('y) ack_runtime_scheme \<Rightarrow> instance_requirements_request \<Rightarrow> (error + sdk_instance_requirements_request) act" where
  "instanceRequirementsRequestToSdk R x =
     okAct (ret (optOk acceleratorCountRequestToSdk (irrAcceleratorCount x))) (\<lambda>acceleratorCount.
     bind (mapAct deref (irrAcceleratorManufacturers x)) (\<lambda>acceleratorManufacturers.
     bind (mapAct deref (irrAcceleratorNames x)) (\<lambda>acceleratorNames.
     okAct (ret (optOk acceleratorTotalMemoryMibRequestToSdk (irrAcceleratorTotalMemoryMiB x))) (\<lambda>acceleratorTotalMemoryMib.
     bind (mapAct deref (irrAcceleratorTypes x)) (\<lambda>acceleratorTypes.
     okAct (ret (optOk baselineEbsBandwidthMbpsRequestToSdk (irrBaselineEBSBandwidthMbps x))) (\<lambda>baselineEbsBandwidthMbps.
     bind (mapAct deref (irrCPUManufacturers x)) (\<lambda>cpuManufacturers.
     bind (mapAct deref (irrInstanceGenerations x)) (\<lambda>instanceGenerations.
     bind (mapAct deref (irrLocalStorageTypes x)) (\<lambda>localStorageTypes.
     okAct (ret (narrowInt32 ''MaxSpotPriceAsPercentageOfOptimalOnDemandPrice'' (irrMaxSpotPriceAsPercentageOfOptimalOnDemandPrice x))) (\<lambda>maxSpotPriceAsPercentageOfOptimalOnDemandPrice.
     okAct (ret (optOk memoryMibRequestToSdk (irrMemoryMiB x))) (\<lambda>memoryMib.
     okAct (ret (optOk networkInterfaceCountRequestToSdk (irrNetworkInterfaceCount x))) (\<lambda>networkInterfaceCount.
     okAct (ret (narrowInt32 ''OnDemandMaxPricePercentageOverLowestPrice'' (irrOnDemandMaxPricePercentageOverLowestPrice x))) (\<lambda>onDemandMaxPricePercentageOverLowestPrice.
     okAct (ret (narrowInt32 ''SpotMaxPricePercentageOverLowestPrice'' (irrSpotMaxPricePercentageOverLowestPrice x))) (\<lambda>spotMaxPricePercentageOverLowestPrice.
     okAct (ret (optOk vcpuCountRangeRequestToSdk (irrVCPUCount x))) (\<lambda>vCpuCount.
     ret (Inr \<lparr>sdkIrrAcceleratorCount = acceleratorCount, sdkIrrAcceleratorManufacturers = acceleratorManufacturers,
       sdkIrrAcceleratorNames = acceleratorNames, sdkIrrAcceleratorTotalMemoryMiB = acceleratorTotalMemoryMib,
       sdkIrrAcceleratorTypes = acceleratorTypes, sdkIrrAllowedInstanceTypes = toStrings R (irrAllowedInstanceTypes x),
       sdkIrrBareMetal = safeString (irrBareMetal x), sdkIrrBaselineEbsBandwidthMbps = baselineEbsBandwidthMbps,
       sdkIrrBaselinePerformanceFactors = map_option baselinePerformanceFactorsRequestToSdk (irrBaselinePerformanceFactors x),
       sdkIrrBurstablePerformance = safeString (irrBurstablePerformance x), sdkIrrCpuManufacturers = cpuManufacturers,
       sdkIrrExcludedInstanceTypes = toStrings R (irrExcludedInstanceTypes x), sdkIrrInstanceGenerations = instanceGenerations,
       sdkIrrLocalStorage = safeString (irrLocalStorage x), sdkIrrLocalStorageTypes = localStorageTypes,
       sdkIrrMaxSpotPriceAsPercentageOfOptimalOnDemandPrice = maxSpotPriceAsPercentageOfOptimalOnDemandPrice,
       sdkIrrMemoryGiBPerVCpu = map_option memoryGibPerVcpuRequestToSdk (irrMemoryGiBPerVCPU x), sdkIrrMemoryMiB = memoryMib,
       sdkIrrNetworkBandwidthGbps = map_option networkBandwidthGbpsRequestToSdk (irrNetworkBandwidthGbps x),
       sdkIrrNetworkInterfaceCount = networkInterfaceCount,
       sdkIrrOnDemandMaxPricePercentageOverLowestPrice = onDemandMaxPricePercentageOverLowestPrice,
       sdkIrrRequireHibernateSupport = irrRequireHibernateSupport x,
       sdkIrrSpotMaxPricePercentageOverLowestPrice = spotMaxPricePercentageOverLowestPrice,
       sdkIrrTotalLocalStorageGB = map_option totalLocalStorageGbRequestToSdk (irrTotalLocalStorageGB x), sdkIrrVCpuCount = vCpuCount,
       sdkIrrRequireEncryptionInTransit = None\<rparr>))))))))))))))))"

definition launchTemplateLicenseConfigurationRequestToSdk :: "launch_template_license_configuration_request \<Rightarrow> sdk_launch_template_license_configuration_request" where
  "launchTemplateLicenseConfigurationRequestToSdk x = \<lparr>sdkLcrLicenseConfigurationArn = lcrLicenseConfigurationARN x\<rparr>"

definition launchTemplateInstanceMaintenanceOptionsRequestToSdk :: "launch_template_instance_maintenance_options_request \<Rightarrow> sdk_launch_template_instance_maintenance_options_request" where
  "launchTemplateInstanceMaintenanceOptionsRequestToSdk x = \<lparr>sdkMntAutoRecovery = safeString (mntAutoRecovery x)\<rparr>"

definition launchTemplateInstanceMetadataOptionsRequestToSdk :: "launch_template_instance_metadata_options_request \<Rightarrow> error + sdk_launch_template_instance_metadata_options_request" where
  "launchTemplateInstanceMetadataOptionsRequestToSdk x =
     onOk (narrowInt32 ''HttpPutResponseHopLimit'' (mdoHTTPPutResponseHopLimit x)) (\<lambda>httpPutResponseHopLimit.
     Inr \<lparr>sdkMdoHttpEndpoint = safeString (mdoHTTPEndpoint x), sdkMdoHttpProtocolIpv6 = safeString (mdoHTTPProtocolIPv6 x),
       sdkMdoHttpPutResponseHopLimit = httpPutResponseHopLimit, sdkMdoHttpTokens = safeString (mdoHTTPTokens x),
       sdkMdoInstanceMetadataTags = safeString (mdoInstanceMetadataTags x)\<rparr>)"

definition launchTemplatesMonitoringRequestToSdk :: "launch_templates_monitoring_request \<Rightarrow> sdk_launch_templates_monitoring_request" where
  "launchTemplatesMonitoringRequestToSdk x = \<lparr>sdkEorEnabled = eorEnabled x\<rparr>"

definition instanceIpv6AddressRequestToSdk :: "instance_ipv6_address_request \<Rightarrow> sdk_instance_ipv6_address_request" where
  "instanceIpv6AddressRequestToSdk x = \<lparr>sdkIiaIpv6Address = iiaIPv6Address x\<rparr>"

definition launchTemplateInstanceNetworkInterfaceSpecificationRequestToSdk :: "('y) ack_runtime_scheme \<Rightarrow> launch_template_instance_network_interface_specification_request \<Rightarrow> error + sdk_launch_template_instance_network_interface_specification_request" where
  "launchTemplateInstanceNetworkInterfaceSpecificationRequestToSdk R x =
     onOk (narrowInt32 ''DeviceIndex'' (ltinisrDeviceIndex x)) (\<lambda>deviceIndex.
     onOk (narrowInt32 ''Ipv4PrefixCount'' (ltinisrIPv4PrefixCount x)) (\<lambda>ipv4PrefixCount.
     onOk (narrowInt32 ''Ipv6AddressCount'' (ltinisrIPv6AddressCount x)) (\<lambda>ipv6AddressCount.
     onOk (narrowInt32 ''Ipv6PrefixCount'' (ltinisrIPv6PrefixCount x)) (\<lambda>ipv6PrefixCount.
     onOk (narrowInt32 ''NetworkCardIndex'' (ltinisrNetworkCardIndex x)) (\<lambda>networkCardIndex.
     onOk (narrowInt32 ''SecondaryPrivateIpAddressCount'' (ltinisrSecondaryPrivateIPAddressCount x)) (\<lambda>secondaryPrivateIpAddressCount.
     Inr \<lparr>sdkLtinisrAssociateCarrierIpAddress = ltinisrAssociateCarrierIPAddress x,
       sdkLtinisrAssociatePublicIpAddress = ltinisrAssociatePublicIPAddress x,
       sdkLtinisrDeleteOnTermination = ltinisrDeleteOnTermination x, sdkLtinisrDescription = ltinisrDescription x,
       sdkLtinisrDeviceIndex = deviceIndex, sdkLtinisrGroups = toStrings R (ltinisrGroups x),
       sdkLtinisrInterfaceType = ltinisrInterfaceType x, sdkLtinisrIpv4PrefixCount = ipv4PrefixCount,
       sdkLtinisrIpv4Prefixes = map_option (map ipv4PrefixSpecificationRequestToSdk) (ltinisrIPv4Prefixes x),
       sdkLtinisrIpv6AddressCount = ipv6AddressCount,
       sdkLtinisrIpv6Addresses = map_option (map instanceIpv6AddressRequestToSdk) (ltinisrIPv6Addresses x),
       sdkLtinisrIpv6PrefixCount = ipv6PrefixCount,
       sdkLtinisrIpv6Prefixes = map_option (map ipv6PrefixSpecificationRequestToSdk) (ltinisrIPv6Prefixes x),
       sdkLtinisrNetworkCardIndex = networkCardIndex, sdkLtinisrNetworkInterfaceId = ltinisrNetworkInterfaceID x,
       sdkLtinisrPrimaryIpv6 = ltinisrPrimaryIPv6 x, sdkLtinisrPrivateIpAddress = ltinisrPrivateIPAddress x,
       sdkLtinisrPrivateIpAddresses = map_option (map privateIpAddressSpecificationToSdk) (ltinisrPrivateIPAddresses x),
       sdkLtinisrSecondaryPrivateIpAddressCount = secondaryPrivateIpAddressCount, sdkLtinisrSubnetId = ltinisrSubnetID x,
       sdkLtinisrEnaQueueCount = None\<rparr>))))))"

definition launchTemplatePlacementRequestToSdk :: "launch_template_placement_request \<Rightarrow> error + sdk_launch_template_placement_request" where
  "launchTemplatePlacementRequestToSdk x =
     onOk (narrowInt32 ''PartitionNumber'' (ltprPartitionNumber x)) (\<lambda>partitionNumber.
     Inr \<lparr>sdkLtprAffinity = ltprAffinity x, sdkLtprAvailabilityZone = ltprAvailabilityZone x, sdkLtprGroupId = ltprGroupID x,
       sdkLtprGroupName = ltprGroupName x, sdkLtprHostId = ltprHostID x, sdkLtprHostResourceGroupArn = ltprHostResourceGroupARN x,
       sdkLtprPartitionNumber = partitionNumber, sdkLtprSpreadDomain = ltprSpreadDomain x, sdkLtprTenancy = safeString (ltprTenancy x),
       sdkLtprAvailabilityZoneId = None\<rparr>)"

definition launchTemplatePrivateDnsNameOptionsRequestToSdk :: "launch_template_private_dns_name_options_request \<Rightarrow> sdk_launch_template_private_dns_name_options_request" where
  "launchTemplatePrivateDnsNameOptionsRequestToSdk x = \<lparr>sdkPdnorEnableResourceNameDnsAAAARecord = pdnEnableResourceNameDNSAAAARecord x,
       sdkPdnorEnableResourceNameDnsARecord = pdnEnableResourceNameDNSARecord x, sdkPdnorHostnameType = safeString (pdnHostnameType x)\<rparr>"

definition launchTemplateTagSpecificationRequestToSdk :: "launch_template_tag_specification_request \<Rightarrow> sdk_launch_template_tag_specification_request" where
  "launchTemplateTagSpecificationRequestToSdk x = \<lparr>sdkLttsrResourceType = safeString (lttsrResourceType x), sdkLttsrTags = map_option (map tagToSdk) (lttsrTags x)\<rparr>"

definition requestLaunchTemplateDataToSdk :: "('y) ack_runtime_scheme \<Rightarrow> request_launch_template_data \<Rightarrow> (error + sdk_request_launch_template_data) act" where
  "requestLaunchTemplateDataToSdk R x =
     okAct (ret (optOk (listOk launchTemplateBlockDeviceMappingRequestToSdk) (rltdBlockDeviceMappings x))) (\<lambda>blockDeviceMappings.
     okAct (ret (optOk launchTemplateCpuOptionsRequestToSdk (rltdCPUOptions x))) (\<lambda>cpuOptions.
     okAct (ret (optOk (listOk launchTemplateElasticInferenceAcceleratorToSdk) (rltdElasticInferenceAccelerators x))) (\<lambda>elasticInferenceAccelerators.
     okAct (ret (optOk launchTemplateInstanceMarketOptionsRequestToSdk (rltdInstanceMarketOptions x))) (\<lambda>instanceMarketOptions.
     okAct (optAct (instanceRequirementsRequestToSdk R) (rltdInstanceRequirements x)) (\<lambda>instanceRequirements.
     okAct (ret (optOk launchTemplateInstanceMetadataOptionsRequestToSdk (rltdMetadataOptions x))) (\<lambda>metadataOptions.
     okAct (ret (optOk (listOk (launchTemplateInstanceNetworkInterfaceSpecificationRequestToSdk R)) (rltdNetworkInterfaces x))) (\<lambda>networkInterfaces.
     okAct (ret (optOk launchTemplatePlacementRequestToSdk (rltdPlacement x))) (\<lambda>placement.
     ret (Inr \<lparr>sdkRltdBlockDeviceMappings = blockDeviceMappings,
       sdkRltdCapacityReservationSpecification = map_option launchTemplateCapacityReservationSpecificationRequestToSdk (rltdCapacityReservationSpecification x),
       sdkRltdCpuOptions = cpuOptions,
       sdkRltdCreditSpecification = map_option creditSpecificationRequestToSdk (rltdCreditSpecification x),
       sdkRltdDisableApiStop = rltdDisableAPIStop x, sdkRltdDisableApiTermination = rltdDisableAPITermination x,
       sdkRltdEbsOptimized = rltdEBSOptimized x,
       sdkRltdElasticGpuSpecifications = map_option (map elasticGpuSpecificationToSdk) (rltdElasticGPUSpecifications x),
       sdkRltdElasticInferenceAccelerators = elasticInferenceAccelerators,
       sdkRltdEnclaveOptions = map_option launchTemplateEnclaveOptionsRequestToSdk (rltdEnclaveOptions x),
       sdkRltdHibernationOptions = map_option launchTemplateHibernationOptionsRequestToSdk (rltdHibernationOptions x),
       sdkRltdIamInstanceProfile = map_option launchTemplateIamInstanceProfileSpecificationRequestToSdk (rltdIAMInstanceProfile x),
       sdkRltdImageId = rltdImageID x,
       sdkRltdInstanceInitiatedShutdownBehavior = safeString (rltdInstanceInitiatedShutdownBehavior x),
       sdkRltdInstanceMarketOptions = instanceMarketOptions, sdkRltdInstanceRequirements = instanceRequirements,
       sdkRltdInstanceType = safeString (rltdInstanceType x), sdkRltdKernelId = rltdKernelID x, sdkRltdKeyName = rltdKeyName x,
       sdkRltdLicenseSpecifications = map_option (map launchTemplateLicenseConfigurationRequestToSdk) (rltdLicenseSpecifications x),
       sdkRltdMaintenanceOptions = map_option launchTemplateInstanceMaintenanceOptionsRequestToSdk (rltdMaintenanceOptions x),
       sdkRltdMetadataOptions = metadataOptions,
       sdkRltdMonitoring = map_option launchTemplatesMonitoringRequestToSdk (rltdMonitoring x),
       sdkRltdNetworkInterfaces = networkInterfaces, sdkRltdPlacement = placement,
       sdkRltdPrivateDnsNameOptions = map_option launchTemplatePrivateDnsNameOptionsRequestToSdk (rltdPrivateDNSNameOptions x),
       sdkRltdRamDiskId = rltdRAMDiskID x, sdkRltdSecurityGroupIds = toStrings R (rltdSecurityGroupIDs x),
       sdkRltdSecurityGroups = toStrings R (rltdSecurityGroups x),
       sdkRltdTagSpecifications = map_option (map launchTemplateTagSpecificationRequestToSdk) (rltdTagSpecifications x),
       sdkRltdUserData = rltdUserData x,
       sdkRltdNetworkPerformanceOptions = None, sdkRltdSecondaryInterfaces = None\<rparr>)))))))))"

subsection \<open>Comparing\<close>

record template_equalities =
  eqReferences :: "performance_factor_reference_request list \<Rightarrow> performance_factor_reference_request list \<Rightarrow> bool"
  eqBlockDeviceMappings :: "launch_template_block_device_mapping_request list \<Rightarrow> launch_template_block_device_mapping_request list \<Rightarrow> bool"
  eqElasticGPUSpecifications :: "elastic_gpu_specification list \<Rightarrow> elastic_gpu_specification list \<Rightarrow> bool"
  eqElasticInferenceAccelerators :: "launch_template_elastic_inference_accelerator list \<Rightarrow> launch_template_elastic_inference_accelerator list \<Rightarrow> bool"
  eqLicenseSpecifications :: "launch_template_license_configuration_request list \<Rightarrow> launch_template_license_configuration_request list \<Rightarrow> bool"
  eqNetworkInterfaces :: "launch_template_instance_network_interface_specification_request list \<Rightarrow> launch_template_instance_network_interface_specification_request list \<Rightarrow> bool"
  eqTagSpecifications :: "launch_template_tag_specification_request list \<Rightarrow> launch_template_tag_specification_request list \<Rightarrow> bool"

definition compareCapacityReservationSpecificationCapacityReservationTarget_Template :: "('x) ackcompare_scheme \<Rightarrow> capacity_reservation_target \<Rightarrow> capacity_reservation_target \<Rightarrow> delta \<Rightarrow> delta" where
  "compareCapacityReservationSpecificationCapacityReservationTarget_Template C u v = inOrder
     [cmpStr C ''Spec.Data.CapacityReservationSpecification.CapacityReservationTarget.CapacityReservationID'' (crtCapacityReservationID u) (crtCapacityReservationID v),
      cmpStr C ''Spec.Data.CapacityReservationSpecification.CapacityReservationTarget.CapacityReservationResourceGroupARN'' (crtCapacityReservationResourceGroupARN u) (crtCapacityReservationResourceGroupARN v)]"

definition compareCapacityReservationSpecification_Template :: "('x) ackcompare_scheme \<Rightarrow> launch_template_capacity_reservation_specification_request \<Rightarrow> launch_template_capacity_reservation_specification_request \<Rightarrow> delta \<Rightarrow> delta" where
  "compareCapacityReservationSpecification_Template C u v = inOrder
     [cmpStr C ''Spec.Data.CapacityReservationSpecification.CapacityReservationPreference'' (crsCapacityReservationPreference u) (crsCapacityReservationPreference v),
      compareStruct C ''Spec.Data.CapacityReservationSpecification.CapacityReservationTarget'' (compareCapacityReservationSpecificationCapacityReservationTarget_Template C) (crsCapacityReservationTarget u) (crsCapacityReservationTarget v)]"

definition compareCPUOptions_Template :: "('x) ackcompare_scheme \<Rightarrow> launch_template_cpu_options_request \<Rightarrow> launch_template_cpu_options_request \<Rightarrow> delta \<Rightarrow> delta" where
  "compareCPUOptions_Template C u v = inOrder
     [cmpStr C ''Spec.Data.CPUOptions.AmdSevSnp'' (ltcorAmdSevSnp u) (ltcorAmdSevSnp v),
      cmpInt C ''Spec.Data.CPUOptions.CoreCount'' (ltcorCoreCount u) (ltcorCoreCount v),
      cmpStr C ''Spec.Data.CPUOptions.NestedVirtualization'' (ltcorNestedVirtualization u) (ltcorNestedVirtualization v),
      cmpInt C ''Spec.Data.CPUOptions.ThreadsPerCore'' (ltcorThreadsPerCore u) (ltcorThreadsPerCore v)]"

definition compareCreditSpecification_Template :: "('x) ackcompare_scheme \<Rightarrow> credit_specification_request \<Rightarrow> credit_specification_request \<Rightarrow> delta \<Rightarrow> delta" where
  "compareCreditSpecification_Template C u v = inOrder
     [cmpStr C ''Spec.Data.CreditSpecification.CPUCredits'' (csrCPUCredits u) (csrCPUCredits v)]"

definition compareEnclaveOptions_Template :: "('x) ackcompare_scheme \<Rightarrow> launch_template_enclave_options_request \<Rightarrow> launch_template_enclave_options_request \<Rightarrow> delta \<Rightarrow> delta" where
  "compareEnclaveOptions_Template C u v = inOrder
     [cmpBool C ''Spec.Data.EnclaveOptions.Enabled'' (eorEnabled u) (eorEnabled v)]"

definition compareHibernationOptions_Template :: "('x) ackcompare_scheme \<Rightarrow> launch_template_hibernation_options_request \<Rightarrow> launch_template_hibernation_options_request \<Rightarrow> delta \<Rightarrow> delta" where
  "compareHibernationOptions_Template C u v = inOrder
     [cmpBool C ''Spec.Data.HibernationOptions.Configured'' (horConfigured u) (horConfigured v)]"

definition compareIAMInstanceProfile_Template :: "('x) ackcompare_scheme \<Rightarrow> launch_template_iam_instance_profile_specification_request \<Rightarrow> launch_template_iam_instance_profile_specification_request \<Rightarrow> delta \<Rightarrow> delta" where
  "compareIAMInstanceProfile_Template C u v = inOrder
     [cmpStr C ''Spec.Data.IAMInstanceProfile.ARN'' (iipsARN u) (iipsARN v),
      cmpStr C ''Spec.Data.IAMInstanceProfile.Name'' (iipsName u) (iipsName v)]"

definition compareInstanceMarketOptionsSpotOptions_Template :: "('x) ackcompare_scheme \<Rightarrow> launch_template_spot_market_options_request \<Rightarrow> launch_template_spot_market_options_request \<Rightarrow> delta \<Rightarrow> delta" where
  "compareInstanceMarketOptionsSpotOptions_Template C u v = inOrder
     [cmpInt C ''Spec.Data.InstanceMarketOptions.SpotOptions.BlockDurationMinutes'' (smoBlockDurationMinutes u) (smoBlockDurationMinutes v),
      cmpStr C ''Spec.Data.InstanceMarketOptions.SpotOptions.InstanceInterruptionBehavior'' (smoInstanceInterruptionBehavior u) (smoInstanceInterruptionBehavior v),
      cmpStr C ''Spec.Data.InstanceMarketOptions.SpotOptions.MaxPrice'' (smoMaxPrice u) (smoMaxPrice v),
      cmpStr C ''Spec.Data.InstanceMarketOptions.SpotOptions.SpotInstanceType'' (smoSpotInstanceType u) (smoSpotInstanceType v),
      cmpTime C ''Spec.Data.InstanceMarketOptions.SpotOptions.ValidUntil'' (smoValidUntil u) (smoValidUntil v)]"

definition compareInstanceMarketOptions_Template :: "('x) ackcompare_scheme \<Rightarrow> launch_template_instance_market_options_request \<Rightarrow> launch_template_instance_market_options_request \<Rightarrow> delta \<Rightarrow> delta" where
  "compareInstanceMarketOptions_Template C u v = inOrder
     [cmpStr C ''Spec.Data.InstanceMarketOptions.MarketType'' (mkoMarketType u) (mkoMarketType v),
      compareStruct C ''Spec.Data.InstanceMarketOptions.SpotOptions'' (compareInstanceMarketOptionsSpotOptions_Template C) (mkoSpotOptions u) (mkoSpotOptions v)]"

definition compareRequirementsAcceleratorCount_Template :: "('x) ackcompare_scheme \<Rightarrow> accelerator_count_request \<Rightarrow> accelerator_count_request \<Rightarrow> delta \<Rightarrow> delta" where
  "compareRequirementsAcceleratorCount_Template C u v = inOrder
     [cmpInt C ''Spec.Data.InstanceRequirements.AcceleratorCount.Max'' (acrMax u) (acrMax v),
      cmpInt C ''Spec.Data.InstanceRequirements.AcceleratorCount.Min'' (acrMin u) (acrMin v)]"

definition compareRequirementsAcceleratorTotalMemoryMiB_Template :: "('x) ackcompare_scheme \<Rightarrow> accelerator_total_memory_mib_request \<Rightarrow> accelerator_total_memory_mib_request \<Rightarrow> delta \<Rightarrow> delta" where
  "compareRequirementsAcceleratorTotalMemoryMiB_Template C u v = inOrder
     [cmpInt C ''Spec.Data.InstanceRequirements.AcceleratorTotalMemoryMiB.Max'' (acrMax u) (acrMax v),
      cmpInt C ''Spec.Data.InstanceRequirements.AcceleratorTotalMemoryMiB.Min'' (acrMin u) (acrMin v)]"

definition compareRequirementsBaselineEBSBandwidthMbps_Template :: "('x) ackcompare_scheme \<Rightarrow> baseline_ebs_bandwidth_mbps_request \<Rightarrow> baseline_ebs_bandwidth_mbps_request \<Rightarrow> delta \<Rightarrow> delta" where
  "compareRequirementsBaselineEBSBandwidthMbps_Template C u v = inOrder
     [cmpInt C ''Spec.Data.InstanceRequirements.BaselineEBSBandwidthMbps.Max'' (acrMax u) (acrMax v),
      cmpInt C ''Spec.Data.InstanceRequirements.BaselineEBSBandwidthMbps.Min'' (acrMin u) (acrMin v)]"

definition compareRequirementsBaselinePerformanceFactorsCPU_Template :: "('x) ackcompare_scheme \<Rightarrow> ('y) template_equalities_scheme \<Rightarrow> cpu_performance_factor_request \<Rightarrow> cpu_performance_factor_request \<Rightarrow> delta \<Rightarrow> delta" where
  "compareRequirementsBaselinePerformanceFactorsCPU_Template C E u v = inOrder
     [compareList (eqReferences E) ''Spec.Data.InstanceRequirements.BaselinePerformanceFactors.CPU.References'' (cpfrReferences u) (cpfrReferences v)]"

definition compareRequirementsBaselinePerformanceFactors_Template :: "('x) ackcompare_scheme \<Rightarrow> ('y) template_equalities_scheme \<Rightarrow> baseline_performance_factors_request \<Rightarrow> baseline_performance_factors_request \<Rightarrow> delta \<Rightarrow> delta" where
  "compareRequirementsBaselinePerformanceFactors_Template C E u v = inOrder
     [compareStruct C ''Spec.Data.InstanceRequirements.BaselinePerformanceFactors.CPU'' (compareRequirementsBaselinePerformanceFactorsCPU_Template C E) (bpfrCPU u) (bpfrCPU v)]"

definition compareRequirementsMemoryGiBPerVCPU_Template :: "('x) ackcompare_scheme \<Rightarrow> memory_gib_per_vcpu_request \<Rightarrow> memory_gib_per_vcpu_request \<Rightarrow> delta \<Rightarrow> delta" where
  "compareRequirementsMemoryGiBPerVCPU_Template C u v = inOrder
     [cmpFloat C ''Spec.Data.InstanceRequirements.MemoryGiBPerVCPU.Max'' (mgpvrMax u) (mgpvrMax v),
      cmpFloat C ''Spec.Data.InstanceRequirements.MemoryGiBPerVCPU.Min'' (mgpvrMin u) (mgpvrMin v)]"

definition compareRequirementsMemoryMiB_Template :: "('x) ackcompare_scheme \<Rightarrow> memory_mib_request \<Rightarrow> memory_mib_request \<Rightarrow> delta \<Rightarrow> delta" where
  "compareRequirementsMemoryMiB_Template C u v = inOrder
     [cmpInt C ''Spec.Data.InstanceRequirements.MemoryMiB.Max'' (acrMax u) (acrMax v),
      cmpInt C ''Spec.Data.InstanceRequirements.MemoryMiB.Min'' (acrMin u) (acrMin v)]"

definition compareRequirementsNetworkBandwidthGbps_Template :: "('x) ackcompare_scheme \<Rightarrow> network_bandwidth_gbps_request \<Rightarrow> network_bandwidth_gbps_request \<Rightarrow> delta \<Rightarrow> delta" where
  "compareRequirementsNetworkBandwidthGbps_Template C u v = inOrder
     [cmpFloat C ''Spec.Data.InstanceRequirements.NetworkBandwidthGbps.Max'' (mgpvrMax u) (mgpvrMax v),
      cmpFloat C ''Spec.Data.InstanceRequirements.NetworkBandwidthGbps.Min'' (mgpvrMin u) (mgpvrMin v)]"

definition compareRequirementsNetworkInterfaceCount_Template :: "('x) ackcompare_scheme \<Rightarrow> network_interface_count_request \<Rightarrow> network_interface_count_request \<Rightarrow> delta \<Rightarrow> delta" where
  "compareRequirementsNetworkInterfaceCount_Template C u v = inOrder
     [cmpInt C ''Spec.Data.InstanceRequirements.NetworkInterfaceCount.Max'' (acrMax u) (acrMax v),
      cmpInt C ''Spec.Data.InstanceRequirements.NetworkInterfaceCount.Min'' (acrMin u) (acrMin v)]"

definition compareRequirementsTotalLocalStorageGB_Template :: "('x) ackcompare_scheme \<Rightarrow> total_local_storage_gb_request \<Rightarrow> total_local_storage_gb_request \<Rightarrow> delta \<Rightarrow> delta" where
  "compareRequirementsTotalLocalStorageGB_Template C u v = inOrder
     [cmpFloat C ''Spec.Data.InstanceRequirements.TotalLocalStorageGB.Max'' (mgpvrMax u) (mgpvrMax v),
      cmpFloat C ''Spec.Data.InstanceRequirements.TotalLocalStorageGB.Min'' (mgpvrMin u) (mgpvrMin v)]"

definition compareRequirementsVCPUCount_Template :: "('x) ackcompare_scheme \<Rightarrow> vcpu_count_range_request \<Rightarrow> vcpu_count_range_request \<Rightarrow> delta \<Rightarrow> delta" where
  "compareRequirementsVCPUCount_Template C u v = inOrder
     [cmpInt C ''Spec.Data.InstanceRequirements.VCPUCount.Max'' (acrMax u) (acrMax v),
      cmpInt C ''Spec.Data.InstanceRequirements.VCPUCount.Min'' (acrMin u) (acrMin v)]"

definition compareInstanceRequirements_Template :: "('x) ackcompare_scheme \<Rightarrow> ('y) template_equalities_scheme \<Rightarrow> instance_requirements_request \<Rightarrow> instance_requirements_request \<Rightarrow> delta \<Rightarrow> delta" where
  "compareInstanceRequirements_Template C E u v = inOrder
     [compareStruct C ''Spec.Data.InstanceRequirements.AcceleratorCount'' (compareRequirementsAcceleratorCount_Template C) (irrAcceleratorCount u) (irrAcceleratorCount v),
      cmpStrs C ''Spec.Data.InstanceRequirements.AcceleratorManufacturers'' (irrAcceleratorManufacturers u) (irrAcceleratorManufacturers v),
      cmpStrs C ''Spec.Data.InstanceRequirements.AcceleratorNames'' (irrAcceleratorNames u) (irrAcceleratorNames v),
      compareStruct C ''Spec.Data.InstanceRequirements.AcceleratorTotalMemoryMiB'' (compareRequirementsAcceleratorTotalMemoryMiB_Template C) (irrAcceleratorTotalMemoryMiB u) (irrAcceleratorTotalMemoryMiB v),
      cmpStrs C ''Spec.Data.InstanceRequirements.AcceleratorTypes'' (irrAcceleratorTypes u) (irrAcceleratorTypes v),
      cmpStrs C ''Spec.Data.InstanceRequirements.AllowedInstanceTypes'' (irrAllowedInstanceTypes u) (irrAllowedInstanceTypes v),
      cmpStr C ''Spec.Data.InstanceRequirements.BareMetal'' (irrBareMetal u) (irrBareMetal v),
      compareStruct C ''Spec.Data.InstanceRequirements.BaselineEBSBandwidthMbps'' (compareRequirementsBaselineEBSBandwidthMbps_Template C) (irrBaselineEBSBandwidthMbps u) (irrBaselineEBSBandwidthMbps v),
      compareStruct C ''Spec.Data.InstanceRequirements.BaselinePerformanceFactors'' (compareRequirementsBaselinePerformanceFactors_Template C E) (irrBaselinePerformanceFactors u) (irrBaselinePerformanceFactors v),
      cmpStr C ''Spec.Data.InstanceRequirements.BurstablePerformance'' (irrBurstablePerformance u) (irrBurstablePerformance v),
      cmpStrs C ''Spec.Data.InstanceRequirements.CPUManufacturers'' (irrCPUManufacturers u) (irrCPUManufacturers v),
      cmpStrs C ''Spec.Data.InstanceRequirements.ExcludedInstanceTypes'' (irrExcludedInstanceTypes u) (irrExcludedInstanceTypes v),
      cmpStrs C ''Spec.Data.InstanceRequirements.InstanceGenerations'' (irrInstanceGenerations u) (irrInstanceGenerations v),
      cmpStr C ''Spec.Data.InstanceRequirements.LocalStorage'' (irrLocalStorage u) (irrLocalStorage v),
      cmpStrs C ''Spec.Data.InstanceRequirements.LocalStorageTypes'' (irrLocalStorageTypes u) (irrLocalStorageTypes v),
      cmpInt C ''Spec.Data.InstanceRequirements.MaxSpotPriceAsPercentageOfOptimalOnDemandPrice'' (irrMaxSpotPriceAsPercentageOfOptimalOnDemandPrice u) (irrMaxSpotPriceAsPercentageOfOptimalOnDemandPrice v),
      compareStruct C ''Spec.Data.InstanceRequirements.MemoryGiBPerVCPU'' (compareRequirementsMemoryGiBPerVCPU_Template C) (irrMemoryGiBPerVCPU u) (irrMemoryGiBPerVCPU v),
      compareStruct C ''Spec.Data.InstanceRequirements.MemoryMiB'' (compareRequirementsMemoryMiB_Template C) (irrMemoryMiB u) (irrMemoryMiB v),
      compareStruct C ''Spec.Data.InstanceRequirements.NetworkBandwidthGbps'' (compareRequirementsNetworkBandwidthGbps_Template C) (irrNetworkBandwidthGbps u) (irrNetworkBandwidthGbps v),
      compareStruct C ''Spec.Data.InstanceRequirements.NetworkInterfaceCount'' (compareRequirementsNetworkInterfaceCount_Template C) (irrNetworkInterfaceCount u) (irrNetworkInterfaceCount v),
      cmpInt C ''Spec.Data.InstanceRequirements.OnDemandMaxPricePercentageOverLowestPrice'' (irrOnDemandMaxPricePercentageOverLowestPrice u) (irrOnDemandMaxPricePercentageOverLowestPrice v),
      cmpBool C ''Spec.Data.InstanceRequirements.RequireHibernateSupport'' (irrRequireHibernateSupport u) (irrRequireHibernateSupport v),
      cmpInt C ''Spec.Data.InstanceRequirements.SpotMaxPricePercentageOverLowestPrice'' (irrSpotMaxPricePercentageOverLowestPrice u) (irrSpotMaxPricePercentageOverLowestPrice v),
      compareStruct C ''Spec.Data.InstanceRequirements.TotalLocalStorageGB'' (compareRequirementsTotalLocalStorageGB_Template C) (irrTotalLocalStorageGB u) (irrTotalLocalStorageGB v),
      compareStruct C ''Spec.Data.InstanceRequirements.VCPUCount'' (compareRequirementsVCPUCount_Template C) (irrVCPUCount u) (irrVCPUCount v)]"

definition compareMaintenanceOptions_Template :: "('x) ackcompare_scheme \<Rightarrow> launch_template_instance_maintenance_options_request \<Rightarrow> launch_template_instance_maintenance_options_request \<Rightarrow> delta \<Rightarrow> delta" where
  "compareMaintenanceOptions_Template C u v = inOrder
     [cmpStr C ''Spec.Data.MaintenanceOptions.AutoRecovery'' (mntAutoRecovery u) (mntAutoRecovery v)]"

definition compareMetadataOptions_Template :: "('x) ackcompare_scheme \<Rightarrow> launch_template_instance_metadata_options_request \<Rightarrow> launch_template_instance_metadata_options_request \<Rightarrow> delta \<Rightarrow> delta" where
  "compareMetadataOptions_Template C u v = inOrder
     [cmpStr C ''Spec.Data.MetadataOptions.HTTPEndpoint'' (mdoHTTPEndpoint u) (mdoHTTPEndpoint v),
      cmpStr C ''Spec.Data.MetadataOptions.HTTPProtocolIPv6'' (mdoHTTPProtocolIPv6 u) (mdoHTTPProtocolIPv6 v),
      cmpInt C ''Spec.Data.MetadataOptions.HTTPPutResponseHopLimit'' (mdoHTTPPutResponseHopLimit u) (mdoHTTPPutResponseHopLimit v),
      cmpStr C ''Spec.Data.MetadataOptions.HTTPTokens'' (mdoHTTPTokens u) (mdoHTTPTokens v),
      cmpStr C ''Spec.Data.MetadataOptions.InstanceMetadataTags'' (mdoInstanceMetadataTags u) (mdoInstanceMetadataTags v)]"

definition compareMonitoring_Template :: "('x) ackcompare_scheme \<Rightarrow> launch_templates_monitoring_request \<Rightarrow> launch_templates_monitoring_request \<Rightarrow> delta \<Rightarrow> delta" where
  "compareMonitoring_Template C u v = inOrder
     [cmpBool C ''Spec.Data.Monitoring.Enabled'' (eorEnabled u) (eorEnabled v)]"

definition comparePlacement_Template :: "('x) ackcompare_scheme \<Rightarrow> launch_template_placement_request \<Rightarrow> launch_template_placement_request \<Rightarrow> delta \<Rightarrow> delta" where
  "comparePlacement_Template C u v = inOrder
     [cmpStr C ''Spec.Data.Placement.Affinity'' (ltprAffinity u) (ltprAffinity v),
      cmpStr C ''Spec.Data.Placement.AvailabilityZone'' (ltprAvailabilityZone u) (ltprAvailabilityZone v),
      cmpStr C ''Spec.Data.Placement.GroupID'' (ltprGroupID u) (ltprGroupID v),
      cmpStr C ''Spec.Data.Placement.GroupName'' (ltprGroupName u) (ltprGroupName v),
      cmpStr C ''Spec.Data.Placement.HostID'' (ltprHostID u) (ltprHostID v),
      cmpStr C ''Spec.Data.Placement.HostResourceGroupARN'' (ltprHostResourceGroupARN u) (ltprHostResourceGroupARN v),
      cmpInt C ''Spec.Data.Placement.PartitionNumber'' (ltprPartitionNumber u) (ltprPartitionNumber v),
      cmpStr C ''Spec.Data.Placement.SpreadDomain'' (ltprSpreadDomain u) (ltprSpreadDomain v),
      cmpStr C ''Spec.Data.Placement.Tenancy'' (ltprTenancy u) (ltprTenancy v)]"

definition comparePrivateDNSNameOptions_Template :: "('x) ackcompare_scheme \<Rightarrow> launch_template_private_dns_name_options_request \<Rightarrow> launch_template_private_dns_name_options_request \<Rightarrow> delta \<Rightarrow> delta" where
  "comparePrivateDNSNameOptions_Template C u v = inOrder
     [cmpBool C ''Spec.Data.PrivateDNSNameOptions.EnableResourceNameDNSAAAARecord'' (pdnEnableResourceNameDNSAAAARecord u) (pdnEnableResourceNameDNSAAAARecord v),
      cmpBool C ''Spec.Data.PrivateDNSNameOptions.EnableResourceNameDNSARecord'' (pdnEnableResourceNameDNSARecord u) (pdnEnableResourceNameDNSARecord v),
      cmpStr C ''Spec.Data.PrivateDNSNameOptions.HostnameType'' (pdnHostnameType u) (pdnHostnameType v)]"

definition compareData_Template :: "('x) ackcompare_scheme \<Rightarrow> ('y) template_equalities_scheme \<Rightarrow> request_launch_template_data \<Rightarrow> request_launch_template_data \<Rightarrow> delta \<Rightarrow> delta" where
  "compareData_Template C E u v = inOrder
     [compareList (eqBlockDeviceMappings E) ''Spec.Data.BlockDeviceMappings'' (rltdBlockDeviceMappings u) (rltdBlockDeviceMappings v),
      compareStruct C ''Spec.Data.CapacityReservationSpecification'' (compareCapacityReservationSpecification_Template C) (rltdCapacityReservationSpecification u) (rltdCapacityReservationSpecification v),
      compareStruct C ''Spec.Data.CPUOptions'' (compareCPUOptions_Template C) (rltdCPUOptions u) (rltdCPUOptions v),
      compareStruct C ''Spec.Data.CreditSpecification'' (compareCreditSpecification_Template C) (rltdCreditSpecification u) (rltdCreditSpecification v),
      cmpBool C ''Spec.Data.DisableAPIStop'' (rltdDisableAPIStop u) (rltdDisableAPIStop v),
      cmpBool C ''Spec.Data.DisableAPITermination'' (rltdDisableAPITermination u) (rltdDisableAPITermination v),
      cmpBool C ''Spec.Data.EBSOptimized'' (rltdEBSOptimized u) (rltdEBSOptimized v),
      compareList (eqElasticGPUSpecifications E) ''Spec.Data.ElasticGPUSpecifications'' (rltdElasticGPUSpecifications u) (rltdElasticGPUSpecifications v),
      compareList (eqElasticInferenceAccelerators E) ''Spec.Data.ElasticInferenceAccelerators'' (rltdElasticInferenceAccelerators u) (rltdElasticInferenceAccelerators v),
      compareStruct C ''Spec.Data.EnclaveOptions'' (compareEnclaveOptions_Template C) (rltdEnclaveOptions u) (rltdEnclaveOptions v),
      compareStruct C ''Spec.Data.HibernationOptions'' (compareHibernationOptions_Template C) (rltdHibernationOptions u) (rltdHibernationOptions v),
      compareStruct C ''Spec.Data.IAMInstanceProfile'' (compareIAMInstanceProfile_Template C) (rltdIAMInstanceProfile u) (rltdIAMInstanceProfile v),
      cmpStr C ''Spec.Data.ImageID'' (rltdImageID u) (rltdImageID v),
      cmpStr C ''Spec.Data.InstanceInitiatedShutdownBehavior'' (rltdInstanceInitiatedShutdownBehavior u) (rltdInstanceInitiatedShutdownBehavior v),
      compareStruct C ''Spec.Data.InstanceMarketOptions'' (compareInstanceMarketOptions_Template C) (rltdInstanceMarketOptions u) (rltdInstanceMarketOptions v),
      compareStruct C ''Spec.Data.InstanceRequirements'' (compareInstanceRequirements_Template C E) (rltdInstanceRequirements u) (rltdInstanceRequirements v),
      cmpStr C ''Spec.Data.InstanceType'' (rltdInstanceType u) (rltdInstanceType v),
      cmpStr C ''Spec.Data.KernelID'' (rltdKernelID u) (rltdKernelID v),
      cmpStr C ''Spec.Data.KeyName'' (rltdKeyName u) (rltdKeyName v),
      compareList (eqLicenseSpecifications E) ''Spec.Data.LicenseSpecifications'' (rltdLicenseSpecifications u) (rltdLicenseSpecifications v),
      compareStruct C ''Spec.Data.MaintenanceOptions'' (compareMaintenanceOptions_Template C) (rltdMaintenanceOptions u) (rltdMaintenanceOptions v),
      compareStruct C ''Spec.Data.MetadataOptions'' (compareMetadataOptions_Template C) (rltdMetadataOptions u) (rltdMetadataOptions v),
      compareStruct C ''Spec.Data.Monitoring'' (compareMonitoring_Template C) (rltdMonitoring u) (rltdMonitoring v),
      compareList (eqNetworkInterfaces E) ''Spec.Data.NetworkInterfaces'' (rltdNetworkInterfaces u) (rltdNetworkInterfaces v),
      compareStruct C ''Spec.Data.Placement'' (comparePlacement_Template C) (rltdPlacement u) (rltdPlacement v),
      compareStruct C ''Spec.Data.PrivateDNSNameOptions'' (comparePrivateDNSNameOptions_Template C) (rltdPrivateDNSNameOptions u) (rltdPrivateDNSNameOptions v),
      cmpStr C ''Spec.Data.RAMDiskID'' (rltdRAMDiskID u) (rltdRAMDiskID v),
      cmpStrs C ''Spec.Data.SecurityGroupIDs'' (rltdSecurityGroupIDs u) (rltdSecurityGroupIDs v),
      cmpStrs C ''Spec.Data.SecurityGroups'' (rltdSecurityGroups u) (rltdSecurityGroups v),
      compareList (eqTagSpecifications E) ''Spec.Data.TagSpecifications'' (rltdTagSpecifications u) (rltdTagSpecifications v),
      cmpStr C ''Spec.Data.UserData'' (rltdUserData u) (rltdUserData v)]"

definition compareSpecs_Template :: "('x) ackcompare_scheme \<Rightarrow> ('y) template_equalities_scheme \<Rightarrow> launch_template_spec \<Rightarrow> launch_template_spec \<Rightarrow> delta \<Rightarrow> delta" where
  "compareSpecs_Template C E u v = inOrder
     [compareStruct C ''Spec.Data'' (compareData_Template C E) (ltspData u) (ltspData v),
      cmpInt C ''Spec.DefaultVersion'' (ltspDefaultVersion u) (ltspDefaultVersion v),
      cmpStr C ''Spec.Name'' (ltspName u) (ltspName v), compareTags C ''Spec.Tags'' (ltspTags u) (ltspTags v),
      cmpStr C ''Spec.VersionDescription'' (ltspVersionDescription u) (ltspVersionDescription v)]"

text \<open>Each comparison of a struct reports paths below that of the struct.\<close>

lemma fields_Template1 [fields]:
  shows "compares ''Spec.Data.CapacityReservationSpecification.CapacityReservationTarget'' (compareCapacityReservationSpecificationCapacityReservationTarget_Template C u0 v0)"
    and "compares ''Spec.Data.InstanceMarketOptions.SpotOptions'' (compareInstanceMarketOptionsSpotOptions_Template C u1 v1)"
    and "compares ''Spec.Data.InstanceRequirements.BaselinePerformanceFactors.CPU'' (compareRequirementsBaselinePerformanceFactorsCPU_Template C E u2 v2)"
    and "compares ''Spec.Data.InstanceRequirements.AcceleratorCount'' (compareRequirementsAcceleratorCount_Template C u3 v3)"
    and "compares ''Spec.Data.InstanceRequirements.AcceleratorTotalMemoryMiB'' (compareRequirementsAcceleratorTotalMemoryMiB_Template C u4 v4)"
    and "compares ''Spec.Data.InstanceRequirements.BaselineEBSBandwidthMbps'' (compareRequirementsBaselineEBSBandwidthMbps_Template C u5 v5)"
    and "compares ''Spec.Data.InstanceRequirements.MemoryGiBPerVCPU'' (compareRequirementsMemoryGiBPerVCPU_Template C u6 v6)"
    and "compares ''Spec.Data.InstanceRequirements.MemoryMiB'' (compareRequirementsMemoryMiB_Template C u7 v7)"
    and "compares ''Spec.Data.InstanceRequirements.NetworkBandwidthGbps'' (compareRequirementsNetworkBandwidthGbps_Template C u8 v8)"
    and "compares ''Spec.Data.InstanceRequirements.NetworkInterfaceCount'' (compareRequirementsNetworkInterfaceCount_Template C u9 v9)"
    and "compares ''Spec.Data.InstanceRequirements.TotalLocalStorageGB'' (compareRequirementsTotalLocalStorageGB_Template C u10 v10)"
    and "compares ''Spec.Data.InstanceRequirements.VCPUCount'' (compareRequirementsVCPUCount_Template C u11 v11)"
    and "compares ''Spec.Data.CPUOptions'' (compareCPUOptions_Template C u12 v12)"
    and "compares ''Spec.Data.CreditSpecification'' (compareCreditSpecification_Template C u13 v13)"
    and "compares ''Spec.Data.EnclaveOptions'' (compareEnclaveOptions_Template C u14 v14)"
    and "compares ''Spec.Data.HibernationOptions'' (compareHibernationOptions_Template C u15 v15)"
    and "compares ''Spec.Data.IAMInstanceProfile'' (compareIAMInstanceProfile_Template C u16 v16)"
    and "compares ''Spec.Data.MaintenanceOptions'' (compareMaintenanceOptions_Template C u17 v17)"
    and "compares ''Spec.Data.MetadataOptions'' (compareMetadataOptions_Template C u18 v18)"
    and "compares ''Spec.Data.Monitoring'' (compareMonitoring_Template C u19 v19)"
    and "compares ''Spec.Data.Placement'' (comparePlacement_Template C u20 v20)"
    and "compares ''Spec.Data.PrivateDNSNameOptions'' (comparePrivateDNSNameOptions_Template C u21 v21)"
  unfolding compareCapacityReservationSpecificationCapacityReservationTarget_Template_def compareInstanceMarketOptionsSpotOptions_Template_def compareRequirementsBaselinePerformanceFactorsCPU_Template_def
    compareRequirementsAcceleratorCount_Template_def compareRequirementsAcceleratorTotalMemoryMiB_Template_def compareRequirementsBaselineEBSBandwidthMbps_Template_def
    compareRequirementsMemoryGiBPerVCPU_Template_def compareRequirementsMemoryMiB_Template_def compareRequirementsNetworkBandwidthGbps_Template_def
    compareRequirementsNetworkInterfaceCount_Template_def compareRequirementsTotalLocalStorageGB_Template_def compareRequirementsVCPUCount_Template_def
    compareCPUOptions_Template_def compareCreditSpecification_Template_def compareEnclaveOptions_Template_def
    compareHibernationOptions_Template_def compareIAMInstanceProfile_Template_def compareMaintenanceOptions_Template_def
    compareMetadataOptions_Template_def compareMonitoring_Template_def comparePlacement_Template_def
    comparePrivateDNSNameOptions_Template_def
  by (intro compares_inOrder; simp add: below_simps liesAt_def)+

lemma fields_Template2 [fields]:
  shows "compares ''Spec.Data.InstanceRequirements.BaselinePerformanceFactors'' (compareRequirementsBaselinePerformanceFactors_Template C E u0 v0)"
    and "compares ''Spec.Data.CapacityReservationSpecification'' (compareCapacityReservationSpecification_Template C u1 v1)"
    and "compares ''Spec.Data.InstanceMarketOptions'' (compareInstanceMarketOptions_Template C u2 v2)"
  unfolding compareRequirementsBaselinePerformanceFactors_Template_def compareCapacityReservationSpecification_Template_def compareInstanceMarketOptions_Template_def
  by (intro compares_inOrder; simp add: below_simps liesAt_def fields)+

lemma fields_Template3 [fields]:
  shows "compares ''Spec.Data.InstanceRequirements'' (compareInstanceRequirements_Template C E u0 v0)"
  unfolding compareInstanceRequirements_Template_def
  by (intro compares_inOrder; simp add: below_simps liesAt_def fields)+

lemma fields_Template4 [fields]:
  shows "compares ''Spec.Data'' (compareData_Template C E u0 v0)"
  unfolding compareData_Template_def
  by (intro compares_inOrder; simp add: below_simps liesAt_def fields)+

subsection \<open>Back into a request\<close>

text \<open>
  What the controller knows of the data: the fields that \<open>generator.yaml\<close> ignores, which it
  neither reads nor sets, are nil.
\<close>

definition knownEbs :: "sdk_launch_template_ebs_block_device \<Rightarrow> sdk_launch_template_ebs_block_device" where
  "knownEbs x = x\<lparr>sdkLtebdrEbsCardIndex := None, sdkLtebdrVolumeInitializationRate := None\<rparr>"

definition knownMapping :: "sdk_launch_template_block_device_mapping \<Rightarrow> sdk_launch_template_block_device_mapping" where
  "knownMapping x = x\<lparr>sdkLtbdmrEbs := map_option knownEbs (sdkLtbdmrEbs x)\<rparr>"

definition knownRequirements :: "sdk_instance_requirements \<Rightarrow> sdk_instance_requirements" where
  "knownRequirements x = x\<lparr>sdkIrrRequireEncryptionInTransit := None\<rparr>"

definition knownInterface :: "sdk_launch_template_instance_network_interface_specification \<Rightarrow> sdk_launch_template_instance_network_interface_specification" where
  "knownInterface x = x\<lparr>sdkLtinisrEnaQueueCount := None\<rparr>"

definition knownPlacement :: "sdk_launch_template_placement \<Rightarrow> sdk_launch_template_placement" where
  "knownPlacement x = x\<lparr>sdkLtprAvailabilityZoneId := None\<rparr>"

definition knownData :: "sdk_response_launch_template_data \<Rightarrow> sdk_response_launch_template_data" where
  "knownData x =
     x\<lparr>sdkRltdBlockDeviceMappings := map_option (map knownMapping) (sdkRltdBlockDeviceMappings x),
       sdkRltdInstanceRequirements := map_option knownRequirements (sdkRltdInstanceRequirements x),
       sdkRltdNetworkInterfaces := map_option (map knownInterface) (sdkRltdNetworkInterfaces x),
       sdkRltdPlacement := map_option knownPlacement (sdkRltdPlacement x),
       sdkRltdNetworkPerformanceOptions := None, sdkRltdSecondaryInterfaces := None\<rparr>"

text \<open>What was read from an answer goes into a request as far as it is known, struct by struct.\<close>

lemma back_launchTemplateEbsBlockDeviceRequestFromSdk [sends]: "launchTemplateEbsBlockDeviceRequestToSdk (launchTemplateEbsBlockDeviceRequestFromSdk x) = Inr (knownEbs x)"
  by (cases x) (simp add: launchTemplateEbsBlockDeviceRequestToSdk_def launchTemplateEbsBlockDeviceRequestFromSdk_def knownEbs_def sends comp_def)

lemma back_launchTemplateBlockDeviceMappingRequestFromSdk [sends]: "launchTemplateBlockDeviceMappingRequestToSdk (launchTemplateBlockDeviceMappingRequestFromSdk x) = Inr (knownMapping x)"
proof -
  have "optOk launchTemplateEbsBlockDeviceRequestToSdk (map_option launchTemplateEbsBlockDeviceRequestFromSdk p) = Inr (map_option knownEbs p)" for p
    by (rule back_optOk_as) (rule back_launchTemplateEbsBlockDeviceRequestFromSdk)
  then show ?thesis
    by (cases x) (simp add: launchTemplateBlockDeviceMappingRequestToSdk_def launchTemplateBlockDeviceMappingRequestFromSdk_def knownMapping_def)
qed

lemma back_capacityReservationTargetFromSdk_Template [sends]: "capacityReservationTargetToSdk (capacityReservationTargetFromSdk_Template x) = x"
  by (cases x) (simp add: capacityReservationTargetToSdk_def capacityReservationTargetFromSdk_Template_def sends comp_def)

lemma back_launchTemplateCapacityReservationSpecificationRequestFromSdk [sends]: "launchTemplateCapacityReservationSpecificationRequestToSdk (launchTemplateCapacityReservationSpecificationRequestFromSdk x) = x"
  by (cases x) (simp add: launchTemplateCapacityReservationSpecificationRequestToSdk_def launchTemplateCapacityReservationSpecificationRequestFromSdk_def sends comp_def)

lemma back_launchTemplateCpuOptionsRequestFromSdk [sends]: "launchTemplateCpuOptionsRequestToSdk (launchTemplateCpuOptionsRequestFromSdk x) = Inr x"
  by (cases x) (simp add: launchTemplateCpuOptionsRequestToSdk_def launchTemplateCpuOptionsRequestFromSdk_def sends comp_def)

lemma back_creditSpecificationRequestFromSdk_Template [sends]: "creditSpecificationRequestToSdk (creditSpecificationRequestFromSdk_Template x) = x"
  by (cases x) (simp add: creditSpecificationRequestToSdk_def creditSpecificationRequestFromSdk_Template_def sends comp_def)

lemma back_elasticGpuSpecificationFromSdk_Template [sends]: "elasticGpuSpecificationToSdk (elasticGpuSpecificationFromSdk_Template x) = x"
  by (cases x) (simp add: elasticGpuSpecificationToSdk_def elasticGpuSpecificationFromSdk_Template_def sends comp_def)

lemma back_launchTemplateElasticInferenceAcceleratorFromSdk [sends]: "launchTemplateElasticInferenceAcceleratorToSdk (launchTemplateElasticInferenceAcceleratorFromSdk x) = Inr x"
  by (cases x) (simp add: launchTemplateElasticInferenceAcceleratorToSdk_def launchTemplateElasticInferenceAcceleratorFromSdk_def sends comp_def)

lemma back_launchTemplateEnclaveOptionsRequestFromSdk [sends]: "launchTemplateEnclaveOptionsRequestToSdk (launchTemplateEnclaveOptionsRequestFromSdk x) = x"
  by (cases x) (simp add: launchTemplateEnclaveOptionsRequestToSdk_def launchTemplateEnclaveOptionsRequestFromSdk_def sends comp_def)

lemma back_launchTemplateHibernationOptionsRequestFromSdk [sends]: "launchTemplateHibernationOptionsRequestToSdk (launchTemplateHibernationOptionsRequestFromSdk x) = x"
  by (cases x) (simp add: launchTemplateHibernationOptionsRequestToSdk_def launchTemplateHibernationOptionsRequestFromSdk_def sends comp_def)

lemma back_launchTemplateIamInstanceProfileSpecificationRequestFromSdk [sends]: "launchTemplateIamInstanceProfileSpecificationRequestToSdk (launchTemplateIamInstanceProfileSpecificationRequestFromSdk x) = x"
  by (cases x) (simp add: launchTemplateIamInstanceProfileSpecificationRequestToSdk_def launchTemplateIamInstanceProfileSpecificationRequestFromSdk_def sends comp_def)

lemma back_launchTemplateSpotMarketOptionsRequestFromSdk [sends]: "launchTemplateSpotMarketOptionsRequestToSdk (launchTemplateSpotMarketOptionsRequestFromSdk x) = Inr x"
  by (cases x) (simp add: launchTemplateSpotMarketOptionsRequestToSdk_def launchTemplateSpotMarketOptionsRequestFromSdk_def sends comp_def)

lemma back_launchTemplateInstanceMarketOptionsRequestFromSdk [sends]: "launchTemplateInstanceMarketOptionsRequestToSdk (launchTemplateInstanceMarketOptionsRequestFromSdk x) = Inr x"
  by (cases x) (simp add: launchTemplateInstanceMarketOptionsRequestToSdk_def launchTemplateInstanceMarketOptionsRequestFromSdk_def sends comp_def)

lemma back_acceleratorCountRequestFromSdk [sends]: "acceleratorCountRequestToSdk (acceleratorCountRequestFromSdk x) = Inr x"
  by (cases x) (simp add: acceleratorCountRequestToSdk_def acceleratorCountRequestFromSdk_def sends comp_def)

lemma back_acceleratorTotalMemoryMibRequestFromSdk [sends]: "acceleratorTotalMemoryMibRequestToSdk (acceleratorTotalMemoryMibRequestFromSdk x) = Inr x"
  by (cases x) (simp add: acceleratorTotalMemoryMibRequestToSdk_def acceleratorTotalMemoryMibRequestFromSdk_def sends comp_def)

lemma back_baselineEbsBandwidthMbpsRequestFromSdk [sends]: "baselineEbsBandwidthMbpsRequestToSdk (baselineEbsBandwidthMbpsRequestFromSdk x) = Inr x"
  by (cases x) (simp add: baselineEbsBandwidthMbpsRequestToSdk_def baselineEbsBandwidthMbpsRequestFromSdk_def sends comp_def)

lemma back_performanceFactorReferenceRequestFromSdk [sends]: "performanceFactorReferenceRequestToSdk (performanceFactorReferenceRequestFromSdk x) = x"
  by (cases x) (simp add: performanceFactorReferenceRequestToSdk_def performanceFactorReferenceRequestFromSdk_def sends comp_def)

lemma back_cpuPerformanceFactorRequestFromSdk [sends]: "cpuPerformanceFactorRequestToSdk (cpuPerformanceFactorRequestFromSdk x) = x"
  by (cases x) (simp add: cpuPerformanceFactorRequestToSdk_def cpuPerformanceFactorRequestFromSdk_def sends comp_def)

lemma back_baselinePerformanceFactorsRequestFromSdk [sends]: "baselinePerformanceFactorsRequestToSdk (baselinePerformanceFactorsRequestFromSdk x) = x"
  by (cases x) (simp add: baselinePerformanceFactorsRequestToSdk_def baselinePerformanceFactorsRequestFromSdk_def sends comp_def)

lemma back_memoryGibPerVcpuRequestFromSdk [sends]: "memoryGibPerVcpuRequestToSdk (memoryGibPerVcpuRequestFromSdk x) = x"
  by (cases x) (simp add: memoryGibPerVcpuRequestToSdk_def memoryGibPerVcpuRequestFromSdk_def sends comp_def)

lemma back_memoryMibRequestFromSdk [sends]: "memoryMibRequestToSdk (memoryMibRequestFromSdk x) = Inr x"
  by (cases x) (simp add: memoryMibRequestToSdk_def memoryMibRequestFromSdk_def sends comp_def)

lemma back_networkBandwidthGbpsRequestFromSdk [sends]: "networkBandwidthGbpsRequestToSdk (networkBandwidthGbpsRequestFromSdk x) = x"
  by (cases x) (simp add: networkBandwidthGbpsRequestToSdk_def networkBandwidthGbpsRequestFromSdk_def sends comp_def)

lemma back_networkInterfaceCountRequestFromSdk [sends]: "networkInterfaceCountRequestToSdk (networkInterfaceCountRequestFromSdk x) = Inr x"
  by (cases x) (simp add: networkInterfaceCountRequestToSdk_def networkInterfaceCountRequestFromSdk_def sends comp_def)

lemma back_totalLocalStorageGbRequestFromSdk [sends]: "totalLocalStorageGbRequestToSdk (totalLocalStorageGbRequestFromSdk x) = x"
  by (cases x) (simp add: totalLocalStorageGbRequestToSdk_def totalLocalStorageGbRequestFromSdk_def sends comp_def)

lemma back_vcpuCountRangeRequestFromSdk [sends]: "vcpuCountRangeRequestToSdk (vcpuCountRangeRequestFromSdk x) = Inr x"
  by (cases x) (simp add: vcpuCountRangeRequestToSdk_def vcpuCountRangeRequestFromSdk_def sends comp_def)

lemma back_instanceRequirementsRequestFromSdk [sends]: "runtime_law R \<Longrightarrow> instanceRequirementsRequestToSdk R (instanceRequirementsRequestFromSdk R x) = ret (Inr (knownRequirements x))"
  by (cases x, simp add: instanceRequirementsRequestToSdk_def instanceRequirementsRequestFromSdk_def knownRequirements_def sends comp_def,
      simp add: fun_eq_iff)

lemma back_launchTemplateLicenseConfigurationRequestFromSdk [sends]: "launchTemplateLicenseConfigurationRequestToSdk (launchTemplateLicenseConfigurationRequestFromSdk x) = x"
  by (cases x) (simp add: launchTemplateLicenseConfigurationRequestToSdk_def launchTemplateLicenseConfigurationRequestFromSdk_def sends comp_def)

lemma back_launchTemplateInstanceMaintenanceOptionsRequestFromSdk [sends]: "launchTemplateInstanceMaintenanceOptionsRequestToSdk (launchTemplateInstanceMaintenanceOptionsRequestFromSdk x) = x"
  by (cases x) (simp add: launchTemplateInstanceMaintenanceOptionsRequestToSdk_def launchTemplateInstanceMaintenanceOptionsRequestFromSdk_def sends comp_def)

lemma back_launchTemplateInstanceMetadataOptionsRequestFromSdk [sends]: "launchTemplateInstanceMetadataOptionsRequestToSdk (launchTemplateInstanceMetadataOptionsRequestFromSdk x) = Inr x"
  by (cases x) (simp add: launchTemplateInstanceMetadataOptionsRequestToSdk_def launchTemplateInstanceMetadataOptionsRequestFromSdk_def sends comp_def)

lemma back_launchTemplatesMonitoringRequestFromSdk [sends]: "launchTemplatesMonitoringRequestToSdk (launchTemplatesMonitoringRequestFromSdk x) = x"
  by (cases x) (simp add: launchTemplatesMonitoringRequestToSdk_def launchTemplatesMonitoringRequestFromSdk_def sends comp_def)

lemma back_ipv4PrefixSpecificationRequestFromSdk_Template [sends]: "ipv4PrefixSpecificationRequestToSdk (ipv4PrefixSpecificationRequestFromSdk_Template x) = x"
  by (cases x) (simp add: ipv4PrefixSpecificationRequestToSdk_def ipv4PrefixSpecificationRequestFromSdk_Template_def sends comp_def)

lemma back_instanceIpv6AddressRequestFromSdk [sends]: "instanceIpv6AddressRequestToSdk (instanceIpv6AddressRequestFromSdk x) = x"
  by (cases x) (simp add: instanceIpv6AddressRequestToSdk_def instanceIpv6AddressRequestFromSdk_def sends comp_def)

lemma back_ipv6PrefixSpecificationRequestFromSdk_Template [sends]: "ipv6PrefixSpecificationRequestToSdk (ipv6PrefixSpecificationRequestFromSdk_Template x) = x"
  by (cases x) (simp add: ipv6PrefixSpecificationRequestToSdk_def ipv6PrefixSpecificationRequestFromSdk_Template_def sends comp_def)

lemma back_privateIpAddressSpecificationFromSdk_Template [sends]: "privateIpAddressSpecificationToSdk (privateIpAddressSpecificationFromSdk_Template x) = x"
  by (cases x) (simp add: privateIpAddressSpecificationToSdk_def privateIpAddressSpecificationFromSdk_Template_def sends comp_def)

lemma back_launchTemplateInstanceNetworkInterfaceSpecificationRequestFromSdk [sends]: "runtime_law R \<Longrightarrow> launchTemplateInstanceNetworkInterfaceSpecificationRequestToSdk R (launchTemplateInstanceNetworkInterfaceSpecificationRequestFromSdk R x) = Inr (knownInterface x)"
  by (cases x) (simp add: launchTemplateInstanceNetworkInterfaceSpecificationRequestToSdk_def launchTemplateInstanceNetworkInterfaceSpecificationRequestFromSdk_def knownInterface_def sends comp_def)

lemma back_launchTemplatePlacementRequestFromSdk [sends]: "launchTemplatePlacementRequestToSdk (launchTemplatePlacementRequestFromSdk x) = Inr (knownPlacement x)"
  by (cases x) (simp add: launchTemplatePlacementRequestToSdk_def launchTemplatePlacementRequestFromSdk_def knownPlacement_def sends comp_def)

lemma back_launchTemplatePrivateDnsNameOptionsRequestFromSdk [sends]: "launchTemplatePrivateDnsNameOptionsRequestToSdk (launchTemplatePrivateDnsNameOptionsRequestFromSdk x) = x"
  by (cases x) (simp add: launchTemplatePrivateDnsNameOptionsRequestToSdk_def launchTemplatePrivateDnsNameOptionsRequestFromSdk_def sends comp_def)

lemma back_launchTemplateTagSpecificationRequestFromSdk [sends]: "launchTemplateTagSpecificationRequestToSdk (launchTemplateTagSpecificationRequestFromSdk x) = x"
  by (cases x) (simp add: launchTemplateTagSpecificationRequestToSdk_def launchTemplateTagSpecificationRequestFromSdk_def sends comp_def)

lemma back_known:
  "optOk (listOk launchTemplateBlockDeviceMappingRequestToSdk) (map_option (map launchTemplateBlockDeviceMappingRequestFromSdk) ms)
     = Inr (map_option (map knownMapping) ms)"
  "optOk launchTemplatePlacementRequestToSdk (map_option launchTemplatePlacementRequestFromSdk q) = Inr (map_option knownPlacement q)"
  "runtime_law R \<Longrightarrow> optAct (instanceRequirementsRequestToSdk R) (map_option (instanceRequirementsRequestFromSdk R) p)
     = ret (Inr (map_option knownRequirements p))"
  "runtime_law R \<Longrightarrow> optOk (listOk (launchTemplateInstanceNetworkInterfaceSpecificationRequestToSdk R))
      (map_option (map (launchTemplateInstanceNetworkInterfaceSpecificationRequestFromSdk R)) ns)
     = Inr (map_option (map knownInterface) ns)"
  by (intro back_optOk_as back_listOk_as back_optAct_as back_launchTemplateBlockDeviceMappingRequestFromSdk
      back_launchTemplatePlacementRequestFromSdk back_instanceRequirementsRequestFromSdk
      back_launchTemplateInstanceNetworkInterfaceSpecificationRequestFromSdk; assumption)+

lemma back_requestLaunchTemplateDataFromSdk:
  "runtime_law R \<Longrightarrow> requestLaunchTemplateDataToSdk R (requestLaunchTemplateDataFromSdk R x) = ret (Inr (knownData x))"
  by (cases x, simp add: requestLaunchTemplateDataToSdk_def requestLaunchTemplateDataFromSdk_def knownData_def back_known sends comp_def,
      simp add: fun_eq_iff)

end
