(* ===== verification/Instance.thy ===== *)
theory Instance
  imports Instance_Types
begin

text \<open>
  The instance controller (\<open>pkg/resource/instance/hooks.go\<close>, \<open>sdk.go\<close>, \<open>manager.go\<close>): reading,
  running and terminating an instance, and its update, which changes one attribute at a time.
\<close>

record instance_api = tags_api +
  onDescribeInstances :: "call log \<Rightarrow> string list \<Rightarrow> error + sdk_instance list list option"
  onRunInstances :: "call log \<Rightarrow> run_instances_input \<Rightarrow> error + sdk_instance list option"
  onModifyInstanceAttribute :: "call log \<Rightarrow> modify_instance_input \<Rightarrow> error option"
  onTerminateInstances :: "call log \<Rightarrow> string list \<Rightarrow> error option"

abbreviation instanceIdOf :: "instance_resource \<Rightarrow> string option" where
  "instanceIdOf k \<equiv> instInstanceID (insStatus k)"

subsection \<open>Reading\<close>

definition setFrom_Instance :: "instance_resource \<Rightarrow> sdk_instance \<Rightarrow> instance_resource" where
  "setFrom_Instance k elem = \<lparr>insSpec = readSpec_Instance elem (insSpec k), insStatus = readStatus_Instance elem (insStatus k)\<rparr>"

definition defaults_Instance :: "resource_manager \<Rightarrow> instance_resource \<Rightarrow> instance_resource" where
  "defaults_Instance rm k = k\<lparr>insStatus := setStatusDefaults rm (insStatus k)\<rparr>"

definition stateName :: "instance_resource \<Rightarrow> string option" where
  "stateName k = (case instState (insStatus k) of None \<Rightarrow> None | Some st \<Rightarrow> istName st)"

definition isRunning :: "instance_resource \<Rightarrow> bool" where
  "isRunning k \<longleftrightarrow> (case stateName k of None \<Rightarrow> False | Some n \<Rightarrow> n = ''running'' \<or> n = ''stopped'')"

definition needsRestart :: "instance_resource \<Rightarrow> bool" where
  "needsRestart k \<longleftrightarrow> (case stateName k of None \<Rightarrow> False | Some n \<Rightarrow> n = ''terminated'')"

text \<open>What the state of the monitoring says of the spec; other states leave it alone.\<close>

definition monitoringOf :: "sdk_instance \<Rightarrow> instance_spec \<Rightarrow> instance_spec" where
  "monitoringOf inst sp =
     (case sdkInMonitoring inst of None \<Rightarrow> sp
      | Some m \<Rightarrow>
          if sdkMonState m \<in> {''disabled'', ''disabling''} then sp\<lparr>insMonitoring := Some \<lparr>eorEnabled = Some False\<rparr>\<rparr>
          else if sdkMonState m \<in> {''enabled'', ''pending''} then sp\<lparr>insMonitoring := Some \<lparr>eorEnabled = Some True\<rparr>\<rparr>
          else sp)"

definition setAdditionalFields_Instance :: "sdk_instance \<Rightarrow> instance_resource \<Rightarrow> instance_resource" where
  "setAdditionalFields_Instance inst k =
     (let sp1 = (insSpec k)\<lparr>insSecurityGroupIDs := map sdkGiGroupId (elems (sdkInSecurityGroups inst))\<rparr>;
          sp2 = (if sdkInSourceDestCheck inst \<noteq> None then sp1\<lparr>insSourceDestCheckEnabled := sdkInSourceDestCheck inst\<rparr> else sp1)
      in k\<lparr>insSpec := monitoringOf inst sp2\<rparr>)"

definition notSynced_Instance :: "('y) ack_runtime_scheme \<Rightarrow> string option \<Rightarrow> string option \<Rightarrow> instance_resource \<Rightarrow> instance_resource" where
  "notSynced_Instance R message reason k =
     k\<lparr>insStatus := (insStatus k)\<lparr>Conditions := SetSynced R ConditionFalse message reason (Conditions (insStatus k))\<rparr>\<rparr>"

definition withTags_Instance :: "instance_resource \<Rightarrow> instance_resource \<Rightarrow> instance_resource" where
  "withTags_Instance r k = k\<lparr>insSpec := (insSpec k)\<lparr>insTags := keepTagOrder (insTags (insSpec r)) (insTags (insSpec k))\<rparr>\<rparr>"

definition requiredFieldsMissing_Instance :: "instance_resource \<Rightarrow> bool" where
  "requiredFieldsMissing_Instance r \<longleftrightarrow> instanceIdOf r = None"

definition newListRequestPayload_Instance :: "instance_resource \<Rightarrow> string list" where
  "newListRequestPayload_Instance r = (case instanceIdOf r of None \<Rightarrow> [] | Some i \<Rightarrow> [i])"

text \<open>The nested loops stop after the first reservation, and in it after the first instance.\<close>

definition firstReservation :: "sdk_instance list list \<Rightarrow> sdk_instance list" where
  "firstReservation rs = (case rs of [] \<Rightarrow> [] | xs # _ \<Rightarrow> xs)"

definition observed_Instance ::
  "('y) ack_runtime_scheme \<Rightarrow> instance_resource \<Rightarrow> sdk_instance \<Rightarrow> instance_resource \<Rightarrow> instance_resource" where
  "observed_Instance R r elem ko =
     (let k1 = setAdditionalFields_Instance elem ko;
          k2 = (if \<not> isRunning k1 then notSynced_Instance R None (Some ''waiting for resource to be running'') k1 else k1)
      in withTags_Instance r k2)"

definition sdkFind_Instance ::
  "'x instance_api_scheme \<Rightarrow> ('y) ack_runtime_scheme \<Rightarrow> resource_manager \<Rightarrow> instance_resource
   \<Rightarrow> (instance_resource option \<times> error option) act" where
  "sdkFind_Instance api R rm r =
     readCoded ''InvalidInstanceID.NotFound'' (requiredFieldsMissing_Instance r) (\<lambda>i. InstanceCall (DescribeInstances i))
       (\<lambda>s i. map_sum (\<lambda>e. e) (map_option firstReservation) (onDescribeInstances api s i)) ''DescribeInstances''
       (newListRequestPayload_Instance r) (\<lambda>elem.
         let ko = defaults_Instance rm (setFrom_Instance r elem) in
         if needsRestart ko then ret (None, Some NotFound)
         else ret (Some (observed_Instance R r elem ko), None))"

subsection \<open>Running and terminating\<close>

definition updateTagSpecifications_Instance :: "instance_resource \<Rightarrow> run_instances_input \<Rightarrow> run_instances_input" where
  "updateTagSpecifications_Instance r input = input\<lparr>riTagSpecifications := tagSpecificationsFor ''instance'' (insTags (insSpec r))\<rparr>"

text \<open>\<open>SourceDestCheck\<close> cannot be set at launch: the desired value stays, and the resource is not synced.\<close>

definition created_Instance ::
  "('y) ack_runtime_scheme \<Rightarrow> resource_manager \<Rightarrow> instance_resource \<Rightarrow> sdk_instance \<Rightarrow> instance_resource" where
  "created_Instance R rm desired elem =
     (let k = withTags_Instance desired (setAdditionalFields_Instance elem (defaults_Instance rm (setFrom_Instance desired elem)))
      in if insSourceDestCheckEnabled (insSpec desired) \<noteq> None
         then notSynced_Instance R (Some ''Instance is pending update for SourceDestCheckEnabled'') None
                (k\<lparr>insSpec := (insSpec k)\<lparr>insSourceDestCheckEnabled := insSourceDestCheckEnabled (insSpec desired)\<rparr>\<rparr>)
         else k)"

definition sdkCreate_Instance ::
  "'x instance_api_scheme \<Rightarrow> ('y) ack_runtime_scheme \<Rightarrow> resource_manager \<Rightarrow> instance_resource
   \<Rightarrow> (instance_resource option \<times> error option) act" where
  "sdkCreate_Instance api R rm desired =
     (case newCreateRequestPayload_Instance R desired of
        Inl e \<Rightarrow> ret (None, Some e)
      | Inr input \<Rightarrow>
          createFlat (\<lambda>i. InstanceCall (RunInstances i)) (onRunInstances api) ''RunInstances''
            (updateTagSpecifications_Instance desired input) (\<lambda>instances.
              case instances of
                [] \<Rightarrow> ret (None, Some NotFound)
              | elem # _ \<Rightarrow> ret (Some (created_Instance R rm desired elem), None)))"

text \<open>The error of \<open>addInstanceIDsToTerminateRequest\<close> is replaced by \<open>NotFound\<close>.\<close>

definition addInstanceIDsToTerminateRequest :: "instance_resource \<Rightarrow> error + string list" where
  "addInstanceIDsToTerminateRequest r =
     (case instanceIdOf r of
        None \<Rightarrow> Inl (GoError ''InstanceID nil for resource when creating TerminateRequest'')
      | Some i \<Rightarrow> Inr [i])"

definition sdkDelete_Instance ::
  "'x instance_api_scheme \<Rightarrow> instance_resource \<Rightarrow> (instance_resource option \<times> error option) act" where
  "sdkDelete_Instance api r =
     (case addInstanceIDsToTerminateRequest r of
        Inl _ \<Rightarrow> ret (None, Some NotFound)
      | Inr input \<Rightarrow> deleteOne (\<lambda>i. InstanceCall (TerminateInstances i)) (onTerminateInstances api) ''TerminateInstances'' input)"

subsection \<open>Updating\<close>

definition emptyModification :: "string option \<Rightarrow> modify_instance_input" where
  "emptyModification i =
     \<lparr>miInstanceId = i, miDisableApiTermination = None, miInstanceType = None, miKernel = None, miRamdisk = None,
      miInstanceInitiatedShutdownBehavior = None, miUserData = None, miEbsOptimized = None, miDisableApiStop = None,
      miGroups = [], miSourceDestCheck = None\<rparr>"

definition modificationInput ::
  "('y) ack_runtime_scheme \<Rightarrow> instance_resource \<Rightarrow> instance_resource \<Rightarrow> delta \<Rightarrow> modify_instance_input option" where
  "modificationInput R desired latest d =
     (let input = emptyModification (instanceIdOf latest); sp = insSpec desired in
      if DifferentAt R d ''Spec.DisableAPITermination'' then Some (input\<lparr>miDisableApiTermination := Some (insDisableAPITermination sp)\<rparr>)
      else if DifferentAt R d ''Spec.InstanceType'' then Some (input\<lparr>miInstanceType := Some (insInstanceType sp)\<rparr>)
      else if DifferentAt R d ''Spec.KernelID'' then Some (input\<lparr>miKernel := Some (insKernelID sp)\<rparr>)
      else if DifferentAt R d ''Spec.RAMDiskID'' then Some (input\<lparr>miRamdisk := Some (insRAMDiskID sp)\<rparr>)
      else if DifferentAt R d ''Spec.InstanceInitiatedShutdownBehavior''
        then Some (input\<lparr>miInstanceInitiatedShutdownBehavior := Some (insInstanceInitiatedShutdownBehavior sp)\<rparr>)
      else if DifferentAt R d ''Spec.UserData'' then Some (input\<lparr>miUserData := Some (safeString (insUserData sp))\<rparr>)
      else if DifferentAt R d ''Spec.EBSOptimized'' then Some (input\<lparr>miEbsOptimized := Some (insEBSOptimized sp)\<rparr>)
      else if DifferentAt R d ''Spec.DisableAPIStop'' then Some (input\<lparr>miDisableApiStop := Some (insDisableAPIStop sp)\<rparr>)
      else if DifferentAt R d ''Spec.SecurityGroupIDs'' then Some (input\<lparr>miGroups := ToStringSlice R (insSecurityGroupIDs sp)\<rparr>)
      else if DifferentAt R d ''Spec.SourceDestCheckEnabled'' \<and> insSourceDestCheckEnabled sp \<noteq> None
        then Some (input\<lparr>miSourceDestCheck := Some (insSourceDestCheckEnabled sp)\<rparr>)
      else None)"

definition requeueUntilUpdated :: error where
  "requeueUntilUpdated = GoError ''requeuing until all fields are updated''"

definition modifyInstanceAttributes ::
  "'x instance_api_scheme \<Rightarrow> ('y) ack_runtime_scheme \<Rightarrow> delta \<Rightarrow> instance_resource \<Rightarrow> instance_resource \<Rightarrow> error option act" where
  "modifyInstanceAttributes api R d desired latest =
     (case modificationInput R desired latest d of
        None \<Rightarrow> ret None
      | Some input \<Rightarrow>
          bind (callRecord (\<lambda>i. InstanceCall (ModifyInstanceAttribute i)) (onModifyInstanceAttribute api)
                  ''UPDATE'' ''ModifyInstanceAttribute'' input) (\<lambda>err.
          ifErr err (\<lambda>e. ret (Some e)) (ret (Some requeueUntilUpdated))))"

definition requeueNotRunning :: error where
  "requeueNotRunning = RequeueNeededAfter (Some (GoError ''requeuing until state is running or stopped'')) 10"

definition customUpdateInstance ::
  "'x instance_api_scheme \<Rightarrow> ('y) ack_runtime_scheme \<Rightarrow> instance_resource \<Rightarrow> instance_resource \<Rightarrow> delta
   \<Rightarrow> (instance_resource option \<times> error option) act" where
  "customUpdateInstance api R desired latest d =
     (let updated = desired\<lparr>insStatus := insStatus latest\<rparr> in
      bind (if DifferentAt R d ''Spec.Tags''
            then bind (deref (instanceIdOf latest)) (\<lambda>i.
                 Sync api i (elems (insTags (insSpec desired))) (elems (insTags (insSpec latest))))
            else ret None) (\<lambda>err.
      ifErr err (\<lambda>e. ret (Some updated, Some e))
     (if \<not> DifferentExceptAt R d [''Spec.Tags''] then ret (Some updated, None)
      else if \<not> isRunning updated then ret (Some updated, Some requeueNotRunning)
      else bind (modifyInstanceAttributes api R d desired latest) (\<lambda>err. ret (Some updated, err)))))"

definition sdkUpdate_Instance ::
  "'x instance_api_scheme \<Rightarrow> ('y) ack_runtime_scheme \<Rightarrow> instance_resource \<Rightarrow> instance_resource \<Rightarrow> delta
   \<Rightarrow> (instance_resource option \<times> error option) act" where
  "sdkUpdate_Instance = customUpdateInstance"


subsection \<open>The kind\<close>

definition mirrorTags_Instance :: "(acktags \<Rightarrow> acktags) \<Rightarrow> instance_resource \<Rightarrow> instance_resource option \<Rightarrow> instance_resource" where
  "mirrorTags_Instance iter a b =
     (case b of None \<Rightarrow> a
      | Some l \<Rightarrow> a\<lparr>insSpec := (insSpec a)\<lparr>insTags := mirrorAWSTags iter (insTags (insSpec a)) (insTags (insSpec l))\<rparr>\<rparr>)"

definition inKind ::
  "'x instance_api_scheme \<Rightarrow> ('y) ack_runtime_scheme \<Rightarrow> resource_manager \<Rightarrow> error_texts \<Rightarrow> instance_resource kind" where
  "inKind api R rm env =
     \<lparr>findOp = (\<lambda>r. bind (sdkFind_Instance api R rm r) (\<lambda>x. ret (r, x))),
      createOp = sdkCreate_Instance api R rm,
      updateOp = (\<lambda>desired latest d. bind (sdkUpdate_Instance api R desired latest d) (\<lambda>x. ret (latest, x))),
      deleteOp = sdkDelete_Instance api,
      mirrorOp = mirrorTags_Instance (rangeOf R),
      conditionsOp = (\<lambda>k. Conditions (insStatus k)),
      updateConditionsOp = conditionsUpdater env [] rm insStatus (\<lambda>st k. k\<lparr>insStatus := st\<rparr>)\<rparr>"

lemma in_reports: "AWSError_law env \<Longrightarrow> reporting_kind (inKind api R rm env) []"
  by (rule conditionsUpdater_reports [where get = insStatus and put = "\<lambda>st k. k\<lparr>insStatus := st\<rparr>"]) (simp_all add: inKind_def)

interpretation in_kind: reporting_kind "inKind api R rm plainTexts" "[]"
  for api :: "'x instance_api_scheme" and R :: "('y) ack_runtime_scheme" and rm
  by (rule in_reports [OF plainTexts_law])

definition copyFields_Instance :: "instance_resource \<Rightarrow> instance_resource \<Rightarrow> instance_resource" where
  "copyFields_Instance observed latest =
     (let ob = insSpec observed; sp = insSpec latest;
          sp1 = (if insHibernationOptions ob \<noteq> None \<and> insHibernationOptions sp = None
                 then sp\<lparr>insHibernationOptions := insHibernationOptions ob\<rparr> else sp);
          sp2 = (if insSourceDestCheckEnabled ob \<noteq> None \<and> insSourceDestCheckEnabled sp1 = None
                 then sp1\<lparr>insSourceDestCheckEnabled := insSourceDestCheckEnabled ob\<rparr> else sp1)
      in latest\<lparr>insSpec := sp2\<rparr>)"

definition incompleteLateInitialization_Instance :: "instance_resource \<Rightarrow> bool" where
  "incompleteLateInitialization_Instance k \<longleftrightarrow> insHibernationOptions (insSpec k) = None"

definition LateInitialize_Instance ::
  "'x instance_api_scheme \<Rightarrow> ('y) ack_runtime_scheme \<Rightarrow> resource_manager \<Rightarrow> error_texts
   \<Rightarrow> (string \<Rightarrow> string option \<Rightarrow> string option \<Rightarrow> instance_resource \<Rightarrow> instance_resource)
   \<Rightarrow> instance_resource \<Rightarrow> (instance_resource \<times> error option) act" where
  "LateInitialize_Instance api R rm env SetLateInitialized =
     LateInitialize (inKind api R rm env) SetLateInitialized
       (\<lambda>st m reason k. k\<lparr>insStatus := (insStatus k)\<lparr>Conditions := SetSynced R st m reason (Conditions (insStatus k))\<rparr>\<rparr>)
       copyFields_Instance incompleteLateInitialization_Instance [''HibernationOptions'', ''SourceDestCheckEnabled'']"

subsection \<open>One attribute per update\<close>

text \<open>
  The attributes an update can change, in the order in which it looks at them, and what it then
  puts into the request.
\<close>

definition attributeTable ::
  "('y) ack_runtime_scheme \<Rightarrow> instance_spec \<Rightarrow> (string \<times> (modify_instance_input \<Rightarrow> modify_instance_input)) list" where
  "attributeTable R sp =
     [(''Spec.DisableAPITermination'', \<lambda>i. i\<lparr>miDisableApiTermination := Some (insDisableAPITermination sp)\<rparr>),
      (''Spec.InstanceType'', \<lambda>i. i\<lparr>miInstanceType := Some (insInstanceType sp)\<rparr>),
      (''Spec.KernelID'', \<lambda>i. i\<lparr>miKernel := Some (insKernelID sp)\<rparr>),
      (''Spec.RAMDiskID'', \<lambda>i. i\<lparr>miRamdisk := Some (insRAMDiskID sp)\<rparr>),
      (''Spec.InstanceInitiatedShutdownBehavior'',
         \<lambda>i. i\<lparr>miInstanceInitiatedShutdownBehavior := Some (insInstanceInitiatedShutdownBehavior sp)\<rparr>),
      (''Spec.UserData'', \<lambda>i. i\<lparr>miUserData := Some (safeString (insUserData sp))\<rparr>),
      (''Spec.EBSOptimized'', \<lambda>i. i\<lparr>miEbsOptimized := Some (insEBSOptimized sp)\<rparr>),
      (''Spec.DisableAPIStop'', \<lambda>i. i\<lparr>miDisableApiStop := Some (insDisableAPIStop sp)\<rparr>),
      (''Spec.SecurityGroupIDs'', \<lambda>i. i\<lparr>miGroups := ToStringSlice R (insSecurityGroupIDs sp)\<rparr>)]
   @ (if insSourceDestCheckEnabled sp = None then []
      else [(''Spec.SourceDestCheckEnabled'', \<lambda>i. i\<lparr>miSourceDestCheck := Some (insSourceDestCheckEnabled sp)\<rparr>)])"


text \<open>The requests for the attributes of a delta.\<close>

definition pending ::
  "('y) ack_runtime_scheme \<Rightarrow> instance_spec \<Rightarrow> delta \<Rightarrow> (string \<times> (modify_instance_input \<Rightarrow> modify_instance_input)) list" where
  "pending R sp d = filter (\<lambda>(p, _). DifferentAt R d p) (attributeTable R sp)"





subsection \<open>Attributes that are never read\<close>

text \<open>The attributes of the spec that neither the setter nor \<open>setAdditionalFields\<close> touches.\<close>

lemma monitoringOf_other [simp]:
  "insDisableAPITermination (monitoringOf i sp) = insDisableAPITermination sp" "insDisableAPIStop (monitoringOf i sp) = insDisableAPIStop sp"
  "insInstanceInitiatedShutdownBehavior (monitoringOf i sp) = insInstanceInitiatedShutdownBehavior sp"
  "insUserData (monitoringOf i sp) = insUserData sp"
  by (simp_all add: monitoringOf_def split: option.split)

lemma observed_other:
  "insSpec (observed_Instance R r elem k) = (insSpec (setAdditionalFields_Instance elem k))
     \<lparr>insTags := keepTagOrder (insTags (insSpec r)) (insTags (insSpec (setAdditionalFields_Instance elem k)))\<rparr>"
  by (simp add: observed_Instance_def withTags_Instance_def notSynced_Instance_def Let_def)

lemma unread_spec:
  assumes "sdkFind_Instance api R rm r s = (Ret (Some k, None), t)"
  shows "insDisableAPITermination (insSpec k) = insDisableAPITermination (insSpec r)"
    and "insDisableAPIStop (insSpec k) = insDisableAPIStop (insSpec r)"
    and "insInstanceInitiatedShutdownBehavior (insSpec k) = insInstanceInitiatedShutdownBehavior (insSpec r)"
    and "insUserData (insSpec k) = insUserData (insSpec r)"
proof -
  obtain elem where k: "k = observed_Instance R r elem (defaults_Instance rm (setFrom_Instance r elem))"
  proof (rule readCoded_found [OF assms [unfolded sdkFind_Instance_def]])
    fix x u
    assume "(let ko = defaults_Instance rm (setFrom_Instance r x) in
        if needsRestart ko then ret (None, Some NotFound) else ret (Some (observed_Instance R r x ko), None)) u = (Ret (Some k, None), t)"
    then have "k = observed_Instance R r x (defaults_Instance rm (setFrom_Instance r x))" by (simp add: Let_def split: if_splits)
    then show thesis by (rule that)
  qed
  note defs = k observed_other setAdditionalFields_Instance_def defaults_Instance_def setFrom_Instance_def readSpec_Instance_def Let_def
  show "insDisableAPITermination (insSpec k) = insDisableAPITermination (insSpec r)"
    and "insDisableAPIStop (insSpec k) = insDisableAPIStop (insSpec r)"
    and "insInstanceInitiatedShutdownBehavior (insSpec k) = insInstanceInitiatedShutdownBehavior (insSpec r)"
    and "insUserData (insSpec k) = insUserData (insSpec r)"
    by (simp_all add: defs)
qed

text \<open>
  C16. Some attributes are never updated. Whatever EC2 answers to the read of a desired
  instance, the instance that was read agrees with it in \<open>DisableAPITermination\<close>, \<open>DisableAPIStop\<close>,
  \<open>InstanceInitiatedShutdownBehavior\<close> and \<open>UserData\<close>, as the read only copies them: no difference
  is reported, and the update never asks for a change of any of the four.
\<close>

theorem unread_attributes_never_updated:
  assumes "ackcompare_law C" "runtime_law R" "sdkFind_Instance api R rm r s = (Ret (Some k, None), t)"
    and "d = compareSpecs_Instance C E (insSpec r) (insSpec k) []" "modificationInput R r k d = Some input"
  shows "miDisableApiTermination input = None \<and> miDisableApiStop input = None
    \<and> miInstanceInitiatedShutdownBehavior input = None \<and> miUserData input = None"
proof -
  have same: "\<not> DifferentAt R d p" if "f [] = []" "compares p f"
    "compareSpecs_Instance C E (insSpec r) (insSpec k) = inOrder fs" "f \<in> set fs" "\<forall>g \<in> set fs. g = f \<or> elsewhere p g" for p f fs
    using inOrder_at [OF that(4,2,5)] that(1) unfolding runtime_simps(1) [OF assms(2)] assms(4) that(3) by blast
  note spec = unread_spec [OF assms(3)] and cmp = comparePtr_same [OF assms(1)]
  have "\<not> DifferentAt R d ''Spec.DisableAPITermination''"
    by (rule same [OF _ _ compareSpecs_Instance_def, where f = "cmpBool C ''Spec.DisableAPITermination'' (insDisableAPITermination (insSpec r)) (insDisableAPITermination (insSpec k))"])
      (simp_all add: spec cmp fields elsewhere_simps apart_def)
  moreover have "\<not> DifferentAt R d ''Spec.DisableAPIStop''"
    by (rule same [OF _ _ compareSpecs_Instance_def, where f = "cmpBool C ''Spec.DisableAPIStop'' (insDisableAPIStop (insSpec r)) (insDisableAPIStop (insSpec k))"])
      (simp_all add: spec cmp fields elsewhere_simps apart_def)
  moreover have "\<not> DifferentAt R d ''Spec.InstanceInitiatedShutdownBehavior''"
    by (rule same [OF _ _ compareSpecs_Instance_def, where f = "cmpStr C ''Spec.InstanceInitiatedShutdownBehavior'' (insInstanceInitiatedShutdownBehavior (insSpec r)) (insInstanceInitiatedShutdownBehavior (insSpec k))"])
      (simp_all add: spec cmp fields elsewhere_simps apart_def)
  moreover have "\<not> DifferentAt R d ''Spec.UserData''"
    by (rule same [OF _ _ compareSpecs_Instance_def, where f = "cmpStr C ''Spec.UserData'' (insUserData (insSpec r)) (insUserData (insSpec k))"])
      (simp_all add: spec cmp fields elsewhere_simps apart_def)
  ultimately show ?thesis
    using assms(5) by (auto simp: modificationInput_def Let_def emptyModification_def split: if_splits)
qed

subsection \<open>An update converges\<close>








lemma monitoringOf_same [simp]:
  "insInstanceType (monitoringOf i sp) = insInstanceType sp" "insKernelID (monitoringOf i sp) = insKernelID sp"
  "insRAMDiskID (monitoringOf i sp) = insRAMDiskID sp" "insEBSOptimized (monitoringOf i sp) = insEBSOptimized sp"
  "insSecurityGroupIDs (monitoringOf i sp) = insSecurityGroupIDs sp" "insTags (monitoringOf i sp) = insTags sp"
  "insSourceDestCheckEnabled (monitoringOf i sp) = insSourceDestCheckEnabled sp"
  by (simp_all add: monitoringOf_def split: option.split)





















subsection \<open>Requests\<close>

text \<open>The numbers of a spec that have to fit into the \<open>int32\<close> fields of \<open>RunInstances\<close>.\<close>

definition ebsNumbers :: "ebs_block_device \<Rightarrow> int64 option list" where
  "ebsNumbers e = [ebdIOPS e, ebdThroughput e, ebdVolumeSize e]"

definition interfaceNumbers :: "instance_network_interface_specification \<Rightarrow> int64 option list" where
  "interfaceNumbers n = [nisDeviceIndex n, nisIPv4PrefixCount n, nisIPv6AddressCount n, nisIPv6PrefixCount n, nisNetworkCardIndex n,
     nisSecondaryPrivateIPAddressCount n]"

definition instanceNumbers :: "instance_spec \<Rightarrow> int64 option list" where
  "instanceNumbers sp =
     concat (map (\<lambda>b. case bdmEBS b of None \<Rightarrow> [] | Some e \<Rightarrow> ebsNumbers e) (elems (insBlockDeviceMappings sp)))
   @ (case insCPUOptions sp of None \<Rightarrow> [] | Some c \<Rightarrow> [corCoreCount c, corThreadsPerCore c])
   @ map eiaCount (elems (insElasticInferenceAccelerators sp))
   @ (case insInstanceMarketOptions sp of None \<Rightarrow> [] | Some m \<Rightarrow>
        (case mkoSpotOptions m of None \<Rightarrow> [] | Some o' \<Rightarrow> [smoBlockDurationMinutes o']))
   @ [insIPv6AddressCount sp]
   @ (case insMetadataOptions sp of None \<Rightarrow> [] | Some m \<Rightarrow> [mdoHTTPPutResponseHopLimit m])
   @ concat (map interfaceNumbers (elems (insNetworkInterfaces sp)))
   @ (case insPlacement sp of None \<Rightarrow> [] | Some p \<Rightarrow> [plcPartitionNumber p])"

lemma isOk_struct:
  "isOk (blockDeviceMappingToSdk b) \<longleftrightarrow> (\<forall>e. bdmEBS b = Some e \<longrightarrow> list_all fits (ebsNumbers e))"
  "isOk (cpuOptionsRequestToSdk c) \<longleftrightarrow> fits (corCoreCount c) \<and> fits (corThreadsPerCore c)"
  "isOk (elasticInferenceAcceleratorToSdk a) \<longleftrightarrow> fits (eiaCount a)"
  "isOk (instanceMarketOptionsRequestToSdk m) \<longleftrightarrow> (\<forall>o'. mkoSpotOptions m = Some o' \<longrightarrow> fits (smoBlockDurationMinutes o'))"
  "isOk (instanceMetadataOptionsRequestToSdk t) \<longleftrightarrow> fits (mdoHTTPPutResponseHopLimit t)"
  "isOk (instanceNetworkInterfaceSpecificationToSdk n) \<longleftrightarrow> list_all fits (interfaceNumbers n)"
  "isOk (placementToSdk p) \<longleftrightarrow> fits (plcPartitionNumber p)"
  by (simp_all add: blockDeviceMappingToSdk_def ebsBlockDeviceToSdk_def ebsNumbers_def cpuOptionsRequestToSdk_def
      elasticInferenceAcceleratorToSdk_def instanceMarketOptionsRequestToSdk_def spotMarketOptionsToSdk_def
      instanceMetadataOptionsRequestToSdk_def instanceNetworkInterfaceSpecificationToSdk_def interfaceNumbers_def placementToSdk_def)

lemma payload_fits: "isOk (newCreateRequestPayload_Instance R r) \<longleftrightarrow> list_all fits (instanceNumbers (insSpec r))"
proof -
  have l: "(\<forall>xs. p = Some xs \<longrightarrow> (\<forall>x \<in> set xs. P x)) \<longleftrightarrow> list_all P (elems p)" for p and P :: "'z \<Rightarrow> bool"
    by (cases p) (simp_all add: list_all_iff)
  have o: "list_all fits (case q of None \<Rightarrow> [] | Some y \<Rightarrow> f y) \<longleftrightarrow> (\<forall>y. q = Some y \<longrightarrow> list_all fits (f y))" for q and f :: "'z \<Rightarrow> int64 option list"
    by (cases q) simp_all
  have c: "list_all fits (concat (map f xs)) \<longleftrightarrow> list_all (\<lambda>x. list_all fits (f x)) xs" for f :: "'z \<Rightarrow> int64 option list" and xs
    by (induction xs) simp_all
  show ?thesis
    by (simp add: newCreateRequestPayload_Instance_def instanceNumbers_def Let_def isOk_struct l o c comp_def list.pred_map conj_assoc)
qed

text \<open>
  C8. Bounds of the request. An instance is asked for exactly when every number of the spec that
  is sent fits into 32 bits: then \<open>RunInstances\<close> is called once, for one instance whatever \<open>MinCount\<close>
  and \<open>MaxCount\<close> say; otherwise the creation fails before any call.
\<close>

theorem instance_request_bounds:
  shows "(list_all fits (instanceNumbers (insSpec r)) \<longrightarrow> (\<exists>input. riMinCount input = Some 1 \<and> riMaxCount input = Some 1
          \<and> calls (snd (sdkCreate_Instance api R rm r s)) = calls s @ [InstanceCall (RunInstances input)]))
    \<and> (\<not> list_all fits (instanceNumbers (insSpec r)) \<longrightarrow> (\<exists>e. sdkCreate_Instance api R rm r s = (Ret (None, Some e), s)))"
proof (cases "newCreateRequestPayload_Instance R r")
  case (Inl e)
  then have "\<not> list_all fits (instanceNumbers (insSpec r))" unfolding payload_fits [of R, symmetric] by simp
  with Inl show ?thesis by (simp add: sdkCreate_Instance_def)
next
  case (Inr input)
  let ?i = "updateTagSpecifications_Instance r input"
  have "list_all fits (instanceNumbers (insSpec r))" unfolding payload_fits [of R, symmetric] Inr by simp
  moreover have "riMinCount ?i = Some 1 \<and> riMaxCount ?i = Some 1"
    using Inr by (auto simp: newCreateRequestPayload_Instance_def Let_def onOk_def updateTagSpecifications_Instance_def split: sum.splits)
  moreover have "calls (snd (sdkCreate_Instance api R rm r s)) = calls s @ [InstanceCall (RunInstances ?i)]"
    by (auto simp: sdkCreate_Instance_def Inr createFlat_def bind_def deref_def split: sum.split option.split list.split)
  ultimately show ?thesis by blast
qed

subsection \<open>Witnesses\<close>

definition exampleInstance :: "string option \<Rightarrow> string option \<Rightarrow> int64 option \<Rightarrow> instance_resource" where
  "exampleInstance type userData addresses = \<lparr>insSpec =
     \<lparr>insBlockDeviceMappings = None, insCapacityReservationSpecification = None, insCPUOptions = None,
      insCreditSpecification = None, insDisableAPIStop = None, insDisableAPITermination = None, insEBSOptimized = None,
      insElasticGPUSpecification = None, insElasticInferenceAccelerators = None, insEnclaveOptions = None,
      insHibernationOptions = None, insIAMInstanceProfile = None, insImageID = None,
      insInstanceInitiatedShutdownBehavior = None, insInstanceMarketOptions = None, insInstanceType = type,
      insIPv6AddressCount = addresses, insIPv6Addresses = None, insKernelID = None, insKeyName = None,
      insLaunchTemplate = None, insLicenseSpecifications = None, insMaintenanceOptions = None, insMaxCount = None,
      insMetadataOptions = None, insMinCount = None, insMonitoring = None, insNetworkInterfaces = None, insPlacement = None,
      insPrivateDNSNameOptions = None, insPrivateIPAddress = None, insRAMDiskID = None, insSecurityGroupIDs = [],
      insSecurityGroups = [], insSourceDestCheckEnabled = Some True, insSubnetID = None, insSubnetRef = None, insTags = None,
      insUserData = userData\<rparr>,
     insStatus =
     \<lparr>ACKResourceMetadata = None, Conditions = [], instAMILaunchIndex = None, instArchitecture = None, instBootMode = None,
      instCapacityReservationID = None, instElasticGPUAssociations = None,
      instElasticInferenceAcceleratorAssociations = None, instENASupport = None, instHypervisor = None,
      instInstanceID = Some ''i-1'', instInstanceLifecycle = None, instIPv6Address = None, instLaunchTime = None,
      instLicenses = None, instOutpostARN = None, instPlatform = None, instPlatformDetails = None, instPrivateDNSName = None,
      instProductCodes = None, instPublicDNSName = None, instPublicIPAddress = None, instRootDeviceName = None,
      instRootDeviceType = None, instSourceDestCheck = None, instSpotInstanceRequestID = None, instSRIOVNetSupport = None,
      instState = Some \<lparr>istCode = None, istName = Some ''running''\<rparr>, instStateReason = None,
      instStateTransitionReason = None, instTPMSupport = None, instUsageOperation = None,
      instUsageOperationUpdateTime = None, instVirtualizationType = None, instVPCID = None\<rparr>\<rparr>"

definition exampleSdkInstance :: sdk_instance where
  "exampleSdkInstance =
     \<lparr>sdkInAmiLaunchIndex = None, sdkInArchitecture = [], sdkInBlockDeviceMappings = None, sdkInBootMode = [],
      sdkInCapacityReservationId = None, sdkInCapacityReservationSpecification = None, sdkInCpuOptions = None,
      sdkInEbsOptimized = None, sdkInElasticGpuAssociations = None, sdkInElasticInferenceAcceleratorAssociations = None,
      sdkInEnaSupport = None, sdkInEnclaveOptions = None, sdkInHibernationOptions = None, sdkInHypervisor = [],
      sdkInIamInstanceProfile = None, sdkInImageId = None, sdkInInstanceId = Some ''i-1'', sdkInInstanceLifecycle = [],
      sdkInInstanceType = ''t3.micro'', sdkInIpv6Address = None, sdkInKernelId = None, sdkInKeyName = None,
      sdkInLaunchTime = None, sdkInLicenses = None, sdkInMaintenanceOptions = None, sdkInMetadataOptions = None,
      sdkInMonitoring = None, sdkInNetworkInterfaces = None, sdkInOutpostArn = None, sdkInPlacement = None,
      sdkInPlatform = [], sdkInPlatformDetails = None, sdkInPrivateDnsName = None, sdkInPrivateDnsNameOptions = None,
      sdkInPrivateIpAddress = None, sdkInProductCodes = None, sdkInPublicDnsName = None, sdkInPublicIpAddress = None,
      sdkInRamdiskId = None, sdkInRootDeviceName = None, sdkInRootDeviceType = [], sdkInSecurityGroups = None,
      sdkInSourceDestCheck = None, sdkInSpotInstanceRequestId = None, sdkInSriovNetSupport = None,
      sdkInState = Some \<lparr>sdkIsCode = Some 16, sdkIsName = ''running''\<rparr>, sdkInStateReason = None,
      sdkInStateTransitionReason = None, sdkInSubnetId = None, sdkInTags = None, sdkInTpmSupport = None,
      sdkInUsageOperation = None, sdkInUsageOperationUpdateTime = None, sdkInVirtualizationType = [], sdkInVpcId = None\<rparr>"

definition exampleInstanceApi :: instance_api where
  "exampleInstanceApi = \<lparr>onCreateTags = (\<lambda>_ _. None), onDeleteTags = (\<lambda>_ _. None),
     onDescribeInstances = (\<lambda>_ _. Inr (Some [[exampleSdkInstance]])), onRunInstances = (\<lambda>_ _. Inr (Some [exampleSdkInstance])),
     onModifyInstanceAttribute = (\<lambda>_ _. None), onTerminateInstances = (\<lambda>_ _. None)\<rparr>"

definition neverEqual :: instance_equalities where
  "neverEqual = \<lparr>eqBlockDeviceMappings = (\<lambda>_ _. False), eqElasticGPUSpecification = (\<lambda>_ _. False),
     eqElasticInferenceAccelerators = (\<lambda>_ _. False), eqIPv6Addresses = (\<lambda>_ _. False), eqLicenseSpecifications = (\<lambda>_ _. False),
     eqNetworkInterfaces = (\<lambda>_ _. False)\<rparr>"




lemma type_is_sent: "DifferentAt R d ''Spec.InstanceType'' \<Longrightarrow> \<exists>input. modificationInput R desired latest d = Some input"
  by (cases "DifferentAt R d ''Spec.DisableAPITermination''") (simp_all add: modificationInput_def Let_def)

lemma unread_attributes_never_updated_witness:
  "\<exists>k t input. sdkFind_Instance exampleInstanceApi exactRuntime exampleManager (exampleInstance (Some ''t3.large'') (Some ''new'') None) []
        = (Ret (Some k, None), t)
    \<and> modificationInput exactRuntime (exampleInstance (Some ''t3.large'') (Some ''new'') None) k
        (compareSpecs_Instance exactComparisons neverEqual (insSpec (exampleInstance (Some ''t3.large'') (Some ''new'') None)) (insSpec k) [])
      = Some input \<and> miUserData input = None"
proof -
  let ?r = "exampleInstance (Some ''t3.large'') (Some ''new'') None"
  let ?k = "observed_Instance exactRuntime ?r exampleSdkInstance (defaults_Instance exampleManager (setFrom_Instance ?r exampleSdkInstance))"
  let ?d = "compareSpecs_Instance exactComparisons neverEqual (insSpec ?r) (insSpec ?k) []"
  have n: "\<not> needsRestart (defaults_Instance exampleManager (setFrom_Instance ?r exampleSdkInstance))"
    by (simp add: needsRestart_def stateName_def defaults_Instance_def setFrom_Instance_def readStatus_Instance_def instanceStateFromSdk_def
        exampleSdkInstance_def exampleInstance_def enumPtr_def setStatusDefaults_def Let_def)
  have f: "sdkFind_Instance exampleInstanceApi exactRuntime exampleManager ?r [] = (Ret (Some ?k, None),
      [Call (InstanceCall (DescribeInstances [''i-1''])), Metric ''READ_MANY'' ''DescribeInstances'' None])"
    using n by (simp add: sdkFind_Instance_def requiredFieldsMissing_Instance_def newListRequestPayload_Instance_def exampleInstanceApi_def
        exampleInstance_def readCoded_def firstReservation_def Let_def)
  have "insInstanceType (insSpec ?k) = Some ''t3.micro''"
    by (simp add: observed_other setAdditionalFields_Instance_def monitoringOf_def defaults_Instance_def setFrom_Instance_def readSpec_Instance_def
        exampleSdkInstance_def enumPtr_def Let_def)
  moreover have "insInstanceType (insSpec ?r) = Some ''t3.large''" by (simp add: exampleInstance_def)
  ultimately have "cmpStr exactComparisons ''Spec.InstanceType'' (insInstanceType (insSpec ?r)) (insInstanceType (insSpec ?k)) [] \<noteq> []"
    by (simp add: comparePtr_def)
  moreover have "(\<exists>q \<in> set ?d. liesAt ''Spec.InstanceType'' q)
      \<longleftrightarrow> cmpStr exactComparisons ''Spec.InstanceType'' (insInstanceType (insSpec ?r)) (insInstanceType (insSpec ?k)) [] \<noteq> []"
    unfolding compareSpecs_Instance_def by (rule inOrder_at) (simp_all add: fields elsewhere_simps apart_def)
  ultimately have "DifferentAt exactRuntime ?d ''Spec.InstanceType''" by (simp add: exactRuntime_def)
  from type_is_sent [OF this] obtain input where i: "modificationInput exactRuntime ?r ?k ?d = Some input" by blast
  from unread_attributes_never_updated [OF exactComparisons_law exactRuntime_law f refl i] f i show ?thesis by blast
qed

lemma instance_request_bounds_witness:
  "(\<exists>input. riMinCount input = Some 1 \<and> riMaxCount input = Some 1
      \<and> calls (snd (sdkCreate_Instance exampleInstanceApi exactRuntime exampleManager (exampleInstance (Some ''t3.micro'') None (Some 5)) []))
        = [InstanceCall (RunInstances input)])
   \<and> (\<exists>e. sdkCreate_Instance exampleInstanceApi exactRuntime exampleManager (exampleInstance (Some ''t3.micro'') None (Some 2147483648)) []
        = (Ret (None, Some e), []))"
proof -
  have "list_all fits (instanceNumbers (insSpec (exampleInstance (Some ''t3.micro'') None (Some 5))))"
    "\<not> list_all fits (instanceNumbers (insSpec (exampleInstance (Some ''t3.micro'') None (Some 2147483648))))"
    by (simp_all add: instanceNumbers_def exampleInstance_def fits_def)
  then show ?thesis
    using instance_request_bounds [of "exampleInstance (Some ''t3.micro'') None (Some 5)" exampleInstanceApi exactRuntime exampleManager "[]"]
      instance_request_bounds [of "exampleInstance (Some ''t3.micro'') None (Some 2147483648)" exampleInstanceApi exactRuntime exampleManager "[]"]
    by simp
qed

end
