(* ===== verification/LaunchTemplate.thy ===== *)
theory LaunchTemplate
  imports Template_Types
begin

text \<open>
  The launch template controller (\<open>pkg/resource/launch_template/hooks.go\<close>, \<open>sdk.go\<close>): a template
  has versions, and an update of its data creates a new one; the default version is changed by
  another call, which a deferred function makes when the update returns.
\<close>

record template_api = tags_api +
  onDescribeLaunchTemplates :: "call log \<Rightarrow> string list \<Rightarrow> error + sdk_launch_template list option"
  onDescribeLaunchTemplateVersions :: "call log \<Rightarrow> describe_versions_input \<Rightarrow> error + sdk_launch_template_version list option"
  onCreateLaunchTemplate :: "call log \<Rightarrow> create_template_input \<Rightarrow> error + sdk_launch_template option option"
  onCreateLaunchTemplateVersion :: "call log \<Rightarrow> create_version_input \<Rightarrow> error + sdk_launch_template_version option option"
  onModifyLaunchTemplate :: "call log \<Rightarrow> modify_template_input \<Rightarrow> error + sdk_launch_template option option"
  onDeleteLaunchTemplate :: "call log \<Rightarrow> string option \<Rightarrow> error option"

abbreviation templateIdOf :: "launch_template \<Rightarrow> string option" where
  "templateIdOf k \<equiv> ltstID (ltStatus k)"

subsection \<open>Reading\<close>

definition operatorFromSdk :: "sdk_operator_response \<Rightarrow> operator_response" where
  "operatorFromSdk x = \<lparr>oreManaged = sdkOrManaged x, orePrincipal = sdkOrPrincipal x\<rparr>"

definition setFrom_Template :: "launch_template \<Rightarrow> sdk_launch_template \<Rightarrow> launch_template" where
  "setFrom_Template k x =
     k\<lparr>ltSpec := (ltSpec k)\<lparr>ltspDefaultVersion := sdkLtDefaultVersionNumber x, ltspTags := map_option resourceTags (sdkLtTags x)\<rparr>,
       ltStatus := (ltStatus k)\<lparr>ltstCreateTime := sdkLtCreateTime x, ltstCreatedBy := sdkLtCreatedBy x,
         ltstLatestVersion := sdkLtLatestVersionNumber x, ltstOperator := map_option operatorFromSdk (sdkLtOperator x)\<rparr>\<rparr>"

definition setCreated_Template :: "launch_template \<Rightarrow> sdk_launch_template \<Rightarrow> launch_template" where
  "setCreated_Template k x =
     (let k1 = setFrom_Template k x in
      k1\<lparr>ltSpec := (ltSpec k1)\<lparr>ltspName := sdkLtLaunchTemplateName x\<rparr>,
         ltStatus := (ltStatus k1)\<lparr>ltstID := sdkLtLaunchTemplateId x\<rparr>\<rparr>)"

text \<open>What a version says of the template.\<close>

definition setVersion :: "('y) ack_runtime_scheme \<Rightarrow> launch_template \<Rightarrow> sdk_launch_template_version \<Rightarrow> launch_template" where
  "setVersion R k v =
     k\<lparr>ltSpec := (ltSpec k)\<lparr>ltspData := map_option (requestLaunchTemplateDataFromSdk R) (sdkLtvLaunchTemplateData v),
         ltspVersionDescription := sdkLtvVersionDescription v\<rparr>,
       ltStatus := (ltStatus k)\<lparr>ltstCreateTime := sdkLtvCreateTime v, ltstCreatedBy := sdkLtvCreatedBy v,
         ltstOperator := map_option operatorFromSdk (sdkLtvOperator v)\<rparr>\<rparr>"

definition defaults_Template :: "resource_manager \<Rightarrow> launch_template \<Rightarrow> launch_template" where
  "defaults_Template rm k = k\<lparr>ltStatus := setStatusDefaults rm (ltStatus k)\<rparr>"

definition checkForMissingRequiredFields_Template :: "launch_template \<Rightarrow> bool" where
  "checkForMissingRequiredFields_Template r \<longleftrightarrow> templateIdOf r = None"

definition newListRequestPayload_Template :: "launch_template \<Rightarrow> string list" where
  "newListRequestPayload_Template r = (case templateIdOf r of None \<Rightarrow> [] | Some i \<Rightarrow> [i])"

text \<open>A version is asked for by the decimal text of its number.\<close>

definition newListLaunchTemplateVersionRequestPayload :: "launch_template \<Rightarrow> describe_versions_input" where
  "newListLaunchTemplateVersionRequestPayload r =
     \<lparr>dvrLaunchTemplateId = templateIdOf r,
      dvrVersions = (case ltstLatestVersion (ltStatus r) of None \<Rightarrow> [] | Some v \<Rightarrow> [formatInt (sint v)])\<rparr>"

text \<open>The versions of the answer are gone through in order; the last one wins. \<open>ko\<close> is changed in place.\<close>

definition setLatestLaunchTemplateAttributes ::
  "'x template_api_scheme \<Rightarrow> ('y) ack_runtime_scheme \<Rightarrow> launch_template \<Rightarrow> launch_template \<Rightarrow> (launch_template \<times> error option) act" where
  "setLatestLaunchTemplateAttributes api R r ko =
     (let input = newListLaunchTemplateVersionRequestPayload r in
      bind (invoke (\<lambda>i. TemplateCall (DescribeLaunchTemplateVersions i)) (onDescribeLaunchTemplateVersions api) input) (\<lambda>resp.
      bind (recordAPICall ''READ_MANY'' ''DescribeLaunchTemplateVersions'' (errOf resp)) (\<lambda>_.
      case resp of
        Inl e \<Rightarrow> ret (ko, Some e)
      | Inr out \<Rightarrow> bind (deref out) (\<lambda>versions. ret (fold (\<lambda>v k. setVersion R k v) versions ko, None)))))"

text \<open>An error of the versions is dropped: what was read so far is returned without one.\<close>

definition sdkFind_Template ::
  "'x template_api_scheme \<Rightarrow> ('y) ack_runtime_scheme \<Rightarrow> resource_manager \<Rightarrow> launch_template
   \<Rightarrow> (launch_template option \<times> error option) act" where
  "sdkFind_Template api R rm r =
     readCoded ''InvalidLaunchTemplateName.NotFoundException'' (checkForMissingRequiredFields_Template r)
       (\<lambda>i. TemplateCall (DescribeLaunchTemplates i)) (onDescribeLaunchTemplates api) ''DescribeLaunchTemplates''
       (newListRequestPayload_Template r) (\<lambda>elem.
         bind (setLatestLaunchTemplateAttributes api R r (defaults_Template rm (setFrom_Template r elem))) (\<lambda>(ko, err).
         ifErr err (\<lambda>_. ret (Some ko, None)) (ret (Some ko, None))))"

subsection \<open>Creating and deleting\<close>

definition newCreateRequestPayload_Template ::
  "('y) ack_runtime_scheme \<Rightarrow> launch_template \<Rightarrow> (error + create_template_input) act" where
  "newCreateRequestPayload_Template R r =
     okAct (optAct (requestLaunchTemplateDataToSdk R) (ltspData (ltSpec r))) (\<lambda>data.
     ret (Inr \<lparr>cltLaunchTemplateData = data, cltLaunchTemplateName = ltspName (ltSpec r),
       cltVersionDescription = ltspVersionDescription (ltSpec r), cltTagSpecifications = None\<rparr>))"

text \<open>Unlike in the other kinds, a tag without a key or without a value is left out of the request.\<close>

definition completeTags :: "tag list \<Rightarrow> tag list" where
  "completeTags ts = filter (\<lambda>t. Key t \<noteq> None \<and> Value t \<noteq> None) ts"

definition updateTagSpecifications_Template :: "launch_template \<Rightarrow> create_template_input \<Rightarrow> create_template_input" where
  "updateTagSpecifications_Template r input =
     input\<lparr>cltTagSpecifications := tagSpecificationsFor ''launch-template'' (map_option completeTags (ltspTags (ltSpec r)))\<rparr>"

definition sdkCreate_Template ::
  "'x template_api_scheme \<Rightarrow> ('y) ack_runtime_scheme \<Rightarrow> resource_manager \<Rightarrow> launch_template
   \<Rightarrow> (launch_template option \<times> error option) act" where
  "sdkCreate_Template api R rm desired =
     bind (newCreateRequestPayload_Template R desired) (\<lambda>payload.
     case payload of
       Inl e \<Rightarrow> ret (None, Some e)
     | Inr input \<Rightarrow>
         createOne (\<lambda>i. TemplateCall (CreateLaunchTemplate i)) (onCreateLaunchTemplate api) ''CreateLaunchTemplate''
           (updateTagSpecifications_Template desired input)
           (\<lambda>resp. ret (Some (defaults_Template rm (setCreated_Template desired resp)), None)))"

definition newDeleteRequestPayload_Template :: "launch_template \<Rightarrow> string option" where
  "newDeleteRequestPayload_Template r = templateIdOf r"

definition sdkDelete_Template ::
  "'x template_api_scheme \<Rightarrow> launch_template \<Rightarrow> (launch_template option \<times> error option) act" where
  "sdkDelete_Template api r =
     deleteOne (\<lambda>i. TemplateCall (DeleteLaunchTemplate i)) (onDeleteLaunchTemplate api) ''DeleteLaunchTemplate''
       (newDeleteRequestPayload_Template r)"

subsection \<open>Updating\<close>

definition newUpdateLaunchTemplateVersionRequestPayload :: "launch_template \<Rightarrow> error + modify_template_input" where
  "newUpdateLaunchTemplateVersionRequestPayload r =
     (case ltspDefaultVersion (ltSpec r) of
        None \<Rightarrow> Inl (TerminalError (GoError ''field DefaultVersion is required''))
      | Some v \<Rightarrow> Inr \<lparr>mltLaunchTemplateName = ltspName (ltSpec r), mltDefaultVersion = Some (formatInt (sint v))\<rparr>)"

text \<open>What the call answers is written into a copy that nobody sees; only a nil answer matters, which panics.\<close>

definition updateDefaultVersion :: "'x template_api_scheme \<Rightarrow> launch_template \<Rightarrow> error option act" where
  "updateDefaultVersion api desired =
     (case newUpdateLaunchTemplateVersionRequestPayload desired of
        Inl e \<Rightarrow> ret (Some e)
      | Inr input \<Rightarrow>
          bind (invoke (\<lambda>i. TemplateCall (ModifyLaunchTemplate i)) (onModifyLaunchTemplate api) input) (\<lambda>r.
          bind (recordAPICall ''UPDATE'' ''ModifyLaunchTemplate'' (errOf r)) (\<lambda>_.
          case r of
            Inl e \<Rightarrow> ret (Some e)
          | Inr out \<Rightarrow> bind (deref out) (\<lambda>resp. bind (deref resp) (\<lambda>_. ret None)))))"

definition newUpdateRequestPayload_Template ::
  "('y) ack_runtime_scheme \<Rightarrow> launch_template \<Rightarrow> (error + create_version_input) act" where
  "newUpdateRequestPayload_Template R r =
     okAct (optAct (requestLaunchTemplateDataToSdk R) (ltspData (ltSpec r))) (\<lambda>data.
     ret (Inr \<lparr>cvrLaunchTemplateData = data, cvrLaunchTemplateId = templateIdOf r,
       cvrVersionDescription = ltspVersionDescription (ltSpec r)\<rparr>))"

definition setUpdated_Template ::
  "('y) ack_runtime_scheme \<Rightarrow> launch_template \<Rightarrow> sdk_launch_template_version \<Rightarrow> launch_template" where
  "setUpdated_Template R k v =
     (let k1 = setVersion R k v in
      k1\<lparr>ltStatus := (ltStatus k1)\<lparr>ltstID := sdkLtvLaunchTemplateId v, ltstLatestVersion := sdkLtvVersionNumber v\<rparr>\<rparr>)"

text \<open>
  \<open>if c { defer func() { err = later() }() }\<close>, then the body: the deferred call runs when the
  body has returned, and its error replaces that of the body. It also runs when the body panics.
\<close>

definition deferErr ::
  "bool \<Rightarrow> error option act \<Rightarrow> ('r option \<times> error option) act \<Rightarrow> ('r option \<times> error option) act" where
  "deferErr c later body =
     (if c then (\<lambda>s. case body s of
          (Ret (x, _), t) \<Rightarrow> bind later (\<lambda>err. ret (x, err)) t
        | (Panic, t) \<Rightarrow> (Panic, snd (later t))
        | (NoFuel, t) \<Rightarrow> (NoFuel, t))
      else body)"

definition createVersion ::
  "'x template_api_scheme \<Rightarrow> ('y) ack_runtime_scheme \<Rightarrow> resource_manager \<Rightarrow> launch_template \<Rightarrow> delta
   \<Rightarrow> (launch_template option \<times> error option) act" where
  "createVersion api R rm desired d =
     (if \<not> DifferentExceptAt R d [''Spec.Tags'', ''Spec.DefaultVersion''] then ret (Some desired, None)
      else
        bind (newUpdateRequestPayload_Template R desired) (\<lambda>payload.
        case payload of
          Inl e \<Rightarrow> ret (None, Some e)
        | Inr input \<Rightarrow>
            bind (invoke (\<lambda>i. TemplateCall (CreateLaunchTemplateVersion i)) (onCreateLaunchTemplateVersion api) input) (\<lambda>r.
            bind (recordAPICall ''UPDATE'' ''CreateLaunchTemplateVersion'' (errOf r)) (\<lambda>_.
            case r of
              Inl e \<Rightarrow> ret (None, Some e)
            | Inr out \<Rightarrow>
                bind (deref out) (\<lambda>resp.
                bind (deref resp) (\<lambda>v.
                ret (Some (defaults_Template rm (setUpdated_Template R desired v)), None)))))))"

definition sdkUpdate_Template ::
  "'x template_api_scheme \<Rightarrow> ('y) ack_runtime_scheme \<Rightarrow> resource_manager \<Rightarrow> launch_template \<Rightarrow> launch_template \<Rightarrow> delta
   \<Rightarrow> (launch_template option \<times> error option) act" where
  "sdkUpdate_Template api R rm desired latest d =
     syncTagsIf api (DifferentAt R d ''Spec.Tags'') (templateIdOf latest) (ltspTags (ltSpec desired)) (ltspTags (ltSpec latest))
       (deferErr (DifferentAt R d ''Spec.DefaultVersion'') (updateDefaultVersion api desired)
         (createVersion api R rm desired d))"

definition newResourceDelta_Template ::
  "('x) ackcompare_scheme \<Rightarrow> ('y) template_equalities_scheme \<Rightarrow> launch_template option \<Rightarrow> launch_template option \<Rightarrow> delta act" where
  "newResourceDelta_Template C E a b = bothResources a b (\<lambda>x y. compareSpecs_Template C E (ltSpec x) (ltSpec y) []) (\<lambda>d. d)"

subsection \<open>The kind\<close>

definition mirrorTags_Template :: "(acktags \<Rightarrow> acktags) \<Rightarrow> launch_template \<Rightarrow> launch_template option \<Rightarrow> launch_template" where
  "mirrorTags_Template iter a b =
     (case b of None \<Rightarrow> a
      | Some l \<Rightarrow> a\<lparr>ltSpec := (ltSpec a)\<lparr>ltspTags := mirrorAWSTags iter (ltspTags (ltSpec a)) (ltspTags (ltSpec l))\<rparr>\<rparr>)"

definition ltKind ::
  "'x template_api_scheme \<Rightarrow> ('y) ack_runtime_scheme \<Rightarrow> resource_manager \<Rightarrow> error_texts \<Rightarrow> launch_template kind" where
  "ltKind api R rm env =
     \<lparr>findOp = (\<lambda>r. bind (sdkFind_Template api R rm r) (\<lambda>x. ret (r, x))),
      createOp = sdkCreate_Template api R rm,
      updateOp = (\<lambda>desired latest d. bind (sdkUpdate_Template api R rm desired latest d) (\<lambda>x. ret (latest, x))),
      deleteOp = sdkDelete_Template api,
      mirrorOp = mirrorTags_Template (rangeOf R),
      conditionsOp = (\<lambda>k. Conditions (ltStatus k)),
      updateConditionsOp = conditionsUpdater env [] rm ltStatus (\<lambda>st k. k\<lparr>ltStatus := st\<rparr>)\<rparr>"

lemma lt_reports: "AWSError_law env \<Longrightarrow> reporting_kind (ltKind api R rm env) []"
  by (rule conditionsUpdater_reports [where get = ltStatus and put = "\<lambda>st k. k\<lparr>ltStatus := st\<rparr>"]) (simp_all add: ltKind_def)

interpretation lt_kind: reporting_kind "ltKind api R rm plainTexts" "[]"
  for api :: "'x template_api_scheme" and R :: "('y) ack_runtime_scheme" and rm
  by (rule lt_reports [OF plainTexts_law])

subsection \<open>Data, there and back\<close>





subsection \<open>Errors of an update\<close>

lemma deferErr_result:
  assumes "deferErr True later body s = (Ret (x, e), t)"
  obtains u where "later u = (Ret e, t)"
  using assms that by (auto simp: deferErr_def bind_def split: prod.splits outcome.splits)

lemma deferred_error_replaces:
  assumes "\<not> DifferentAt R d ''Spec.Tags''" "DifferentAt R d ''Spec.DefaultVersion''"
    and "sdkUpdate_Template api R rm desired latest d s = (Ret (x, e), t)"
  shows "\<exists>u. updateDefaultVersion api desired u = (Ret e, t)"
  using assms by (auto simp: sdkUpdate_Template_def elim!: deferErr_result)

text \<open>
  C10. The error of a new version is lost. When the default version differs as well, the version is
  created first and the default is changed by a deferred function, which overwrites the error: a
  version that EC2 refused leaves an update that returns a nil resource and no error, after both
  calls were made.
\<close>

theorem refused_version_succeeds:
  assumes "runtime_law R" "\<not> DifferentAt R d ''Spec.Tags''" "DifferentAt R d ''Spec.DefaultVersion''"
    and "DifferentExceptAt R d [''Spec.Tags'', ''Spec.DefaultVersion'']"
    and "newUpdateRequestPayload_Template R desired s = (Ret (Inr input), s)"
    and "onCreateLaunchTemplateVersion api s input = Inl refused"
    and "newUpdateLaunchTemplateVersionRequestPayload desired = Inr modify"
    and "\<And>u. onModifyLaunchTemplate api u modify = Inr (Some (Some x))"
  shows "\<exists>t. Update (ltKind api R rm env) desired latest d s = (Ret (None, None), t)
    \<and> calls t = calls s @ [TemplateCall (CreateLaunchTemplateVersion input), TemplateCall (ModifyLaunchTemplate modify)]"
proof -
  let ?t = "s @ [Call (TemplateCall (CreateLaunchTemplateVersion input)), Metric ''UPDATE'' ''CreateLaunchTemplateVersion'' (Some refused)]"
  let ?u = "?t @ [Call (TemplateCall (ModifyLaunchTemplate modify)), Metric ''UPDATE'' ''ModifyLaunchTemplate'' None]"
  have "createVersion api R rm desired d s = (Ret (None, Some refused), ?t)"
    using assms(4-6) by (simp add: createVersion_def bind_def [of "newUpdateRequestPayload_Template R desired"])
  moreover have "updateDefaultVersion api desired ?t = (Ret None, ?u)"
    using assms(7,8) by (simp add: updateDefaultVersion_def)
  ultimately have "sdkUpdate_Template api R rm desired latest d s = (Ret (None, None), ?u)"
    using assms(2,3) by (simp add: sdkUpdate_Template_def deferErr_def bind_def)
  then have "Update (ltKind api R rm env) desired latest d s = (Ret (None, None), ?u)"
    by (simp add: Update_def ltKind_def finishOp_def onSuccess_def bind_def)
  then show ?thesis by simp
qed

subsection \<open>Errors of a read\<close>

text \<open>
  C34. A read that failed halfway is a success. The data of a template is that of its latest
  version, whose number is taken from the resource and not from the answer that was just read. When
  the versions cannot be described, \<open>sdkFind\<close> returns the resource without an error, with the
  desired data and description in the place of those that EC2 has.
\<close>

theorem failed_versions_read:
  assumes "templateIdOf r = Some i" "\<And>u. onDescribeLaunchTemplates api u [i] = Inr (Some (x # xs))"
    and "\<And>u. onDescribeLaunchTemplateVersions api u (newListLaunchTemplateVersionRequestPayload r) = Inl err"
  shows "\<exists>k t. sdkFind_Template api R rm r s = (Ret (Some k, None), t)
    \<and> ltspData (ltSpec k) = ltspData (ltSpec r) \<and> ltspVersionDescription (ltSpec k) = ltspVersionDescription (ltSpec r)
    \<and> calls t = calls s @ [TemplateCall (DescribeLaunchTemplates [i]), TemplateCall (DescribeLaunchTemplateVersions
        \<lparr>dvrLaunchTemplateId = Some i,
         dvrVersions = (case ltstLatestVersion (ltStatus r) of None \<Rightarrow> [] | Some v \<Rightarrow> [formatInt (sint v)])\<rparr>)]"
  using assms by (simp add: sdkFind_Template_def checkForMissingRequiredFields_Template_def newListRequestPayload_Template_def
      readCoded_simps setLatestLaunchTemplateAttributes_def newListLaunchTemplateVersionRequestPayload_def Let_def
      defaults_Template_def setFrom_Template_def)


subsection \<open>Witnesses\<close>

definition exampleTemplateData :: "string \<Rightarrow> sdk_request_launch_template_data" where
  "exampleTemplateData type =
     \<lparr>sdkRltdBlockDeviceMappings = Some [\<lparr>sdkLtbdmrDeviceName = Some ''/dev/xvda'', sdkLtbdmrEbs = Some
         \<lparr>sdkLtebdrDeleteOnTermination = Some True, sdkLtebdrEncrypted = None, sdkLtebdrIops = Some 3000, sdkLtebdrKmsKeyId = None,
          sdkLtebdrSnapshotId = None, sdkLtebdrThroughput = None, sdkLtebdrVolumeSize = Some 8, sdkLtebdrVolumeType = ''gp3'',
          sdkLtebdrEbsCardIndex = Some 1, sdkLtebdrVolumeInitializationRate = None\<rparr>,
         sdkLtbdmrNoDevice = None, sdkLtbdmrVirtualName = None\<rparr>],
      sdkRltdCapacityReservationSpecification = None, sdkRltdCpuOptions = None, sdkRltdCreditSpecification = None,
      sdkRltdDisableApiStop = None, sdkRltdDisableApiTermination = None, sdkRltdEbsOptimized = None,
      sdkRltdElasticGpuSpecifications = None, sdkRltdElasticInferenceAccelerators = None, sdkRltdEnclaveOptions = None,
      sdkRltdHibernationOptions = None, sdkRltdIamInstanceProfile = None, sdkRltdImageId = None,
      sdkRltdInstanceInitiatedShutdownBehavior = [], sdkRltdInstanceMarketOptions = None, sdkRltdInstanceRequirements = None,
      sdkRltdInstanceType = type, sdkRltdKernelId = None, sdkRltdKeyName = None, sdkRltdLicenseSpecifications = None,
      sdkRltdMaintenanceOptions = None, sdkRltdMetadataOptions = None, sdkRltdMonitoring = None,
      sdkRltdNetworkInterfaces = None, sdkRltdPlacement = None, sdkRltdPrivateDnsNameOptions = None,
      sdkRltdRamDiskId = None, sdkRltdSecurityGroupIds = [''sg-1''], sdkRltdSecurityGroups = [], sdkRltdTagSpecifications = None,
      sdkRltdUserData = None, sdkRltdNetworkPerformanceOptions = None, sdkRltdSecondaryInterfaces = None\<rparr>"

definition exampleTemplate :: "('y) ack_runtime_scheme \<Rightarrow> string \<Rightarrow> launch_template" where
  "exampleTemplate R type = \<lparr>ltSpec =
     \<lparr>ltspData = Some (requestLaunchTemplateDataFromSdk R (exampleTemplateData type)), ltspDefaultVersion = Some 2,
      ltspName = Some ''web'', ltspTags = None, ltspVersionDescription = None\<rparr>,
     ltStatus = \<lparr>ACKResourceMetadata = None, Conditions = [], ltstCreateTime = None, ltstCreatedBy = None, ltstID = Some ''lt-1'',
      ltstLatestVersion = Some 1, ltstOperator = None\<rparr>\<rparr>"

definition exampleSdkTemplate :: sdk_launch_template where
  "exampleSdkTemplate = \<lparr>sdkLtCreateTime = None, sdkLtCreatedBy = None, sdkLtDefaultVersionNumber = Some 1,
     sdkLtLatestVersionNumber = Some 7, sdkLtLaunchTemplateId = Some ''lt-1'', sdkLtLaunchTemplateName = Some ''web'',
     sdkLtOperator = None, sdkLtTags = None\<rparr>"

text \<open>A service that knows the template, and neither describes nor takes a version of it.\<close>

definition exampleTemplateApi :: template_api where
  "exampleTemplateApi = \<lparr>onCreateTags = (\<lambda>_ _. None), onDeleteTags = (\<lambda>_ _. None),
     onDescribeLaunchTemplates = (\<lambda>_ _. Inr (Some [exampleSdkTemplate])),
     onDescribeLaunchTemplateVersions = (\<lambda>_ _. Inl (GoError ''throttled'')),
     onCreateLaunchTemplate = (\<lambda>_ _. Inr (Some (Some exampleSdkTemplate))),
     onCreateLaunchTemplateVersion = (\<lambda>_ _. Inl (GoError ''refused'')),
     onModifyLaunchTemplate = (\<lambda>_ _. Inr (Some (Some exampleSdkTemplate))), onDeleteLaunchTemplate = (\<lambda>_ _. None)\<rparr>"


lemma refused_version_succeeds_witness:
  "\<exists>t. Update (ltKind exampleTemplateApi exactRuntime exampleManager plainTexts) (exampleTemplate exactRuntime ''t3.large'')
      (exampleTemplate exactRuntime ''t3.micro'') [''Spec.DefaultVersion'', ''Spec.Data.InstanceType''] [] = (Ret (None, None), t)
    \<and> length (calls t) = 2"
proof -
  let ?r = "exampleTemplate exactRuntime ''t3.large''" and ?d = "[''Spec.DefaultVersion'', ''Spec.Data.InstanceType'']"
  obtain input where p: "newUpdateRequestPayload_Template exactRuntime ?r [] = (Ret (Inr input), [])"
    using exactRuntime_law
    by (auto simp: newUpdateRequestPayload_Template_def exampleTemplate_def okAct_run back_requestLaunchTemplateDataFromSdk)
  have two: "formatInt 2 = ''2''" by code_simp
  have m: "newUpdateLaunchTemplateVersionRequestPayload ?r = Inr \<lparr>mltLaunchTemplateName = Some ''web'', mltDefaultVersion = Some ''2''\<rparr>"
    by (simp add: newUpdateLaunchTemplateVersionRequestPayload_def exampleTemplate_def two)
  have d: "\<not> DifferentAt exactRuntime ?d ''Spec.Tags''" "DifferentAt exactRuntime ?d ''Spec.DefaultVersion''"
    "DifferentExceptAt exactRuntime ?d [''Spec.Tags'', ''Spec.DefaultVersion'']"
    by (simp_all add: exactRuntime_def liesAt_def)
  have a: "onCreateLaunchTemplateVersion exampleTemplateApi [] input = Inl (GoError ''refused'')"
    "\<And>u i. onModifyLaunchTemplate exampleTemplateApi u i = Inr (Some (Some exampleSdkTemplate))"
    by (simp_all add: exampleTemplateApi_def)
  show ?thesis
    using refused_version_succeeds [OF exactRuntime_law d p a(1) m a(2), of exampleManager plainTexts "exampleTemplate exactRuntime ''t3.micro''"]
    by auto
qed

lemma failed_versions_read_witness:
  "\<exists>k t. sdkFind_Template exampleTemplateApi exactRuntime exampleManager (exampleTemplate exactRuntime ''t3.large'') [] = (Ret (Some k, None), t)
    \<and> ltspData (ltSpec k) = Some (requestLaunchTemplateDataFromSdk exactRuntime (exampleTemplateData ''t3.large''))"
proof -
  have "templateIdOf (exampleTemplate exactRuntime ''t3.large'') = Some ''lt-1''"
    "\<And>u. onDescribeLaunchTemplates exampleTemplateApi u [''lt-1''] = Inr (Some (exampleSdkTemplate # []))"
    "\<And>u i. onDescribeLaunchTemplateVersions exampleTemplateApi u i = Inl (GoError ''throttled'')"
    by (simp_all add: exampleTemplate_def exampleTemplateApi_def)
  from failed_versions_read [OF this, of exactRuntime exampleManager "[]"] show ?thesis
    by (auto simp: exampleTemplate_def)
qed

end
