(* ===== verification/Spec2Isabelle.thy ===== *)
theory Spec2Isabelle
  imports Go_Prelude API_Types EC2_SDK Diffs Pages Tags TagMaps Go_Net SG_Types SG_Canonical Conditions Kinds SecurityGroup Vpc TableAssociations RouteTable NetworkACL Subnet InternetGateway References ReferenceFields Runtime DhcpOptions PrefixList VpcAttachment VpcPeering NatGateway TransitGateway ElasticIP EgressGateway FlowLog CapacityReservation VpcEndpoint EndpointService Launch_SDK Payloads Instance_Types Template_Types Instance LaunchTemplate
begin

text \<open>
  A verification development for the EC2 controller of AWS Controllers for Kubernetes. The
  controller reconciles custom resources of 20 kinds with EC2: the ACK runtime calls, for each
  kind, the resource manager under \<open>pkg/resource/<kind>\<close>, which reads the resource from EC2
  (\<open>sdkFind\<close>), compares it with the desired one (\<open>newResourceDelta\<close>) and creates, updates or
  deletes it (\<open>sdkCreate\<close>, \<open>sdkUpdate\<close>, \<open>sdkDelete\<close>, and the hand-written \<open>hooks.go\<close>). The
  runtime, the EC2 client, \<open>samber/lo\<close> and the Kubernetes client are not part of the
  repository: what the code takes from them is a parameter of the definitions, and where a
  theorem relies on their documented behaviour it says so in a named hypothesis
  (\<open>runtime_law\<close>, \<open>ackcompare_law\<close>, \<open>AWSError_law\<close> and the laws of the component), each of
  which an example instance satisfies in the witnesses.

  \<^bold>\<open>Conventions.\<close> A pointer is an \<open>option\<close> and dereferencing nil is \<open>Panic\<close>; a struct is a
  \<open>record\<close>; a slice whose nil-ness the code tests is an \<open>option\<close> of a list, and a plain list
  where nil and empty are treated alike; the elements of a slice of pointers are taken to be
  non-nil structs, except where the code itself tests them or they are strings, which stay
  \<open>option\<close>s. An integer keeps its width (\<open>32 word\<close>, \<open>64 word\<close>). An operation is an action
  (\<open>act\<close>) on the log of API calls and metrics, whose answers are functions of that log, so a
  theorem holds for every behaviour of the service, also one that changes between calls.
  An error is a value of the type \<open>error\<close>, and every early return is a branch. \<open>DeepCopy\<close> is
  the identity, since values are immutable; where the code changes a resource the caller
  still holds, the definition returns that resource as well. The order in which \<open>range\<close>
  visits a map is a parameter. Log messages are left out.

  \<^bold>\<open>Shared theories.\<close>
  \<^item> \<open>Go_Prelude\<close>: actions, errors, \<open>deref\<close>, plans of calls (\<open>follows\<close>: the calls made are a
    prefix of one fixed list, all of it when no error is returned; \<open>stops\<close>: no call after one that
    failed, whose error is returned), fuel.
  \<^item> \<open>API_Types\<close>, \<open>Launch_SDK\<close> and \<open>EC2_SDK\<close>: the shapes of \<open>apis/v1alpha1\<close> and of the EC2
    client, and the calls. \<open>Go_Net\<close>: what \<open>hooks.go\<close> of security groups uses of \<open>net\<close> and \<open>strconv\<close>.
  \<^item> \<open>Diffs\<close>: the locale \<open>two_way_diff\<close>, the contract of the functions that compute what to add
    and what to remove, interpreted on the differences of tags, blocks, routes, subnets,
    principals and endpoints. \<open>Pages\<close>: loops over pages; the fuel is the number of rounds, and
    with more fuel than the service serves pages (\<open>paged\<close>) the loop ends.
  \<^item> \<open>Tags\<close> and \<open>TagMaps\<close>: \<open>pkg/tags/sync.go\<close>, \<open>tags.go\<close> and the tag methods of \<open>manager.go\<close>.
  \<^item> \<open>Conditions\<close>: \<open>setStatusDefaults\<close>, \<open>updateConditions\<close> and the entry points \<open>ReadOne\<close>,
    \<open>Create\<close>, \<open>Update\<close>, \<open>Delete\<close> of \<open>manager.go\<close>, the same for every kind, over a record of
    the operations of a kind; the locale \<open>reporting_kind\<close> is interpreted for every kind.
  \<^item> \<open>Kinds\<close> and \<open>Runtime\<close>: the steps that generated code repeats (reading a list, creating,
    deleting, synchronising tags, comparing fields), and the functions of the ACK runtime.
  \<^item> \<open>Payloads\<close>: the conversions between the two sets of structs, with their errors; the
    collection \<open>sends\<close> of what is sent back as it was read, and \<open>fields\<close> of which field a
    comparison looks at.
  \<^item> \<open>References\<close> and \<open>ReferenceFields\<close>: \<open>references.go\<close>, the template and its instances for
    security groups, route tables, network ACLs, subnets and internet gateways.

  \<^bold>\<open>Kinds.\<close> Each theory has the data of \<open>apis/v1alpha1/<kind>.go\<close>, then \<open>sdkFind\<close> and its
  setter, the payloads, \<open>sdkCreate\<close>, \<open>sdkDelete\<close>, the update with its hooks, the comparison of
  \<open>delta.go\<close>, the kind as a record of operations, and the properties. A name that another kind
  uses too has a suffix. \<open>SG_Types\<close>, \<open>SG_Canonical\<close>, \<open>SecurityGroup\<close> (\<open>security_group\<close>);
  \<open>Vpc\<close> (\<open>vpc\<close>); \<open>RouteTable\<close> (\<open>route_table\<close>); \<open>NetworkACL\<close> (\<open>network_acl\<close>); \<open>TableAssociations\<close>,
  \<open>Subnet\<close> (\<open>subnet\<close>) and \<open>InternetGateway\<close> (\<open>internet_gateway\<close>), which share the
  associations of route tables; \<open>DhcpOptions\<close> (\<open>dhcp_options\<close>); \<open>PrefixList\<close>
  (\<open>managed_prefix_list\<close>); \<open>VpcAttachment\<close> (\<open>transit_gateway_vpc_attachment\<close>); \<open>VpcPeering\<close>
  (\<open>vpc_peering_connection\<close>); \<open>NatGateway\<close> (\<open>nat_gateway\<close>); \<open>TransitGateway\<close>
  (\<open>transit_gateway\<close>); \<open>ElasticIP\<close> (\<open>elastic_ip_address\<close>); \<open>EgressGateway\<close>
  (\<open>egress_only_internet_gateway\<close>); \<open>FlowLog\<close> (\<open>flow_log\<close>); \<open>CapacityReservation\<close>
  (\<open>capacity_reservation\<close>); \<open>VpcEndpoint\<close> (\<open>vpc_endpoint\<close>); \<open>EndpointService\<close>
  (\<open>vpc_endpoint_service_configuration\<close>); \<open>Instance_Types\<close>, \<open>Instance\<close> (\<open>instance\<close>) and
  \<open>Template_Types\<close>, \<open>LaunchTemplate\<close> (\<open>launch_template\<close>), where the theory of the types has one
  definition per nested struct and direction, and one per nested comparison: the generated code
  repeats each of them two to four times, word for word.

  \<^bold>\<open>What the lemmas show.\<close> Plans: on any answers of EC2 the update of rules, blocks, routes,
  entries and associations makes a prefix of one fixed list of calls, removals first, and
  reports success only when all were made. Convergence: applying the documented effects of the
  calls to the latest state gives the desired one (tags, rules, entries, subnets and route tables,
  principals). Equivalence: the
  canonical text of an address block is the same exactly for the same network, and rule lists
  differ exactly when they grant different things. Reports: conditions follow the error of
  the operation. References: what is resolved is ready, and clearing gives the spec back.
  Round trips: what was read of a launch template is sent back unchanged, but for the fields that
  \<open>generator.yaml\<close> ignores; an instance is asked for exactly when its numbers fit 32 bits.
  Progress: rounds of reading, comparing and updating an instance send one by one the attributes
  that differ (and have a value), and then find nothing more to send; the number of rounds,
  the fuel of \<open>reconcile\<close>, is that of these attributes and one more.
  Several theorems state where the code falls short of what it means to do: a resource that
  is lost after a failed step, a difference that no update can settle, an error that is
  dropped.

  \<^bold>\<open>Not modelled.\<close> \<open>references.go\<close> of the kinds from \<open>DhcpOptions\<close> on, which are instances of
  the same template; \<open>cmd/controller\<close>, the factories, descriptors and identifiers, which
  only hand things to the runtime; \<open>zz_generated.deepcopy.go\<close>; the string constants of
  \<open>enums.go\<close>; templates and tests.
\<close>

subsection \<open>Updates that act on tags alone\<close>

text \<open>
  C36. A NAT gateway, a transit gateway, an elastic IP address, an egress-only internet gateway
  and a flow log can only change their tags. An update for any other difference makes no call
  and reports success, with the desired spec, whatever the service would answer: the
  difference is found again at the next reconciliation.
\<close>

theorem other_differences_are_ignored:
  assumes "runtime_law R" "\<forall>q \<in> set d. \<not> liesAt ''Spec.Tags'' q"
  shows "customUpdateNATGateway api1 R n n' d s = (Ret (Some (n\<lparr>ngStatus := ngStatus n'\<rparr>), None), s)
    \<and> customUpdateTransitGateway api2 R t t' d s = (Ret (Some t, None), s)
    \<and> customUpdateElasticIP api3 R a a' d s = (Ret (Some a, None), s)
    \<and> customUpdateEgressOnlyInternetGateway api4 R e e' d s = (Ret (Some (e\<lparr>egStatus := egStatus e'\<rparr>), None), s)
    \<and> customUpdateFlowLog api5 R f f' d s = (Ret (Some f, None), s)"
  using assms
  by (simp add: nat_tags.ignores_others transit_tags.ignores_others eip_tags.ignores_others egress_tags.ignores_others
      flow_log_tags.ignores_others)

lemma other_differences_are_ignored_witness:
  "customUpdateElasticIP exampleAddressApi exactRuntime exampleEIP exampleEIP [''Spec.PublicIPv4Pool''] [] = (Ret (Some exampleEIP, None), [])"
proof -
  have "\<forall>q \<in> set [''Spec.PublicIPv4Pool'']. \<not> liesAt ''Spec.Tags'' q" by (simp add: liesAt_def)
  from other_differences_are_ignored [OF exactRuntime_law this] show ?thesis by blast
qed

end
